(* ===== verification/Prelude.thy ===== *)
theory Prelude
  imports Main "HOL-Library.AList"
begin

text \<open>
  Shared vocabulary of the development: the result type of code that may throw, the
  collections of rewrite rules the component theories draw on, and generic facts about
  association lists and string splitting.
\<close>

section \<open>Collections of facts\<close>

named_theorems res_simps \<open>evaluation of fallible computations\<close>
named_theorems obj_simps \<open>reading properties of JavaScript objects\<close>
named_theorems const_defs \<open>field names and other constants of the console\<close>

section \<open>Results of code that may throw\<close>

text \<open>
  \<open>TypeError\<close> is what the engine throws on reading a property of \<open>undefined\<close> or
  \<open>null\<close>; \<open>SyntaxError\<close> what a parser throws; \<open>Rejected\<close> is the rejection of an
  awaited request, with its message; \<open>Thrown\<close> is an explicit \<open>throw\<close> of a string.
\<close>

datatype exn = TypeError | SyntaxError | Rejected string | Thrown string

datatype 'a res = Ok 'a | Throw exn

fun and_then :: "'a res \<Rightarrow> ('a \<Rightarrow> 'b res) \<Rightarrow> 'b res" where
  "and_then (Ok x) f = f x"
| "and_then (Throw e) f = Throw e"

fun map_res :: "('a \<Rightarrow> 'b) \<Rightarrow> 'a res \<Rightarrow> 'b res" where
  "map_res f (Ok x) = Ok (f x)"
| "map_res f (Throw e) = Throw e"

fun is_ok :: "'a res \<Rightarrow> bool" where
  "is_ok (Ok x) = True"
| "is_ok (Throw e) = False"

text \<open>A callback that may throw, mapped over a list from left to right.\<close>

fun map_all :: "('a \<Rightarrow> 'b res) \<Rightarrow> 'a list \<Rightarrow> 'b list res" where
  "map_all f [] = Ok []"
| "map_all f (x # xs) = and_then (f x) (\<lambda>y. and_then (map_all f xs) (\<lambda>ys. Ok (y # ys)))"

text \<open>\<open>reduce\<close> with a callback that may throw.\<close>

fun fold_res :: "('b \<Rightarrow> 'a \<Rightarrow> 'b res) \<Rightarrow> 'b \<Rightarrow> 'a list \<Rightarrow> 'b res" where
  "fold_res f acc [] = Ok acc"
| "fold_res f acc (x # xs) = and_then (f acc x) (\<lambda>acc'. fold_res f acc' xs)"

lemma fold_res_Ok:
  "(\<And>x acc. x \<in> set xs \<Longrightarrow> f acc x = Ok (g x acc)) \<Longrightarrow> fold_res f acc xs = Ok (fold g xs acc)"
  by (induction xs arbitrary: acc) auto

lemma fold_res_Throw:
  "\<exists>x \<in> set xs. \<forall>acc. \<exists>e. f acc x = Throw e \<Longrightarrow> \<exists>e. fold_res f acc xs = Throw e"
proof (induction xs arbitrary: acc)
  case Nil
  then show ?case by simp
next
  case (Cons x xs acc)
  then show ?case by (cases "f acc x") (auto dest: spec [of _ acc])
qed

lemma fold_res_induct [consumes 1, case_names init step]:
  assumes "fold_res f acc xs = Ok r" "Q acc"
    and "\<And>x a b. x \<in> set xs \<Longrightarrow> Q a \<Longrightarrow> f a x = Ok b \<Longrightarrow> Q b"
  shows "Q r"
  using assms
proof (induction xs arbitrary: acc)
  case (Cons x xs)
  then show ?case by (cases "f acc x") auto
qed simp

lemma and_then_eq_Ok [res_simps]:
  "and_then m f = Ok y \<longleftrightarrow> (\<exists>x. m = Ok x \<and> f x = Ok y)"
  by (cases m) auto

lemma and_then_eq_Throw [res_simps]:
  "and_then m f = Throw e \<longleftrightarrow> m = Throw e \<or> (\<exists>x. m = Ok x \<and> f x = Throw e)"
  by (cases m) auto

lemma map_res_eq_Ok [res_simps]: "map_res f m = Ok y \<longleftrightarrow> (\<exists>x. m = Ok x \<and> y = f x)"
  by (cases m) auto

lemma is_ok_iff [res_simps]: "is_ok m \<longleftrightarrow> (\<exists>x. m = Ok x)"
  by (cases m) auto

lemma map_all_pure [simp]: "map_all (\<lambda>x. Ok (f x)) xs = Ok (map f xs)"
  by (induction xs) auto

lemma map_all_Ok:
  "(\<And>x. x \<in> set xs \<Longrightarrow> f x = Ok (g x)) \<Longrightarrow> map_all f xs = Ok (map g xs)"
  by (induction xs) auto

lemma map_all_eq_Ok_length: "map_all f xs = Ok ys \<Longrightarrow> length ys = length xs"
  by (induction xs arbitrary: ys) (auto simp: res_simps)

lemma map_all_eq_Ok_nth:
  "map_all f xs = Ok ys \<Longrightarrow> i < length xs \<Longrightarrow> f (xs ! i) = Ok (ys ! i)"
proof (induction xs arbitrary: ys i)
  case Nil
  then show ?case by simp
next
  case (Cons x xs)
  then show ?case by (cases i) (auto simp: res_simps)
qed

section \<open>Association lists with in-place update\<close>

text \<open>
  A JavaScript object keeps its properties in the order they were created; writing an
  existing property keeps its place. This is \<open>AList.update\<close>.
\<close>

lemma map_of_update [obj_simps]:
  "map_of (AList.update k v ps) k' = (if k = k' then Some v else map_of ps k')"
  by (simp add: update_conv')

lemma distinct_fold_update:
  "distinct (map fst ps) \<Longrightarrow>
     distinct (map fst (fold (\<lambda>(k, v). AList.update k v) qs ps))"
  by (induction qs arbitrary: ps) (auto simp: distinct_update)

lemma fold_update_distinct:
  "distinct (map fst ps @ map fst qs) \<Longrightarrow> fold (\<lambda>(k, x). AList.update k x) qs ps = ps @ qs"
proof (induction qs arbitrary: ps)
  case (Cons q qs)
  obtain k v where q: "q = (k, v)" by (cases q)
  have "AList.update k v ps = ps @ [(k, v)]"
    using Cons.prems q by (induction ps) auto
  then show ?case using Cons q by simp
qed simp

lemma map_of_fold_update:
  "map_of (fold (\<lambda>(k, v). AList.update k v) qs ps) k
     = (case map_of (rev qs) k of Some v \<Rightarrow> Some v | None \<Rightarrow> map_of ps k)"
proof (induction qs arbitrary: ps)
  case Nil
  then show ?case by simp
next
  case (Cons q qs)
  then show ?case
    by (cases q) (auto simp: map_of_update map_add_def split: option.splits)
qed

lemma map_of_rev_distinct:
  "distinct (map fst qs) \<Longrightarrow> map_of (rev qs) k = map_of qs k"
proof -
  assume d: "distinct (map fst qs)"
  then have "map_of qs = map_of (rev qs)"
    by (intro map_of_inject_set [THEN iffD2]) (auto simp: rev_map [symmetric])
  then show ?thesis by simp
qed

section \<open>Strings\<close>

text \<open>\<open>String.prototype.split\<close> on a one-character class, and \<open>Array.prototype.join\<close>.\<close>

fun split_on :: "(char \<Rightarrow> bool) \<Rightarrow> string \<Rightarrow> string list" where
  "split_on p [] = [[]]"
| "split_on p (c # cs) =
     (if p c then [] # split_on p cs
      else (case split_on p cs of [] \<Rightarrow> [[c]] | w # ws \<Rightarrow> (c # w) # ws))"

fun join_with :: "string \<Rightarrow> string list \<Rightarrow> string" where
  "join_with sep [] = []"
| "join_with sep [x] = x"
| "join_with sep (x # y # ys) = x @ sep @ join_with sep (y # ys)"

lemma split_on_not_Nil [simp]: "split_on p s \<noteq> []"
  by (induction s) (auto split: list.splits)

lemma split_on_none [simp]: "\<forall>c \<in> set s. \<not> p c \<Longrightarrow> split_on p s = [s]"
  by (induction s) auto

lemma split_on_append:
  "\<forall>c \<in> set a. \<not> p c \<Longrightarrow> p d \<Longrightarrow> split_on p (a @ d # b) = a # split_on p b"
  by (induction a) auto

lemma split_on_parts:
  "w \<in> set (split_on p s) \<Longrightarrow> c \<in> set w \<Longrightarrow> \<not> p c \<and> c \<in> set s"
proof (induction s arbitrary: w)
  case Nil
  then show ?case by simp
next
  case (Cons a s)
  then show ?case
    by (cases "split_on p s") (fastforce split: if_splits)+
qed

definition starts_with :: "string \<Rightarrow> string \<Rightarrow> bool" where
  "starts_with pre s \<longleftrightarrow> take (length pre) s = pre"

fun contains :: "string \<Rightarrow> string \<Rightarrow> bool" where
  "contains s [] = (s = [])"
| "contains s (c # cs) = (starts_with s (c # cs) \<or> contains s cs)"

lemma contains_iff: "contains s t \<longleftrightarrow> (\<exists>a b. t = a @ s @ b)"
proof (induction t)
  case Nil
  then show ?case by auto
next
  case (Cons c t)
  show ?case
  proof
    assume "contains s (c # t)"
    then consider "starts_with s (c # t)" | "contains s t" by auto
    then show "\<exists>a b. c # t = a @ s @ b"
    proof cases
      case 1
      then have "c # t = [] @ s @ drop (length s) (c # t)"
        by (metis append_Nil append_take_drop_id starts_with_def)
      then show ?thesis by blast
    next
      case 2
      with Cons.IH obtain a b where "t = a @ s @ b" by auto
      then have "c # t = (c # a) @ s @ b" by simp
      then show ?thesis by blast
    qed
  next
    assume "\<exists>a b. c # t = a @ s @ b"
    then obtain a b where ab: "c # t = a @ s @ b" by blast
    show "contains s (c # t)"
    proof (cases a)
      case Nil
      with ab have "starts_with s (c # t)" by (simp add: starts_with_def)
      then show ?thesis by simp
    next
      case (Cons x xs)
      with ab have "t = xs @ s @ b" by simp
      with Cons.IH show ?thesis by auto
    qed
  qed
qed

end
