(* ===== verification/JsValue.thy ===== *)
theory JsValue
  imports Prelude "HOL-Library.Multiset"
begin

text \<open>
  JavaScript values as the console's TypeScript code handles them: \<open>undefined\<close>,
  \<open>null\<close>, booleans, numbers, strings, arrays, objects and (opaque) functions, with the
  operators the sources use: property access with and without optional chaining, the
  truthiness test, \<open>||\<close>, \<open>??\<close>, object literals with spread, \<open>Object.entries\<close>,
  template literals, \<open>Number\<close>, \<open>JSON.stringify\<close> and React's element constructor.

  Numbers are integers (ids, counts, ports, sizes), \<open>NaN\<close>, or \<open>Frac s\<close>: the number a
  numeric literal \<open>s\<close> that is not a plain integer denotes, kept as its text. Strings are
  lists of code units below 256.
\<close>

datatype js =
    Undef
  | Null
  | Bool bool
  | Num int
  | Frac string
  | NaN
  | Str string
  | Arr "js list"
  | Obj "(string \<times> js) list"
  | Fn string "js list"

section \<open>Conversions\<close>

fun nullish :: "js \<Rightarrow> bool" where
  "nullish Undef = True"
| "nullish Null = True"
| "nullish _ = False"

fun truthy :: "js \<Rightarrow> bool" where
  "truthy Undef = False"
| "truthy Null = False"
| "truthy (Bool b) = b"
| "truthy (Num n) = (n \<noteq> 0)"
| "truthy NaN = False"
| "truthy (Str s) = (s \<noteq> [])"
| "truthy _ = True"

text \<open>\<open>a || b\<close>, \<open>a ?? b\<close>, \<open>c ? a : b\<close> and \<open>!!a\<close>.\<close>

definition js_or :: "js \<Rightarrow> js \<Rightarrow> js" where
  "js_or a b = (if truthy a then a else b)"

definition coalesce :: "js \<Rightarrow> js \<Rightarrow> js" where
  "coalesce a b = (if nullish a then b else a)"

definition to_bool :: "js \<Rightarrow> js" where
  "to_bool a = Bool (truthy a)"

definition digit_char :: "nat \<Rightarrow> char" where
  "digit_char d = ''0123456789'' ! d"

fun nat_str :: "nat \<Rightarrow> string" where
  "nat_str n = (if n < 10 then [digit_char n] else nat_str (n div 10) @ [digit_char (n mod 10)])"

declare nat_str.simps [simp del]

definition int_str :: "int \<Rightarrow> string" where
  "int_str i = (if i < 0 then ''-'' @ nat_str (nat (- i)) else nat_str (nat i))"

text \<open>\<open>String(v)\<close>, also what a template literal does with \<open>${v}\<close>.\<close>

fun js_str :: "js \<Rightarrow> string" where
  "js_str Undef = ''undefined''"
| "js_str Null = ''null''"
| "js_str (Bool b) = (if b then ''true'' else ''false'')"
| "js_str (Num n) = int_str n"
| "js_str (Frac s) = s"
| "js_str NaN = ''NaN''"
| "js_str (Str s) = s"
| "js_str (Arr xs) = join_with '','' (map (\<lambda>x. if nullish x then [] else js_str x) xs)"
| "js_str (Obj ps) = ''[object Object]''"
| "js_str (Fn f xs) = ''function''"

definition is_digit :: "char \<Rightarrow> bool" where
  "is_digit c \<longleftrightarrow> c \<in> set ''0123456789''"

definition digit_val :: "char \<Rightarrow> nat" where
  "digit_val c = length (takeWhile (\<lambda>d. d \<noteq> c) ''0123456789'')"

definition parse_nat :: "string \<Rightarrow> nat" where
  "parse_nat s = fold (\<lambda>c n. 10 * n + digit_val c) s 0"

definition all_digits :: "string \<Rightarrow> bool" where
  "all_digits s \<longleftrightarrow> s \<noteq> [] \<and> list_all is_digit s"

text \<open>
  Property names that are array indices: the canonical decimal text of a number below
  \<open>2 ^ 32 - 1\<close>. An object lists them first and in ascending order.
\<close>

definition is_index :: "string \<Rightarrow> bool" where
  "is_index k \<longleftrightarrow> all_digits k \<and> (k = ''0'' \<or> hd k \<noteq> CHR ''0'') \<and> parse_nat k < 4294967295"

definition own_order :: "(string \<times> 'a) list \<Rightarrow> (string \<times> 'a) list" where
  "own_order ps = sort_key (\<lambda>p. parse_nat (fst p)) (filter (\<lambda>p. is_index (fst p)) ps)
                    @ filter (\<lambda>p. \<not> is_index (fst p)) ps"

lemma set_own_order [simp]: "set (own_order ps) = set ps"
  by (auto simp: own_order_def)

lemma own_order_no_index: "\<forall>p \<in> set ps. \<not> is_index (fst p) \<Longrightarrow> own_order ps = ps"
  by (simp add: own_order_def filter_empty_conv)

lemma mset_own_order: "mset (own_order ps) = mset ps"
  by (simp add: own_order_def)

lemma distinct_own_order:
  "distinct (map fst ps) \<Longrightarrow> distinct (map fst (own_order ps))"
  by (metis mset_eq_imp_distinct_iff mset_map mset_own_order)

section \<open>Properties\<close>

text \<open>The own enumerable properties of a value, as \<open>{...v}\<close> copies them.\<close>

fun own_props :: "js \<Rightarrow> (string \<times> js) list" where
  "own_props (Obj ps) = ps"
| "own_props (Arr xs) = zip (map nat_str [0..<length xs]) xs"
| "own_props (Str s) = zip (map nat_str [0..<length s]) (map (\<lambda>c. Str [c]) s)"
| "own_props _ = []"

text \<open>\<open>v[k]\<close> for a value that is not nullish; \<open>v?.[k]\<close> for any value.\<close>

fun get :: "js \<Rightarrow> string \<Rightarrow> js" where
  "get (Obj ps) k = (case map_of ps k of Some v \<Rightarrow> v | None \<Rightarrow> Undef)"
| "get (Arr xs) k =
     (if k = ''length'' then Num (int (length xs))
      else case map_of (own_props (Arr xs)) k of Some v \<Rightarrow> v | None \<Rightarrow> Undef)"
| "get (Str s) k =
     (if k = ''length'' then Num (int (length s))
      else case map_of (own_props (Str s)) k of Some v \<Rightarrow> v | None \<Rightarrow> Undef)"
| "get _ k = Undef"

text \<open>\<open>v[k]\<close> with the \<open>TypeError\<close> of reading a property of \<open>undefined\<close> or \<open>null\<close>.\<close>

definition member :: "js \<Rightarrow> string \<Rightarrow> js res" where
  "member v k = (if nullish v then Throw TypeError else Ok (get v k))"

text \<open>\<open>v?.a?.b\<close>, for the statements about nested values.\<close>

fun path :: "js \<Rightarrow> string list \<Rightarrow> js" where
  "path v [] = v"
| "path v (k # ks) = path (get v k) ks"

text \<open>\<open>v?.[i]\<close> on an array.\<close>

fun at :: "js \<Rightarrow> nat \<Rightarrow> js" where
  "at (Arr xs) i = (if i < length xs then xs ! i else Undef)"
| "at _ i = Undef"

fun elems :: "js \<Rightarrow> js list" where
  "elems (Arr xs) = xs"
| "elems _ = []"

text \<open>\<open>v.length\<close> as a truth value: \<open>v?.length\<close> is truthy.\<close>

definition has_length :: "js \<Rightarrow> bool" where
  "has_length v \<longleftrightarrow> truthy (get v ''length'')"

lemma get_nullish [simp]: "nullish v \<Longrightarrow> get v k = Undef"
  by (cases v) auto

lemma truthy_not_nullish: "truthy v \<Longrightarrow> \<not> nullish v"
  by (cases v) auto

lemma member_Ok [res_simps]: "member v k = Ok x \<longleftrightarrow> \<not> nullish v \<and> x = get v k"
  by (auto simp: member_def)

lemma member_Throw [res_simps]: "member v k = Throw e \<longleftrightarrow> nullish v \<and> e = TypeError"
  by (auto simp: member_def)

lemma has_length_simps [simp]:
  "has_length Undef = False" "has_length Null = False" "has_length (Bool b) = False"
  "has_length (Num n) = False"
  "has_length (Str s) = (s \<noteq> [])" "has_length (Arr xs) = (xs \<noteq> [])"
  by (auto simp: has_length_def)

lemma nat_str_0 [simp]: "nat_str 0 = ''0''"
  by (subst nat_str.simps) (simp add: digit_char_def)

lemma get_arr_0 [simp]: "get (Arr (x # xs)) ''0'' = x"
  by (simp add: upt_conv_Cons del: upt_Suc)

lemma get_length [simp]:
  "get (Arr xs) ''length'' = Num (int (length xs))" "get (Str s) ''length'' = Num (int (length s))"
  by simp_all

declare get.simps(2,3) [simp del]

section \<open>Object literals\<close>

text \<open>
  A literal is a list of parts in source order: \<open>k: v\<close> or \<open>...v\<close>. A later part
  overwrites the value of an earlier one and keeps its place.
\<close>

datatype part = P string js | Spread js

fun add_part :: "part \<Rightarrow> (string \<times> js) list \<Rightarrow> (string \<times> js) list" where
  "add_part (P k v) ps = AList.update k v ps"
| "add_part (Spread v) ps = fold (\<lambda>(k, x). AList.update k x) (own_props v) ps"

definition obj :: "part list \<Rightarrow> js" where
  "obj parts = Obj (fold add_part parts [])"

text \<open>\<open>...(c ? {...} : {})\<close>\<close>

definition Spread_if :: "bool \<Rightarrow> part list \<Rightarrow> part" where
  "Spread_if c parts = Spread (if c then obj parts else obj [])"

definition wf_obj :: "js \<Rightarrow> bool" where
  "wf_obj v \<longleftrightarrow> distinct (map fst (own_props v))"

definition keys_of :: "js \<Rightarrow> string set" where
  "keys_of v = fst ` set (own_props v)"

lemma distinct_add_parts:
  "distinct (map fst ps) \<Longrightarrow> distinct (map fst (fold add_part parts ps))"
proof (induction parts arbitrary: ps)
  case Nil
  then show ?case by simp
next
  case (Cons p parts)
  have "distinct (map fst (add_part p ps))"
    using Cons.prems by (cases p) (auto simp: distinct_update distinct_fold_update)
  then show ?case by (simp add: Cons.IH)
qed

lemma wf_obj_obj [simp]: "wf_obj (obj parts)"
  by (simp add: wf_obj_def obj_def distinct_add_parts)

text \<open>
  Reading a literal: the parts are looked at from the last one. \<open>lookup_parts\<close> is the
  reference reading of a literal, and the component proofs only use \<open>get_obj\<close>.
\<close>

fun lookup_part :: "part \<Rightarrow> string \<Rightarrow> js option" where
  "lookup_part (P k v) k' = (if k = k' then Some v else None)"
| "lookup_part (Spread v) k' = map_of (rev (own_props v)) k'"

fun lookup_parts :: "part list \<Rightarrow> string \<Rightarrow> js option" where
  "lookup_parts [] k = None"
| "lookup_parts (p # ps) k =
     (case lookup_parts ps k of Some v \<Rightarrow> Some v | None \<Rightarrow> lookup_part p k)"

lemma map_of_add_part:
  "map_of (add_part p ps) k = (case lookup_part p k of Some v \<Rightarrow> Some v | None \<Rightarrow> map_of ps k)"
  by (cases p) (auto simp: map_of_update map_of_fold_update)

lemma map_of_fold_parts:
  "map_of (fold add_part parts ps) k
     = (case lookup_parts parts k of Some v \<Rightarrow> Some v | None \<Rightarrow> map_of ps k)"
  by (induction parts arbitrary: ps) (auto simp: map_of_add_part split: option.splits)

lemma map_of_own_props_obj [obj_simps]: "map_of (own_props (obj parts)) = lookup_parts parts"
  by (rule ext) (simp add: obj_def map_of_fold_parts split: option.splits)

lemma get_obj [obj_simps]:
  "get (obj parts) k = (case lookup_parts parts k of Some v \<Rightarrow> v | None \<Rightarrow> Undef)"
  using map_of_own_props_obj [of parts] by (simp add: obj_def)

lemma lookup_spread_wf: "wf_obj v \<Longrightarrow> lookup_part (Spread v) k = map_of (own_props v) k"
  by (simp add: wf_obj_def map_of_rev_distinct)

lemma lookup_spread_obj [obj_simps, simp]:
  "lookup_part (Spread (obj parts)) k = lookup_parts parts k"
  using lookup_spread_wf [OF wf_obj_obj] by (simp add: map_of_own_props_obj)

lemma lookup_Spread_if [obj_simps, simp]:
  "lookup_part (Spread_if c parts) k = (if c then lookup_parts parts k else None)"
  unfolding Spread_if_def
  by (cases c) (simp_all only: lookup_spread_obj lookup_parts.simps if_True if_False)

declare lookup_part.simps(2) [simp del]

lemma nullish_obj [simp]: "\<not> nullish (obj parts)"
  by (simp add: obj_def)

lemma truthy_obj [simp]: "truthy (obj parts)"
  by (simp add: obj_def)

lemma keys_of_obj: "k \<in> keys_of (obj parts) \<longleftrightarrow> lookup_parts parts k \<noteq> None"
  by (metis domIff dom_map_of_conv_image_fst keys_of_def map_of_own_props_obj)

text \<open>\<open>Object.entries\<close>, \<open>Object.keys\<close>, \<open>Object.fromEntries\<close>, \<open>delete o[k]\<close>.\<close>

definition entries :: "js \<Rightarrow> (string \<times> js) list" where
  "entries v = own_order (own_props v)"

definition from_entries :: "(string \<times> js) list \<Rightarrow> js" where
  "from_entries es = obj (map (\<lambda>(k, v). P k v) es)"

fun delete_key :: "string \<Rightarrow> js \<Rightarrow> js" where
  "delete_key k (Obj ps) = Obj (AList.delete k ps)"
| "delete_key k v = v"

definition is_empty :: "js \<Rightarrow> bool" where
  "is_empty v \<longleftrightarrow> own_props v = []"

lemma lookup_parts_from_entries:
  "lookup_parts (map (\<lambda>(k, v). P k v) es) k = map_of (rev es) k"
  by (induction es) (auto split: option.splits simp: map_add_def)

lemma map_of_own_order:
  "distinct (map fst ps) \<Longrightarrow> map_of (own_order ps) = map_of ps"
  by (intro map_of_inject_set [THEN iffD2]) (auto simp: distinct_own_order)

lemma get_delete: "get (delete_key k v) k' = (if is_empty v then get v k' else
    case v of Obj ps \<Rightarrow> (if k = k' then Undef else get v k') | _ \<Rightarrow> get v k')"
  by (cases v) (auto simp: is_empty_def delete_conv')

end
