(* ===== verification/Regex.thy ===== *)
theory Regex
  imports Prelude
begin

text \<open>
  Regular expressions as the sources write them in literals, for whole-string tests
  (\<open>/^...$/\<close>): a character class, sequence, alternative and repetition, with the
  language each denotes and an executable matcher by derivatives. \<open>matches_iff\<close> ties
  the matcher to the language.
\<close>

datatype rx =
    Eps
  | Empty
  | Class "char \<Rightarrow> bool"
  | Seq rx rx
  | Alt rx rx
  | Star rx

fun lang :: "rx \<Rightarrow> string set" where
  "lang Eps = {[]}"
| "lang Empty = {}"
| "lang (Class p) = {[c] | c. p c}"
| "lang (Seq r s) = {a @ b | a b. a \<in> lang r \<and> b \<in> lang s}"
| "lang (Alt r s) = lang r \<union> lang s"
| "lang (Star r) = {concat ws | ws. \<forall>w \<in> set ws. w \<in> lang r}"

fun accepts_empty :: "rx \<Rightarrow> bool" where
  "accepts_empty Eps = True"
| "accepts_empty Empty = False"
| "accepts_empty (Class p) = False"
| "accepts_empty (Seq r s) = (accepts_empty r \<and> accepts_empty s)"
| "accepts_empty (Alt r s) = (accepts_empty r \<or> accepts_empty s)"
| "accepts_empty (Star r) = True"

fun deriv_rx :: "char \<Rightarrow> rx \<Rightarrow> rx" where
  "deriv_rx c Eps = Empty"
| "deriv_rx c Empty = Empty"
| "deriv_rx c (Class p) = (if p c then Eps else Empty)"
| "deriv_rx c (Seq r s) =
     (if accepts_empty r then Alt (Seq (deriv_rx c r) s) (deriv_rx c s)
      else Seq (deriv_rx c r) s)"
| "deriv_rx c (Alt r s) = Alt (deriv_rx c r) (deriv_rx c s)"
| "deriv_rx c (Star r) = Seq (deriv_rx c r) (Star r)"

fun matches :: "rx \<Rightarrow> string \<Rightarrow> bool" where
  "matches r [] = accepts_empty r"
| "matches r (c # cs) = matches (deriv_rx c r) cs"

definition Plus :: "rx \<Rightarrow> rx" where
  "Plus r = Seq r (Star r)"

definition Opt :: "rx \<Rightarrow> rx" where
  "Opt r = Alt Eps r"

text \<open>\<open>r{0,n}\<close>\<close>

fun Upto :: "nat \<Rightarrow> rx \<Rightarrow> rx" where
  "Upto 0 r = Eps"
| "Upto (Suc n) r = Opt (Seq r (Upto n r))"

section \<open>The matcher decides the language\<close>

lemma accepts_empty_iff: "accepts_empty r \<longleftrightarrow> [] \<in> lang r"
proof (induction r)
  case (Star r)
  have "[] = concat [] \<and> (\<forall>w \<in> set []. w \<in> lang r)" by simp
  then show ?case unfolding lang.simps accepts_empty.simps by blast
qed auto

lemma lang_Star_iff: "s \<in> lang (Star r) \<longleftrightarrow> (\<exists>ws. s = concat ws \<and> (\<forall>w \<in> set ws. w \<in> lang r))"
  by simp

lemma lang_Seq_iff: "s \<in> lang (Seq r t) \<longleftrightarrow> (\<exists>a b. s = a @ b \<and> a \<in> lang r \<and> b \<in> lang t)"
  by simp

declare lang.simps(4,6) [simp del]

lemma concat_first:
  "c # w = concat ws \<Longrightarrow> \<forall>x \<in> set ws. x \<in> L \<Longrightarrow>
     \<exists>a ws'. w = a @ concat ws' \<and> c # a \<in> L \<and> (\<forall>x \<in> set ws'. x \<in> L)"
proof (induction ws)
  case Nil
  then show ?case by simp
next
  case (Cons x ws)
  show ?case
  proof (cases x)
    case Nil
    with Cons show ?thesis by simp
  next
    case (Cons d a)
    with \<open>c # w = concat (x # ws)\<close> have "w = a @ concat ws" "x = c # a" by auto
    with \<open>\<forall>y \<in> set (x # ws). y \<in> L\<close> show ?thesis by (intro exI [of _ a] exI [of _ ws]) simp
  qed
qed

lemma Star_nonempty:
  "c # w \<in> lang (Star r) \<longleftrightarrow> (\<exists>a b. w = a @ b \<and> c # a \<in> lang r \<and> b \<in> lang (Star r))"
proof
  assume "c # w \<in> lang (Star r)"
  then obtain ws where ws: "c # w = concat ws" "\<forall>x \<in> set ws. x \<in> lang r"
    by (auto simp: lang_Star_iff)
  from concat_first [OF ws] obtain a ws' where
    "w = a @ concat ws'" "c # a \<in> lang r" "\<forall>x \<in> set ws'. x \<in> lang r" by blast
  then show "\<exists>a b. w = a @ b \<and> c # a \<in> lang r \<and> b \<in> lang (Star r)"
    unfolding lang_Star_iff by blast
next
  assume "\<exists>a b. w = a @ b \<and> c # a \<in> lang r \<and> b \<in> lang (Star r)"
  then obtain a ws where "w = a @ concat ws" "c # a \<in> lang r" "\<forall>x \<in> set ws. x \<in> lang r"
    by (auto simp: lang_Star_iff)
  then have "c # w = concat ((c # a) # ws)" "\<forall>x \<in> set ((c # a) # ws). x \<in> lang r" by auto
  then show "c # w \<in> lang (Star r)" unfolding lang_Star_iff by blast
qed

lemma Nil_Star [simp]: "[] \<in> lang (Star r)"
  unfolding lang_Star_iff by (rule exI [of _ "[]"]) simp

lemma lang_Class_Seq [simp]:
  "s \<in> lang (Seq (Class p) r) \<longleftrightarrow> (\<exists>c cs. s = c # cs \<and> p c \<and> cs \<in> lang r)"
  by (auto simp: lang_Seq_iff) (metis append_Cons append_Nil)

lemma lang_deriv: "w \<in> lang (deriv_rx c r) \<longleftrightarrow> c # w \<in> lang r"
proof (induction r arbitrary: w)
  case (Seq r s)
  have split: "c # w \<in> lang (Seq r s) \<longleftrightarrow>
      ([] \<in> lang r \<and> c # w \<in> lang s) \<or> (\<exists>a b. w = a @ b \<and> c # a \<in> lang r \<and> b \<in> lang s)"
    by (auto simp: lang_Seq_iff Cons_eq_append_conv)
  show ?case
    unfolding split deriv_rx.simps
    by (auto simp: Seq.IH accepts_empty_iff lang_Seq_iff)
next
  case (Star r)
  show ?case unfolding Star_nonempty deriv_rx.simps by (auto simp: Star.IH lang_Seq_iff)
qed auto

theorem matches_iff: "matches r s \<longleftrightarrow> s \<in> lang r"
  by (induction s arbitrary: r) (auto simp: accepts_empty_iff lang_deriv)

section \<open>Repetition of a class, and separated lists\<close>

lemma lang_Star_Class: "s \<in> lang (Star (Class p)) \<longleftrightarrow> (\<forall>c \<in> set s. p c)"
proof (induction s)
  case Nil
  show ?case by simp
next
  case (Cons c s)
  then show ?case unfolding Star_nonempty by auto
qed

lemma lang_Plus_Class: "s \<in> lang (Plus (Class p)) \<longleftrightarrow> s \<noteq> [] \<and> (\<forall>c \<in> set s. p c)"
  by (cases s) (simp_all add: Plus_def lang_Star_Class)

lemma lang_Upto_Class: "s \<in> lang (Upto n (Class p)) \<longleftrightarrow> length s \<le> n \<and> (\<forall>c \<in> set s. p c)"
proof (induction n arbitrary: s)
  case 0
  then show ?case by auto
next
  case (Suc n)
  then show ?case by (cases s) (auto simp add: Opt_def)
qed

text \<open>
  \<open>r(dr)*\<close> with a one-character separator \<open>d\<close> that no word of \<open>r\<close> contains: the
  string splits at the separators into words of \<open>r\<close>.
\<close>

definition Sep_list :: "(char \<Rightarrow> bool) \<Rightarrow> rx \<Rightarrow> rx" where
  "Sep_list d r = Seq r (Star (Seq (Class d) r))"

lemma Sep_list_step:
  "a @ rest \<in> lang (Sep_list d r)"
  if "a \<in> lang r" and "rest = [] \<or> (\<exists>c b. rest = c # b \<and> d c \<and> b \<in> lang (Sep_list d r))"
proof -
  have "rest \<in> lang (Star (Seq (Class d) r))"
    using that(2)
  proof
    assume "rest = []"
    then show ?thesis by simp
  next
    assume "\<exists>c b. rest = c # b \<and> d c \<and> b \<in> lang (Sep_list d r)"
    then obtain c x y where "rest = c # x @ y" "d c" "x \<in> lang r" "y \<in> lang (Star (Seq (Class d) r))"
      by (auto simp: Sep_list_def lang_Seq_iff [of _ r])
    then show ?thesis by (auto simp: Star_nonempty)
  qed
  with that(1) show ?thesis unfolding Sep_list_def lang_Seq_iff by blast
qed

lemma clean_split:
  assumes clean: "\<And>w c. w \<in> L \<Longrightarrow> c \<in> set w \<Longrightarrow> \<not> d c"
  shows "\<forall>x \<in> set ws. \<exists>c b. x = c # b \<and> d c \<and> b \<in> L \<Longrightarrow> a \<in> L \<Longrightarrow>
     \<forall>w \<in> set (split_on d (a @ concat ws)). w \<in> L"
proof (induction ws arbitrary: a)
  case Nil
  then have "split_on d a = [a]" using clean by (intro split_on_none) blast
  with Nil show ?case by simp
next
  case (Cons w ws)
  from Cons.prems(1) have tl: "\<forall>x \<in> set ws. \<exists>c b. x = c # b \<and> d c \<and> b \<in> L"
    and hd: "\<exists>c b. w = c # b \<and> d c \<and> b \<in> L" by simp_all
  from hd obtain c b where w: "w = c # b" "d c" "b \<in> L" by blast
  from tl have b: "\<forall>x \<in> set (split_on d (b @ concat ws)). x \<in> L" using w(3) by (rule Cons.IH)
  have "\<forall>c \<in> set a. \<not> d c" using clean Cons.prems(2) by blast
  then have "split_on d (a @ c # (b @ concat ws)) = a # split_on d (b @ concat ws)"
    using w(2) by (rule split_on_append)
  then have eq: "split_on d (a @ concat (w # ws)) = a # split_on d (b @ concat ws)"
    by (simp only: w(1) concat.simps append_Cons)
  show ?case unfolding eq using b Cons.prems(2) by (simp only: list.set ball_simps)
qed

lemma lang_Sep_list:
  assumes clean: "\<And>w c. w \<in> lang r \<Longrightarrow> c \<in> set w \<Longrightarrow> \<not> d c"
  shows "s \<in> lang (Sep_list d r) \<longleftrightarrow> (\<forall>w \<in> set (split_on d s). w \<in> lang r)"
proof
  assume "s \<in> lang (Sep_list d r)"
  then obtain a ws where s: "s = a @ concat ws" "a \<in> lang r"
      and ws: "\<forall>w \<in> set ws. w \<in> lang (Seq (Class d) r)"
    unfolding Sep_list_def lang_Seq_iff [of _ r] lang_Star_iff by blast
  from ws have "\<forall>x \<in> set ws. \<exists>c b. x = c # b \<and> d c \<and> b \<in> lang r" by simp
  then have "\<forall>w \<in> set (split_on d (a @ concat ws)). w \<in> lang r"
    using s(2) by (intro clean_split [OF clean]) auto
  with s(1) show "\<forall>w \<in> set (split_on d s). w \<in> lang r" by simp
next
  assume "\<forall>w \<in> set (split_on d s). w \<in> lang r"
  then show "s \<in> lang (Sep_list d r)"
  proof (induction "length s" arbitrary: s rule: less_induct)
    case less
    let ?a = "takeWhile (\<lambda>c. \<not> d c) s" and ?rest = "dropWhile (\<lambda>c. \<not> d c) s"
    have s: "s = ?a @ ?rest" by simp
    have na: "\<forall>c \<in> set ?a. \<not> d c" by (auto dest: set_takeWhileD)
    show ?case
    proof (cases "?rest")
      case Nil
      then have "\<forall>c \<in> set s. \<not> d c" by (simp add: dropWhile_eq_Nil_conv)
      then have "s \<in> lang r" using less.prems by simp
      from Sep_list_step [OF this, of "[]" d] show ?thesis by simp
    next
      case (Cons c b)
      then have dc: "d c" by (metis hd_dropWhile list.discI list.sel(1))
      have sp: "split_on d s = ?a # split_on d b"
        using split_on_append [of ?a d c b] na dc s Cons by metis
      have "length s = length (?a @ c # b)" using s Cons by metis
      then have "length b < length s" by simp
      moreover have "\<forall>w \<in> set (split_on d b). w \<in> lang r" using less.prems sp by simp
      ultimately have "b \<in> lang (Sep_list d r)" by (rule less.hyps)
      moreover have "?a \<in> lang r" using less.prems sp by simp
      ultimately have "?a @ ?rest \<in> lang (Sep_list d r)"
        using Sep_list_step [of ?a r ?rest d] dc Cons by blast
      then show ?thesis by simp
    qed
  qed
qed

end
