(* ===== verification/JsText.thy ===== *)
theory JsText
  imports JsValue Regex
begin

text \<open>
  The text functions of the language and the platform that the console's payloads go
  through: \<open>trim\<close>, \<open>Number\<close>, \<open>JSON.stringify\<close>, and the base64 codec \<open>btoa\<close> / \<open>atob\<close>
  with its round trip. React elements are the objects \<open>createElement\<close> returns.
\<close>

section \<open>trim and Number\<close>

definition is_ws :: "char \<Rightarrow> bool" where
  "is_ws c \<longleftrightarrow> c \<in> set [CHR '' '', CHR 0x09, CHR 0x0A, CHR 0x0B, CHR 0x0C, CHR 0x0D, CHR 0xA0]"

definition trim :: "string \<Rightarrow> string" where
  "trim s = rev (dropWhile is_ws (rev (dropWhile is_ws s)))"

definition rx_lit :: "char \<Rightarrow> rx" where
  "rx_lit c = Class (\<lambda>x. x = c)"

definition rx_digits :: rx where
  "rx_digits = Plus (Class is_digit)"

definition rx_sign :: rx where
  "rx_sign = Opt (Class (\<lambda>c. c = CHR ''+'' \<or> c = CHR ''-''))"

definition int_literal :: rx where
  "int_literal = Seq rx_sign rx_digits"

definition exponent_part :: rx where
  "exponent_part = Opt (Seq (Class (\<lambda>c. c = CHR ''e'' \<or> c = CHR ''E'')) int_literal)"

definition is_hex :: "char \<Rightarrow> bool" where
  "is_hex c \<longleftrightarrow> c \<in> set ''0123456789abcdefABCDEF''"

text \<open>The grammar \<open>StringNumericLiteral\<close> of the language, after trimming.\<close>

definition numeric_literal :: rx where
  "numeric_literal =
     Alt (Seq rx_sign
           (Alt (fold (\<lambda>c r. Seq r (rx_lit c)) ''Infinity'' Eps)
             (Seq (Alt (Seq rx_digits (Opt (Seq (rx_lit CHR ''.'') (Opt rx_digits))))
                       (Seq (rx_lit CHR ''.'') rx_digits))
                  exponent_part)))
         (Seq (rx_lit CHR ''0'')
           (Alt (Seq (Class (\<lambda>c. c = CHR ''x'' \<or> c = CHR ''X'')) (Plus (Class is_hex)))
             (Alt (Seq (Class (\<lambda>c. c = CHR ''o'' \<or> c = CHR ''O'')) (Plus (Class (\<lambda>c. c \<in> set ''01234567''))))
                  (Seq (Class (\<lambda>c. c = CHR ''b'' \<or> c = CHR ''B'')) (Plus (Class (\<lambda>c. c \<in> set ''01'')))))))"

definition parse_int :: "string \<Rightarrow> int" where
  "parse_int s = (case s of
       [] \<Rightarrow> 0
     | c # cs \<Rightarrow> if c = CHR ''-'' then - int (parse_nat cs)
                else if c = CHR ''+'' then int (parse_nat cs) else int (parse_nat s))"

text \<open>Whether a literal with a fraction, an exponent or a radix prefix denotes zero.\<close>

definition zero_literal :: "string \<Rightarrow> bool" where
  "zero_literal s =
     (if length s > 1 \<and> s ! 0 = CHR ''0'' \<and> s ! 1 \<in> set ''xXoObB'' then list_all (\<lambda>c. c = CHR ''0'') (drop 2 s)
      else let ds = filter is_digit (takeWhile (\<lambda>c. c \<noteq> CHR ''e'' \<and> c \<noteq> CHR ''E'') s)
           in ds \<noteq> [] \<and> list_all (\<lambda>c. c = CHR ''0'') ds)"

definition str_number :: "string \<Rightarrow> js" where
  "str_number s =
     (let u = trim s in
      if u = [] then Num 0
      else if matches int_literal u then Num (parse_int u)
      else if matches numeric_literal u then (if zero_literal u then Num 0 else Frac u)
      else NaN)"

fun js_number :: "js \<Rightarrow> js" where
  "js_number Undef = NaN"
| "js_number Null = Num 0"
| "js_number (Bool b) = Num (if b then 1 else 0)"
| "js_number (Num n) = Num n"
| "js_number (Frac s) = Frac s"
| "js_number NaN = NaN"
| "js_number (Str s) = str_number s"
| "js_number (Arr xs) = str_number (js_str (Arr xs))"
| "js_number _ = NaN"

lemma js_number_idem: "js_number (js_number v) = js_number v"
  by (cases v) (simp_all add: str_number_def Let_def)

lemma digit_val_char: "d < 10 \<Longrightarrow> digit_val (digit_char d) = d \<and> is_digit (digit_char d)"
proof -
  have "\<forall>d \<in> set [0..<10]. digit_val (digit_char d) = d \<and> is_digit (digit_char d)" by code_simp
  then show "d < 10 \<Longrightarrow> digit_val (digit_char d) = d \<and> is_digit (digit_char d)" by simp
qed

lemma nat_str_digits: "(\<forall>c \<in> set (nat_str n). is_digit c) \<and> parse_nat (nat_str n) = n"
proof (induction n rule: nat_str.induct)
  case (1 n)
  show ?case
  proof (cases "n < 10")
    case True
    then have "nat_str n = [digit_char n]" by (subst nat_str.simps) simp
    then show ?thesis using digit_val_char [OF True] by (simp add: parse_nat_def)
  next
    case False
    then have "nat_str n = nat_str (n div 10) @ [digit_char (n mod 10)]" by (subst nat_str.simps) simp
    then show ?thesis using 1 False digit_val_char [of "n mod 10"] by (auto simp: parse_nat_def)
  qed
qed

section \<open>JSON.stringify\<close>

definition hex_digit :: "nat \<Rightarrow> char" where
  "hex_digit d = ''0123456789abcdef'' ! d"

definition json_char :: "char \<Rightarrow> string" where
  "json_char c =
     (if c = CHR 0x22 then [CHR 0x5C, CHR 0x22]
      else if c = CHR 0x5C then [CHR 0x5C, CHR 0x5C]
      else if c = CHR 0x08 then [CHR 0x5C, CHR ''b'']
      else if c = CHR 0x09 then [CHR 0x5C, CHR ''t'']
      else if c = CHR 0x0A then [CHR 0x5C, CHR ''n'']
      else if c = CHR 0x0C then [CHR 0x5C, CHR ''f'']
      else if c = CHR 0x0D then [CHR 0x5C, CHR ''r'']
      else if of_char c < (32 :: nat)
        then [CHR 0x5C, CHR ''u'', CHR ''0'', CHR ''0'', hex_digit (of_char c div 16), hex_digit (of_char c mod 16)]
      else [c])"

definition json_string :: "string \<Rightarrow> string" where
  "json_string s = [CHR 0x22] @ concat (map json_char s) @ [CHR 0x22]"

text \<open>\<open>None\<close> is \<open>undefined\<close>: the value of a function or \<open>undefined\<close> is left out of an
  object and is \<open>null\<close> in an array.\<close>

fun stringify :: "js \<Rightarrow> string option"
  and stringify_elems :: "js list \<Rightarrow> string list"
  and stringify_props :: "(string \<times> js) list \<Rightarrow> (string \<times> string) list" where
  "stringify Undef = None"
| "stringify Null = Some ''null''"
| "stringify (Bool b) = Some (if b then ''true'' else ''false'')"
| "stringify (Num n) = Some (int_str n)"
| "stringify (Frac s) = Some s"
| "stringify NaN = Some ''null''"
| "stringify (Str s) = Some (json_string s)"
| "stringify (Arr xs) = Some (''['' @ join_with '','' (stringify_elems xs) @ '']'')"
| "stringify (Obj ps) =
     Some (''{'' @ join_with '','' (map (\<lambda>(k, s). json_string k @ '':'' @ s)
                                      (own_order (stringify_props ps))) @ ''}'')"
| "stringify (Fn f xs) = None"
| "stringify_elems [] = []"
| "stringify_elems (x # xs) =
     (case stringify x of Some s \<Rightarrow> s | None \<Rightarrow> ''null'') # stringify_elems xs"
| "stringify_props [] = []"
| "stringify_props ((k, v) # ps) =
     (case stringify v of Some s \<Rightarrow> (k, s) # stringify_props ps | None \<Rightarrow> stringify_props ps)"

section \<open>Base64\<close>

definition b64_alphabet :: string where
  "b64_alphabet = ''ABCDEFGHIJKLMNOPQRSTUVWXYZabcdefghijklmnopqrstuvwxyz0123456789+/''"

definition b64_char :: "nat \<Rightarrow> char" where
  "b64_char i = b64_alphabet ! i"

definition b64_index :: "char \<Rightarrow> nat" where
  "b64_index c = length (takeWhile (\<lambda>d. d \<noteq> c) b64_alphabet)"

fun b64_encode :: "nat list \<Rightarrow> string" where
  "b64_encode [] = []"
| "b64_encode [a] = [b64_char (a div 4), b64_char (a mod 4 * 16), CHR ''='', CHR ''='']"
| "b64_encode [a, b] =
     [b64_char (a div 4), b64_char (a mod 4 * 16 + b div 16), b64_char (b mod 16 * 4), CHR ''='']"
| "b64_encode (a # b # c # r) =
     [b64_char (a div 4), b64_char (a mod 4 * 16 + b div 16),
      b64_char (b mod 16 * 4 + c div 64), b64_char (c mod 64)] @ b64_encode r"

fun b64_decode :: "string \<Rightarrow> nat list" where
  "b64_decode (w # x # y # z # r) =
     (let i = b64_index w; j = b64_index x; k = b64_index y; l = b64_index z
      in if y = CHR ''='' then [i * 4 + j div 16]
         else if z = CHR ''='' then [i * 4 + j div 16, j mod 16 * 16 + k div 4]
         else [i * 4 + j div 16, j mod 16 * 16 + k div 4, k mod 4 * 64 + l] @ b64_decode r)"
| "b64_decode _ = []"

definition btoa :: "string \<Rightarrow> string" where
  "btoa s = b64_encode (map of_char s)"

definition atob :: "string \<Rightarrow> string" where
  "atob s = map char_of (b64_decode s)"

lemma b64_index_char: "i < 64 \<Longrightarrow> b64_index (b64_char i) = i"
proof -
  have "\<forall>i \<in> set [0..<64]. b64_index (b64_char i) = i" by code_simp
  then show "i < 64 \<Longrightarrow> ?thesis" by simp
qed

lemma b64_char_not_pad: "i < 64 \<Longrightarrow> b64_char i \<noteq> CHR ''=''"
proof -
  have "\<forall>i \<in> set [0..<64]. b64_char i \<noteq> CHR ''=''" by code_simp
  then show "i < 64 \<Longrightarrow> ?thesis" by simp
qed

lemma b64_round_trip: "\<forall>b \<in> set bs. b < 256 \<Longrightarrow> b64_decode (b64_encode bs) = bs"
proof (induction bs rule: b64_encode.induct)
  case 1
  then show ?case by simp
next
  case (2 a)
  then have "a div 4 < 64" "a mod 4 * 16 < 64" by auto
  then show ?case by (simp add: b64_index_char)
next
  case (3 a b)
  then have "a div 4 < 64" "a mod 4 * 16 + b div 16 < 64" "b mod 16 * 4 < 64" "b div 16 < 16" by auto
  then show ?case by (simp add: b64_index_char b64_char_not_pad Let_def)
next
  case (4 a b c r)
  then have "a div 4 < 64" "a mod 4 * 16 + b div 16 < 64" "b mod 16 * 4 + c div 64 < 64" "c mod 64 < 64"
    "b div 16 < 16" "c div 64 < 4" by auto
  moreover have "b64_decode (b64_encode r) = r" using 4 by simp
  ultimately show ?case
    using 4 by (simp add: b64_index_char b64_char_not_pad Let_def)
qed

lemma atob_btoa [simp]: "atob (btoa s) = s"
proof -
  have "b64_decode (b64_encode (map of_char s)) = (map of_char s :: nat list)"
    by (rule b64_round_trip) auto
  then show ?thesis by (simp add: atob_def btoa_def comp_def)
qed

lemma b64_encode_chars: "c \<in> set (b64_encode bs) \<Longrightarrow> \<forall>b \<in> set bs. b < 256 \<Longrightarrow>
    c = CHR ''='' \<or> c \<in> set b64_alphabet"
proof -
  have in_alpha: "b64_char i \<in> set b64_alphabet" if "i < 64" for i
    using that unfolding b64_char_def by (intro nth_mem) (simp add: b64_alphabet_def)
  show "c \<in> set (b64_encode bs) \<Longrightarrow> \<forall>b \<in> set bs. b < 256 \<Longrightarrow> ?thesis"
    by (induction bs rule: b64_encode.induct) (auto intro: in_alpha)
qed

section \<open>React elements\<close>

text \<open>
  \<open>createElement(tag, props, ...children)\<close>: one child is stored as it is, several as an
  array. Handlers are \<open>Fn\<close> values that name the handler and what it closes over.
\<close>

fun elem :: "string \<Rightarrow> part list \<Rightarrow> js list \<Rightarrow> js" where
  "elem tag ps [] = obj [P ''type'' (Str tag), P ''props'' (obj ps)]"
| "elem tag ps [c] = obj [P ''type'' (Str tag), P ''props'' (obj (ps @ [P ''children'' c]))]"
| "elem tag ps cs = obj [P ''type'' (Str tag), P ''props'' (obj (ps @ [P ''children'' (Arr cs)]))]"

definition fragment :: "js list \<Rightarrow> js" where
  "fragment cs = elem ''Fragment'' [] cs"

text \<open>\<open>c ? a : null\<close>\<close>

definition when_js :: "bool \<Rightarrow> js \<Rightarrow> js" where
  "when_js c a = (if c then a else Null)"

end
