(* ===== verification/FormFields.thy ===== *)
theory FormFields
  imports JsText
begin

text \<open>
  The frozen tables of names the console's code reads its values by: form fields of every
  block of the cluster form, column names of the tables, provider codes, and the other
  constant tables. A table is the list of its (constant, name) pairs in source order; a
  spread of another table is its concatenation. \<open>field\<close> looks a name up.
\<close>

definition field :: "(string \<times> string) list \<Rightarrow> string \<Rightarrow> string" where
  "field table c = (case map_of (rev table) c of Some n \<Rightarrow> n | None \<Rightarrow> [])"

section \<open>Tables\<close>

definition DATABASE_SERVERS_FIELD_NAMES :: "(string \<times> string) list" where
  "DATABASE_SERVERS_FIELD_NAMES =
     [(''IS_CLUSTER_EXISTS'', ''databaseServerExistingCluster''),
      (''DATABASE_SERVERS'', ''databaseServers''),
      (''DATABASE_HOSTNAME'', ''databaseServerHostname''),
      (''DATABASE_IP_ADDRESS'', ''databaseServerIpAddress''),
      (''DATABASE_LOCATION'', ''databaseServerLocation''),
      (''IS_POSTGRESQL_EXISTS'', ''databaseServerIsPostgreSQLExist'')]"

definition ADDITIONAL_SETTINGS_BLOCK_FIELD_NAMES :: "(string \<times> string) list" where
  "ADDITIONAL_SETTINGS_BLOCK_FIELD_NAMES =
     [(''SYNC_STANDBY_NODES'', ''synchronousStandbyModes''),
      (''IS_SYNC_MODE_STRICT'', ''isSynchronousModeStrict''),
      (''IS_DB_PUBLIC_ACCESS'', ''isDbPublicAccess''),
      (''IS_CLOUD_LOAD_BALANCER'', ''isCloudLoadBalancer''),
      (''IS_NETDATA_MONITORING'', ''isNetdataMonitoring'')]"

definition BACKUPS_BLOCK_FIELD_NAMES :: "(string \<times> string) list" where
  "BACKUPS_BLOCK_FIELD_NAMES =
     [(''IS_BACKUPS_ENABLED'', ''isBackupsEnabled''),
      (''BACKUP_METHOD'', ''backupMethod''),
      (''BACKUP_START_TIME'', ''backupStartTime''),
      (''BACKUP_RETENTION'', ''backupRetention''),
      (''CONFIG'', ''backupConfig''),
      (''ACCESS_KEY'', ''backupAccessKey''),
      (''SECRET_KEY'', ''backupSecretKey'')]"

definition BACKUP_METHODS :: "(string \<times> string) list" where
  "BACKUP_METHODS =
     [(''PG_BACK_REST'', ''pgbackrest_install''),
      (''WAL_G'', ''wal_g_install'')]"

definition CONNECTION_POOLS_BLOCK_FIELD_NAMES :: "(string \<times> string) list" where
  "CONNECTION_POOLS_BLOCK_FIELD_NAMES =
     [(''IS_CONNECTION_POOLER_ENABLED'', ''isConnectionPoolerEnabled''),
      (''POOLS'', ''pools''),
      (''POOL_NAME'', ''poolName''),
      (''POOL_SIZE'', ''poolSize''),
      (''POOL_MODE'', ''poolMode'')]"

definition DATA_DIRECTORY_FIELD_NAMES :: "(string \<times> string) list" where
  "DATA_DIRECTORY_FIELD_NAMES =
     [(''DATA_DIRECTORY'', ''dataDirectory'')]"

definition DATABASES_BLOCK_FIELD_NAMES :: "(string \<times> string) list" where
  "DATABASES_BLOCK_FIELD_NAMES =
     [(''DATABASES'', ''databasesBlock''),
      (''NAMES'', ''databasesBlockNames''),
      (''DATABASE_NAME'', ''databasesBlockDatabaseName''),
      (''USER_NAME'', ''databasesBlockUsername''),
      (''USER_PASSWORD'', ''databasesBlockUserPassword''),
      (''ENCODING'', ''databasesBlockEncoding''),
      (''LOCALE'', ''databasesBlockLocale''),
      (''BLOCK_ID'', ''databasesBlockId'')]"

definition DCS_BLOCK_FIELD_NAMES :: "(string \<times> string) list" where
  "DCS_BLOCK_FIELD_NAMES =
     [(''TYPE'', ''type''),
      (''IS_DEPLOY_NEW_CLUSTER'', ''isDeployNewCluster''),
      (''IS_DEPLOY_TO_DB_SERVERS'', ''isDeployToDbServers''),
      (''DCS_DATABASES'', ''dcsDatabases''),
      (''DCS_DATABASE_HOSTNAME'', ''dcsDatabaseHostname''),
      (''DCS_DATABASE_IP_ADDRESS'', ''dcsDatabaseIpAddress''),
      (''DCS_DATABASE_PORT'', ''dcsDatabasePort'')]"

definition DCS_TYPES :: "(string \<times> string) list" where
  "DCS_TYPES =
     [(''ETCD'', ''etcd''),
      (''CONSUL'', ''consul'')]"

definition EXTENSION_BLOCK_FIELD_NAMES :: "(string \<times> string) list" where
  "EXTENSION_BLOCK_FIELD_NAMES =
     [(''EXTENSIONS'', ''extensions''),
      (''IS_ENABLED'', ''isEnabled'')]"

definition KERNEL_PARAMETERS_FIELD_NAMES :: "(string \<times> string) list" where
  "KERNEL_PARAMETERS_FIELD_NAMES =
     [(''KERNEL_PARAMETERS'', ''kernelParameters'')]"

definition NETWORK_BLOCK_FIELD_NAMES :: "(string \<times> string) list" where
  "NETWORK_BLOCK_FIELD_NAMES =
     [(''SERVER_NETWORK'', ''serverNetwork'')]"

definition POSTGRES_PARAMETERS_FIELD_NAMES :: "(string \<times> string) list" where
  "POSTGRES_PARAMETERS_FIELD_NAMES =
     [(''POSTGRES_PARAMETERS'', ''postgresParameters'')]"

definition INSTANCES_AMOUNT_BLOCK_VALUES :: "(string \<times> string) list" where
  "INSTANCES_AMOUNT_BLOCK_VALUES =
     [(''INSTANCES_AMOUNT'', ''instancesAmount''),
      (''IS_SPOT_INSTANCES'', ''isSpotInstances'')]"

definition INSTANCES_BLOCK_FIELD_NAMES :: "(string \<times> string) list" where
  "INSTANCES_BLOCK_FIELD_NAMES =
     [(''INSTANCE_TYPE'', ''instanceType''),
      (''SERVER_TYPE'', ''serverType'')]"

definition LOAD_BALANCERS_FIELD_NAMES :: "(string \<times> string) list" where
  "LOAD_BALANCERS_FIELD_NAMES =
     [(''IS_HAPROXY_ENABLED'', ''isHaproxyEnabled''),
      (''IS_DEPLOY_TO_DATABASE_SERVERS'', ''isDeployToDatabaseServers''),
      (''LOAD_BALANCER_DATABASES'', ''loadBalancerDatabases''),
      (''LOAD_BALANCER_DATABASES_HOSTNAME'', ''loadBalancerDatabasesHostname''),
      (''LOAD_BALANCER_DATABASES_IP_ADDRESS'', ''loadBalancerDatabasesIpAddress'')]"

definition SSH_KEY_BLOCK_FIELD_NAMES :: "(string \<times> string) list" where
  "SSH_KEY_BLOCK_FIELD_NAMES =
     [(''SSH_PUBLIC_KEY'', ''sshPublicKey'')]"

definition STORAGE_BLOCK_FIELDS :: "(string \<times> string) list" where
  "STORAGE_BLOCK_FIELDS =
     [(''STORAGE_AMOUNT'', ''storageAmount''),
      (''FILE_SYSTEM_TYPE'', ''fileSystemType''),
      (''VOLUME_TYPE'', ''volumeType'')]"

definition AUTHENTICATION_METHODS :: "(string \<times> string) list" where
  "AUTHENTICATION_METHODS =
     [(''SSH'', ''ssh_key''),
      (''PASSWORD'', ''password'')]"

definition LOCAL_STORAGE_ITEMS :: "(string \<times> string) list" where
  "LOCAL_STORAGE_ITEMS =
     [(''IS_EXPERT_MODE'', ''isExpertMode''),
      (''IS_YAML_ENABLED'', ''isYamlEnabled'')]"

definition PROVIDERS :: "(string \<times> string) list" where
  "PROVIDERS =
     [(''AWS'', ''aws''),
      (''GCP'', ''gcp''),
      (''AZURE'', ''azure''),
      (''DIGITAL_OCEAN'', ''digitalocean''),
      (''HETZNER'', ''hetzner''),
      (''LOCAL'', ''local'')]"

definition SECRET_MODAL_CONTENT_CLOUD_PROVIDERS_FORM_FIELD_NAMES :: "(string \<times> string) list" where
  "SECRET_MODAL_CONTENT_CLOUD_PROVIDERS_FORM_FIELD_NAMES =
     [(''AWS_ACCESS_KEY_ID'', ''AWS_ACCESS_KEY_ID''),
      (''AWS_SECRET_ACCESS_KEY'', ''AWS_SECRET_ACCESS_KEY''),
      (''GCP_SERVICE_ACCOUNT_CONTENTS'', ''GCP_SERVICE_ACCOUNT_CONTENTS''),
      (''DO_API_TOKEN'', ''DO_API_TOKEN''),
      (''AZURE_SUBSCRIPTION_ID'', ''AZURE_SUBSCRIPTION_ID''),
      (''AZURE_CLIENT_ID'', ''AZURE_CLIENT_ID''),
      (''AZURE_SECRET'', ''AZURE_SECRET''),
      (''AZURE_TENANT'', ''AZURE_TENANT''),
      (''HCLOUD_API_TOKEN'', ''HCLOUD_API_TOKEN'')]"

definition SECRET_MODAL_CONTENT_LOCAL_FORM_FIELDS :: "(string \<times> string) list" where
  "SECRET_MODAL_CONTENT_LOCAL_FORM_FIELDS =
     [(''SSH_PRIVATE_KEY'', ''SSH_PRIVATE_KEY''),
      (''USERNAME'', ''USERNAME''),
      (''PASSWORD'', ''PASSWORD'')]"

definition SECRET_MODAL_CONTENT_BODY_FORM_FIELDS :: "(string \<times> string) list" where
  "SECRET_MODAL_CONTENT_BODY_FORM_FIELDS =
     SECRET_MODAL_CONTENT_CLOUD_PROVIDERS_FORM_FIELD_NAMES
    @ SECRET_MODAL_CONTENT_LOCAL_FORM_FIELDS"

definition SECRET_MODAL_CONTENT_FORM_FIELD_NAMES :: "(string \<times> string) list" where
  "SECRET_MODAL_CONTENT_FORM_FIELD_NAMES =
     [(''SECRET_TYPE'', ''type''),
      (''SECRET_NAME'', ''name'')]
    @ SECRET_MODAL_CONTENT_BODY_FORM_FIELDS"

definition CLUSTER_CREATION_TYPES :: "(string \<times> string) list" where
  "CLUSTER_CREATION_TYPES =
     [(''FORM'', ''form''),
      (''YAML'', ''yaml'')]"

definition CLUSTER_CLOUD_PROVIDER_FIELD_NAMES :: "(string \<times> string) list" where
  "CLUSTER_CLOUD_PROVIDER_FIELD_NAMES =
     [(''REGION'', ''region''),
      (''REGION_CONFIG'', ''regionConfig''),
      (''INSTANCE_TYPE'', ''instanceType''),
      (''INSTANCE_CONFIG'', ''instanceConfig''),
      (''SSH_PUBLIC_KEY'', ''sshPublicKey'')]
    @ INSTANCES_AMOUNT_BLOCK_VALUES
    @ STORAGE_BLOCK_FIELDS"

definition CLUSTER_LOCAL_MACHINE_FIELD_NAMES :: "(string \<times> string) list" where
  "CLUSTER_LOCAL_MACHINE_FIELD_NAMES =
     [(''EXISTING_CLUSTER'', ''existingCluster''),
      (''AUTHENTICATION_METHOD'', ''authenticationMethod''),
      (''SECRET_KEY_NAME'', ''secretKeyName''),
      (''AUTHENTICATION_IS_SAVE_TO_CONSOLE'', ''authenticationSaveToConsole''),
      (''CLUSTER_VIP_ADDRESS'', ''clusterVIPAddress''),
      (''IS_USE_DEFINED_SECRET'', ''isUseDefinedSecret'')]
    @ LOAD_BALANCERS_FIELD_NAMES
    @ DATABASE_SERVERS_FIELD_NAMES
    @ DCS_BLOCK_FIELD_NAMES
    @ DATA_DIRECTORY_FIELD_NAMES"

definition CLUSTER_FORM_FIELD_NAMES :: "(string \<times> string) list" where
  "CLUSTER_FORM_FIELD_NAMES =
     [(''PROVIDER'', ''provider''),
      (''ENVIRONMENT_ID'', ''environment''),
      (''CLUSTER_NAME'', ''clusterName''),
      (''DESCRIPTION'', ''description''),
      (''POSTGRES_VERSION'', ''postgresVersion''),
      (''SECRET_ID'', ''secretId''),
      (''CREATION_TYPE'', ''creationType'')]
    @ CLUSTER_CLOUD_PROVIDER_FIELD_NAMES
    @ CLUSTER_LOCAL_MACHINE_FIELD_NAMES
    @ DATABASES_BLOCK_FIELD_NAMES
    @ CONNECTION_POOLS_BLOCK_FIELD_NAMES
    @ EXTENSION_BLOCK_FIELD_NAMES
    @ BACKUPS_BLOCK_FIELD_NAMES
    @ POSTGRES_PARAMETERS_FIELD_NAMES
    @ KERNEL_PARAMETERS_FIELD_NAMES"

definition SETTINGS_FORM_FIELDS_NAMES :: "(string \<times> string) list" where
  "SETTINGS_FORM_FIELDS_NAMES =
     [(''HTTP_PROXY'', ''http_proxy''),
      (''HTTPS_PROXY'', ''https_proxy''),
      (''IS_EXPERT_MODE_ENABLED'', ''is_expert_mode_enabled''),
      (''IS_YAML_ENABLED'', ''is_yaml_enabled'')]"

definition ADD_ENTITY_FORM_NAMES :: "(string \<times> string) list" where
  "ADD_ENTITY_FORM_NAMES =
     [(''NAME'', ''name''),
      (''DESCRIPTION'', ''description'')]"

definition PROJECT_FORM_NAMES :: "(string \<times> string) list" where
  "PROJECT_FORM_NAMES =
     [(''NAME'', ''name''),
      (''DESCRIPTION'', ''description'')]"

definition CLUSTER_SECRET_MODAL_FORM_FIELD_NAMES :: "(string \<times> string) list" where
  "CLUSTER_SECRET_MODAL_FORM_FIELD_NAMES =
     SECRET_MODAL_CONTENT_FORM_FIELD_NAMES
    @ [(''IS_SAVE_TO_CONSOLE'', ''isSaveToConsole'')]"

definition LOGIN_FORM_FIELD_NAMES :: "(string \<times> string) list" where
  "LOGIN_FORM_FIELD_NAMES =
     [(''TOKEN'', ''token'')]"

definition YAML_EDITOR_FORM_FIELD_NAMES :: "(string \<times> string) list" where
  "YAML_EDITOR_FORM_FIELD_NAMES =
     [(''EDITOR'', ''yamlEditor'')]"

definition CLUSTER_TABLE_COLUMN_NAMES :: "(string \<times> string) list" where
  "CLUSTER_TABLE_COLUMN_NAMES =
     [(''NAME'', ''name''),
      (''STATUS'', ''status''),
      (''CREATION_TIME'', ''created_at''),
      (''ENVIRONMENT'', ''environment''),
      (''SERVERS'', ''server_count''),
      (''POSTGRES_VERSION'', ''postgres_version''),
      (''LOCATION'', ''location''),
      (''ACTIONS'', ''actions''),
      (''ID'', ''id'')]"

definition CLUSTER_STATUSES :: "(string \<times> string) list" where
  "CLUSTER_STATUSES =
     [(''DEPLOYING'', ''deploying''),
      (''READY'', ''ready''),
      (''FAILED'', ''failed''),
      (''HEALTHY'', ''healthy''),
      (''UNHEALTHY'', ''unhealthy''),
      (''DEGRADED'', ''degraded''),
      (''UNAVAILABLE'', ''unavailable'')]"

definition CLUSTER_OVERVIEW_TABLE_COLUMN_NAMES :: "(string \<times> string) list" where
  "CLUSTER_OVERVIEW_TABLE_COLUMN_NAMES =
     [(''NAME'', ''name''),
      (''HOST'', ''host''),
      (''ROLE'', ''role''),
      (''STATE'', ''state''),
      (''TIMELINE'', ''timeline''),
      (''LAG_IN_MB'', ''lagInMb''),
      (''PENDING_RESTART'', ''pendingRestart''),
      (''TAGS'', ''tags''),
      (''ID'', ''id'')]"

definition OPERATIONS_TABLE_COLUMN_NAMES :: "(string \<times> string) list" where
  "OPERATIONS_TABLE_COLUMN_NAMES =
     [(''ID'', ''id''),
      (''STARTED'', ''started''),
      (''FINISHED'', ''finished''),
      (''TYPE'', ''type''),
      (''STATUS'', ''status''),
      (''CLUSTER'', ''cluster_name''),
      (''ENVIRONMENT'', ''environment''),
      (''ACTIONS'', ''actions'')]"

definition ENVIRONMENTS_TABLE_COLUMN_NAMES :: "(string \<times> string) list" where
  "ENVIRONMENTS_TABLE_COLUMN_NAMES =
     [(''ID'', ''id''),
      (''NAME'', ''name''),
      (''DESCRIPTION'', ''description''),
      (''CREATED'', ''created_at''),
      (''UPDATED'', ''updated_at'')]"

definition PROJECTS_TABLE_COLUMN_NAMES :: "(string \<times> string) list" where
  "PROJECTS_TABLE_COLUMN_NAMES =
     [(''ID'', ''id''),
      (''NAME'', ''name''),
      (''DESCRIPTION'', ''description''),
      (''CREATED'', ''created_at''),
      (''UPDATED'', ''updated_at'')]"

definition SECRETS_TABLE_COLUMN_NAMES :: "(string \<times> string) list" where
  "SECRETS_TABLE_COLUMN_NAMES =
     [(''NAME'', ''name''),
      (''TYPE'', ''type''),
      (''CREATED'', ''created''),
      (''UPDATED'', ''updated''),
      (''USED'', ''used''),
      (''ID'', ''id''),
      (''USED_BY'', ''usedBy'')]"

definition DATE_RANGE_VALUES :: "(string \<times> string) list" where
  "DATE_RANGE_VALUES =
     [(''LAST_DAY'', ''lastDay''),
      (''LAST_WEEK'', ''lastWeek''),
      (''LAST_MONTH'', ''lastMonth''),
      (''LAST_THREE_MONTHS'', ''lastThreeMonths''),
      (''LAST_SIX_MONTHS'', ''lastSixMonths''),
      (''LAST_YEAR'', ''lastYear'')]"

definition LOCALES :: "(string \<times> string) list" where
  "LOCALES =
     [(''EN_US'', ''en'')]"

section \<open>Names\<close>

text \<open>
  One abbreviation per name, prefixed by its table. The lemmas after them restate every
  table by these names, so that a slip in one of them does not go unnoticed.
\<close>

abbreviation (input) DBS_IS_CLUSTER_EXISTS :: string where
  "DBS_IS_CLUSTER_EXISTS \<equiv> ''databaseServerExistingCluster''"

abbreviation (input) DBS_DATABASE_SERVERS :: string where
  "DBS_DATABASE_SERVERS \<equiv> ''databaseServers''"

abbreviation (input) DBS_DATABASE_HOSTNAME :: string where
  "DBS_DATABASE_HOSTNAME \<equiv> ''databaseServerHostname''"

abbreviation (input) DBS_DATABASE_IP_ADDRESS :: string where
  "DBS_DATABASE_IP_ADDRESS \<equiv> ''databaseServerIpAddress''"

abbreviation (input) DBS_DATABASE_LOCATION :: string where
  "DBS_DATABASE_LOCATION \<equiv> ''databaseServerLocation''"

abbreviation (input) DBS_IS_POSTGRESQL_EXISTS :: string where
  "DBS_IS_POSTGRESQL_EXISTS \<equiv> ''databaseServerIsPostgreSQLExist''"

abbreviation (input) ADS_SYNC_STANDBY_NODES :: string where
  "ADS_SYNC_STANDBY_NODES \<equiv> ''synchronousStandbyModes''"

abbreviation (input) ADS_IS_SYNC_MODE_STRICT :: string where
  "ADS_IS_SYNC_MODE_STRICT \<equiv> ''isSynchronousModeStrict''"

abbreviation (input) ADS_IS_DB_PUBLIC_ACCESS :: string where
  "ADS_IS_DB_PUBLIC_ACCESS \<equiv> ''isDbPublicAccess''"

abbreviation (input) ADS_IS_CLOUD_LOAD_BALANCER :: string where
  "ADS_IS_CLOUD_LOAD_BALANCER \<equiv> ''isCloudLoadBalancer''"

abbreviation (input) ADS_IS_NETDATA_MONITORING :: string where
  "ADS_IS_NETDATA_MONITORING \<equiv> ''isNetdataMonitoring''"

abbreviation (input) BK_IS_BACKUPS_ENABLED :: string where
  "BK_IS_BACKUPS_ENABLED \<equiv> ''isBackupsEnabled''"

abbreviation (input) BK_BACKUP_METHOD :: string where
  "BK_BACKUP_METHOD \<equiv> ''backupMethod''"

abbreviation (input) BK_BACKUP_START_TIME :: string where
  "BK_BACKUP_START_TIME \<equiv> ''backupStartTime''"

abbreviation (input) BK_BACKUP_RETENTION :: string where
  "BK_BACKUP_RETENTION \<equiv> ''backupRetention''"

abbreviation (input) BK_CONFIG :: string where
  "BK_CONFIG \<equiv> ''backupConfig''"

abbreviation (input) BK_ACCESS_KEY :: string where
  "BK_ACCESS_KEY \<equiv> ''backupAccessKey''"

abbreviation (input) BK_SECRET_KEY :: string where
  "BK_SECRET_KEY \<equiv> ''backupSecretKey''"

abbreviation (input) BKM_PG_BACK_REST :: string where
  "BKM_PG_BACK_REST \<equiv> ''pgbackrest_install''"

abbreviation (input) BKM_WAL_G :: string where
  "BKM_WAL_G \<equiv> ''wal_g_install''"

abbreviation (input) POOL_IS_CONNECTION_POOLER_ENABLED :: string where
  "POOL_IS_CONNECTION_POOLER_ENABLED \<equiv> ''isConnectionPoolerEnabled''"

abbreviation (input) POOL_POOLS :: string where
  "POOL_POOLS \<equiv> ''pools''"

abbreviation (input) POOL_POOL_NAME :: string where
  "POOL_POOL_NAME \<equiv> ''poolName''"

abbreviation (input) POOL_POOL_SIZE :: string where
  "POOL_POOL_SIZE \<equiv> ''poolSize''"

abbreviation (input) POOL_POOL_MODE :: string where
  "POOL_POOL_MODE \<equiv> ''poolMode''"

abbreviation (input) DIR_DATA_DIRECTORY :: string where
  "DIR_DATA_DIRECTORY \<equiv> ''dataDirectory''"

abbreviation (input) DB_DATABASES :: string where
  "DB_DATABASES \<equiv> ''databasesBlock''"

abbreviation (input) DB_NAMES :: string where
  "DB_NAMES \<equiv> ''databasesBlockNames''"

abbreviation (input) DB_DATABASE_NAME :: string where
  "DB_DATABASE_NAME \<equiv> ''databasesBlockDatabaseName''"

abbreviation (input) DB_USER_NAME :: string where
  "DB_USER_NAME \<equiv> ''databasesBlockUsername''"

abbreviation (input) DB_USER_PASSWORD :: string where
  "DB_USER_PASSWORD \<equiv> ''databasesBlockUserPassword''"

abbreviation (input) DB_ENCODING :: string where
  "DB_ENCODING \<equiv> ''databasesBlockEncoding''"

abbreviation (input) DB_LOCALE :: string where
  "DB_LOCALE \<equiv> ''databasesBlockLocale''"

abbreviation (input) DB_BLOCK_ID :: string where
  "DB_BLOCK_ID \<equiv> ''databasesBlockId''"

abbreviation (input) DCS_TYPE :: string where
  "DCS_TYPE \<equiv> ''type''"

abbreviation (input) DCS_IS_DEPLOY_NEW_CLUSTER :: string where
  "DCS_IS_DEPLOY_NEW_CLUSTER \<equiv> ''isDeployNewCluster''"

abbreviation (input) DCS_IS_DEPLOY_TO_DB_SERVERS :: string where
  "DCS_IS_DEPLOY_TO_DB_SERVERS \<equiv> ''isDeployToDbServers''"

abbreviation (input) DCS_DCS_DATABASES :: string where
  "DCS_DCS_DATABASES \<equiv> ''dcsDatabases''"

abbreviation (input) DCS_DCS_DATABASE_HOSTNAME :: string where
  "DCS_DCS_DATABASE_HOSTNAME \<equiv> ''dcsDatabaseHostname''"

abbreviation (input) DCS_DCS_DATABASE_IP_ADDRESS :: string where
  "DCS_DCS_DATABASE_IP_ADDRESS \<equiv> ''dcsDatabaseIpAddress''"

abbreviation (input) DCS_DCS_DATABASE_PORT :: string where
  "DCS_DCS_DATABASE_PORT \<equiv> ''dcsDatabasePort''"

abbreviation (input) DCST_ETCD :: string where
  "DCST_ETCD \<equiv> ''etcd''"

abbreviation (input) DCST_CONSUL :: string where
  "DCST_CONSUL \<equiv> ''consul''"

abbreviation (input) EXT_EXTENSIONS :: string where
  "EXT_EXTENSIONS \<equiv> ''extensions''"

abbreviation (input) EXT_IS_ENABLED :: string where
  "EXT_IS_ENABLED \<equiv> ''isEnabled''"

abbreviation (input) KRN_KERNEL_PARAMETERS :: string where
  "KRN_KERNEL_PARAMETERS \<equiv> ''kernelParameters''"

abbreviation (input) NET_SERVER_NETWORK :: string where
  "NET_SERVER_NETWORK \<equiv> ''serverNetwork''"

abbreviation (input) PG_POSTGRES_PARAMETERS :: string where
  "PG_POSTGRES_PARAMETERS \<equiv> ''postgresParameters''"

abbreviation (input) AMT_INSTANCES_AMOUNT :: string where
  "AMT_INSTANCES_AMOUNT \<equiv> ''instancesAmount''"

abbreviation (input) AMT_IS_SPOT_INSTANCES :: string where
  "AMT_IS_SPOT_INSTANCES \<equiv> ''isSpotInstances''"

abbreviation (input) INST_INSTANCE_TYPE :: string where
  "INST_INSTANCE_TYPE \<equiv> ''instanceType''"

abbreviation (input) INST_SERVER_TYPE :: string where
  "INST_SERVER_TYPE \<equiv> ''serverType''"

abbreviation (input) LB_IS_HAPROXY_ENABLED :: string where
  "LB_IS_HAPROXY_ENABLED \<equiv> ''isHaproxyEnabled''"

abbreviation (input) LB_IS_DEPLOY_TO_DATABASE_SERVERS :: string where
  "LB_IS_DEPLOY_TO_DATABASE_SERVERS \<equiv> ''isDeployToDatabaseServers''"

abbreviation (input) LB_LOAD_BALANCER_DATABASES :: string where
  "LB_LOAD_BALANCER_DATABASES \<equiv> ''loadBalancerDatabases''"

abbreviation (input) LB_LOAD_BALANCER_DATABASES_HOSTNAME :: string where
  "LB_LOAD_BALANCER_DATABASES_HOSTNAME \<equiv> ''loadBalancerDatabasesHostname''"

abbreviation (input) LB_LOAD_BALANCER_DATABASES_IP_ADDRESS :: string where
  "LB_LOAD_BALANCER_DATABASES_IP_ADDRESS \<equiv> ''loadBalancerDatabasesIpAddress''"

abbreviation (input) SSH_SSH_PUBLIC_KEY :: string where
  "SSH_SSH_PUBLIC_KEY \<equiv> ''sshPublicKey''"

abbreviation (input) STO_STORAGE_AMOUNT :: string where
  "STO_STORAGE_AMOUNT \<equiv> ''storageAmount''"

abbreviation (input) STO_FILE_SYSTEM_TYPE :: string where
  "STO_FILE_SYSTEM_TYPE \<equiv> ''fileSystemType''"

abbreviation (input) STO_VOLUME_TYPE :: string where
  "STO_VOLUME_TYPE \<equiv> ''volumeType''"

abbreviation (input) AUTH_SSH :: string where
  "AUTH_SSH \<equiv> ''ssh_key''"

abbreviation (input) AUTH_PASSWORD :: string where
  "AUTH_PASSWORD \<equiv> ''password''"

abbreviation (input) LS_IS_EXPERT_MODE :: string where
  "LS_IS_EXPERT_MODE \<equiv> ''isExpertMode''"

abbreviation (input) LS_IS_YAML_ENABLED :: string where
  "LS_IS_YAML_ENABLED \<equiv> ''isYamlEnabled''"

abbreviation (input) PROV_AWS :: string where
  "PROV_AWS \<equiv> ''aws''"

abbreviation (input) PROV_GCP :: string where
  "PROV_GCP \<equiv> ''gcp''"

abbreviation (input) PROV_AZURE :: string where
  "PROV_AZURE \<equiv> ''azure''"

abbreviation (input) PROV_DIGITAL_OCEAN :: string where
  "PROV_DIGITAL_OCEAN \<equiv> ''digitalocean''"

abbreviation (input) PROV_HETZNER :: string where
  "PROV_HETZNER \<equiv> ''hetzner''"

abbreviation (input) PROV_LOCAL :: string where
  "PROV_LOCAL \<equiv> ''local''"

abbreviation (input) SEC_SECRET_TYPE :: string where
  "SEC_SECRET_TYPE \<equiv> ''type''"

abbreviation (input) SEC_SECRET_NAME :: string where
  "SEC_SECRET_NAME \<equiv> ''name''"

abbreviation (input) SEC_AWS_ACCESS_KEY_ID :: string where
  "SEC_AWS_ACCESS_KEY_ID \<equiv> ''AWS_ACCESS_KEY_ID''"

abbreviation (input) SEC_AWS_SECRET_ACCESS_KEY :: string where
  "SEC_AWS_SECRET_ACCESS_KEY \<equiv> ''AWS_SECRET_ACCESS_KEY''"

abbreviation (input) SEC_GCP_SERVICE_ACCOUNT_CONTENTS :: string where
  "SEC_GCP_SERVICE_ACCOUNT_CONTENTS \<equiv> ''GCP_SERVICE_ACCOUNT_CONTENTS''"

abbreviation (input) SEC_DO_API_TOKEN :: string where
  "SEC_DO_API_TOKEN \<equiv> ''DO_API_TOKEN''"

abbreviation (input) SEC_AZURE_SUBSCRIPTION_ID :: string where
  "SEC_AZURE_SUBSCRIPTION_ID \<equiv> ''AZURE_SUBSCRIPTION_ID''"

abbreviation (input) SEC_AZURE_CLIENT_ID :: string where
  "SEC_AZURE_CLIENT_ID \<equiv> ''AZURE_CLIENT_ID''"

abbreviation (input) SEC_AZURE_SECRET :: string where
  "SEC_AZURE_SECRET \<equiv> ''AZURE_SECRET''"

abbreviation (input) SEC_AZURE_TENANT :: string where
  "SEC_AZURE_TENANT \<equiv> ''AZURE_TENANT''"

abbreviation (input) SEC_HCLOUD_API_TOKEN :: string where
  "SEC_HCLOUD_API_TOKEN \<equiv> ''HCLOUD_API_TOKEN''"

abbreviation (input) SEC_SSH_PRIVATE_KEY :: string where
  "SEC_SSH_PRIVATE_KEY \<equiv> ''SSH_PRIVATE_KEY''"

abbreviation (input) SEC_USERNAME :: string where
  "SEC_USERNAME \<equiv> ''USERNAME''"

abbreviation (input) SEC_PASSWORD :: string where
  "SEC_PASSWORD \<equiv> ''PASSWORD''"

abbreviation (input) CREATE_FORM :: string where
  "CREATE_FORM \<equiv> ''form''"

abbreviation (input) CREATE_YAML :: string where
  "CREATE_YAML \<equiv> ''yaml''"

abbreviation (input) SET_HTTP_PROXY :: string where
  "SET_HTTP_PROXY \<equiv> ''http_proxy''"

abbreviation (input) SET_HTTPS_PROXY :: string where
  "SET_HTTPS_PROXY \<equiv> ''https_proxy''"

abbreviation (input) SET_IS_EXPERT_MODE_ENABLED :: string where
  "SET_IS_EXPERT_MODE_ENABLED \<equiv> ''is_expert_mode_enabled''"

abbreviation (input) SET_IS_YAML_ENABLED :: string where
  "SET_IS_YAML_ENABLED \<equiv> ''is_yaml_enabled''"

abbreviation (input) CT_NAME :: string where
  "CT_NAME \<equiv> ''name''"

abbreviation (input) CT_STATUS :: string where
  "CT_STATUS \<equiv> ''status''"

abbreviation (input) CT_CREATION_TIME :: string where
  "CT_CREATION_TIME \<equiv> ''created_at''"

abbreviation (input) CT_ENVIRONMENT :: string where
  "CT_ENVIRONMENT \<equiv> ''environment''"

abbreviation (input) CT_SERVERS :: string where
  "CT_SERVERS \<equiv> ''server_count''"

abbreviation (input) CT_POSTGRES_VERSION :: string where
  "CT_POSTGRES_VERSION \<equiv> ''postgres_version''"

abbreviation (input) CT_LOCATION :: string where
  "CT_LOCATION \<equiv> ''location''"

abbreviation (input) CT_ACTIONS :: string where
  "CT_ACTIONS \<equiv> ''actions''"

abbreviation (input) CT_ID :: string where
  "CT_ID \<equiv> ''id''"

abbreviation (input) CS_DEPLOYING :: string where
  "CS_DEPLOYING \<equiv> ''deploying''"

abbreviation (input) CS_READY :: string where
  "CS_READY \<equiv> ''ready''"

abbreviation (input) CS_FAILED :: string where
  "CS_FAILED \<equiv> ''failed''"

abbreviation (input) CS_HEALTHY :: string where
  "CS_HEALTHY \<equiv> ''healthy''"

abbreviation (input) CS_UNHEALTHY :: string where
  "CS_UNHEALTHY \<equiv> ''unhealthy''"

abbreviation (input) CS_DEGRADED :: string where
  "CS_DEGRADED \<equiv> ''degraded''"

abbreviation (input) CS_UNAVAILABLE :: string where
  "CS_UNAVAILABLE \<equiv> ''unavailable''"

abbreviation (input) OT_ID :: string where
  "OT_ID \<equiv> ''id''"

abbreviation (input) OT_STARTED :: string where
  "OT_STARTED \<equiv> ''started''"

abbreviation (input) OT_FINISHED :: string where
  "OT_FINISHED \<equiv> ''finished''"

abbreviation (input) OT_TYPE :: string where
  "OT_TYPE \<equiv> ''type''"

abbreviation (input) OT_STATUS :: string where
  "OT_STATUS \<equiv> ''status''"

abbreviation (input) OT_CLUSTER :: string where
  "OT_CLUSTER \<equiv> ''cluster_name''"

abbreviation (input) OT_ENVIRONMENT :: string where
  "OT_ENVIRONMENT \<equiv> ''environment''"

abbreviation (input) OT_ACTIONS :: string where
  "OT_ACTIONS \<equiv> ''actions''"

abbreviation (input) COT_NAME :: string where
  "COT_NAME \<equiv> ''name''"

abbreviation (input) COT_HOST :: string where
  "COT_HOST \<equiv> ''host''"

abbreviation (input) COT_ROLE :: string where
  "COT_ROLE \<equiv> ''role''"

abbreviation (input) COT_STATE :: string where
  "COT_STATE \<equiv> ''state''"

abbreviation (input) COT_TIMELINE :: string where
  "COT_TIMELINE \<equiv> ''timeline''"

abbreviation (input) COT_LAG_IN_MB :: string where
  "COT_LAG_IN_MB \<equiv> ''lagInMb''"

abbreviation (input) COT_PENDING_RESTART :: string where
  "COT_PENDING_RESTART \<equiv> ''pendingRestart''"

abbreviation (input) COT_TAGS :: string where
  "COT_TAGS \<equiv> ''tags''"

abbreviation (input) COT_ID :: string where
  "COT_ID \<equiv> ''id''"

abbreviation (input) ET_ID :: string where
  "ET_ID \<equiv> ''id''"

abbreviation (input) ET_NAME :: string where
  "ET_NAME \<equiv> ''name''"

abbreviation (input) ET_DESCRIPTION :: string where
  "ET_DESCRIPTION \<equiv> ''description''"

abbreviation (input) ET_CREATED :: string where
  "ET_CREATED \<equiv> ''created_at''"

abbreviation (input) ET_UPDATED :: string where
  "ET_UPDATED \<equiv> ''updated_at''"

abbreviation (input) PT_ID :: string where
  "PT_ID \<equiv> ''id''"

abbreviation (input) PT_NAME :: string where
  "PT_NAME \<equiv> ''name''"

abbreviation (input) PT_DESCRIPTION :: string where
  "PT_DESCRIPTION \<equiv> ''description''"

abbreviation (input) PT_CREATED :: string where
  "PT_CREATED \<equiv> ''created_at''"

abbreviation (input) PT_UPDATED :: string where
  "PT_UPDATED \<equiv> ''updated_at''"

abbreviation (input) ST_NAME :: string where
  "ST_NAME \<equiv> ''name''"

abbreviation (input) ST_TYPE :: string where
  "ST_TYPE \<equiv> ''type''"

abbreviation (input) ST_CREATED :: string where
  "ST_CREATED \<equiv> ''created''"

abbreviation (input) ST_UPDATED :: string where
  "ST_UPDATED \<equiv> ''updated''"

abbreviation (input) ST_USED :: string where
  "ST_USED \<equiv> ''used''"

abbreviation (input) ST_ID :: string where
  "ST_ID \<equiv> ''id''"

abbreviation (input) ST_USED_BY :: string where
  "ST_USED_BY \<equiv> ''usedBy''"

abbreviation (input) DR_LAST_DAY :: string where
  "DR_LAST_DAY \<equiv> ''lastDay''"

abbreviation (input) DR_LAST_WEEK :: string where
  "DR_LAST_WEEK \<equiv> ''lastWeek''"

abbreviation (input) DR_LAST_MONTH :: string where
  "DR_LAST_MONTH \<equiv> ''lastMonth''"

abbreviation (input) DR_LAST_THREE_MONTHS :: string where
  "DR_LAST_THREE_MONTHS \<equiv> ''lastThreeMonths''"

abbreviation (input) DR_LAST_SIX_MONTHS :: string where
  "DR_LAST_SIX_MONTHS \<equiv> ''lastSixMonths''"

abbreviation (input) DR_LAST_YEAR :: string where
  "DR_LAST_YEAR \<equiv> ''lastYear''"

abbreviation (input) AE_NAME :: string where
  "AE_NAME \<equiv> ''name''"

abbreviation (input) AE_DESCRIPTION :: string where
  "AE_DESCRIPTION \<equiv> ''description''"

abbreviation (input) CF_PROVIDER :: string where
  "CF_PROVIDER \<equiv> ''provider''"

abbreviation (input) CF_ENVIRONMENT_ID :: string where
  "CF_ENVIRONMENT_ID \<equiv> ''environment''"

abbreviation (input) CF_CLUSTER_NAME :: string where
  "CF_CLUSTER_NAME \<equiv> ''clusterName''"

abbreviation (input) CF_DESCRIPTION :: string where
  "CF_DESCRIPTION \<equiv> ''description''"

abbreviation (input) CF_POSTGRES_VERSION :: string where
  "CF_POSTGRES_VERSION \<equiv> ''postgresVersion''"

abbreviation (input) CF_SECRET_ID :: string where
  "CF_SECRET_ID \<equiv> ''secretId''"

abbreviation (input) CF_CREATION_TYPE :: string where
  "CF_CREATION_TYPE \<equiv> ''creationType''"

abbreviation (input) CF_REGION :: string where
  "CF_REGION \<equiv> ''region''"

abbreviation (input) CF_REGION_CONFIG :: string where
  "CF_REGION_CONFIG \<equiv> ''regionConfig''"

abbreviation (input) CF_INSTANCE_CONFIG :: string where
  "CF_INSTANCE_CONFIG \<equiv> ''instanceConfig''"

abbreviation (input) CF_EXISTING_CLUSTER :: string where
  "CF_EXISTING_CLUSTER \<equiv> ''existingCluster''"

abbreviation (input) CF_AUTHENTICATION_METHOD :: string where
  "CF_AUTHENTICATION_METHOD \<equiv> ''authenticationMethod''"

abbreviation (input) CF_SECRET_KEY_NAME :: string where
  "CF_SECRET_KEY_NAME \<equiv> ''secretKeyName''"

abbreviation (input) CF_AUTHENTICATION_IS_SAVE_TO_CONSOLE :: string where
  "CF_AUTHENTICATION_IS_SAVE_TO_CONSOLE \<equiv> ''authenticationSaveToConsole''"

abbreviation (input) CF_CLUSTER_VIP_ADDRESS :: string where
  "CF_CLUSTER_VIP_ADDRESS \<equiv> ''clusterVIPAddress''"

abbreviation (input) CF_IS_USE_DEFINED_SECRET :: string where
  "CF_IS_USE_DEFINED_SECRET \<equiv> ''isUseDefinedSecret''"

abbreviation (input) CF_INSTANCE_TYPE :: string where
  "CF_INSTANCE_TYPE \<equiv> ''instanceType''"

abbreviation (input) CF_INSTANCES_AMOUNT :: string where
  "CF_INSTANCES_AMOUNT \<equiv> ''instancesAmount''"

abbreviation (input) CF_IS_CLUSTER_EXISTS :: string where
  "CF_IS_CLUSTER_EXISTS \<equiv> ''databaseServerExistingCluster''"

abbreviation (input) CF_DATABASE_SERVERS :: string where
  "CF_DATABASE_SERVERS \<equiv> ''databaseServers''"

abbreviation (input) CF_IS_SPOT_INSTANCES :: string where
  "CF_IS_SPOT_INSTANCES \<equiv> ''isSpotInstances''"

abbreviation (input) IS_SAVE_TO_CONSOLE :: string where
  "IS_SAVE_TO_CONSOLE \<equiv> ''isSaveToConsole''"

lemmas table_defs =
  DATABASE_SERVERS_FIELD_NAMES_def
  ADDITIONAL_SETTINGS_BLOCK_FIELD_NAMES_def
  BACKUPS_BLOCK_FIELD_NAMES_def
  BACKUP_METHODS_def
  CONNECTION_POOLS_BLOCK_FIELD_NAMES_def
  DATA_DIRECTORY_FIELD_NAMES_def
  DATABASES_BLOCK_FIELD_NAMES_def
  DCS_BLOCK_FIELD_NAMES_def
  DCS_TYPES_def
  EXTENSION_BLOCK_FIELD_NAMES_def
  KERNEL_PARAMETERS_FIELD_NAMES_def
  NETWORK_BLOCK_FIELD_NAMES_def
  POSTGRES_PARAMETERS_FIELD_NAMES_def
  INSTANCES_AMOUNT_BLOCK_VALUES_def
  INSTANCES_BLOCK_FIELD_NAMES_def
  LOAD_BALANCERS_FIELD_NAMES_def
  SSH_KEY_BLOCK_FIELD_NAMES_def
  STORAGE_BLOCK_FIELDS_def
  AUTHENTICATION_METHODS_def
  LOCAL_STORAGE_ITEMS_def
  PROVIDERS_def
  SECRET_MODAL_CONTENT_CLOUD_PROVIDERS_FORM_FIELD_NAMES_def
  SECRET_MODAL_CONTENT_LOCAL_FORM_FIELDS_def
  SECRET_MODAL_CONTENT_BODY_FORM_FIELDS_def
  SECRET_MODAL_CONTENT_FORM_FIELD_NAMES_def
  CLUSTER_CREATION_TYPES_def
  CLUSTER_CLOUD_PROVIDER_FIELD_NAMES_def
  CLUSTER_LOCAL_MACHINE_FIELD_NAMES_def
  CLUSTER_FORM_FIELD_NAMES_def
  SETTINGS_FORM_FIELDS_NAMES_def
  ADD_ENTITY_FORM_NAMES_def
  PROJECT_FORM_NAMES_def
  CLUSTER_SECRET_MODAL_FORM_FIELD_NAMES_def
  LOGIN_FORM_FIELD_NAMES_def
  YAML_EDITOR_FORM_FIELD_NAMES_def
  CLUSTER_TABLE_COLUMN_NAMES_def
  CLUSTER_STATUSES_def
  CLUSTER_OVERVIEW_TABLE_COLUMN_NAMES_def
  OPERATIONS_TABLE_COLUMN_NAMES_def
  ENVIRONMENTS_TABLE_COLUMN_NAMES_def
  PROJECTS_TABLE_COLUMN_NAMES_def
  SECRETS_TABLE_COLUMN_NAMES_def
  DATE_RANGE_VALUES_def
  LOCALES_def

lemma names_of_DATABASE_SERVERS_FIELD_NAMES:
  "DATABASE_SERVERS_FIELD_NAMES =
     [(''IS_CLUSTER_EXISTS'', DBS_IS_CLUSTER_EXISTS),
      (''DATABASE_SERVERS'', DBS_DATABASE_SERVERS),
      (''DATABASE_HOSTNAME'', DBS_DATABASE_HOSTNAME),
      (''DATABASE_IP_ADDRESS'', DBS_DATABASE_IP_ADDRESS),
      (''DATABASE_LOCATION'', DBS_DATABASE_LOCATION),
      (''IS_POSTGRESQL_EXISTS'', DBS_IS_POSTGRESQL_EXISTS)]"
  by (simp add: table_defs)

lemma names_of_ADDITIONAL_SETTINGS_BLOCK_FIELD_NAMES:
  "ADDITIONAL_SETTINGS_BLOCK_FIELD_NAMES =
     [(''SYNC_STANDBY_NODES'', ADS_SYNC_STANDBY_NODES),
      (''IS_SYNC_MODE_STRICT'', ADS_IS_SYNC_MODE_STRICT),
      (''IS_DB_PUBLIC_ACCESS'', ADS_IS_DB_PUBLIC_ACCESS),
      (''IS_CLOUD_LOAD_BALANCER'', ADS_IS_CLOUD_LOAD_BALANCER),
      (''IS_NETDATA_MONITORING'', ADS_IS_NETDATA_MONITORING)]"
  by (simp add: table_defs)

lemma names_of_BACKUPS_BLOCK_FIELD_NAMES:
  "BACKUPS_BLOCK_FIELD_NAMES =
     [(''IS_BACKUPS_ENABLED'', BK_IS_BACKUPS_ENABLED),
      (''BACKUP_METHOD'', BK_BACKUP_METHOD),
      (''BACKUP_START_TIME'', BK_BACKUP_START_TIME),
      (''BACKUP_RETENTION'', BK_BACKUP_RETENTION),
      (''CONFIG'', BK_CONFIG),
      (''ACCESS_KEY'', BK_ACCESS_KEY),
      (''SECRET_KEY'', BK_SECRET_KEY)]"
  by (simp add: table_defs)

lemma names_of_BACKUP_METHODS:
  "BACKUP_METHODS =
     [(''PG_BACK_REST'', BKM_PG_BACK_REST),
      (''WAL_G'', BKM_WAL_G)]"
  by (simp add: table_defs)

lemma names_of_CONNECTION_POOLS_BLOCK_FIELD_NAMES:
  "CONNECTION_POOLS_BLOCK_FIELD_NAMES =
     [(''IS_CONNECTION_POOLER_ENABLED'', POOL_IS_CONNECTION_POOLER_ENABLED),
      (''POOLS'', POOL_POOLS),
      (''POOL_NAME'', POOL_POOL_NAME),
      (''POOL_SIZE'', POOL_POOL_SIZE),
      (''POOL_MODE'', POOL_POOL_MODE)]"
  by (simp add: table_defs)

lemma names_of_DATA_DIRECTORY_FIELD_NAMES:
  "DATA_DIRECTORY_FIELD_NAMES =
     [(''DATA_DIRECTORY'', DIR_DATA_DIRECTORY)]"
  by (simp add: table_defs)

lemma names_of_DATABASES_BLOCK_FIELD_NAMES:
  "DATABASES_BLOCK_FIELD_NAMES =
     [(''DATABASES'', DB_DATABASES),
      (''NAMES'', DB_NAMES),
      (''DATABASE_NAME'', DB_DATABASE_NAME),
      (''USER_NAME'', DB_USER_NAME),
      (''USER_PASSWORD'', DB_USER_PASSWORD),
      (''ENCODING'', DB_ENCODING),
      (''LOCALE'', DB_LOCALE),
      (''BLOCK_ID'', DB_BLOCK_ID)]"
  by (simp add: table_defs)

lemma names_of_DCS_BLOCK_FIELD_NAMES:
  "DCS_BLOCK_FIELD_NAMES =
     [(''TYPE'', DCS_TYPE),
      (''IS_DEPLOY_NEW_CLUSTER'', DCS_IS_DEPLOY_NEW_CLUSTER),
      (''IS_DEPLOY_TO_DB_SERVERS'', DCS_IS_DEPLOY_TO_DB_SERVERS),
      (''DCS_DATABASES'', DCS_DCS_DATABASES),
      (''DCS_DATABASE_HOSTNAME'', DCS_DCS_DATABASE_HOSTNAME),
      (''DCS_DATABASE_IP_ADDRESS'', DCS_DCS_DATABASE_IP_ADDRESS),
      (''DCS_DATABASE_PORT'', DCS_DCS_DATABASE_PORT)]"
  by (simp add: table_defs)

lemma names_of_DCS_TYPES:
  "DCS_TYPES =
     [(''ETCD'', DCST_ETCD),
      (''CONSUL'', DCST_CONSUL)]"
  by (simp add: table_defs)

lemma names_of_EXTENSION_BLOCK_FIELD_NAMES:
  "EXTENSION_BLOCK_FIELD_NAMES =
     [(''EXTENSIONS'', EXT_EXTENSIONS),
      (''IS_ENABLED'', EXT_IS_ENABLED)]"
  by (simp add: table_defs)

lemma names_of_KERNEL_PARAMETERS_FIELD_NAMES:
  "KERNEL_PARAMETERS_FIELD_NAMES =
     [(''KERNEL_PARAMETERS'', KRN_KERNEL_PARAMETERS)]"
  by (simp add: table_defs)

lemma names_of_NETWORK_BLOCK_FIELD_NAMES:
  "NETWORK_BLOCK_FIELD_NAMES =
     [(''SERVER_NETWORK'', NET_SERVER_NETWORK)]"
  by (simp add: table_defs)

lemma names_of_POSTGRES_PARAMETERS_FIELD_NAMES:
  "POSTGRES_PARAMETERS_FIELD_NAMES =
     [(''POSTGRES_PARAMETERS'', PG_POSTGRES_PARAMETERS)]"
  by (simp add: table_defs)

lemma names_of_INSTANCES_AMOUNT_BLOCK_VALUES:
  "INSTANCES_AMOUNT_BLOCK_VALUES =
     [(''INSTANCES_AMOUNT'', AMT_INSTANCES_AMOUNT),
      (''IS_SPOT_INSTANCES'', AMT_IS_SPOT_INSTANCES)]"
  by (simp add: table_defs)

lemma names_of_INSTANCES_BLOCK_FIELD_NAMES:
  "INSTANCES_BLOCK_FIELD_NAMES =
     [(''INSTANCE_TYPE'', INST_INSTANCE_TYPE),
      (''SERVER_TYPE'', INST_SERVER_TYPE)]"
  by (simp add: table_defs)

lemma names_of_LOAD_BALANCERS_FIELD_NAMES:
  "LOAD_BALANCERS_FIELD_NAMES =
     [(''IS_HAPROXY_ENABLED'', LB_IS_HAPROXY_ENABLED),
      (''IS_DEPLOY_TO_DATABASE_SERVERS'', LB_IS_DEPLOY_TO_DATABASE_SERVERS),
      (''LOAD_BALANCER_DATABASES'', LB_LOAD_BALANCER_DATABASES),
      (''LOAD_BALANCER_DATABASES_HOSTNAME'', LB_LOAD_BALANCER_DATABASES_HOSTNAME),
      (''LOAD_BALANCER_DATABASES_IP_ADDRESS'', LB_LOAD_BALANCER_DATABASES_IP_ADDRESS)]"
  by (simp add: table_defs)

lemma names_of_SSH_KEY_BLOCK_FIELD_NAMES:
  "SSH_KEY_BLOCK_FIELD_NAMES =
     [(''SSH_PUBLIC_KEY'', SSH_SSH_PUBLIC_KEY)]"
  by (simp add: table_defs)

lemma names_of_STORAGE_BLOCK_FIELDS:
  "STORAGE_BLOCK_FIELDS =
     [(''STORAGE_AMOUNT'', STO_STORAGE_AMOUNT),
      (''FILE_SYSTEM_TYPE'', STO_FILE_SYSTEM_TYPE),
      (''VOLUME_TYPE'', STO_VOLUME_TYPE)]"
  by (simp add: table_defs)

lemma names_of_AUTHENTICATION_METHODS:
  "AUTHENTICATION_METHODS =
     [(''SSH'', AUTH_SSH),
      (''PASSWORD'', AUTH_PASSWORD)]"
  by (simp add: table_defs)

lemma names_of_LOCAL_STORAGE_ITEMS:
  "LOCAL_STORAGE_ITEMS =
     [(''IS_EXPERT_MODE'', LS_IS_EXPERT_MODE),
      (''IS_YAML_ENABLED'', LS_IS_YAML_ENABLED)]"
  by (simp add: table_defs)

lemma names_of_PROVIDERS:
  "PROVIDERS =
     [(''AWS'', PROV_AWS),
      (''GCP'', PROV_GCP),
      (''AZURE'', PROV_AZURE),
      (''DIGITAL_OCEAN'', PROV_DIGITAL_OCEAN),
      (''HETZNER'', PROV_HETZNER),
      (''LOCAL'', PROV_LOCAL)]"
  by (simp add: table_defs)

lemma names_of_SECRET_MODAL_CONTENT_FORM_FIELD_NAMES:
  "SECRET_MODAL_CONTENT_FORM_FIELD_NAMES =
     [(''SECRET_TYPE'', SEC_SECRET_TYPE),
      (''SECRET_NAME'', SEC_SECRET_NAME),
      (''AWS_ACCESS_KEY_ID'', SEC_AWS_ACCESS_KEY_ID),
      (''AWS_SECRET_ACCESS_KEY'', SEC_AWS_SECRET_ACCESS_KEY),
      (''GCP_SERVICE_ACCOUNT_CONTENTS'', SEC_GCP_SERVICE_ACCOUNT_CONTENTS),
      (''DO_API_TOKEN'', SEC_DO_API_TOKEN),
      (''AZURE_SUBSCRIPTION_ID'', SEC_AZURE_SUBSCRIPTION_ID),
      (''AZURE_CLIENT_ID'', SEC_AZURE_CLIENT_ID),
      (''AZURE_SECRET'', SEC_AZURE_SECRET),
      (''AZURE_TENANT'', SEC_AZURE_TENANT),
      (''HCLOUD_API_TOKEN'', SEC_HCLOUD_API_TOKEN),
      (''SSH_PRIVATE_KEY'', SEC_SSH_PRIVATE_KEY),
      (''USERNAME'', SEC_USERNAME),
      (''PASSWORD'', SEC_PASSWORD)]"
  by (simp add: table_defs)

lemma names_of_CLUSTER_CREATION_TYPES:
  "CLUSTER_CREATION_TYPES =
     [(''FORM'', CREATE_FORM),
      (''YAML'', CREATE_YAML)]"
  by (simp add: table_defs)

lemma names_of_SETTINGS_FORM_FIELDS_NAMES:
  "SETTINGS_FORM_FIELDS_NAMES =
     [(''HTTP_PROXY'', SET_HTTP_PROXY),
      (''HTTPS_PROXY'', SET_HTTPS_PROXY),
      (''IS_EXPERT_MODE_ENABLED'', SET_IS_EXPERT_MODE_ENABLED),
      (''IS_YAML_ENABLED'', SET_IS_YAML_ENABLED)]"
  by (simp add: table_defs)

lemma names_of_CLUSTER_TABLE_COLUMN_NAMES:
  "CLUSTER_TABLE_COLUMN_NAMES =
     [(''NAME'', CT_NAME),
      (''STATUS'', CT_STATUS),
      (''CREATION_TIME'', CT_CREATION_TIME),
      (''ENVIRONMENT'', CT_ENVIRONMENT),
      (''SERVERS'', CT_SERVERS),
      (''POSTGRES_VERSION'', CT_POSTGRES_VERSION),
      (''LOCATION'', CT_LOCATION),
      (''ACTIONS'', CT_ACTIONS),
      (''ID'', CT_ID)]"
  by (simp add: table_defs)

lemma names_of_CLUSTER_STATUSES:
  "CLUSTER_STATUSES =
     [(''DEPLOYING'', CS_DEPLOYING),
      (''READY'', CS_READY),
      (''FAILED'', CS_FAILED),
      (''HEALTHY'', CS_HEALTHY),
      (''UNHEALTHY'', CS_UNHEALTHY),
      (''DEGRADED'', CS_DEGRADED),
      (''UNAVAILABLE'', CS_UNAVAILABLE)]"
  by (simp add: table_defs)

lemma names_of_OPERATIONS_TABLE_COLUMN_NAMES:
  "OPERATIONS_TABLE_COLUMN_NAMES =
     [(''ID'', OT_ID),
      (''STARTED'', OT_STARTED),
      (''FINISHED'', OT_FINISHED),
      (''TYPE'', OT_TYPE),
      (''STATUS'', OT_STATUS),
      (''CLUSTER'', OT_CLUSTER),
      (''ENVIRONMENT'', OT_ENVIRONMENT),
      (''ACTIONS'', OT_ACTIONS)]"
  by (simp add: table_defs)

lemma names_of_CLUSTER_OVERVIEW_TABLE_COLUMN_NAMES:
  "CLUSTER_OVERVIEW_TABLE_COLUMN_NAMES =
     [(''NAME'', COT_NAME),
      (''HOST'', COT_HOST),
      (''ROLE'', COT_ROLE),
      (''STATE'', COT_STATE),
      (''TIMELINE'', COT_TIMELINE),
      (''LAG_IN_MB'', COT_LAG_IN_MB),
      (''PENDING_RESTART'', COT_PENDING_RESTART),
      (''TAGS'', COT_TAGS),
      (''ID'', COT_ID)]"
  by (simp add: table_defs)

lemma names_of_ENVIRONMENTS_TABLE_COLUMN_NAMES:
  "ENVIRONMENTS_TABLE_COLUMN_NAMES =
     [(''ID'', ET_ID),
      (''NAME'', ET_NAME),
      (''DESCRIPTION'', ET_DESCRIPTION),
      (''CREATED'', ET_CREATED),
      (''UPDATED'', ET_UPDATED)]"
  by (simp add: table_defs)

lemma names_of_PROJECTS_TABLE_COLUMN_NAMES:
  "PROJECTS_TABLE_COLUMN_NAMES =
     [(''ID'', PT_ID),
      (''NAME'', PT_NAME),
      (''DESCRIPTION'', PT_DESCRIPTION),
      (''CREATED'', PT_CREATED),
      (''UPDATED'', PT_UPDATED)]"
  by (simp add: table_defs)

lemma names_of_SECRETS_TABLE_COLUMN_NAMES:
  "SECRETS_TABLE_COLUMN_NAMES =
     [(''NAME'', ST_NAME),
      (''TYPE'', ST_TYPE),
      (''CREATED'', ST_CREATED),
      (''UPDATED'', ST_UPDATED),
      (''USED'', ST_USED),
      (''ID'', ST_ID),
      (''USED_BY'', ST_USED_BY)]"
  by (simp add: table_defs)

lemma names_of_DATE_RANGE_VALUES:
  "DATE_RANGE_VALUES =
     [(''LAST_DAY'', DR_LAST_DAY),
      (''LAST_WEEK'', DR_LAST_WEEK),
      (''LAST_MONTH'', DR_LAST_MONTH),
      (''LAST_THREE_MONTHS'', DR_LAST_THREE_MONTHS),
      (''LAST_SIX_MONTHS'', DR_LAST_SIX_MONTHS),
      (''LAST_YEAR'', DR_LAST_YEAR)]"
  by (simp add: table_defs)

lemma names_of_ADD_ENTITY_FORM_NAMES:
  "ADD_ENTITY_FORM_NAMES =
     [(''NAME'', AE_NAME),
      (''DESCRIPTION'', AE_DESCRIPTION)]"
  by (simp add: table_defs)

lemma names_of_CLUSTER_FORM:
  "field CLUSTER_FORM_FIELD_NAMES ''PROVIDER'' = CF_PROVIDER \<and>
   field CLUSTER_FORM_FIELD_NAMES ''ENVIRONMENT_ID'' = CF_ENVIRONMENT_ID \<and>
   field CLUSTER_FORM_FIELD_NAMES ''CLUSTER_NAME'' = CF_CLUSTER_NAME \<and>
   field CLUSTER_FORM_FIELD_NAMES ''DESCRIPTION'' = CF_DESCRIPTION \<and>
   field CLUSTER_FORM_FIELD_NAMES ''POSTGRES_VERSION'' = CF_POSTGRES_VERSION \<and>
   field CLUSTER_FORM_FIELD_NAMES ''SECRET_ID'' = CF_SECRET_ID \<and>
   field CLUSTER_FORM_FIELD_NAMES ''CREATION_TYPE'' = CF_CREATION_TYPE \<and>
   field CLUSTER_FORM_FIELD_NAMES ''REGION'' = CF_REGION \<and>
   field CLUSTER_FORM_FIELD_NAMES ''REGION_CONFIG'' = CF_REGION_CONFIG \<and>
   field CLUSTER_FORM_FIELD_NAMES ''INSTANCE_CONFIG'' = CF_INSTANCE_CONFIG \<and>
   field CLUSTER_FORM_FIELD_NAMES ''EXISTING_CLUSTER'' = CF_EXISTING_CLUSTER \<and>
   field CLUSTER_FORM_FIELD_NAMES ''AUTHENTICATION_METHOD'' = CF_AUTHENTICATION_METHOD \<and>
   field CLUSTER_FORM_FIELD_NAMES ''SECRET_KEY_NAME'' = CF_SECRET_KEY_NAME \<and>
   field CLUSTER_FORM_FIELD_NAMES ''AUTHENTICATION_IS_SAVE_TO_CONSOLE'' = CF_AUTHENTICATION_IS_SAVE_TO_CONSOLE \<and>
   field CLUSTER_FORM_FIELD_NAMES ''CLUSTER_VIP_ADDRESS'' = CF_CLUSTER_VIP_ADDRESS \<and>
   field CLUSTER_FORM_FIELD_NAMES ''IS_USE_DEFINED_SECRET'' = CF_IS_USE_DEFINED_SECRET \<and>
   field CLUSTER_FORM_FIELD_NAMES ''INSTANCE_TYPE'' = CF_INSTANCE_TYPE \<and>
   field CLUSTER_FORM_FIELD_NAMES ''INSTANCES_AMOUNT'' = CF_INSTANCES_AMOUNT \<and>
   field CLUSTER_FORM_FIELD_NAMES ''IS_CLUSTER_EXISTS'' = CF_IS_CLUSTER_EXISTS \<and>
   field CLUSTER_FORM_FIELD_NAMES ''DATABASE_SERVERS'' = CF_DATABASE_SERVERS \<and>
   field CLUSTER_FORM_FIELD_NAMES ''IS_SPOT_INSTANCES'' = CF_IS_SPOT_INSTANCES"
  by code_simp

text \<open>No two entries of the cluster form's table share a name.\<close>

lemma cluster_form_names_distinct: "distinct (map snd CLUSTER_FORM_FIELD_NAMES)"
  by code_simp

end
