(* ===== verification/Stores.thy ===== *)
theory Stores
  imports JsText
begin

text \<open>
  The interface of a keyed store: what a lookup returns after a write. The sources use two
  providers for the same job, the spread \<open>{...acc, [k]: v}\<close> of a \<open>reduce\<close> and the
  assignment \<open>o[k] = v\<close> of a \<open>forEach\<close>; a third, \<open>localStorage\<close>, is interpreted
  where it is modelled. The client facts below are proved once and hold for all three.
\<close>

locale keyed_store =
  fixes empty :: "'s"
    and put :: "'s \<Rightarrow> 'k \<Rightarrow> 'v \<Rightarrow> 's"
    and look :: "'s \<Rightarrow> 'k \<Rightarrow> 'v option"
    and ok :: "'s \<Rightarrow> bool"
  assumes ok_empty: "ok empty"
    and ok_put: "ok s \<Longrightarrow> ok (put s k v)"
    and look_empty: "look empty k = None"
    and look_put: "ok s \<Longrightarrow> look (put s k v) k' = (if k = k' then Some v else look s k')"
begin

lemma ok_fold: "ok s \<Longrightarrow> ok (fold (\<lambda>x s. put s (f x) (g x)) xs s)"
  by (induction xs arbitrary: s) (auto simp: ok_put)

text \<open>After a run of writes a key holds the value of its last writer.\<close>

lemma look_fold:
  "ok s \<Longrightarrow> look (fold (\<lambda>x s. put s (f x) (g x)) xs s) k
     = (case find (\<lambda>x. f x = k) (rev xs) of Some x \<Rightarrow> Some (g x) | None \<Rightarrow> look s k)"
proof (induction xs arbitrary: s rule: rev_induct)
  case Nil
  then show ?case by simp
next
  case (snoc x xs)
  then show ?case by (simp add: look_put ok_fold)
qed

lemma look_fold_keys:
  "look (fold (\<lambda>x s. put s (f x) (g x)) xs empty) k \<noteq> None \<longleftrightarrow> k \<in> f ` set xs"
proof -
  have "find (\<lambda>x. f x = k) (rev xs) \<noteq> None \<longleftrightarrow> k \<in> f ` set xs"
    by (auto simp: find_None_iff)
  then show ?thesis
    by (auto simp: look_fold [OF ok_empty] look_empty split: option.splits)
qed

lemma find_distinct:
  "distinct (map f xs) \<Longrightarrow> x \<in> set xs \<Longrightarrow> find (\<lambda>y. f y = f x) xs = Some x"
  by (induction xs) (auto simp: image_iff)

text \<open>With distinct keys every writer keeps its own entry.\<close>

lemma look_fold_distinct:
  assumes "distinct (map f xs)" "x \<in> set xs"
  shows "look (fold (\<lambda>x s. put s (f x) (g x)) xs empty) (f x) = Some (g x)"
proof -
  have "find (\<lambda>y. f y = f x) (rev xs) = Some x"
    using assms by (intro find_distinct) (simp_all add: rev_map [symmetric])
  then show ?thesis by (simp add: look_fold [OF ok_empty])
qed

end

section \<open>The two object providers\<close>

definition look_obj :: "js \<Rightarrow> string \<Rightarrow> js option" where
  "look_obj ob k = map_of (own_props ob) k"

definition spread_put :: "js \<Rightarrow> string \<Rightarrow> js \<Rightarrow> js" where
  "spread_put acc k v = obj [Spread acc, P k v]"

fun assign_put :: "js \<Rightarrow> string \<Rightarrow> js \<Rightarrow> js" where
  "assign_put (Obj ps) k v = Obj (AList.update k v ps)"
| "assign_put x k v = x"

fun is_obj :: "js \<Rightarrow> bool" where
  "is_obj (Obj ps) = True"
| "is_obj _ = False"

lemma is_obj_obj [simp]: "is_obj (obj parts)"
  by (simp add: obj_def)

lemma look_obj_obj [obj_simps]: "look_obj (obj parts) k = lookup_parts parts k"
  by (simp add: look_obj_def map_of_own_props_obj)

lemma get_look_obj:
  "is_obj ob \<Longrightarrow> get ob k = (case look_obj ob k of Some v \<Rightarrow> v | None \<Rightarrow> Undef)"
  by (cases ob) (auto simp: look_obj_def)

text \<open>\<open>Object.fromEntries(Object.entries(o).filter(...))\<close>\<close>

lemma map_of_filter_key:
  "distinct (map fst es) \<Longrightarrow>
     map_of (filter Q es) k = (case map_of es k of Some v \<Rightarrow> if Q (k, v) then Some v else None | None \<Rightarrow> None)"
proof (induction es)
  case (Cons e es)
  then show ?case
    by (cases e) (auto simp: map_of_eq_None_iff split: option.split)
qed simp

lemma look_from_entries:
  "distinct (map fst es) \<Longrightarrow> look_obj (from_entries es) k = map_of es k"
  by (simp add: look_obj_def from_entries_def map_of_own_props_obj lookup_parts_from_entries map_of_rev_distinct)

lemma look_filtered_entries:
  "look_obj (from_entries (filter Q (entries (obj parts)))) k =
     (case lookup_parts parts k of Some v \<Rightarrow> if Q (k, v) then Some v else None | None \<Rightarrow> None)"
proof -
  have d: "distinct (map fst (entries (obj parts)))"
    using wf_obj_obj [of parts] by (simp add: entries_def wf_obj_def distinct_own_order)
  have "map_of (entries (obj parts)) k = lookup_parts parts k"
    using wf_obj_obj [of parts] by (simp add: entries_def wf_obj_def map_of_own_order map_of_own_props_obj)
  then show ?thesis
    by (simp add: look_from_entries distinct_map_filter [OF d] map_of_filter_key [OF d])
qed

interpretation spread_store: keyed_store "obj []" spread_put look_obj wf_obj
proof unfold_locales
  show "look_obj (spread_put s k v) k' = (if k = k' then Some v else look_obj s k')"
    if "wf_obj s" for s k v k'
    using lookup_spread_wf [OF that] by (simp add: spread_put_def obj_simps look_obj_def)
qed (simp_all add: spread_put_def obj_simps)

interpretation assign_store: keyed_store "obj []" assign_put look_obj is_obj
proof unfold_locales
  show "is_obj (assign_put s k v)" if "is_obj s" for s k v
    using that by (cases s) auto
  show "look_obj (assign_put s k v) k' = (if k = k' then Some v else look_obj s k')"
    if "is_obj s" for s k v k'
    using that by (cases s) (auto simp: look_obj_def map_of_update)
qed (simp_all add: obj_simps)

end
