(* ===== verification/ExtraVars.thy ===== *)
theory ExtraVars
  imports FormFields Stores
begin

text \<open>
  \<open>shared/lib/clusterValuesTransformFunctions.ts\<close>, first part: what the cluster form's
  values become in the \<open>extra_vars\<close> of a request. \<open>values\<close> is the form's value object;
  \<open>expert\<close> is the module variable \<open>IS_EXPERT_MODE\<close>.
\<close>

section \<open>Postgres, kernel and backup parameters\<close>

definition is_newline :: "char \<Rightarrow> bool" where
  "is_newline c \<longleftrightarrow> c = CHR 0x0A \<or> c = CHR 0x0D"

definition is_separator :: "char \<Rightarrow> bool" where
  "is_separator c \<longleftrightarrow> c = CHR '':'' \<or> c = CHR ''=''"

text \<open>The callback of \<open>map\<close>: \<open>values?.[1].trim()\<close> throws on a line without separator.\<close>

definition convert_line :: "string \<Rightarrow> js res" where
  "convert_line item =
     (case split_on is_separator item of
        a # b # _ \<Rightarrow> Ok (obj [P ''option'' (Str (trim a)), P ''value'' (Str (trim b))])
      | _ \<Rightarrow> Throw TypeError)"

definition convertModalParametersToArray :: "js \<Rightarrow> js res" where
  "convertModalParametersToArray value =
     (if has_length value
      then (case value of
              Str s \<Rightarrow> map_res Arr (map_all convert_line (split_on is_newline s))
            | _ \<Rightarrow> Throw TypeError)
      else Ok value)"

lemma convert_line_Ok_iff:
  "is_ok (convert_line item) \<longleftrightarrow> (\<exists>c \<in> set item. is_separator c)"
proof (cases "\<exists>c \<in> set item. is_separator c")
  case True
  then obtain a c b where "item = a @ c # b" "is_separator c" "\<forall>x \<in> set a. \<not> is_separator x"
    by (metis split_list_first_prop)
  then have "split_on is_separator item = a # split_on is_separator b"
    by (simp add: split_on_append)
  then show ?thesis using True
    by (cases "split_on is_separator b") (auto simp: convert_line_def)
next
  case False
  then show ?thesis by (simp add: convert_line_def)
qed

lemma convert_line_parts:
  "\<forall>c \<in> set a. \<not> is_separator c \<Longrightarrow> \<forall>c \<in> set b. \<not> is_separator c \<Longrightarrow> is_separator d \<Longrightarrow>
     convert_line (a @ d # b) = Ok (obj [P ''option'' (Str (trim a)), P ''value'' (Str (trim b))])"
  by (simp add: convert_line_def split_on_append)

section \<open>Variables of every cluster\<close>

definition getCommonExtraVars :: "js \<Rightarrow> js" where
  "getCommonExtraVars values = obj
     [P ''postgresql_version'' (get values CF_POSTGRES_VERSION),
      P ''patroni_cluster_name'' (get values CF_CLUSTER_NAME)]"

section \<open>Variables of a cloud cluster\<close>

definition PROVIDER_CODE_TO_ANSIBLE_USER_MAP :: js where
  "PROVIDER_CODE_TO_ANSIBLE_USER_MAP = obj
     [P PROV_AWS (Str ''ubuntu''),
      P PROV_GCP (Str ''root''),
      P PROV_AZURE (Str ''azureadmin''),
      P PROV_DIGITAL_OCEAN (Str ''root''),
      P PROV_HETZNER (Str ''root'')]"

text \<open>\<open>[a, b, c].includes(v)\<close> for strings.\<close>

definition one_of :: "string list \<Rightarrow> js \<Rightarrow> bool" where
  "one_of names v \<longleftrightarrow> v \<in> Str ` set names"

text \<open>\<open>key.split(/[\n\r]/).map((key) => `'${key}'`)\<close>, where the value has a length.\<close>

definition quote_keys :: "js \<Rightarrow> js res" where
  "quote_keys v = (case v of
       Str s \<Rightarrow> Ok (Arr (map (\<lambda>key. Str ([CHR 0x27] @ key @ [CHR 0x27])) (split_on is_newline s)))
     | _ \<Rightarrow> Throw TypeError)"

definition cloud_expert_vars :: "js \<Rightarrow> part list" where
  "cloud_expert_vars values =
     [P ''postgresql_data_dir_mount_fstype'' (get values STO_FILE_SYSTEM_TYPE),
      P ''volume_type'' (get values STO_VOLUME_TYPE),
      P ''database_public_access'' (to_bool (get values ADS_IS_DB_PUBLIC_ACCESS)),
      P ''cloud_load_balancer'' (to_bool (get values ADS_IS_CLOUD_LOAD_BALANCER)),
      Spread_if (one_of [PROV_AWS, PROV_GCP, PROV_AZURE] (get (get values CF_PROVIDER) ''code'')
                   \<and> truthy (get values AMT_IS_SPOT_INSTANCES))
        [P ''server_spot'' (Bool True)],
      Spread_if (truthy (get values NET_SERVER_NETWORK))
        [P ''server_network'' (get values NET_SERVER_NETWORK)]]"

definition getCloudProviderExtraVars :: "bool \<Rightarrow> js \<Rightarrow> js res" where
  "getCloudProviderExtraVars expert values =
     and_then (member (get values CF_PROVIDER) ''code'') (\<lambda>provider_code.
     and_then (if get values CF_INSTANCE_TYPE = Str ''custom''
               then Ok (get values INST_SERVER_TYPE)
               else member (get values CF_INSTANCE_CONFIG) ''code'') (\<lambda>server_type.
     and_then (member (get values CF_REGION_CONFIG) ''code'') (\<lambda>region_code.
     and_then (if has_length (get values SSH_SSH_PUBLIC_KEY)
               then map_res (\<lambda>ks. obj [P ''ssh_public_keys'' ks]) (quote_keys (get values SSH_SSH_PUBLIC_KEY))
               else Ok (obj [])) (\<lambda>ssh_keys.
     and_then (member (get (get values CF_REGION_CONFIG) ''cloud_image'') ''image'') (\<lambda>image.
     Ok (obj
       [Spread (getCommonExtraVars values),
        P ''cloud_provider'' provider_code,
        P ''server_type'' server_type,
        P ''server_location'' region_code,
        P ''server_count'' (get values CF_INSTANCES_AMOUNT),
        P ''volume_size'' (get values STO_STORAGE_AMOUNT),
        P ''ansible_user'' (get PROVIDER_CODE_TO_ANSIBLE_USER_MAP (js_str provider_code)),
        Spread ssh_keys,
        Spread image,
        Spread_if expert (cloud_expert_vars values)]))))))"

section \<open>Variables of a cluster on the user's own machines\<close>

text \<open>\<open>v?.map(f)\<close>\<close>

definition opt_map :: "(js \<Rightarrow> js res) \<Rightarrow> js \<Rightarrow> js res" where
  "opt_map f v =
     (if nullish v then Ok Undef
      else case v of Arr xs \<Rightarrow> map_res Arr (map_all f xs) | _ \<Rightarrow> Throw TypeError)"

definition etcd_host :: "js \<Rightarrow> js res" where
  "etcd_host database =
     and_then (member database DCS_DCS_DATABASE_IP_ADDRESS) (\<lambda>host.
     and_then (member database DCS_DCS_DATABASE_PORT) (\<lambda>port.
     Ok (obj [P ''host'' host, P ''port'' port])))"

definition existing_dcs_vars :: "js \<Rightarrow> js res" where
  "existing_dcs_vars values =
     (if get values DCS_TYPE = Str DCST_ETCD
      then and_then (opt_map etcd_host (get values DCS_DCS_DATABASES)) (\<lambda>hosts.
             Ok (obj [P ''dcs_exists'' (Bool True), Spread (obj [P ''patroni_etcd_hosts'' hosts])]))
      else and_then (opt_map (\<lambda>database. member database DCS_DCS_DATABASE_IP_ADDRESS)
                      (get values DCS_DCS_DATABASES)) (\<lambda>hosts.
             Ok (obj [P ''dcs_exists'' (Bool True),
                      Spread (obj [P ''consul_join'' hosts, P ''consul_ports_serf_lan'' (Num 8301)])])))"

definition getLocalMachineExtraVars :: "bool \<Rightarrow> js \<Rightarrow> js \<Rightarrow> js res" where
  "getLocalMachineExtraVars expert values secretId =
     and_then (if expert
               then and_then (if \<not> truthy (get values DCS_IS_DEPLOY_NEW_CLUSTER)
                              then existing_dcs_vars values else Ok (obj [])) (\<lambda>dcs.
                    Ok (obj [P ''dcs_type'' (get values DCS_TYPE),
                             Spread dcs,
                             P ''postgresql_data_dir'' (get values DIR_DATA_DIRECTORY)]))
               else Ok (obj [])) (\<lambda>expert_vars.
     Ok (obj
       [Spread (getCommonExtraVars values),
        Spread_if (truthy (get values CF_CLUSTER_VIP_ADDRESS))
          [P ''cluster_vip'' (get values CF_CLUSTER_VIP_ADDRESS)],
        Spread_if (truthy (get values LB_IS_HAPROXY_ENABLED))
          [P ''with_haproxy_load_balancing'' (Bool True)],
        Spread_if (truthy (get values CF_IS_CLUSTER_EXISTS))
          [P ''existing_cluster'' (Bool True)],
        Spread_if (\<not> truthy secretId \<and> \<not> truthy (get values CF_IS_USE_DEFINED_SECRET)
                     \<and> get values CF_AUTHENTICATION_METHOD = Str AUTH_PASSWORD)
          [P ''ansible_user'' (get values SEC_USERNAME),
           P ''ansible_ssh_pass'' (get values SEC_PASSWORD)],
        Spread expert_vars]))"

section \<open>Facts\<close>

lemma lookup_common [obj_simps]:
  "lookup_part (Spread (getCommonExtraVars values)) k =
     (if k = ''patroni_cluster_name'' then Some (get values CF_CLUSTER_NAME)
      else if k = ''postgresql_version'' then Some (get values CF_POSTGRES_VERSION) else None)"
  by (simp add: getCommonExtraVars_def)

lemma getCloudProviderExtraVars_Ok_iff:
  "is_ok (getCloudProviderExtraVars expert values) \<longleftrightarrow>
     \<not> nullish (get values CF_PROVIDER)
     \<and> (get values CF_INSTANCE_TYPE = Str ''custom'' \<or> \<not> nullish (get values CF_INSTANCE_CONFIG))
     \<and> \<not> nullish (get values CF_REGION_CONFIG)
     \<and> (has_length (get values SSH_SSH_PUBLIC_KEY) \<longrightarrow> (\<exists>s. get values SSH_SSH_PUBLIC_KEY = Str s))
     \<and> \<not> nullish (get (get values CF_REGION_CONFIG) ''cloud_image'')"
  by (cases "get values SSH_SSH_PUBLIC_KEY")
     (auto simp: getCloudProviderExtraVars_def res_simps quote_keys_def)

lemma opt_map_member_Ok:
  "opt_map f (Arr xs) = Ok (Arr (map g xs))" if "\<And>x. x \<in> set xs \<Longrightarrow> f x = Ok (g x)"
  using map_all_Ok [of xs f g] that by (simp add: opt_map_def)

end
