(* ===== verification/Inventory.thy ===== *)
theory Inventory
  imports ExtraVars
begin

text \<open>
  \<open>shared/lib/clusterValuesTransformFunctions.ts\<close>, second part: the Ansible inventory of a
  cluster on the user's own machines. Host groups are built by \<open>reduce\<close> over the rows of
  the form; the fact about every group is the client fact of \<open>keyed_store\<close>: a group
  holds one entry per address, made from the last row with that address.
\<close>

section \<open>Host groups\<close>

text \<open>\<open>rows.reduce((acc, row) => ({...acc, [row[ip]]: entry(row)}), {})\<close>\<close>

definition host_row :: "string \<Rightarrow> (js \<Rightarrow> part list) \<Rightarrow> js \<Rightarrow> js \<Rightarrow> js res" where
  "host_row ip entry acc server =
     and_then (member server ip) (\<lambda>key. Ok (spread_put acc (js_str key) (obj (entry server))))"

definition reduce_hosts :: "string \<Rightarrow> (js \<Rightarrow> part list) \<Rightarrow> js \<Rightarrow> js res" where
  "reduce_hosts ip entry rows =
     (case rows of Arr xs \<Rightarrow> fold_res (host_row ip entry) (obj []) xs | _ \<Rightarrow> Throw TypeError)"

definition param_default :: "js \<Rightarrow> js \<Rightarrow> js" where
  "param_default v d = (if v = Undef then d else v)"

definition configureHosts :: "js \<Rightarrow> string \<Rightarrow> js \<Rightarrow> js \<Rightarrow> js res" where
  "configureHosts values role addHostname dbServers =
     (let shouldAddHostname = truthy (param_default addHostname (Bool False));
          isDbServers = truthy (param_default dbServers (Bool True));
          servers = (if isDbServers then DBS_DATABASE_SERVERS else DCS_DCS_DATABASES);
          ipAddress = (if isDbServers then DBS_DATABASE_IP_ADDRESS else DCS_DCS_DATABASE_IP_ADDRESS);
          hostname = (if isDbServers then [] else DCS_DCS_DATABASE_HOSTNAME)
      in reduce_hosts ipAddress
           (\<lambda>server. [P ''ansible_host'' (get server ipAddress),
                       Spread_if (shouldAddHostname \<and> hostname \<noteq> []) [P ''hostname'' (get server hostname)],
                       Spread_if (role \<noteq> []) [P ''consul_node_role'' (Str role)]])
           (get values servers))"

section \<open>DCS and balancer groups\<close>

definition hosts_group :: "js \<Rightarrow> js" where
  "hosts_group hosts = obj [P ''hosts'' hosts]"

definition constructDcsEnvs :: "bool \<Rightarrow> js \<Rightarrow> js res" where
  "constructDcsEnvs expert values =
     (if truthy (get values DCS_IS_DEPLOY_NEW_CLUSTER) then
        if \<not> expert then
          and_then (configureHosts values [] Undef Undef) (\<lambda>hosts.
            Ok (obj [P ''etcd_cluster'' (hosts_group hosts), P ''consul_instances'' (hosts_group (obj []))]))
        else if get values DCS_TYPE = Str DCST_ETCD then
          and_then (configureHosts values []
                      (Bool (\<not> truthy (get values DCS_IS_DEPLOY_TO_DB_SERVERS)))
                      (get values DCS_IS_DEPLOY_TO_DB_SERVERS)) (\<lambda>hosts.
            Ok (obj [P ''etcd_cluster'' (hosts_group hosts), P ''consul_instances'' (hosts_group (obj []))]))
        else if get values DCS_TYPE = Str DCST_CONSUL then
          and_then (if truthy (get values DCS_IS_DEPLOY_TO_DB_SERVERS)
                    then configureHosts values ''server'' Undef Undef
                    else and_then (configureHosts values ''client'' Undef Undef) (\<lambda>clients.
                         and_then (configureHosts values ''server'' (Bool True) (Bool False)) (\<lambda>servers.
                         Ok (obj [Spread clients, Spread servers])))) (\<lambda>hosts.
            Ok (obj [P ''etcd_cluster'' (hosts_group (obj [])), P ''consul_instances'' (hosts_group hosts)]))
        else Ok (obj [P ''etcd_cluster'' (hosts_group (obj [])), P ''consul_instances'' (hosts_group (obj []))])
      else if expert \<and> get values DCS_TYPE = Str DCST_CONSUL then
        and_then (configureHosts values ''client'' Undef Undef) (\<lambda>hosts.
          Ok (obj [P ''consul_instances'' (hosts_group hosts)]))
      else Ok Undef)"

definition constructBalancersEnvs :: "bool \<Rightarrow> js \<Rightarrow> js res" where
  "constructBalancersEnvs expert values =
     and_then
       (if truthy (get values LB_IS_HAPROXY_ENABLED) then
          if expert \<and> \<not> truthy (get values LB_IS_DEPLOY_TO_DATABASE_SERVERS) then
            reduce_hosts LB_LOAD_BALANCER_DATABASES_IP_ADDRESS
              (\<lambda>server. [P ''ansible_host'' (get server LB_LOAD_BALANCER_DATABASES_IP_ADDRESS)])
              (get values LB_LOAD_BALANCER_DATABASES)
          else
            reduce_hosts DBS_DATABASE_IP_ADDRESS
              (\<lambda>server. [P ''ansible_host'' (get server DBS_DATABASE_IP_ADDRESS)])
              (get values DBS_DATABASE_SERVERS)
        else Ok (obj []))
       (\<lambda>balancerHosts. Ok (obj [P ''balancers'' (hosts_group balancerHosts)]))"

section \<open>The inventory\<close>

definition postgresql_exists :: "bool \<Rightarrow> js \<Rightarrow> js \<Rightarrow> js" where
  "postgresql_exists expert values server =
     (if expert then get server DBS_IS_POSTGRESQL_EXISTS
      else coalesce (get values DBS_IS_CLUSTER_EXISTS) (Bool False))"

definition db_server_entry :: "bool \<Rightarrow> js \<Rightarrow> js \<Rightarrow> part list" where
  "db_server_entry expert values server =
     [P ''hostname'' (get server DBS_DATABASE_HOSTNAME),
      P ''ansible_host'' (get server DBS_DATABASE_IP_ADDRESS),
      P ''server_location'' (get server DBS_DATABASE_LOCATION),
      P ''postgresql_exists'' (postgresql_exists expert values server)]"

definition slice_from :: "nat \<Rightarrow> js \<Rightarrow> js" where
  "slice_from n v = (case v of Arr xs \<Rightarrow> Arr (drop n xs) | _ \<Rightarrow> Undef)"

definition length_above :: "int \<Rightarrow> js \<Rightarrow> bool" where
  "length_above n v = (case get v ''length'' of Num m \<Rightarrow> m > n | _ \<Rightarrow> False)"

definition inventory_vars :: "js \<Rightarrow> js" where
  "inventory_vars values = obj
     [P ''ansible_user'' (get values SEC_USERNAME),
      Spread_if (get values CF_AUTHENTICATION_METHOD = Str AUTH_PASSWORD)
        [P ''ansible_ssh_pass'' (get values SEC_USERNAME),
         P ''ansible_sudo_pass'' (get values SEC_PASSWORD)]]"

definition inventory_children :: "bool \<Rightarrow> js \<Rightarrow> js res" where
  "inventory_children expert values =
     (let servers = get values DBS_DATABASE_SERVERS in
      and_then (constructBalancersEnvs expert values) (\<lambda>balancers.
      and_then (constructDcsEnvs expert values) (\<lambda>dcs.
      and_then (member servers ''0'') (\<lambda>first.
      and_then (member first DBS_DATABASE_IP_ADDRESS) (\<lambda>master_ip.
      and_then (if length_above 1 servers
                then map_res (\<lambda>hosts. obj [P ''replica'' (hosts_group hosts)])
                       (reduce_hosts DBS_DATABASE_IP_ADDRESS (db_server_entry expert values) (slice_from 1 servers))
                else Ok (obj [])) (\<lambda>replica.
      Ok (obj
        [Spread balancers,
         Spread dcs,
         P ''master'' (hosts_group (obj [P (js_str master_ip) (obj (db_server_entry expert values first))])),
         Spread replica,
         P ''postgres_cluster''
           (obj [P ''children'' (obj [P ''master'' (obj []), P ''replica'' (obj [])])])])))))))"

definition getLocalMachineEnvs :: "bool \<Rightarrow> js \<Rightarrow> js \<Rightarrow> js res" where
  "getLocalMachineEnvs expert values secretId =
     and_then (inventory_children expert values) (\<lambda>children.
     Ok (obj
       [Spread_if (get values CF_AUTHENTICATION_METHOD = Str AUTH_SSH
                     \<and> \<not> truthy (get values CF_IS_USE_DEFINED_SECRET) \<and> \<not> truthy secretId)
          [P ''SSH_PRIVATE_KEY_CONTENT'' (get values SEC_SSH_PRIVATE_KEY)],
        P ''ANSIBLE_INVENTORY_JSON''
          (obj [P ''all'' (obj [P ''vars'' (inventory_vars values), P ''children'' children])])]))"

section \<open>What a host group holds\<close>

definition row_key :: "string \<Rightarrow> js \<Rightarrow> string" where
  "row_key ip server = js_str (get server ip)"

lemma reduce_hosts_Ok:
  "\<forall>x \<in> set xs. \<not> nullish x \<Longrightarrow>
     reduce_hosts ip entry (Arr xs)
       = Ok (fold (\<lambda>x s. spread_put s (row_key ip x) (obj (entry x))) xs (obj []))"
  by (simp add: reduce_hosts_def host_row_def member_def row_key_def fold_res_Ok)

lemma reduce_hosts_Ok_iff:
  "is_ok (reduce_hosts ip entry rows) \<longleftrightarrow> (\<exists>xs. rows = Arr xs \<and> (\<forall>x \<in> set xs. \<not> nullish x))"
proof (cases rows)
  case (Arr xs)
  show ?thesis
  proof (cases "\<forall>x \<in> set xs. \<not> nullish x")
    case True
    then show ?thesis by (simp add: Arr reduce_hosts_Ok)
  next
    case False
    then have "\<exists>x \<in> set xs. \<forall>acc. \<exists>e. host_row ip entry acc x = Throw e"
      by (auto simp: host_row_def member_def)
    from fold_res_Throw [OF this] obtain e where "fold_res (host_row ip entry) (obj []) xs = Throw e"
      by blast
    then show ?thesis using False by (simp add: Arr reduce_hosts_def)
  qed
qed (auto simp: reduce_hosts_def)

text \<open>The group as a map: the last row with an address makes its entry.\<close>

lemma look_reduce_hosts:
  assumes "reduce_hosts ip entry (Arr xs) = Ok hosts"
  shows "look_obj hosts k
     = (case find (\<lambda>x. row_key ip x = k) (rev xs) of Some x \<Rightarrow> Some (obj (entry x)) | None \<Rightarrow> None)"
proof -
  have "\<forall>x \<in> set xs. \<not> nullish x"
    using assms reduce_hosts_Ok_iff [of ip entry "Arr xs"] by auto
  then have "hosts = fold (\<lambda>x s. spread_put s (row_key ip x) (obj (entry x))) xs (obj [])"
    using assms by (simp add: reduce_hosts_Ok)
  then show ?thesis
    by (simp add: spread_store.look_fold [OF spread_store.ok_empty] spread_store.look_empty
                  split: option.split)
qed

lemma wf_spread_put [simp]: "wf_obj (spread_put s k v)"
  by (simp add: spread_put_def)

lemma wf_reduce_hosts: "reduce_hosts ip entry rows = Ok hosts \<Longrightarrow> wf_obj hosts"
proof (cases rows)
  case (Arr xs)
  assume r: "reduce_hosts ip entry rows = Ok hosts"
  then have "\<forall>x \<in> set xs. \<not> nullish x"
    using reduce_hosts_Ok_iff [of ip entry rows] Arr by auto
  then show ?thesis
    using r spread_store.ok_fold [OF spread_store.ok_empty] by (auto simp: Arr reduce_hosts_Ok)
qed (auto simp: reduce_hosts_def)

lemma look_reduce_hosts_keys:
  assumes "reduce_hosts ip entry (Arr xs) = Ok hosts"
  shows "look_obj hosts k \<noteq> None \<longleftrightarrow> k \<in> row_key ip ` set xs"
proof -
  have "find (\<lambda>x. row_key ip x = k) (rev xs) = None \<longleftrightarrow> k \<notin> row_key ip ` set xs"
    by (auto simp: find_None_iff)
  then show ?thesis
    by (cases "find (\<lambda>x. row_key ip x = k) (rev xs)") (simp_all add: look_reduce_hosts [OF assms])
qed

lemma look_reduce_hosts_distinct:
  assumes "reduce_hosts ip entry (Arr xs) = Ok hosts" "distinct (map (row_key ip) xs)" "x \<in> set xs"
  shows "look_obj hosts (row_key ip x) = Some (obj (entry x))"
proof -
  have "find (\<lambda>y. row_key ip y = row_key ip x) (rev xs) = Some x"
    using assms(2,3) by (intro spread_store.find_distinct) (simp_all add: rev_map [symmetric])
  then show ?thesis by (simp add: look_reduce_hosts [OF assms(1)])
qed

end
