(* ===== verification/Request.thy ===== *)
theory Request
  imports Inventory
begin

text \<open>
  \<open>shared/lib/clusterValuesTransformFunctions.ts\<close>, third part: the body of the request that
  creates a cluster. \<open>isEmpty\<close> is lodash's function, a parameter.
\<close>

section \<open>Extensions\<close>

text \<open>One extension: its entries of \<open>db\<close>, one per chosen database.\<close>

definition extension_dbs :: "js \<Rightarrow> string \<Rightarrow> js \<Rightarrow> js list res" where
  "extension_dbs values key value =
     (case get value ''db'' of
        Arr items \<Rightarrow>
          map_all (\<lambda>item. map_res (\<lambda>name. obj [P ''ext'' (Str key), P ''db'' name])
                            (member (get values DB_NAMES) (js_str item))) items
      | _ \<Rightarrow> Throw TypeError)"

text \<open>The accumulator \<open>{db, extraVars}\<close> of the \<open>reduce\<close> is a pair.\<close>

definition add_extension :: "js \<Rightarrow> js list \<times> js \<Rightarrow> string \<times> js \<Rightarrow> (js list \<times> js) res" where
  "add_extension values acc kv =
     (let (key, value) = kv in
      if has_length (get value ''db'')
      then and_then (extension_dbs values key value) (\<lambda>converted.
             Ok (fst acc @ converted,
                 if truthy (get value ''isThirdParty'')
                 then obj [Spread (snd acc), P (''enable_'' @ key) (Bool True)]
                 else snd acc))
      else Ok acc)"

definition getExtensions :: "js \<Rightarrow> js res" where
  "getExtensions values =
     (if nullish (get values EXT_EXTENSIONS) then Throw TypeError
      else map_res (\<lambda>(db, extraVars). obj [P ''db'' (Arr db), P ''extraVars'' extraVars])
             (fold_res (add_extension values) ([], obj []) (entries (get values EXT_EXTENSIONS))))"

section \<open>Variables shared by both kinds of cluster\<close>

definition is_s3_provider :: "js \<Rightarrow> bool" where
  "is_s3_provider values = one_of [PROV_DIGITAL_OCEAN, PROV_HETZNER] (get (get values CF_PROVIDER) ''code'')"

definition pgbackrest_vars :: "js \<Rightarrow> js res" where
  "pgbackrest_vars values =
     and_then (if truthy (get values BK_CONFIG)
               then map_res (\<lambda>c. obj [P ''pgbackrest_auto_conf'' (Bool False),
                                       P ''pgbackrest_conf'' (obj [P ''global'' c])])
                      (convertModalParametersToArray (get values BK_CONFIG))
               else Ok (obj [])) (\<lambda>conf.
     Ok (obj
       [P ''pgbackrest_install'' (Bool True),
        P ''pgbackrest_backup_hour'' (get values BK_BACKUP_START_TIME),
        P ''pgbackrest_retention_full'' (get values BK_BACKUP_RETENTION),
        P ''pgbackrest_retention_full_type'' (Str ''time''),
        Spread conf,
        Spread_if (is_s3_provider values)
          [P ''pgbackrest_s3_key'' (get values BK_ACCESS_KEY),
           P ''pgbackrest_s3_key_secret'' (get values BK_SECRET_KEY)]]))"

definition wal_g_vars :: "js \<Rightarrow> js res" where
  "wal_g_vars values =
     and_then (if truthy (get values BK_CONFIG)
               then map_res (\<lambda>c. obj [P ''wal_g_auto_conf'' (Bool False), P ''wal_g_json'' c])
                      (convertModalParametersToArray (get values BK_CONFIG))
               else Ok (obj [])) (\<lambda>conf.
     Ok (obj
       [P ''wal_g_install'' (Bool True),
        P ''wal_g_backup_hour'' (get values BK_BACKUP_START_TIME),
        P ''wal_g_retention_full'' (get values BK_BACKUP_RETENTION),
        Spread conf,
        Spread_if (is_s3_provider values)
          [P ''wal_g_aws_access_key_id'' (get values BK_ACCESS_KEY),
           P ''wal_g_aws_secret_access_key'' (get values BK_SECRET_KEY)]]))"

definition backup_vars :: "js \<Rightarrow> js res" where
  "backup_vars values =
     (if truthy (get values BK_IS_BACKUPS_ENABLED) \<and> truthy (get values BK_BACKUP_METHOD)
      then if get values BK_BACKUP_METHOD = Str BKM_PG_BACK_REST
           then pgbackrest_vars values else wal_g_vars values
      else Ok (obj [P ''pgbackrest_install'' (Bool False), P ''pgbackrest_auto_conf'' (Bool False)]))"

definition pool_vars :: "js \<Rightarrow> js res" where
  "pool_vars values =
     (if truthy (get values POOL_IS_CONNECTION_POOLER_ENABLED)
      then map_res (\<lambda>pools. obj [P ''pgbouncer_pools'' pools])
             (opt_map (\<lambda>pool. Ok (obj
                [P ''name'' (get pool POOL_POOL_NAME),
                 P ''dbname'' (get pool POOL_POOL_NAME),
                 P ''pool_parameters'' (obj
                   [P ''pool_size'' (get pool POOL_POOL_SIZE),
                    P ''pool_mode'' (get pool POOL_POOL_MODE)])]))
                (get values POOL_POOLS))
      else Ok (obj []))"

definition parameter_vars :: "js \<Rightarrow> js res" where
  "parameter_vars values =
     and_then (if truthy (get values PG_POSTGRES_PARAMETERS)
               then map_res (\<lambda>c. obj [P ''local_postgresql_parameters'' c])
                      (convertModalParametersToArray (get values PG_POSTGRES_PARAMETERS))
               else Ok (obj [])) (\<lambda>postgres.
     and_then (if truthy (get values KRN_KERNEL_PARAMETERS)
               then map_res (\<lambda>c. obj [P ''sysctl_set'' (Bool True),
                                       P ''sysctl_conf'' (obj [P ''postgres_cluster'' c])])
                      (convertModalParametersToArray (get values KRN_KERNEL_PARAMETERS))
               else Ok (obj [])) (\<lambda>kernel.
     Ok (obj [Spread postgres, Spread kernel])))"

definition database_var :: "js \<Rightarrow> js" where
  "database_var db = obj
     [P ''db'' (get db DB_DATABASE_NAME),
      P ''owner'' (get db DB_USER_NAME),
      P ''encoding'' (get db DB_ENCODING),
      P ''lc_ctype'' (get db DB_LOCALE),
      P ''lc_collate'' (get db DB_LOCALE)]"

definition user_var :: "js \<Rightarrow> js" where
  "user_var db = obj
     [P ''name'' (get db DB_USER_NAME), P ''password'' (get db DB_USER_PASSWORD)]"

definition baseExtraVars :: "js \<Rightarrow> part list" where
  "baseExtraVars values =
     [P ''environment_id'' (get values CF_ENVIRONMENT_ID),
      P ''description'' (get values CF_DESCRIPTION)]"

definition getBaseClusterExtraVars :: "bool \<Rightarrow> js \<Rightarrow> js res" where
  "getBaseClusterExtraVars expert values =
     (if \<not> expert then Ok (obj (baseExtraVars values))
      else
        and_then (getExtensions values) (\<lambda>extensions.
        and_then (opt_map (\<lambda>db. Ok (database_var db)) (get values DB_DATABASES)) (\<lambda>databases.
        and_then (opt_map (\<lambda>db. Ok (user_var db)) (get values DB_DATABASES)) (\<lambda>users.
        and_then (pool_vars values) (\<lambda>pools.
        and_then (backup_vars values) (\<lambda>backups.
        and_then (parameter_vars values) (\<lambda>parameters.
        Ok (obj
          [Spread (obj (baseExtraVars values)),
           P ''postgresql_databases'' databases,
           P ''postgresql_users'' users,
           P ''pgbouncer_install'' (to_bool (get values POOL_IS_CONNECTION_POOLER_ENABLED)),
           P ''netdata_install'' (to_bool (get values ADS_IS_NETDATA_MONITORING)),
           Spread pools,
           Spread_if (has_length (get extensions ''db''))
             [P ''postgresql_extensions'' (get extensions ''db'')],
           Spread (get extensions ''extraVars''),
           Spread backups,
           Spread parameters,
           Spread_if (truthy (get values ADS_SYNC_STANDBY_NODES))
             [P ''synchronous_mode'' (Bool True),
              P ''synchronous_node_count'' (get values ADS_SYNC_STANDBY_NODES),
              Spread_if (truthy (get values ADS_IS_SYNC_MODE_STRICT))
                [P ''synchronous_mode_strict'' (Bool True)]]]))))))))"

section \<open>The environment of the playbook\<close>

text \<open>A string goes as it is, another value as JSON, and \<open>undefined\<close> as the empty text.\<close>

definition env_raw :: "js \<Rightarrow> string" where
  "env_raw value =
     (case value of
        Str s \<Rightarrow> s
      | _ \<Rightarrow> (case stringify value of Some s \<Rightarrow> s | None \<Rightarrow> []))"

definition convertObjectValueToBase64Format :: "js \<Rightarrow> js" where
  "convertObjectValueToBase64Format ob =
     Arr (fold (\<lambda>(key, value) acc. acc @ [Str (key @ ''='' @ btoa (env_raw value))]) (entries ob) [])"

definition plain_envs :: "js \<Rightarrow> js" where
  "plain_envs ob = Arr (map (\<lambda>(key, value). Str (key @ ''='' @ js_str value)) (entries ob))"

definition secrets_object :: "js \<Rightarrow> js" where
  "secrets_object secretsInfo =
     from_entries
       (filter (\<lambda>(key, value). field SECRET_MODAL_CONTENT_BODY_FORM_FIELDS key \<noteq> [] \<and> truthy value)
         (entries (obj [Spread secretsInfo])))"

definition getRequestCloudParams :: "bool \<Rightarrow> js \<Rightarrow> js \<Rightarrow> js \<Rightarrow> js res" where
  "getRequestCloudParams expert values secretsInfo customExtraVars =
     (let secretsObject = secrets_object secretsInfo in
      and_then (if nullish customExtraVars
                then and_then (getBaseClusterExtraVars expert values) (\<lambda>base.
                     and_then (getCloudProviderExtraVars expert values) (\<lambda>cloud.
                     Ok (obj [Spread base, Spread cloud])))
                else Ok customExtraVars) (\<lambda>extra_vars.
      Ok (obj
        [P ''envs'' (if get (get values CF_PROVIDER) ''code'' = Str PROV_GCP
                      then convertObjectValueToBase64Format secretsObject
                      else plain_envs secretsObject),
         P ''extra_vars'' extra_vars])))"

text \<open>\<open>v?.toString()\<close>\<close>

definition opt_string :: "js \<Rightarrow> js" where
  "opt_string v = (if nullish v then Undef else Str (js_str v))"

definition getRequestLocalMachineParams :: "bool \<Rightarrow> js \<Rightarrow> js \<Rightarrow> js \<Rightarrow> js res" where
  "getRequestLocalMachineParams expert values secretId customExtraVars =
     and_then (getLocalMachineEnvs expert values secretId) (\<lambda>envs.
     and_then (if nullish customExtraVars
               then and_then (getBaseClusterExtraVars expert values) (\<lambda>base.
                    and_then (getLocalMachineExtraVars expert values secretId) (\<lambda>local.
                    Ok (obj [Spread base, Spread local])))
               else Ok customExtraVars) (\<lambda>extra_vars.
     Ok (obj
       [P ''envs'' (convertObjectValueToBase64Format envs),
        P ''extra_vars'' extra_vars,
        P ''existing_cluster''
          (if get values CF_CREATION_TYPE = Str CREATE_YAML
           then Bool (opt_string (get customExtraVars ''existing_cluster'') = Str ''true'')
           else to_bool (get values DBS_IS_CLUSTER_EXISTS))])))"

section \<open>The request\<close>

definition base_object :: "js \<Rightarrow> js \<Rightarrow> js \<Rightarrow> js \<Rightarrow> js" where
  "base_object values secretId projectId customExtraVars = obj
     [Spread
        (if get values CF_CREATION_TYPE = Str CREATE_YAML
         then obj [P ''name'' (get customExtraVars ''patroni_cluster_name''),
                   P ''environment_id'' (get customExtraVars ''environment_id''),
                   P ''description'' (get customExtraVars ''description'')]
         else obj [P ''name'' (get values CF_CLUSTER_NAME),
                   P ''environment_id'' (get values CF_ENVIRONMENT_ID),
                   P ''description'' (get values CF_DESCRIPTION)]),
      Spread_if (truthy secretId) [P ''auth_info'' (obj [P ''secret_id'' secretId])],
      P ''project_id'' projectId]"

text \<open>The two \<open>delete\<close> statements: the value the caller's object has afterwards.\<close>

definition strip_custom_vars :: "(js \<Rightarrow> bool) \<Rightarrow> js \<Rightarrow> js" where
  "strip_custom_vars isEmpty customExtraVars =
     fold (\<lambda>k custom. if \<not> isEmpty custom then delete_key k custom else custom)
       [''environment_id'', ''description''] customExtraVars"

definition is_cloud_request :: "js \<Rightarrow> js \<Rightarrow> bool" where
  "is_cloud_request values customExtraVars \<longleftrightarrow>
     (get values CF_CREATION_TYPE = Str CREATE_YAML \<and> truthy (get customExtraVars ''cloud_provider''))
     \<or> (get values CF_CREATION_TYPE = Str CREATE_FORM
          \<and> get (get values CF_PROVIDER) ''code'' \<noteq> Str PROV_LOCAL)"

definition mapFormValuesToRequestFields ::
    "(js \<Rightarrow> bool) \<Rightarrow> bool \<Rightarrow> js \<Rightarrow> js \<Rightarrow> js \<Rightarrow> js \<Rightarrow> js \<Rightarrow> js res" where
  "mapFormValuesToRequestFields isEmpty expert values secretId projectId secretsInfo customExtraVars =
     (let baseObject = base_object values secretId projectId customExtraVars;
          custom = strip_custom_vars isEmpty customExtraVars
      in and_then (if is_cloud_request values custom
                   then getRequestCloudParams expert values secretsInfo custom
                   else getRequestLocalMachineParams expert values secretId custom) (\<lambda>params.
         Ok (obj [Spread baseObject, Spread params])))"

end
