(* ===== verification/TransformFacts.thy ===== *)
theory TransformFacts
  imports Request
begin

text \<open>
  What the request of a new cluster promises: the conversion of parameter texts, the groups of
  the inventory, the exclusive backup tools, the encoding of the environment, and which secrets
  reach the request.
\<close>

section \<open>Parameter texts\<close>

lemma split_on_join:
  "ws \<noteq> [] \<Longrightarrow> \<forall>w \<in> set ws. \<forall>c \<in> set w. \<not> p c \<Longrightarrow> p d \<Longrightarrow> split_on p (join_with [d] ws) = ws"
proof (induction ws)
  case (Cons w ws)
  then show ?case by (cases ws) (simp_all add: split_on_append)
qed simp

text \<open>The text the dialogs expect: one \<open>option:value\<close> per line.\<close>

definition plain :: "string \<Rightarrow> bool" where
  "plain s \<longleftrightarrow> (\<forall>c \<in> set s. \<not> is_newline c \<and> \<not> is_separator c)"

definition parameter_text :: "(string \<times> string) list \<Rightarrow> string" where
  "parameter_text ps = join_with [CHR 0x0A] (map (\<lambda>(p, v). p @ CHR '':'' # v) ps)"

definition parameter_entry :: "string \<times> string \<Rightarrow> js" where
  "parameter_entry p = obj [P ''option'' (Str (trim (fst p))), P ''value'' (Str (trim (snd p)))]"

lemma convert_parameter_line:
  "plain p \<Longrightarrow> plain v \<Longrightarrow> convert_line (p @ CHR '':'' # v) = Ok (parameter_entry (p, v))"
  by (simp add: convert_line_parts plain_def parameter_entry_def is_separator_def)

lemma newline_simps [simp]: "is_newline CHR 0x0A" "\<not> is_newline CHR '':''"
  by (simp_all add: is_newline_def)

lemma split_parameter_text:
  assumes "ps \<noteq> []" "\<forall>p \<in> set ps. plain (fst p) \<and> plain (snd p)"
  shows "split_on is_newline (parameter_text ps) = map (\<lambda>(p, v). p @ CHR '':'' # v) ps"
  unfolding parameter_text_def
proof (rule split_on_join)
  have "\<forall>c \<in> set (p @ CHR '':'' # v). \<not> is_newline c" if "plain p" "plain v" for p v
    using that by (simp add: plain_def ball_Un)
  then show "\<forall>w \<in> set (map (\<lambda>(p, v). p @ CHR '':'' # v) ps). \<forall>c \<in> set w. \<not> is_newline c"
    using assms(2) by fastforce
qed (simp_all add: assms(1))

lemma parameter_text_not_Nil: "ps \<noteq> [] \<Longrightarrow> parameter_text ps \<noteq> []"
  by (cases ps; cases "tl ps") (auto simp: parameter_text_def)

text \<open>
  C33: converting a parameter text of \<open>option:value\<close> lines gives back the options and values,
  trimmed, in their order.
\<close>

theorem parameter_text_round_trip:
  assumes "ps \<noteq> []" "\<forall>p \<in> set ps. plain (fst p) \<and> plain (snd p)"
  shows "convertModalParametersToArray (Str (parameter_text ps)) = Ok (Arr (map parameter_entry ps))"
proof -
  have "map_all convert_line (map (\<lambda>(p, v). p @ CHR '':'' # v) ps) = Ok (map parameter_entry ps)"
    using assms(2) by (induction ps) (auto simp: convert_parameter_line)
  moreover have "parameter_text ps \<noteq> []" by (rule parameter_text_not_Nil [OF assms(1)])
  ultimately show ?thesis
    by (simp add: convertModalParametersToArray_def split_parameter_text [OF assms])
qed

theorem parameter_text_round_trip_witness:
  "convertModalParametersToArray (Str ([CHR ''a'', CHR '' '', CHR '':'', CHR '' '', CHR ''1'', CHR 0x0A] @ ''b:2''))
     = Ok (Arr [obj [P ''option'' (Str ''a''), P ''value'' (Str ''1'')],
                obj [P ''option'' (Str ''b''), P ''value'' (Str ''2'')]])"
  using parameter_text_round_trip [of "[(''a '', '' 1''), (''b'', ''2'')]"]
  by (simp add: plain_def is_newline_def is_separator_def parameter_text_def parameter_entry_def
      trim_def is_ws_def)

text \<open>
  The conversion throws exactly on a non-empty text with a line that has no separator.
\<close>

theorem convert_throws_iff:
  "convertModalParametersToArray (Str s) = Throw TypeError
     \<longleftrightarrow> s \<noteq> [] \<and> \<not> list_all (\<lambda>line. list_ex is_separator line) (split_on is_newline s)"
proof -
  have *: "map_all convert_line ls = Throw TypeError
             \<longleftrightarrow> \<not> list_all (\<lambda>line. list_ex is_separator line) ls" for ls
  proof (induction ls)
    case (Cons l ls)
    have "convert_line l = Throw TypeError \<longleftrightarrow> \<not> list_ex is_separator l"
      using convert_line_Ok_iff [of l]
      by (cases "convert_line l") (auto simp: list_ex_iff convert_line_def split: list.splits)
    then show ?case using Cons
      by (cases "convert_line l") (auto simp: convert_line_def res_simps split: list.splits)
  qed simp
  have "map_res Arr r = Throw e \<longleftrightarrow> r = Throw e" for r :: "js list res" and e
    by (cases r) auto
  then show ?thesis by (simp add: convertModalParametersToArray_def *)
qed

section \<open>The inventory\<close>

definition rows_ok :: "js \<Rightarrow> bool" where
  "rows_ok v \<longleftrightarrow> (case v of Arr xs \<Rightarrow> list_all (\<lambda>x. \<not> nullish x) xs | _ \<Rightarrow> False)"

lemma rows_okE: "rows_ok v \<Longrightarrow> (\<And>xs. v = Arr xs \<Longrightarrow> \<forall>x \<in> set xs. \<not> nullish x \<Longrightarrow> thesis) \<Longrightarrow> thesis"
  by (auto simp: rows_ok_def list_all_iff split: js.splits)

lemma rows_ok_reduce: "rows_ok rows \<Longrightarrow> \<exists>hosts. reduce_hosts ip entry rows = Ok hosts"
  using reduce_hosts_Ok_iff [of ip entry rows] by (auto simp: is_ok_iff elim: rows_okE)

lemma rows_ok_slice: "rows_ok rows \<Longrightarrow> rows_ok (slice_from n rows)"
  by (auto simp: rows_ok_def slice_from_def list_all_iff dest: in_set_dropD split: js.splits)

lemma configureHosts_Ok:
  "rows_ok (get values DBS_DATABASE_SERVERS) \<Longrightarrow> rows_ok (get values DCS_DCS_DATABASES) \<Longrightarrow>
     \<exists>hosts. configureHosts values role h d = Ok hosts"
  by (simp add: configureHosts_def Let_def rows_ok_reduce)

lemma configureHosts_db_Ok:
  "rows_ok (get values DBS_DATABASE_SERVERS) \<Longrightarrow> \<exists>hosts. configureHosts values role h Undef = Ok hosts"
  by (simp add: configureHosts_def Let_def param_default_def rows_ok_reduce)

text \<open>The rows the inventory reads: which ones depends on the switches of the form.\<close>

definition inventory_rows_ok :: "bool \<Rightarrow> js \<Rightarrow> bool" where
  "inventory_rows_ok expert values \<longleftrightarrow>
     rows_ok (get values DBS_DATABASE_SERVERS) \<and> has_length (get values DBS_DATABASE_SERVERS)
     \<and> (expert \<longrightarrow> truthy (get values DCS_IS_DEPLOY_NEW_CLUSTER)
          \<longrightarrow> \<not> truthy (get values DCS_IS_DEPLOY_TO_DB_SERVERS) \<longrightarrow> rows_ok (get values DCS_DCS_DATABASES))
     \<and> (expert \<longrightarrow> truthy (get values LB_IS_HAPROXY_ENABLED)
          \<longrightarrow> \<not> truthy (get values LB_IS_DEPLOY_TO_DATABASE_SERVERS) \<longrightarrow> rows_ok (get values LB_LOAD_BALANCER_DATABASES))"

lemma constructDcsEnvs_Ok:
  assumes "inventory_rows_ok expert values"
  shows "\<exists>dcs. constructDcsEnvs expert values = Ok dcs"
proof -
  have db: "rows_ok (get values DBS_DATABASE_SERVERS)"
    using assms by (simp add: inventory_rows_ok_def)
  have etcd: "\<exists>hosts. configureHosts values [] h (get values DCS_IS_DEPLOY_TO_DB_SERVERS) = Ok hosts"
    if "expert" "truthy (get values DCS_IS_DEPLOY_NEW_CLUSTER)" for h
  proof (cases "truthy (get values DCS_IS_DEPLOY_TO_DB_SERVERS)")
    case True
    then show ?thesis
      by (cases "get values DCS_IS_DEPLOY_TO_DB_SERVERS")
         (simp_all add: configureHosts_def Let_def param_default_def rows_ok_reduce [OF db])
  next
    case False
    then have "rows_ok (get values DCS_DCS_DATABASES)"
      using assms that by (simp add: inventory_rows_ok_def)
    with db show ?thesis by (rule configureHosts_Ok)
  qed
  have servers: "\<exists>hosts. configureHosts values ''server'' h d = Ok hosts"
    if "expert" "truthy (get values DCS_IS_DEPLOY_NEW_CLUSTER)"
      "\<not> truthy (get values DCS_IS_DEPLOY_TO_DB_SERVERS)" for h d
    using assms that by (intro configureHosts_Ok db) (simp add: inventory_rows_ok_def)
  show ?thesis
    unfolding constructDcsEnvs_def
    using configureHosts_db_Ok [OF db, of "[]" Undef] configureHosts_db_Ok [OF db, of "''client''" Undef]
      configureHosts_db_Ok [OF db, of "''server''" Undef] etcd servers
    by (auto simp: and_then_eq_Ok)
qed

lemma constructBalancersEnvs_Ok:
  assumes "inventory_rows_ok expert values"
  shows "\<exists>b. constructBalancersEnvs expert values = Ok b"
  using assms unfolding constructBalancersEnvs_def inventory_rows_ok_def
  by (auto simp: and_then_eq_Ok rows_ok_reduce)

lemma local_envs_Ok:
  assumes "inventory_rows_ok expert values"
  shows "\<exists>envs. getLocalMachineEnvs expert values secretId = Ok envs"
proof -
  have db: "rows_ok (get values DBS_DATABASE_SERVERS)" "has_length (get values DBS_DATABASE_SERVERS)"
    using assms by (simp_all add: inventory_rows_ok_def)
  then obtain x xs where servers: "get values DBS_DATABASE_SERVERS = Arr (x # xs)" "\<not> nullish x"
    by (auto elim!: rows_okE) (metis has_length_simps(6) list.exhaust list.set_intros(1))
  obtain hosts where "reduce_hosts DBS_DATABASE_IP_ADDRESS (db_server_entry expert values)
      (slice_from 1 (get values DBS_DATABASE_SERVERS)) = Ok hosts"
    using rows_ok_reduce [OF rows_ok_slice [OF db(1)]] by blast
  moreover obtain b dcs where "constructBalancersEnvs expert values = Ok b"
    "constructDcsEnvs expert values = Ok dcs"
    using constructBalancersEnvs_Ok [OF assms] constructDcsEnvs_Ok [OF assms] by blast
  ultimately show ?thesis
    by (simp add: getLocalMachineEnvs_def inventory_children_def Let_def and_then_eq_Ok
        servers(1) member_def servers(2))
qed

text \<open>
  C1: with at least one database server, and the host rows its switches ask for, the environment
  of a local cluster is built without an exception.
\<close>

theorem inventory_is_built:
  assumes "inventory_rows_ok expert values"
  shows "\<exists>envs. getLocalMachineEnvs expert values secretId = Ok envs"
  using assms by (rule local_envs_Ok)

definition one_server_form :: js where
  "one_server_form = obj
     [P CF_AUTHENTICATION_METHOD (Str AUTH_PASSWORD),
      P DCS_IS_DEPLOY_NEW_CLUSTER (Bool True),
      P SEC_USERNAME (Str ''root''), P SEC_PASSWORD (Str ''pw''),
      P DBS_DATABASE_SERVERS (Arr
        [obj [P DBS_DATABASE_HOSTNAME (Str ''db1''), P DBS_DATABASE_IP_ADDRESS (Str ''10.0.0.1'')],
         obj [P DBS_DATABASE_HOSTNAME (Str ''db2''), P DBS_DATABASE_IP_ADDRESS (Str ''10.0.0.2'')]])]"

theorem inventory_is_built_witness:
  "\<exists>envs. getLocalMachineEnvs False one_server_form Undef = Ok envs"
  by (rule inventory_is_built) code_simp

lemma balancers_keys:
  "constructBalancersEnvs expert values = Ok b \<Longrightarrow> k \<noteq> ''balancers'' \<Longrightarrow> lookup_part (Spread b) k = None"
  by (auto simp: constructBalancersEnvs_def and_then_eq_Ok)

lemma lookup_spread_Undef [simp]: "lookup_part (Spread Undef) k = None"
  by (simp add: lookup_part.simps(2))

lemma dcs_keys:
  "constructDcsEnvs expert values = Ok dcs \<Longrightarrow> k \<noteq> ''etcd_cluster'' \<Longrightarrow> k \<noteq> ''consul_instances'' \<Longrightarrow>
     lookup_part (Spread dcs) k = None"
  by (auto simp: constructDcsEnvs_def and_then_eq_Ok split: if_splits)

definition children_of :: "js \<Rightarrow> js" where
  "children_of envs = path envs [''ANSIBLE_INVENTORY_JSON'', ''all'', ''children'']"

lemma local_envs_cases:
  assumes "getLocalMachineEnvs expert values secretId = Ok envs"
  obtains children where "inventory_children expert values = Ok children"
    "envs = obj
       [Spread_if (get values CF_AUTHENTICATION_METHOD = Str AUTH_SSH
                     \<and> \<not> truthy (get values CF_IS_USE_DEFINED_SECRET) \<and> \<not> truthy secretId)
          [P ''SSH_PRIVATE_KEY_CONTENT'' (get values SEC_SSH_PRIVATE_KEY)],
        P ''ANSIBLE_INVENTORY_JSON''
          (obj [P ''all'' (obj [P ''vars'' (inventory_vars values), P ''children'' children])])]"
  using assms by (auto simp: getLocalMachineEnvs_def and_then_eq_Ok)

lemma children_of_envs:
  assumes "getLocalMachineEnvs expert values secretId = Ok envs"
  shows "inventory_children expert values = Ok (children_of envs)"
  using assms by (rule local_envs_cases) (simp add: children_of_def obj_simps)

definition replica_part :: "bool \<Rightarrow> js \<Rightarrow> js list \<Rightarrow> js res" where
  "replica_part expert values rs =
     (if rs = [] then Ok (obj [])
      else map_res (\<lambda>hosts. obj [P ''replica'' (hosts_group hosts)])
             (reduce_hosts DBS_DATABASE_IP_ADDRESS (db_server_entry expert values) (Arr rs)))"

definition master_hosts :: "bool \<Rightarrow> js \<Rightarrow> js \<Rightarrow> js" where
  "master_hosts expert values m =
     obj [P (row_key DBS_DATABASE_IP_ADDRESS m) (obj (db_server_entry expert values m))]"

lemma inventory_children_parts:
  assumes "get values DBS_DATABASE_SERVERS = Arr (m # rs)"
  shows "inventory_children expert values =
     and_then (constructBalancersEnvs expert values) (\<lambda>b.
     and_then (constructDcsEnvs expert values) (\<lambda>dcs.
     and_then (member m DBS_DATABASE_IP_ADDRESS) (\<lambda>_.
     and_then (replica_part expert values rs) (\<lambda>replica.
     Ok (obj
        [Spread b, Spread dcs,
         P ''master'' (hosts_group (master_hosts expert values m)),
         Spread replica,
         P ''postgres_cluster''
           (obj [P ''children'' (obj [P ''master'' (obj []), P ''replica'' (obj [])])])])))))"
proof -
  have "(if length_above 1 (Arr (m # rs)) then map_res (\<lambda>hosts. obj [P ''replica'' (hosts_group hosts)])
           (reduce_hosts DBS_DATABASE_IP_ADDRESS (db_server_entry expert values) (slice_from 1 (Arr (m # rs))))
         else Ok (obj [])) = replica_part expert values rs"
    by (simp add: length_above_def slice_from_def replica_part_def)
  then show ?thesis
    by (simp add: inventory_children_def Let_def assms member_def master_hosts_def row_key_def
        cong: if_cong)
qed

text \<open>
  C2: the first database server is the only master, under its address; every further row is a
  replica under its own address with its own data (the last row wins where addresses repeat), and
  there is no \<open>replica\<close> group when there is one server only.
\<close>

theorem inventory_master_and_replicas:
  assumes "getLocalMachineEnvs expert values secretId = Ok envs"
    and "get values DBS_DATABASE_SERVERS = Arr (m # rs)"
  shows "path (children_of envs) [''master'', ''hosts''] = master_hosts expert values m
     \<and> (if rs = [] then get (children_of envs) ''replica'' = Undef
        else look_obj (path (children_of envs) [''replica'', ''hosts'']) k
           = map_option (\<lambda>r. obj (db_server_entry expert values r))
               (find (\<lambda>r. row_key DBS_DATABASE_IP_ADDRESS r = k) (rev rs)))"
proof -
  obtain b dcs replica where parts:
    "constructBalancersEnvs expert values = Ok b" "constructDcsEnvs expert values = Ok dcs"
    "replica_part expert values rs = Ok replica"
    "children_of envs = obj
        [Spread b, Spread dcs,
         P ''master'' (hosts_group (master_hosts expert values m)),
         Spread replica,
         P ''postgres_cluster''
           (obj [P ''children'' (obj [P ''master'' (obj []), P ''replica'' (obj [])])])]"
    using children_of_envs [OF assms(1)]
    unfolding inventory_children_parts [OF assms(2)] and_then_eq_Ok res.inject by metis
  have keys: "lookup_part (Spread b) ''replica'' = None" "lookup_part (Spread dcs) ''replica'' = None"
    using balancers_keys [OF parts(1)] dcs_keys [OF parts(2)] by auto
  show ?thesis
  proof (cases "rs = []")
    case True
    then have "replica = obj []" using parts(3) by (simp add: replica_part_def)
    then show ?thesis using True by (simp add: parts(4) obj_simps hosts_group_def keys)
  next
    case False
    then obtain hosts where hosts: "replica = obj [P ''replica'' (hosts_group hosts)]"
      "reduce_hosts DBS_DATABASE_IP_ADDRESS (db_server_entry expert values) (Arr rs) = Ok hosts"
      using parts(3) by (auto simp: replica_part_def map_res_eq_Ok)
    have "path (children_of envs) [''replica'', ''hosts''] = hosts"
      "path (children_of envs) [''master'', ''hosts''] = master_hosts expert values m"
      by (simp_all add: hosts(1) parts(4) obj_simps hosts_group_def)
    then show ?thesis using False by (simp add: look_reduce_hosts [OF hosts(2)] map_option_case)
  qed
qed

theorem inventory_master_and_replicas_witness:
  "\<exists>envs. getLocalMachineEnvs False one_server_form Undef = Ok envs
     \<and> path (children_of envs) [''master'', ''hosts''] = master_hosts False one_server_form
         (obj [P DBS_DATABASE_HOSTNAME (Str ''db1''), P DBS_DATABASE_IP_ADDRESS (Str ''10.0.0.1'')])"
proof -
  let ?m = "obj [P DBS_DATABASE_HOSTNAME (Str ''db1''), P DBS_DATABASE_IP_ADDRESS (Str ''10.0.0.1'')]"
  let ?r = "obj [P DBS_DATABASE_HOSTNAME (Str ''db2''), P DBS_DATABASE_IP_ADDRESS (Str ''10.0.0.2'')]"
  have "is_ok (getLocalMachineEnvs False one_server_form Undef)" by code_simp
  then obtain envs where "getLocalMachineEnvs False one_server_form Undef = Ok envs"
    by (auto simp: is_ok_iff)
  moreover have "get one_server_form DBS_DATABASE_SERVERS = Arr [?m, ?r]" by code_simp
  ultimately show ?thesis
    using inventory_master_and_replicas [of False one_server_form Undef envs ?m "[?r]"] by simp
qed

text \<open>
  In a new Consul cluster on its own machines every address of the DCS rows is a server with
  its hostname, and every database server outside them is a client.
\<close>

theorem consul_roles:
  assumes "constructDcsEnvs True values = Ok dcs"
    and "truthy (get values DCS_IS_DEPLOY_NEW_CLUSTER)" "get values DCS_TYPE = Str DCST_CONSUL"
    and "\<not> truthy (get values DCS_IS_DEPLOY_TO_DB_SERVERS)"
    and "get values DBS_DATABASE_SERVERS = Arr xs" "get values DCS_DCS_DATABASES = Arr ys"
  shows "look_obj (path dcs [''consul_instances'', ''hosts'']) k =
     (case find (\<lambda>y. row_key DCS_DCS_DATABASE_IP_ADDRESS y = k) (rev ys) of
        Some y \<Rightarrow> Some (obj [P ''ansible_host'' (get y DCS_DCS_DATABASE_IP_ADDRESS),
                             Spread_if True [P ''hostname'' (get y DCS_DCS_DATABASE_HOSTNAME)],
                             Spread_if True [P ''consul_node_role'' (Str ''server'')]])
      | None \<Rightarrow>
          (case find (\<lambda>x. row_key DBS_DATABASE_IP_ADDRESS x = k) (rev xs) of
             Some x \<Rightarrow> Some (obj [P ''ansible_host'' (get x DBS_DATABASE_IP_ADDRESS),
                                  Spread_if False [P ''hostname'' (get x [])],
                                  Spread_if True [P ''consul_node_role'' (Str ''client'')]])
           | None \<Rightarrow> None))"
proof -
  obtain clients servers where r:
    "configureHosts values ''client'' Undef Undef = Ok clients"
    "configureHosts values ''server'' (Bool True) (Bool False) = Ok servers"
    "path dcs [''consul_instances'', ''hosts''] = obj [Spread clients, Spread servers]"
    using assms(1-4) by (auto simp: constructDcsEnvs_def and_then_eq_Ok hosts_group_def obj_simps)
  note c = r(1) [unfolded configureHosts_def Let_def param_default_def, simplified, unfolded assms(5)]
  note s = r(2) [unfolded configureHosts_def Let_def param_default_def, simplified, unfolded assms(6)]
  have "look_obj (obj [Spread clients, Spread servers]) k
      = (case look_obj servers k of Some v \<Rightarrow> Some v | None \<Rightarrow> look_obj clients k)"
    using lookup_spread_wf [OF wf_reduce_hosts [OF c]] lookup_spread_wf [OF wf_reduce_hosts [OF s]]
    by (simp add: look_obj_obj look_obj_def [symmetric] split: option.split)
  then show ?thesis
    unfolding r(3) look_reduce_hosts [OF c] look_reduce_hosts [OF s]
    by (simp split: option.split)
qed

text \<open>
  C40: with the password method the inventory's SSH password is the user name, and only the sudo
  password is the password of the form.
\<close>

theorem inventory_ssh_password:
  assumes "getLocalMachineEnvs expert values secretId = Ok envs"
    and "get values CF_AUTHENTICATION_METHOD = Str AUTH_PASSWORD"
  shows "path envs [''ANSIBLE_INVENTORY_JSON'', ''all'', ''vars'', ''ansible_ssh_pass''] = get values SEC_USERNAME
     \<and> path envs [''ANSIBLE_INVENTORY_JSON'', ''all'', ''vars'', ''ansible_sudo_pass''] = get values SEC_PASSWORD"
  using assms(1)
  by (rule local_envs_cases) (simp add: assms(2) obj_simps inventory_vars_def)

theorem inventory_ssh_password_witness:
  "\<exists>envs. getLocalMachineEnvs False one_server_form Undef = Ok envs
     \<and> path envs [''ANSIBLE_INVENTORY_JSON'', ''all'', ''vars'', ''ansible_ssh_pass''] = Str ''root''"
proof -
  have "is_ok (getLocalMachineEnvs False one_server_form Undef)" by code_simp
  then obtain envs where "getLocalMachineEnvs False one_server_form Undef = Ok envs"
    by (auto simp: is_ok_iff)
  moreover have "get one_server_form CF_AUTHENTICATION_METHOD = Str AUTH_PASSWORD"
    "get one_server_form SEC_USERNAME = Str ''root''" by code_simp+
  ultimately show ?thesis
    using inventory_ssh_password [of False one_server_form Undef envs] by simp
qed

text \<open>
  The private key leaves the form only with the SSH method and without a stored secret.
\<close>

theorem ssh_key_only_without_secret:
  assumes "getLocalMachineEnvs expert values secretId = Ok envs"
  shows "look_obj envs ''SSH_PRIVATE_KEY_CONTENT'' =
     (if get values CF_AUTHENTICATION_METHOD = Str AUTH_SSH
         \<and> \<not> truthy (get values CF_IS_USE_DEFINED_SECRET) \<and> \<not> truthy secretId
      then Some (get values SEC_SSH_PRIVATE_KEY) else None)"
  using assms by (rule local_envs_cases) (simp add: obj_simps)

theorem ssh_key_only_without_secret_witness:
  "\<exists>envs. getLocalMachineEnvs False one_server_form Undef = Ok envs
     \<and> look_obj envs ''SSH_PRIVATE_KEY_CONTENT'' = None"
proof -
  have "is_ok (getLocalMachineEnvs False one_server_form Undef)" by code_simp
  then obtain envs where "getLocalMachineEnvs False one_server_form Undef = Ok envs"
    by (auto simp: is_ok_iff)
  moreover have "get one_server_form CF_AUTHENTICATION_METHOD \<noteq> Str AUTH_SSH" by code_simp
  ultimately show ?thesis
    using ssh_key_only_without_secret [of False one_server_form Undef envs] by simp
qed

definition consul_form :: js where
  "consul_form = obj
     [P DCS_IS_DEPLOY_NEW_CLUSTER (Bool True), P DCS_TYPE (Str DCST_CONSUL),
      P DCS_IS_DEPLOY_TO_DB_SERVERS (Bool False),
      P DBS_DATABASE_SERVERS (Arr [obj [P DBS_DATABASE_IP_ADDRESS (Str ''10.0.0.1'')]]),
      P DCS_DCS_DATABASES (Arr
        [obj [P DCS_DCS_DATABASE_IP_ADDRESS (Str ''10.0.0.9''), P DCS_DCS_DATABASE_HOSTNAME (Str ''c9'')]])]"

theorem consul_roles_witness:
  "\<exists>dcs. constructDcsEnvs True consul_form = Ok dcs
     \<and> look_obj (path dcs [''consul_instances'', ''hosts'']) ''10.0.0.9'' \<noteq> None"
proof -
  have "is_ok (constructDcsEnvs True consul_form)" by code_simp
  then obtain dcs where dcs: "constructDcsEnvs True consul_form = Ok dcs"
    by (auto simp: is_ok_iff)
  let ?x = "obj [P DBS_DATABASE_IP_ADDRESS (Str ''10.0.0.1'')]"
  let ?y = "obj [P DCS_DCS_DATABASE_IP_ADDRESS (Str ''10.0.0.9''), P DCS_DCS_DATABASE_HOSTNAME (Str ''c9'')]"
  have "truthy (get consul_form DCS_IS_DEPLOY_NEW_CLUSTER)" "get consul_form DCS_TYPE = Str DCST_CONSUL"
    "\<not> truthy (get consul_form DCS_IS_DEPLOY_TO_DB_SERVERS)"
    "get consul_form DBS_DATABASE_SERVERS = Arr [?x]" "get consul_form DCS_DCS_DATABASES = Arr [?y]"
    by code_simp+
  from consul_roles [OF dcs this, of "''10.0.0.9''"] dcs show ?thesis
    by (simp add: row_key_def obj_simps)
qed

section \<open>The environment of the playbook\<close>

definition decode_env :: "string \<Rightarrow> string \<times> string" where
  "decode_env s =
     (takeWhile (\<lambda>c. c \<noteq> CHR ''='') s, atob (drop 1 (dropWhile (\<lambda>c. c \<noteq> CHR ''='') s)))"

definition env_strings :: "js \<Rightarrow> string list" where
  "env_strings v = map js_str (elems v)"

lemma fold_snoc: "fold (\<lambda>x acc. acc @ [f x]) xs acc = acc @ map f xs"
  by (induction xs arbitrary: acc) auto

lemma base64_envs:
  "convertObjectValueToBase64Format ob =
     Arr (map (\<lambda>(key, value). Str (key @ ''='' @ btoa (env_raw value))) (entries ob))"
  unfolding convertObjectValueToBase64Format_def split_beta by (simp add: fold_snoc)

lemma decode_env_pair:
  "CHR ''='' \<notin> set k \<Longrightarrow> decode_env (k @ ''='' @ btoa s) = (k, s)"
proof -
  assume k: "CHR ''='' \<notin> set k"
  then have "\<forall>c \<in> set k. c \<noteq> CHR ''=''" by auto
  then show ?thesis by (simp add: decode_env_def takeWhile_append2 dropWhile_append2)
qed

text \<open>
  C32: decoding the environment strings gives back every property of the object, in the order of
  \<open>Object.entries\<close>: strings as they are, other values as their JSON.
\<close>

theorem base64_envs_round_trip:
  assumes "\<forall>k \<in> keys_of ob. CHR ''='' \<notin> set k"
  shows "map decode_env (env_strings (convertObjectValueToBase64Format ob))
           = map (\<lambda>(k, v). (k, env_raw v)) (entries ob)"
proof -
  have "\<forall>p \<in> set (entries ob). CHR ''='' \<notin> set (fst p)"
    using assms by (auto simp: entries_def keys_of_def)
  then show ?thesis
    by (auto simp: base64_envs env_strings_def decode_env_pair simp del: append.simps)
qed

theorem base64_envs_round_trip_witness:
  "map decode_env (env_strings (convertObjectValueToBase64Format
       (obj [P ''A'' (Str ''x=y''), P ''B'' (obj [P ''c'' (Bool True)])])))
     = [(''A'', ''x=y''), (''B'', [CHR ''{'', CHR 0x22, CHR ''c'', CHR 0x22] @ '':true}'')]"
proof -
  let ?ob = "obj [P ''A'' (Str ''x=y''), P ''B'' (obj [P ''c'' (Bool True)])]"
  have "\<forall>k \<in> keys_of ?ob. CHR ''='' \<notin> set k" by code_simp
  moreover have "map (\<lambda>(k, v). (k, env_raw v)) (entries ?ob)
      = [(''A'', ''x=y''), (''B'', [CHR ''{'', CHR 0x22, CHR ''c'', CHR 0x22] @ '':true}'')]"
    by code_simp
  ultimately show ?thesis using base64_envs_round_trip [of ?ob] by simp
qed

text \<open>
  Of the secret's values only those with a name the playbooks know, and that are filled in,
  reach the request.
\<close>

theorem only_known_secrets:
  "look_obj (secrets_object (obj secret)) k =
     (case lookup_parts secret k of
        Some v \<Rightarrow> if field SECRET_MODAL_CONTENT_BODY_FORM_FIELDS k \<noteq> [] \<and> truthy v then Some v else None
      | None \<Rightarrow> None)"
  by (simp add: secrets_object_def look_filtered_entries split: option.split)

section \<open>Extensions and backups\<close>

definition has_prefix :: "string \<Rightarrow> js \<Rightarrow> bool" where
  "has_prefix p v \<longleftrightarrow> (\<forall>k \<in> keys_of v. starts_with p k)"

lemma extension_vars_prefix:
  assumes "fold_res (add_extension values) ([], obj []) es = Ok r"
  shows "(\<exists>parts. snd r = obj parts) \<and> has_prefix ''enable_'' (snd r)"
  using assms
proof (induction rule: fold_res_induct)
  case init
  then show ?case by (auto simp: has_prefix_def keys_of_obj)
next
  case (step x a b)
  obtain parts where a: "snd a = obj parts" "has_prefix ''enable_'' (obj parts)"
    using step by auto
  have "has_prefix ''enable_'' (obj [Spread (obj parts), P (''enable_'' @ fst x) (Bool True)])"
    using a(2) by (auto simp: has_prefix_def keys_of_obj starts_with_def split: if_splits)
  then show ?case
    using step a by (auto simp: add_extension_def Let_def and_then_eq_Ok split_beta split: if_splits)
qed

lemma extensions_lookup:
  assumes "getExtensions values = Ok ext" "\<not> starts_with ''enable_'' k"
  shows "lookup_part (Spread (get ext ''extraVars'')) k = None"
proof -
  obtain db xv where r: "fold_res (add_extension values) ([], obj []) (entries (get values EXT_EXTENSIONS)) = Ok (db, xv)"
    "ext = obj [P ''db'' (Arr db), P ''extraVars'' xv]"
    using assms(1) by (auto simp: getExtensions_def map_res_eq_Ok split: if_splits)
  obtain parts where "xv = obj parts" "has_prefix ''enable_'' (obj parts)"
    using extension_vars_prefix [OF r(1)] by auto
  then show ?thesis using assms(2) keys_of_obj [of k parts]
    by (auto simp: r(2) obj_simps has_prefix_def)
qed

lemma backup_lookup:
  assumes "backup_vars values = Ok b"
  shows "lookup_part (Spread b) ''pgbackrest_install'' =
     (if truthy (get values BK_IS_BACKUPS_ENABLED) \<and> truthy (get values BK_BACKUP_METHOD)
      then if get values BK_BACKUP_METHOD = Str BKM_PG_BACK_REST then Some (Bool True) else None
      else Some (Bool False))"
    and "lookup_part (Spread b) ''wal_g_install'' =
     (if truthy (get values BK_IS_BACKUPS_ENABLED) \<and> truthy (get values BK_BACKUP_METHOD)
         \<and> get values BK_BACKUP_METHOD \<noteq> Str BKM_PG_BACK_REST then Some (Bool True) else None)"
  using assms
  by (auto simp: backup_vars_def pgbackrest_vars_def wal_g_vars_def and_then_eq_Ok map_res_eq_Ok
      split: if_splits)

lemma parameter_lookup:
  "parameter_vars values = Ok v \<Longrightarrow> k \<notin> {''local_postgresql_parameters'', ''sysctl_set'', ''sysctl_conf''} \<Longrightarrow>
     lookup_part (Spread v) k = None"
  by (auto simp: parameter_vars_def and_then_eq_Ok map_res_eq_Ok split: if_splits)

lemma pool_lookup:
  "pool_vars values = Ok v \<Longrightarrow> k \<noteq> ''pgbouncer_pools'' \<Longrightarrow> lookup_part (Spread v) k = None"
  by (auto simp: pool_vars_def map_res_eq_Ok split: if_splits)

text \<open>
  In expert mode the request turns on the chosen backup tool and no other, and turns
  pgBackRest off explicitly when backups are off.
\<close>

theorem one_backup_tool:
  assumes "getBaseClusterExtraVars True values = Ok vars"
  shows "get vars ''pgbackrest_install'' =
     (if truthy (get values BK_IS_BACKUPS_ENABLED) \<and> truthy (get values BK_BACKUP_METHOD)
      then if get values BK_BACKUP_METHOD = Str BKM_PG_BACK_REST then Bool True else Undef
      else Bool False)
   \<and> get vars ''wal_g_install'' =
     (if truthy (get values BK_IS_BACKUPS_ENABLED) \<and> truthy (get values BK_BACKUP_METHOD)
         \<and> get values BK_BACKUP_METHOD \<noteq> Str BKM_PG_BACK_REST then Bool True else Undef)"
proof -
  obtain ext d u pools b ps where e:
    "getExtensions values = Ok ext" "pool_vars values = Ok pools" "backup_vars values = Ok b"
    "parameter_vars values = Ok ps" and vars: "vars = obj
          [Spread (obj (baseExtraVars values)),
           P ''postgresql_databases'' d,
           P ''postgresql_users'' u,
           P ''pgbouncer_install'' (to_bool (get values POOL_IS_CONNECTION_POOLER_ENABLED)),
           P ''netdata_install'' (to_bool (get values ADS_IS_NETDATA_MONITORING)),
           Spread pools,
           Spread_if (has_length (get ext ''db'')) [P ''postgresql_extensions'' (get ext ''db'')],
           Spread (get ext ''extraVars''),
           Spread b,
           Spread ps,
           Spread_if (truthy (get values ADS_SYNC_STANDBY_NODES))
             [P ''synchronous_mode'' (Bool True),
              P ''synchronous_node_count'' (get values ADS_SYNC_STANDBY_NODES),
              Spread_if (truthy (get values ADS_IS_SYNC_MODE_STRICT))
                [P ''synchronous_mode_strict'' (Bool True)]]]"
    using assms unfolding getBaseClusterExtraVars_def
    by (simp only: not_True_eq_False if_False and_then_eq_Ok res.inject) metis
  have "lookup_part (Spread (get ext ''extraVars'')) k = None"
    if "k = ''pgbackrest_install'' \<or> k = ''wal_g_install''" for k
    using that by (intro extensions_lookup [OF e(1)]) (auto simp: starts_with_def)
  then show ?thesis
    unfolding vars
    by (simp add: obj_simps backup_lookup [OF e(3)] parameter_lookup [OF e(4)] pool_lookup [OF e(2)]
        baseExtraVars_def)
qed

definition backup_form :: js where
  "backup_form = obj [P EXT_EXTENSIONS (obj []), P BK_IS_BACKUPS_ENABLED (Bool True),
     P BK_BACKUP_METHOD (Str BKM_WAL_G)]"

theorem one_backup_tool_witness:
  "\<exists>vars. getBaseClusterExtraVars True backup_form = Ok vars
     \<and> get vars ''wal_g_install'' = Bool True \<and> get vars ''pgbackrest_install'' = Undef"
proof -
  have "is_ok (getBaseClusterExtraVars True backup_form)" by code_simp
  then obtain vars where "getBaseClusterExtraVars True backup_form = Ok vars"
    by (auto simp: is_ok_iff)
  moreover have "truthy (get backup_form BK_IS_BACKUPS_ENABLED)" "truthy (get backup_form BK_BACKUP_METHOD)"
    "get backup_form BK_BACKUP_METHOD \<noteq> Str BKM_PG_BACK_REST" by code_simp+
  ultimately show ?thesis using one_backup_tool [of backup_form vars] by simp
qed

text \<open>The databases an extension is asked for, as the request lists them.\<close>

definition extension_rows :: "js \<Rightarrow> string \<times> js \<Rightarrow> js list" where
  "extension_rows values e =
     (if has_length (get (snd e) ''db'')
      then map (\<lambda>item. obj [P ''ext'' (Str (fst e)),
                            P ''db'' (get (get values DB_NAMES) (js_str item))]) (elems (get (snd e) ''db''))
      else [])"

definition enables :: "string \<Rightarrow> string \<times> js \<Rightarrow> bool" where
  "enables k e \<longleftrightarrow> has_length (get (snd e) ''db'') \<and> truthy (get (snd e) ''isThirdParty'') \<and> k = ''enable_'' @ fst e"

lemma add_extension_step:
  assumes "add_extension values (db, obj parts) e = Ok b"
  shows "\<exists>parts'. b = (db @ extension_rows values e, obj parts')
     \<and> (\<forall>k. lookup_parts parts' k = (if enables k e then Some (Bool True) else lookup_parts parts k))"
proof (cases "has_length (get (snd e) ''db'')")
  case False
  then have "b = (db, obj parts)"
    using assms by (simp add: add_extension_def split_beta Let_def)
  with False show ?thesis by (auto simp: extension_rows_def enables_def)
next
  case True
  then obtain conv where c: "extension_dbs values (fst e) (snd e) = Ok conv"
    "b = (db @ conv, if truthy (get (snd e) ''isThirdParty'')
            then obj [Spread (obj parts), P (''enable_'' @ fst e) (Bool True)] else obj parts)"
    using assms by (auto simp: add_extension_def split_beta Let_def and_then_eq_Ok)
  obtain items where items: "get (snd e) ''db'' = Arr items"
    using c(1) by (auto simp: extension_dbs_def split: js.splits)
  have "conv = extension_rows values e"
  proof -
    have "map_all (\<lambda>item. map_res (\<lambda>name. obj [P ''ext'' (Str (fst e)), P ''db'' name])
            (member (get values DB_NAMES) (js_str item))) items = Ok conv"
      using c(1) items by (simp add: extension_dbs_def)
    then have "conv = map (\<lambda>item. obj [P ''ext'' (Str (fst e)),
                            P ''db'' (get (get values DB_NAMES) (js_str item))]) items"
      by (induction items arbitrary: conv) (auto simp: and_then_eq_Ok map_res_eq_Ok member_Ok)
    then show ?thesis using True items by (simp add: extension_rows_def)
  qed
  note conv = this
  show ?thesis
  proof (cases "truthy (get (snd e) ''isThirdParty'')")
    case True
    with conv c(2) \<open>has_length _\<close> show ?thesis
      by (auto simp: enables_def intro!: exI [of _ "[Spread (obj parts), P (''enable_'' @ fst e) (Bool True)]"])
  next
    case False
    with conv c(2) show ?thesis by (auto simp: enables_def)
  qed
qed

lemma fold_extensions:
  "fold_res (add_extension values) (db, obj parts) es = Ok (db', xv) \<Longrightarrow>
     db' = db @ concat (map (extension_rows values) es)
     \<and> (\<exists>parts'. xv = obj parts' \<and>
          (\<forall>k. lookup_parts parts' k =
             (if list_ex (enables k) es then Some (Bool True) else lookup_parts parts k)))"
proof (induction es arbitrary: db parts)
  case (Cons e es)
  then obtain b where b: "add_extension values (db, obj parts) e = Ok b"
    "fold_res (add_extension values) b es = Ok (db', xv)"
    by (auto simp: and_then_eq_Ok)
  from add_extension_step [OF b(1)] obtain parts' where
    p: "b = (db @ extension_rows values e, obj parts')"
      "\<And>k. lookup_parts parts' k = (if enables k e then Some (Bool True) else lookup_parts parts k)"
    by auto
  from Cons.IH [OF b(2) [unfolded p(1)]] show ?case
    by (auto simp: p(2) split: if_splits)
qed auto

text \<open>
  The request asks for every chosen extension once per chosen database, under the name of
  that database, and sets \<open>enable_<name>\<close> for the third-party ones and for nothing else.
\<close>

theorem extensions_request:
  assumes "getExtensions values = Ok ext"
  shows "get ext ''db'' = Arr (concat (map (extension_rows values) (entries (get values EXT_EXTENSIONS))))
     \<and> look_obj (get ext ''extraVars'') k =
        (if list_ex (enables k) (entries (get values EXT_EXTENSIONS)) then Some (Bool True) else None)"
proof -
  obtain db xv where r: "fold_res (add_extension values) ([], obj []) (entries (get values EXT_EXTENSIONS)) = Ok (db, xv)"
    "ext = obj [P ''db'' (Arr db), P ''extraVars'' xv]"
    using assms by (auto simp: getExtensions_def map_res_eq_Ok split: if_splits)
  from fold_extensions [OF r(1)] show ?thesis
    by (auto simp: r(2) obj_simps look_obj_obj)
qed

definition extension_form :: js where
  "extension_form = obj
     [P DB_NAMES (obj [P ''0'' (Str ''app'')]),
      P EXT_EXTENSIONS (obj
        [P ''timescaledb'' (obj [P ''db'' (Arr [Str ''0'']), P ''isThirdParty'' (Bool True)]),
         P ''citus'' (obj [P ''db'' (Arr [])])])]"

theorem extensions_request_witness:
  "\<exists>ext. getExtensions extension_form = Ok ext
     \<and> look_obj (get ext ''extraVars'') ''enable_timescaledb'' = Some (Bool True)
     \<and> look_obj (get ext ''extraVars'') ''enable_citus'' = None"
proof -
  have "is_ok (getExtensions extension_form)" by code_simp
  then obtain ext where ext: "getExtensions extension_form = Ok ext"
    by (auto simp: is_ok_iff)
  have "list_ex (enables ''enable_timescaledb'') (entries (get extension_form EXT_EXTENSIONS))"
    "\<not> list_ex (enables ''enable_citus'') (entries (get extension_form EXT_EXTENSIONS))"
    by code_simp+
  then show ?thesis
    using ext extensions_request [OF ext, of "''enable_timescaledb''"]
      extensions_request [OF ext, of "''enable_citus''"] by simp
qed

section \<open>The request\<close>

text \<open>What lodash documents of \<open>isEmpty\<close> on \<open>undefined\<close> and on objects.\<close>

definition lodash_isEmpty :: "(js \<Rightarrow> bool) \<Rightarrow> bool" where
  "lodash_isEmpty isEmpty \<longleftrightarrow> isEmpty Undef \<and> (\<forall>ps. isEmpty (Obj ps) \<longleftrightarrow> ps = [])"

lemma lodash_is_empty: "lodash_isEmpty is_empty"
  by (simp add: lodash_isEmpty_def is_empty_def)

lemma strip_Undef: "lodash_isEmpty isEmpty \<Longrightarrow> strip_custom_vars isEmpty Undef = Undef"
  by (simp add: strip_custom_vars_def lodash_isEmpty_def)

lemma strip_Obj:
  "lodash_isEmpty isEmpty \<Longrightarrow> strip_custom_vars isEmpty (Obj ps) =
     Obj (AList.delete ''description'' (AList.delete ''environment_id'' ps))"
  by (auto simp: strip_custom_vars_def lodash_isEmpty_def)

lemma get_strip:
  "lodash_isEmpty isEmpty \<Longrightarrow> get (strip_custom_vars isEmpty (Obj ps)) k =
     (if k = ''environment_id'' \<or> k = ''description'' then Undef else get (Obj ps) k)"
  by (auto simp: strip_Obj delete_conv')

lemma base_object_lookup:
  "lookup_part (Spread (base_object values secretId projectId custom)) k =
     (if k = ''project_id'' then Some projectId
      else if k = ''auth_info'' then (if truthy secretId then Some (obj [P ''secret_id'' secretId]) else None)
      else if k = ''name'' then Some (if get values CF_CREATION_TYPE = Str CREATE_YAML
             then get custom ''patroni_cluster_name'' else get values CF_CLUSTER_NAME)
      else if k = ''environment_id'' then Some (if get values CF_CREATION_TYPE = Str CREATE_YAML
             then get custom ''environment_id'' else get values CF_ENVIRONMENT_ID)
      else if k = ''description'' then Some (if get values CF_CREATION_TYPE = Str CREATE_YAML
             then get custom ''description'' else get values CF_DESCRIPTION)
      else None)"
  by (simp add: base_object_def)

lemma cloud_params_lookup:
  "getRequestCloudParams expert values secretsInfo custom = Ok r \<Longrightarrow>
     k \<notin> {''envs'', ''extra_vars''} \<Longrightarrow> lookup_part (Spread r) k = None"
  by (auto simp: getRequestCloudParams_def Let_def and_then_eq_Ok)

lemma local_params_lookup:
  "getRequestLocalMachineParams expert values secretId custom = Ok r \<Longrightarrow>
     k \<notin> {''envs'', ''extra_vars'', ''existing_cluster''} \<Longrightarrow> lookup_part (Spread r) k = None"
  by (auto simp: getRequestLocalMachineParams_def Let_def and_then_eq_Ok)

lemma params_extra_vars:
  assumes "\<not> nullish custom"
  shows "getRequestCloudParams expert values secretsInfo custom = Ok r \<Longrightarrow>
           lookup_part (Spread r) ''extra_vars'' = Some custom"
    and "getRequestLocalMachineParams expert values secretId custom = Ok r' \<Longrightarrow>
           lookup_part (Spread r') ''extra_vars'' = Some custom"
  using assms
  by (auto simp: getRequestCloudParams_def getRequestLocalMachineParams_def Let_def and_then_eq_Ok)

lemma request_parts:
  assumes "mapFormValuesToRequestFields isEmpty expert values secretId projectId secretsInfo custom = Ok req"
  obtains params where
    "(if is_cloud_request values (strip_custom_vars isEmpty custom)
      then getRequestCloudParams expert values secretsInfo (strip_custom_vars isEmpty custom)
      else getRequestLocalMachineParams expert values secretId (strip_custom_vars isEmpty custom)) = Ok params"
    "req = obj [Spread (base_object values secretId projectId custom), Spread params]"
  using assms by (auto simp: mapFormValuesToRequestFields_def Let_def and_then_eq_Ok simp del: if_split)

text \<open>
  C28: every request names its project, the stored secret if there is one, and the name,
  environment and description of the editor's YAML or of the form, whichever the cluster was
  created with.
\<close>

theorem request_identity:
  assumes "mapFormValuesToRequestFields isEmpty expert values secretId projectId secretsInfo custom = Ok req"
  shows "get req ''project_id'' = projectId
     \<and> get req ''auth_info'' = (if truthy secretId then obj [P ''secret_id'' secretId] else Undef)
     \<and> (if get values CF_CREATION_TYPE = Str CREATE_YAML
        then get req ''name'' = get custom ''patroni_cluster_name''
             \<and> get req ''environment_id'' = get custom ''environment_id''
             \<and> get req ''description'' = get custom ''description''
        else get req ''name'' = get values CF_CLUSTER_NAME
             \<and> get req ''environment_id'' = get values CF_ENVIRONMENT_ID
             \<and> get req ''description'' = get values CF_DESCRIPTION)"
proof -
  obtain params where p:
    "(if is_cloud_request values (strip_custom_vars isEmpty custom)
      then getRequestCloudParams expert values secretsInfo (strip_custom_vars isEmpty custom)
      else getRequestLocalMachineParams expert values secretId (strip_custom_vars isEmpty custom)) = Ok params"
    "req = obj [Spread (base_object values secretId projectId custom), Spread params]"
    using assms by (rule request_parts)
  have "lookup_part (Spread params) k = None" if "k \<notin> {''envs'', ''extra_vars'', ''existing_cluster''}" for k
    using p(1) that cloud_params_lookup local_params_lookup by (auto split: if_splits)
  then show ?thesis
    by (simp add: p(2) obj_simps base_object_lookup)
qed

text \<open>
  C29: with variables from the YAML editor the request carries exactly those, less the environment
  and the description, which it carries at its top level.
\<close>

theorem yaml_variables_are_sent:
  assumes "lodash_isEmpty isEmpty"
    and "mapFormValuesToRequestFields isEmpty expert values secretId projectId secretsInfo (Obj ps) = Ok req"
  shows "path req [''extra_vars'', k] =
     (if k = ''environment_id'' \<or> k = ''description'' then Undef else get (Obj ps) k)"
proof -
  obtain params where p:
    "(if is_cloud_request values (strip_custom_vars isEmpty (Obj ps))
      then getRequestCloudParams expert values secretsInfo (strip_custom_vars isEmpty (Obj ps))
      else getRequestLocalMachineParams expert values secretId (strip_custom_vars isEmpty (Obj ps))) = Ok params"
    "req = obj [Spread (base_object values secretId projectId (Obj ps)), Spread params]"
    using assms(2) by (rule request_parts)
  have "lookup_part (Spread params) ''extra_vars'' = Some (strip_custom_vars isEmpty (Obj ps))"
    using p(1) params_extra_vars [of "strip_custom_vars isEmpty (Obj ps)"]
    by (auto simp: strip_Obj [OF assms(1)] split: if_splits)
  then show ?thesis
    by (simp add: p(2) obj_simps get_strip [OF assms(1)])
qed

definition yaml_form :: js where
  "yaml_form = obj [P CF_CREATION_TYPE (Str CREATE_YAML)]"

definition yaml_vars :: js where
  "yaml_vars = obj [P ''patroni_cluster_name'' (Str ''c1''), P ''environment_id'' (Num 3),
     P ''cloud_provider'' (Str PROV_AWS)]"

theorem request_identity_witness:
  "\<exists>req. mapFormValuesToRequestFields is_empty False yaml_form (Num 7) (Num 1) Undef yaml_vars = Ok req
     \<and> get req ''project_id'' = Num 1 \<and> get req ''environment_id'' = Num 3"
proof -
  have "is_ok (mapFormValuesToRequestFields is_empty False yaml_form (Num 7) (Num 1) Undef yaml_vars)"
    by code_simp
  then obtain req where
    req: "mapFormValuesToRequestFields is_empty False yaml_form (Num 7) (Num 1) Undef yaml_vars = Ok req"
    by (auto simp: is_ok_iff)
  have "get yaml_form CF_CREATION_TYPE = Str CREATE_YAML" "get yaml_vars ''environment_id'' = Num 3"
    by code_simp+
  then show ?thesis using req request_identity [OF req] by simp
qed

theorem yaml_variables_are_sent_witness:
  "\<exists>req. mapFormValuesToRequestFields is_empty False yaml_form (Num 7) (Num 1) Undef yaml_vars = Ok req
     \<and> path req [''extra_vars'', ''patroni_cluster_name''] = Str ''c1''"
proof -
  have "is_ok (mapFormValuesToRequestFields is_empty False yaml_form (Num 7) (Num 1) Undef yaml_vars)"
    by code_simp
  then obtain req where
    req: "mapFormValuesToRequestFields is_empty False yaml_form (Num 7) (Num 1) Undef yaml_vars = Ok req"
    by (auto simp: is_ok_iff)
  obtain ps where ps: "yaml_vars = Obj ps" by (simp add: yaml_vars_def obj_def)
  have "get yaml_vars ''patroni_cluster_name'' = Str ''c1''" by code_simp
  then show ?thesis
    using req yaml_variables_are_sent [OF lodash_is_empty req [unfolded ps], of "''patroni_cluster_name''"]
    by (simp add: ps)
qed

end
