(* ===== verification/Effects.thy ===== *)
theory Effects
  imports Stores
begin

text \<open>
  Handlers with effects. A handler is a state transformer that may throw: it reads and writes the
  state of its component (a record that extends \<open>world\<close>), and everything the outside sees
  (requests with their answers, toasts, navigation, calls of callbacks) is an event of the trace.
  The REST server is a parameter: its answer to a request depends on the trace so far, the endpoint
  and the argument. Translated texts, router paths and errors shown to the user are opaque
  \<open>Fn\<close> values made of what they are computed from.
\<close>

datatype event =
    Request string js "js res"
  | Toast string js
  | Navigate js
  | Call string "js list"

type_synonym server = "event list \<Rightarrow> string \<Rightarrow> js \<Rightarrow> js res"

type_synonym ('w, 'a) action = "'w \<Rightarrow> 'a res \<times> 'w"

record world =
  trace :: "event list"

section \<open>Sequencing, try, catch and finally\<close>

definition ret :: "'a \<Rightarrow> ('w, 'a) action" where
  "ret x = (\<lambda>w. (Ok x, w))"

definition throw :: "exn \<Rightarrow> ('w, 'a) action" where
  "throw e = (\<lambda>w. (Throw e, w))"

definition lift_res :: "'a res \<Rightarrow> ('w, 'a) action" where
  "lift_res r = (\<lambda>w. (r, w))"

definition bind :: "('w, 'a) action \<Rightarrow> ('a \<Rightarrow> ('w, 'b) action) \<Rightarrow> ('w, 'b) action" where
  "bind m f = (\<lambda>w. case m w of (Ok x, w') \<Rightarrow> f x w' | (Throw e, w') \<Rightarrow> (Throw e, w'))"

definition seq :: "('w, 'a) action \<Rightarrow> ('w, 'b) action \<Rightarrow> ('w, 'b) action" where
  "seq m n = bind m (\<lambda>_. n)"

definition catch :: "('w, 'a) action \<Rightarrow> (exn \<Rightarrow> ('w, 'a) action) \<Rightarrow> ('w, 'a) action" where
  "catch m h = (\<lambda>w. case m w of (Ok x, w') \<Rightarrow> (Ok x, w') | (Throw e, w') \<Rightarrow> h e w')"

definition finally_do :: "('w, 'a) action \<Rightarrow> ('w, 'b) action \<Rightarrow> ('w, 'a) action" where
  "finally_do m n = (\<lambda>w. case m w of (r, w') \<Rightarrow>
     (case n w' of (Ok _, w'') \<Rightarrow> (r, w'') | (Throw e, w'') \<Rightarrow> (Throw e, w'')))"

definition when_do :: "bool \<Rightarrow> ('w, js) action \<Rightarrow> ('w, js) action" where
  "when_do c m = (if c then m else ret Undef)"

definition modify :: "('w \<Rightarrow> 'w) \<Rightarrow> ('w, js) action" where
  "modify f = (\<lambda>w. (Ok Undef, f w))"

definition reading :: "('w \<Rightarrow> ('w, 'a) action) \<Rightarrow> ('w, 'a) action" where
  "reading f = (\<lambda>w. f w w)"

section \<open>Events\<close>

definition emit :: "event \<Rightarrow> ('w world_scheme, js) action" where
  "emit e = (\<lambda>w. (Ok Undef, w\<lparr>trace := trace w @ [e]\<rparr>))"

text \<open>\<open>await trigger(arg).unwrap()\<close>: a rejected request throws. Without \<open>unwrap\<close> the
  awaited value is \<open>{data}\<close> or \<open>{error}\<close> and nothing is thrown.\<close>

definition request :: "server \<Rightarrow> string \<Rightarrow> js \<Rightarrow> ('w world_scheme, js) action" where
  "request srv ep arg = (\<lambda>w.
     let r = srv (trace w) ep arg in (r, w\<lparr>trace := trace w @ [Request ep arg r]\<rparr>))"

definition exn_js :: "exn \<Rightarrow> js" where
  "exn_js e = (case e of
       TypeError \<Rightarrow> Fn ''TypeError'' []
     | SyntaxError \<Rightarrow> Fn ''SyntaxError'' []
     | Rejected m \<Rightarrow> Fn ''rejected'' [Str m]
     | Thrown k \<Rightarrow> Fn ''t'' [Str k])"

definition request_settled :: "server \<Rightarrow> string \<Rightarrow> js \<Rightarrow> ('w world_scheme, js) action" where
  "request_settled srv ep arg = (\<lambda>w.
     let r = srv (trace w) ep arg
     in (Ok (case r of Ok v \<Rightarrow> obj [P ''data'' v] | Throw e \<Rightarrow> obj [P ''error'' (exn_js e)]),
         w\<lparr>trace := trace w @ [Request ep arg r]\<rparr>))"

text \<open>\<open>t(key, options)\<close>\<close>

definition tr :: "string \<Rightarrow> part list \<Rightarrow> js" where
  "tr key options = Fn ''t'' [Str key, obj options]"

text \<open>\<open>shared/lib/functions.ts\<close>\<close>

definition generateAbsoluteRouterPath :: "string \<Rightarrow> js \<Rightarrow> js" where
  "generateAbsoluteRouterPath route params = Fn ''resolvePath'' [Fn ''generatePath'' [Str route, params]]"

definition handleRequestErrorCatch :: "exn \<Rightarrow> ('w world_scheme, js) action" where
  "handleRequestErrorCatch e =
     seq (emit (Call ''console.error'' [exn_js e])) (emit (Toast ''error'' (exn_js e)))"

definition getEnvVariable :: "js \<Rightarrow> js \<Rightarrow> string \<Rightarrow> js" where
  "getEnvVariable env importMetaEnv variableName =
     coalesce (get env variableName) (get importMetaEnv variableName)"

text \<open>\<open>isValid\<close> and \<open>format\<close> are date-fns' functions.\<close>

definition convertTimestampToReadableTime ::
    "(js \<Rightarrow> bool) \<Rightarrow> (js \<Rightarrow> string \<Rightarrow> string) \<Rightarrow> js \<Rightarrow> js" where
  "convertTimestampToReadableTime isValidDate format timestamp =
     Str (if isValidDate timestamp then format timestamp ''MMM dd, yyyy, HH:mm:ss'' else ''-'')"

definition manageSortingOrder :: "js \<Rightarrow> js" where
  "manageSortingOrder sorting =
     (if truthy (get sorting ''desc'') then Str (''-'' @ js_str (get sorting ''id'')) else get sorting ''id'')"

section \<open>Facts\<close>

named_theorems run_simps \<open>running a handler\<close>

lemmas run_defs [run_simps] =
  ret_def throw_def lift_res_def bind_def seq_def catch_def finally_do_def modify_def reading_def
  emit_def request_def request_settled_def handleRequestErrorCatch_def when_do_def
  Let_def

text \<open>The events a handler adds: a handler never rewrites the trace.\<close>

definition extends :: "('w world_scheme, 'a) action \<Rightarrow> bool" where
  "extends m \<longleftrightarrow> (\<forall>w. \<exists>es. trace (snd (m w)) = trace w @ es)"

text \<open>The answers to the requests of one endpoint, successful ones only.\<close>

fun answer_of :: "string \<Rightarrow> event \<Rightarrow> js list" where
  "answer_of ep (Request ep' arg (Ok v)) = (if ep = ep' then [v] else [])"
| "answer_of ep _ = []"

definition answers :: "string \<Rightarrow> event list \<Rightarrow> js list" where
  "answers ep es = concat (map (answer_of ep) es)"

fun requests_to :: "string \<Rightarrow> event list \<Rightarrow> js list" where
  "requests_to ep [] = []"
| "requests_to ep (Request ep' arg r # es) = (if ep = ep' then arg # requests_to ep es else requests_to ep es)"
| "requests_to ep (e # es) = requests_to ep es"

lemma answers_simps [simp]:
  "answers ep [] = []"
  "answers ep (e # es) = answer_of ep e @ answers ep es"
  "answers ep (es @ fs) = answers ep es @ answers ep fs"
  by (simp_all add: answers_def)

lemma requests_append [simp]: "requests_to ep (es @ fs) = requests_to ep es @ requests_to ep fs"
  by (induction es rule: requests_to.induct) auto

section \<open>Invariants of handlers\<close>

text \<open>
  \<open>keeps I m\<close>: the handler preserves \<open>I\<close> whether it ends normally or throws. The
  rules follow the combinators, so a handler's invariant is proved by its structure.
\<close>

definition keeps :: "('w \<Rightarrow> bool) \<Rightarrow> ('w, 'a) action \<Rightarrow> bool" where
  "keeps I m \<longleftrightarrow> (\<forall>w. I w \<longrightarrow> I (snd (m w)))"

named_theorems keeps_intros \<open>a handler keeps an invariant\<close>

lemma keepsD: "keeps I m \<Longrightarrow> I w \<Longrightarrow> I (snd (m w))"
  by (simp add: keeps_def)

lemma keeps_ret [keeps_intros]: "keeps I (ret x)"
  and keeps_throw [keeps_intros]: "keeps I (throw e)"
  and keeps_lift [keeps_intros]: "keeps I (lift_res r)"
  by (simp_all add: keeps_def run_simps)

lemma keeps_bind [keeps_intros]: "keeps I m \<Longrightarrow> (\<And>x. keeps I (f x)) \<Longrightarrow> keeps I (bind m f)"
  by (auto simp: keeps_def bind_def split: prod.splits res.splits)

lemma keeps_seq [keeps_intros]: "keeps I m \<Longrightarrow> keeps I n \<Longrightarrow> keeps I (seq m n)"
  unfolding seq_def by (rule keeps_bind)

lemma keeps_catch [keeps_intros]: "keeps I m \<Longrightarrow> (\<And>e. keeps I (h e)) \<Longrightarrow> keeps I (catch m h)"
  by (auto simp: keeps_def catch_def split: prod.splits res.splits)

lemma keeps_finally [keeps_intros]: "keeps I m \<Longrightarrow> keeps I n \<Longrightarrow> keeps I (finally_do m n)"
  by (auto simp: keeps_def finally_do_def split: prod.splits res.splits)

lemma keeps_reading [keeps_intros]: "(\<And>w. keeps I (f w)) \<Longrightarrow> keeps I (reading f)"
  by (simp add: keeps_def reading_def)

lemma keeps_if [keeps_intros]:
  "(c \<Longrightarrow> keeps I m) \<Longrightarrow> (\<not> c \<Longrightarrow> keeps I n) \<Longrightarrow> keeps I (if c then m else n)"
  by simp

lemma keeps_when [keeps_intros]: "(c \<Longrightarrow> keeps I m) \<Longrightarrow> keeps I (when_do c m)"
  by (simp add: when_do_def keeps_ret)

end
