(* ===== verification/Ui.thy ===== *)
theory Ui
  imports Effects
begin

text \<open>
  The parts of the view layer every component uses. An element is the object React's constructor
  makes of its type, props and children (\<open>elem\<close>); a child component is an element of that
  component's name. A \<open>Controller\<close> of react-hook-form is shown with what it renders: it
  passes its \<open>render\<close> function the current value of its field and a setter for it.
  \<open>controller_names\<close> reads the form fields of a tree, in order.
\<close>

definition on_change :: "string \<Rightarrow> js" where
  "on_change name = Fn ''field.onChange'' [Str name]"

definition controller :: "js \<Rightarrow> string \<Rightarrow> (js \<Rightarrow> js \<Rightarrow> js) \<Rightarrow> js" where
  "controller values name render =
     elem ''Controller'' [P ''name'' (Str name)] [render (get values name) (on_change name)]"

text \<open>\<open>error={!!errors[name]}\<close> and \<open>helperText={errors[name]?.message ?? ''}\<close>\<close>

definition has_error :: "js \<Rightarrow> string \<Rightarrow> js" where
  "has_error errors name = to_bool (get errors name)"

definition error_text :: "js \<Rightarrow> string \<Rightarrow> js" where
  "error_text errors name = coalesce (get (get errors name) ''message'') (Str [])"

section \<open>Reading a tree\<close>

definition is_controller :: "(string \<times> js) list \<Rightarrow> bool" where
  "is_controller ps \<longleftrightarrow> map_of ps ''type'' = Some (Str ''Controller'')"

definition name_prop :: "(string \<times> js) list \<Rightarrow> string list" where
  "name_prop ps = (case get (get (Obj ps) ''props'') ''name'' of Str n \<Rightarrow> [n] | _ \<Rightarrow> [])"

fun controller_names :: "js \<Rightarrow> string list"
  and controller_names_list :: "js list \<Rightarrow> string list"
  and controller_names_props :: "(string \<times> js) list \<Rightarrow> string list" where
  "controller_names (Arr xs) = controller_names_list xs"
| "controller_names (Obj ps) =
     (if is_controller ps then name_prop ps else []) @ controller_names_props ps"
| "controller_names _ = []"
| "controller_names_list [] = []"
| "controller_names_list (x # xs) = controller_names x @ controller_names_list xs"
| "controller_names_props [] = []"
| "controller_names_props ((k, v) # ps) = controller_names v @ controller_names_props ps"

text \<open>The elements of one component in a tree.\<close>

fun elements :: "string \<Rightarrow> js \<Rightarrow> js list"
  and elements_list :: "string \<Rightarrow> js list \<Rightarrow> js list"
  and elements_props :: "string \<Rightarrow> (string \<times> js) list \<Rightarrow> js list" where
  "elements tag (Arr xs) = elements_list tag xs"
| "elements tag (Obj ps) =
     (if map_of ps ''type'' = Some (Str tag) then [Obj ps] else []) @ elements_props tag ps"
| "elements tag _ = []"
| "elements_list tag [] = []"
| "elements_list tag (x # xs) = elements tag x @ elements_list tag xs"
| "elements_props tag [] = []"
| "elements_props tag ((k, v) # ps) = elements tag v @ elements_props tag ps"

definition displays :: "string \<Rightarrow> js \<Rightarrow> bool" where
  "displays tag tree \<longleftrightarrow> elements tag tree \<noteq> []"

end
