(* ===== verification/Secrets.thy ===== *)
theory Secrets
  imports Ui FormFields
begin

text \<open>
  \<open>entities/secret-form-block\<close> and \<open>features/add-secret\<close>: the kinds of secrets, the form
  of each, the body of the request that stores one, and the dialog that sends it.
\<close>

section \<open>Kinds of secrets\<close>

definition secret_content :: "string \<Rightarrow> string \<Rightarrow> string \<Rightarrow> js" where
  "secret_content key link component = obj
     [P ''translationKey'' (Str key), P ''link'' (Str link), P ''formComponent'' (Str component)]"

definition getAddSecretFormContentByType :: "js \<Rightarrow> js" where
  "getAddSecretFormContentByType type =
     (if type = Str PROV_AWS then secret_content ''settingsAwsSecretInfo''
        ''https://docs.aws.amazon.com/IAM/latest/UserGuide/id_credentials_access-keys.html'' ''AwsSecretBlock''
      else if type = Str PROV_GCP then secret_content ''settingsGcpSecretInfo''
        ''https://cloud.google.com/iam/docs/keys-create-delete'' ''GcpSecretBlock''
      else if type = Str PROV_AZURE then secret_content ''settingsAzureSecretInfo''
        ''https://learn.microsoft.com/en-us/azure/developer/ansible/create-ansible-service-principal?tabs=azure-cli''
        ''AzureSecretBlock''
      else if type = Str PROV_DIGITAL_OCEAN then secret_content ''settingsDoSecretInfo''
        ''https://docs.digitalocean.com/reference/api/create-personal-access-token/'' ''DoSecretBlock''
      else if type = Str PROV_HETZNER then secret_content ''settingsHetznerSecretInfo''
        ''https://docs.hetzner.com/cloud/api/getting-started/generating-api-token/'' ''HetznerSecretBlock''
      else if type = Str AUTH_SSH then obj
        [P ''translationKey'' (Str ''settingsSshKeySecretInfo''), P ''formComponent'' (Str ''SshKeySecretBlock'')]
      else obj
        [P ''translationKey'' (Str ''settingsPasswordSecretInfo''), P ''formComponent'' (Str ''PasswordSecretBlock'')])"

text \<open>\<open>{[type]: {[field]: values[field], ...}}\<close>\<close>

definition secret_body :: "string \<Rightarrow> string list \<Rightarrow> js \<Rightarrow> js" where
  "secret_body type names values = obj [P type (obj (map (\<lambda>f. P f (get values f)) names))]"

definition getSecretBodyFromValues :: "js \<Rightarrow> js" where
  "getSecretBodyFromValues values =
     (let type = get values SEC_SECRET_TYPE in
      if type = Str PROV_AWS
        then secret_body PROV_AWS [SEC_AWS_ACCESS_KEY_ID, SEC_AWS_SECRET_ACCESS_KEY] values
      else if type = Str PROV_GCP
        then secret_body PROV_GCP [SEC_GCP_SERVICE_ACCOUNT_CONTENTS] values
      else if type = Str PROV_DIGITAL_OCEAN
        then secret_body PROV_DIGITAL_OCEAN [SEC_DO_API_TOKEN] values
      else if type = Str PROV_AZURE
        then secret_body PROV_AZURE
               [SEC_AZURE_SUBSCRIPTION_ID, SEC_AZURE_CLIENT_ID, SEC_AZURE_SECRET, SEC_AZURE_TENANT] values
      else if type = Str PROV_HETZNER
        then secret_body PROV_HETZNER [SEC_HCLOUD_API_TOKEN] values
      else if type = Str AUTH_SSH
        then secret_body AUTH_SSH [SEC_SSH_PRIVATE_KEY] values
      else if type = Str AUTH_PASSWORD
        then secret_body AUTH_PASSWORD [SEC_USERNAME, SEC_PASSWORD] values
      else Undef)"

section \<open>The form of each kind\<close>

text \<open>One field of a secret form: the \<open>Controller\<close> and its \<open>TextField\<close>.\<close>

definition secret_text_field :: "js \<Rightarrow> js \<Rightarrow> string \<Rightarrow> part list \<Rightarrow> js \<Rightarrow> js" where
  "secret_text_field values errors name extra label =
     controller values name (\<lambda>value onChange. elem ''TextField''
       ([P ''required'' (Bool True)] @ extra @
        [P ''value'' value, P ''onChange'' onChange, P ''error'' (has_error errors name),
         P ''helperText'' (error_text errors name), P ''size'' (Str ''small''), P ''label'' label]) [])"

definition secret_stack :: "js list \<Rightarrow> js" where
  "secret_stack children = elem ''Stack''
     [P ''direction'' (Str ''column''), P ''gap'' (Str ''16px''), P ''width'' (Str ''100%'')] children"

definition multiline6 :: "part list" where
  "multiline6 = [P ''multiline'' (Bool True), P ''rows'' (Num 6)]"

definition AwsSecretBlock :: "js \<Rightarrow> js \<Rightarrow> js" where
  "AwsSecretBlock values errors = secret_stack
     [secret_text_field values errors SEC_AWS_ACCESS_KEY_ID [] (Str ''AWS_ACCESS_KEY_ID''),
      secret_text_field values errors SEC_AWS_SECRET_ACCESS_KEY [] (Str ''AWS_SECRET_ACCESS_KEY'')]"

definition GcpSecretBlock :: "js \<Rightarrow> js \<Rightarrow> js" where
  "GcpSecretBlock values errors = secret_stack
     [secret_text_field values errors SEC_GCP_SERVICE_ACCOUNT_CONTENTS multiline6
        (Str ''GCP_SERVICE_ACCOUNT_CONTENTS'')]"

definition AzureSecretBlock :: "js \<Rightarrow> js \<Rightarrow> js" where
  "AzureSecretBlock values errors = secret_stack
     [secret_text_field values errors SEC_AZURE_SUBSCRIPTION_ID [] (Str ''AZURE_SUBSCRIPTION_ID''),
      secret_text_field values errors SEC_AZURE_CLIENT_ID [] (Str ''AZURE_CLIENT_ID''),
      secret_text_field values errors SEC_AZURE_SECRET [] (Str ''AZURE_SECRET''),
      secret_text_field values errors SEC_AZURE_TENANT [] (Str ''AZURE_TENANT'')]"

definition DoSecretBlock :: "js \<Rightarrow> js \<Rightarrow> js" where
  "DoSecretBlock values errors = secret_stack
     [secret_text_field values errors SEC_DO_API_TOKEN [] (Str ''DO_API_TOKEN'')]"

definition HetznerSecretBlock :: "js \<Rightarrow> js \<Rightarrow> js" where
  "HetznerSecretBlock values errors = secret_stack
     [secret_text_field values errors SEC_HCLOUD_API_TOKEN [] (Str ''HCLOUD_API_TOKEN'')]"

definition SshKeySecretBlock :: "js \<Rightarrow> js \<Rightarrow> js" where
  "SshKeySecretBlock values errors = secret_stack
     [secret_text_field values errors SEC_SSH_PRIVATE_KEY multiline6 (tr ''sshPrivateKey'' [])]"

definition PasswordSecretBlock :: "js \<Rightarrow> js \<Rightarrow> js" where
  "PasswordSecretBlock values errors = secret_stack
     [controller values SEC_USERNAME (\<lambda>value onChange. elem ''TextField''
        [P ''required'' (Bool True), P ''value'' value, P ''onChange'' onChange, P ''fullWidth'' (Bool True),
         P ''error'' (has_error errors SEC_USERNAME), P ''helperText'' (error_text errors SEC_USERNAME),
         P ''size'' (Str ''small''), P ''label'' (tr ''username'' [])] []),
      secret_text_field values errors SEC_PASSWORD [] (tr ''password'' [])]"

text \<open>The component an element of this name renders.\<close>

definition secret_component :: "string \<Rightarrow> js \<Rightarrow> js \<Rightarrow> js" where
  "secret_component name values errors =
     (if name = ''AwsSecretBlock'' then AwsSecretBlock values errors
      else if name = ''GcpSecretBlock'' then GcpSecretBlock values errors
      else if name = ''AzureSecretBlock'' then AzureSecretBlock values errors
      else if name = ''DoSecretBlock'' then DoSecretBlock values errors
      else if name = ''HetznerSecretBlock'' then HetznerSecretBlock values errors
      else if name = ''SshKeySecretBlock'' then SshKeySecretBlock values errors
      else if name = ''PasswordSecretBlock'' then PasswordSecretBlock values errors
      else Null)"

definition SecretFormBlock :: "js \<Rightarrow> bool \<Rightarrow> js" where
  "SecretFormBlock secretType isAdditionalInfoDisplayed =
     (let content = getAddSecretFormContentByType secretType in
      elem ''Stack'' [P ''gap'' (Str ''16px''), P ''width'' (Str ''100%'')]
        [elem ''Typography'' [P ''variant'' (Str ''caption'')]
           [if truthy (get content ''link'')
            then elem ''Trans'' [P ''i18nKey'' (get content ''translationKey'')]
                   [elem ''Link'' [P ''href'' (get content ''link''), P ''color'' (Str ''text.secondary''),
                                   P ''target'' (Str ''_blank'')] []]
            else tr (js_str (get content ''translationKey'')) []],
         elem (js_str (get content ''formComponent'')) [] [],
         when_js isAdditionalInfoDisplayed
           (elem ''Typography'' [P ''variant'' (Str ''caption'')] [tr ''settingsConfidentialDataStore'' []])])"

section \<open>The dialog that adds a secret\<close>

record add_secret_state = world +
  secret_modal_open :: bool

definition add_secret_onSubmit :: "server \<Rightarrow> js \<Rightarrow> js \<Rightarrow> (add_secret_state, js) action" where
  "add_secret_onSubmit srv currentProject values =
     catch
       (when_do (truthy currentProject)
         (seq (request srv ''postSecrets'' (obj
                 [P ''requestSecretCreate'' (obj
                   [P ''project_id'' (js_number currentProject),
                    P ''name'' (get values SEC_SECRET_NAME),
                    P ''type'' (get values SEC_SECRET_TYPE),
                    P ''value'' (getSecretBodyFromValues values)])]))
         (seq (emit (Call ''methods.reset'' []))
         (seq (emit (Toast ''success'' (tr ''secretSuccessfullyCreated''
                 [P ''ns'' (Str ''toasts''), P ''secretName'' (get values SEC_SECRET_NAME)])))
              (modify (\<lambda>w. w\<lparr>secret_modal_open := False\<rparr>))))))
       handleRequestErrorCatch"

definition secret_type_options :: "string list" where
  "secret_type_options =
     [PROV_AWS, PROV_GCP, PROV_AZURE, PROV_DIGITAL_OCEAN, PROV_HETZNER] @ map snd AUTHENTICATION_METHODS"

text \<open>A labelled row of the dialog, and the card every dialog of the console uses.\<close>

definition dialog_row :: "js list \<Rightarrow> js" where
  "dialog_row children = elem ''Stack''
     [P ''direction'' (Str ''row''), P ''alignItems'' (Str ''center''), P ''gap'' (Str ''8px'')] children"

definition dialog_card :: "js list \<Rightarrow> js" where
  "dialog_card children = elem ''Card''
     [P ''sx'' (obj
       [P ''position'' (Str ''absolute''), P ''top'' (Str ''50%''), P ''left'' (Str ''50%''),
        P ''transform'' (Str ''translate(-50%, -50%)''), P ''width'' (Num 400),
        P ''height'' (Str ''max-content''), P ''bgcolor'' (Str ''background.paper''),
        P ''borderRadius'' (Str ''3px''), P ''p'' (Num 4)])] children"

definition busy_icon :: "bool \<Rightarrow> js" where
  "busy_icon busy = (if busy then elem ''CircularProgress'' [P ''size'' (Num 16)] [] else Undef)"

definition menu_item :: "js \<Rightarrow> js \<Rightarrow> js" where
  "menu_item value label = elem ''MenuItem'' [P ''key'' value, P ''value'' value] [label]"

definition submit_button :: "bool \<Rightarrow> bool \<Rightarrow> js \<Rightarrow> js" where
  "submit_button disabled busy label = elem ''Button''
     [P ''type'' (Str ''submit''), P ''variant'' (Str ''contained''), P ''disabled'' (Bool disabled),
      P ''fullWidth'' (Bool False), P ''startIcon'' (busy_icon busy)] [label]"

definition SettingsAddSecret :: "bool \<Rightarrow> js \<Rightarrow> bool \<Rightarrow> bool \<Rightarrow> bool \<Rightarrow> js" where
  "SettingsAddSecret modalOpen values isValid isSubmitting isLoading = fragment
     [elem ''Button'' [P ''onClick'' (Fn ''handleModalOpenState'' [Bool True]),
        P ''startIcon'' (elem ''AddBoxOutlinedIcon'' [] []), P ''variant'' (Str ''text'')]
        [tr ''addSecret'' [P ''ns'' (Str ''settings'')]],
      elem ''Modal'' [P ''open'' (Bool modalOpen), P ''onClose'' (Fn ''handleModalOpenState'' [Bool False])]
        [elem ''FormProvider'' []
          [elem ''form'' [P ''onSubmit'' (Fn ''handleSubmit'' [Str ''onSubmit''])]
            [dialog_card
              [elem ''Stack'' [P ''direction'' (Str ''column''), P ''gap'' (Str ''8px'')]
                [elem ''Typography'' [P ''fontWeight'' (Str ''bold''), P ''fontSize'' (Num 20)]
                   [tr ''addSecret'' [P ''ns'' (Str ''settings'')]],
                 dialog_row
                   [elem ''Typography'' [P ''width'' (Str ''140px'')] [tr ''secretType'' [P ''ns'' (Str ''settings'')]],
                    controller values SEC_SECRET_TYPE (\<lambda>value onChange. elem ''Select''
                      [P ''size'' (Str ''small''), P ''value'' value, P ''onChange'' onChange,
                       P ''fullWidth'' (Bool True)]
                      [Arr (map (\<lambda>option. menu_item (Str option) (Str option)) secret_type_options)])],
                 dialog_row
                   [elem ''Typography'' [P ''width'' (Str ''140px'')]
                      [tr ''secretName'' [P ''ns'' (Str ''settings'')], Str ''*''],
                    controller values SEC_SECRET_NAME (\<lambda>value onChange. elem ''TextField''
                      [P ''required'' (Bool True), P ''fullWidth'' (Bool True), P ''size'' (Str ''small''),
                       P ''value'' value, P ''onChange'' onChange] [])],
                 when_js (truthy (get values SEC_SECRET_TYPE))
                   (elem ''Stack'' [P ''gap'' (Str ''16px''), P ''alignItems'' (Str ''flex-start'')]
                     [elem ''SecretFormBlock'' [P ''secretType'' (get values SEC_SECRET_TYPE),
                        P ''isAdditionalInfoDisplayed'' (Bool True)] [],
                      submit_button (\<not> isValid \<or> isSubmitting \<or> isLoading) (isSubmitting \<or> isLoading)
                        (tr ''addSecret'' [])])]]]]]]"

section \<open>The form asks for what the request sends\<close>

definition secret_fields :: "string \<Rightarrow> string list" where
  "secret_fields type = controller_names
     (secret_component (js_str (get (getAddSecretFormContentByType (Str type)) ''formComponent''))
        (obj []) (obj []))"

lemma secret_type_options_eq:
  "secret_type_options =
     [PROV_AWS, PROV_GCP, PROV_AZURE, PROV_DIGITAL_OCEAN, PROV_HETZNER, AUTH_SSH, AUTH_PASSWORD]"
  by code_simp

lemma secret_fields_of:
  "secret_fields PROV_AWS = [SEC_AWS_ACCESS_KEY_ID, SEC_AWS_SECRET_ACCESS_KEY]"
  "secret_fields PROV_GCP = [SEC_GCP_SERVICE_ACCOUNT_CONTENTS]"
  "secret_fields PROV_AZURE =
     [SEC_AZURE_SUBSCRIPTION_ID, SEC_AZURE_CLIENT_ID, SEC_AZURE_SECRET, SEC_AZURE_TENANT]"
  "secret_fields PROV_DIGITAL_OCEAN = [SEC_DO_API_TOKEN]"
  "secret_fields PROV_HETZNER = [SEC_HCLOUD_API_TOKEN]"
  "secret_fields AUTH_SSH = [SEC_SSH_PRIVATE_KEY]"
  "secret_fields AUTH_PASSWORD = [SEC_USERNAME, SEC_PASSWORD]"
  by code_simp+

text \<open>
  For every kind of secret the dialog offers, the body of the request holds exactly the fields
  that kind's form shows, under the kind's own name, with the values of the form.
\<close>

theorem secret_body_matches_form:
  "list_all (\<lambda>type.
      secret_fields type \<noteq> []
      \<and> getSecretBodyFromValues (obj [Spread (obj values), P SEC_SECRET_TYPE (Str type)])
        = obj [P type (obj (map (\<lambda>f. P f (get (obj [Spread (obj values), P SEC_SECRET_TYPE (Str type)]) f))
                                 (secret_fields type)))])
     secret_type_options"
  unfolding secret_type_options_eq list.pred_inject
  by (simp add: secret_fields_of getSecretBodyFromValues_def secret_body_def get_obj Let_def)

text \<open>
  Storing a secret is one request for the current project; the dialog closes and the form is
  emptied only when the server has stored it, and a rejection is shown and leaves the dialog open.
  Without a project nothing is sent.
\<close>

theorem add_secret_outcome:
  "add_secret_onSubmit srv project values w =
    (if \<not> truthy project then (Ok Undef, w)
     else let body = obj [P ''requestSecretCreate'' (obj
                [P ''project_id'' (js_number project), P ''name'' (get values SEC_SECRET_NAME),
                 P ''type'' (get values SEC_SECRET_TYPE), P ''value'' (getSecretBodyFromValues values)])];
              r = srv (trace w) ''postSecrets'' body;
              w' = w\<lparr>trace := trace w @ [Request ''postSecrets'' body r]\<rparr>
          in case r of
               Ok v \<Rightarrow> (Ok Undef, w'\<lparr>secret_modal_open := False, trace := trace w' @
                 [Call ''methods.reset'' [], Toast ''success'' (tr ''secretSuccessfullyCreated''
                   [P ''ns'' (Str ''toasts''), P ''secretName'' (get values SEC_SECRET_NAME)])]\<rparr>)
             | Throw e \<Rightarrow> (Ok Undef, w'\<lparr>trace := trace w' @
                 [Call ''console.error'' [exn_js e], Toast ''error'' (exn_js e)]\<rparr>))"
  by (simp add: add_secret_onSubmit_def run_simps Let_def split: res.split)

end
