(* ===== verification/Submit.thy ===== *)
theory Submit
  imports TransformFacts Secrets
begin

text \<open>
  Creating a cluster: the submit handlers of \<open>widgets/cluster-form\<close>,
  \<open>widgets/yaml-editor-form\<close> and \<open>features/cluster-secret-modal\<close>. The state of a form is
  the ref that remembers a stored secret between submissions, the object of custom variables the
  editor shares with the handlers (the request mapper deletes two of its properties), and whether
  the dialog is open.
\<close>

record submit_state = world +
  secret_ref :: js
  custom_vars :: js
  modal_open :: bool

definition clusters_path :: string where
  "clusters_path = ''/clusters''"

definition to_clusters :: "(submit_state, js) action" where
  "to_clusters = emit (Navigate (generateAbsoluteRouterPath clusters_path Undef))"

definition ref_id :: "submit_state \<Rightarrow> js" where
  "ref_id w = get (secret_ref w) ''id''"

section \<open>Storing the secret once\<close>

text \<open>
  \<open>if (save && !ref?.current) { ref.current = await addSecretTrigger(...).unwrap(); toast }\<close>
\<close>

definition store_secret :: "server \<Rightarrow> bool \<Rightarrow> js res \<Rightarrow> js \<Rightarrow> (submit_state, js) action" where
  "store_secret srv save body secretName = reading (\<lambda>w.
     when_do (save \<and> \<not> truthy (secret_ref w))
       (bind (lift_res body) (\<lambda>b.
        bind (request srv ''postSecrets'' (obj [P ''requestSecretCreate'' b])) (\<lambda>r.
        seq (modify (\<lambda>w. w\<lparr>secret_ref := r\<rparr>))
            (emit (Toast ''success'' (tr ''secretSuccessfullyCreated''
               [P ''ns'' (Str ''toasts''), P ''secretName'' secretName])))))))"

definition create_cluster :: "server \<Rightarrow> js res \<Rightarrow> (submit_state, js) action" where
  "create_cluster srv req =
     bind (lift_res req) (\<lambda>r. request srv ''postClusters'' (obj [P ''requestClusterCreate'' r]))"

definition created_toast :: "js \<Rightarrow> js \<Rightarrow> js" where
  "created_toast values clusterName =
     tr (if truthy (get values DBS_IS_CLUSTER_EXISTS) then ''clusterSuccessfullyImported''
         else ''clusterSuccessfullyCreated'')
        [P ''ns'' (Str ''toasts''), P ''clusterName'' clusterName]"

section \<open>The cluster form\<close>

definition local_secret_body :: "js \<Rightarrow> js \<Rightarrow> js res" where
  "local_secret_body values currentProject = Ok (obj
     [P ''project_id'' (js_number currentProject),
      P ''type'' (get values CF_AUTHENTICATION_METHOD),
      P ''name'' (get values CF_SECRET_KEY_NAME),
      P ''value'' (getSecretBodyFromValues
        (obj [Spread values, P SEC_SECRET_TYPE (get values CF_AUTHENTICATION_METHOD)]))])"

definition form_submitLocalCluster ::
    "server \<Rightarrow> (js \<Rightarrow> bool) \<Rightarrow> bool \<Rightarrow> js \<Rightarrow> js \<Rightarrow> (submit_state, js) action" where
  "form_submitLocalCluster srv isEmpty expert currentProject values =
     seq (store_secret srv (truthy (get values CF_AUTHENTICATION_IS_SAVE_TO_CONSOLE))
            (local_secret_body values currentProject) (get values CF_SECRET_KEY_NAME))
         (reading (\<lambda>w. create_cluster srv (mapFormValuesToRequestFields isEmpty expert values
            (coalesce (ref_id w) (js_number (get values CF_SECRET_ID)))
            (js_number currentProject) Undef Undef)))"

definition form_submitCloudCluster ::
    "server \<Rightarrow> (js \<Rightarrow> bool) \<Rightarrow> bool \<Rightarrow> js \<Rightarrow> js \<Rightarrow> js \<Rightarrow> (submit_state, js) action" where
  "form_submitCloudCluster srv isEmpty expert secrets currentProject values =
     create_cluster srv (mapFormValuesToRequestFields isEmpty expert values
       (path secrets [''data'', ''data'', ''0'', ''id'']) (js_number currentProject) Undef Undef)"

definition form_onSubmit ::
    "server \<Rightarrow> (js \<Rightarrow> bool) \<Rightarrow> bool \<Rightarrow> js \<Rightarrow> js \<Rightarrow> js \<Rightarrow> (submit_state, js) action" where
  "form_onSubmit srv isEmpty expert secrets currentProject values =
     catch
       (bind (lift_res (member (get values CF_PROVIDER) ''code'')) (\<lambda>code.
        seq (if code = Str PROV_LOCAL
             then form_submitLocalCluster srv isEmpty expert currentProject values
             else form_submitCloudCluster srv isEmpty expert secrets currentProject values)
        (seq (emit (Toast ''info'' (created_toast values (get values CF_CLUSTER_NAME))))
             to_clusters)))
       handleRequestErrorCatch"

section \<open>The YAML editor's form\<close>

text \<open>\<open>...(!isEmpty(customExtraVars) ? {customExtraVars} : {})\<close>, an argument left out when
  empty; and the caller's object after the request mapper's \<open>delete\<close>s.\<close>

definition custom_arg :: "(js \<Rightarrow> bool) \<Rightarrow> js \<Rightarrow> js" where
  "custom_arg isEmpty custom = (if \<not> isEmpty custom then custom else Undef)"

definition strip_shared :: "(js \<Rightarrow> bool) \<Rightarrow> (submit_state, js) action" where
  "strip_shared isEmpty = modify (\<lambda>w.
     if isEmpty (custom_vars w) then w
     else w\<lparr>custom_vars := strip_custom_vars isEmpty (custom_vars w)\<rparr>)"

definition map_and_create ::
    "server \<Rightarrow> (js \<Rightarrow> bool) \<Rightarrow> bool \<Rightarrow> js \<Rightarrow> js \<Rightarrow> js \<Rightarrow> js \<Rightarrow> (submit_state, js) action" where
  "map_and_create srv isEmpty expert values secretId projectId secretsInfo = reading (\<lambda>w.
     seq (strip_shared isEmpty)
         (create_cluster srv (mapFormValuesToRequestFields isEmpty expert values secretId projectId
            secretsInfo (custom_arg isEmpty (custom_vars w)))))"

definition yaml_submitLocalCluster ::
    "server \<Rightarrow> (js \<Rightarrow> bool) \<Rightarrow> bool \<Rightarrow> js \<Rightarrow> js \<Rightarrow> (submit_state, js) action" where
  "yaml_submitLocalCluster srv isEmpty expert currentProject values =
     seq (store_secret srv (truthy (get values CF_AUTHENTICATION_IS_SAVE_TO_CONSOLE))
            (local_secret_body values currentProject) (get values CF_SECRET_KEY_NAME))
         (reading (\<lambda>w. map_and_create srv isEmpty expert values
            (coalesce (ref_id w) (js_number (get values CF_SECRET_ID)))
            (js_number currentProject) Undef))"

definition yaml_submitCloudCluster ::
    "server \<Rightarrow> (js \<Rightarrow> bool) \<Rightarrow> bool \<Rightarrow> js \<Rightarrow> js \<Rightarrow> js \<Rightarrow> (submit_state, js) action" where
  "yaml_submitCloudCluster srv isEmpty expert secrets currentProject values =
     map_and_create srv isEmpty expert values (path secrets [''data'', ''0'', ''id''])
       (js_number currentProject) Undef"

definition yaml_cluster_name :: "js \<Rightarrow> submit_state \<Rightarrow> js" where
  "yaml_cluster_name values w =
     (if get values CF_CREATION_TYPE = Str CREATE_YAML
      then get (custom_vars w) ''patroni_cluster_name'' else get values CF_CLUSTER_NAME)"

definition yaml_onSubmit ::
    "server \<Rightarrow> (js \<Rightarrow> bool) \<Rightarrow> bool \<Rightarrow> js \<Rightarrow> js \<Rightarrow> js \<Rightarrow> (submit_state, js) action" where
  "yaml_onSubmit srv isEmpty expert secrets currentProject values =
     catch
       (seq (reading (\<lambda>w.
               if is_cloud_request values (custom_vars w)
               then yaml_submitCloudCluster srv isEmpty expert secrets currentProject values
               else yaml_submitLocalCluster srv isEmpty expert currentProject values))
        (seq (reading (\<lambda>w. emit (Toast ''info'' (created_toast values (yaml_cluster_name values w)))))
             to_clusters))
       handleRequestErrorCatch"

section \<open>The secret dialog\<close>

definition modal_secret_type :: "js \<Rightarrow> js \<Rightarrow> js res" where
  "modal_secret_type values customExtraVars =
     (if get values CF_CREATION_TYPE = Str CREATE_YAML
      then Ok (coalesce (get customExtraVars ''cloud_provider'') (Str PROV_LOCAL))
      else member (get values CF_PROVIDER) ''code'')"

definition modal_secret_body :: "js \<Rightarrow> js \<Rightarrow> js \<Rightarrow> js \<Rightarrow> js res" where
  "modal_secret_body values customExtraVars currentProject secretsFields =
     map_res (\<lambda>type. obj
       [P ''project_id'' (js_number currentProject),
        P ''type'' type,
        P ''name'' (get secretsFields SEC_SECRET_NAME),
        P ''value'' (getSecretBodyFromValues (obj [Spread secretsFields, P SEC_SECRET_TYPE type]))])
      (modal_secret_type values customExtraVars)"

definition modal_secret_id :: "js \<Rightarrow> js \<Rightarrow> submit_state \<Rightarrow> js" where
  "modal_secret_id secretsData secretsFields w =
     (if \<not> has_length secretsData \<and> \<not> truthy (ref_id w) then Undef
      else coalesce (ref_id w) (get secretsFields CF_SECRET_ID))"

definition modal_onSubmit ::
    "server \<Rightarrow> (js \<Rightarrow> bool) \<Rightarrow> bool \<Rightarrow> js \<Rightarrow> js \<Rightarrow> js \<Rightarrow> js \<Rightarrow> (submit_state, js) action" where
  "modal_onSubmit srv isEmpty expert secretsData currentProject values secretsFields =
     finally_do
       (catch
         (seq (reading (\<lambda>w. store_secret srv (truthy (get secretsFields IS_SAVE_TO_CONSOLE))
                 (modal_secret_body values (custom_vars w) currentProject secretsFields)
                 (get secretsFields SEC_SECRET_NAME)))
         (seq (reading (\<lambda>w. map_and_create srv isEmpty expert values
                 (modal_secret_id secretsData secretsFields w) (js_number currentProject) secretsFields))
         (seq (reading (\<lambda>w. emit (Toast ''success'' (created_toast values (yaml_cluster_name values w)))))
              to_clusters)))
         handleRequestErrorCatch)
       (seq (modify (\<lambda>w. w\<lparr>modal_open := False\<rparr>)) (emit (Call ''methods.reset'' [])))"

section \<open>A secret is stored once\<close>

text \<open>
  Submissions in any order, with any values, any number of times; between them the user edits the
  YAML and opens the dialog.
\<close>

inductive submits :: "server \<Rightarrow> (js \<Rightarrow> bool) \<Rightarrow> bool \<Rightarrow> submit_state \<Rightarrow> submit_state \<Rightarrow> bool"
  for srv isEmpty expert where
  form: "submits srv isEmpty expert w (snd (form_onSubmit srv isEmpty expert secrets project values w))"
| yaml: "submits srv isEmpty expert w (snd (yaml_onSubmit srv isEmpty expert secrets project values w))"
| modal: "submits srv isEmpty expert w (snd (modal_onSubmit srv isEmpty expert secrets project values secretsFields w))"
| edit: "submits srv isEmpty expert w (w\<lparr>custom_vars := vars\<rparr>)"
| toggle: "submits srv isEmpty expert w (w\<lparr>modal_open := b\<rparr>)"

definition fresh_form :: "js \<Rightarrow> submit_state" where
  "fresh_form vars = \<lparr>trace = [], secret_ref = Null, custom_vars = vars, modal_open = False\<rparr>"

definition stored_once :: "submit_state \<Rightarrow> bool" where
  "stored_once w \<longleftrightarrow>
     answers ''postSecrets'' (trace w) = (if truthy (secret_ref w) then [secret_ref w] else [])"

text \<open>The server answers the creation of a secret with an object.\<close>

definition answers_secrets :: "server \<Rightarrow> bool" where
  "answers_secrets srv \<longleftrightarrow> (\<forall>es arg v. srv es ''postSecrets'' arg = Ok v \<longrightarrow> truthy v)"

lemma stored_once_request:
  assumes "ep \<noteq> ''postSecrets''"
  shows "keeps stored_once (request srv ep arg)"
proof -
  have "stored_once (snd (request srv ep arg w))" if "stored_once w" for w
    using that assms by (cases "srv (trace w) ep arg") (simp_all add: request_def stored_once_def Let_def)
  then show ?thesis by (simp add: keeps_def)
qed

lemma stored_once_emit:
  "(\<And>ep arg r. e \<noteq> Request ep arg r) \<Longrightarrow> keeps stored_once (emit e)"
  by (cases e) (auto simp: keeps_def emit_def stored_once_def)

lemma stored_once_modify:
  "(\<And>w. trace (f w) = trace w) \<Longrightarrow> (\<And>w. secret_ref (f w) = secret_ref w) \<Longrightarrow> keeps stored_once (modify f)"
  by (simp add: keeps_def modify_def stored_once_def)

lemma stored_once_error: "keeps stored_once (handleRequestErrorCatch e)"
  unfolding handleRequestErrorCatch_def by (intro keeps_intros stored_once_emit) simp_all

lemma store_secret_keeps:
  assumes "answers_secrets srv"
  shows "keeps stored_once (store_secret srv save body name)"
proof -
  have "stored_once (snd (store_secret srv save body name w))" if "stored_once w" for w
  proof (cases "save \<and> \<not> truthy (secret_ref w)")
    case False
    then show ?thesis using that by (auto simp: store_secret_def reading_def when_do_def ret_def)
  next
    case True
    show ?thesis
    proof (cases body)
      case (Throw e)
      then show ?thesis using that True by (simp add: store_secret_def run_simps)
    next
      case (Ok b)
      let ?r = "srv (trace w) ''postSecrets'' (obj [P ''requestSecretCreate'' b])"
      show ?thesis
        using that True assms Ok
        by (cases ?r) (auto simp: store_secret_def run_simps stored_once_def answers_secrets_def Let_def)
    qed
  qed
  then show ?thesis by (simp add: keeps_def)
qed

lemma create_cluster_keeps: "keeps stored_once (create_cluster srv req)"
  unfolding create_cluster_def by (intro keeps_intros stored_once_request) simp

lemma strip_shared_keeps: "keeps stored_once (strip_shared isEmpty)"
  unfolding strip_shared_def by (rule stored_once_modify) auto

lemma to_clusters_keeps: "keeps stored_once to_clusters"
  unfolding to_clusters_def by (rule stored_once_emit) simp

lemmas stored_once_intros = keeps_intros store_secret_keeps create_cluster_keeps strip_shared_keeps
  to_clusters_keeps stored_once_error stored_once_emit

lemma submits_keeps:
  assumes "submits srv isEmpty expert w w'" "answers_secrets srv" "stored_once w"
  shows "stored_once w'"
  using assms(1,3)
proof (cases rule: submits.cases)
  case (form secrets project vals)
  have "keeps stored_once (form_onSubmit srv isEmpty expert secrets project vals)"
    unfolding form_onSubmit_def form_submitLocalCluster_def form_submitCloudCluster_def
    by (intro stored_once_intros assms(2)) simp_all
  then show ?thesis using assms(3) by (auto simp: form dest: keepsD)
next
  case (yaml secrets project vals)
  have "keeps stored_once (yaml_onSubmit srv isEmpty expert secrets project vals)"
    unfolding yaml_onSubmit_def yaml_submitLocalCluster_def yaml_submitCloudCluster_def map_and_create_def
    by (intro stored_once_intros assms(2)) simp_all
  then show ?thesis using assms(3) by (auto simp: yaml dest: keepsD)
next
  case (modal secrets project vals fs)
  have "keeps stored_once (modal_onSubmit srv isEmpty expert secrets project vals fs)"
    unfolding modal_onSubmit_def map_and_create_def
    by (intro stored_once_intros stored_once_modify assms(2)) simp_all
  then show ?thesis using assms(3) by (auto simp: modal dest: keepsD)
qed (simp_all add: stored_once_def)


definition demo_server :: server where
  "demo_server es ep arg = Ok (obj [P ''id'' (Num 5)])"

definition save_form :: js where
  "save_form = obj [P IS_SAVE_TO_CONSOLE (Bool True), P SEC_SECRET_NAME (Str ''s'')]"


section \<open>The dialog\<close>

lemma caught_submit:
  "\<exists>w'. catch (seq m (seq n (seq k to_clusters))) handleRequestErrorCatch w = (Ok Undef, w')"
  by (auto simp: run_simps to_clusters_def split: prod.splits res.splits)

lemma closing_submit:
  "\<exists>w'. m w = (Ok Undef, w') \<Longrightarrow>
     fst (finally_do m (seq (modify (\<lambda>w. w\<lparr>modal_open := False\<rparr>)) (emit e)) w) = Ok Undef
     \<and> modal_open (snd (finally_do m (seq (modify (\<lambda>w. w\<lparr>modal_open := False\<rparr>)) (emit e)) w)) = False
     \<and> last (trace (snd (finally_do m (seq (modify (\<lambda>w. w\<lparr>modal_open := False\<rparr>)) (emit e)) w))) = e"
  by (auto simp: run_simps)

text \<open>
  Submitting the dialog never throws; whatever the server answers, the dialog is closed and its
  form reset at the end.
\<close>

theorem dialog_always_closes:
  "fst (modal_onSubmit srv isEmpty expert secretsData project values secretsFields w) = Ok Undef
   \<and> modal_open (snd (modal_onSubmit srv isEmpty expert secretsData project values secretsFields w)) = False
   \<and> last (trace (snd (modal_onSubmit srv isEmpty expert secretsData project values secretsFields w)))
       = Call ''methods.reset'' []"
  unfolding modal_onSubmit_def by (rule closing_submit [OF caught_submit])

text \<open>
  When the secret to be stored is refused, no cluster is requested: the submission ends with
  the error on screen and the dialog closed.
\<close>

theorem no_cluster_without_secret:
  assumes "truthy (get secretsFields IS_SAVE_TO_CONSOLE)" "\<not> truthy (secret_ref w)"
    and "modal_secret_body values (custom_vars w) project secretsFields = Ok body"
    and "srv (trace w) ''postSecrets'' (obj [P ''requestSecretCreate'' body]) = Throw e"
  shows "modal_onSubmit srv isEmpty expert secretsData project values secretsFields w =
    (Ok Undef, w\<lparr>modal_open := False, trace := trace w @
       [Request ''postSecrets'' (obj [P ''requestSecretCreate'' body]) (Throw e),
        Call ''console.error'' [exn_js e], Toast ''error'' (exn_js e), Call ''methods.reset'' []]\<rparr>)"
  using assms by (simp add: modal_onSubmit_def store_secret_def run_simps)

definition refusing_server :: server where
  "refusing_server es ep arg = Throw (Rejected ''403'')"

theorem no_cluster_without_secret_witness:
  "requests_to ''postClusters'' (trace (snd (modal_onSubmit refusing_server is_empty False (Arr []) (Num 1)
     yaml_form save_form (fresh_form yaml_vars)))) = []"
proof -
  obtain body where "modal_secret_body yaml_form yaml_vars (Num 1) save_form = Ok body"
    using that by (simp add: modal_secret_body_def modal_secret_type_def yaml_form_def get_obj)
  moreover have "truthy (get save_form IS_SAVE_TO_CONSOLE)" by code_simp
  ultimately show ?thesis
    using no_cluster_without_secret [of save_form "fresh_form yaml_vars" yaml_form "Num 1" body refusing_server
        "Rejected ''403''" is_empty False "Arr []"]
    by (simp add: fresh_form_def refusing_server_def)
qed

section \<open>Resubmitting from the editor\<close>

lemma strip_shared_custom:
  "lodash_isEmpty isEmpty \<Longrightarrow> custom_vars w = Obj ps \<Longrightarrow>
     snd (strip_shared isEmpty w) = w\<lparr>custom_vars := strip_custom_vars isEmpty (Obj ps)\<rparr>"
  by (auto simp: strip_shared_def modify_def lodash_isEmpty_def strip_custom_vars_def)

definition custom_stripped :: "submit_state \<Rightarrow> bool" where
  "custom_stripped w \<longleftrightarrow> get (custom_vars w) ''environment_id'' = Undef
     \<and> get (custom_vars w) ''description'' = Undef"

lemma stripped_emit: "keeps custom_stripped (emit e)"
  by (simp add: keeps_def emit_def custom_stripped_def)

lemma stripped_create: "keeps custom_stripped (create_cluster srv req)"
  by (auto simp: keeps_def create_cluster_def run_simps custom_stripped_def Let_def split: res.splits)

lemma stripped_error: "keeps custom_stripped (handleRequestErrorCatch e)"
  unfolding handleRequestErrorCatch_def by (intro keeps_intros stripped_emit)

lemma stripped_after_map:
  assumes "lodash_isEmpty isEmpty" "custom_vars w = Obj ps"
  shows "custom_stripped (snd (map_and_create srv isEmpty expert values secretId projectId secretsInfo w))"
proof -
  have "custom_stripped (snd (strip_shared isEmpty w))"
    using assms by (simp add: strip_shared_custom custom_stripped_def get_strip del: get.simps)
  moreover have "fst (strip_shared isEmpty w) = Ok Undef"
    by (simp add: strip_shared_def modify_def)
  ultimately show ?thesis
    using stripped_create
    by (cases "strip_shared isEmpty w")
       (simp add: map_and_create_def reading_def seq_def bind_def keeps_def)
qed

lemma stripped_after_cloud_submit:
  assumes "lodash_isEmpty isEmpty" "custom_vars w = Obj ps" "is_cloud_request values (Obj ps)"
  shows "custom_stripped (snd (yaml_onSubmit srv isEmpty expert secrets project values w))"
proof -
  define rest where "rest = seq (reading (\<lambda>w. emit (Toast ''info'' (created_toast values (yaml_cluster_name values w)))))
     to_clusters"
  have rest: "keeps custom_stripped rest"
    unfolding rest_def to_clusters_def by (intro keeps_intros stripped_emit)
  obtain r w' where m: "yaml_submitCloudCluster srv isEmpty expert secrets project values w = (r, w')"
    "custom_stripped w'"
    using stripped_after_map [OF assms(1,2)] unfolding yaml_submitCloudCluster_def
    by (metis prod.exhaust_sel)
  have h: "keeps custom_stripped (catch rest handleRequestErrorCatch)"
    by (intro keeps_intros rest stripped_error)
  have "snd (yaml_onSubmit srv isEmpty expert secrets project values w) =
     (case r of Ok x \<Rightarrow> snd (catch rest handleRequestErrorCatch w') | Throw e \<Rightarrow> snd (handleRequestErrorCatch e w'))"
    unfolding yaml_onSubmit_def rest_def [symmetric] using m(1) assms(2,3)
    by (simp add: catch_def seq_def bind_def reading_def split: res.split prod.split)
  then show ?thesis
    using h stripped_error m(2) by (cases r) (simp_all add: keeps_def)
qed

text \<open>
  C30: the request mapper deletes the environment and the description from the very object the
  editor keeps. When the submission of a cloud cluster fails and the user submits the same text
  again, the second request has no environment and no description.
\<close>

theorem resubmission_loses_environment:
  assumes "lodash_isEmpty isEmpty" "custom_vars w = Obj ps" "is_cloud_request values (Obj ps)"
    and "get values CF_CREATION_TYPE = Str CREATE_YAML"
    and "w' = snd (yaml_onSubmit srv isEmpty expert secrets project values w)"
    and "mapFormValuesToRequestFields isEmpty expert values secretId projectId Undef
           (custom_arg isEmpty (custom_vars w')) = Ok req"
  shows "get req ''environment_id'' = Undef \<and> get req ''description'' = Undef"
proof -
  have "custom_stripped w'"
    using stripped_after_cloud_submit [OF assms(1-3)] assms(5) by simp
  moreover have "get req ''environment_id'' = get (custom_arg isEmpty (custom_vars w')) ''environment_id''
      \<and> get req ''description'' = get (custom_arg isEmpty (custom_vars w')) ''description''"
  proof -
    obtain params where p:
      "(if is_cloud_request values (strip_custom_vars isEmpty (custom_arg isEmpty (custom_vars w')))
        then getRequestCloudParams expert values Undef (strip_custom_vars isEmpty (custom_arg isEmpty (custom_vars w')))
        else getRequestLocalMachineParams expert values secretId
               (strip_custom_vars isEmpty (custom_arg isEmpty (custom_vars w')))) = Ok params"
      "req = obj [Spread (base_object values secretId projectId (custom_arg isEmpty (custom_vars w'))), Spread params]"
      using assms(6) by (rule request_parts)
    have "lookup_part (Spread params) k = None" if "k \<in> {''environment_id'', ''description''}" for k
      using p(1) that cloud_params_lookup local_params_lookup by (auto split: if_splits)
    then show ?thesis by (simp add: p(2) get_obj base_object_lookup assms(4))
  qed
  ultimately show ?thesis
    by (auto simp: custom_stripped_def custom_arg_def)
qed

theorem resubmission_loses_environment_witness:
  "\<exists>req. mapFormValuesToRequestFields is_empty False yaml_form Undef (Num 1) Undef
      (custom_arg is_empty (custom_vars (snd (yaml_onSubmit refusing_server is_empty False (obj []) (Num 1) yaml_form
         (fresh_form yaml_vars))))) = Ok req
    \<and> get yaml_vars ''environment_id'' = Num 3 \<and> get req ''environment_id'' = Undef"
proof -
  let ?c = "custom_arg is_empty (custom_vars (snd (yaml_onSubmit refusing_server is_empty False (obj []) (Num 1) yaml_form
         (fresh_form yaml_vars))))"
  have "is_ok (mapFormValuesToRequestFields is_empty False yaml_form Undef (Num 1) Undef ?c)" by code_simp
  then obtain req where req: "mapFormValuesToRequestFields is_empty False yaml_form Undef (Num 1) Undef ?c = Ok req"
    by (auto simp: is_ok_iff)
  obtain ps where ps: "yaml_vars = Obj ps" by (simp add: yaml_vars_def obj_def)
  have 1: "custom_vars (fresh_form yaml_vars) = Obj ps" by (simp add: fresh_form_def ps)
  have 2: "is_cloud_request yaml_form (Obj ps)" unfolding ps [symmetric] by code_simp
  have 3: "get yaml_form CF_CREATION_TYPE = Str CREATE_YAML" "get yaml_vars ''environment_id'' = Num 3" by code_simp+
  show ?thesis
    using req 3 resubmission_loses_environment [OF lodash_is_empty 1 2 3(1) refl req] by blast
qed

end
