(* ===== verification/ClusterViews.thy ===== *)
theory ClusterViews
  imports Submit
begin

text \<open>
  What the cluster form, the YAML editor and the secret dialog show, and the variables the editor
  starts from.
\<close>

section \<open>Shared buttons\<close>

definition DefaultFormButtons :: "bool \<Rightarrow> bool \<Rightarrow> js \<Rightarrow> js \<Rightarrow> js \<Rightarrow> js \<Rightarrow> js" where
  "DefaultFormButtons isDisabled isSubmitting cancelHandler submitButtonLabel cancelButtonLabel children =
     elem ''StyledDefaultFormButtons'' []
       [elem ''StyledStandardButtons'' []
          [elem ''Button''
             [P ''variant'' (Str ''contained''), P ''disabled'' (Bool (isDisabled \<or> isSubmitting)),
              P ''type'' (Str ''submit''), P ''startIcon'' (busy_icon isSubmitting)]
             [elem ''span'' [] [coalesce submitButtonLabel (tr ''save'' [])]],
           elem ''Button''
             [P ''variant'' (Str ''outlined''), P ''onClick'' cancelHandler, P ''type'' (Str ''button'')]
             [elem ''span'' [] [coalesce cancelButtonLabel (tr ''cancel'' [])]]],
        children]"

section \<open>The cluster form\<close>

definition ClusterFormCloudProviderFormPart :: "bool \<Rightarrow> js" where
  "ClusterFormCloudProviderFormPart expert = fragment
     [elem ''ClusterFormRegionBlock'' [] [],
      elem ''ClusterFormInstancesBlock'' [] [],
      elem ''InstancesAmountBlock'' [] [],
      elem ''StorageBlock'' [] [],
      when_js expert (elem ''NetworkBlock'' [] []),
      elem ''ClusterFormSshKeyBlock'' [] []]"

definition ClusterFormLocalMachineFormPart :: "bool \<Rightarrow> js" where
  "ClusterFormLocalMachineFormPart expert = fragment
     [elem ''DatabaseServersBlock'' [] [],
      when_js expert (elem ''DcsBlock'' [] []),
      elem ''AuthenticationMethodFormBlock'' [] [],
      elem ''VipAddressBlock'' [] [],
      elem ''LoadBalancersBlock'' [] []]"

definition form_secrets_query :: "js \<Rightarrow> js \<Rightarrow> js" where
  "form_secrets_query watchProvider currentProject = obj
     [P ''type'' (get watchProvider ''code''), P ''projectId'' currentProject]"

text \<open>\<open>watchProvider?.code !== LOCAL && secrets?.data?.data?.length !== 1\<close>\<close>

definition asks_for_secret :: "js \<Rightarrow> js \<Rightarrow> bool" where
  "asks_for_secret watchProvider secrets \<longleftrightarrow>
     get watchProvider ''code'' \<noteq> Str PROV_LOCAL
     \<and> path secrets [''data'', ''data'', ''length''] \<noteq> Num 1"

definition form_submit_prop :: "js \<Rightarrow> js \<Rightarrow> js" where
  "form_submit_prop watchProvider secrets =
     (if asks_for_secret watchProvider secrets then Undef else Fn ''handleSubmit'' [Str ''onSubmit''])"

definition form_buttons :: "js \<Rightarrow> js \<Rightarrow> bool \<Rightarrow> bool \<Rightarrow> bool \<Rightarrow> js" where
  "form_buttons watchProvider secrets isValid isSubmitting isLoading =
     (if asks_for_secret watchProvider secrets
      then elem ''ClusterSecretModal'' [P ''isClusterFormDisabled'' (Bool (\<not> isValid))] []
      else elem ''DefaultFormButtons''
             [P ''isDisabled'' (Bool (\<not> isValid)), P ''isSubmitting'' (Bool (isSubmitting \<or> isLoading)),
              P ''cancelHandler'' (Fn ''cancelHandler'' []), P ''submitButtonLabel'' (tr ''createCluster'' [])] [])"

definition ClusterForm :: "bool \<Rightarrow> js \<Rightarrow> js \<Rightarrow> js \<Rightarrow> js \<Rightarrow> js \<Rightarrow> bool \<Rightarrow> bool \<Rightarrow> bool \<Rightarrow> js" where
  "ClusterForm expert deploymentsData environmentsData postgresVersionsData watchProvider secrets
       isValid isSubmitting isLoading =
     elem ''Stack'' [P ''direction'' (Str ''column''), P ''gap'' (Num 2), P ''padding'' (Str ''8px'')]
       [elem ''form'' [P ''onSubmit'' (form_submit_prop watchProvider secrets)]
         [elem ''Stack'' [P ''direction'' (Str ''column''), P ''gap'' (Num 2)]
           [elem ''ClusterFormProvidersBlock'' [P ''providers'' deploymentsData] [],
            (if get watchProvider ''code'' = Str PROV_LOCAL
             then elem ''ClusterFormLocalMachineFormPart'' [] []
             else elem ''ClusterFormCloudProviderFormPart'' [] []),
            elem ''ClusterFormEnvironmentBlock'' [P ''environments'' environmentsData] [],
            elem ''ClusterNameBox'' [] [],
            elem ''ClusterDescriptionBlock'' [] [],
            elem ''PostgresVersionBox'' [P ''postgresVersions'' postgresVersionsData] [],
            when_js (expert \<and> get watchProvider ''code'' = Str PROV_LOCAL) (elem ''DataDirectoryBlock'' [] []),
            when_js expert (fragment
              [elem ''DatabaseBlock'' [] [],
               elem ''ConnectionPoolsBlock'' [] [],
               elem ''ExtensionsBlock'' [] [],
               elem ''BackupsBlock'' [] [],
               elem ''PostgresParametersBlock'' [] [],
               elem ''KernelParametersBlock'' [] [],
               elem ''AdditionalSettingsBlock'' [] []]),
            form_buttons watchProvider secrets isValid isSubmitting isLoading]]]"

section \<open>The secret dialog\<close>

definition secret_select :: "js \<Rightarrow> js \<Rightarrow> js" where
  "secret_select secretsData formValues =
     controller formValues CF_SECRET_ID (\<lambda>value onChange. elem ''TextField''
       [P ''select'' (Bool True), P ''size'' (Str ''small''), P ''value'' value, P ''onChange'' onChange,
        P ''fullWidth'' (Bool True), P ''label'' (tr ''selectSecret'' [P ''ns'' (Str ''shared'')])]
       [Arr (map (\<lambda>secret. menu_item (get secret ''id'') (get secret ''name'')) (elems secretsData))])"

definition modal_form_type :: "js \<Rightarrow> js \<Rightarrow> js" where
  "modal_form_type clusterValues customExtraVars =
     (if get clusterValues CF_CREATION_TYPE = Str CREATE_YAML
      then get customExtraVars ''cloud_provider''
      else get (get clusterValues CF_PROVIDER) ''code'')"

definition new_secret_form :: "js \<Rightarrow> js \<Rightarrow> js \<Rightarrow> js" where
  "new_secret_form clusterValues customExtraVars formValues =
     (let save = get formValues IS_SAVE_TO_CONSOLE in fragment
       [elem ''SecretFormBlock'' [P ''secretType'' (modal_form_type clusterValues customExtraVars),
          P ''isAdditionalInfoDisplayed'' save] [],
        when_js (truthy save)
          (controller formValues SEC_SECRET_NAME (\<lambda>value onChange. elem ''TextField''
            [P ''required'' (Bool True), P ''fullWidth'' (Bool True), P ''size'' (Str ''small''),
             P ''value'' value, P ''onChange'' onChange,
             P ''label'' (tr ''secretName'' [P ''ns'' (Str ''settings'')])] [])),
        controller formValues IS_SAVE_TO_CONSOLE (\<lambda>value onChange. elem ''FormControlLabel''
          [P ''control'' (elem ''Checkbox'' [] []), P ''checked'' value, P ''onChange'' onChange,
           P ''label'' (tr ''saveToConsole'' [P ''ns'' (Str ''clusters'')])] [])])"

definition ClusterSecretModal ::
    "bool \<Rightarrow> js \<Rightarrow> js \<Rightarrow> js \<Rightarrow> js \<Rightarrow> bool \<Rightarrow> bool \<Rightarrow> bool \<Rightarrow> bool \<Rightarrow> bool \<Rightarrow> js" where
  "ClusterSecretModal isClusterFormDisabled clusterValues customExtraVars secretsData formValues
       isModalOpen isValid isDirty isSubmitting isLoading =
     (let busy = isSubmitting \<or> isLoading;
          label = tr ''createCluster'' [P ''ns'' (Str ''clusters'')] in
      elem ''Stack''
        [P ''direction'' (Str ''row''), P ''gap'' (Str ''8px''), P ''justifyContent'' (Str ''flex-start''),
         P ''alignItems'' (Str ''center'')]
        [elem ''Button''
           [P ''disabled'' (Bool (isClusterFormDisabled \<or> busy)),
            P ''onClick'' (Fn ''handleModalOpenState'' [Bool True]), P ''variant'' (Str ''contained''),
            P ''startIcon'' (busy_icon busy)] [label],
         elem ''Box'' []
           [elem ''Modal'' [P ''open'' (Bool isModalOpen), P ''onClose'' (Fn ''handleModalOpenState'' [Bool False])]
             [elem ''FormProvider'' []
               [elem ''form'' [P ''onSubmit'' (Fn ''handleSubmit'' [Str ''onSubmit''])]
                 [dialog_card
                   [elem ''Stack'' [P ''direction'' (Str ''column''), P ''gap'' (Str ''8px'')]
                     [(if length_above 1 secretsData
                       then secret_select secretsData formValues
                       else new_secret_form clusterValues customExtraVars formValues),
                      elem ''Button''
                        [P ''disabled'' (Bool (\<not> isValid \<or> \<not> isDirty \<or> busy)),
                         P ''variant'' (Str ''contained''), P ''type'' (Str ''submit''),
                         P ''fullWidth'' (Bool False), P ''startIcon'' (busy_icon busy)] [label]]]]]]],
         elem ''Button''
           [P ''variant'' (Str ''outlined''), P ''onClick'' (Fn ''cancelHandler'' []), P ''type'' (Str ''button''),
            P ''fullWidth'' (Bool False)]
           [elem ''span'' [] [tr ''cancel'' [P ''ns'' (Str ''shared'')]]]])"

definition modal_secrets_query :: "js \<Rightarrow> js \<Rightarrow> js \<Rightarrow> js" where
  "modal_secrets_query clusterValues customExtraVars currentProject = obj
     [P ''type''
        (if get clusterValues CF_CREATION_TYPE = Str CREATE_YAML
         then coalesce (get customExtraVars ''cloud_provider'') (Str PROV_LOCAL)
         else get (get clusterValues CF_PROVIDER) ''code''),
      P ''projectId'' currentProject]"

section \<open>The YAML editor\<close>

definition mapFormValuesToYamlEditor :: "bool \<Rightarrow> js \<Rightarrow> js res" where
  "mapFormValuesToYamlEditor expert values =
     and_then (getBaseClusterExtraVars expert values) (\<lambda>base.
     and_then (if get (get values CF_PROVIDER) ''code'' \<noteq> Str PROV_LOCAL
               then map_res (\<lambda>v. obj [Spread v]) (getCloudProviderExtraVars expert values)
               else map_res (\<lambda>v. obj [Spread v]) (getLocalMachineExtraVars expert values Undef)) (\<lambda>specific.
     Ok (obj [Spread base, Spread specific])))"

text \<open>The effect that parses the editor's text; \<open>parse\<close> is \<open>YAML.parse\<close>, which may throw.\<close>

definition parse_effect :: "(js \<Rightarrow> js res) \<Rightarrow> js \<Rightarrow> (submit_state, js) action" where
  "parse_effect parse editor =
     catch (bind (lift_res (parse editor)) (\<lambda>v. modify (\<lambda>w. w\<lparr>custom_vars := v\<rparr>)))
       (\<lambda>e. emit (Call ''console.error'' [exn_js e]))"

text \<open>\<open>yamlStringify\<close> is \<open>YAML.stringify(..., {sortMapEntries: true})\<close>.\<close>

definition mount_effect :: "(js \<Rightarrow> js) \<Rightarrow> bool \<Rightarrow> js \<Rightarrow> (submit_state, js) action" where
  "mount_effect yamlStringify expert uiValues =
     bind (lift_res (mapFormValuesToYamlEditor expert uiValues)) (\<lambda>v.
       emit (Call ''setValue'' [Str ''yamlEditor'', yamlStringify v, obj [P ''shouldValidate'' (Bool True)]]))"

text \<open>The secrets the editor asks for are those of the text's provider, the local one without one.\<close>

definition yaml_secrets_query :: "js \<Rightarrow> js \<Rightarrow> js" where
  "yaml_secrets_query parsed currentProject = obj
     [P ''type'' (coalesce (get parsed ''cloud_provider'') (Str PROV_LOCAL)), P ''projectId'' currentProject]"

definition YamlEditorForm :: "string \<Rightarrow> js \<Rightarrow> js \<Rightarrow> js \<Rightarrow> bool \<Rightarrow> bool \<Rightarrow> js" where
  "YamlEditorForm themeMode formValues parsedYamlEditorValues secretsData isValid busy =
     (let shouldRenderModal = get secretsData ''length'' \<noteq> Num 1 in
      elem ''ErrorBoundary'' [P ''fallback'' (elem ''ErrorBox'' [] [])]
       [elem ''Box'' [P ''width'' (Str ''100%'')]
         [elem ''form'' [P ''onSubmit'' (if shouldRenderModal then Undef else Fn ''handleSubmit'' [Str ''submitHandler''])]
           [elem ''Stack'' [P ''gap'' (Num 2)]
             [controller formValues ''yamlEditor'' (\<lambda>value onChange. elem ''Editor''
                [P ''value'' value, P ''onChange'' onChange, P ''name'' (Str ''yamlEditor''),
                 P ''defaultLanguage'' (Str ''yaml''), P ''height'' (Str ''75vh''),
                 P ''onMount'' (Fn ''handleEditorDidMount'' []),
                 P ''theme'' (Str (if themeMode = ''light'' then ''vs'' else ''vs-dark''))] []),
              (if shouldRenderModal
               then elem ''ClusterSecretModal'' [P ''isClusterFormDisabled'' (Bool (\<not> isValid)),
                      P ''customExtraVars'' parsedYamlEditorValues] []
               else elem ''DefaultFormButtons''
                      [P ''isDisabled'' (Bool (\<not> isValid)), P ''isSubmitting'' (Bool busy),
                       P ''cancelHandler'' (Fn ''cancelHandler'' []),
                       P ''submitButtonLabel'' (tr ''createCluster'' [])] [])]]]])"

section \<open>Properties\<close>

text \<open>The dialog asks for the secrets of the form it is opened from, whichever form that is.\<close>

lemma dialog_secrets:
  "modal_secrets_query values parsed currentProject =
     (if get values CF_CREATION_TYPE = Str CREATE_YAML then yaml_secrets_query parsed currentProject
      else form_secrets_query (get values CF_PROVIDER) currentProject)"
  by (simp add: modal_secrets_query_def yaml_secrets_query_def form_secrets_query_def)

lemma own_props_obj_spread: "wf_obj v \<Longrightarrow> own_props (obj [Spread v]) = own_props v"
  using fold_update_distinct [of "[]" "own_props v"] by (simp add: obj_def wf_obj_def)

lemma obj_spread_spread: "wf_obj v \<Longrightarrow> obj [Spread a, Spread (obj [Spread v])] = obj [Spread a, Spread v]"
  using own_props_obj_spread [of v] by (simp add: obj_def)

lemma wf_cloud_vars: "getCloudProviderExtraVars expert values = Ok v \<Longrightarrow> wf_obj v"
  by (auto simp: getCloudProviderExtraVars_def and_then_eq_Ok)

text \<open>
  For a cloud provider the variables the YAML editor starts from are exactly the extra
  variables the form's own request would carry.
\<close>

theorem editor_starts_from_request:
  assumes "get (get values CF_PROVIDER) ''code'' \<noteq> Str PROV_LOCAL"
    and "mapFormValuesToYamlEditor expert values = Ok vars"
  shows "\<exists>params. getRequestCloudParams expert values secretsInfo Undef = Ok params
     \<and> get params ''extra_vars'' = vars"
  using assms
  by (auto simp: mapFormValuesToYamlEditor_def and_then_eq_Ok map_res_eq_Ok getRequestCloudParams_def
      Let_def get_obj obj_spread_spread wf_cloud_vars)

definition cloud_form :: js where
  "cloud_form = obj
     [P CF_PROVIDER (obj [P ''code'' (Str PROV_AWS)]), P CF_CREATION_TYPE (Str CREATE_FORM),
      P CF_REGION_CONFIG (obj [P ''code'' (Str ''eu''), P ''cloud_image'' (obj [P ''image'' (obj [])])]),
      P CF_INSTANCE_CONFIG (obj [P ''code'' (Str ''m5'')]),
      P CF_CLUSTER_NAME (Str ''pg''), P CF_POSTGRES_VERSION (Num 16)]"

theorem editor_starts_from_request_witness:
  "\<exists>vars params. mapFormValuesToYamlEditor False cloud_form = Ok vars
     \<and> getRequestCloudParams False cloud_form Undef Undef = Ok params
     \<and> get params ''extra_vars'' = vars"
proof -
  have "is_ok (mapFormValuesToYamlEditor False cloud_form)" by code_simp
  then obtain vars where v: "mapFormValuesToYamlEditor False cloud_form = Ok vars"
    by (auto simp: is_ok_iff)
  have "get (get cloud_form CF_PROVIDER) ''code'' \<noteq> Str PROV_LOCAL" by code_simp
  from editor_starts_from_request [OF this v, of Undef] v show ?thesis by blast
qed

text \<open>
  The cluster form is submitted in exactly one way: through the secret dialog, and then its own
  submit handler is off, or by its own button, and then there is no dialog.
\<close>

theorem one_way_to_submit:
  "(elements ''ClusterSecretModal'' (form_buttons provider secrets isValid isSubmitting isLoading) = []
     \<longleftrightarrow> elements ''DefaultFormButtons'' (form_buttons provider secrets isValid isSubmitting isLoading) \<noteq> [])
   \<and> (elements ''ClusterSecretModal'' (form_buttons provider secrets isValid isSubmitting isLoading) = []
     \<longleftrightarrow> form_submit_prop provider secrets \<noteq> Undef)"
  by (simp add: form_buttons_def form_submit_prop_def obj_def tr_def)

end
