(* ===== verification/Types.thy ===== *)
theory Types
  imports JsValue
begin

text \<open>
  TypeScript's object types as data, and the values they describe: a record type lists its
  properties, a required one must have its type, an optional one may be missing; further
  properties are allowed, as in TypeScript. A tuple type fixes the length of an array, and
  \<open>Record<string, T>\<close> is an object whose properties all have the type.
\<close>

datatype presence = Req_f | Opt_f

datatype ty =
    TNumber | TString | TBoolean | TObject | TVoid | TNull
  | TLit string
  | TArray ty
  | TTuple "ty list"
  | TRecord ty
  | TUnion "ty list"
  | TRec "(string \<times> presence \<times> ty) list"

fun is_number :: "js \<Rightarrow> bool" where
  "is_number (Num n) = True"
| "is_number (Frac s) = True"
| "is_number NaN = True"
| "is_number _ = False"

fun is_string :: "js \<Rightarrow> bool" where
  "is_string (Str s) = True"
| "is_string _ = False"

fun is_boolean :: "js \<Rightarrow> bool" where
  "is_boolean (Bool b) = True"
| "is_boolean _ = False"

fun is_object :: "js \<Rightarrow> bool" where
  "is_object (Obj ps) = True"
| "is_object (Arr xs) = True"
| "is_object (Fn f xs) = True"
| "is_object _ = False"

fun has_type :: "ty \<Rightarrow> js \<Rightarrow> bool"
  and has_some_type :: "ty list \<Rightarrow> js \<Rightarrow> bool"
  and has_types :: "ty list \<Rightarrow> js list \<Rightarrow> bool"
  and has_fields :: "(string \<times> presence \<times> ty) list \<Rightarrow> js \<Rightarrow> bool" where
  "has_type TNumber v = is_number v"
| "has_type TString v = is_string v"
| "has_type TBoolean v = is_boolean v"
| "has_type TObject v = is_object v"
| "has_type TVoid v = (v = Undef)"
| "has_type TNull v = (v = Null)"
| "has_type (TLit s) v = (v = Str s)"
| "has_type (TArray t) v = (case v of Arr xs \<Rightarrow> list_all (has_type t) xs | _ \<Rightarrow> False)"
| "has_type (TTuple ts) v = (case v of Arr xs \<Rightarrow> has_types ts xs | _ \<Rightarrow> False)"
| "has_type (TRecord t) v = (is_object v \<and> list_all (\<lambda>(k, x). has_type t x) (own_props v))"
| "has_type (TUnion ts) v = has_some_type ts v"
| "has_type (TRec fs) v = (is_object v \<and> has_fields fs v)"
| "has_some_type [] v = False"
| "has_some_type (t # ts) v = (has_type t v \<or> has_some_type ts v)"
| "has_types [] xs = (xs = [])"
| "has_types (t # ts) xs = (case xs of [] \<Rightarrow> False | y # ys \<Rightarrow> has_type t y \<and> has_types ts ys)"
| "has_fields [] v = True"
| "has_fields ((k, p, t) # fs) v =
     (((p = Opt_f \<and> get v k = Undef) \<or> has_type t (get v k)) \<and> has_fields fs v)"

lemma is_object_obj [simp]: "is_object (obj parts)"
  by (simp add: obj_def)

end
