(* ===== verification/ApiTypes.thy ===== *)
theory ApiTypes
  imports Types
begin

text \<open>
  The request and response types of the REST API, as \<open>shared/api/api\<close> declares them. A type
  several files declare is modelled once per file, with the file's name as suffix from the second on.
\<close>

section \<open>clusters\<close>

definition ResponseClusterCreate :: ty where
  "ResponseClusterCreate =
     TRec [(''cluster_id'', Opt_f, TNumber)]"

definition PostClustersApiResponse :: ty where
  "PostClustersApiResponse =
     ResponseClusterCreate"

definition RequestClusterCreate :: ty where
  "RequestClusterCreate =
     TRec [(''name'', Opt_f, TString),
       (''description'', Opt_f, TString),
       (''auth_info'', Opt_f, TRec [(''secret_id'', Opt_f, TNumber)]),
       (''project_id'', Opt_f, TNumber),
       (''environment_id'', Opt_f, TNumber),
       (''envs'', Opt_f, TArray (TString)),
       (''extra_vars'', Opt_f, TArray (TString)),
       (''existing_cluster'', Opt_f, TBoolean)]"

definition PostClustersApiArg :: ty where
  "PostClustersApiArg =
     TRec [(''requestClusterCreate'', Req_f, RequestClusterCreate)]"

definition ClusterInfoInstance :: ty where
  "ClusterInfoInstance =
     TRec [(''id'', Opt_f, TNumber),
       (''name'', Opt_f, TString),
       (''ip'', Opt_f, TString),
       (''status'', Opt_f, TString),
       (''role'', Opt_f, TString),
       (''timeline'', Opt_f, TUnion [TNumber, TNull]),
       (''lag'', Opt_f, TUnion [TNumber, TNull]),
       (''tags'', Opt_f, TObject),
       (''pending_restart'', Opt_f, TUnion [TBoolean, TNull])]"

definition ClusterInfo :: ty where
  "ClusterInfo =
     TRec [(''id'', Opt_f, TNumber),
       (''name'', Opt_f, TString),
       (''description'', Opt_f, TString),
       (''status'', Opt_f, TString),
       (''creation_time'', Opt_f, TString),
       (''environment'', Opt_f, TString),
       (''servers'', Opt_f, TArray (ClusterInfoInstance)),
       (''postgres_version'', Opt_f, TNumber),
       (''cluster_location'', Opt_f, TString),
       (''project_name'', Opt_f, TString),
       (''connection_info'', Opt_f, TObject)]"

definition PaginationInfoForListRequests :: ty where
  "PaginationInfoForListRequests =
     TRec [(''offset'', Opt_f, TUnion [TNumber, TNull]),
       (''limit'', Opt_f, TUnion [TNumber, TNull]),
       (''count'', Opt_f, TUnion [TNumber, TNull])]"

definition ResponseClustersInfo :: ty where
  "ResponseClustersInfo =
     TRec [(''data'', Opt_f, TArray (ClusterInfo)),
       (''meta'', Opt_f, PaginationInfoForListRequests)]"

definition GetClustersApiResponse :: ty where
  "GetClustersApiResponse =
     ResponseClustersInfo"

definition GetClustersApiArg :: ty where
  "GetClustersApiArg =
     TRec [(''offset'', Opt_f, TNumber),
       (''limit'', Opt_f, TNumber),
       (''projectId'', Req_f, TNumber),
       (''name'', Opt_f, TString),
       (''status'', Opt_f, TString),
       (''location'', Opt_f, TString),
       (''environment'', Opt_f, TString),
       (''serverCount'', Opt_f, TNumber),
       (''postgresVersion'', Opt_f, TNumber),
       (''createdAtFrom'', Opt_f, TString),
       (''createdAtTo'', Opt_f, TString),
       (''sortBy'', Opt_f, TString)]"

definition ResponseClusterDefaultName :: ty where
  "ResponseClusterDefaultName =
     TRec [(''name'', Opt_f, TString)]"

definition GetClustersDefaultNameApiResponse :: ty where
  "GetClustersDefaultNameApiResponse =
     ResponseClusterDefaultName"

definition GetClustersDefaultNameApiArg :: ty where
  "GetClustersDefaultNameApiArg =
     TVoid"

definition GetClustersByIdApiResponse :: ty where
  "GetClustersByIdApiResponse =
     ClusterInfo"

definition GetClustersByIdApiArg :: ty where
  "GetClustersByIdApiArg =
     TRec [(''id'', Req_f, TNumber)]"

definition DeleteClustersByIdApiResponse :: ty where
  "DeleteClustersByIdApiResponse =
     TVoid"

definition DeleteClustersByIdApiArg :: ty where
  "DeleteClustersByIdApiArg =
     TRec [(''id'', Req_f, TNumber)]"

definition PostClustersByIdRefreshApiResponse :: ty where
  "PostClustersByIdRefreshApiResponse =
     ClusterInfo"

definition PostClustersByIdRefreshApiArg :: ty where
  "PostClustersByIdRefreshApiArg =
     TRec [(''id'', Req_f, TNumber)]"

definition PostClustersByIdReinitApiResponse :: ty where
  "PostClustersByIdReinitApiResponse =
     ResponseClusterCreate"

definition RequestClusterReinit :: ty where
  "RequestClusterReinit =
     TObject"

definition PostClustersByIdReinitApiArg :: ty where
  "PostClustersByIdReinitApiArg =
     TRec [(''id'', Req_f, TNumber),
       (''requestClusterReinit'', Req_f, RequestClusterReinit)]"

definition PostClustersByIdReloadApiResponse :: ty where
  "PostClustersByIdReloadApiResponse =
     ResponseClusterCreate"

definition RequestClusterReload :: ty where
  "RequestClusterReload =
     TObject"

definition PostClustersByIdReloadApiArg :: ty where
  "PostClustersByIdReloadApiArg =
     TRec [(''id'', Req_f, TNumber),
       (''requestClusterReload'', Req_f, RequestClusterReload)]"

definition PostClustersByIdRestartApiResponse :: ty where
  "PostClustersByIdRestartApiResponse =
     ResponseClusterCreate"

definition RequestClusterRestart :: ty where
  "RequestClusterRestart =
     TObject"

definition PostClustersByIdRestartApiArg :: ty where
  "PostClustersByIdRestartApiArg =
     TRec [(''id'', Req_f, TNumber),
       (''requestClusterRestart'', Req_f, RequestClusterRestart)]"

definition PostClustersByIdStopApiResponse :: ty where
  "PostClustersByIdStopApiResponse =
     ResponseClusterCreate"

definition RequestClusterStop :: ty where
  "RequestClusterStop =
     TObject"

definition PostClustersByIdStopApiArg :: ty where
  "PostClustersByIdStopApiArg =
     TRec [(''id'', Req_f, TNumber),
       (''requestClusterStop'', Req_f, RequestClusterStop)]"

definition PostClustersByIdStartApiResponse :: ty where
  "PostClustersByIdStartApiResponse =
     ResponseClusterCreate"

definition RequestClusterStart :: ty where
  "RequestClusterStart =
     TObject"

definition PostClustersByIdStartApiArg :: ty where
  "PostClustersByIdStartApiArg =
     TRec [(''id'', Req_f, TNumber),
       (''requestClusterStart'', Req_f, RequestClusterStart)]"

definition PostClustersByIdRemoveApiResponse :: ty where
  "PostClustersByIdRemoveApiResponse =
     TVoid"

definition RequestClusterRemove :: ty where
  "RequestClusterRemove =
     TObject"

definition PostClustersByIdRemoveApiArg :: ty where
  "PostClustersByIdRemoveApiArg =
     TRec [(''id'', Req_f, TNumber),
       (''requestClusterRemove'', Req_f, RequestClusterRemove)]"

definition ErrorObject :: ty where
  "ErrorObject =
     TRec [(''code'', Opt_f, TNumber),
       (''title'', Opt_f, TString),
       (''description'', Opt_f, TString)]"

section \<open>secrets\<close>

definition SecretType :: ty where
  "SecretType =
     TUnion [TLit ''aws'', TLit ''gcp'', TLit ''hetzner'', TLit ''ssh_key'', TLit ''digitalocean'', TLit ''password'', TLit ''azure'']"

definition ResponseSecretInfo :: ty where
  "ResponseSecretInfo =
     TRec [(''id'', Opt_f, TNumber),
       (''project_id'', Opt_f, TNumber),
       (''name'', Opt_f, TString),
       (''type'', Opt_f, SecretType),
       (''created_at'', Opt_f, TString),
       (''updated_at'', Opt_f, TUnion [TString, TNull]),
       (''is_used'', Opt_f, TBoolean),
       (''used_by_clusters'', Opt_f, TUnion [TString, TNull])]"

definition PostSecretsApiResponse :: ty where
  "PostSecretsApiResponse =
     ResponseSecretInfo"

definition RequestSecretValueAws :: ty where
  "RequestSecretValueAws =
     TRec [(''AWS_ACCESS_KEY_ID'', Opt_f, TString),
       (''AWS_SECRET_ACCESS_KEY'', Opt_f, TString)]"

definition RequestSecretValueGcp :: ty where
  "RequestSecretValueGcp =
     TRec [(''GCP_SERVICE_ACCOUNT_CONTENTS'', Opt_f, TString)]"

definition RequestSecretValueHetzner :: ty where
  "RequestSecretValueHetzner =
     TRec [(''HCLOUD_API_TOKEN'', Opt_f, TString)]"

definition RequestSecretValueSshKey :: ty where
  "RequestSecretValueSshKey =
     TRec [(''SSH_PRIVATE_KEY'', Opt_f, TString)]"

definition RequestSecretValueDigitalOcean :: ty where
  "RequestSecretValueDigitalOcean =
     TRec [(''DO_API_TOKEN'', Opt_f, TString)]"

definition RequestSecretValuePassword :: ty where
  "RequestSecretValuePassword =
     TRec [(''USERNAME'', Opt_f, TString),
       (''PASSWORD'', Opt_f, TString)]"

definition RequestSecretValueAzure :: ty where
  "RequestSecretValueAzure =
     TRec [(''AZURE_SUBSCRIPTION_ID'', Opt_f, TString),
       (''AZURE_CLIENT_ID'', Opt_f, TString),
       (''AZURE_SECRET'', Opt_f, TString),
       (''AZURE_TENANT'', Opt_f, TString)]"

definition RequestSecretValue :: ty where
  "RequestSecretValue =
     TRec [(''aws'', Opt_f, RequestSecretValueAws),
       (''gcp'', Opt_f, RequestSecretValueGcp),
       (''hetzner'', Opt_f, RequestSecretValueHetzner),
       (''ssh_key'', Opt_f, RequestSecretValueSshKey),
       (''digitalocean'', Opt_f, RequestSecretValueDigitalOcean),
       (''password'', Opt_f, RequestSecretValuePassword),
       (''azure'', Opt_f, RequestSecretValueAzure)]"

definition RequestSecretCreate :: ty where
  "RequestSecretCreate =
     TRec [(''project_id'', Opt_f, TNumber),
       (''name'', Opt_f, TString),
       (''type'', Opt_f, SecretType),
       (''value'', Opt_f, RequestSecretValue)]"

definition PostSecretsApiArg :: ty where
  "PostSecretsApiArg =
     TRec [(''requestSecretCreate'', Req_f, RequestSecretCreate)]"

definition PaginationInfoForListRequests_secrets :: ty where
  "PaginationInfoForListRequests_secrets =
     TRec [(''offset'', Opt_f, TUnion [TNumber, TNull]),
       (''limit'', Opt_f, TUnion [TNumber, TNull]),
       (''count'', Opt_f, TUnion [TNumber, TNull])]"

definition ResponseSecretInfoList :: ty where
  "ResponseSecretInfoList =
     TRec [(''data'', Opt_f, TArray (ResponseSecretInfo)),
       (''meta'', Opt_f, PaginationInfoForListRequests_secrets)]"

definition GetSecretsApiResponse :: ty where
  "GetSecretsApiResponse =
     ResponseSecretInfoList"

definition GetSecretsApiArg :: ty where
  "GetSecretsApiArg =
     TRec [(''limit'', Opt_f, TNumber),
       (''offset'', Opt_f, TNumber),
       (''projectId'', Req_f, TNumber),
       (''name'', Opt_f, TString),
       (''type'', Opt_f, TString),
       (''sortBy'', Opt_f, TString)]"

definition PatchSecretsByIdApiResponse :: ty where
  "PatchSecretsByIdApiResponse =
     ResponseSecretInfo"

definition RequestSecretPatch :: ty where
  "RequestSecretPatch =
     TRec [(''name'', Opt_f, TUnion [TString, TNull]),
       (''type'', Opt_f, TUnion [TString, TNull]),
       (''value'', Opt_f, TUnion [TString, TNull])]"

definition PatchSecretsByIdApiArg :: ty where
  "PatchSecretsByIdApiArg =
     TRec [(''id'', Req_f, TNumber),
       (''requestSecretPatch'', Req_f, RequestSecretPatch)]"

definition DeleteSecretsByIdApiResponse :: ty where
  "DeleteSecretsByIdApiResponse =
     TVoid"

definition DeleteSecretsByIdApiArg :: ty where
  "DeleteSecretsByIdApiArg =
     TRec [(''id'', Req_f, TNumber)]"

definition ErrorObject_secrets :: ty where
  "ErrorObject_secrets =
     TRec [(''code'', Opt_f, TNumber),
       (''title'', Opt_f, TString),
       (''description'', Opt_f, TString)]"

section \<open>deployments\<close>

definition DeploymentCloudImage :: ty where
  "DeploymentCloudImage =
     TRec [(''image'', Opt_f, TObject),
       (''arch'', Opt_f, TString),
       (''os_name'', Opt_f, TString),
       (''os_version'', Opt_f, TString),
       (''updated_at'', Opt_f, TString)]"

definition DeploymentInfoCloudRegion :: ty where
  "DeploymentInfoCloudRegion =
     TRec [(''code'', Opt_f, TString),
       (''name'', Opt_f, TString),
       (''datacenters'', Opt_f, TArray (TRec [(''code'', Opt_f, TString),
       (''location'', Opt_f, TString),
       (''cloud_image'', Opt_f, DeploymentCloudImage)]))]"

definition DeploymentInstanceType :: ty where
  "DeploymentInstanceType =
     TRec [(''code'', Opt_f, TString),
       (''cpu'', Opt_f, TNumber),
       (''ram'', Opt_f, TNumber),
       (''shared_cpu'', Opt_f, TBoolean),
       (''price_hourly'', Opt_f, TNumber),
       (''price_monthly'', Opt_f, TNumber),
       (''currency'', Opt_f, TString)]"

definition ResponseDeploymentInfo :: ty where
  "ResponseDeploymentInfo =
     TRec [(''code'', Opt_f, TString),
       (''description'', Opt_f, TString),
       (''avatar_url'', Opt_f, TString),
       (''cloud_regions'', Opt_f, TArray (DeploymentInfoCloudRegion)),
       (''instance_types'', Opt_f, TRec [(''small'', Opt_f, TUnion [TArray (DeploymentInstanceType), TNull]),
       (''medium'', Opt_f, TArray (DeploymentInstanceType)),
       (''large'', Opt_f, TArray (DeploymentInstanceType))]),
       (''volumes'', Opt_f, TArray (TRec [(''volume_type'', Opt_f, TString),
       (''volume_description'', Opt_f, TString),
       (''min_size'', Opt_f, TNumber),
       (''max_size'', Opt_f, TNumber),
       (''price_monthly'', Opt_f, TNumber),
       (''currency'', Opt_f, TString),
       (''is_default'', Opt_f, TUnion [TBoolean, TNull])]))]"

definition PaginationInfoForListRequests_deployments :: ty where
  "PaginationInfoForListRequests_deployments =
     TRec [(''offset'', Opt_f, TUnion [TNumber, TNull]),
       (''limit'', Opt_f, TUnion [TNumber, TNull]),
       (''count'', Opt_f, TUnion [TNumber, TNull])]"

definition DeploymentsInfo :: ty where
  "DeploymentsInfo =
     TRec [(''data'', Opt_f, TArray (ResponseDeploymentInfo)),
       (''meta'', Opt_f, PaginationInfoForListRequests_deployments)]"

definition GetExternalDeploymentsApiResponse :: ty where
  "GetExternalDeploymentsApiResponse =
     DeploymentsInfo"

definition GetExternalDeploymentsApiArg :: ty where
  "GetExternalDeploymentsApiArg =
     TRec [(''offset'', Opt_f, TNumber),
       (''limit'', Opt_f, TNumber)]"

definition ErrorObject_deployments :: ty where
  "ErrorObject_deployments =
     TRec [(''code'', Opt_f, TNumber),
       (''title'', Opt_f, TString),
       (''description'', Opt_f, TString)]"

section \<open>operations\<close>

definition ResponseOperation :: ty where
  "ResponseOperation =
     TRec [(''id'', Opt_f, TNumber),
       (''cluster_name'', Opt_f, TString),
       (''started'', Opt_f, TString),
       (''finished'', Opt_f, TUnion [TString, TNull]),
       (''type'', Opt_f, TString),
       (''status'', Opt_f, TString),
       (''environment'', Opt_f, TString)]"

definition PaginationInfoForListRequests_operations :: ty where
  "PaginationInfoForListRequests_operations =
     TRec [(''offset'', Opt_f, TUnion [TNumber, TNull]),
       (''limit'', Opt_f, TUnion [TNumber, TNull]),
       (''count'', Opt_f, TUnion [TNumber, TNull])]"

definition ResponseOperationsList :: ty where
  "ResponseOperationsList =
     TRec [(''data'', Opt_f, TArray (ResponseOperation)),
       (''meta'', Opt_f, PaginationInfoForListRequests_operations)]"

definition GetOperationsApiResponse :: ty where
  "GetOperationsApiResponse =
     ResponseOperationsList"

definition GetOperationsApiArg :: ty where
  "GetOperationsApiArg =
     TRec [(''projectId'', Req_f, TNumber),
       (''startDate'', Req_f, TString),
       (''endDate'', Req_f, TString),
       (''clusterName'', Opt_f, TString),
       (''type'', Opt_f, TString),
       (''status'', Opt_f, TString),
       (''sortBy'', Opt_f, TString),
       (''limit'', Opt_f, TNumber),
       (''offset'', Opt_f, TNumber)]"

definition GetOperationsByIdLogApiResponse :: ty where
  "GetOperationsByIdLogApiResponse =
     TString"

definition GetOperationsByIdLogApiArg :: ty where
  "GetOperationsByIdLogApiArg =
     TRec [(''id'', Req_f, TNumber)]"

definition ErrorObject_operations :: ty where
  "ErrorObject_operations =
     TRec [(''code'', Opt_f, TNumber),
       (''title'', Opt_f, TString),
       (''description'', Opt_f, TString)]"

section \<open>other\<close>

definition VersionResponse :: ty where
  "VersionResponse =
     TRec [(''version'', Opt_f, TString)]"

definition GetVersionApiResponse :: ty where
  "GetVersionApiResponse =
     VersionResponse"

definition GetVersionApiArg :: ty where
  "GetVersionApiArg =
     TVoid"

definition ResponseDatabaseExtension :: ty where
  "ResponseDatabaseExtension =
     TRec [(''name'', Opt_f, TString),
       (''description'', Opt_f, TUnion [TString, TNull]),
       (''url'', Opt_f, TUnion [TString, TNull]),
       (''image'', Opt_f, TUnion [TString, TNull]),
       (''postgres_min_version'', Opt_f, TUnion [TString, TNull]),
       (''postgres_max_version'', Opt_f, TUnion [TString, TNull]),
       (''contrib'', Opt_f, TBoolean)]"

definition PaginationInfoForListRequests_other :: ty where
  "PaginationInfoForListRequests_other =
     TRec [(''offset'', Opt_f, TUnion [TNumber, TNull]),
       (''limit'', Opt_f, TUnion [TNumber, TNull]),
       (''count'', Opt_f, TUnion [TNumber, TNull])]"

definition ResponseDatabaseExtensions :: ty where
  "ResponseDatabaseExtensions =
     TRec [(''data'', Opt_f, TArray (ResponseDatabaseExtension)),
       (''meta'', Opt_f, PaginationInfoForListRequests_other)]"

definition GetDatabaseExtensionsApiResponse :: ty where
  "GetDatabaseExtensionsApiResponse =
     ResponseDatabaseExtensions"

definition GetDatabaseExtensionsApiArg :: ty where
  "GetDatabaseExtensionsApiArg =
     TRec [(''offset'', Opt_f, TNumber),
       (''limit'', Opt_f, TNumber),
       (''extensionType'', Opt_f, TUnion [TLit ''all'', TLit ''contrib'', TLit ''third_party'']),
       (''postgresVersion'', Opt_f, TString)]"

definition ResponsePostgresVersion :: ty where
  "ResponsePostgresVersion =
     TRec [(''major_version'', Opt_f, TNumber),
       (''release_date'', Opt_f, TString),
       (''end_of_life'', Opt_f, TString)]"

definition ResponsePostgresVersions :: ty where
  "ResponsePostgresVersions =
     TRec [(''data'', Opt_f, TArray (ResponsePostgresVersion))]"

definition GetPostgresVersionsApiResponse :: ty where
  "GetPostgresVersionsApiResponse =
     ResponsePostgresVersions"

definition GetPostgresVersionsApiArg :: ty where
  "GetPostgresVersionsApiArg =
     TVoid"

definition DeleteServersByIdApiResponse :: ty where
  "DeleteServersByIdApiResponse =
     TVoid"

definition DeleteServersByIdApiArg :: ty where
  "DeleteServersByIdApiArg =
     TRec [(''id'', Req_f, TNumber)]"

definition ErrorObject_other :: ty where
  "ErrorObject_other =
     TRec [(''code'', Opt_f, TNumber),
       (''title'', Opt_f, TString),
       (''description'', Opt_f, TString)]"

section \<open>projects\<close>

definition ResponseProject :: ty where
  "ResponseProject =
     TRec [(''id'', Opt_f, TNumber),
       (''name'', Opt_f, TString),
       (''description'', Opt_f, TUnion [TString, TNull]),
       (''created_at'', Opt_f, TString),
       (''updated_at'', Opt_f, TUnion [TString, TNull])]"

definition PostProjectsApiResponse :: ty where
  "PostProjectsApiResponse =
     ResponseProject"

definition RequestProjectCreate :: ty where
  "RequestProjectCreate =
     TRec [(''name'', Opt_f, TString),
       (''description'', Opt_f, TString)]"

definition PostProjectsApiArg :: ty where
  "PostProjectsApiArg =
     TRec [(''requestProjectCreate'', Req_f, RequestProjectCreate)]"

definition PaginationInfoForListRequests_projects :: ty where
  "PaginationInfoForListRequests_projects =
     TRec [(''offset'', Opt_f, TUnion [TNumber, TNull]),
       (''limit'', Opt_f, TUnion [TNumber, TNull]),
       (''count'', Opt_f, TUnion [TNumber, TNull])]"

definition ResponseProjectsList :: ty where
  "ResponseProjectsList =
     TRec [(''data'', Opt_f, TArray (ResponseProject)),
       (''meta'', Opt_f, PaginationInfoForListRequests_projects)]"

definition GetProjectsApiResponse :: ty where
  "GetProjectsApiResponse =
     ResponseProjectsList"

definition GetProjectsApiArg :: ty where
  "GetProjectsApiArg =
     TRec [(''limit'', Opt_f, TNumber),
       (''offset'', Opt_f, TNumber)]"

definition PatchProjectsByIdApiResponse :: ty where
  "PatchProjectsByIdApiResponse =
     ResponseProject"

definition RequestProjectPatch :: ty where
  "RequestProjectPatch =
     TRec [(''name'', Opt_f, TUnion [TString, TNull]),
       (''description'', Opt_f, TUnion [TString, TNull])]"

definition PatchProjectsByIdApiArg :: ty where
  "PatchProjectsByIdApiArg =
     TRec [(''id'', Req_f, TNumber),
       (''requestProjectPatch'', Req_f, RequestProjectPatch)]"

definition DeleteProjectsByIdApiResponse :: ty where
  "DeleteProjectsByIdApiResponse =
     TVoid"

definition DeleteProjectsByIdApiArg :: ty where
  "DeleteProjectsByIdApiArg =
     TRec [(''id'', Req_f, TNumber)]"

definition ErrorObject_projects :: ty where
  "ErrorObject_projects =
     TRec [(''code'', Opt_f, TNumber),
       (''title'', Opt_f, TString),
       (''description'', Opt_f, TString)]"

section \<open>settings\<close>

definition ResponseSetting :: ty where
  "ResponseSetting =
     TRec [(''id'', Opt_f, TNumber),
       (''name'', Opt_f, TString),
       (''value'', Opt_f, TObject),
       (''created_at'', Opt_f, TString),
       (''updated_at'', Opt_f, TUnion [TString, TNull])]"

definition PostSettingsApiResponse :: ty where
  "PostSettingsApiResponse =
     ResponseSetting"

definition RequestCreateSetting :: ty where
  "RequestCreateSetting =
     TRec [(''name'', Opt_f, TString),
       (''value'', Opt_f, TObject)]"

definition PostSettingsApiArg :: ty where
  "PostSettingsApiArg =
     TRec [(''requestCreateSetting'', Req_f, RequestCreateSetting)]"

definition PaginationInfoForListRequests_settings :: ty where
  "PaginationInfoForListRequests_settings =
     TRec [(''offset'', Opt_f, TUnion [TNumber, TNull]),
       (''limit'', Opt_f, TUnion [TNumber, TNull]),
       (''count'', Opt_f, TUnion [TNumber, TNull])]"

definition ResponseSettings :: ty where
  "ResponseSettings =
     TRec [(''data'', Opt_f, TArray (ResponseSetting)),
       (''mete'', Opt_f, PaginationInfoForListRequests_settings)]"

definition GetSettingsApiResponse :: ty where
  "GetSettingsApiResponse =
     ResponseSettings"

definition GetSettingsApiArg :: ty where
  "GetSettingsApiArg =
     TRec [(''name'', Opt_f, TString),
       (''offset'', Opt_f, TNumber),
       (''limit'', Opt_f, TNumber)]"

definition PatchSettingsByNameApiResponse :: ty where
  "PatchSettingsByNameApiResponse =
     ResponseSetting"

definition RequestChangeSetting :: ty where
  "RequestChangeSetting =
     TRec [(''value'', Opt_f, TUnion [TObject, TNull])]"

definition PatchSettingsByNameApiArg :: ty where
  "PatchSettingsByNameApiArg =
     TRec [(''name'', Req_f, TString),
       (''requestChangeSetting'', Req_f, RequestChangeSetting)]"

definition ErrorObject_settings :: ty where
  "ErrorObject_settings =
     TRec [(''code'', Opt_f, TNumber),
       (''title'', Opt_f, TString),
       (''description'', Opt_f, TString)]"

section \<open>environments\<close>

definition ResponseEnvironment :: ty where
  "ResponseEnvironment =
     TRec [(''id'', Opt_f, TNumber),
       (''name'', Opt_f, TString),
       (''description'', Opt_f, TUnion [TString, TNull]),
       (''created_at'', Opt_f, TString),
       (''updated_at'', Opt_f, TUnion [TString, TNull])]"

definition PaginationInfoForListRequests_environments :: ty where
  "PaginationInfoForListRequests_environments =
     TRec [(''offset'', Opt_f, TUnion [TNumber, TNull]),
       (''limit'', Opt_f, TUnion [TNumber, TNull]),
       (''count'', Opt_f, TUnion [TNumber, TNull])]"

definition ResponseEnvironmentsList :: ty where
  "ResponseEnvironmentsList =
     TRec [(''data'', Opt_f, TArray (ResponseEnvironment)),
       (''meta'', Opt_f, PaginationInfoForListRequests_environments)]"

definition GetEnvironmentsApiResponse :: ty where
  "GetEnvironmentsApiResponse =
     ResponseEnvironmentsList"

definition GetEnvironmentsApiArg :: ty where
  "GetEnvironmentsApiArg =
     TRec [(''limit'', Opt_f, TNumber),
       (''offset'', Opt_f, TNumber)]"

definition PostEnvironmentsApiResponse :: ty where
  "PostEnvironmentsApiResponse =
     ResponseEnvironment"

definition RequestEnvironment :: ty where
  "RequestEnvironment =
     TRec [(''name'', Opt_f, TString),
       (''description'', Opt_f, TString)]"

definition PostEnvironmentsApiArg :: ty where
  "PostEnvironmentsApiArg =
     TRec [(''requestEnvironment'', Req_f, RequestEnvironment)]"

definition DeleteEnvironmentsByIdApiResponse :: ty where
  "DeleteEnvironmentsByIdApiResponse =
     TVoid"

definition DeleteEnvironmentsByIdApiArg :: ty where
  "DeleteEnvironmentsByIdApiArg =
     TRec [(''id'', Req_f, TNumber)]"

definition ErrorObject_environments :: ty where
  "ErrorObject_environments =
     TRec [(''code'', Opt_f, TNumber),
       (''title'', Opt_f, TString),
       (''description'', Opt_f, TString)]"

lemmas type_defs =
  ResponseClusterCreate_def
  PostClustersApiResponse_def
  RequestClusterCreate_def
  PostClustersApiArg_def
  ClusterInfoInstance_def
  ClusterInfo_def
  PaginationInfoForListRequests_def
  ResponseClustersInfo_def
  GetClustersApiResponse_def
  GetClustersApiArg_def
  ResponseClusterDefaultName_def
  GetClustersDefaultNameApiResponse_def
  GetClustersDefaultNameApiArg_def
  GetClustersByIdApiResponse_def
  GetClustersByIdApiArg_def
  DeleteClustersByIdApiResponse_def
  DeleteClustersByIdApiArg_def
  PostClustersByIdRefreshApiResponse_def
  PostClustersByIdRefreshApiArg_def
  PostClustersByIdReinitApiResponse_def
  RequestClusterReinit_def
  PostClustersByIdReinitApiArg_def
  PostClustersByIdReloadApiResponse_def
  RequestClusterReload_def
  PostClustersByIdReloadApiArg_def
  PostClustersByIdRestartApiResponse_def
  RequestClusterRestart_def
  PostClustersByIdRestartApiArg_def
  PostClustersByIdStopApiResponse_def
  RequestClusterStop_def
  PostClustersByIdStopApiArg_def
  PostClustersByIdStartApiResponse_def
  RequestClusterStart_def
  PostClustersByIdStartApiArg_def
  PostClustersByIdRemoveApiResponse_def
  RequestClusterRemove_def
  PostClustersByIdRemoveApiArg_def
  ErrorObject_def
  SecretType_def
  ResponseSecretInfo_def
  PostSecretsApiResponse_def
  RequestSecretValueAws_def
  RequestSecretValueGcp_def
  RequestSecretValueHetzner_def
  RequestSecretValueSshKey_def
  RequestSecretValueDigitalOcean_def
  RequestSecretValuePassword_def
  RequestSecretValueAzure_def
  RequestSecretValue_def
  RequestSecretCreate_def
  PostSecretsApiArg_def
  PaginationInfoForListRequests_secrets_def
  ResponseSecretInfoList_def
  GetSecretsApiResponse_def
  GetSecretsApiArg_def
  PatchSecretsByIdApiResponse_def
  RequestSecretPatch_def
  PatchSecretsByIdApiArg_def
  DeleteSecretsByIdApiResponse_def
  DeleteSecretsByIdApiArg_def
  ErrorObject_secrets_def
  DeploymentCloudImage_def
  DeploymentInfoCloudRegion_def
  DeploymentInstanceType_def
  ResponseDeploymentInfo_def
  PaginationInfoForListRequests_deployments_def
  DeploymentsInfo_def
  GetExternalDeploymentsApiResponse_def
  GetExternalDeploymentsApiArg_def
  ErrorObject_deployments_def
  ResponseOperation_def
  PaginationInfoForListRequests_operations_def
  ResponseOperationsList_def
  GetOperationsApiResponse_def
  GetOperationsApiArg_def
  GetOperationsByIdLogApiResponse_def
  GetOperationsByIdLogApiArg_def
  ErrorObject_operations_def
  VersionResponse_def
  GetVersionApiResponse_def
  GetVersionApiArg_def
  ResponseDatabaseExtension_def
  PaginationInfoForListRequests_other_def
  ResponseDatabaseExtensions_def
  GetDatabaseExtensionsApiResponse_def
  GetDatabaseExtensionsApiArg_def
  ResponsePostgresVersion_def
  ResponsePostgresVersions_def
  GetPostgresVersionsApiResponse_def
  GetPostgresVersionsApiArg_def
  DeleteServersByIdApiResponse_def
  DeleteServersByIdApiArg_def
  ErrorObject_other_def
  ResponseProject_def
  PostProjectsApiResponse_def
  RequestProjectCreate_def
  PostProjectsApiArg_def
  PaginationInfoForListRequests_projects_def
  ResponseProjectsList_def
  GetProjectsApiResponse_def
  GetProjectsApiArg_def
  PatchProjectsByIdApiResponse_def
  RequestProjectPatch_def
  PatchProjectsByIdApiArg_def
  DeleteProjectsByIdApiResponse_def
  DeleteProjectsByIdApiArg_def
  ErrorObject_projects_def
  ResponseSetting_def
  PostSettingsApiResponse_def
  RequestCreateSetting_def
  PostSettingsApiArg_def
  PaginationInfoForListRequests_settings_def
  ResponseSettings_def
  GetSettingsApiResponse_def
  GetSettingsApiArg_def
  PatchSettingsByNameApiResponse_def
  RequestChangeSetting_def
  PatchSettingsByNameApiArg_def
  ErrorObject_settings_def
  ResponseEnvironment_def
  PaginationInfoForListRequests_environments_def
  ResponseEnvironmentsList_def
  GetEnvironmentsApiResponse_def
  GetEnvironmentsApiArg_def
  PostEnvironmentsApiResponse_def
  RequestEnvironment_def
  PostEnvironmentsApiArg_def
  DeleteEnvironmentsByIdApiResponse_def
  DeleteEnvironmentsByIdApiArg_def
  ErrorObject_environments_def

end
