(* ===== verification/Api.thy ===== *)
theory Api
  imports ApiTypes Stores FormFields
begin

text \<open>
  \<open>shared/api\<close>: the endpoints of the REST client. An endpoint is its request, the cache tags
  a query provides and the tags a mutation invalidates, as functions of the argument and the result;
  \<open>Throw\<close> where the code reads a property of \<open>undefined\<close>. Which cached query an
  invalidated tag matches is the library's rule, a parameter: \<open>rtk_rule\<close> states what is
  documented of it, \<open>tag_match\<close> is an instance.
\<close>

datatype endpoint_kind = Query | Mutation

record endpoint =
  kind :: endpoint_kind
  query :: "js \<Rightarrow> js res"
  provides :: "js \<Rightarrow> js \<Rightarrow> js list res"
  invalidates :: "js \<Rightarrow> js \<Rightarrow> js list res"

definition tag :: "string \<Rightarrow> js \<Rightarrow> js" where
  "tag type i = obj [P ''type'' (Str type), P ''id'' i]"

definition list_tag :: "string \<Rightarrow> js" where
  "list_tag type = tag type (Str ''LIST'')"

text \<open>\<open>(result) => result?.data ? [...result.data.map(({id}) => ({type, id})), LIST] : [LIST]\<close>\<close>

definition list_tags :: "string \<Rightarrow> js \<Rightarrow> js \<Rightarrow> js list res" where
  "list_tags type result arg =
     (if truthy (get result ''data'')
      then (case get result ''data'' of
              Arr xs \<Rightarrow> map_res (\<lambda>ts. ts @ [list_tag type])
                          (map_all (\<lambda>x. map_res (tag type) (member x ''id'')) xs)
            | _ \<Rightarrow> Throw TypeError)
      else Ok [list_tag type])"

definition id_tag :: "string \<Rightarrow> js \<Rightarrow> js \<Rightarrow> js list res" where
  "id_tag type result arg = map_res (\<lambda>i. [tag type i]) (member arg ''id'')"

definition no_tags :: "js \<Rightarrow> js \<Rightarrow> js list res" where
  "no_tags result arg = Ok []"

text \<open>\<open>queryArg => ({url: a + queryArg[k] + b, method, body: queryArg[body]})\<close> and
  \<open>queryArg => ({url, params: {name: queryArg[field], ...}})\<close>\<close>

definition with_arg :: "(js \<Rightarrow> js) \<Rightarrow> js \<Rightarrow> js res" where
  "with_arg f arg = (if nullish arg then Throw TypeError else Ok (f arg))"

definition url_part :: "string \<Rightarrow> part" where
  "url_part url = P ''url'' (Str url)"

definition method_part :: "string \<Rightarrow> part" where
  "method_part m = P ''method'' (Str m)"

definition params_part :: "(string \<times> string) list \<Rightarrow> js \<Rightarrow> part" where
  "params_part names arg = P ''params'' (obj (map (\<lambda>(param, field). P param (get arg field)) names))"

definition by_id :: "string \<Rightarrow> string \<Rightarrow> js \<Rightarrow> part" where
  "by_id before after arg = url_part (before @ js_str (get arg ''id'') @ after)"

definition list_query :: "string \<Rightarrow> string \<Rightarrow> (string \<times> string) list \<Rightarrow> endpoint" where
  "list_query type url names = \<lparr>kind = Query,
     query = with_arg (\<lambda>arg. obj [url_part url, params_part names arg]),
     provides = list_tags type, invalidates = no_tags\<rparr>"

definition create_mutation :: "string \<Rightarrow> string \<Rightarrow> string \<Rightarrow> endpoint" where
  "create_mutation type url body = \<lparr>kind = Mutation,
     query = with_arg (\<lambda>arg. obj [url_part url, method_part ''POST'', P ''body'' (get arg body)]),
     provides = no_tags, invalidates = (\<lambda>_ _. Ok [list_tag type])\<rparr>"

definition delete_mutation :: "string \<Rightarrow> string \<Rightarrow> endpoint" where
  "delete_mutation type url = \<lparr>kind = Mutation,
     query = with_arg (\<lambda>arg. obj [by_id url [] arg, method_part ''DELETE'']),
     provides = no_tags, invalidates = (\<lambda>_ _. Ok [list_tag type])\<rparr>"

definition patch_mutation :: "string \<Rightarrow> string \<Rightarrow> string \<Rightarrow> endpoint" where
  "patch_mutation type url body = \<lparr>kind = Mutation,
     query = with_arg (\<lambda>arg. obj [by_id url [] arg, method_part ''PATCH'', P ''body'' (get arg body)]),
     provides = no_tags, invalidates = id_tag type\<rparr>"

text \<open>\<open>POST /clusters/<id>/<command>\<close>\<close>

definition cluster_command :: "string \<Rightarrow> string \<Rightarrow> endpoint" where
  "cluster_command command body = \<lparr>kind = Mutation,
     query = with_arg (\<lambda>arg. obj [by_id ''/clusters/'' (''/'' @ command) arg, method_part ''POST'',
       P ''body'' (get arg body)]),
     provides = no_tags, invalidates = id_tag ''Clusters''\<rparr>"

definition plain_query :: "js \<Rightarrow> endpoint" where
  "plain_query req = \<lparr>kind = Query, query = (\<lambda>_. Ok req), provides = no_tags, invalidates = no_tags\<rparr>"

section \<open>Clusters\<close>

definition postClusters :: endpoint where
  "postClusters = create_mutation ''Clusters'' ''/clusters'' ''requestClusterCreate''"

definition getClusters :: endpoint where
  "getClusters = list_query ''Clusters'' ''/clusters''
      [(''offset'', ''offset''),
       (''limit'', ''limit''),
       (''project_id'', ''projectId''),
       (''name'', ''name''),
       (''status'', ''status''),
       (''location'', ''location''),
       (''environment'', ''environment''),
       (''server_count'', ''serverCount''),
       (''postgres_version'', ''postgresVersion''),
       (''created_at_from'', ''createdAtFrom''),
       (''created_at_to'', ''createdAtTo''),
       (''sort_by'', ''sortBy'')]"

definition getClustersDefaultName :: endpoint where
  "getClustersDefaultName = plain_query (obj [url_part ''/clusters/default_name''])"

definition getClustersById :: endpoint where
  "getClustersById = \<lparr>kind = Query,
     query = with_arg (\<lambda>arg. obj [by_id ''/clusters/'' [] arg]),
     provides = id_tag ''Clusters'', invalidates = no_tags\<rparr>"

definition deleteClustersById :: endpoint where
  "deleteClustersById = delete_mutation ''Clusters'' ''/clusters/''"

definition postClustersByIdRefresh :: endpoint where
  "postClustersByIdRefresh = \<lparr>kind = Mutation,
     query = with_arg (\<lambda>arg. obj [by_id ''/clusters/'' ''/refresh'' arg, method_part ''POST'']),
     provides = no_tags, invalidates = id_tag ''Clusters''\<rparr>"

definition postClustersByIdReinit :: endpoint where
  "postClustersByIdReinit = cluster_command ''reinit'' ''requestClusterReinit''"

definition postClustersByIdReload :: endpoint where
  "postClustersByIdReload = cluster_command ''reload'' ''requestClusterReload''"

definition postClustersByIdRestart :: endpoint where
  "postClustersByIdRestart = cluster_command ''restart'' ''requestClusterRestart''"

definition postClustersByIdStop :: endpoint where
  "postClustersByIdStop = cluster_command ''stop'' ''requestClusterStop''"

definition postClustersByIdStart :: endpoint where
  "postClustersByIdStart = cluster_command ''start'' ''requestClusterStart''"

definition postClustersByIdRemove :: endpoint where
  "postClustersByIdRemove = \<lparr>kind = Mutation,
     query = with_arg (\<lambda>arg. obj [by_id ''/clusters/'' ''/remove'' arg, method_part ''POST'',
       P ''body'' (get arg ''requestClusterRemove'')]),
     provides = no_tags, invalidates = (\<lambda>_ _. Ok [list_tag ''Clusters''])\<rparr>"

section \<open>Secrets\<close>

definition postSecrets :: endpoint where
  "postSecrets = create_mutation ''Secrets'' ''/secrets'' ''requestSecretCreate''"

definition getSecrets :: endpoint where
  "getSecrets = list_query ''Secrets'' ''/secrets''
      [(''limit'', ''limit''),
       (''offset'', ''offset''),
       (''project_id'', ''projectId''),
       (''name'', ''name''),
       (''type'', ''type''),
       (''sort_by'', ''sortBy'')]"

definition patchSecretsById :: endpoint where
  "patchSecretsById = patch_mutation ''Secrets'' ''/secrets/'' ''requestSecretPatch''"

definition deleteSecretsById :: endpoint where
  "deleteSecretsById = delete_mutation ''Secrets'' ''/secrets/''"

section \<open>Projects and environments\<close>

definition postProjects :: endpoint where
  "postProjects = create_mutation ''Projects'' ''/projects'' ''requestProjectCreate''"

definition getProjects :: endpoint where
  "getProjects = list_query ''Projects'' ''/projects'' [(''limit'', ''limit''),
       (''offset'', ''offset'')]"

definition patchProjectsById :: endpoint where
  "patchProjectsById = patch_mutation ''Projects'' ''/projects/'' ''requestProjectPatch''"

definition deleteProjectsById :: endpoint where
  "deleteProjectsById = delete_mutation ''Projects'' ''/projects/''"

definition getEnvironments :: endpoint where
  "getEnvironments = list_query ''Environments'' ''/environments'' [(''limit'', ''limit''),
       (''offset'', ''offset'')]"

definition postEnvironments :: endpoint where
  "postEnvironments = create_mutation ''Environments'' ''/environments'' ''requestEnvironment''"

definition deleteEnvironmentsById :: endpoint where
  "deleteEnvironmentsById = delete_mutation ''Environments'' ''/environments/''"

section \<open>Settings\<close>

definition postSettings :: endpoint where
  "postSettings = create_mutation ''Settings'' ''/settings'' ''requestCreateSetting''"

definition getSettings :: endpoint where
  "getSettings = list_query ''Settings'' ''/settings'' [(''name'', ''name''),
       (''offset'', ''offset''),
       (''limit'', ''limit'')]"

text \<open>The argument has a \<open>name\<close> and no \<open>id\<close>: the invalidated tag's id is \<open>undefined\<close>.\<close>

definition patchSettingsByName :: endpoint where
  "patchSettingsByName = \<lparr>kind = Mutation,
     query = with_arg (\<lambda>arg. obj [url_part (''/settings/'' @ js_str (get arg ''name'')), method_part ''PATCH'',
       P ''body'' (get arg ''requestChangeSetting'')]),
     provides = no_tags, invalidates = id_tag ''Settings''\<rparr>"

section \<open>Operations\<close>

definition getOperations :: endpoint where
  "getOperations = list_query ''Operations'' ''/operations''
      [(''project_id'', ''projectId''),
       (''start_date'', ''startDate''),
       (''end_date'', ''endDate''),
       (''cluster_name'', ''clusterName''),
       (''type'', ''type''),
       (''status'', ''status''),
       (''sort_by'', ''sortBy''),
       (''limit'', ''limit''),
       (''offset'', ''offset'')]"

definition getOperationsByIdLog :: endpoint where
  "getOperationsByIdLog = \<lparr>kind = Query,
     query = with_arg (\<lambda>arg. obj [by_id ''/operations/'' ''/log'' arg]),
     provides = id_tag ''Operations'', invalidates = no_tags\<rparr>"

text \<open>\<open>transformResponse\<close>; \<open>header\<close> is \<open>headers.get('x-log-completed')\<close>.\<close>

definition transform_log :: "js \<Rightarrow> js \<Rightarrow> js" where
  "transform_log response header = obj
     [P ''log'' response,
      P ''isComplete'' (Bool (\<not> nullish header \<and> js_str header = ''true''))]"

section \<open>Deployments, versions, extensions and servers\<close>

definition getExternalDeployments :: endpoint where
  "getExternalDeployments = \<lparr>kind = Query,
     query = with_arg (\<lambda>arg. obj [url_part ''/external/deployments'',
       params_part [(''offset'', ''offset''), (''limit'', ''limit'')] arg]),
     provides = no_tags, invalidates = no_tags\<rparr>"

definition getVersion :: endpoint where
  "getVersion = plain_query (obj [url_part ''/version''])"

definition getDatabaseExtensions :: endpoint where
  "getDatabaseExtensions = \<lparr>kind = Query,
     query = with_arg (\<lambda>arg. obj [url_part ''/database/extensions'',
       params_part [(''offset'', ''offset''), (''limit'', ''limit''), (''extension_type'', ''extensionType''),
         (''postgres_version'', ''postgresVersion'')] arg]),
     provides = no_tags, invalidates = no_tags\<rparr>"

definition getPostgresVersions :: endpoint where
  "getPostgresVersions = plain_query (obj [url_part ''/postgres_versions''])"

definition deleteServersById :: endpoint where
  "deleteServersById = \<lparr>kind = Mutation,
     query = with_arg (\<lambda>arg. obj [by_id ''/servers/'' [] arg, method_part ''DELETE'']),
     provides = no_tags, invalidates = no_tags\<rparr>"

section \<open>Headers\<close>

text \<open>\<open>baseApi.ts\<close>; \<open>language\<close> is \<open>i18n.language\<close>, \<open>token\<close> what the local storage holds.\<close>

definition prepareHeaders :: "(string \<times> string) list \<Rightarrow> string \<Rightarrow> string \<Rightarrow> js \<Rightarrow> (string \<times> string) list" where
  "prepareHeaders headers endpoint language token =
     (let h = AList.update ''Accept-Language'' language headers
      in if endpoint \<noteq> ''login'' then AList.update ''Authorization'' (''Bearer '' @ js_str token) h else h)"

definition tagTypes :: "string list" where
  "tagTypes = [''Clusters'', ''Operations'', ''Secrets'', ''Projects'', ''Environments'', ''Settings'']"

section \<open>Cache invalidation\<close>

text \<open>
  What Redux Toolkit documents: an invalidated tag matches a provided one of the same type with the
  same id, and one whose id is \<open>undefined\<close> matches every tag of its type.
\<close>

definition rtk_rule :: "(js \<Rightarrow> js \<Rightarrow> bool) \<Rightarrow> bool" where
  "rtk_rule matches_tag \<longleftrightarrow> (\<forall>t i u j. matches_tag (tag t i) (tag u j) \<longleftrightarrow> t = u \<and> (i = Undef \<or> i = j))"

definition tag_match :: "js \<Rightarrow> js \<Rightarrow> bool" where
  "tag_match invalid prov \<longleftrightarrow> get invalid ''type'' = get prov ''type''
     \<and> (get invalid ''id'' = Undef \<or> get invalid ''id'' = get prov ''id'')"

lemma rtk_tag_match: "rtk_rule tag_match"
  by (simp add: rtk_rule_def tag_match_def tag_def get_obj)

text \<open>A mutation with this argument and result refetches a query cached with that one.\<close>

definition refetches ::
    "(js \<Rightarrow> js \<Rightarrow> bool) \<Rightarrow> endpoint \<Rightarrow> js \<Rightarrow> js \<Rightarrow> endpoint \<Rightarrow> js \<Rightarrow> js \<Rightarrow> bool" where
  "refetches matches_tag m res arg q res' arg' =
     (case (invalidates m res arg, provides q res' arg') of
        (Ok invalid, Ok prov) \<Rightarrow> list_ex (\<lambda>i. list_ex (matches_tag i) prov) invalid
      | _ \<Rightarrow> False)"

lemma list_tags_Ok:
  "list_tags type result arg = Ok ts \<Longrightarrow> list_tag type \<in> set ts"
  by (auto simp: list_tags_def map_res_eq_Ok split: if_splits js.splits)

lemma refetches_list:
  assumes "rtk_rule matches_tag" "invalidates m res arg = Ok [list_tag type]"
    and "provides q res' arg' = list_tags type res' arg'" "provides q res' arg' = Ok prov"
  shows "refetches matches_tag m res arg q res' arg'"
proof -
  have "list_tag type \<in> set prov"
    using assms(3,4) list_tags_Ok by simp
  moreover have "matches_tag (list_tag type) (list_tag type)"
    using assms(1) by (simp add: rtk_rule_def list_tag_def)
  ultimately show ?thesis
    using assms(2,4) by (auto simp: refetches_def list_ex_iff)
qed

text \<open>The mutations that add or remove an item, with the query of the list it belongs to.\<close>

definition list_changes :: "(string \<times> endpoint \<times> endpoint) list" where
  "list_changes =
     [(''Clusters'', postClusters, getClusters), (''Clusters'', deleteClustersById, getClusters),
      (''Clusters'', postClustersByIdRemove, getClusters),
      (''Secrets'', postSecrets, getSecrets), (''Secrets'', deleteSecretsById, getSecrets),
      (''Projects'', postProjects, getProjects), (''Projects'', deleteProjectsById, getProjects),
      (''Environments'', postEnvironments, getEnvironments),
      (''Environments'', deleteEnvironmentsById, getEnvironments),
      (''Settings'', postSettings, getSettings)]"

lemmas list_change_defs =
  postClusters_def getClusters_def deleteClustersById_def postClustersByIdRemove_def
  postSecrets_def getSecrets_def deleteSecretsById_def postProjects_def getProjects_def
  deleteProjectsById_def postEnvironments_def getEnvironments_def deleteEnvironmentsById_def
  postSettings_def getSettings_def create_mutation_def delete_mutation_def list_query_def

text \<open>
  Every mutation that adds or removes an item refetches the list it belongs to, whatever
  was cached for that list.
\<close>

theorem collection_changes_refetch_lists:
  assumes "rtk_rule matches_tag" "(type, m, q) \<in> set list_changes" "provides q res' arg' = Ok prov"
  shows "refetches matches_tag m res arg q res' arg'"
proof -
  have "list_all (\<lambda>(type, m, q). invalidates m res arg = Ok [list_tag type]
          \<and> provides q res' arg' = list_tags type res' arg') list_changes"
    by (simp add: list_changes_def list_change_defs)
  then show ?thesis
    using assms by (auto simp: list_all_iff intro: refetches_list)
qed

theorem collection_changes_refetch_lists_witness:
  "refetches tag_match postSecrets Null Null getSecrets (obj [P ''data'' (Arr [obj [P ''id'' (Num 4)]])]) Null"
proof -
  have "(''Secrets'', postSecrets, getSecrets) \<in> set list_changes" by (simp add: list_changes_def)
  moreover have "provides getSecrets (obj [P ''data'' (Arr [obj [P ''id'' (Num 4)]])]) Null
      = Ok [tag ''Secrets'' (Num 4), list_tag ''Secrets'']"
    by (simp add: getSecrets_def list_query_def list_tags_def get_obj member_def)
  ultimately show ?thesis by (rule collection_changes_refetch_lists [OF rtk_tag_match])
qed

text \<open>
  A command on a cluster refetches the query of that cluster, and no other cluster's.
\<close>

theorem commands_refetch_their_cluster:
  assumes "rtk_rule matches_tag"
    and "m \<in> set [postClustersByIdRefresh, postClustersByIdReinit, postClustersByIdReload,
                   postClustersByIdRestart, postClustersByIdStop, postClustersByIdStart]"
    and "get arg ''id'' = Num i" "get arg' ''id'' = Num j"
  shows "refetches matches_tag m res arg getClustersById res' arg' \<longleftrightarrow> i = j"
proof -
  have invalid: "invalidates m res arg = id_tag ''Clusters'' res arg"
    using assms(2)
    by (auto simp: postClustersByIdRefresh_def postClustersByIdReinit_def postClustersByIdReload_def
        postClustersByIdRestart_def postClustersByIdStop_def postClustersByIdStart_def cluster_command_def)
  have "\<not> nullish arg" "\<not> nullish arg'"
    using assms(3,4) by auto
  then show ?thesis
    using assms(1,3,4)
    by (simp add: refetches_def invalid getClustersById_def id_tag_def member_def rtk_rule_def)
qed

theorem commands_refetch_their_cluster_witness:
  "\<not> refetches tag_match postClustersByIdStop Null (obj [P ''id'' (Num 1)]) getClustersById Null (obj [P ''id'' (Num 2)])"
  using commands_refetch_their_cluster [OF rtk_tag_match, of postClustersByIdStop
      "obj [P ''id'' (Num 1)]" 1 "obj [P ''id'' (Num 2)]" 2 Null Null]
  by (simp add: get_obj)

text \<open>
  Every request but the login's carries the stored token and the interface's language.
\<close>

theorem requests_are_authorized:
  "map_of (prepareHeaders headers endpoint language token) ''Authorization'' =
     (if endpoint = ''login'' then map_of headers ''Authorization'' else Some (''Bearer '' @ js_str token))
   \<and> map_of (prepareHeaders headers endpoint language token) ''Accept-Language'' = Some language"
  by (simp add: prepareHeaders_def Let_def map_of_update)

end
