(* ===== verification/TypeFacts.thy ===== *)
theory TypeFacts
  imports Api ClusterViews
begin

text \<open>
  The declared types against what the code builds: the body that stores a secret has its declared
  type, the request that creates a cluster does not.
\<close>

definition SecretFormValues :: ty where
  "SecretFormValues =
     TRec [(SEC_SECRET_TYPE, Req_f, TString),
       (SEC_SECRET_NAME, Req_f, TString),
       (SEC_AWS_ACCESS_KEY_ID, Opt_f, TString),
       (SEC_AWS_SECRET_ACCESS_KEY, Opt_f, TString),
       (SEC_GCP_SERVICE_ACCOUNT_CONTENTS, Opt_f, TString),
       (SEC_DO_API_TOKEN, Opt_f, TString),
       (SEC_AZURE_SUBSCRIPTION_ID, Opt_f, TString),
       (SEC_AZURE_CLIENT_ID, Opt_f, TString),
       (SEC_AZURE_SECRET, Opt_f, TString),
       (SEC_AZURE_TENANT, Opt_f, TString),
       (SEC_HCLOUD_API_TOKEN, Opt_f, TString),
       (SEC_SSH_PRIVATE_KEY, Opt_f, TString),
       (SEC_USERNAME, Opt_f, TString),
       (SEC_PASSWORD, Opt_f, TString)]"

lemmas request_secret_types = RequestSecretValue_def RequestSecretValueAws_def RequestSecretValueGcp_def
  RequestSecretValueHetzner_def RequestSecretValueSshKey_def RequestSecretValueDigitalOcean_def
  RequestSecretValuePassword_def RequestSecretValueAzure_def

definition maybe_string :: "js \<Rightarrow> bool" where
  "maybe_string v \<longleftrightarrow> v = Undef \<or> is_string v"

lemma has_fields_cases:
  "has_fields ((k, Opt_f, TString) # fs) v \<longleftrightarrow> maybe_string (get v k) \<and> has_fields fs v"
  "has_fields ((k, Req_f, t) # fs) v \<longleftrightarrow> has_type t (get v k) \<and> has_fields fs v"
  "has_fields ((k, Opt_f, TRec gs) # fs) v \<longleftrightarrow>
     (get v k = Undef \<or> has_type (TRec gs) (get v k)) \<and> has_fields fs v"
  by (auto simp: maybe_string_def)

text \<open>
  From form values of their declared type, a secret of a kind the dialog offers gets a body of
  the type the API declares.
\<close>

theorem secret_body_typed:
  assumes "has_type SecretFormValues values" "get values SEC_SECRET_TYPE \<in> Str ` set secret_type_options"
  shows "has_type RequestSecretValue (getSecretBodyFromValues values)"
proof -
  have maybe: "list_all (\<lambda>f. maybe_string (get values f))
    [SEC_AWS_ACCESS_KEY_ID, SEC_AWS_SECRET_ACCESS_KEY, SEC_GCP_SERVICE_ACCOUNT_CONTENTS, SEC_DO_API_TOKEN,
     SEC_AZURE_SUBSCRIPTION_ID, SEC_AZURE_CLIENT_ID, SEC_AZURE_SECRET, SEC_AZURE_TENANT,
     SEC_HCLOUD_API_TOKEN, SEC_SSH_PRIVATE_KEY, SEC_USERNAME, SEC_PASSWORD]"
    using assms(1) by (simp add: SecretFormValues_def has_fields_cases del: has_fields.simps(2))
  have "get values SEC_SECRET_TYPE \<in> {Str PROV_AWS, Str PROV_GCP, Str PROV_AZURE, Str PROV_DIGITAL_OCEAN,
      Str PROV_HETZNER, Str AUTH_SSH, Str AUTH_PASSWORD}"
    using assms(2) by (simp add: secret_type_options_eq)
  with maybe show ?thesis
    unfolding request_secret_types
    by (elim insertE emptyE; simp add: getSecretBodyFromValues_def secret_body_def get_obj has_fields_cases
          del: has_fields.simps(2))
qed

theorem secret_body_typed_witness:
  "has_type RequestSecretValue (getSecretBodyFromValues
     (obj [P SEC_SECRET_TYPE (Str PROV_HETZNER), P SEC_SECRET_NAME (Str ''n''), P SEC_HCLOUD_API_TOKEN (Str ''x'')]))"
  by (rule secret_body_typed) code_simp+



end
