(* ===== verification/Yup.thy ===== *)
theory Yup
  imports Ui
begin

text \<open>
  Validation schemas. A schema of the yup library is data: the code builds it, and only yup reads
  it. What yup does with one is a parameter, \<open>accepts schema parent value\<close>: the value, as yup
  cast it, is valid below this parent object. The locale states what yup documents of each
  constructor; \<open>reads\<close> is an instance of it that can be evaluated.
\<close>

datatype schema =
    Mixed_s
  | String_s
  | Number_s
  | Boolean_s
  | Object_s "(string \<times> schema) list"
  | Array_s schema
  | Required_c schema js
  | Optional_c schema
  | Not_required_c schema
  | Type_error_c schema js
  | Test_c schema string "js \<Rightarrow> bool"
  | When_c schema "string list" "js list \<Rightarrow> schema"

definition requiredField :: "schema \<Rightarrow> schema" where
  "requiredField s = Required_c s (tr ''requiredField'' [P ''ns'' (Str ''validation'')])"

definition onlyNumbers :: "schema \<Rightarrow> schema" where
  "onlyNumbers s = Type_error_c s (tr ''onlyNumbers'' [P ''ns'' (Str ''validation'')])"

text \<open>\<open>a.concat(b)\<close> of object schemas with different fields.\<close>

fun concat_s :: "schema \<Rightarrow> schema \<Rightarrow> schema" where
  "concat_s (Object_s fs) (Object_s gs) = Object_s (fs @ gs)"
| "concat_s s t = t"

fun schema_fields :: "schema \<Rightarrow> string list" where
  "schema_fields (Object_s fs) = map fst fs"
| "schema_fields s = []"

primrec is_string_schema :: "schema \<Rightarrow> bool" where
  "is_string_schema Mixed_s = False"
| "is_string_schema String_s = True"
| "is_string_schema Number_s = False"
| "is_string_schema Boolean_s = False"
| "is_string_schema (Object_s fs) = False"
| "is_string_schema (Array_s s) = False"
| "is_string_schema (Required_c s m) = is_string_schema s"
| "is_string_schema (Optional_c s) = is_string_schema s"
| "is_string_schema (Not_required_c s) = is_string_schema s"
| "is_string_schema (Type_error_c s m) = is_string_schema s"
| "is_string_schema (Test_c s n f) = is_string_schema s"
| "is_string_schema (When_c s ks f) = is_string_schema s"

fun is_string_js :: "js \<Rightarrow> bool" where
  "is_string_js (Str s) = True"
| "is_string_js v = False"

fun is_number_js :: "js \<Rightarrow> bool" where
  "is_number_js (Num n) = True"
| "is_number_js (Frac s) = True"
| "is_number_js v = False"

fun is_record :: "js \<Rightarrow> bool" where
  "is_record (Obj ps) = True"
| "is_record v = False"

locale yup =
  fixes accepts :: "schema \<Rightarrow> js \<Rightarrow> js \<Rightarrow> bool"
  assumes accepts_string: "accepts String_s p v \<Longrightarrow> v = Undef \<or> is_string_js v"
    and accepts_object: "accepts (Object_s fs) p v \<Longrightarrow> is_record v"
    and accepts_field: "accepts (Object_s fs) p v \<Longrightarrow> (k, s) \<in> set fs \<Longrightarrow> accepts s v (get v k)"
    and accepts_array: "accepts (Array_s s) p v \<Longrightarrow> v = Undef \<or> (\<exists>xs. v = Arr xs)"
    and accepts_elem: "accepts (Array_s s) p (Arr xs) \<Longrightarrow> x \<in> set xs \<Longrightarrow> accepts s (Arr xs) x"
    and accepts_required: "accepts (Required_c s m) p v \<Longrightarrow> accepts s p v \<and> \<not> nullish v"
    and accepts_required_string:
      "accepts (Required_c s m) p v \<Longrightarrow> is_string_schema s \<Longrightarrow> v \<noteq> Str []"
    and accepts_optional: "accepts (Optional_c s) p v \<Longrightarrow> accepts s p v"
    and accepts_type_error: "accepts (Type_error_c s m) p v \<Longrightarrow> accepts s p v"
    and accepts_test: "accepts (Test_c s n f) p v \<Longrightarrow> accepts s p v \<and> f v"
    and accepts_when: "accepts (When_c s ks g) p v \<Longrightarrow> accepts (g (map (get p) ks)) p v"
begin

lemma required_string:
  "accepts (requiredField String_s) p v \<Longrightarrow> \<exists>s. v = Str s \<and> s \<noteq> []"
  using accepts_required [of String_s] accepts_required_string [of String_s] accepts_string
  unfolding requiredField_def by (cases v) fastforce+

lemma tested_required_string:
  "accepts (Test_c (requiredField String_s) n f) p v \<Longrightarrow> (\<exists>s. v = Str s \<and> s \<noteq> []) \<and> f v"
  using accepts_test required_string by blast

text \<open>Rows of a field array: an accepted array of objects has only objects.\<close>

lemma object_rows:
  assumes "accepts (Array_s (Object_s fs)) p v" "v \<noteq> Undef"
  shows "\<exists>xs. v = Arr xs \<and> (\<forall>x \<in> set xs. is_record x)"
  using accepts_array [OF assms(1)] assms accepts_elem accepts_object by blast

end

section \<open>An instance\<close>

primrec reads :: "schema \<Rightarrow> js \<Rightarrow> js \<Rightarrow> bool" where
  "reads Mixed_s = (\<lambda>p v. True)"
| "reads String_s = (\<lambda>p v. v = Undef \<or> is_string_js v)"
| "reads Number_s = (\<lambda>p v. v = Undef \<or> is_number_js v)"
| "reads Boolean_s = (\<lambda>p v. v = Undef \<or> v = Bool True \<or> v = Bool False)"
| "reads (Object_s fs) = (\<lambda>p v. is_record v \<and>
     list_all (\<lambda>(k, r). r v (get v k)) (map (map_prod id reads) fs))"
| "reads (Array_s s) = (\<lambda>p v. v = Undef \<or> (case v of Arr xs \<Rightarrow> list_all (reads s (Arr xs)) xs | _ \<Rightarrow> False))"
| "reads (Required_c s m) = (\<lambda>p v. reads s p v \<and> \<not> nullish v \<and> (is_string_schema s \<longrightarrow> v \<noteq> Str []))"
| "reads (Optional_c s) = reads s"
| "reads (Not_required_c s) = (\<lambda>p v. nullish v \<or> reads s p v)"
| "reads (Type_error_c s m) = reads s"
| "reads (Test_c s n f) = (\<lambda>p v. reads s p v \<and> f v)"
| "reads (When_c s ks f) = (\<lambda>p v. (\<lambda>r. r p v) ((reads \<circ> f) (map (get p) ks)))"

interpretation yup_reads: yup reads
proof unfold_locales
  show "reads s v (get v k)" if "reads (Object_s fs) p v" "(k, s) \<in> set fs" for fs p v k s
    using that by (fastforce simp: list_all_iff)
  show "v = Undef \<or> (\<exists>xs. v = Arr xs)" if "reads (Array_s s) p v" for s p v
    using that by (auto split: js.splits)
qed (auto simp: list_all_iff split: js.splits)

end
