(* ===== verification/Validation.thy ===== *)
theory Validation
  imports Yup ExtraVars
begin

text \<open>
  The validation schemas of the forms (every \<open>model/validation.ts\<close>). \<open>isV4\<close> is
  \<open>ipRegex.v4({exact: true}).test\<close>, \<open>expert\<close> is \<open>IS_EXPERT_MODE\<close>; translated
  messages are kept where the schema carries them.
\<close>

definition is_local :: "js \<Rightarrow> bool" where
  "is_local provider \<longleftrightarrow> get provider ''code'' = Str PROV_LOCAL"

definition not_required :: schema where
  "not_required = Not_required_c Mixed_s"

section \<open>Parameter texts and cluster names\<close>

definition cfg_char :: "char \<Rightarrow> bool" where
  "cfg_char c \<longleftrightarrow> \<not> is_separator c \<and> \<not> is_newline c"

definition cfg_line :: "char \<Rightarrow> rx" where
  "cfg_line sep = Seq (Plus (Class cfg_char)) (Seq (Class (\<lambda>c. c = sep)) (Plus (Class cfg_char)))"

definition cfg_text :: "char \<Rightarrow> rx" where
  "cfg_text sep = Sep_list is_newline (cfg_line sep)"

text \<open>A regular expression's \<open>test\<close> reads \<open>String(value)\<close>.\<close>

definition config_test :: "js \<Rightarrow> bool" where
  "config_test value \<longleftrightarrow>
     matches (cfg_text CHR '':'') (js_str value) \<or> matches (cfg_text CHR ''='') (js_str value) \<or> value = Str []"

definition configValidationSchema :: schema where
  "configValidationSchema = Test_c String_s ''should have correct format'' config_test"

definition name_head :: "char \<Rightarrow> bool" where
  "name_head c \<longleftrightarrow> c \<in> set ''abcdefghijklmnopqrstuvwxyz0123456789''"

definition name_char :: "char \<Rightarrow> bool" where
  "name_char c \<longleftrightarrow> name_head c \<or> c = CHR ''-''"

definition cluster_name_rx :: rx where
  "cluster_name_rx = Seq (Class name_head) (Upto 23 (Class name_char))"

text \<open>\<open>value.match(...)\<close>: a value without that method throws, which fails the test.\<close>

definition cluster_name_test :: "js \<Rightarrow> bool" where
  "cluster_name_test value = (case value of Str s \<Rightarrow> matches cluster_name_rx s | _ \<Rightarrow> False)"

section \<open>Blocks\<close>

definition DatabaseServersBlockSchema :: "(js \<Rightarrow> bool) \<Rightarrow> schema" where
  "DatabaseServersBlockSchema isV4 = Object_s
     [(DBS_DATABASE_SERVERS, When_c Mixed_s [CF_PROVIDER] (\<lambda>vs.
        if is_local (vs ! 0) then Array_s (Object_s
          [(DBS_DATABASE_HOSTNAME, requiredField String_s),
           (DBS_DATABASE_IP_ADDRESS, Test_c (requiredField String_s) ''should be a correct IP'' isV4),
           (DBS_DATABASE_LOCATION, String_s)])
        else not_required))]"

definition LoadBalancerBlockSchema :: "bool \<Rightarrow> (js \<Rightarrow> bool) \<Rightarrow> schema" where
  "LoadBalancerBlockSchema expert isV4 = Object_s
     [(LB_IS_HAPROXY_ENABLED, Boolean_s),
      (LB_IS_DEPLOY_TO_DATABASE_SERVERS, Optional_c Boolean_s),
      (LB_LOAD_BALANCER_DATABASES,
        When_c Mixed_s [CF_PROVIDER, LB_IS_HAPROXY_ENABLED, LB_IS_DEPLOY_TO_DATABASE_SERVERS] (\<lambda>vs.
          if expert \<and> is_local (vs ! 0) \<and> truthy (vs ! 1) \<and> \<not> truthy (vs ! 2) then Array_s (Object_s
            [(LB_LOAD_BALANCER_DATABASES_HOSTNAME, requiredField String_s),
             (LB_LOAD_BALANCER_DATABASES_IP_ADDRESS, Test_c (requiredField String_s) ''should be a correct IP'' isV4)])
          else not_required))]"

definition port_schema :: "bool \<Rightarrow> schema" where
  "port_schema required =
     (if required
      then Test_c (requiredField String_s) ''should be only numbers'' (\<lambda>value. js_number value \<noteq> NaN)
      else Optional_c String_s)"

definition DcsBlockSchema :: "bool \<Rightarrow> (js \<Rightarrow> bool) \<Rightarrow> schema" where
  "DcsBlockSchema expert isV4 = Object_s
     [(DCS_TYPE, String_s),
      (DCS_IS_DEPLOY_NEW_CLUSTER, Boolean_s),
      (DCS_IS_DEPLOY_TO_DB_SERVERS, Boolean_s),
      (DCS_DCS_DATABASES,
        When_c Mixed_s [CF_PROVIDER, DCS_IS_DEPLOY_NEW_CLUSTER, DCS_IS_DEPLOY_TO_DB_SERVERS, DCS_TYPE] (\<lambda>vs.
          if expert \<and> is_local (vs ! 0) \<and> (\<not> truthy (vs ! 1) \<or> \<not> truthy (vs ! 2)) then Array_s (Object_s
            [(DCS_DCS_DATABASE_IP_ADDRESS, Test_c (requiredField String_s) ''should be a correct IP'' isV4),
             (DCS_DCS_DATABASE_PORT, port_schema (\<not> truthy (vs ! 1) \<and> vs ! 3 = Str DCST_ETCD)),
             (DCS_DCS_DATABASE_HOSTNAME,
               if truthy (vs ! 1) \<and> \<not> truthy (vs ! 2) then requiredField String_s else Optional_c String_s)])
          else not_required))]"

definition backupKeysSchema :: schema where
  "backupKeysSchema = When_c Mixed_s [CF_PROVIDER, BK_IS_BACKUPS_ENABLED] (\<lambda>vs.
     if one_of [PROV_DIGITAL_OCEAN, PROV_HETZNER] (get (vs ! 0) ''code'') \<and> truthy (vs ! 1)
     then requiredField String_s else Optional_c Mixed_s)"

definition BackupsBlockFormSchema :: schema where
  "BackupsBlockFormSchema = Object_s
     [(BK_IS_BACKUPS_ENABLED, Boolean_s),
      (BK_CONFIG, When_c Mixed_s [CF_PROVIDER, BK_IS_BACKUPS_ENABLED] (\<lambda>vs.
        if is_local (vs ! 0) \<and> truthy (vs ! 1) then requiredField configValidationSchema
        else Optional_c configValidationSchema)),
      (BK_BACKUP_START_TIME, String_s),
      (BK_BACKUP_RETENTION, onlyNumbers Number_s),
      (BK_ACCESS_KEY, backupKeysSchema),
      (BK_SECRET_KEY, backupKeysSchema)]"

definition DatabasesBlockSchema :: schema where
  "DatabasesBlockSchema = Object_s
     [(DB_DATABASES, Array_s (Object_s
        [(DB_DATABASE_NAME, String_s), (DB_USER_NAME, String_s), (DB_USER_PASSWORD, String_s),
         (DB_ENCODING, String_s), (DB_LOCALE, String_s), (DB_BLOCK_ID, String_s)]))]"

definition ConnectionPoolsBlockSchema :: schema where
  "ConnectionPoolsBlockSchema = Object_s
     [(POOL_IS_CONNECTION_POOLER_ENABLED, Boolean_s),
      (POOL_POOLS, Array_s (Object_s
        [(POOL_POOL_NAME, String_s), (POOL_POOL_SIZE, onlyNumbers Number_s), (POOL_POOL_MODE, String_s)]))]"

definition PostgresParametersBlockFormSchema :: schema where
  "PostgresParametersBlockFormSchema =
     Object_s [(PG_POSTGRES_PARAMETERS, Optional_c configValidationSchema)]"

definition KernelParametersBlockFormSchema :: schema where
  "KernelParametersBlockFormSchema =
     Object_s [(KRN_KERNEL_PARAMETERS, Optional_c configValidationSchema)]"

definition AdditionalSettingsBlockFormSchema :: schema where
  "AdditionalSettingsBlockFormSchema = Object_s
     [(ADS_SYNC_STANDBY_NODES, onlyNumbers Number_s),
      (ADS_IS_SYNC_MODE_STRICT, Boolean_s),
      (ADS_IS_DB_PUBLIC_ACCESS, Boolean_s),
      (ADS_IS_CLOUD_LOAD_BALANCER, Boolean_s),
      (ADS_IS_NETDATA_MONITORING, Boolean_s)]"

definition NetworkBlockFormSchema :: schema where
  "NetworkBlockFormSchema = Object_s [(NET_SERVER_NETWORK, String_s)]"

section \<open>The cluster form\<close>

text \<open>\<open>mixed().when(PROVIDER, provider?.code !== LOCAL ? s : schema.notRequired())\<close>\<close>

definition cloud_only :: "schema \<Rightarrow> schema" where
  "cloud_only s = When_c Mixed_s [CF_PROVIDER] (\<lambda>vs. if \<not> is_local (vs ! 0) then s else not_required)"

definition plain_required :: "schema \<Rightarrow> schema" where
  "plain_required s = Required_c s Undef"

definition CloudFormSchema :: schema where
  "CloudFormSchema = Object_s
     [(CF_REGION, cloud_only (plain_required String_s)),
      (CF_REGION_CONFIG, cloud_only (plain_required
        (Object_s [(''code'', String_s), (''location'', String_s)]))),
      (INST_INSTANCE_TYPE, cloud_only (plain_required String_s)),
      (CF_INSTANCE_CONFIG, cloud_only (plain_required (Object_s
        [(''code'', String_s), (''cpu'', Number_s), (''shared_cpu'', Boolean_s), (''currency'', String_s),
         (''price_hourly'', Number_s), (''price_monthly'', Number_s), (''ram'', Number_s)]))),
      (CF_INSTANCES_AMOUNT, cloud_only (plain_required Number_s)),
      (STO_STORAGE_AMOUNT, cloud_only (plain_required Number_s)),
      (SSH_SSH_PUBLIC_KEY, cloud_only (requiredField String_s))]"

definition credential_schema :: "string \<Rightarrow> schema" where
  "credential_schema auth = When_c Mixed_s [CF_PROVIDER, CF_AUTHENTICATION_METHOD] (\<lambda>vs.
     if is_local (vs ! 0) \<and> vs ! 1 = Str auth
     then When_c Mixed_s [CF_IS_USE_DEFINED_SECRET] (\<lambda>us.
            if \<not> truthy (us ! 0) then requiredField String_s else not_required)
     else not_required)"

definition LocalFormSchema :: "bool \<Rightarrow> (js \<Rightarrow> bool) \<Rightarrow> schema" where
  "LocalFormSchema expert isV4 =
     concat_s (concat_s (concat_s (Object_s
       [(CF_AUTHENTICATION_METHOD, When_c Mixed_s [CF_PROVIDER] (\<lambda>vs.
          if is_local (vs ! 0) then plain_required String_s else not_required)),
        (SEC_SSH_PRIVATE_KEY, credential_schema AUTH_SSH),
        (SEC_USERNAME, credential_schema AUTH_PASSWORD),
        (SEC_PASSWORD, credential_schema AUTH_PASSWORD),
        (CF_AUTHENTICATION_IS_SAVE_TO_CONSOLE, When_c Mixed_s [CF_PROVIDER, CF_IS_USE_DEFINED_SECRET] (\<lambda>vs.
          if is_local (vs ! 0) \<and> \<not> truthy (vs ! 1) then Boolean_s else not_required)),
        (CF_SECRET_KEY_NAME, When_c Mixed_s [CF_PROVIDER, CF_AUTHENTICATION_IS_SAVE_TO_CONSOLE] (\<lambda>vs.
          if is_local (vs ! 0) \<and> truthy (vs ! 1) then requiredField String_s else not_required)),
        (CF_CLUSTER_VIP_ADDRESS, When_c Mixed_s [CF_PROVIDER] (\<lambda>vs.
          if is_local (vs ! 0)
          then Test_c String_s ''should be a correct VIP address'' (\<lambda>value. \<not> truthy value \<or> isV4 value)
          else not_required)),
        (CF_IS_USE_DEFINED_SECRET, When_c Mixed_s [CF_PROVIDER] (\<lambda>vs.
          if is_local (vs ! 0) then Optional_c Boolean_s else not_required)),
        (CF_SECRET_ID, When_c Mixed_s [CF_PROVIDER, CF_IS_USE_DEFINED_SECRET] (\<lambda>vs.
          if is_local (vs ! 0) \<and> truthy (vs ! 1) then requiredField String_s else not_required))])
       (DatabaseServersBlockSchema isV4))
       (LoadBalancerBlockSchema expert isV4))
       (DcsBlockSchema expert isV4)"

definition ClusterFormSchema :: "bool \<Rightarrow> (js \<Rightarrow> bool) \<Rightarrow> schema" where
  "ClusterFormSchema expert isV4 =
     (let defaultSchema = concat_s (concat_s (Object_s
            [(CF_PROVIDER, plain_required (Object_s [])),
             (CF_ENVIRONMENT_ID, Number_s),
             (CF_CLUSTER_NAME,
               requiredField (Test_c String_s ''clusters should have proper naming'' cluster_name_test)),
             (CF_DESCRIPTION, String_s),
             (CF_POSTGRES_VERSION, requiredField Number_s)])
            CloudFormSchema)
            (LocalFormSchema expert isV4)
      in if expert
         then concat_s (concat_s (concat_s (concat_s (concat_s (concat_s defaultSchema
                DatabasesBlockSchema) ConnectionPoolsBlockSchema) BackupsBlockFormSchema)
                PostgresParametersBlockFormSchema) KernelParametersBlockFormSchema)
                AdditionalSettingsBlockFormSchema
         else defaultSchema)"

section \<open>Secrets, projects, environments and the editor\<close>

definition secretRequiredField :: "string \<Rightarrow> schema" where
  "secretRequiredField valueToBeRequired = When_c Mixed_s [SEC_SECRET_TYPE] (\<lambda>vs.
     if vs ! 0 = Str valueToBeRequired then requiredField String_s else Optional_c Mixed_s)"

definition AddSecretFormSchema :: schema where
  "AddSecretFormSchema = Object_s
     [(SEC_SECRET_TYPE, plain_required String_s),
      (SEC_SECRET_NAME, requiredField String_s),
      (SEC_AWS_ACCESS_KEY_ID, secretRequiredField PROV_AWS),
      (SEC_AWS_SECRET_ACCESS_KEY, secretRequiredField PROV_AWS),
      (SEC_GCP_SERVICE_ACCOUNT_CONTENTS, secretRequiredField PROV_GCP),
      (SEC_AZURE_SUBSCRIPTION_ID, secretRequiredField PROV_AZURE),
      (SEC_AZURE_CLIENT_ID, secretRequiredField PROV_AZURE),
      (SEC_AZURE_SECRET, secretRequiredField PROV_AZURE),
      (SEC_AZURE_TENANT, secretRequiredField PROV_AZURE),
      (SEC_DO_API_TOKEN, secretRequiredField PROV_DIGITAL_OCEAN),
      (SEC_HCLOUD_API_TOKEN, secretRequiredField PROV_HETZNER),
      (SEC_SSH_PRIVATE_KEY, secretRequiredField ''ssh_key''),
      (SEC_USERNAME, secretRequiredField ''password''),
      (SEC_PASSWORD, secretRequiredField ''password'')]"

definition AddEntityFormSchema :: schema where
  "AddEntityFormSchema = Object_s [(AE_NAME, requiredField String_s), (AE_DESCRIPTION, String_s)]"

definition AddProjectFormSchema :: schema where
  "AddProjectFormSchema = Object_s [(''name'', requiredField String_s), (''description'', String_s)]"

text \<open>\<open>parse\<close> is \<open>YAML.parse\<close>, which may throw.\<close>

definition yaml_test :: "(js \<Rightarrow> js res) \<Rightarrow> js \<Rightarrow> bool" where
  "yaml_test parse value =
     (if has_length value then (case parse value of Ok _ \<Rightarrow> True | Throw _ \<Rightarrow> False) else False)"

definition yamlFormSchema :: "(js \<Rightarrow> js res) \<Rightarrow> schema" where
  "yamlFormSchema parse = Object_s
     [(''yamlEditor'', When_c String_s [CF_CREATION_TYPE] (\<lambda>vs.
        if vs ! 0 \<noteq> Str ''yaml'' then Test_c String_s ''shouldBeCorrectYaml'' (yaml_test parse)
        else Not_required_c String_s))]"

end
