(* ===== verification/ValidationFacts.thy ===== *)
theory ValidationFacts
  imports Validation TransformFacts Secrets
begin

text \<open>
  What an accepted form guarantees to the code that reads it: names and parameter texts have the
  shape their readers need, the secret's fields are filled in, and the inventory of a local cluster
  can be built.
\<close>

section \<open>Names and parameter texts\<close>

text \<open>
  A cluster name is accepted exactly when it has 1 to 24 lower-case letters, digits and dashes
  and does not start with a dash.
\<close>

theorem cluster_name_accepted_iff:
  "cluster_name_test (Str s) \<longleftrightarrow>
     s \<noteq> [] \<and> length s \<le> 24 \<and> list_all name_char s \<and> hd s \<noteq> CHR ''-''"
proof (cases s)
  case Nil
  then show ?thesis
    by (simp add: cluster_name_test_def matches_iff cluster_name_rx_def)
next
  case (Cons c cs)
  have "\<not> name_head CHR ''-''" by (simp add: name_head_def)
  then have "name_head c \<longleftrightarrow> name_char c \<and> c \<noteq> CHR ''-''" by (auto simp: name_char_def)
  then show ?thesis
    by (auto simp: Cons cluster_name_test_def matches_iff cluster_name_rx_def lang_Upto_Class list_all_iff)
qed

lemma lang_cfg_line:
  "w \<in> lang (cfg_line sep) \<longleftrightarrow> (\<exists>p v. w = p @ sep # v \<and> p \<noteq> [] \<and> v \<noteq> [] \<and> plain p \<and> plain v)"
proof -
  have pc: "x \<in> lang (Plus (Class cfg_char)) \<longleftrightarrow> x \<noteq> [] \<and> plain x" for x
    by (auto simp: lang_Plus_Class plain_def cfg_char_def)
  show ?thesis
    unfolding cfg_line_def by (subst lang_Seq_iff) (auto simp: pc)
qed

lemma lang_cfg_text:
  assumes "sep = CHR '':'' \<or> sep = CHR ''=''"
  shows "s \<in> lang (cfg_text sep) \<longleftrightarrow> (\<forall>w \<in> set (split_on is_newline s). w \<in> lang (cfg_line sep))"
  unfolding cfg_text_def
proof (rule lang_Sep_list)
  show "\<not> is_newline c" if w: "w \<in> lang (cfg_line sep)" "c \<in> set w" for w c
  proof -
    obtain p v where pv: "w = p @ sep # v" "plain p" "plain v"
      using w(1) unfolding lang_cfg_line by blast
    have "\<not> is_newline sep" using assms by (auto simp: is_newline_def)
    then show ?thesis using pv w(2) by (auto simp: plain_def)
  qed
qed

text \<open>
  A parameter text the dialogs accept is converted without an exception and without loss:
  every line is one option and one value around a single separator, both non-empty, and the result
  holds them in order.
\<close>

theorem accepted_config_converts:
  assumes "config_test (Str s)" "s \<noteq> []"
  shows "\<exists>sep ps. split_on is_newline s = map (\<lambda>(p, v). p @ sep # v) ps
     \<and> list_all (\<lambda>(p, v). p \<noteq> [] \<and> v \<noteq> [] \<and> plain p \<and> plain v) ps
     \<and> convertModalParametersToArray (Str s) = Ok (Arr (map parameter_entry ps))"
proof -
  obtain sep where sep: "sep = CHR '':'' \<or> sep = CHR ''=''" "s \<in> lang (cfg_text sep)"
    using assms by (auto simp: config_test_def matches_iff)
  then have "\<forall>w \<in> set (split_on is_newline s). \<exists>q. w = fst q @ sep # snd q
      \<and> fst q \<noteq> [] \<and> snd q \<noteq> [] \<and> plain (fst q) \<and> plain (snd q)"
    using lang_cfg_text [OF sep(1)] by (force simp: lang_cfg_line)
  then obtain f where f: "\<forall>w \<in> set (split_on is_newline s). w = fst (f w) @ sep # snd (f w)
      \<and> fst (f w) \<noteq> [] \<and> snd (f w) \<noteq> [] \<and> plain (fst (f w)) \<and> plain (snd (f w))"
    by metis
  let ?ps = "map f (split_on is_newline s)"
  have lines: "split_on is_newline s = map (\<lambda>(p, v). p @ sep # v) ?ps"
    using f by (simp add: split_beta map_idI [symmetric] cong: map_cong)
  have good: "list_all (\<lambda>(p, v). p \<noteq> [] \<and> v \<noteq> [] \<and> plain p \<and> plain v) ?ps"
    using f by (auto simp: list_all_iff split_beta)
  have "convert_line w = Ok (parameter_entry (f w))" if "w \<in> set (split_on is_newline s)" for w
  proof -
    have fw: "w = fst (f w) @ sep # snd (f w)" "plain (fst (f w))" "plain (snd (f w))"
      using bspec [OF f that] by blast+
    have "is_separator sep" using sep(1) by (auto simp: is_separator_def)
    then have "convert_line (fst (f w) @ sep # snd (f w)) = Ok (parameter_entry (f w))"
      using fw(2,3) by (simp add: convert_line_parts plain_def parameter_entry_def split_beta)
    then show ?thesis using fw(1) by simp
  qed
  then have "map_all convert_line (split_on is_newline s) = Ok (map parameter_entry ?ps)"
    using map_all_Ok [of "split_on is_newline s" convert_line "\<lambda>w. parameter_entry (f w)"] by simp
  then have "convertModalParametersToArray (Str s) = Ok (Arr (map parameter_entry ?ps))"
    using assms(2) by (simp add: convertModalParametersToArray_def)
  with lines good show ?thesis by blast
qed

theorem accepted_config_converts_witness:
  "\<exists>sep ps. split_on is_newline ''max_connections=100'' = map (\<lambda>(p, v). p @ sep # v) ps
     \<and> convertModalParametersToArray (Str ''max_connections=100'') = Ok (Arr (map parameter_entry ps))"
proof -
  have "config_test (Str ''max_connections=100'')" by code_simp
  then have "\<exists>sep ps. split_on is_newline ''max_connections=100'' = map (\<lambda>(p, v). p @ sep # v) ps
     \<and> list_all (\<lambda>(p, v). p \<noteq> [] \<and> v \<noteq> [] \<and> plain p \<and> plain v) ps
     \<and> convertModalParametersToArray (Str ''max_connections=100'') = Ok (Arr (map parameter_entry ps))"
    by (rule accepted_config_converts) simp
  then show ?thesis by blast
qed

section \<open>Forms\<close>

lemma is_record_not_nullish: "is_record v \<Longrightarrow> \<not> nullish v"
  by (cases v) auto

lemma rows_ok_of_schema:
  assumes "yup accepts" "accepts (Array_s (Object_s fs)) p v" "v \<noteq> Undef"
  shows "rows_ok v"
  using yup.object_rows [OF assms] by (auto simp: rows_ok_def list_all_iff is_record_not_nullish)

fun field_list :: "schema \<Rightarrow> (string \<times> schema) list" where
  "field_list (Object_s fs) = fs"
| "field_list s = []"

definition filled :: "js \<Rightarrow> bool" where
  "filled v \<longleftrightarrow> (case v of Str s \<Rightarrow> s \<noteq> [] | _ \<Rightarrow> False)"

lemma accepted_secret_field:
  assumes "yup accepts" "accepts AddSecretFormSchema p values" "get values SEC_SECRET_TYPE = Str type"
    and "(f, secretRequiredField type) \<in> set (field_list AddSecretFormSchema)"
  shows "filled (get values f)"
proof -
  have "accepts (secretRequiredField type) values (get values f)"
    using yup.accepts_field [OF assms(1)] assms(2,4) by (auto simp: AddSecretFormSchema_def)
  from yup.accepts_when [OF assms(1) this [unfolded secretRequiredField_def]]
  have "accepts (requiredField String_s) values (get values f)"
    using assms(3) by simp
  from yup.required_string [OF assms(1) this] show ?thesis by (auto simp: filled_def)
qed

text \<open>
  Every field the request for a secret sends is a non-empty text once the dialog's validation
  has accepted the form.
\<close>

theorem accepted_secret_is_complete:
  assumes "yup accepts" "accepts AddSecretFormSchema p values"
    and "get values SEC_SECRET_TYPE = Str type" "type \<in> set secret_type_options"
  shows "list_all (\<lambda>f. filled (get values f)) (secret_fields type)"
proof -
  note field = accepted_secret_field [OF assms(1-3)]
  have "type \<in> {PROV_AWS, PROV_GCP, PROV_AZURE, PROV_DIGITAL_OCEAN, PROV_HETZNER, AUTH_SSH, AUTH_PASSWORD}"
    using assms(4) by (simp add: secret_type_options_eq)
  then have "list_all (\<lambda>f. (f, secretRequiredField type) \<in> set (field_list AddSecretFormSchema)) (secret_fields type)"
    by (elim insertE emptyE) (simp_all add: secret_fields_of AddSecretFormSchema_def)
  then show ?thesis using field by (simp add: list_all_iff)
qed

definition hetzner_secret :: js where
  "hetzner_secret = obj
     [P SEC_SECRET_TYPE (Str PROV_HETZNER), P SEC_SECRET_NAME (Str ''n''), P SEC_HCLOUD_API_TOKEN (Str ''x'')]"

theorem accepted_secret_is_complete_witness:
  "reads AddSecretFormSchema Undef hetzner_secret
   \<and> list_all (\<lambda>f. filled (get hetzner_secret f)) (secret_fields PROV_HETZNER)"
proof -
  have a: "reads AddSecretFormSchema Undef hetzner_secret" by code_simp
  have "get hetzner_secret SEC_SECRET_TYPE = Str PROV_HETZNER" "PROV_HETZNER \<in> set secret_type_options"
    by code_simp+
  from accepted_secret_is_complete [OF yup_reads.yup_axioms a this] a show ?thesis by simp
qed

text \<open>The blocks of the cluster form are fields of one object schema, under different names.\<close>

lemma cluster_schema_object:
  "ClusterFormSchema expert isV4 = Object_s (field_list (ClusterFormSchema expert isV4))"
  by (simp add: ClusterFormSchema_def LocalFormSchema_def CloudFormSchema_def DatabaseServersBlockSchema_def
      LoadBalancerBlockSchema_def DcsBlockSchema_def DatabasesBlockSchema_def ConnectionPoolsBlockSchema_def
      BackupsBlockFormSchema_def PostgresParametersBlockFormSchema_def KernelParametersBlockFormSchema_def
      AdditionalSettingsBlockFormSchema_def Let_def)

lemma cluster_schema_fields:
  "set (field_list (DatabaseServersBlockSchema isV4)) \<subseteq> set (field_list (ClusterFormSchema expert isV4))"
  "set (field_list (LoadBalancerBlockSchema expert isV4)) \<subseteq> set (field_list (ClusterFormSchema expert isV4))"
  "set (field_list (DcsBlockSchema expert isV4)) \<subseteq> set (field_list (ClusterFormSchema expert isV4))"
  "expert \<Longrightarrow> set (field_list PostgresParametersBlockFormSchema) \<subseteq> set (field_list (ClusterFormSchema expert isV4))"
  "expert \<Longrightarrow> set (field_list KernelParametersBlockFormSchema) \<subseteq> set (field_list (ClusterFormSchema expert isV4))"
  by (auto simp: ClusterFormSchema_def LocalFormSchema_def CloudFormSchema_def DatabaseServersBlockSchema_def
      LoadBalancerBlockSchema_def DcsBlockSchema_def DatabasesBlockSchema_def ConnectionPoolsBlockSchema_def
      BackupsBlockFormSchema_def PostgresParametersBlockFormSchema_def KernelParametersBlockFormSchema_def
      AdditionalSettingsBlockFormSchema_def Let_def)

lemma accepted_block_field:
  assumes "yup accepts" "accepts (ClusterFormSchema expert isV4) p values"
    and "(k, s) \<in> set (field_list block)"
    and "set (field_list block) \<subseteq> set (field_list (ClusterFormSchema expert isV4))"
  shows "accepts s values (get values k)"
  using yup.accepts_field [OF assms(1)] assms(2-4) cluster_schema_object [of expert isV4] by (metis subsetD)

lemma accepted_rows:
  assumes "yup accepts" "accepts (ClusterFormSchema expert isV4) p values" "is_local (get values CF_PROVIDER)"
  shows "get values DBS_DATABASE_SERVERS \<noteq> Undef \<Longrightarrow> rows_ok (get values DBS_DATABASE_SERVERS)"
    and "expert \<Longrightarrow> truthy (get values LB_IS_HAPROXY_ENABLED) \<Longrightarrow>
      \<not> truthy (get values LB_IS_DEPLOY_TO_DATABASE_SERVERS) \<Longrightarrow>
      get values LB_LOAD_BALANCER_DATABASES \<noteq> Undef \<Longrightarrow> rows_ok (get values LB_LOAD_BALANCER_DATABASES)"
    and "expert \<Longrightarrow> \<not> truthy (get values DCS_IS_DEPLOY_TO_DB_SERVERS) \<Longrightarrow>
      get values DCS_DCS_DATABASES \<noteq> Undef \<Longrightarrow> rows_ok (get values DCS_DCS_DATABASES)"
proof -
  note f = accepted_block_field [OF assms(1,2)]
  note w = yup.accepts_when [OF assms(1)]
  show "rows_ok (get values DBS_DATABASE_SERVERS)" if "get values DBS_DATABASE_SERVERS \<noteq> Undef"
    using f [of _ _ "DatabaseServersBlockSchema isV4", OF _ cluster_schema_fields(1)] assms(3) that
    by (fastforce simp: DatabaseServersBlockSchema_def dest: w rows_ok_of_schema [OF assms(1)])
  show "rows_ok (get values LB_LOAD_BALANCER_DATABASES)"
    if "expert" "truthy (get values LB_IS_HAPROXY_ENABLED)"
      "\<not> truthy (get values LB_IS_DEPLOY_TO_DATABASE_SERVERS)" "get values LB_LOAD_BALANCER_DATABASES \<noteq> Undef"
    using f [of LB_LOAD_BALANCER_DATABASES _ "LoadBalancerBlockSchema expert isV4", OF _ cluster_schema_fields(2)]
      assms(3) that
    by (fastforce simp: LoadBalancerBlockSchema_def dest: w rows_ok_of_schema [OF assms(1)])
  show "rows_ok (get values DCS_DCS_DATABASES)"
    if "expert" "\<not> truthy (get values DCS_IS_DEPLOY_TO_DB_SERVERS)" "get values DCS_DCS_DATABASES \<noteq> Undef"
    using f [of DCS_DCS_DATABASES _ "DcsBlockSchema expert isV4", OF _ cluster_schema_fields(3)]
      assms(3) that
    by (fastforce simp: DcsBlockSchema_def dest: w rows_ok_of_schema [OF assms(1)])
qed

text \<open>
  C9: the environment of an accepted form for the user's own machines is built without an
  exception, when the form has a database server and its row fields are filled (the defaults are
  arrays).
\<close>

theorem accepted_form_builds_inventory:
  assumes "yup accepts" "accepts (ClusterFormSchema expert isV4) p values"
    and "is_local (get values CF_PROVIDER)" "has_length (get values DBS_DATABASE_SERVERS)"
    and "get values DCS_DCS_DATABASES \<noteq> Undef" "get values LB_LOAD_BALANCER_DATABASES \<noteq> Undef"
  shows "\<exists>envs. getLocalMachineEnvs expert values secretId = Ok envs"
proof -
  note rows = accepted_rows [OF assms(1-3)]
  have "get values DBS_DATABASE_SERVERS \<noteq> Undef" using assms(4) by auto
  then have "inventory_rows_ok expert values"
    using rows assms(4-6) by (simp add: inventory_rows_ok_def)
  then show ?thesis by (rule local_envs_Ok)
qed

definition accepted_local_form :: js where
  "accepted_local_form = obj
     [P CF_PROVIDER (obj [P ''code'' (Str PROV_LOCAL)]), P CF_CLUSTER_NAME (Str ''pg-1''),
      P CF_POSTGRES_VERSION (Num 16), P CF_AUTHENTICATION_METHOD (Str AUTH_PASSWORD),
      P SEC_USERNAME (Str ''root''), P SEC_PASSWORD (Str ''pw''),
      P DCS_DCS_DATABASES (Arr []), P LB_LOAD_BALANCER_DATABASES (Arr []),
      P DBS_DATABASE_SERVERS (Arr
        [obj [P DBS_DATABASE_HOSTNAME (Str ''db1''), P DBS_DATABASE_IP_ADDRESS (Str ''10.0.0.1'')]])]"

theorem accepted_form_builds_inventory_witness:
  "reads (ClusterFormSchema False (\<lambda>v. v = Str ''10.0.0.1'')) Undef accepted_local_form
   \<and> (\<exists>envs. getLocalMachineEnvs False accepted_local_form Undef = Ok envs)"
proof -
  have a: "reads (ClusterFormSchema False (\<lambda>v. v = Str ''10.0.0.1'')) Undef accepted_local_form" by code_simp
  have b: "is_local (get accepted_local_form CF_PROVIDER)"
    "has_length (get accepted_local_form DBS_DATABASE_SERVERS)"
    "get accepted_local_form DCS_DCS_DATABASES \<noteq> Undef"
    "get accepted_local_form LB_LOAD_BALANCER_DATABASES \<noteq> Undef" by code_simp+
  from accepted_form_builds_inventory [OF yup_reads.yup_axioms a b] a show ?thesis by blast
qed

end
