(* ===== verification/AppState.thy ===== *)
theory AppState
  imports Ui FormFields
begin

text \<open>
  The state the whole console shares: the browser's local storage, the redux slices of the theme and
  the project, the two module variables of \<open>shared/model/constants.ts\<close>, and the handlers that
  change them (login, logout, theme toggle, header, settings form). The environment is a parameter:
  \<open>media\<close> is what \<open>window.matchMedia('(prefers-color-scheme: dark)')\<close> does
  (\<open>None\<close> where the browser has none, \<open>Some\<close> its answer or exception).
\<close>

section \<open>Local storage\<close>

type_synonym storage = "(string \<times> string) list"

definition setItem :: "storage \<Rightarrow> string \<Rightarrow> string \<Rightarrow> storage" where
  "setItem st k v = AList.update k v st"

definition removeItem :: "storage \<Rightarrow> string \<Rightarrow> storage" where
  "removeItem st k = AList.delete k st"

definition look_item :: "storage \<Rightarrow> string \<Rightarrow> string option" where
  "look_item st k = map_of st k"

definition getItem :: "storage \<Rightarrow> string \<Rightarrow> js" where
  "getItem st k = (case look_item st k of Some v \<Rightarrow> Str v | None \<Rightarrow> Null)"

interpretation local_storage: keyed_store "[]" setItem look_item "\<lambda>_. True"
  by unfold_locales (simp_all add: setItem_def look_item_def map_of_update)

lemma getItem_setItem [simp]: "getItem (setItem st k v) k' = (if k = k' then Str v else getItem st k')"
  by (simp add: getItem_def local_storage.look_put)

lemma getItem_removeItem [simp]: "getItem (removeItem st k) k' = (if k = k' then Null else getItem st k')"
  by (simp add: getItem_def removeItem_def look_item_def delete_conv')

text \<open>\<open>localStorage.getItem(k)?.toString() === 'true'\<close>\<close>

definition flag_item :: "storage \<Rightarrow> string \<Rightarrow> bool" where
  "flag_item st k \<longleftrightarrow> getItem st k = Str ''true''"

section \<open>Theme\<close>

datatype ThemeMode = Light | Dark | System

instantiation ThemeMode :: enum
begin

definition enum_mode: "enum_class.enum = [Light, Dark, System]"

definition enum_all_mode: "enum_class.enum_all Q \<longleftrightarrow> Q Light \<and> Q Dark \<and> Q System"

definition enum_ex_mode: "enum_class.enum_ex Q \<longleftrightarrow> Q Light \<or> Q Dark \<or> Q System"

instance
proof
  show "(UNIV :: ThemeMode set) = set enum_class.enum"
  proof
    show "UNIV \<subseteq> set (enum_class.enum :: ThemeMode list)"
    proof
      fix x :: ThemeMode
      show "x \<in> set (enum_class.enum :: ThemeMode list)" by (cases x) (simp_all add: enum_mode)
    qed
  qed simp
  show "distinct (enum_class.enum :: ThemeMode list)" by (simp add: enum_mode)
  show "enum_class.enum_all Q \<longleftrightarrow> Ball UNIV Q" for Q :: "ThemeMode \<Rightarrow> bool"
    unfolding enum_all_mode by (metis UNIV_I ThemeMode.exhaust)
  show "enum_class.enum_ex Q \<longleftrightarrow> Bex UNIV Q" for Q :: "ThemeMode \<Rightarrow> bool"
    unfolding enum_ex_mode by (metis UNIV_I ThemeMode.exhaust)
qed

end

fun mode_str :: "ThemeMode \<Rightarrow> string" where
  "mode_str Light = ''light''"
| "mode_str Dark = ''dark''"
| "mode_str System = ''system''"

type_synonym media = "bool res option"

definition getSystemTheme :: "media \<Rightarrow> ThemeMode" where
  "getSystemTheme media =
     (case media of Some (Ok dark) \<Rightarrow> if dark then Dark else Light | _ \<Rightarrow> Light)"

definition resolveActualTheme :: "media \<Rightarrow> ThemeMode \<Rightarrow> ThemeMode" where
  "resolveActualTheme media mode = (if mode = System then getSystemTheme media else mode)"

definition getInitialMode :: "storage \<Rightarrow> ThemeMode" where
  "getInitialMode st =
     (let savedMode = getItem st ''themeMode''
      in if savedMode = Str ''light'' then Light
         else if savedMode = Str ''dark'' then Dark else System)"

definition getNextMode :: "ThemeMode \<Rightarrow> ThemeMode" where
  "getNextMode mode = (case mode of Light \<Rightarrow> Dark | Dark \<Rightarrow> System | System \<Rightarrow> Light)"

section \<open>The state\<close>

record app_state = world +
  store :: storage
  theme_mode :: ThemeMode
  actual_theme :: ThemeMode
  current_project :: js
  is_expert_mode :: bool
  is_yaml_enabled :: bool

text \<open>The initial values of the slices and of the module variables, from what is stored.\<close>

definition initial_app :: "storage \<Rightarrow> media \<Rightarrow> app_state" where
  "initial_app st media =
     \<lparr>trace = [], store = st, theme_mode = getInitialMode st,
      actual_theme = resolveActualTheme media (getInitialMode st),
      current_project = coalesce (getItem st ''currentProject'') (Str []),
      is_expert_mode = flag_item st LS_IS_EXPERT_MODE,
      is_yaml_enabled = flag_item st LS_IS_YAML_ENABLED\<rparr>"

definition setThemeMode :: "media \<Rightarrow> ThemeMode \<Rightarrow> app_state \<Rightarrow> app_state" where
  "setThemeMode media payload s = s\<lparr>theme_mode := payload,
     actual_theme := resolveActualTheme media payload,
     store := setItem (store s) ''themeMode'' (mode_str payload)\<rparr>"

definition updateSystemTheme :: "media \<Rightarrow> app_state \<Rightarrow> app_state" where
  "updateSystemTheme media s =
     (if theme_mode s = System then s\<lparr>actual_theme := getSystemTheme media\<rparr> else s)"

definition handleToggle :: "media \<Rightarrow> app_state \<Rightarrow> app_state" where
  "handleToggle media s = setThemeMode media (getNextMode (theme_mode s)) s"

definition setProject :: "js \<Rightarrow> app_state \<Rightarrow> app_state" where
  "setProject payload s = s\<lparr>current_project := payload,
     store := setItem (store s) ''currentProject'' (js_str payload)\<rparr>"

definition selectCurrentProject :: "app_state \<Rightarrow> js" where
  "selectCurrentProject s = current_project s"

text \<open>The effect of the header: without a project the first one of the list is chosen.\<close>

definition header_effect :: "js \<Rightarrow> app_state \<Rightarrow> app_state" where
  "header_effect projects s =
     (if \<not> truthy (current_project s) \<and> truthy (path projects [''data'', ''data''])
      then setProject (Str (js_str (get (at (path projects [''data'', ''data'']) 0) ''id''))) s else s)"

text \<open>The listener of the \<open>storage\<close> event.\<close>

definition storage_listener :: "app_state \<Rightarrow> app_state" where
  "storage_listener s = s\<lparr>is_expert_mode := flag_item (store s) LS_IS_EXPERT_MODE,
     is_yaml_enabled := flag_item (store s) LS_IS_YAML_ENABLED\<rparr>"

section \<open>Login, logout and the guard of the private routes\<close>

definition login_onSubmit :: "js \<Rightarrow> (app_state, js) action" where
  "login_onSubmit values =
     seq (modify (\<lambda>s. s\<lparr>store := setItem (store s) ''token'' (js_str (get values ''token''))\<rparr>))
         (emit (Navigate (generateAbsoluteRouterPath ''/clusters'' Undef)))"

definition handleLogout :: "(app_state, js) action" where
  "handleLogout =
     seq (modify (\<lambda>s. s\<lparr>store := removeItem (store s) ''token''\<rparr>))
         (emit (Navigate (generateAbsoluteRouterPath ''login'' Undef)))"

definition PrivateRouteWrapper :: "js \<Rightarrow> string \<Rightarrow> app_state \<Rightarrow> js" where
  "PrivateRouteWrapper authToken pathname s =
     (if getItem (store s) ''token'' = authToken then elem ''Outlet'' [] []
      else elem ''Navigate'' [P ''to'' (Str ''login''), P ''replace'' (Bool True),
             P ''state'' (obj [P ''path'' (Str pathname)])] [])"

definition private_route_effect :: "js \<Rightarrow> (app_state, js) action" where
  "private_route_effect authToken = reading (\<lambda>s.
     when_do (truthy (getItem (store s) ''token'') \<and> getItem (store s) ''token'' \<noteq> authToken)
       (emit (Toast ''error'' (tr ''invalidToken'' []))))"

section \<open>The settings form\<close>

definition proxy_env :: "js \<Rightarrow> js" where
  "proxy_env settingsData =
     (case find (\<lambda>v. get v ''name'' = Str ''proxy_env'') (elems settingsData) of
        Some v \<Rightarrow> get v ''value'' | None \<Rightarrow> Undef)"

definition settings_defaults :: "storage \<Rightarrow> js" where
  "settings_defaults st = obj
     [P SET_HTTP_PROXY (Str []), P SET_HTTPS_PROXY (Str []),
      P SET_IS_EXPERT_MODE_ENABLED (Bool (flag_item st LS_IS_EXPERT_MODE)),
      P SET_IS_YAML_ENABLED (Bool (flag_item st LS_IS_YAML_ENABLED))]"

text \<open>\<open>methods.reset((values) => ({...values, ...settingsData}))\<close>\<close>

definition settings_loaded :: "js \<Rightarrow> js \<Rightarrow> js" where
  "settings_loaded values settingsData = obj [Spread values, Spread (proxy_env settingsData)]"

definition filled_settings :: "js \<Rightarrow> js" where
  "filled_settings values =
     from_entries (filter (\<lambda>(key, value). value \<noteq> Str [] \<and> key \<noteq> SET_IS_EXPERT_MODE_ENABLED) (entries values))"

definition store_flags :: "js \<Rightarrow> app_state \<Rightarrow> app_state" where
  "store_flags values s = s\<lparr>store :=
     setItem (setItem (store s) LS_IS_EXPERT_MODE (js_str (get values SET_IS_EXPERT_MODE_ENABLED)))
       LS_IS_YAML_ENABLED (js_str (get values SET_IS_YAML_ENABLED))\<rparr>"

definition settings_onSubmit ::
    "server \<Rightarrow> js \<Rightarrow> js \<Rightarrow> bool \<Rightarrow> js \<Rightarrow> (app_state, js) action" where
  "settings_onSubmit srv settingsData dirtyFields isDirty values =
     catch
       (seq (when_do (truthy (get dirtyFields SET_IS_EXPERT_MODE_ENABLED)
                        \<or> truthy (get dirtyFields SET_IS_YAML_ENABLED))
              (seq (modify (store_flags values)) (modify storage_listener)))
       (seq (when_do (truthy (get dirtyFields SET_HTTP_PROXY) \<or> truthy (get dirtyFields SET_HTTPS_PROXY))
              (seq (if truthy (proxy_env settingsData) \<and> isDirty
                    then request srv ''patchSettingsByName'' (obj
                      [P ''name'' (Str ''proxy_env''),
                       P ''requestChangeSetting'' (obj [P ''value'' (obj [Spread (filled_settings values)])])])
                    else request srv ''postSettings'' (obj
                      [P ''requestCreateSetting'' (obj
                        [P ''name'' (Str ''proxy_env''), P ''value'' (obj [Spread (filled_settings values)])])]))
                   (emit (Toast ''success'' (tr ''settingsSuccessfullyChanged'' [P ''ns'' (Str ''toasts'')])))))
            (emit (Call ''methods.reset'' [values]))))
       handleRequestErrorCatch"

text \<open>The middleware that shows rejected requests.\<close>

definition rtkQueryErrorLogger :: "(js \<Rightarrow> bool) \<Rightarrow> js \<Rightarrow> (app_state, js) action" where
  "rtkQueryErrorLogger isRejectedWithValue action =
     seq (when_do (isRejectedWithValue action)
           (bind (if truthy (path action [''payload'', ''data'', ''message''])
                  then ret (path action [''payload'', ''data'', ''message''])
                  else lift_res (map_res (\<lambda>d. get d ''title'') (member (get action ''payload'') ''data'')))
             (\<lambda>m. seq (emit (Toast ''error'' m))
                       (emit (Call ''console.error'' [path action [''payload'', ''data'']])))))
         (emit (Call ''next'' [action]))"

section \<open>Runs of the console\<close>

inductive app_step :: "server \<Rightarrow> js \<Rightarrow> app_state \<Rightarrow> app_state \<Rightarrow> bool" for srv authToken where
  toggle_theme: "app_step srv authToken s (handleToggle media s)"
| choose_theme: "app_step srv authToken s (setThemeMode media mode s)"
| system_theme: "app_step srv authToken s (updateSystemTheme media s)"
| choose_project: "app_step srv authToken s (setProject payload s)"
| load_header: "app_step srv authToken s (header_effect projects s)"
| login: "app_step srv authToken s (snd (login_onSubmit values s))"
| logout: "app_step srv authToken s (snd (handleLogout s))"
| open_route: "app_step srv authToken s (snd (private_route_effect authToken s))"
| save_settings: "app_step srv authToken s (snd (settings_onSubmit srv settingsData dirtyFields isDirty values s))"

inductive_cases app_stepE: "app_step srv authToken s s'"

text \<open>What is shown agrees with what is stored.\<close>

definition stored_agrees :: "app_state \<Rightarrow> bool" where
  "stored_agrees s \<longleftrightarrow>
     theme_mode s = getInitialMode (store s)
     \<and> js_str (current_project s) = js_str (coalesce (getItem (store s) ''currentProject'') (Str []))
     \<and> is_expert_mode s = flag_item (store s) LS_IS_EXPERT_MODE
     \<and> is_yaml_enabled s = flag_item (store s) LS_IS_YAML_ENABLED
     \<and> actual_theme s \<noteq> System
     \<and> (theme_mode s \<noteq> System \<longrightarrow> actual_theme s = theme_mode s)"

lemma getSystemTheme_actual [simp]: "getSystemTheme media \<noteq> System"
  by (auto simp: getSystemTheme_def split: option.split res.split)

lemma agrees_emit: "keeps stored_agrees (emit e)"
  by (simp add: keeps_def emit_def stored_agrees_def)

lemma agrees_request: "keeps stored_agrees (request srv ep arg)"
  by (simp add: keeps_def request_def stored_agrees_def Let_def)

lemma agrees_modify: "(\<And>s. stored_agrees s \<Longrightarrow> stored_agrees (f s)) \<Longrightarrow> keeps stored_agrees (modify f)"
  by (simp add: keeps_def modify_def)

lemma agrees_other_item:
  "k \<notin> {''themeMode'', ''currentProject'', LS_IS_EXPERT_MODE, LS_IS_YAML_ENABLED} \<Longrightarrow>
     stored_agrees s \<Longrightarrow> stored_agrees (s\<lparr>store := setItem (store s) k v\<rparr>)
       \<and> stored_agrees (s\<lparr>store := removeItem (store s) k\<rparr>)"
  by (simp add: stored_agrees_def getInitialMode_def flag_item_def)

lemma agrees_flags: "keeps stored_agrees (seq (modify (store_flags values)) (modify storage_listener))"
  by (simp add: keeps_def run_simps store_flags_def storage_listener_def stored_agrees_def
      getInitialMode_def)

lemma agrees_theme: "stored_agrees s \<Longrightarrow> stored_agrees (setThemeMode media mode s)"
  by (cases mode) (simp_all add: stored_agrees_def setThemeMode_def getInitialMode_def flag_item_def
      resolveActualTheme_def)

lemma agrees_project: "stored_agrees s \<Longrightarrow> stored_agrees (setProject payload s)"
  by (simp add: stored_agrees_def setProject_def getInitialMode_def flag_item_def coalesce_def)

lemma agrees_error: "keeps stored_agrees (handleRequestErrorCatch e)"
  unfolding handleRequestErrorCatch_def by (intro keeps_intros agrees_emit)

lemma agrees_settings: "keeps stored_agrees (settings_onSubmit srv settingsData dirtyFields isDirty values)"
  unfolding settings_onSubmit_def
  by (intro keeps_intros agrees_flags agrees_emit agrees_request agrees_error)

lemma agrees_login: "keeps stored_agrees (login_onSubmit values)"
  unfolding login_onSubmit_def by (intro keeps_intros agrees_emit agrees_modify) (simp add: agrees_other_item)

lemma agrees_logout: "keeps stored_agrees handleLogout"
  unfolding handleLogout_def by (intro keeps_intros agrees_emit agrees_modify) (simp add: agrees_other_item)

lemma agrees_route: "keeps stored_agrees (private_route_effect authToken)"
  unfolding private_route_effect_def by (intro keeps_intros agrees_emit)

lemma agrees_system: "stored_agrees s \<Longrightarrow> stored_agrees (updateSystemTheme media s)"
  by (simp add: stored_agrees_def updateSystemTheme_def)

lemma app_step_agrees: "app_step srv authToken s s' \<Longrightarrow> stored_agrees s \<Longrightarrow> stored_agrees s'"
  by (erule app_stepE)
     (auto simp: handleToggle_def header_effect_def agrees_theme agrees_project agrees_system
       intro: keepsD [OF agrees_settings] keepsD [OF agrees_login] keepsD [OF agrees_logout]
         keepsD [OF agrees_route])

lemma initial_agrees: "stored_agrees (initial_app st media)"
  by (simp add: stored_agrees_def initial_app_def resolveActualTheme_def)

text \<open>
  In every state the console can reach, a reload shows the same theme mode, the same project and
  the same expert and YAML switches, and the theme on screen is light or dark and is the chosen one
  unless the system decides.
\<close>

theorem reload_restores_state:
  assumes "(app_step srv authToken)\<^sup>*\<^sup>* (initial_app st media) s"
  shows "theme_mode (initial_app (store s) media') = theme_mode s
     \<and> js_str (current_project (initial_app (store s) media')) = js_str (current_project s)
     \<and> is_expert_mode (initial_app (store s) media') = is_expert_mode s
     \<and> is_yaml_enabled (initial_app (store s) media') = is_yaml_enabled s
     \<and> actual_theme s \<in> {Light, Dark}
     \<and> (theme_mode s = System \<or> actual_theme s = theme_mode s)"
proof -
  have "stored_agrees s"
    using assms by (induction rule: rtranclp_induct) (auto simp: initial_agrees intro: app_step_agrees)
  then show ?thesis
    by (cases "actual_theme s") (auto simp: stored_agrees_def initial_app_def)
qed

theorem reload_restores_state_witness:
  "\<exists>s. (app_step (\<lambda>_ _ _. Ok Undef) (Str ''tok''))\<^sup>*\<^sup>* (initial_app [] None) s
     \<and> theme_mode s = Dark \<and> theme_mode (initial_app (store s) (Some (Ok False))) = Dark"
proof -
  let ?s = "setThemeMode None Dark (initial_app [] None)"
  have "(app_step (\<lambda>_ _ _. Ok Undef) (Str ''tok''))\<^sup>*\<^sup>* (initial_app [] None) ?s"
    by (meson app_step.choose_theme r_into_rtranclp)
  moreover have "theme_mode ?s = Dark" by (simp add: setThemeMode_def)
  ultimately show ?thesis
    using reload_restores_state [of "\<lambda>_ _ _. Ok Undef" "Str ''tok''" "[]" None ?s "Some (Ok False)"] by auto
qed

text \<open>
  The private routes are open exactly while the stored token is the console's own: a login with
  that token opens them, any other login and every logout closes them.
\<close>

theorem private_routes_guarded:
  "(displays ''Outlet'' (PrivateRouteWrapper (Str tok) route (snd (login_onSubmit values s)))
      \<longleftrightarrow> js_str (get values ''token'') = tok)
   \<and> \<not> displays ''Outlet'' (PrivateRouteWrapper (Str tok) route (snd (handleLogout s)))"
  by (simp add: PrivateRouteWrapper_def login_onSubmit_def handleLogout_def run_simps displays_def
      obj_def)

text \<open>
  Saving the proxy settings sends the YAML switch of the form to the server inside
  \<open>proxy_env\<close>, while the expert switch is left out.
\<close>

theorem proxy_settings_carry_yaml_switch:
  "look_obj (filled_settings (obj values)) SET_IS_YAML_ENABLED =
     (case lookup_parts values SET_IS_YAML_ENABLED of
        Some v \<Rightarrow> if v \<noteq> Str [] then Some v else None | None \<Rightarrow> None)
   \<and> look_obj (filled_settings (obj values)) SET_IS_EXPERT_MODE_ENABLED = None"
  by (simp add: filled_settings_def look_filtered_entries split: option.split)

end
