(* ===== verification/RowActions.thy ===== *)
theory RowActions
  imports Secrets
begin

text \<open>
  The actions of the tables' row menus (\<open>features/*-table-row-actions\<close>) and the dialogs that add a
  project or an environment (\<open>features/add-project\<close>, \<open>features/add-environment\<close>,
  \<open>shared/ui/settings-add-entity\<close>). A row is the object the table shows; closing the menu is a
  callback of the menu.
\<close>

definition closeMenu :: "('w world_scheme, js) action" where
  "closeMenu = emit (Call ''closeMenu'' [])"

definition success_toast :: "string \<Rightarrow> part list \<Rightarrow> ('w world_scheme, js) action" where
  "success_toast key options = emit (Toast ''success'' (tr key (P ''ns'' (Str ''toasts'') # options)))"

text \<open>\<open>try { ... } catch (e) { handleRequestErrorCatch(e) } finally { closeMenu() }\<close>\<close>

definition menu_action :: "('w world_scheme, js) action \<Rightarrow> ('w world_scheme, js) action" where
  "menu_action body = finally_do (catch body handleRequestErrorCatch) closeMenu"

definition original :: "js \<Rightarrow> js res" where
  "original row = member row ''original''"

text \<open>The shared shape of the removals: one request, then a toast that names the row.\<close>

definition remove_row :: "server \<Rightarrow> string \<Rightarrow> string \<Rightarrow> string \<Rightarrow> string \<Rightarrow> string \<Rightarrow> js
    \<Rightarrow> ('w world_scheme, js) action" where
  "remove_row srv ep idColumn toastKey nameOption nameColumn orig =
     bind (lift_res (member orig idColumn)) (\<lambda>rowId.
     seq (request srv ep (obj [P ''id'' rowId]))
         (success_toast toastKey [P nameOption (get orig nameColumn)]))"

section \<open>Removals\<close>

definition remove_environment :: "server \<Rightarrow> js \<Rightarrow> ('w world_scheme, js) action" where
  "remove_environment srv row = menu_action
     (bind (lift_res (original row))
       (remove_row srv ''deleteEnvironmentsById'' ET_ID ''environmentSuccessfullyRemoved''
          ''environmentName'' ET_NAME))"

text \<open>\<open>throw t(key)\<close>; the active project is kept.\<close>

definition remove_project :: "server \<Rightarrow> js \<Rightarrow> js \<Rightarrow> ('w world_scheme, js) action" where
  "remove_project srv currentProject row = menu_action
     (bind (lift_res (original row)) (\<lambda>orig.
      bind (lift_res (member orig PT_ID)) (\<lambda>projectId.
        if js_number currentProject = projectId \<and> js_number currentProject \<noteq> NaN
        then throw (Thrown ''cannotRemoveActiveProject'')
        else remove_row srv ''deleteProjectsById'' PT_ID ''projectSuccessfullyRemoved''
               ''projectName'' PT_NAME orig)))"

definition remove_server :: "server \<Rightarrow> js \<Rightarrow> js \<Rightarrow> ('w world_scheme, js) action" where
  "remove_server srv clusterId row = menu_action
     (seq (bind (lift_res (original row))
            (remove_row srv ''deleteServersById'' COT_ID ''serverSuccessfullyRemoved'' ''serverName'' COT_NAME))
          (request_settled srv ''getClustersById'' (obj [P ''id'' clusterId])))"

text \<open>\<open>v?.split(', ')\<close>: only a string can be split.\<close>

fun split_comma :: "string \<Rightarrow> string list" where
  "split_comma [] = [[]]"
| "split_comma [c] = [[c]]"
| "split_comma (c # d # cs) =
     (if c = CHR '','' \<and> d = CHR '' '' then [] # split_comma cs
      else (case split_comma (d # cs) of [] \<Rightarrow> [[c]] | w # ws \<Rightarrow> (c # w) # ws))"

definition using_clusters :: "js \<Rightarrow> js res" where
  "using_clusters usedBy =
     (if nullish usedBy then Ok Undef
      else case usedBy of Str s \<Rightarrow> Ok (Arr (map Str (split_comma s))) | _ \<Rightarrow> Throw TypeError)"

definition SECRET_TOAST_DISPLAY_CLUSTERS_LIMIT :: nat where
  "SECRET_TOAST_DISPLAY_CLUSTERS_LIMIT = 10"

definition secret_used_toast :: "js \<Rightarrow> js \<Rightarrow> js" where
  "secret_used_toast orig usingClusterList =
     tr ''secretsSecretIsUsed''
       [P ''ns'' (Str ''toasts''),
        P ''count'' (get usingClusterList ''length''),
        P ''clusterNames''
          (if length (elems usingClusterList) > SECRET_TOAST_DISPLAY_CLUSTERS_LIMIT
           then Str (join_with '', ''
             (map js_str (take SECRET_TOAST_DISPLAY_CLUSTERS_LIMIT (elems usingClusterList)) @ [''...'']))
           else get orig ST_USED_BY)]"

definition remove_secret :: "server \<Rightarrow> js \<Rightarrow> ('w world_scheme, js) action" where
  "remove_secret srv row = menu_action
     (bind (lift_res (original row)) (\<lambda>orig.
      bind (lift_res (member orig ST_USED)) (\<lambda>used.
        if nullish used then throw TypeError
        else if js_str used = ''true'' then
          bind (lift_res (using_clusters (get orig ST_USED_BY))) (\<lambda>usingClusterList.
            emit (Toast ''warning'' (secret_used_toast orig usingClusterList)))
        else remove_row srv ''deleteSecretsById'' ST_ID ''secretSuccessfullyRemoved''
               ''secretName'' ST_NAME orig)))"

text \<open>Every row menu of this kind shows one item.\<close>

definition action_menu :: "js \<Rightarrow> js" where
  "action_menu label = Arr
     [elem ''MenuItem'' [P ''key'' (Num 0), P ''onClick'' (Fn ''handleButtonClick'' [])]
       [elem ''ListItemIcon'' [] [elem ''DeleteOutlineIcon'' [] []], label]]"

definition delete_menu :: js where
  "delete_menu = action_menu (tr ''delete'' [])"

section \<open>Removing a cluster from the list\<close>

record remove_state = world +
  remove_open :: bool

definition remove_dialog :: "bool \<Rightarrow> (remove_state, js) action" where
  "remove_dialog st =
     seq (modify (\<lambda>w. w\<lparr>remove_open := st\<rparr>)) (when_do (\<not> st) closeMenu)"

text \<open>The request is awaited without \<open>unwrap\<close>.\<close>

definition remove_cluster :: "server \<Rightarrow> js \<Rightarrow> js \<Rightarrow> (remove_state, js) action" where
  "remove_cluster srv clusterId clusterName =
     catch
       (seq (request_settled srv ''deleteClustersById'' (obj [P ''id'' clusterId]))
       (seq closeMenu
            (success_toast ''clusterSuccessfullyRemoved'' [P ''clusterName'' clusterName])))
       handleRequestErrorCatch"

definition ClustersTableRemoveButton :: "js \<Rightarrow> bool \<Rightarrow> bool \<Rightarrow> js" where
  "ClustersTableRemoveButton clusterName modalOpen isLoading = fragment
     [elem ''Button'' [P ''onClick'' (Fn ''handleModalOpenState'' [Bool True]), P ''variant'' (Str ''text'')]
       [elem ''Stack'' [P ''direction'' (Str ''row''), P ''alignItems'' (Str ''center''),
          P ''justifyContent'' (Str ''flex-start''), P ''width'' (Str ''max-content'')]
         [elem ''DeleteOutlineIcon'' [] [],
          elem ''Typography'' [] [tr ''removeFromList'' [P ''ns'' (Str ''shared'')]]]],
      elem ''Dialog'' [P ''open'' (Bool modalOpen), P ''onClose'' (Fn ''handleModalOpenState'' [Bool False])]
       [elem ''DialogTitle'' []
          [Str '' '', tr ''deleteClusterModalHeader'' [P ''ns'' (Str ''clusters''), P ''clusterName'' clusterName]],
        elem ''DialogContent'' []
          [elem ''DialogContentText'' []
            [tr ''deleteClusterModalBody'' [P ''ns'' (Str ''clusters''), P ''clusterName'' clusterName]]],
        elem ''DialogActions'' []
          [elem ''Button'' [P ''onClick'' (Fn ''handleModalOpenState'' [Bool False])]
             [tr ''cancel'' [P ''ns'' (Str ''shared'')]],
           elem ''Button''
             [P ''type'' (Str ''submit''), P ''onClick'' (Fn ''handleButtonClick'' []),
              P ''disabled'' (Bool isLoading), P ''startIcon'' (busy_icon isLoading)]
             [tr ''delete'' [P ''ns'' (Str ''shared'')]]]]]"

text \<open>The cluster name of a row is a link element: its text is the link's child.\<close>

definition ClustersTableRowActions :: "js \<Rightarrow> js" where
  "ClustersTableRowActions row =
     (let props = [P ''clusterId'' (path row [''original'', CT_ID]),
                   P ''clusterName'' (path row [''original'', CT_NAME, ''props'', ''children'']),
                   P ''closeMenu'' (Fn ''closeMenu'' [])]
      in fragment
        [elem ''MenuItem'' [P ''disableGutters'' (Bool True)] [elem ''ClustersTableExportButton'' props []],
         elem ''MenuItem'' [P ''disableGutters'' (Bool True)] [elem ''ClustersTableRemoveButton'' props []]])"

section \<open>Adding a project or an environment\<close>

definition add_project_onSubmit :: "server \<Rightarrow> js \<Rightarrow> ('w world_scheme, js) action" where
  "add_project_onSubmit srv values =
     seq (request srv ''postProjects'' (obj [P ''requestProjectCreate''
           (obj [P ''name'' (get values AE_NAME), P ''description'' (get values AE_DESCRIPTION)])]))
         (success_toast ''projectSuccessfullyCreated'' [P ''projectName'' (get values AE_NAME)])"

definition add_environment_onSubmit :: "server \<Rightarrow> js \<Rightarrow> ('w world_scheme, js) action" where
  "add_environment_onSubmit srv values =
     seq (request srv ''postEnvironments'' (obj [P ''requestEnvironment''
           (obj [P ''name'' (get values AE_NAME), P ''description'' (get values AE_DESCRIPTION)])]))
         (success_toast ''environmentSuccessfullyCreated'' [P ''environmentName'' (get values AE_NAME)])"

record entity_state = world +
  entity_open :: bool

definition add_entity_onSubmit :: "(js \<Rightarrow> (entity_state, js) action) \<Rightarrow> js \<Rightarrow> (entity_state, js) action" where
  "add_entity_onSubmit submitTrigger values =
     catch (seq (submitTrigger values) (modify (\<lambda>w. w\<lparr>entity_open := False\<rparr>))) handleRequestErrorCatch"

definition AddProject :: "bool \<Rightarrow> js" where
  "AddProject isLoading = elem ''SettingsAddEntity''
     [P ''buttonLabel'' (tr ''addProject'' []), P ''headerLabel'' (tr ''addProject'' []),
      P ''submitButtonLabel'' (tr ''addProject'' []), P ''nameLabel'' (tr ''projectName'' []),
      P ''isLoading'' (Bool isLoading), P ''submitTrigger'' (Fn ''onSubmit'' [])] []"

definition AddEnvironment :: "bool \<Rightarrow> js" where
  "AddEnvironment isLoading = elem ''SettingsAddEntity''
     [P ''buttonLabel'' (tr ''addEnvironment'' []), P ''headerLabel'' (tr ''addEnvironment'' []),
      P ''submitButtonLabel'' (tr ''addEnvironment'' []), P ''nameLabel'' (tr ''environmentName'' []),
      P ''isLoading'' (Bool isLoading), P ''submitTrigger'' (Fn ''onSubmit'' [])] []"

text \<open>The helper text of the description reads a property of the name's error.\<close>

definition SettingsAddEntity ::
    "js \<Rightarrow> js \<Rightarrow> js \<Rightarrow> js \<Rightarrow> bool \<Rightarrow> js \<Rightarrow> js \<Rightarrow> bool \<Rightarrow> bool \<Rightarrow> bool \<Rightarrow> js" where
  "SettingsAddEntity buttonLabel headerLabel submitButtonLabel nameLabel modalOpen values errors
       isValid isSubmitting isLoading = fragment
     [elem ''Button'' [P ''onClick'' (Fn ''handleModalOpenState'' [Bool True]),
        P ''startIcon'' (elem ''AddBoxOutlinedIcon'' [] []), P ''variant'' (Str ''text'')]
        [coalesce buttonLabel (tr ''add'' [P ''ns'' (Str ''shared'')])],
      elem ''Modal'' [P ''open'' (Bool modalOpen), P ''onClose'' (Fn ''handleModalOpenState'' [Bool False])]
       [elem ''form'' [P ''onSubmit'' (Fn ''handleSubmit'' [Str ''onSubmit''])]
         [elem ''Card'' []
           [elem ''Stack'' [P ''direction'' (Str ''column''), P ''gap'' (Str ''16px'')]
             [elem ''Typography'' [P ''fontWeight'' (Str ''bold''), P ''fontSize'' (Num 20)]
                [coalesce headerLabel (tr ''add'' [P ''ns'' (Str ''shared'')])],
              dialog_row
                [controller values AE_NAME (\<lambda>value onChange. elem ''TextField''
                   [P ''required'' (Bool True), P ''fullWidth'' (Bool True),
                    P ''label'' (coalesce nameLabel (tr ''name'' [P ''ns'' (Str ''shared'')])),
                    P ''size'' (Str ''small''), P ''value'' value, P ''onChange'' onChange,
                    P ''error'' (has_error errors AE_NAME),
                    P ''helperText'' (get (get errors AE_NAME) ''message'')] [])],
              dialog_row
                [controller values AE_DESCRIPTION (\<lambda>value onChange. elem ''TextField''
                   [P ''multiline'' (Bool True), P ''rows'' (Num 6), P ''fullWidth'' (Bool True),
                    P ''label'' (tr ''description'' [P ''ns'' (Str ''shared'')]),
                    P ''size'' (Str ''small''), P ''value'' value, P ''onChange'' onChange,
                    P ''error'' (has_error errors AE_DESCRIPTION),
                    P ''helperText'' (get (get errors AE_NAME) ''DESCRIPTION'')] [])],
              elem ''Button''
                [P ''type'' (Str ''submit''), P ''variant'' (Str ''contained''),
                 P ''disabled'' (Bool (\<not> isValid \<or> isSubmitting \<or> isLoading)),
                 P ''startIcon'' (busy_icon (isSubmitting \<or> isLoading))]
                [coalesce submitButtonLabel (tr ''add'' [])]]]]]]"

section \<open>Facts about the row menus\<close>

lemma remove_row_run:
  "remove_row srv ep idc key opt nc orig w =
     (if nullish orig then (Throw TypeError, w)
      else let r = srv (trace w) ep (obj [P ''id'' (get orig idc)]);
               w' = w\<lparr>trace := trace w @ [Request ep (obj [P ''id'' (get orig idc)]) r]\<rparr>
           in case r of
                Throw e \<Rightarrow> (Throw e, w')
              | Ok v \<Rightarrow> (Ok Undef, w'\<lparr>trace := trace w' @
                  [Toast ''success'' (tr key [P ''ns'' (Str ''toasts''), P opt (get orig nc)])]\<rparr>))"
  by (simp add: remove_row_def run_simps member_def success_toast_def split: res.split)

lemma menu_action_run:
  "menu_action body w = (case body w of
     (Ok v, w') \<Rightarrow> (Ok v, w'\<lparr>trace := trace w' @ [Call ''closeMenu'' []]\<rparr>)
   | (Throw e, w') \<Rightarrow> (Ok Undef, w'\<lparr>trace := trace w' @
       [Call ''console.error'' [exn_js e], Toast ''error'' (exn_js e), Call ''closeMenu'' []]\<rparr>))"
  by (simp add: menu_action_def run_simps closeMenu_def split: prod.split res.split)

lemma menu_action_closes:
  "is_ok (fst (menu_action body w)) \<and> last (trace (snd (menu_action body w))) = Call ''closeMenu'' []"
  by (simp add: menu_action_run split: prod.split res.split)

text \<open>
  Every removal from a row menu ends by closing the menu and never throws, whatever the row and
  whatever the server answers.
\<close>

theorem row_menu_always_closes:
  "\<forall>m \<in> {remove_environment srv row, remove_project srv project row, remove_server srv clusterId row,
           remove_secret srv row}.
     is_ok (fst (m w)) \<and> last (trace (snd (m w))) = Call ''closeMenu'' []"
  by (simp add: remove_environment_def remove_project_def remove_server_def remove_secret_def
      menu_action_closes)

theorem row_menu_always_closes_witness:
  "is_ok (fst (remove_secret (\<lambda>_ _ _. Ok Undef) Null \<lparr>trace = []\<rparr>))"
  using row_menu_always_closes [of "\<lambda>_ _ _. Ok Undef" Null Undef Undef "\<lparr>trace = []\<rparr>"] by blast

definition removed_toast :: "string \<Rightarrow> string \<Rightarrow> js \<Rightarrow> event" where
  "removed_toast key opt name = Toast ''success'' (tr key [P ''ns'' (Str ''toasts''), P opt name])"

lemma removal_requests:
  "\<not> nullish orig \<Longrightarrow> requests_to ''deleteProjectsById''
       (trace (snd (remove_project srv project (obj [P ''original'' orig]) \<lparr>trace = []\<rparr>)))
     = (if js_number project = get orig PT_ID \<and> get orig PT_ID \<noteq> NaN then []
        else [obj [P ''id'' (get orig PT_ID)]])"
  "\<not> nullish orig \<Longrightarrow> requests_to ''deleteSecretsById''
       (trace (snd (remove_secret srv (obj [P ''original'' orig]) \<lparr>trace = []\<rparr>)))
     = (if nullish (get orig ST_USED) \<or> js_str (get orig ST_USED) = ''true'' then []
        else [obj [P ''id'' (get orig ST_ID)]])"
  by (auto simp: remove_project_def remove_secret_def menu_action_run remove_row_run original_def
      member_def get_obj run_simps using_clusters_def split: res.split js.split)

text \<open>
  A row menu never removes the project the user works in nor a secret a cluster uses; any other
  project or secret takes exactly one request, for that row.
\<close>

theorem removal_guarded:
  assumes "\<not> nullish orig"
  shows "requests_to ''deleteProjectsById''
       (trace (snd (remove_project srv project (obj [P ''original'' orig]) \<lparr>trace = []\<rparr>)))
     = (if js_number project = get orig PT_ID \<and> get orig PT_ID \<noteq> NaN then []
        else [obj [P ''id'' (get orig PT_ID)]])
     \<and> requests_to ''deleteSecretsById''
       (trace (snd (remove_secret srv (obj [P ''original'' orig]) \<lparr>trace = []\<rparr>)))
     = (if nullish (get orig ST_USED) \<or> js_str (get orig ST_USED) = ''true'' then []
        else [obj [P ''id'' (get orig ST_ID)]])"
  using assms by (simp add: removal_requests)

theorem removal_guarded_witness:
  "requests_to ''deleteProjectsById''
     (trace (snd (remove_project (\<lambda>_ _ _. Ok Undef) (Str ''3'')
        (obj [P ''original'' (obj [P PT_ID (Num 3)])]) \<lparr>trace = []\<rparr>))) = []"
proof -
  have "js_number (Str ''3'') = get (obj [P PT_ID (Num 3)]) PT_ID" by code_simp
  moreover have "get (obj [P PT_ID (Num 3)]) PT_ID \<noteq> NaN" by code_simp
  ultimately show ?thesis
    using removal_guarded [of "obj [P PT_ID (Num 3)]" "\<lambda>_ _ _. Ok Undef" "Str ''3''"]
    by simp
qed

text \<open>
  Removing a cluster reports success even when the server rejected the request: the rejection
  is neither shown nor noticed.
\<close>

theorem rejected_removal_reported_as_success:
  assumes "srv (trace w) ''deleteClustersById'' (obj [P ''id'' clusterId]) = Throw e"
  shows "remove_cluster srv clusterId clusterName w =
    (Ok Undef, w\<lparr>trace := trace w @
       [Request ''deleteClustersById'' (obj [P ''id'' clusterId]) (Throw e),
        Call ''closeMenu'' [],
        removed_toast ''clusterSuccessfullyRemoved'' ''clusterName'' clusterName]\<rparr>)"
  using assms
  by (simp add: remove_cluster_def run_simps closeMenu_def success_toast_def removed_toast_def)

theorem rejected_removal_reported_as_success_witness:
  "last (trace (snd (remove_cluster (\<lambda>_ _ _. Throw (Rejected ''403'')) (Num 1) (Str ''pg'')
      \<lparr>trace = [], remove_open = True\<rparr>)))
   = removed_toast ''clusterSuccessfullyRemoved'' ''clusterName'' (Str ''pg'')"
  by (subst rejected_removal_reported_as_success) simp_all

text \<open>
  A project is stored by one request; its dialog closes and success is reported exactly when
  the server has stored it, and a rejection is shown with the dialog still open.
\<close>

theorem add_project_outcome:
  "add_entity_onSubmit (add_project_onSubmit srv) values w =
    (let body = obj [P ''requestProjectCreate''
           (obj [P ''name'' (get values AE_NAME), P ''description'' (get values AE_DESCRIPTION)])];
         r = srv (trace w) ''postProjects'' body;
         w' = w\<lparr>trace := trace w @ [Request ''postProjects'' body r]\<rparr>
     in case r of
          Ok v \<Rightarrow> (Ok Undef, w'\<lparr>entity_open := False, trace := trace w' @
            [removed_toast ''projectSuccessfullyCreated'' ''projectName'' (get values AE_NAME)]\<rparr>)
        | Throw e \<Rightarrow> (Ok Undef, w'\<lparr>trace := trace w' @
            [Call ''console.error'' [exn_js e], Toast ''error'' (exn_js e)]\<rparr>))"
  by (simp add: add_entity_onSubmit_def add_project_onSubmit_def run_simps Let_def success_toast_def
      removed_toast_def split: res.split)

end
