(* ===== verification/Export.thy ===== *)
theory Export
  imports RowActions
begin

text \<open>
  Exporting a cluster to an Ansible inventory file
  (\<open>features/clusters-table-row-actions/ui/ClusterTableExportButton.tsx\<close>). \<open>JSON.parse\<close>, the
  collation of \<open>localeCompare\<close> and js-yaml's \<open>dump\<close> are parameters. Host groups are filled by
  assignment in a \<open>forEach\<close>, so the facts about them are the client facts of
  \<open>keyed_store\<close> for the assignment provider.
\<close>

section \<open>Text of the keys\<close>

text \<open>\<open>replace(/^'+|'+$/g, '')\<close> and \<open>replace(/\s+/g, ' ')\<close>\<close>

definition strip_quotes :: "string \<Rightarrow> string" where
  "strip_quotes s =
     rev (dropWhile (\<lambda>c. c = CHR 0x27) (rev (dropWhile (\<lambda>c. c = CHR 0x27) s)))"

function collapse_ws :: "string \<Rightarrow> string" where
  "collapse_ws [] = []"
| "collapse_ws (c # cs) =
     (if is_ws c then CHR '' '' # collapse_ws (dropWhile is_ws cs) else c # collapse_ws cs)"
  by pat_completeness auto
termination
  by (relation "measure length") (auto simp: less_Suc_eq_le length_dropWhile_le)

definition clean_key :: "string \<Rightarrow> string" where
  "clean_key k = collapse_ws (strip_quotes (trim k))"

definition clean_keys :: "js \<Rightarrow> js res" where
  "clean_keys vars =
     and_then (member vars ''ssh_public_keys'') (\<lambda>keys. Ok (case keys of
         Str k \<Rightarrow> assign_put vars ''ssh_public_keys'' (Arr [Str (clean_key k)])
       | Arr ks \<Rightarrow> assign_put vars ''ssh_public_keys''
           (Arr (filter (\<lambda>k. case k of Str s \<Rightarrow> s \<noteq> [] | _ \<Rightarrow> False)
             (map (\<lambda>k. case k of Str s \<Rightarrow> Str (clean_key s) | _ \<Rightarrow> k) ks)))
       | _ \<Rightarrow> vars))"

section \<open>Variables\<close>

definition parsed_vars :: "(string \<Rightarrow> js res) \<Rightarrow> js \<Rightarrow> js" where
  "parsed_vars jsonParse extra =
     (case extra of
        Str s \<Rightarrow> if trim s \<noteq> [] then (case jsonParse s of Ok v \<Rightarrow> v | Throw e \<Rightarrow> obj []) else obj []
      | Obj ps \<Rightarrow> Obj ps
      | Arr xs \<Rightarrow> Arr xs
      | _ \<Rightarrow> obj [])"

text \<open>\<open>Array.prototype.sort\<close> with a comparator is a stable sort.\<close>

fun insert_by :: "(string \<Rightarrow> string \<Rightarrow> int) \<Rightarrow> string \<Rightarrow> string list \<Rightarrow> string list" where
  "insert_by cmp x [] = [x]"
| "insert_by cmp x (y # ys) = (if cmp x y \<le> 0 then x # y # ys else y # insert_by cmp x ys)"

definition sort_by :: "(string \<Rightarrow> string \<Rightarrow> int) \<Rightarrow> string list \<Rightarrow> string list" where
  "sort_by cmp xs = foldr (insert_by cmp) xs []"

definition sorted_vars :: "(string \<Rightarrow> string \<Rightarrow> int) \<Rightarrow> js \<Rightarrow> js" where
  "sorted_vars localeCompare vars =
     fold (\<lambda>key acc. assign_put acc key (get vars key))
       (sort_by localeCompare (map fst (entries vars))) (obj [])"

section \<open>Servers and groups\<close>

definition valid_server :: "js \<Rightarrow> bool" where
  "valid_server server \<longleftrightarrow>
     truthy (get server ''ip'') \<and> truthy (get server ''name'')
     \<and> get server ''ip'' \<noteq> Str ''undefined'' \<and> get server ''name'' \<noteq> Str ''undefined''
     \<and> get server ''ip'' \<noteq> Null \<and> get server ''name'' \<noteq> Null
     \<and> get server ''ip'' \<noteq> Str [] \<and> get server ''name'' \<noteq> Str []"

definition valid_servers :: "js \<Rightarrow> js list res" where
  "valid_servers response =
     (case js_or (get response ''servers'') (Arr []) of
        Arr xs \<Rightarrow> map_res (\<lambda>_. filter valid_server xs) (map_all (\<lambda>s. member s ''ip'') xs)
      | _ \<Rightarrow> Throw TypeError)"

definition is_master :: "js \<Rightarrow> bool" where
  "is_master server \<longleftrightarrow> get server ''role'' \<in> {Str ''leader'', Str ''master'', Str ''primary''}"

definition host_data :: "js \<Rightarrow> js" where
  "host_data server =
     (let hostData = obj [P ''hostname'' (get server ''name''), P ''ansible_host'' (get server ''ip''),
                          P ''postgresql_exists'' (Bool True)]
      in if truthy (get server ''location'')
         then assign_put hostData ''server_location'' (get server ''location'') else hostData)"

definition host_only :: "js \<Rightarrow> js" where
  "host_only server = obj [P ''ansible_host'' (get server ''ip'')]"

record host_groups =
  masterHosts :: js
  replicaHosts :: js
  etcdHosts :: js
  balancerHosts :: js

definition no_hosts :: host_groups where
  "no_hosts = \<lparr>masterHosts = obj [], replicaHosts = obj [], etcdHosts = obj [], balancerHosts = obj []\<rparr>"

definition server_ip :: "js \<Rightarrow> string" where
  "server_ip server = js_str (get server ''ip'')"

definition add_server :: "bool \<Rightarrow> js \<Rightarrow> host_groups \<Rightarrow> host_groups" where
  "add_server haproxy server g =
     (let ip = server_ip server;
          g1 = (if is_master server
                then g\<lparr>masterHosts := assign_put (masterHosts g) ip (host_data server)\<rparr>
                else g\<lparr>replicaHosts := assign_put (replicaHosts g) ip (host_data server)\<rparr>);
          g2 = g1\<lparr>etcdHosts := assign_put (etcdHosts g1) ip (host_only server)\<rparr>
      in if haproxy then g2\<lparr>balancerHosts := assign_put (balancerHosts g2) ip (host_only server)\<rparr> else g2)"

text \<open>\<open>vars.with_haproxy_load_balancing\<close> is read for every server: null variables throw there.\<close>

definition group_servers :: "js \<Rightarrow> js list \<Rightarrow> host_groups res" where
  "group_servers vars servers =
     fold_res (\<lambda>g server. map_res (\<lambda>h. add_server (truthy h) server g)
                            (member vars ''with_haproxy_load_balancing'')) no_hosts servers"

section \<open>The inventory\<close>

definition hosts_of :: "js \<Rightarrow> js" where
  "hosts_of hosts = obj [P ''hosts'' (if own_props hosts \<noteq> [] then hosts else obj [])]"

definition inventory_of :: "js \<Rightarrow> host_groups \<Rightarrow> js" where
  "inventory_of sortedVars g = obj [P ''all'' (obj
     [P ''vars'' sortedVars,
      P ''children'' (obj
        [P ''master'' (hosts_of (masterHosts g)),
         P ''replica'' (hosts_of (replicaHosts g)),
         P ''postgres_cluster'' (obj [P ''children'' (obj [P ''master'' (obj []), P ''replica'' (obj [])])]),
         P ''etcd_cluster'' (hosts_of (etcdHosts g)),
         P ''balancers'' (obj [P ''hosts''
           (if truthy (get sortedVars ''with_haproxy_load_balancing'') \<and> own_props (balancerHosts g) \<noteq> []
            then balancerHosts g else obj [])])])])]"

definition export_inventory ::
    "(string \<Rightarrow> js res) \<Rightarrow> (string \<Rightarrow> string \<Rightarrow> int) \<Rightarrow> js \<Rightarrow> js res" where
  "export_inventory jsonParse localeCompare response =
     and_then (member response ''extra_vars'') (\<lambda>extra.
     let vars = parsed_vars jsonParse extra in
     and_then (valid_servers response) (\<lambda>servers.
     and_then (group_servers vars servers) (\<lambda>g.
     and_then (clean_keys vars) (\<lambda>cleaned.
     Ok (inventory_of (sorted_vars localeCompare cleaned) g)))))"

definition yaml_options :: js where
  "yaml_options = obj [P ''noRefs'' (Bool True), P ''lineWidth'' (Num (-1)),
     P ''styles'' (obj [P ''!!str'' (Fn ''const undefined'' [])])]"

definition download :: "js \<Rightarrow> string \<Rightarrow> ('w world_scheme, js) action" where
  "download clusterName inventoryYAML =
     (let url = Fn ''createObjectURL'' [Str inventoryYAML, obj [P ''type'' (Str ''text/yaml'')]] in
      seq (emit (Call ''body.appendChild'' [obj
             [P ''href'' url, P ''download'' (Str (js_str clusterName @ ''-inventory.yaml''))]]))
      (seq (emit (Call ''click'' []))
      (seq (emit (Call ''revokeObjectURL'' [url]))
           (emit (Call ''body.removeChild'' [])))))"

definition export_cluster ::
    "server \<Rightarrow> (string \<Rightarrow> js res) \<Rightarrow> (string \<Rightarrow> string \<Rightarrow> int) \<Rightarrow> (js \<Rightarrow> js \<Rightarrow> string res)
       \<Rightarrow> js \<Rightarrow> js \<Rightarrow> ('w world_scheme, js) action" where
  "export_cluster srv jsonParse localeCompare yamlDump clusterId clusterName = menu_action
     (bind (request srv ''getClustersById'' (obj [P ''id'' clusterId])) (\<lambda>response.
      bind (lift_res (export_inventory jsonParse localeCompare response)) (\<lambda>inventory.
      bind (lift_res (yamlDump inventory yaml_options)) (\<lambda>inventoryYAML.
      seq (download clusterName inventoryYAML)
          (success_toast ''clusterSuccessfullyExported'' [P ''clusterName'' clusterName])))))"

definition ClustersTableExportButton :: js where
  "ClustersTableExportButton =
     elem ''Button'' [P ''onClick'' (Fn ''handleButtonClick'' []), P ''variant'' (Str ''text'')]
       [elem ''Stack'' [P ''direction'' (Str ''row''), P ''alignItems'' (Str ''center''),
          P ''justifyContent'' (Str ''flex-start''), P ''width'' (Str ''max-content'')]
         [elem ''FileDownloadIcon'' [] [],
          elem ''Typography'' [] [tr ''exportToInventory'' [P ''ns'' (Str ''shared'')]]]]"

section \<open>Facts\<close>

lemma set_insert_by [simp]: "set (insert_by cmp x xs) = insert x (set xs)"
  by (induction xs) auto

lemma set_sort_by [simp]: "set (sort_by cmp xs) = set xs"
  unfolding sort_by_def by (induction xs) auto

lemma distinct_insert_by: "distinct (insert_by cmp x xs) \<longleftrightarrow> x \<notin> set xs \<and> distinct xs"
  by (induction xs) auto

lemma distinct_sort_by [simp]: "distinct (sort_by cmp xs) \<longleftrightarrow> distinct xs"
proof (induction xs)
  case (Cons x xs)
  have "sort_by cmp (x # xs) = insert_by cmp x (sort_by cmp xs)" by (simp add: sort_by_def)
  then show ?case using Cons by (simp add: distinct_insert_by)
qed (simp add: sort_by_def)

text \<open>The sorted copy reads as the original.\<close>

lemma find_eq: "find (\<lambda>x. x = k) xs = (if k \<in> set xs then Some k else None)"
  by (induction xs) auto

lemma get_sorted_vars:
  assumes "is_obj vars" "wf_obj vars"
  shows "get (sorted_vars cmp vars) k = get vars k"
proof -
  obtain ps where v: "vars = Obj ps" using assms(1) by (cases vars) auto
  have ks: "set (sort_by cmp (map fst (entries vars))) = fst ` set ps" by (simp add: v entries_def)
  have ob: "is_obj (sorted_vars cmp vars)"
    unfolding sorted_vars_def
    using assign_store.ok_fold [OF assign_store.ok_empty, of "\<lambda>k. k" "\<lambda>k. get vars k"] by simp
  have look: "look_obj (sorted_vars cmp vars) k =
      (case find (\<lambda>x. x = k) (rev (sort_by cmp (map fst (entries vars)))) of
         Some x \<Rightarrow> Some (get vars x) | None \<Rightarrow> None)"
    unfolding sorted_vars_def
    using assign_store.look_fold [OF assign_store.ok_empty, of "\<lambda>k. k" "\<lambda>k. get vars k"]
    by (simp add: assign_store.look_empty split: option.split)
  have "find (\<lambda>x. x = k) (rev (sort_by cmp (map fst (entries vars)))) =
      (if k \<in> fst ` set ps then Some k else None)"
    using ks by (simp add: find_eq)
  moreover have "k \<notin> fst ` set ps \<Longrightarrow> get vars k = Undef"
    using map_of_eq_None_iff [of ps k] by (simp add: v)
  ultimately show ?thesis
    unfolding get_look_obj [OF ob] look by (cases "k \<in> fst ` set ps") simp_all
qed

text \<open>What the four groups hold after all servers: the fold of each group on its own.\<close>

definition put_host :: "(js \<Rightarrow> js) \<Rightarrow> js \<Rightarrow> js \<Rightarrow> js" where
  "put_host data server s = assign_put s (server_ip server) (data server)"

lemma groups_fold:
  "fold (add_server h) xs g =
     \<lparr>masterHosts = fold (put_host host_data) (filter is_master xs) (masterHosts g),
      replicaHosts = fold (put_host host_data) (filter (\<lambda>s. \<not> is_master s) xs) (replicaHosts g),
      etcdHosts = fold (put_host host_only) xs (etcdHosts g),
      balancerHosts = (if h then fold (put_host host_only) xs (balancerHosts g) else balancerHosts g)\<rparr>"
  by (induction xs arbitrary: g) (simp_all add: add_server_def put_host_def Let_def)

lemma group_servers_fold:
  "group_servers vars xs = Ok g \<Longrightarrow>
     g = fold (add_server (truthy (get vars ''with_haproxy_load_balancing''))) xs no_hosts"
proof -
  have "fold_res (\<lambda>g server. map_res (\<lambda>h. add_server (truthy h) server g)
           (member vars ''with_haproxy_load_balancing'')) g0 xs = Ok g \<Longrightarrow>
     g = fold (add_server (truthy (get vars ''with_haproxy_load_balancing''))) xs g0" for g0
    by (induction xs arbitrary: g0) (auto simp: res_simps)
  then show "group_servers vars xs = Ok g \<Longrightarrow> ?thesis" by (simp add: group_servers_def)
qed

lemma put_host_fun: "put_host data = (\<lambda>x s. assign_put s (server_ip x) (data x))"
  by (intro ext) (simp add: put_host_def)

lemma look_hosts:
  "look_obj (fold (put_host data) xs (obj [])) k =
     (case find (\<lambda>s. server_ip s = k) (rev xs) of Some s \<Rightarrow> Some (data s) | None \<Rightarrow> None)"
  using assign_store.look_fold [OF assign_store.ok_empty, of server_ip data xs k]
  by (simp add: put_host_fun assign_store.look_empty split: option.split)

lemma look_hosts_distinct:
  "distinct (map server_ip xs) \<Longrightarrow> s \<in> set xs \<Longrightarrow>
     look_obj (fold (put_host data) xs (obj [])) (server_ip s) = Some (data s)"
  using assign_store.look_fold_distinct [of server_ip xs s data] by (simp add: put_host_fun)

lemma look_hosts_absent:
  "k \<notin> server_ip ` set xs \<Longrightarrow> look_obj (fold (put_host data) xs (obj [])) k = None"
  by (auto simp: look_hosts find_None_iff split: option.split dest: find_Some_iff [THEN iffD1])

lemma hosts_of_get: "get (hosts_of hosts) ''hosts'' = (if own_props hosts \<noteq> [] then hosts else obj [])"
  by (simp add: hosts_of_def get_obj)

lemma look_balancers:
  "look_obj (if c \<and> own_props hosts \<noteq> [] then hosts else obj []) k = (if c then look_obj hosts k else None)"
  by (simp add: look_obj_def obj_def)

lemma look_hosts_of: "look_obj (get (hosts_of hosts) ''hosts'') k = look_obj hosts k"
  by (simp add: hosts_of_get look_obj_def obj_def)

lemma clean_keys_vars:
  assumes "clean_keys vars = Ok cleaned"
  shows "is_obj vars \<Longrightarrow> wf_obj vars \<Longrightarrow> is_obj cleaned \<and> wf_obj cleaned"
    and "is_obj vars \<Longrightarrow> k \<noteq> ''ssh_public_keys'' \<Longrightarrow> get cleaned k = get vars k"
  using assms
  by (cases vars; auto simp: clean_keys_def res_simps wf_obj_def distinct_update map_of_update
      split: js.splits)+

lemma export_inventory_Ok:
  assumes "export_inventory jsonParse cmp response = Ok inventory"
  obtains servers g cleaned where
    "valid_servers response = Ok servers"
    "group_servers (parsed_vars jsonParse (get response ''extra_vars'')) servers = Ok g"
    "clean_keys (parsed_vars jsonParse (get response ''extra_vars'')) = Ok cleaned"
    "inventory = inventory_of (sorted_vars cmp cleaned) g"
  using assms by (auto simp: export_inventory_def res_simps Let_def)

lemma valid_servers_eq:
  "get response ''servers'' = Arr xs \<Longrightarrow> valid_servers response = Ok servers \<Longrightarrow>
     servers = filter valid_server xs"
  by (auto simp: valid_servers_def js_or_def res_simps)

definition exported_host :: "js \<Rightarrow> string \<Rightarrow> js \<Rightarrow> js option" where
  "exported_host inventory grp server =
     look_obj (path inventory [''all'', ''children'', grp, ''hosts'']) (server_ip server)"

lemma exported_groups:
  "path (inventory_of vs g) [''all'', ''children'', ''master'', ''hosts''] = get (hosts_of (masterHosts g)) ''hosts''"
  "path (inventory_of vs g) [''all'', ''children'', ''replica'', ''hosts''] = get (hosts_of (replicaHosts g)) ''hosts''"
  "path (inventory_of vs g) [''all'', ''children'', ''etcd_cluster'', ''hosts''] = get (hosts_of (etcdHosts g)) ''hosts''"
  "path (inventory_of vs g) [''all'', ''children'', ''balancers'', ''hosts''] =
     (if truthy (get vs ''with_haproxy_load_balancing'') \<and> own_props (balancerHosts g) \<noteq> []
      then balancerHosts g else obj [])"
  "path (inventory_of vs g) [''all'', ''vars''] = vs"
  by (simp_all add: inventory_of_def get_obj)

text \<open>
  C31: in the exported inventory every valid server with its own address is in exactly one of the
  groups master and replica, the one its role says, with its data, and is a member of etcd; it is a
  balancer exactly when the cluster's variables switch HAProxy on.
\<close>

theorem export_places_every_server:
  assumes ok: "export_inventory jsonParse cmp response = Ok inventory"
    and servers: "get response ''servers'' = Arr xs" "server \<in> set xs" "valid_server server"
    and addresses: "distinct (map server_ip (filter valid_server xs))"
    and vars: "vars = parsed_vars jsonParse (get response ''extra_vars'')" "is_obj vars" "wf_obj vars"
  shows "exported_host inventory ''master'' server = (if is_master server then Some (host_data server) else None)
     \<and> exported_host inventory ''replica'' server = (if is_master server then None else Some (host_data server))
     \<and> exported_host inventory ''etcd_cluster'' server = Some (host_only server)
     \<and> exported_host inventory ''balancers'' server =
          (if truthy (get vars ''with_haproxy_load_balancing'') then Some (host_only server) else None)"
proof -
  let ?vs = "filter valid_server xs" and ?h = "truthy (get vars ''with_haproxy_load_balancing'')"
  from ok obtain ss g cleaned where e: "valid_servers response = Ok ss" "group_servers vars ss = Ok g"
      "clean_keys vars = Ok cleaned" "inventory = inventory_of (sorted_vars cmp cleaned) g"
    unfolding vars(1) by (rule export_inventory_Ok)
  have g: "g = fold (add_server ?h) ?vs no_hosts"
    using group_servers_fold [OF e(2)] valid_servers_eq [OF servers(1) e(1)] by simp
  have s: "server \<in> set ?vs" using servers by simp
  have hp: "get (sorted_vars cmp cleaned) ''with_haproxy_load_balancing'' = get vars ''with_haproxy_load_balancing''"
    using clean_keys_vars [OF e(3)] vars by (simp add: get_sorted_vars)
  have inj: "inj_on server_ip (set ?vs)" using addresses by (simp add: distinct_map)
  have d: "distinct (map server_ip (filter Q ?vs))" for Q
    using addresses by (simp add: distinct_map_filter del: filter_filter)
  have present: "look_obj (fold (put_host data) (filter Q ?vs) (obj [])) (server_ip server) =
      (if Q server then Some (data server) else None)" for Q data
  proof (cases "Q server")
    case True
    then show ?thesis using s look_hosts_distinct [OF d] by (simp del: filter_filter)
  next
    case False
    then have "server_ip server \<notin> server_ip ` set (filter Q ?vs)"
      using inj s by (auto dest: inj_onD)
    then show ?thesis using False look_hosts_absent by (simp del: filter_filter)
  qed
  have "own_props (fold (put_host host_only) ?vs (obj [])) \<noteq> []"
    using present [where Q = "\<lambda>_. True" and data = host_only] by (auto simp: look_obj_def)
  then show ?thesis
    using present [where Q = is_master] present [where Q = "\<lambda>s. \<not> is_master s"] present [where Q = "\<lambda>_. True"]
    by (simp add: exported_host_def e(4) exported_groups look_hosts_of look_balancers hp g groups_fold
        no_hosts_def assign_store.look_empty del: filter_filter path.simps)
qed

definition exported_cluster :: js where
  "exported_cluster = obj
     [P ''extra_vars'' (obj [P ''with_haproxy_load_balancing'' (Bool True),
        P ''ssh_public_keys'' (Str '' 'ssh-ed25519  AAAA' '')]),
      P ''servers'' (Arr
        [obj [P ''ip'' (Str ''10.0.0.1''), P ''name'' (Str ''pg1''), P ''role'' (Str ''leader'')],
         obj [P ''ip'' (Str ''10.0.0.2''), P ''name'' (Str ''pg2''), P ''role'' (Str ''replica'')],
         obj [P ''ip'' (Str ''undefined''), P ''name'' (Str ''pg3'')]])]"

theorem export_places_every_server_witness:
  "\<exists>inventory. export_inventory (\<lambda>_. Throw SyntaxError) (\<lambda>_ _. 0) exported_cluster = Ok inventory
     \<and> exported_host inventory ''replica'' (at (get exported_cluster ''servers'') 0) = None
     \<and> exported_host inventory ''balancers'' (at (get exported_cluster ''servers'') 0) \<noteq> None"
proof -
  let ?s = "at (get exported_cluster ''servers'') 0" and ?vars = "get exported_cluster ''extra_vars''"
  have "is_ok (export_inventory (\<lambda>_. Throw SyntaxError) (\<lambda>_ _. 0) exported_cluster)" by code_simp
  then obtain inventory where i: "export_inventory (\<lambda>_. Throw SyntaxError) (\<lambda>_ _. 0) exported_cluster = Ok inventory"
    by (auto simp: is_ok_iff)
  have a: "get exported_cluster ''servers'' = Arr (elems (get exported_cluster ''servers''))" by code_simp
  have b: "?s \<in> set (elems (get exported_cluster ''servers''))" "valid_server ?s" by code_simp+
  have c: "distinct (map server_ip (filter valid_server (elems (get exported_cluster ''servers''))))" by code_simp
  have v: "?vars = parsed_vars (\<lambda>_. Throw SyntaxError) ?vars" "is_obj ?vars" "wf_obj ?vars" by code_simp+
  have "is_master ?s" "truthy (get ?vars ''with_haproxy_load_balancing'')" by code_simp+
  with export_places_every_server [OF i a b c v] i show ?thesis by auto
qed

end
