(* ===== verification/Tables.thy ===== *)
theory Tables
  imports RowActions
begin

text \<open>
  The tables of the console (\<open>widgets/*-table\<close>, \<open>shared/ui/default-table\<close>,
  \<open>features/row-actions-menu\<close>, \<open>features/*-table-buttons\<close>): the rows a table makes of the
  server's list, the page it asks for, its columns and its configuration. Material React Table, its
  ranking function and date-fns are parameters.
\<close>

section \<open>Rows\<close>

text \<open>\<open>data?.map(row) ?? []\<close>\<close>

definition mapped_rows :: "(js \<Rightarrow> js res) \<Rightarrow> js \<Rightarrow> js res" where
  "mapped_rows row v =
     (if nullish v then Ok (Arr [])
      else case v of Arr xs \<Rightarrow> map_res Arr (map_all row xs) | _ \<Rightarrow> Throw TypeError)"

definition row_of :: "(js \<Rightarrow> part list) \<Rightarrow> js \<Rightarrow> js res" where
  "row_of parts item = (if nullish item then Throw TypeError else Ok (obj (parts item)))"

definition pathname :: "js \<Rightarrow> js" where
  "pathname location = Fn ''pathname'' [location]"

definition cluster_overview_path :: string where
  "cluster_overview_path = ''/clusters/:clusterId/overview''"

definition clusterStatusColorNamesMap :: js where
  "clusterStatusColorNamesMap = obj
     [P CS_HEALTHY (Fn ''asset'' [Str ''correctIcon.svg'']),
      P CS_UNHEALTHY (Fn ''asset'' [Str ''warningIcon.svg'']),
      P CS_DEGRADED (Fn ''asset'' [Str ''errorIcon.svg'']),
      P CS_UNAVAILABLE (Fn ''asset'' [Str ''errorIcon.svg''])]"

definition cluster_name_cell :: "js \<Rightarrow> js" where
  "cluster_name_cell cluster =
     (if get cluster ''status'' \<in> {Str CS_DEPLOYING, Str CS_FAILED}
      then elem ''Typography'' [] [get cluster ''name'']
      else elem ''Link''
        [P ''href'' (pathname (generateAbsoluteRouterPath cluster_overview_path
           (obj [P ''clusterId'' (get cluster ''id'')])))]
        [get cluster ''name''])"

definition cluster_status_cell :: "js \<Rightarrow> js" where
  "cluster_status_cell cluster =
     (let icon = get clusterStatusColorNamesMap (js_str (get cluster ''status'')) in
      elem ''Stack'' [P ''direction'' (Str ''row''), P ''gap'' (Num 1), P ''alignItems'' (Str ''center'')]
       [if get cluster ''status'' = Str CS_DEPLOYING then elem ''CircularProgress'' [P ''size'' (Num 14)] []
        else when_js (truthy icon)
          (elem ''img'' [P ''src'' icon, P ''alt'' (get cluster ''status''), P ''width'' (Str ''16px'')] []),
        elem ''Typography'' [] [get cluster ''status'']])"

definition cluster_row :: "js \<Rightarrow> part list" where
  "cluster_row cluster =
     [P CT_NAME (cluster_name_cell cluster),
      P CT_STATUS (cluster_status_cell cluster),
      P CT_CREATION_TIME (get cluster ''creation_time''),
      P CT_ENVIRONMENT (get cluster ''environment''),
      P CT_SERVERS (coalesce (path cluster [''servers'', ''length'']) (Str ''-'')),
      P CT_POSTGRES_VERSION (coalesce (get cluster ''postgres_version'') (Str ''-'')),
      P CT_LOCATION (coalesce (get cluster ''cluster_location'') (Str ''-'')),
      P CT_ID (get cluster ''id'')]"

definition useGetClustersTableData :: "js \<Rightarrow> js res" where
  "useGetClustersTableData = mapped_rows (row_of cluster_row)"

definition operation_row :: "js \<Rightarrow> part list" where
  "operation_row operation =
     [P OT_ID (get operation ''id''),
      P OT_CLUSTER (get operation ''cluster_name''),
      P OT_STARTED (get operation ''started''),
      P OT_FINISHED (if get operation ''status'' = Str ''in_progress'' then Str ''-''
                     else coalesce (get operation ''finished'') (Str ''-'')),
      P OT_TYPE (get operation ''type''),
      P OT_STATUS (get operation ''status''),
      P OT_ENVIRONMENT (get operation ''environment'')]"

definition useGetOperationsTableData :: "js \<Rightarrow> js res" where
  "useGetOperationsTableData = mapped_rows (row_of operation_row)"

definition secret_row :: "js \<Rightarrow> part list" where
  "secret_row secret =
     [P ST_NAME (get secret ''name''),
      P ST_TYPE (get secret ''type''),
      P ST_CREATED (get secret ''created_at''),
      P ST_UPDATED (get secret ''updated_at''),
      P ST_USED (Str (js_str (to_bool (get secret ''is_used'')))),
      P ST_ID (get secret ''id''),
      P ST_USED_BY (get secret ''used_by_clusters'')]"

definition useGetSecretsTableData :: "js \<Rightarrow> js res" where
  "useGetSecretsTableData = mapped_rows (row_of secret_row)"

definition project_row :: "js \<Rightarrow> part list" where
  "project_row secret =
     [P PT_ID (get secret ''id''),
      P PT_NAME (get secret ''name''),
      P PT_CREATED (get secret ''created_at''),
      P PT_UPDATED (get secret ''updated_at''),
      P PT_DESCRIPTION (coalesce (get secret ''description'') (Str ''-''))]"

definition useGetProjectsTableData :: "js \<Rightarrow> js res" where
  "useGetProjectsTableData = mapped_rows (row_of project_row)"

definition environment_row :: "js \<Rightarrow> part list" where
  "environment_row secret =
     [P ET_ID (get secret ''id''),
      P ET_NAME (get secret ''name''),
      P ET_CREATED (get secret ''created_at''),
      P ET_UPDATED (get secret ''updated_at''),
      P ET_DESCRIPTION (coalesce (get secret ''description'') (Str ''-''))]"

definition useGetEnvironmentsTableData :: "js \<Rightarrow> js res" where
  "useGetEnvironmentsTableData = mapped_rows (row_of environment_row)"

text \<open>\<open>item?.tags && <Box>...</Box>\<close>; every read of an item is optional here.\<close>

definition tags_cell :: "js \<Rightarrow> js" where
  "tags_cell item =
     (if truthy (get item ''tags'')
      then elem ''Box''
        [P ''display'' (Str ''flex''), P ''gap'' (Num 1), P ''alignItems'' (Str ''center''),
         P ''flexWrap'' (Str ''wrap''), P ''width'' (Str ''100%'')]
        [Arr (map (\<lambda>(key, value). elem ''Chip''
           [P ''key'' (Str key), P ''label'' (Str (key @ '': '' @ js_str value))] [])
           (entries (get item ''tags'')))]
      else get item ''tags'')"

definition instance_row :: "js \<Rightarrow> part list" where
  "instance_row item =
     [P COT_NAME (get item ''name''),
      P COT_HOST (get item ''ip''),
      P COT_ROLE (get item ''role''),
      P COT_STATE (get item ''status''),
      P COT_TIMELINE (get item ''timeline''),
      P COT_LAG_IN_MB (get item ''lag''),
      P COT_TAGS (tags_cell item),
      P COT_PENDING_RESTART (Str (js_str (get item ''pending_restart''))),
      P COT_ID (get item ''id'')]"

definition useGetOverviewClusterTableData :: "js \<Rightarrow> js res" where
  "useGetOverviewClusterTableData = mapped_rows (\<lambda>item. Ok (obj (instance_row item)))"

section \<open>The page a table asks for\<close>

definition PAGINATION_LIMIT_OPTIONS :: "js list" where
  "PAGINATION_LIMIT_OPTIONS =
     map (\<lambda>n. obj [P ''value'' (Num n), P ''label'' (Num n)]) [5, 10, 25, 50, 100]"

record table_state =
  pageIndex :: int
  pageSize :: int
  sorting :: "js list"

definition initial_page_size :: int where
  "initial_page_size = (case get (PAGINATION_LIMIT_OPTIONS ! 1) ''value'' of Num n \<Rightarrow> n | _ \<Rightarrow> 0)"

definition sort_on :: "string \<Rightarrow> js" where
  "sort_on column = obj [P ''id'' (Str column), P ''desc'' (Bool True)]"

definition initial_table :: "js list \<Rightarrow> table_state" where
  "initial_table sorts = \<lparr>pageIndex = 0, pageSize = initial_page_size, sorting = sorts\<rparr>"

definition page_args :: "table_state \<Rightarrow> part list" where
  "page_args s = [P ''offset'' (Num (pageIndex s * pageSize s)), P ''limit'' (Num (pageSize s))]"

text \<open>\<open>...(sorting?.[0] ? { sortBy: manageSortingOrder(sorting[0]) } : {})\<close>\<close>

definition sort_args :: "table_state \<Rightarrow> part" where
  "sort_args s = (case sorting s of
       [] \<Rightarrow> Spread_if False []
     | c # cs \<Rightarrow> Spread_if (truthy c) [P ''sortBy'' (manageSortingOrder c)])"

definition clusters_args :: "js \<Rightarrow> table_state \<Rightarrow> js" where
  "clusters_args currentProject s =
     obj (P ''projectId'' (js_number currentProject) # page_args s @ [sort_args s])"

definition operations_args :: "js \<Rightarrow> js \<Rightarrow> js \<Rightarrow> table_state \<Rightarrow> js" where
  "operations_args currentProject startDate endDate s =
     obj ([P ''projectId'' (js_number currentProject), P ''startDate'' (get startDate ''value''),
           P ''endDate'' endDate] @ page_args s @ [sort_args s])"

definition secrets_args :: "js \<Rightarrow> table_state \<Rightarrow> js" where
  "secrets_args currentProject s = obj (P ''projectId'' (js_number currentProject) # page_args s)"

definition projects_args :: "table_state \<Rightarrow> js" where
  "projects_args s = obj (page_args s)"

definition environments_args :: "table_state \<Rightarrow> js" where
  "environments_args s = obj (page_args s)"

section \<open>Columns\<close>

text \<open>\<open>columnHelper.accessor(name, options)\<close>\<close>

definition column :: "string \<Rightarrow> part list \<Rightarrow> js" where
  "column name options = Fn ''columnHelper.accessor'' [Str name, obj options]"

definition header :: "string \<Rightarrow> string \<Rightarrow> part" where
  "header key ns = P ''header'' (tr key [P ''ns'' (Str ns)])"

definition timestamp_cell :: part where
  "timestamp_cell = P ''Cell'' (Fn ''convertTimestampToReadableTime'' [])"

text \<open>The filters of the two cells that are elements rank the text inside the element.\<close>

definition name_filter :: "(js \<Rightarrow> js \<Rightarrow> js) \<Rightarrow> js \<Rightarrow> js \<Rightarrow> js" where
  "name_filter rankItem row filterValue =
     get (rankItem (path (get row CT_NAME) [''props'', ''children'']) filterValue) ''passed''"

definition status_filter :: "(js \<Rightarrow> js \<Rightarrow> js) \<Rightarrow> js \<Rightarrow> js \<Rightarrow> js" where
  "status_filter rankItem row filterValue =
     get (rankItem (path (get row CT_STATUS) [''props'', ''children'', ''1'', ''props'', ''children''])
       filterValue) ''passed''"

definition getClusterTableColumns :: "js \<Rightarrow> js \<Rightarrow> js list" where
  "getClusterTableColumns environmentOptions postgresVersionOptions =
     [column CT_NAME [header ''clusterName'' ''clusters'', P ''filterFn'' (Fn ''name_filter'' []),
        P ''size'' (Num 150), P ''enableHiding'' (Bool False), P ''grow'' (Bool True),
        P ''visibleInShowHideMenu'' (Bool False)],
      column CT_STATUS [header ''status'' ''shared'', P ''size'' (Num 120), P ''filterVariant'' (Str ''select''),
        P ''filterSelectOptions'' (Arr (map (Str \<circ> snd) CLUSTER_STATUSES)),
        P ''filterFn'' (Fn ''status_filter'' []), P ''grow'' (Bool True)],
      column CT_CREATION_TIME [P ''accessorFn'' (Fn ''new Date'' [Str CT_CREATION_TIME]),
        header ''creationTime'' ''clusters'', P ''size'' (Num 260), P ''filterVariant'' (Str ''date-range''),
        P ''grow'' (Bool True),
        P ''muiFilterTextFieldProps'' (obj [P ''sx'' (obj [P ''display'' (Str ''flex''),
          P ''flexDirection'' (Str ''column'')])]),
        P ''muiFilterDatePickerProps'' (obj [P ''sx'' (obj [P ''display'' (Str ''flex''),
          P ''flexDirection'' (Str ''column'')]), P ''size'' (Str ''small'')]),
        timestamp_cell],
      column CT_ENVIRONMENT [header ''environment'' ''shared'', P ''size'' (Num 140),
        P ''filterVariant'' (Str ''select''), P ''filterSelectOptions'' environmentOptions, P ''grow'' (Bool True)],
      column CT_SERVERS [header ''servers'' ''clusters'', P ''size'' (Num 120), P ''grow'' (Bool True)],
      column CT_POSTGRES_VERSION [header ''postgresVersion'' ''clusters'', P ''size'' (Num 150),
        P ''filterVariant'' (Str ''select''), P ''filterSelectOptions'' postgresVersionOptions,
        P ''grow'' (Bool True)],
      column CT_LOCATION [header ''location'' ''clusters'', P ''grow'' (Bool True)]]"

definition operationTableColumns :: "js list" where
  "operationTableColumns =
     [column OT_ID [header ''id'' ''shared'', P ''size'' (Num 80), P ''grow'' (Bool True),
        P ''visibleInShowHideMenu'' (Bool False)],
      column OT_STARTED [header ''started'' ''operations'', P ''grow'' (Bool True), P ''size'' (Num 120), timestamp_cell],
      column OT_FINISHED [header ''finished'' ''operations'', P ''grow'' (Bool True), P ''size'' (Num 120), timestamp_cell],
      column OT_TYPE [header ''type'' ''operations'', P ''grow'' (Bool True), P ''size'' (Num 60)],
      column OT_STATUS [header ''status'' ''shared'', P ''grow'' (Bool True), P ''size'' (Num 80)],
      column OT_CLUSTER [header ''cluster'' ''clusters'', P ''grow'' (Bool True), P ''size'' (Num 140)],
      column OT_ENVIRONMENT [header ''environment'' ''shared'', P ''grow'' (Bool True), P ''size'' (Num 140)]]"

definition sized_column :: "string \<Rightarrow> string \<Rightarrow> int \<Rightarrow> part list \<Rightarrow> js" where
  "sized_column name key width options =
     column name ([header key ''shared'', P ''size'' (Num width), P ''grow'' (Bool True)] @ options)"

definition secretsTableColumns :: "js list" where
  "secretsTableColumns =
     [sized_column ST_NAME ''name'' 80 [],
      sized_column ST_TYPE ''type'' 80 [],
      sized_column ST_CREATED ''created'' 150 [timestamp_cell],
      sized_column ST_UPDATED ''updated'' 150 [timestamp_cell],
      sized_column ST_USED ''used'' 150 [],
      sized_column ST_ID ''id'' 80 []]"

definition projectsTableColumns :: "js list" where
  "projectsTableColumns =
     [sized_column PT_ID ''id'' 80 [],
      sized_column PT_NAME ''name'' 80 [],
      sized_column PT_CREATED ''created'' 150 [timestamp_cell],
      sized_column PT_UPDATED ''updated'' 150 [timestamp_cell],
      sized_column PT_DESCRIPTION ''description'' 150 []]"

definition environmentTableColumns :: "js list" where
  "environmentTableColumns =
     [sized_column ET_ID ''id'' 80 [],
      sized_column ET_NAME ''name'' 80 [],
      sized_column ET_CREATED ''created'' 150 [timestamp_cell],
      sized_column ET_UPDATED ''updated'' 150 [timestamp_cell],
      sized_column ET_DESCRIPTION ''description'' 150 []]"

definition clusterOverviewTableColumns :: "js list" where
  "clusterOverviewTableColumns =
     [column COT_NAME [header ''name'' ''shared''],
      column COT_HOST [header ''host'' ''clusters'', P ''size'' (Num 70)],
      column COT_ROLE [header ''role'' ''clusters'', P ''size'' (Num 120)],
      column COT_STATE [header ''state'' ''clusters'', P ''size'' (Num 110)],
      column COT_TIMELINE [header ''timeline'' ''clusters'', P ''size'' (Num 80)],
      column COT_LAG_IN_MB [header ''lagInMb'' ''clusters'', P ''size'' (Num 140)],
      column COT_PENDING_RESTART [header ''pendingRestart'' ''clusters''],
      column COT_TAGS [header ''tags'' ''clusters'']]"

section \<open>Configurations and buttons\<close>

definition render_actions :: "string \<Rightarrow> part" where
  "render_actions component = P ''renderRowActions''
     (elem ''RowActionsMenu'' [P ''ActionsComponent'' (Fn component [])] [])"

definition row_count :: "js \<Rightarrow> part" where
  "row_count query = P ''rowCount'' (coalesce (path query [''data'', ''meta'', ''count'']) (Num 0))"

definition pagination_js :: "table_state \<Rightarrow> js" where
  "pagination_js s = obj [P ''pageIndex'' (Num (pageIndex s)), P ''pageSize'' (Num (pageSize s))]"

definition flag :: "string \<Rightarrow> bool \<Rightarrow> part" where
  "flag name b = P name (Bool b)"

definition hidden_columns :: "string list \<Rightarrow> part" where
  "hidden_columns names = P ''initialState''
     (obj [P ''columnVisibility'' (obj (map (\<lambda>n. P n (Bool False)) names))])"

definition named_options :: "js \<Rightarrow> string \<Rightarrow> js" where
  "named_options query name =
     (case path query [''data'', ''data''] of Arr xs \<Rightarrow> Arr (map (\<lambda>x. get x name) xs) | _ \<Rightarrow> Arr [])"

definition clusters_table_config :: "js \<Rightarrow> js \<Rightarrow> js \<Rightarrow> table_state \<Rightarrow> js res" where
  "clusters_table_config clustersList environments postgresVersions s =
     and_then (useGetClustersTableData (path clustersList [''data'', ''data''])) (\<lambda>data. Ok (obj
       [P ''columns'' (Arr (getClusterTableColumns (named_options environments ''name'')
          (named_options postgresVersions ''major_version''))),
        P ''data'' data,
        flag ''enablePagination'' True, flag ''enableRowSelection'' True, flag ''showGlobalFilter'' True,
        flag ''manualPagination'' True, flag ''enableRowActions'' True, flag ''enableStickyHeader'' True,
        flag ''enableMultiSort'' False,
        P ''onPaginationChange'' (Fn ''setPagination'' []), P ''onSortingChange'' (Fn ''setSorting'' []),
        row_count clustersList,
        P ''state'' (obj
          [P ''isLoading'' (js_or (get clustersList ''isFetching'')
             (js_or (get environments ''isFetching'') (get postgresVersions ''isFetching''))),
           P ''pagination'' (pagination_js s), P ''sorting'' (Arr (sorting s))]),
        hidden_columns [CT_LOCATION],
        render_actions ''ClustersTableRowActions'',
        P ''renderEmptyRowsFallback'' (elem ''ClustersEmptyRowsFallback'' [] [])]))"

definition operations_table_config :: "js \<Rightarrow> table_state \<Rightarrow> js res" where
  "operations_table_config operationsList s =
     and_then (useGetOperationsTableData (path operationsList [''data'', ''data''])) (\<lambda>data. Ok (obj
       [P ''columns'' (Arr operationTableColumns), P ''data'' data,
        flag ''enablePagination'' True, flag ''showGlobalFilter'' True, flag ''manualSorting'' True,
        flag ''manualPagination'' True, flag ''enableRowActions'' True, flag ''enableStickyHeader'' True,
        flag ''enableMultiSort'' False,
        P ''onPaginationChange'' (Fn ''setPagination'' []), P ''onSortingChange'' (Fn ''setSorting'' []),
        row_count operationsList,
        P ''state'' (obj [P ''isLoading'' (get operationsList ''isFetching''),
          P ''pagination'' (pagination_js s), P ''sorting'' (Arr (sorting s))]),
        render_actions ''OperationsTableRowActions'']))"

text \<open>The three tables of the settings pages share their options.\<close>

definition settings_table_config :: "js list \<Rightarrow> (js \<Rightarrow> js res) \<Rightarrow> string \<Rightarrow> js \<Rightarrow> table_state \<Rightarrow> js res" where
  "settings_table_config columns rows actions query s =
     and_then (rows (path query [''data'', ''data''])) (\<lambda>data. Ok (obj
       [P ''columns'' (Arr columns), P ''data'' data,
        flag ''enablePagination'' True, flag ''enableRowSelection'' True, flag ''showGlobalFilter'' True,
        flag ''enableRowActions'' True, flag ''enableStickyHeader'' True, flag ''enableMultiSort'' False,
        flag ''enableSorting'' False,
        P ''onPaginationChange'' (Fn ''setPagination'' []), flag ''manualPagination'' True,
        row_count query,
        P ''state'' (obj [P ''isLoading'' (get query ''isFetching''), P ''pagination'' (pagination_js s)]),
        render_actions actions]))"

definition secrets_table_config :: "js \<Rightarrow> table_state \<Rightarrow> js res" where
  "secrets_table_config =
     settings_table_config secretsTableColumns useGetSecretsTableData ''SettingsTableRowActions''"

definition projects_table_config :: "js \<Rightarrow> table_state \<Rightarrow> js res" where
  "projects_table_config =
     settings_table_config projectsTableColumns useGetProjectsTableData ''ProjectsTableRowActions''"

definition environments_table_config :: "js \<Rightarrow> table_state \<Rightarrow> js res" where
  "environments_table_config =
     settings_table_config environmentTableColumns useGetEnvironmentsTableData ''EnvironmentsTableRowActions''"

definition overview_table_config :: "js \<Rightarrow> js \<Rightarrow> js res" where
  "overview_table_config items isLoading =
     and_then (useGetOverviewClusterTableData items) (\<lambda>data. Ok (obj
       [P ''columns'' (Arr clusterOverviewTableColumns), P ''data'' data,
        flag ''enablePagination'' False, flag ''enableRowActions'' True, flag ''showGlobalFilter'' False,
        P ''state'' (obj [P ''isLoading'' isLoading]),
        hidden_columns [COT_PENDING_RESTART, COT_TAGS],
        render_actions ''ClustersOverviewTableRowActions'']))"

text \<open>The common table: the options of a table override the defaults.\<close>

definition DefaultTable :: "js \<Rightarrow> js" where
  "DefaultTable tableConfig = obj
     [P ''muiPaginationProps'' (obj [P ''rowsPerPageOptions'' (Arr PAGINATION_LIMIT_OPTIONS)]),
      P ''muiSearchTextFieldProps'' (obj [P ''placeholder'' (tr ''defaultTableSearchPlaceholder'' []),
        P ''sx'' (obj [P ''minWidth'' (Str ''300px'')])]),
      P ''displayColumnDefOptions'' (obj
        [P ''mrt-row-select'' (obj [P ''visibleInShowHideMenu'' (Bool False)]),
         P ''mrt-row-actions'' (obj [P ''visibleInShowHideMenu'' (Bool False)])]),
      P ''layoutMode'' (Str ''grid''), P ''positionActionsColumn'' (Str ''last''),
      P ''positionGlobalFilter'' (Str ''left''),
      Spread tableConfig]"

text \<open>The menu of a row: open while it has an anchor.\<close>

definition RowActionsMenu :: "js \<Rightarrow> string \<Rightarrow> js \<Rightarrow> js" where
  "RowActionsMenu anchorEl component row = fragment
     [elem ''IconButton''
       [P ''id'' (Str ''row-actions-menu-button''),
        P ''aria-controls'' (if truthy anchorEl then Str ''row-actions-menu'' else Undef),
        P ''aria-haspopup'' (Str ''true''),
        P ''aria-expanded'' (if truthy anchorEl then Str ''true'' else Undef),
        P ''onClick'' (Fn ''handleOpenMenu'' [])]
       [elem ''MoreHorizIcon'' [] []],
      elem ''Menu''
       [P ''id'' (Str ''row-actions-menu''), P ''anchorEl'' anchorEl, P ''open'' (to_bool anchorEl),
        P ''onClose'' (Fn ''handleCloseMenu'' []),
        P ''slotProps'' (obj [P ''list'' (obj [P ''aria-labelledby'' (Str ''row-actions-menu-button'')])])]
       [elem component [P ''row'' row, P ''closeMenu'' (Fn ''handleCloseMenu'' [])] []]]"

definition operation_log_path :: string where
  "operation_log_path = ''/operations/:operationId/log''"

definition show_operation :: "js \<Rightarrow> ('w world_scheme, js) action" where
  "show_operation row =
     bind (lift_res (original row)) (\<lambda>orig.
     bind (lift_res (member orig ''id'')) (\<lambda>operationId.
     seq (emit (Navigate (generateAbsoluteRouterPath operation_log_path (obj [P ''operationId'' operationId]))))
         closeMenu))"

definition OperationsTableRowActions :: js where
  "OperationsTableRowActions = Arr
     [elem ''MenuItem'' [P ''key'' (Num 0), P ''onClick'' (Fn ''handleButtonClick'' [])]
       [tr ''showDetails'' []]]"

definition ClustersTableButtons :: js where
  "ClustersTableButtons =
     elem ''Stack'' [P ''direction'' (Str ''row''), P ''justifyContent'' (Str ''flex-end''), P ''gap'' (Str ''8px'')]
       [elem ''Button'' [P ''onClick'' (Fn ''handleRefresh'' []), P ''startIcon'' (elem ''RefreshIcon'' [] []),
          P ''variant'' (Str ''text'')] [tr ''refresh'' [P ''ns'' (Str ''shared'')]],
        elem ''Button'' [P ''onClick'' (Fn ''handleCreateCluster'' []), P ''startIcon'' (elem ''AddIcon'' [] []),
          P ''variant'' (Str ''text'')] [tr ''createCluster'' [P ''ns'' (Str ''clusters'')]]]"

definition handleRefreshCluster :: "server \<Rightarrow> js \<Rightarrow> ('w world_scheme, js) action" where
  "handleRefreshCluster srv clusterId =
     seq (request_settled srv ''postClustersByIdRefresh'' (obj [P ''id'' (js_number clusterId)])) (ret Undef)"

section \<open>The period of the operations table\<close>

text \<open>date-fns' functions and \<open>Date\<close> are parameters: \<open>iso\<close> is
  \<open>startOfDay(date).toISOString()\<close>.\<close>

record 'd dates =
  now :: 'd
  subDays :: "'d \<Rightarrow> int \<Rightarrow> 'd"
  subMonths :: "'d \<Rightarrow> int \<Rightarrow> 'd"
  subYears :: "'d \<Rightarrow> int \<Rightarrow> 'd"
  startOfDay :: "'d \<Rightarrow> 'd"
  toISOString :: "'d \<Rightarrow> string"

definition formatOperationsDate :: "'d dates \<Rightarrow> 'd \<Rightarrow> string" where
  "formatOperationsDate d date = toISOString d (startOfDay d date)"

definition getOperationsTimeNameValue :: "'d dates \<Rightarrow> string \<Rightarrow> js" where
  "getOperationsTimeNameValue d name = obj
     [P ''name'' (Str name),
      P ''value'' (Str
        (if name = DR_LAST_DAY then formatOperationsDate d (subDays d (now d) 1)
         else if name = DR_LAST_WEEK then formatOperationsDate d (subDays d (now d) 7)
         else if name = DR_LAST_MONTH then formatOperationsDate d (subMonths d (now d) 1)
         else if name = DR_LAST_THREE_MONTHS then formatOperationsDate d (subMonths d (now d) 3)
         else if name = DR_LAST_SIX_MONTHS then formatOperationsDate d (subMonths d (now d) 6)
         else if name = DR_LAST_YEAR then formatOperationsDate d (subYears d (now d) 1)
         else []))]"

definition range_variant :: "string \<Rightarrow> string \<Rightarrow> js" where
  "range_variant key value =
     obj [P ''label'' (tr key [P ''ns'' (Str ''operations'')]), P ''value'' (Str value)]"

definition getOperationsDateRangeVariants :: "js list" where
  "getOperationsDateRangeVariants =
     [range_variant ''lastDay'' DR_LAST_DAY,
      range_variant ''lastWeek'' DR_LAST_WEEK,
      range_variant ''lastMonth'' DR_LAST_MONTH,
      range_variant ''lastThreeMonths'' DR_LAST_THREE_MONTHS,
      range_variant ''lastSixMonths'' DR_LAST_SIX_MONTHS,
      range_variant ''lastYear'' DR_LAST_YEAR]"

definition initial_start_date :: "'d dates \<Rightarrow> js" where
  "initial_start_date d = obj
     [P ''name'' (get (getOperationsDateRangeVariants ! 0) ''value''),
      P ''value'' (Str (formatOperationsDate d (subDays d (now d) 1)))]"

definition OperationsTableButtons :: "js \<Rightarrow> js" where
  "OperationsTableButtons startDate =
     elem ''Stack'' [P ''direction'' (Str ''row''), P ''justifyContent'' (Str ''space-between''),
        P ''alignItems'' (Str ''center''), P ''gap'' (Str ''4px'')]
       [elem ''TextField'' [P ''select'' (Bool True), P ''size'' (Str ''small''), P ''variant'' (Str ''standard''),
          P ''value'' (get startDate ''name''), P ''onChange'' (Fn ''handleChange'' [])]
          [Arr (map (\<lambda>option. menu_item (get option ''value'') (get option ''label''))
             getOperationsDateRangeVariants)],
        elem ''Button'' [P ''onClick'' (Fn ''handleRefresh'' []), P ''startIcon'' (elem ''RefreshIcon'' [] []),
          P ''variant'' (Str ''text'')] [tr ''refresh'' [P ''ns'' (Str ''shared'')]]]"

section \<open>Facts\<close>

lemma mapped_rows_length:
  "mapped_rows f (Arr xs) = Ok v \<Longrightarrow> \<exists>rs. v = Arr rs \<and> length rs = length xs \<and> (\<forall>i < length xs. f (xs ! i) = Ok (rs ! i))"
  using map_all_eq_Ok_length [of f xs] map_all_eq_Ok_nth [of f xs]
  by (auto simp: mapped_rows_def map_res_eq_Ok)

lemma row_of_Ok: "row_of parts item = Ok r \<longleftrightarrow> \<not> nullish item \<and> r = obj (parts item)"
  by (auto simp: row_of_def)

lemma nat_str_1 [simp]: "nat_str (Suc 0) = ''1''"
  by (subst nat_str.simps) (simp add: digit_char_def)

lemma get_arr_1 [simp]: "get (Arr [x, y]) ''1'' = y"
  by (simp add: get.simps(2) del: map_upt_Suc)

text \<open>The remove button in the menu of a row.\<close>

definition remove_button :: "js \<Rightarrow> js" where
  "remove_button tableRow = path (ClustersTableRowActions (obj [P ''original'' tableRow]))
     [''props'', ''children'', ''1'', ''props'', ''children'']"

text \<open>
  The cell of a cluster's name is an element and so is that of its status; the filters of the two
  columns and the row's menu read the cluster's own name and status out of them.
\<close>

theorem cells_hold_name_and_status:
  assumes "useGetClustersTableData (Arr clusters) = Ok (Arr tableRows)" "i < length clusters"
  shows "length tableRows = length clusters
     \<and> name_filter rankItem (tableRows ! i) q = get (rankItem (get (clusters ! i) ''name'') q) ''passed''
     \<and> status_filter rankItem (tableRows ! i) q = get (rankItem (get (clusters ! i) ''status'') q) ''passed''
     \<and> path (remove_button (tableRows ! i)) [''props'', ''clusterName''] = get (clusters ! i) ''name''
     \<and> path (remove_button (tableRows ! i)) [''props'', ''clusterId''] = get (clusters ! i) ''id''"
proof -
  from assms have len: "length tableRows = length clusters" and r: "tableRows ! i = obj (cluster_row (clusters ! i))"
    using mapped_rows_length [of "row_of cluster_row" clusters] by (auto simp: useGetClustersTableData_def row_of_Ok)
  have n: "path (tableRows ! i) [CT_NAME, ''props'', ''children''] = get (clusters ! i) ''name''"
    by (simp add: r cluster_row_def cluster_name_cell_def get_obj)
  have s: "path (tableRows ! i) [CT_STATUS, ''props'', ''children'', ''1'', ''props'', ''children'']
      = get (clusters ! i) ''status''"
    by (simp add: r cluster_row_def cluster_status_cell_def get_obj Let_def)
  have d: "get (tableRows ! i) CT_ID = get (clusters ! i) ''id''"
    by (simp add: r cluster_row_def get_obj)
  show ?thesis
    using n s d by (simp add: len name_filter_def status_filter_def remove_button_def
        ClustersTableRowActions_def fragment_def get_obj Let_def)
qed

theorem cells_hold_name_and_status_witness:
  "\<exists>tableRows. useGetClustersTableData (Arr [obj [P ''name'' (Str ''pg''), P ''status'' (Str CS_FAILED)]]) = Ok (Arr tableRows)
     \<and> path (remove_button (tableRows ! 0)) [''props'', ''clusterName''] = Str ''pg''"
proof -
  let ?cs = "[obj [P ''name'' (Str ''pg''), P ''status'' (Str CS_FAILED)]]"
  obtain tableRows where r: "useGetClustersTableData (Arr ?cs) = Ok (Arr tableRows)"
    by (simp add: useGetClustersTableData_def mapped_rows_def row_of_def)
  have "(0 :: nat) < length ?cs" by simp
  from cells_hold_name_and_status [OF r this] show ?thesis
    using r by (simp add: get_obj)
qed

text \<open>
  The menu of a table's row acts on the item the row shows: removing the i-th row asks for the
  removal of the i-th item of the server's list, unless it is the active project or a used secret.
\<close>

theorem row_menu_acts_on_its_item:
  assumes "useGetProjectsTableData (Arr projects) = Ok (Arr projectRows)" "i < length projects"
    and "useGetSecretsTableData (Arr secrets) = Ok (Arr secretRows)" "j < length secrets"
  shows "requests_to ''deleteProjectsById''
       (trace (snd (remove_project srv current (obj [P ''original'' (projectRows ! i)]) \<lparr>trace = []\<rparr>)))
     = (if js_number current = get (projects ! i) ''id'' \<and> get (projects ! i) ''id'' \<noteq> NaN then []
        else [obj [P ''id'' (get (projects ! i) ''id'')]])
     \<and> requests_to ''deleteSecretsById''
       (trace (snd (remove_secret srv (obj [P ''original'' (secretRows ! j)]) \<lparr>trace = []\<rparr>)))
     = (if truthy (get (secrets ! j) ''is_used'') then [] else [obj [P ''id'' (get (secrets ! j) ''id'')]])"
proof -
  have p: "projectRows ! i = obj (project_row (projects ! i))"
    using assms(1,2) mapped_rows_length [of "row_of project_row" projects]
    by (auto simp: useGetProjectsTableData_def row_of_Ok)
  have s: "secretRows ! j = obj (secret_row (secrets ! j))"
    using assms(3,4) mapped_rows_length [of "row_of secret_row" secrets]
    by (auto simp: useGetSecretsTableData_def row_of_Ok)
  show ?thesis
    by (simp add: p s removal_requests project_row_def secret_row_def get_obj to_bool_def)
qed

theorem row_menu_acts_on_its_item_witness:
  "requests_to ''deleteSecretsById''
     (trace (snd (remove_secret (\<lambda>_ _ _. Ok Undef)
        (obj [P ''original'' (obj (secret_row (obj [P ''id'' (Num 7)])))]) \<lparr>trace = []\<rparr>)))
   = [obj [P ''id'' (Num 7)]]"
proof -
  let ?ps = "[obj [P ''id'' (Num 1)]]" and ?ss = "[obj [P ''id'' (Num 7)]]"
  have "useGetProjectsTableData (Arr ?ps) = Ok (Arr [obj (project_row (?ps ! 0))])"
    and "useGetSecretsTableData (Arr ?ss) = Ok (Arr [obj (secret_row (?ss ! 0))])"
    by (simp_all add: useGetProjectsTableData_def useGetSecretsTableData_def mapped_rows_def row_of_def)
  from row_menu_acts_on_its_item [OF this(1) _ this(2), of 0 0 "\<lambda>_ _ _. Ok Undef" Undef]
  show ?thesis by (simp add: get_obj)
qed

end
