(* ===== verification/FormState.thy ===== *)
theory FormState
  imports Request Effects ApiTypes
begin

text \<open>
  The state of the page that creates a cluster: the values react-hook-form holds, and the state of
  the blocks that keep some of their own (\<open>entities/cluster/instances-block\<close>,
  \<open>storage-block\<close>, \<open>instances-amount-block\<close>). A handler is a state transformer; the effects a block
  registers run after the render that follows it, and then once more for the fields the first
  round changed. What a block reads with \<open>useWatch\<close> is the value of the render, an argument
  of its effects.

  \<open>reset(f)\<close> replaces the values by \<open>f\<close> of them and \<open>setValue(name, v)\<close> stores one
  field, as react-hook-form documents. A provider is compared by reference in React's dependency lists, and
  values read from a form may be copies: \<open>again\<close> says that a provider equal to the last
  one counts as a new one.
\<close>

record cluster_form =
  form_values :: js
  storage :: js
  volumeTypes :: js
  instances :: js
  isRightElementNeeded :: bool

definition set_field :: "string \<Rightarrow> js \<Rightarrow> (cluster_form, js) action" where
  "set_field name v = modify (\<lambda>s. s\<lparr>form_values := obj [Spread (form_values s), P name v]\<rparr>)"

definition reset_values :: "(js \<Rightarrow> js res) \<Rightarrow> (cluster_form, js) action" where
  "reset_values f = reading (\<lambda>s. bind (lift_res (f (form_values s))) (\<lambda>v. modify (form_values_update (\<lambda>_. v))))"

text \<open>\<open>v?.find(p)\<close>\<close>

fun find_res :: "(js \<Rightarrow> bool res) \<Rightarrow> js list \<Rightarrow> js res" where
  "find_res p [] = Ok Undef"
| "find_res p (x # xs) = and_then (p x) (\<lambda>b. if b then Ok x else find_res p xs)"

definition opt_find :: "(js \<Rightarrow> bool res) \<Rightarrow> js \<Rightarrow> js res" where
  "opt_find p v =
     (if nullish v then Ok Undef
      else case v of Arr xs \<Rightarrow> find_res p xs | _ \<Rightarrow> Throw TypeError)"

text \<open>\<open>v < n\<close>; the sizes of the API are integers.\<close>

definition below :: "js \<Rightarrow> int \<Rightarrow> bool" where
  "below v n = (case js_number v of Num x \<Rightarrow> x < n | _ \<Rightarrow> False)"

section \<open>The values the form starts with\<close>

definition CLOUD_CLUSTER_DEFAULT_VALUES :: "bool \<Rightarrow> js" where
  "CLOUD_CLUSTER_DEFAULT_VALUES expert = obj
     [P AMT_INSTANCES_AMOUNT (Num 3),
      P INST_INSTANCE_TYPE (Str ''small''),
      P STO_STORAGE_AMOUNT (Num 100),
      Spread_if expert
        [P INST_SERVER_TYPE (Str ''''),
         P NET_SERVER_NETWORK (Str ''''),
         P AMT_IS_SPOT_INSTANCES (Bool False),
         P STO_FILE_SYSTEM_TYPE (Str ''ext4''),
         P ADS_IS_CLOUD_LOAD_BALANCER (Bool True)]]"

definition DCS_DATABASES_DEFAULT_VALUES :: js where
  "DCS_DATABASES_DEFAULT_VALUES = obj
     [P DCS_DCS_DATABASE_HOSTNAME (Str ''''),
      P DCS_DCS_DATABASE_IP_ADDRESS (Str ''''),
      P DCS_DCS_DATABASE_PORT (Str ''2379'')]"

definition LOAD_BALANCERS_DATABASES_DEFAULT_VALUES :: js where
  "LOAD_BALANCERS_DATABASES_DEFAULT_VALUES = obj
     [P LB_LOAD_BALANCER_DATABASES_HOSTNAME (Str ''''),
      P LB_LOAD_BALANCER_DATABASES_IP_ADDRESS (Str '''')]"

definition LOCAL_CLUSTER_DEFAULT_VALUES :: "bool \<Rightarrow> js" where
  "LOCAL_CLUSTER_DEFAULT_VALUES expert = obj
     [P CF_AUTHENTICATION_METHOD (Str AUTH_SSH),
      Spread_if expert
        [P DCS_TYPE (Str DCST_ETCD),
         P DCS_IS_DEPLOY_NEW_CLUSTER (Bool True),
         P DCS_IS_DEPLOY_TO_DB_SERVERS (Bool True),
         P DCS_DCS_DATABASES (Arr (replicate 3 DCS_DATABASES_DEFAULT_VALUES)),
         P LB_IS_DEPLOY_TO_DATABASE_SERVERS (Bool False),
         P LB_LOAD_BALANCER_DATABASES (Arr [LOAD_BALANCERS_DATABASES_DEFAULT_VALUES]),
         P DIR_DATA_DIRECTORY (Str ''/pgdata/18/main'')]]"

definition empty_server :: js where
  "empty_server = obj
     [P DBS_DATABASE_HOSTNAME (Str ''''),
      P DBS_DATABASE_IP_ADDRESS (Str ''''),
      P DBS_DATABASE_LOCATION (Str '''')]"

definition first_database :: "js \<Rightarrow> js" where
  "first_database blockId = obj
     [P DB_DATABASE_NAME (Str ''db1''),
      P DB_USER_NAME (Str ''db1_user''),
      P DB_USER_PASSWORD (Str ''''),
      P DB_ENCODING (Str ''UTF8''),
      P DB_LOCALE (Str ''en_US.UTF-8''),
      P DB_BLOCK_ID blockId]"

definition first_pool :: js where
  "first_pool = obj
     [P POOL_POOL_NAME (Str ''db1''), P POOL_POOL_SIZE (Num 20), P POOL_POOL_MODE (Str ''transaction'')]"

text \<open>\<open>blockId\<close> is the \<open>uniqueId()\<close> lodash makes for the first database.\<close>

definition CLUSTER_FORM_DEFAULT_VALUES :: "bool \<Rightarrow> js \<Rightarrow> js" where
  "CLUSTER_FORM_DEFAULT_VALUES expert blockId = obj
     [Spread (CLOUD_CLUSTER_DEFAULT_VALUES expert),
      Spread (LOCAL_CLUSTER_DEFAULT_VALUES expert),
      P CF_DESCRIPTION (Str ''''),
      P CF_CREATION_TYPE (Str CREATE_FORM),
      P CF_IS_USE_DEFINED_SECRET (Bool False),
      P CF_SECRET_ID (Str ''''),
      P DBS_DATABASE_SERVERS (Arr (replicate 3 empty_server)),
      Spread_if expert
        [P BK_IS_BACKUPS_ENABLED (Bool True),
         P BK_BACKUP_METHOD (Str BKM_PG_BACK_REST),
         P BK_BACKUP_RETENTION (Num 30),
         P BK_BACKUP_START_TIME (Num 1),
         P BK_CONFIG (Str ''''),
         P BK_ACCESS_KEY (Str ''''),
         P BK_SECRET_KEY (Str ''''),
         P PG_POSTGRES_PARAMETERS (Str ''''),
         P KRN_KERNEL_PARAMETERS (Str ''''),
         P DB_DATABASES (Arr [first_database blockId]),
         P POOL_IS_CONNECTION_POOLER_ENABLED (Bool True),
         P POOL_POOLS (Arr [first_pool]),
         P EXT_EXTENSIONS (obj []),
         P ADS_SYNC_STANDBY_NODES (Num 0),
         P ADS_IS_NETDATA_MONITORING (Bool True)]]"

text \<open>\<open>pages/add-cluster\<close>: the form is reset once the four queries have answered.\<close>

definition default_volume :: "js \<Rightarrow> js res" where
  "default_volume provider = opt_find (\<lambda>volume. Ok (truthy (get volume ''is_default''))) (get provider ''volumes'')"

definition default_volume_type :: "js \<Rightarrow> js res" where
  "default_volume_type provider = and_then (default_volume provider) (\<lambda>volume.
     Ok (coalesce (get volume ''volume_type'') (path provider [''volumes'', ''0'', ''volume_type''])))"

definition resetForm :: "bool \<Rightarrow> js \<Rightarrow> js list \<Rightarrow> js \<Rightarrow> js \<Rightarrow> js \<Rightarrow> js res" where
  "resetForm expert providers postgresVersions environments clusterName values =
     (let provider = get providers ''0'' in
      and_then (if expert
                then and_then (default_volume_type provider) (\<lambda>type. Ok (obj [P STO_VOLUME_TYPE type]))
                else Ok (obj [])) (\<lambda>volume.
      Ok (obj
        [Spread values,
         P CF_PROVIDER provider,
         P CF_REGION (path provider [''cloud_regions'', ''0'', ''code'']),
         P CF_REGION_CONFIG (path provider [''cloud_regions'', ''0'', ''datacenters'', ''0'']),
         P CF_INSTANCE_CONFIG (path provider [''instance_types'', ''small'', ''0'']),
         P CF_POSTGRES_VERSION
           (get (if postgresVersions = [] then Undef else last postgresVersions) ''major_version''),
         P CF_ENVIRONMENT_ID (path environments [''0'', ''id'']),
         P CF_CLUSTER_NAME (coalesce (get clusterName ''name'') (Str ''postgres-cluster'')),
         Spread volume])))"

section \<open>Handlers\<close>

text \<open>\<open>providers-block\<close>\<close>

definition handleProviderChange :: "js \<Rightarrow> js \<Rightarrow> js res" where
  "handleProviderChange provider values =
     and_then (default_volume provider) (\<lambda>volume.
     and_then (member provider ''code'') (\<lambda>code.
     Ok (obj
       [Spread values,
        P CF_PROVIDER provider,
        P CF_REGION (path provider [''cloud_regions'', ''0'', ''code'']),
        P CF_REGION_CONFIG (path provider [''cloud_regions'', ''0'', ''datacenters'', ''0'']),
        P INST_INSTANCE_TYPE (Str ''small''),
        P CF_INSTANCE_CONFIG (path provider [''instance_types'', ''small'', ''0'']),
        P STO_STORAGE_AMOUNT (if below (get volume ''min_size'') 100 then Num 100 else get volume ''min_size''),
        P BK_IS_BACKUPS_ENABLED (Bool (code \<noteq> Str PROV_LOCAL))])))"

text \<open>\<open>cloud-region-block\<close>\<close>

definition regions_of :: "js \<Rightarrow> js" where
  "regions_of values = coalesce (get (get values CF_PROVIDER) ''cloud_regions'') (Arr [])"

definition handleRegionChange :: "js \<Rightarrow> (cluster_form, js) action" where
  "handleRegionChange code =
     reading (\<lambda>s. let regions = regions_of (form_values s) in
       seq (set_field CF_REGION code)
           (bind (lift_res (opt_find (\<lambda>region. map_res (\<lambda>c. c = code) (member region ''code'')) regions))
             (\<lambda>region. set_field CF_REGION_CONFIG (path region [''datacenters'', ''0'']))))"

definition handleRegionConfigChange :: "js \<Rightarrow> (cluster_form, js) action" where
  "handleRegionConfigChange config = set_field CF_REGION_CONFIG config"

text \<open>\<open>instances-block\<close>: the types of the provider and, in expert mode, the form of a custom one.\<close>

definition custom_instance :: js where
  "custom_instance = elem ''Stack'' [] [elem ''Box'' [P ''marginTop'' (Num 1)] [elem ''CustomInstance'' [] []]]"

definition instance_types :: "bool \<Rightarrow> js \<Rightarrow> js" where
  "instance_types expert provider =
     (let providerInstanceTypes = coalesce (get provider ''instance_types'') (obj []) in
      if expert then obj [Spread providerInstanceTypes, P ''custom'' custom_instance]
      else providerInstanceTypes)"

definition handleInstanceTypeChange :: "string \<Rightarrow> (cluster_form, js) action" where
  "handleInstanceTypeChange type =
     reading (\<lambda>s. seq (set_field INST_INSTANCE_TYPE (Str type))
                      (set_field CF_INSTANCE_CONFIG (path (instances s) [type, ''0''])))"

definition handleInstanceConfigChange :: "js \<Rightarrow> (cluster_form, js) action" where
  "handleInstanceConfigChange config = set_field CF_INSTANCE_CONFIG config"

section \<open>Effects\<close>

text \<open>Each one with the values \<open>r\<close> of the render it belongs to.\<close>

definition instances_effect :: "bool \<Rightarrow> js \<Rightarrow> (cluster_form, js) action" where
  "instances_effect expert r = modify (\<lambda>s. s\<lparr>instances := instance_types expert (get r CF_PROVIDER)\<rparr>)"

definition amount_effect :: "js \<Rightarrow> (cluster_form, js) action" where
  "amount_effect r = modify (\<lambda>s. s\<lparr>isRightElementNeeded :=
     one_of [PROV_AWS, PROV_GCP, PROV_AZURE] (get (get r CF_PROVIDER) ''code'')\<rparr>)"

definition volume_option :: "js \<Rightarrow> js res" where
  "volume_option volume =
     Ok (obj [P ''label'' (get volume ''volume_type''), P ''value'' (get volume ''volume_type'')])"

text \<open>\<open>storage-block\<close>: a new provider selects its default volume type, a new volume type its smallest size.\<close>

definition storage_provider_effect :: "js \<Rightarrow> (cluster_form, js) action" where
  "storage_provider_effect r =
     (let provider = get r CF_PROVIDER in
      bind (lift_res (default_volume provider)) (\<lambda>volume.
      seq (modify (\<lambda>s. s\<lparr>storage := coalesce volume (obj [])\<rparr>))
      (bind (lift_res (opt_map volume_option (get provider ''volumes''))) (\<lambda>options.
      seq (modify (\<lambda>s. s\<lparr>volumeTypes := coalesce options (Arr [])\<rparr>))
      (bind (lift_res (default_volume_type provider)) (\<lambda>type. set_field STO_VOLUME_TYPE type))))))"

definition storage_volume_effect :: "js \<Rightarrow> (cluster_form, js) action" where
  "storage_volume_effect r =
     bind (lift_res (opt_find (\<lambda>volume. Ok (get volume ''volume_type'' = get r STO_VOLUME_TYPE))
                       (get (get r CF_PROVIDER) ''volumes''))) (\<lambda>volume.
     seq (modify (\<lambda>s. s\<lparr>storage := volume\<rparr>))
         (set_field STO_STORAGE_AMOUNT (coalesce (get volume ''min_size'') (Num 1))))"

text \<open>\<open>expert-mode/backups-block\<close>\<close>

definition backups_provider_effect :: "js \<Rightarrow> (cluster_form, js) action" where
  "backups_provider_effect r =
     when_do (one_of [PROV_DIGITAL_OCEAN, PROV_HETZNER, PROV_LOCAL] (get (get r CF_PROVIDER) ''code''))
       (set_field BK_IS_BACKUPS_ENABLED (Bool False))"

definition backups_mount_effect :: "js \<Rightarrow> (cluster_form, js) action" where
  "backups_mount_effect r = set_field BK_IS_BACKUPS_ENABLED (get r BK_IS_BACKUPS_ENABLED)"

text \<open>
  One round: \<open>prev\<close> is the render before, \<open>None\<close> when the block has just been
  mounted. An effect runs when one of its dependencies changed. The blocks of a cloud provider
  (\<open>ClusterFormCloudProviderFormPart\<close>) are mounted while the provider is not the user's own
  machines; a block that is not mounted has no state.
\<close>

definition changed :: "(js \<Rightarrow> js) \<Rightarrow> js option \<Rightarrow> js \<Rightarrow> bool" where
  "changed f prev r = (case prev of None \<Rightarrow> True | Some v \<Rightarrow> f v \<noteq> f r)"

definition the_provider :: "js \<Rightarrow> js" where
  "the_provider r = get r CF_PROVIDER"

definition cloud_part :: "js \<Rightarrow> bool" where
  "cloud_part r \<longleftrightarrow> get (the_provider r) ''code'' \<noteq> Str PROV_LOCAL"

definition unmount_cloud_part :: "(cluster_form, js) action" where
  "unmount_cloud_part = modify (\<lambda>s. s\<lparr>storage := obj [], volumeTypes := Arr [], instances := obj [],
     isRightElementNeeded := False\<rparr>)"

definition cloud_effects :: "bool \<Rightarrow> bool \<Rightarrow> js option \<Rightarrow> js \<Rightarrow> (cluster_form, js) action" where
  "cloud_effects expert again prev r =
     seq (when_do (again \<or> changed (\<lambda>v. get (the_provider v) ''instance_types'') prev r)
           (instances_effect expert r))
     (seq (when_do (again \<or> changed the_provider prev r) (amount_effect r))
     (seq (when_do (again \<or> changed the_provider prev r) (storage_provider_effect r))
          (when_do (changed (\<lambda>v. get v STO_VOLUME_TYPE) prev r) (storage_volume_effect r))))"

definition form_effects :: "bool \<Rightarrow> bool \<Rightarrow> js option \<Rightarrow> js \<Rightarrow> (cluster_form, js) action" where
  "form_effects expert again prev r =
     seq (if cloud_part r
          then cloud_effects expert again
                 (case prev of Some v \<Rightarrow> if cloud_part v then prev else None | None \<Rightarrow> None) r
          else unmount_cloud_part)
     (when_do expert
       (seq (when_do (again \<or> changed the_provider prev r) (backups_provider_effect r))
            (when_do (prev = None) (backups_mount_effect r))))"

definition settle :: "bool \<Rightarrow> bool \<Rightarrow> js option \<Rightarrow> (cluster_form, js) action" where
  "settle expert again prev = reading (\<lambda>s. let r = form_values s in
     seq (form_effects expert again prev r)
         (reading (\<lambda>s'. form_effects expert False (Some r) (form_values s'))))"

section \<open>Events\<close>

datatype form_event =
    Select_provider js
  | Select_region js
  | Select_datacenter js
  | Select_instance_type string
  | Select_instance js
  | Change_field string js
  | Open_yaml
  | Open_form

fun handler :: "form_event \<Rightarrow> (cluster_form, js) action" where
  "handler (Select_provider provider) = reset_values (handleProviderChange provider)"
| "handler (Select_region code) = handleRegionChange code"
| "handler (Select_datacenter config) = handleRegionConfigChange config"
| "handler (Select_instance_type type) = handleInstanceTypeChange type"
| "handler (Select_instance config) = handleInstanceConfigChange config"
| "handler (Change_field name v) = set_field name v"
| "handler Open_yaml = set_field CF_CREATION_TYPE (Str CREATE_YAML)"
| "handler Open_form = set_field CF_CREATION_TYPE (Str CREATE_FORM)"

text \<open>
  The tab of the YAML editor unmounts the whole form (\<open>TabPanel\<close> renders the children of the
  selected tab only); the way back mounts it again.
\<close>

definition dispatch :: "bool \<Rightarrow> bool \<Rightarrow> form_event \<Rightarrow> (cluster_form, js) action" where
  "dispatch expert again e = reading (\<lambda>s.
     seq (handler e)
         (if e = Open_yaml then unmount_cloud_part
          else settle expert again (if e = Open_form then None else Some (form_values s))))"

text \<open>
  What the page offers: the boxes and tabs of the blocks. Every other field of the form is written by the
  control of its name. The two tabs exist where expert mode and the YAML editor are switched on; they are
  always offered here, which only adds states.
\<close>

definition selection_fields :: "string set" where
  "selection_fields =
     {CF_PROVIDER, CF_REGION, CF_REGION_CONFIG, INST_INSTANCE_TYPE, CF_INSTANCE_CONFIG, CF_CREATION_TYPE}"

definition local_provider :: js where
  "local_provider = obj [P ''code'' (Str PROV_LOCAL)]"

definition shown_datacenters :: "js \<Rightarrow> js list" where
  "shown_datacenters values =
     concat (map (\<lambda>region. elems (get region ''datacenters''))
       (filter (\<lambda>region. get region ''code'' = get values CF_REGION) (elems (regions_of values))))"

fun shown_instances :: "js \<Rightarrow> js \<Rightarrow> js list" where
  "shown_instances types (Str type) = elems (get types type)"
| "shown_instances types _ = []"

fun offered :: "js list \<Rightarrow> cluster_form \<Rightarrow> form_event \<Rightarrow> bool" where
  "offered providers s (Select_provider provider) =
     (get (form_values s) CF_CREATION_TYPE = Str CREATE_FORM
        \<and> provider \<in> set (local_provider # providers))"
| "offered providers s (Select_region code) =
     (get (form_values s) CF_CREATION_TYPE = Str CREATE_FORM \<and> cloud_part (form_values s)
        \<and> code \<in> (\<lambda>region. get region ''code'') ` set (elems (regions_of (form_values s))))"
| "offered providers s (Select_datacenter config) =
     (get (form_values s) CF_CREATION_TYPE = Str CREATE_FORM \<and> cloud_part (form_values s)
        \<and> config \<in> set (shown_datacenters (form_values s)))"
| "offered providers s (Select_instance_type type) =
     (get (form_values s) CF_CREATION_TYPE = Str CREATE_FORM \<and> cloud_part (form_values s)
        \<and> truthy (get (instances s) type))"
| "offered providers s (Select_instance config) =
     (get (form_values s) CF_CREATION_TYPE = Str CREATE_FORM \<and> cloud_part (form_values s)
        \<and> config \<in> set (shown_instances (instances s) (get (form_values s) INST_INSTANCE_TYPE)))"
| "offered providers s (Change_field name v) =
     (get (form_values s) CF_CREATION_TYPE = Str CREATE_FORM \<and> name \<notin> selection_fields)"
| "offered providers s Open_yaml = (get (form_values s) CF_CREATION_TYPE = Str CREATE_FORM)"
| "offered providers s Open_form = (get (form_values s) CF_CREATION_TYPE = Str CREATE_YAML)"

section \<open>Reachable forms\<close>

definition empty_form :: "js \<Rightarrow> cluster_form" where
  "empty_form values = \<lparr>form_values = values, storage = obj [], volumeTypes = Arr [], instances = obj [],
     isRightElementNeeded = False\<rparr>"

text \<open>The page shows a spinner until it is reset, so the blocks are mounted on the reset values.\<close>

definition open_page :: "bool \<Rightarrow> js \<Rightarrow> js list \<Rightarrow> js list \<Rightarrow> js \<Rightarrow> js \<Rightarrow> js res \<times> cluster_form" where
  "open_page expert blockId providers versions environments clusterName =
     seq (reset_values (resetForm expert (Arr providers) versions environments clusterName))
         (settle expert False None)
       (empty_form (CLUSTER_FORM_DEFAULT_VALUES expert blockId))"

inductive form_reachable :: "bool \<Rightarrow> js list \<Rightarrow> cluster_form \<Rightarrow> bool" where
  opened: "open_page expert blockId providers versions environments clusterName = (Ok u, s) \<Longrightarrow>
     form_reachable expert providers s"
| stepped: "form_reachable expert providers s \<Longrightarrow> offered providers s e \<Longrightarrow>
     dispatch expert again e s = (Ok u, s') \<Longrightarrow> form_reachable expert providers s'"

end
