(* ===== verification/FormEffects.thy ===== *)
theory FormEffects
  imports FormState
begin

text \<open>
  The handlers and effects of the form one by one: which providers they are defined for, that they do
  not throw, what they leave alone, and the instance types they make a block offer.
\<close>

section \<open>Objects and copies\<close>

definition plain_object :: "js \<Rightarrow> bool" where
  "plain_object v \<longleftrightarrow> (\<exists>ps. v = Obj ps \<and> distinct (map fst ps))"

lemma plain_object_obj [simp]: "plain_object (obj parts)"
  using wf_obj_obj [of parts] by (simp add: plain_object_def obj_def wf_obj_def)

lemma get_spread:
  assumes "plain_object v"
  shows "get (obj (Spread v # parts)) k = (case lookup_parts parts k of Some x \<Rightarrow> x | None \<Rightarrow> get v k)"
proof -
  obtain ps where "v = Obj ps" "distinct (map fst ps)" using assms by (auto simp: plain_object_def)
  then have "lookup_part (Spread v) k = map_of ps k"
    by (subst lookup_spread_wf) (simp_all add: wf_obj_def)
  then show ?thesis
    using \<open>v = Obj ps\<close> by (auto simp: get_obj split: option.split)
qed

section \<open>Providers of the API\<close>

text \<open>A provider of its declared type; its instance types are an object with one list per key.\<close>

definition array_or_nothing :: "js \<Rightarrow> bool" where
  "array_or_nothing v \<longleftrightarrow> (case v of Arr xs \<Rightarrow> True | _ \<Rightarrow> nullish v)"

definition lists_by_key :: "js \<Rightarrow> bool" where
  "lists_by_key v \<longleftrightarrow> (case v of
     Obj ps \<Rightarrow> distinct (map fst ps) \<and> list_all (\<lambda>(k, x). array_or_nothing x) ps
   | _ \<Rightarrow> v = Undef)"

definition api_provider :: "js \<Rightarrow> bool" where
  "api_provider p \<longleftrightarrow> has_type ResponseDeploymentInfo p \<and> lists_by_key (get p ''instance_types'')"

definition usable_provider :: "js \<Rightarrow> bool" where
  "usable_provider p \<longleftrightarrow>
     array_or_nothing (get p ''volumes'')
     \<and> (get p ''cloud_regions'' = Undef
         \<or> (\<exists>xs. get p ''cloud_regions'' = Arr xs
             \<and> (\<forall>x \<in> set xs. \<not> nullish x \<and> array_or_nothing (get x ''datacenters''))))
     \<and> lists_by_key (get p ''instance_types'')"

lemma array_or_nothing_alt: "array_or_nothing v \<longleftrightarrow> nullish v \<or> (\<exists>xs. v = Arr xs)"
  by (cases v) (simp_all add: array_or_nothing_def)

lemma lists_by_key_get: "lists_by_key v \<Longrightarrow> array_or_nothing (get v k)"
  by (cases v) (auto simp: lists_by_key_def list_all_iff array_or_nothing_alt split: option.split
      dest!: map_of_SomeD)

lemma first_of_arr: "get (Arr xs) ''0'' = Undef \<or> get (Arr xs) ''0'' \<in> set xs"
  by (cases xs) (simp_all add: get.simps(2) [of "[]"])

lemma first_of_list:
  assumes "array_or_nothing v"
  shows "get v ''0'' = Undef \<or> get v ''0'' \<in> set (elems v)"
proof -
  consider "nullish v" | xs where "v = Arr xs" using assms by (auto simp: array_or_nothing_alt)
  then show ?thesis
  proof cases
    case (2 xs)
    then show ?thesis using first_of_arr [of xs] by simp
  qed simp
qed

lemma usable_Undef [simp]: "usable_provider Undef"
  by (simp add: usable_provider_def array_or_nothing_def lists_by_key_def)

lemma usable_local [simp]: "usable_provider local_provider"
  by (simp add: usable_provider_def array_or_nothing_def lists_by_key_def local_provider_def get_obj)

lemma is_object_not_nullish: "is_object v \<Longrightarrow> \<not> nullish v"
  by (cases v) auto

lemma has_type_array: "has_type (TArray t) v \<Longrightarrow> \<exists>xs. v = Arr xs \<and> (\<forall>x \<in> set xs. has_type t x)"
  by (cases v) (auto simp: list_all_iff)

lemma has_fields_optional:
  "has_fields fs v \<Longrightarrow> (k, Opt_f, t) \<in> set fs \<Longrightarrow> get v k = Undef \<or> has_type t (get v k)"
  by (induction fs) auto

lemma record_field:
  "has_type (TRec fs) v \<Longrightarrow> (k, Opt_f, t) \<in> set fs \<Longrightarrow> get v k = Undef \<or> has_type t (get v k)"
  by (auto dest: has_fields_optional)

lemma record_not_nullish: "has_type (TRec fs) v \<Longrightarrow> \<not> nullish v"
  using is_object_not_nullish by simp

lemma array_field:
  "has_type (TRec fs) v \<Longrightarrow> (k, Opt_f, TArray t) \<in> set fs \<Longrightarrow> array_or_nothing (get v k)"
  using record_field [of fs v k "TArray t"] has_type_array [of t "get v k"]
  by (auto simp: array_or_nothing_alt)

lemma region_datacenters:
  assumes "has_type DeploymentInfoCloudRegion x"
  shows "\<not> nullish x \<and> array_or_nothing (get x ''datacenters'')"
proof
  show "\<not> nullish x" using assms unfolding DeploymentInfoCloudRegion_def by (rule record_not_nullish)
  show "array_or_nothing (get x ''datacenters'')"
    using assms unfolding DeploymentInfoCloudRegion_def by (rule array_field) simp
qed

lemma api_provider_regions:
  assumes "has_type ResponseDeploymentInfo p"
  shows "get p ''cloud_regions'' = Undef
         \<or> (\<exists>xs. get p ''cloud_regions'' = Arr xs
             \<and> (\<forall>x \<in> set xs. \<not> nullish x \<and> array_or_nothing (get x ''datacenters'')))"
proof -
  have "get p ''cloud_regions'' = Undef
      \<or> has_type (TArray DeploymentInfoCloudRegion) (get p ''cloud_regions'')"
    using assms unfolding ResponseDeploymentInfo_def by (elim record_field) simp
  then show ?thesis using has_type_array region_datacenters by blast
qed

lemma api_provider_volumes:
  assumes "has_type ResponseDeploymentInfo p"
  shows "\<not> nullish p \<and> array_or_nothing (get p ''volumes'')"
proof
  show "\<not> nullish p" using assms unfolding ResponseDeploymentInfo_def by (rule record_not_nullish)
  show "array_or_nothing (get p ''volumes'')"
    using assms unfolding ResponseDeploymentInfo_def by (rule array_field) simp
qed

lemma api_provider_usable: "api_provider p \<Longrightarrow> usable_provider p \<and> \<not> nullish p"
  unfolding api_provider_def usable_provider_def
  using api_provider_regions [of p] api_provider_volumes [of p] by blast

section \<open>Handlers that cannot throw\<close>

definition succeeds :: "(cluster_form, js) action \<Rightarrow> bool" where
  "succeeds m \<longleftrightarrow> (\<forall>s. \<exists>s'. m s = (Ok Undef, s'))"

named_theorems succeeds_intros \<open>a handler does not throw\<close>

lemma succeeds_ret [succeeds_intros]: "succeeds (ret Undef)"
  and succeeds_modify [succeeds_intros]: "succeeds (modify f)"
  and succeeds_set_field [succeeds_intros]: "succeeds (set_field name v)"
  by (simp_all add: succeeds_def set_field_def run_simps)

lemma succeeds_bind [succeeds_intros]: "is_ok r \<Longrightarrow> (\<And>x. succeeds (f x)) \<Longrightarrow> succeeds (bind (lift_res r) f)"
  by (cases r) (simp_all add: succeeds_def run_simps)

lemma succeeds_seq [succeeds_intros]: "succeeds m \<Longrightarrow> succeeds n \<Longrightarrow> succeeds (seq m n)"
proof -
  assume m: "succeeds m" and n: "succeeds n"
  have "\<exists>s'. seq m n s = (Ok Undef, s')" for s
  proof -
    obtain s1 where "m s = (Ok Undef, s1)" using m by (auto simp: succeeds_def)
    moreover obtain s2 where "n s1 = (Ok Undef, s2)" using n by (auto simp: succeeds_def)
    ultimately show ?thesis by (simp add: run_simps)
  qed
  then show ?thesis by (simp add: succeeds_def)
qed

lemma succeeds_when [succeeds_intros]: "(c \<Longrightarrow> succeeds m) \<Longrightarrow> succeeds (when_do c m)"
  by (simp add: when_do_def succeeds_ret)

lemma succeeds_if [succeeds_intros]: "(c \<Longrightarrow> succeeds m) \<Longrightarrow> (\<not> c \<Longrightarrow> succeeds n) \<Longrightarrow> succeeds (if c then m else n)"
  by simp

lemma find_res_ok: "\<forall>x \<in> set xs. is_ok (p x) \<Longrightarrow> is_ok (find_res p xs)"
proof (induction xs)
  case (Cons x xs)
  then show ?case by (cases "p x") auto
qed simp

lemma find_res_found: "find_res p xs = Ok y \<Longrightarrow> y = Undef \<or> (y \<in> set xs \<and> p y = Ok True)"
  by (induction xs) (auto simp: res_simps split: if_splits)

lemma opt_find_ok:
  "array_or_nothing v \<Longrightarrow> \<forall>x \<in> set (elems v). is_ok (p x) \<Longrightarrow> is_ok (opt_find p v)"
  by (auto simp: array_or_nothing_alt opt_find_def find_res_ok)

lemma opt_find_found: "opt_find p v = Ok y \<Longrightarrow> y = Undef \<or> (y \<in> set (elems v) \<and> p y = Ok True)"
  by (auto simp: opt_find_def dest: find_res_found split: if_splits js.splits)

lemma opt_map_ok: "array_or_nothing v \<Longrightarrow> is_ok (opt_map volume_option v)"
  by (auto simp: array_or_nothing_alt opt_map_def volume_option_def map_all_Ok)

lemma default_volume_ok: "usable_provider p \<Longrightarrow> is_ok (default_volume p)"
  by (simp add: default_volume_def usable_provider_def opt_find_ok)

lemma default_volume_type_ok: "usable_provider p \<Longrightarrow> is_ok (default_volume_type p)"
  using default_volume_ok [of p] by (cases "default_volume p") (simp_all add: default_volume_type_def)

lemma form_effects_succeeds:
  assumes "usable_provider (get r CF_PROVIDER)"
  shows "succeeds (form_effects expert again prev r)"
proof -
  have volumes: "array_or_nothing (get (get r CF_PROVIDER) ''volumes'')"
    using assms by (simp add: usable_provider_def)
  show ?thesis
    unfolding form_effects_def cloud_effects_def instances_effect_def amount_effect_def
      storage_provider_effect_def storage_volume_effect_def backups_provider_effect_def
      backups_mount_effect_def unmount_cloud_part_def Let_def
    by (intro succeeds_intros default_volume_ok default_volume_type_ok opt_map_ok opt_find_ok assms volumes) simp
qed

section \<open>What the effects leave alone\<close>

definition selection :: "js \<Rightarrow> js list" where
  "selection v = map (get v)
     [CF_PROVIDER, CF_REGION, CF_REGION_CONFIG, INST_INSTANCE_TYPE, CF_INSTANCE_CONFIG, CF_CREATION_TYPE]"

definition selected :: "js list \<Rightarrow> cluster_form \<Rightarrow> bool" where
  "selected x s \<longleftrightarrow> plain_object (form_values s) \<and> selection (form_values s) = x"

lemma selected_set_field: "name \<notin> selection_fields \<Longrightarrow> keeps (selected x) (set_field name v)"
  by (auto simp: keeps_def set_field_def run_simps selected_def selection_def selection_fields_def get_spread)

lemma selected_modify: "(\<And>s. form_values (f s) = form_values s) \<Longrightarrow> keeps (selected x) (modify f)"
  by (simp add: keeps_def run_simps selected_def)

lemma form_effects_selected: "keeps (selected x) (form_effects expert again prev r)"
  unfolding form_effects_def cloud_effects_def instances_effect_def amount_effect_def
    storage_provider_effect_def storage_volume_effect_def backups_provider_effect_def
    backups_mount_effect_def unmount_cloud_part_def Let_def
  by (intro keeps_intros selected_set_field selected_modify) (simp_all add: selection_fields_def)

lemma settle_selected: "keeps (selected x) (settle expert again prev)"
  unfolding settle_def Let_def by (intro keeps_intros form_effects_selected)

lemma selected_provider: "selected x s \<Longrightarrow> selected x s' \<Longrightarrow>
    get (form_values s') CF_PROVIDER = get (form_values s) CF_PROVIDER"
  by (auto simp: selected_def selection_def)

lemma settle_succeeds:
  assumes "usable_provider (get (form_values s) CF_PROVIDER)" "plain_object (form_values s)"
  obtains s' where "settle expert again prev s = (Ok Undef, s')"
proof -
  have start: "selected (selection (form_values s)) s" using assms(2) by (simp add: selected_def)
  obtain s1 where s1: "form_effects expert again prev (form_values s) s = (Ok Undef, s1)"
    using form_effects_succeeds [OF assms(1)] unfolding succeeds_def by blast
  have "selected (selection (form_values s)) s1"
    using keepsD [OF form_effects_selected start] s1 by (metis snd_conv)
  then have "usable_provider (get (form_values s1) CF_PROVIDER)"
    using selected_provider [OF start] assms(1) by simp
  then obtain s2 where "form_effects expert False (Some (form_values s)) (form_values s1) s1 = (Ok Undef, s2)"
    using form_effects_succeeds unfolding succeeds_def by blast
  then show ?thesis using that s1 by (simp add: settle_def run_simps)
qed

section \<open>The instance types a block offers\<close>

lemma snd_seq: "succeeds m \<Longrightarrow> snd (seq m n s) = snd (n (snd (m s)))"
proof -
  assume "succeeds m"
  then obtain s1 where "m s = (Ok Undef, s1)" by (auto simp: succeeds_def)
  then show ?thesis by (simp add: run_simps)
qed

lemma instances_set_field: "keeps (\<lambda>s. instances s = x) (set_field name v)"
  by (simp add: keeps_def set_field_def run_simps)

lemma instances_modify:
  "(\<And>s. instances (f s) = instances s) \<Longrightarrow> keeps (\<lambda>s. instances s = x) (modify f)"
  by (simp add: keeps_def run_simps)

lemmas instances_intros = keeps_intros instances_set_field instances_modify

lemma later_effects_instances:
  "keeps (\<lambda>s. instances s = x) (amount_effect r)"
  "keeps (\<lambda>s. instances s = x) (storage_provider_effect r)"
  "keeps (\<lambda>s. instances s = x) (storage_volume_effect r)"
  "keeps (\<lambda>s. instances s = x) (backups_provider_effect r)"
  "keeps (\<lambda>s. instances s = x) (backups_mount_effect r)"
  unfolding amount_effect_def storage_provider_effect_def storage_volume_effect_def
    backups_provider_effect_def backups_mount_effect_def Let_def
  by (intro instances_intros; simp)+

lemma cloud_effects_instances:
  "instances (snd (cloud_effects expert again prev r s)) =
     (if again \<or> changed (\<lambda>v. get (the_provider v) ''instance_types'') prev r
      then instance_types expert (get r CF_PROVIDER) else instances s)"
proof -
  let ?c = "again \<or> changed (\<lambda>v. get (the_provider v) ''instance_types'') prev r"
  have ok: "succeeds (when_do ?c (instances_effect expert r))"
    unfolding instances_effect_def by (intro succeeds_intros)
  have "keeps (\<lambda>s. instances s = x)
      (seq (when_do c1 (amount_effect r))
        (seq (when_do c2 (storage_provider_effect r)) (when_do c3 (storage_volume_effect r))))" for x c1 c2 c3
    by (intro keeps_intros later_effects_instances)
  from keepsD [OF this refl] show ?thesis
    unfolding cloud_effects_def snd_seq [OF ok]
    by (simp add: when_do_def instances_effect_def run_simps)
qed

lemma form_effects_instances:
  assumes "usable_provider (get r CF_PROVIDER)" "cloud_part r"
  shows "instances (snd (form_effects expert again prev r s)) = instances (snd
      (cloud_effects expert again (case prev of Some v \<Rightarrow> if cloud_part v then prev else None | None \<Rightarrow> None) r s))"
proof -
  let ?p = "case prev of Some v \<Rightarrow> if cloud_part v then prev else None | None \<Rightarrow> None"
  have volumes: "array_or_nothing (get (get r CF_PROVIDER) ''volumes'')"
    using assms(1) by (simp add: usable_provider_def)
  have ok: "succeeds (cloud_effects expert again ?p r)"
    unfolding cloud_effects_def instances_effect_def amount_effect_def storage_provider_effect_def
      storage_volume_effect_def Let_def
    by (intro succeeds_intros default_volume_ok default_volume_type_ok opt_map_ok opt_find_ok assms volumes) simp
  have "keeps (\<lambda>s. instances s = x)
      (when_do expert (seq (when_do c (backups_provider_effect r)) (when_do d (backups_mount_effect r))))" for x c d
    by (intro keeps_intros later_effects_instances)
  from keepsD [OF this refl] show ?thesis
    using assms(2) by (simp add: form_effects_def snd_seq [OF ok])
qed

lemma instance_types_cong:
  "get p ''instance_types'' = get q ''instance_types'' \<Longrightarrow> instance_types expert p = instance_types expert q"
  by (simp add: instance_types_def)

end
