(* ===== verification/FormFacts.thy ===== *)
theory FormFacts
  imports FormEffects
begin

text \<open>
  What every reachable form has: the chosen region, instance type and data centre belong to the chosen
  provider, and no event the form offers throws. The choices are an invariant by
  induction over reachability, one lemma per handler.
\<close>

section \<open>The invariant\<close>

definition coherent :: "bool \<Rightarrow> js \<Rightarrow> bool" where
  "coherent expert v \<longleftrightarrow>
     (get v CF_REGION_CONFIG = Undef \<or> get v CF_REGION_CONFIG \<in> set (shown_datacenters v))
     \<and> (get v CF_INSTANCE_CONFIG = Undef
         \<or> get v CF_INSTANCE_CONFIG
             \<in> set (shown_instances (instance_types expert (get v CF_PROVIDER)) (get v INST_INSTANCE_TYPE)))"

definition form_invariant :: "bool \<Rightarrow> js list \<Rightarrow> cluster_form \<Rightarrow> bool" where
  "form_invariant expert providers s \<longleftrightarrow>
     plain_object (form_values s)
     \<and> get (form_values s) CF_PROVIDER \<in> set (Undef # local_provider # providers)
     \<and> coherent expert (form_values s)
     \<and> (get (form_values s) CF_CREATION_TYPE = Str CREATE_FORM \<and> cloud_part (form_values s) \<longrightarrow>
          instances s = instance_types expert (get (form_values s) CF_PROVIDER))"

lemma coherent_cong:
  assumes "get v CF_PROVIDER = get w CF_PROVIDER" "get v CF_REGION = get w CF_REGION"
    "get v CF_REGION_CONFIG = get w CF_REGION_CONFIG" "get v INST_INSTANCE_TYPE = get w INST_INSTANCE_TYPE"
    "get v CF_INSTANCE_CONFIG = get w CF_INSTANCE_CONFIG"
  shows "coherent expert v = coherent expert w"
  using assms by (simp add: coherent_def shown_datacenters_def regions_of_def)

lemma shown_datacentersI:
  "region \<in> set (elems (get (get v CF_PROVIDER) ''cloud_regions'')) \<Longrightarrow> get region ''code'' = get v CF_REGION \<Longrightarrow>
     config \<in> set (elems (get region ''datacenters'')) \<Longrightarrow> config \<in> set (shown_datacenters v)"
  by (cases "get (get v CF_PROVIDER) ''cloud_regions''")
     (auto simp: shown_datacenters_def regions_of_def coalesce_def)

lemma usable_region:
  "usable_provider p \<Longrightarrow> region \<in> set (elems (get p ''cloud_regions'')) \<Longrightarrow>
     \<not> nullish region \<and> array_or_nothing (get region ''datacenters'')"
  by (auto simp: usable_provider_def)

lemma region_selected:
  assumes "usable_provider (get v CF_PROVIDER)"
    and "region = Undef \<or> region \<in> set (elems (get (get v CF_PROVIDER) ''cloud_regions''))
           \<and> get region ''code'' = get v CF_REGION"
    and "get v CF_REGION_CONFIG = path region [''datacenters'', ''0'']"
  shows "get v CF_REGION_CONFIG = Undef \<or> get v CF_REGION_CONFIG \<in> set (shown_datacenters v)"
  using assms(2)
proof
  assume r: "region \<in> set (elems (get (get v CF_PROVIDER) ''cloud_regions'')) \<and> get region ''code'' = get v CF_REGION"
  then have "array_or_nothing (get region ''datacenters'')" using usable_region assms(1) by blast
  from first_of_list [OF this] show ?thesis
    using r shown_datacentersI [of region v] assms(3) by auto
qed (simp add: assms(3))

lemma get_instance_types:
  assumes "usable_provider p" "k \<noteq> ''custom''"
  shows "get (instance_types expert p) k = get (get p ''instance_types'') k"
proof -
  have "lists_by_key (get p ''instance_types'')" using assms(1) by (simp add: usable_provider_def)
  then have plain: "plain_object (coalesce (get p ''instance_types'') (obj []))"
    by (cases "get p ''instance_types''") (auto simp: lists_by_key_def plain_object_def coalesce_def obj_def)
  have "get (coalesce (get p ''instance_types'') (obj [])) k = get (get p ''instance_types'') k"
    by (auto simp: coalesce_def get_obj)
  then show ?thesis
    using assms(2) by (simp add: instance_types_def get_spread [OF plain] Let_def)
qed

lemma get_custom: "get (instance_types True p) ''custom'' = custom_instance"
  by (simp add: instance_types_def get_obj)

lemma instance_selected:
  assumes "usable_provider (get v CF_PROVIDER)" "get v INST_INSTANCE_TYPE = Str type"
    and "get v CF_INSTANCE_CONFIG = path (instance_types expert (get v CF_PROVIDER)) [type, ''0'']"
  shows "get v CF_INSTANCE_CONFIG = Undef
      \<or> get v CF_INSTANCE_CONFIG
          \<in> set (shown_instances (instance_types expert (get v CF_PROVIDER)) (get v INST_INSTANCE_TYPE))"
proof (cases "expert \<and> type = ''custom''")
  case True
  then show ?thesis using assms by (simp add: get_custom custom_instance_def get_obj)
next
  case False
  let ?types = "get (get v CF_PROVIDER) ''instance_types''"
  have lists: "lists_by_key ?types" using assms(1) by (simp add: usable_provider_def)
  have "array_or_nothing (get (instance_types expert (get v CF_PROVIDER)) type)"
  proof (cases "type = ''custom''")
    case True
    then have "\<not> expert" using False by simp
    then have "instance_types expert (get v CF_PROVIDER) = coalesce ?types (obj [])"
      by (simp add: instance_types_def Let_def)
    then show ?thesis using lists_by_key_get [OF lists]
      by (cases "nullish ?types") (simp_all add: coalesce_def get_obj array_or_nothing_def)
  qed (simp add: get_instance_types [OF assms(1)] lists_by_key_get [OF lists])
  from first_of_list [OF this] show ?thesis using assms(2,3) by simp
qed

section \<open>Handlers keep the choices coherent\<close>

definition usable_providers :: "js list \<Rightarrow> bool" where
  "usable_providers providers \<longleftrightarrow> (\<forall>p \<in> set providers. usable_provider p \<and> \<not> nullish p)"

lemma usable_current:
  "usable_providers providers \<Longrightarrow> p \<in> set (Undef # local_provider # providers) \<Longrightarrow> usable_provider p"
  by (auto simp: usable_providers_def)

lemma first_region:
  assumes "usable_provider p"
  shows "path p [''cloud_regions'', ''0''] = Undef
      \<or> path p [''cloud_regions'', ''0''] \<in> set (elems (get p ''cloud_regions''))"
proof -
  have "array_or_nothing (get p ''cloud_regions'')"
    using assms by (auto simp: usable_provider_def array_or_nothing_alt)
  from first_of_list [OF this] show ?thesis by simp
qed

text \<open>What a reset to a provider's first choices gives, on the page and in the providers block.\<close>

lemma first_choices_coherent:
  assumes "usable_provider p" "get v CF_PROVIDER = p"
    and "get v CF_REGION = path p [''cloud_regions'', ''0'', ''code'']"
    and "get v CF_REGION_CONFIG = path p [''cloud_regions'', ''0'', ''datacenters'', ''0'']"
    and "get v INST_INSTANCE_TYPE = Str ''small''"
    and "get v CF_INSTANCE_CONFIG = path p [''instance_types'', ''small'', ''0'']"
  shows "coherent expert v"
  unfolding coherent_def
proof
  show "get v CF_REGION_CONFIG = Undef \<or> get v CF_REGION_CONFIG \<in> set (shown_datacenters v)"
    using assms first_region [OF assms(1)]
    by (intro region_selected [where region = "path p [''cloud_regions'', ''0'']"]) auto
  have "get (instance_types expert p) ''small'' = get (get p ''instance_types'') ''small''"
    by (rule get_instance_types [OF assms(1)]) simp
  then show "get v CF_INSTANCE_CONFIG = Undef \<or> get v CF_INSTANCE_CONFIG
      \<in> set (shown_instances (instance_types expert (get v CF_PROVIDER)) (get v INST_INSTANCE_TYPE))"
    using assms by (intro instance_selected [where type = "''small''"]) simp_all
qed

lemma handleProviderChange_values:
  assumes "plain_object v" "handleProviderChange p v = Ok w"
  shows "plain_object w \<and> get w CF_PROVIDER = p
    \<and> get w CF_REGION = path p [''cloud_regions'', ''0'', ''code'']
    \<and> get w CF_REGION_CONFIG = path p [''cloud_regions'', ''0'', ''datacenters'', ''0'']
    \<and> get w INST_INSTANCE_TYPE = Str ''small''
    \<and> get w CF_INSTANCE_CONFIG = path p [''instance_types'', ''small'', ''0'']
    \<and> get w CF_CREATION_TYPE = get v CF_CREATION_TYPE"
  using assms by (auto simp: handleProviderChange_def res_simps get_spread simp del: path.simps)

text \<open>A handler's part of the invariant: everything but the component state the effects refresh.\<close>

definition values_ok :: "bool \<Rightarrow> js list \<Rightarrow> cluster_form \<Rightarrow> bool" where
  "values_ok expert providers s \<longleftrightarrow>
     plain_object (form_values s)
     \<and> get (form_values s) CF_PROVIDER \<in> set (Undef # local_provider # providers)
     \<and> coherent expert (form_values s)"

lemma values_ok_selected:
  assumes "values_ok expert providers s" "selected (selection (form_values s)) s'"
  shows "values_ok expert providers s'"
proof -
  have eq: "selection (form_values s') = selection (form_values s)" "plain_object (form_values s')"
    using assms(2) by (simp_all add: selected_def)
  then have "coherent expert (form_values s') = coherent expert (form_values s)"
    by (intro coherent_cong) (simp_all add: selection_def)
  then show ?thesis using assms(1) eq by (simp add: values_ok_def selection_def)
qed

lemma select_provider_ok:
  assumes "usable_providers providers" "values_ok expert providers s"
    and "provider \<in> set (local_provider # providers)"
    and "reset_values (handleProviderChange provider) s = (Ok u, s')"
  shows "values_ok expert providers s'"
proof -
  have "usable_provider provider" using usable_current [OF assms(1)] assms(3) by simp
  moreover obtain w where w: "handleProviderChange provider (form_values s) = Ok w" "form_values s' = w"
    using assms(4) by (auto simp: reset_values_def run_simps split: res.splits)
  moreover have "plain_object (form_values s)" using assms(2) by (simp add: values_ok_def)
  ultimately show ?thesis
    using handleProviderChange_values [of "form_values s" provider w] assms(3)
      first_choices_coherent [of provider w expert]
    by (simp add: values_ok_def)
qed

lemma set_field_values: "form_values (snd (set_field name v s)) = obj [Spread (form_values s), P name v]"
  and set_field_ok: "fst (set_field name v s) = Ok Undef"
  and set_field_instances: "instances (snd (set_field name v s)) = instances s"
  by (simp_all add: set_field_def run_simps)

lemma select_region_ok:
  assumes "usable_providers providers" "values_ok expert providers s"
    and "handleRegionChange code s = (Ok u, s')"
  shows "values_ok expert providers s'"
proof -
  let ?p = "get (form_values s) CF_PROVIDER" and ?v = "form_values s"
  have plain: "plain_object ?v" and p: "usable_provider ?p"
    using assms(2) usable_current [OF assms(1)] by (simp_all add: values_ok_def)
  obtain region where find:
      "opt_find (\<lambda>region. map_res (\<lambda>c. c = code) (member region ''code'')) (regions_of ?v) = Ok region"
    and s': "form_values s' = obj [Spread (obj [Spread ?v, P CF_REGION code]),
      P CF_REGION_CONFIG (path region [''datacenters'', ''0''])]"
    using assms(3) by (auto simp: handleRegionChange_def set_field_def run_simps split: res.splits)
  have elems_regions: "elems (regions_of ?v) = elems (get ?p ''cloud_regions'')"
    by (cases "get ?p ''cloud_regions''") (simp_all add: regions_of_def coalesce_def)
  have region: "region = Undef \<or> region \<in> set (elems (get ?p ''cloud_regions'')) \<and> get region ''code'' = code"
    using opt_find_found [OF find] by (cases "nullish region") (auto simp: elems_regions member_def)
  have same: "get (form_values s') k = get ?v k" if "k \<noteq> CF_REGION" "k \<noteq> CF_REGION_CONFIG" for k
    using that by (simp add: s' get_spread plain)
  have "get (form_values s') CF_REGION_CONFIG = Undef
      \<or> get (form_values s') CF_REGION_CONFIG \<in> set (shown_datacenters (form_values s'))"
    using region p by (intro region_selected [where region = region]) (simp_all add: s' get_spread plain)
  then show ?thesis
    using assms(2) same by (simp add: values_ok_def coherent_def s')
qed

lemma set_field_run: "set_field name v s = (Ok u, s') \<Longrightarrow>
    form_values s' = obj [Spread (form_values s), P name v] \<and> instances s' = instances s"
  by (auto simp: set_field_def run_simps)

lemma select_datacenter_ok:
  assumes "values_ok expert providers s" "config \<in> set (shown_datacenters (form_values s))"
    and "handleRegionConfigChange config s = (Ok u, s')"
  shows "values_ok expert providers s'"
  using assms set_field_run [of CF_REGION_CONFIG config s u s']
  by (simp add: values_ok_def coherent_def get_spread handleRegionConfigChange_def shown_datacenters_def
      regions_of_def)

lemma select_instance_ok:
  assumes "values_ok expert providers s"
    and "instances s = instance_types expert (get (form_values s) CF_PROVIDER)"
    and "config \<in> set (shown_instances (instances s) (get (form_values s) INST_INSTANCE_TYPE))"
    and "handleInstanceConfigChange config s = (Ok u, s')"
  shows "values_ok expert providers s'"
  using assms set_field_run [of CF_INSTANCE_CONFIG config s u s']
  by (simp add: values_ok_def coherent_def get_spread handleInstanceConfigChange_def shown_datacenters_def
      regions_of_def)

lemma select_instance_type_ok:
  assumes "usable_providers providers" "values_ok expert providers s"
    and "instances s = instance_types expert (get (form_values s) CF_PROVIDER)"
    and "handleInstanceTypeChange type s = (Ok u, s')"
  shows "values_ok expert providers s'"
proof -
  let ?v = "form_values s"
  have plain: "plain_object ?v" and p: "usable_provider (get ?v CF_PROVIDER)"
    using assms(2) usable_current [OF assms(1)] by (simp_all add: values_ok_def)
  have s': "form_values s' = obj [Spread (obj [Spread ?v, P INST_INSTANCE_TYPE (Str type)]),
      P CF_INSTANCE_CONFIG (path (instances s) [type, ''0''])]"
    using assms(4) by (auto simp: handleInstanceTypeChange_def set_field_def run_simps)
  have "get (form_values s') CF_INSTANCE_CONFIG = Undef \<or> get (form_values s') CF_INSTANCE_CONFIG
      \<in> set (shown_instances (instance_types expert (get (form_values s') CF_PROVIDER))
          (get (form_values s') INST_INSTANCE_TYPE))"
    using p assms(3) by (intro instance_selected [where type = type]) (simp_all add: s' get_spread plain)
  moreover have same: "get (form_values s') k = get ?v k" if "k \<noteq> INST_INSTANCE_TYPE" "k \<noteq> CF_INSTANCE_CONFIG" for k
    using that by (simp add: s' get_spread plain)
  ultimately show ?thesis
    using assms(2) by (simp add: values_ok_def coherent_def shown_datacenters_def regions_of_def s')
qed

lemma change_field_ok:
  assumes "values_ok expert providers s" "name \<notin> selection_fields - {CF_CREATION_TYPE}"
    and "set_field name v s = (Ok u, s')"
  shows "values_ok expert providers s'"
proof -
  have plain: "plain_object (form_values s)" using assms(1) by (simp add: values_ok_def)
  have "get (form_values s') k = get (form_values s) k" if "k \<in> selection_fields - {CF_CREATION_TYPE}" for k
    using that assms(2) set_field_run [OF assms(3)] get_spread [OF plain] by auto
  moreover have "plain_object (form_values s')" using set_field_run [OF assms(3)] by simp
  ultimately show ?thesis
    using assms(1) by (auto simp: values_ok_def selection_fields_def cong: coherent_cong intro: coherent_cong [THEN iffD2])
qed

lemma handler_ok:
  assumes usable: "usable_providers providers" and I: "form_invariant expert providers s"
    and off: "offered providers s e" and run: "handler e s = (Ok u, s')"
  shows "values_ok expert providers s'"
proof -
  have v: "values_ok expert providers s" using I by (simp add: form_invariant_def values_ok_def)
  have inst: "instances s = instance_types expert (get (form_values s) CF_PROVIDER)"
    if "get (form_values s) CF_CREATION_TYPE = Str CREATE_FORM" "cloud_part (form_values s)"
    using that I by (simp add: form_invariant_def)
  show ?thesis
  proof (cases e)
    case (Select_provider p)
    then show ?thesis using off run by (intro select_provider_ok [OF usable v]) simp_all
  next
    case (Select_region c)
    then show ?thesis using run by (intro select_region_ok [OF usable v]) simp
  next
    case (Select_datacenter c)
    then show ?thesis using off run by (intro select_datacenter_ok [OF v]) simp_all
  next
    case (Select_instance_type t)
    then show ?thesis using off run inst by (intro select_instance_type_ok [OF usable v]) simp_all
  next
    case (Select_instance c)
    then show ?thesis using off run inst by (intro select_instance_ok [OF v]) simp_all
  next
    case (Change_field n x)
    then show ?thesis using off run by (intro change_field_ok [OF v]) auto
  next
    case Open_yaml
    then show ?thesis using run by (intro change_field_ok [OF v]) auto
  next
    case Open_form
    then show ?thesis using run by (intro change_field_ok [OF v]) auto
  qed
qed

lemma handler_instances: "keeps (\<lambda>s. instances s = x) (handler e)"
  by (cases e)
     (simp_all add: reset_values_def handleRegionChange_def handleRegionConfigChange_def
        handleInstanceTypeChange_def handleInstanceConfigChange_def Let_def,
      (intro instances_intros; simp)+)

section \<open>Settling\<close>

definition previous_ok :: "bool \<Rightarrow> js option \<Rightarrow> cluster_form \<Rightarrow> bool" where
  "previous_ok expert prev s \<longleftrightarrow> (case prev of None \<Rightarrow> True
     | Some v \<Rightarrow> cloud_part v \<longrightarrow> instances s = instance_types expert (get v CF_PROVIDER))"

lemma round_instances:
  assumes "usable_provider (get r CF_PROVIDER)" "cloud_part r" "previous_ok expert prev s"
  shows "instances (snd (form_effects expert again prev r s)) = instance_types expert (get r CF_PROVIDER)"
proof (cases "\<exists>v. prev = Some v \<and> cloud_part v")
  case True
  then obtain v where v: "prev = Some v" "cloud_part v" by blast
  then have old: "instances s = instance_types expert (get v CF_PROVIDER)"
    using assms(3) by (simp add: previous_ok_def)
  show ?thesis
  proof (cases "get (get v CF_PROVIDER) ''instance_types'' = get (get r CF_PROVIDER) ''instance_types''")
    case True
    then show ?thesis
      using old v instance_types_cong [OF True]
      by (simp add: form_effects_instances [OF assms(1,2)] cloud_effects_instances)
  next
    case False
    then show ?thesis using v
      by (simp add: form_effects_instances [OF assms(1,2)] cloud_effects_instances changed_def the_provider_def)
  qed
next
  case False
  then have "(case prev of Some v \<Rightarrow> if cloud_part v then prev else None | None \<Rightarrow> None) = None"
    by (auto split: option.split)
  then show ?thesis
    by (simp add: form_effects_instances [OF assms(1,2)] cloud_effects_instances changed_def)
qed

lemma cloud_part_cong: "get v CF_PROVIDER = get w CF_PROVIDER \<Longrightarrow> cloud_part v = cloud_part w"
  by (simp add: cloud_part_def the_provider_def)

lemma settle_invariant:
  assumes usable: "usable_providers providers" and v: "values_ok expert providers s"
    and prev: "previous_ok expert prev s" and run: "settle expert again prev s = (Ok u, s')"
  shows "form_invariant expert providers s'"
proof -
  let ?r = "form_values s"
  have p: "usable_provider (get ?r CF_PROVIDER)"
    using v usable_current [OF usable] by (simp add: values_ok_def)
  have start: "selected (selection ?r) s" using v by (simp add: selected_def values_ok_def)
  obtain s1 where s1: "form_effects expert again prev ?r s = (Ok Undef, s1)"
    using form_effects_succeeds [OF p] unfolding succeeds_def by blast
  have sel1: "selected (selection ?r) s1"
    using keepsD [OF form_effects_selected start, of expert again prev ?r] s1 by simp
  have p1: "get (form_values s1) CF_PROVIDER = get ?r CF_PROVIDER"
    using selected_provider [OF start sel1] .
  have s': "snd (form_effects expert False (Some ?r) (form_values s1) s1) = s'"
    using run s1 by (simp add: settle_def run_simps)
  have sel': "selected (selection ?r) s'"
    using keepsD [OF form_effects_selected sel1, of expert False "Some ?r" "form_values s1"] s' by simp
  have "instances s' = instance_types expert (get (form_values s') CF_PROVIDER)"
    if "cloud_part (form_values s')"
  proof -
    have cloud: "cloud_part ?r" "cloud_part (form_values s1)"
      using that selected_provider [OF start sel'] p1 cloud_part_cong by metis+
    have "instances s1 = instance_types expert (get ?r CF_PROVIDER)"
      using round_instances [OF p cloud(1) prev] s1 by (metis snd_conv)
    then have "previous_ok expert (Some ?r) s1" by (simp add: previous_ok_def)
    then have "instances s' = instance_types expert (get (form_values s1) CF_PROVIDER)"
      using round_instances [of "form_values s1", OF _ cloud(2)] p p1 s' by metis
    then show ?thesis using selected_provider [OF sel1 sel'] by simp
  qed
  moreover have "values_ok expert providers s'" using values_ok_selected [OF v sel'] .
  ultimately show ?thesis by (simp add: form_invariant_def values_ok_def)
qed

section \<open>Reachable forms\<close>

lemma api_providers_usable: "list_all api_provider providers \<Longrightarrow> usable_providers providers"
  by (auto simp: usable_providers_def list_all_iff dest: api_provider_usable)

lemma dispatch_invariant:
  assumes usable: "usable_providers providers" and I: "form_invariant expert providers s"
    and off: "offered providers s e" and run: "dispatch expert again e s = (Ok u, s')"
  shows "form_invariant expert providers s'"
proof -
  obtain u1 s1 where h: "handler e s = (Ok u1, s1)"
    using run by (cases "handler e s"; cases "fst (handler e s)") (auto simp: dispatch_def run_simps)
  have v1: "values_ok expert providers s1" using handler_ok [OF usable I off h] .
  have inst: "instances s1 = instances s"
    using keepsD [OF handler_instances refl, of e s] h by simp
  show ?thesis
  proof (cases "e = Open_yaml")
    case True
    then have "form_values s' = form_values s1" "get (form_values s1) CF_CREATION_TYPE = Str CREATE_YAML"
      using run h by (auto simp: dispatch_def run_simps unmount_cloud_part_def set_field_def get_obj)
    then show ?thesis using v1 by (simp add: form_invariant_def values_ok_def)
  next
    case False
    let ?prev = "if e = Open_form then None else Some (form_values s)"
    have "settle expert again ?prev s1 = (Ok u, s')"
      using run h False by (auto simp: dispatch_def run_simps)
    moreover have "previous_ok expert ?prev s1"
    proof (cases "e = Open_form")
      case False
      then have "get (form_values s) CF_CREATION_TYPE = Str CREATE_FORM"
        using off \<open>e \<noteq> Open_yaml\<close> by (cases e) simp_all
      then show ?thesis using I inst False by (simp add: previous_ok_def form_invariant_def)
    qed (simp add: previous_ok_def)
    ultimately show ?thesis using settle_invariant [OF usable v1] by blast
  qed
qed

lemma default_values_plain: "plain_object (CLUSTER_FORM_DEFAULT_VALUES expert blockId)"
  by (simp add: CLUSTER_FORM_DEFAULT_VALUES_def)

lemma default_instance_type: "get (CLUSTER_FORM_DEFAULT_VALUES expert blockId) INST_INSTANCE_TYPE = Str ''small''"
  by (simp add: CLUSTER_FORM_DEFAULT_VALUES_def CLOUD_CLUSTER_DEFAULT_VALUES_def
      LOCAL_CLUSTER_DEFAULT_VALUES_def get_obj)

lemma default_creation_type: "get (CLUSTER_FORM_DEFAULT_VALUES expert blockId) CF_CREATION_TYPE = Str CREATE_FORM"
  by (simp add: CLUSTER_FORM_DEFAULT_VALUES_def get_obj)

lemma resetForm_values:
  assumes "plain_object v" "resetForm expert providers versions environments clusterName v = Ok w"
  shows "plain_object w \<and> get w CF_PROVIDER = get providers ''0''
    \<and> get w CF_REGION = path (get providers ''0'') [''cloud_regions'', ''0'', ''code'']
    \<and> get w CF_REGION_CONFIG = path (get providers ''0'') [''cloud_regions'', ''0'', ''datacenters'', ''0'']
    \<and> get w CF_INSTANCE_CONFIG = path (get providers ''0'') [''instance_types'', ''small'', ''0'']
    \<and> get w INST_INSTANCE_TYPE = get v INST_INSTANCE_TYPE
    \<and> get w CF_CREATION_TYPE = get v CF_CREATION_TYPE
    \<and> get w BK_IS_BACKUPS_ENABLED = get v BK_IS_BACKUPS_ENABLED"
  using assms by (auto simp: resetForm_def res_simps get_spread Let_def simp del: path.simps split: if_splits)

lemma resetForm_ok:
  assumes "usable_provider (get providers ''0'')"
  shows "\<exists>w. resetForm expert providers versions environments clusterName v = Ok w"
  using default_volume_type_ok [OF assms] by (auto simp: resetForm_def Let_def elim!: is_ok.elims)

lemma opened_invariant:
  assumes usable: "usable_providers providers"
    and run: "open_page expert blockId providers versions environments clusterName = (Ok u, s)"
  shows "form_invariant expert providers s"
proof -
  let ?d = "CLUSTER_FORM_DEFAULT_VALUES expert blockId"
  have first: "get (Arr providers) ''0'' \<in> set (Undef # local_provider # providers)"
    using first_of_arr [of providers] by auto
  obtain w where w: "resetForm expert (Arr providers) versions environments clusterName ?d = Ok w"
    and settled: "settle expert False None (empty_form w) = (Ok u, s)"
    using run by (auto simp: open_page_def reset_values_def run_simps empty_form_def split: res.splits)
  note vals = resetForm_values [OF default_values_plain w]
  have "coherent expert w"
    using vals usable_current [OF usable first]
    by (intro first_choices_coherent [of "get (Arr providers) ''0''"]) (simp_all add: default_instance_type)
  then have "values_ok expert providers (empty_form w)"
    using vals first by (simp add: values_ok_def empty_form_def)
  then show ?thesis using settle_invariant [OF usable _ _ settled] by (simp add: previous_ok_def)
qed

lemma reachable_invariant:
  "form_reachable expert providers s \<Longrightarrow> usable_providers providers \<Longrightarrow> form_invariant expert providers s"
  by (induction rule: form_reachable.induct) (auto intro: opened_invariant dispatch_invariant)

lemma handler_succeeds:
  assumes usable: "usable_providers providers" and I: "form_invariant expert providers s"
    and off: "offered providers s e"
  obtains s1 where "handler e s = (Ok Undef, s1)"
proof -
  have p: "usable_provider (get (form_values s) CF_PROVIDER)"
    using usable_current [OF usable] I by (simp add: form_invariant_def)
  have "\<exists>s1. handler e s = (Ok Undef, s1)"
  proof (cases e)
    case (Select_provider q)
    then have "q = local_provider \<or> q \<in> set providers" using off by simp
    moreover have "\<not> nullish local_provider" by (simp add: local_provider_def)
    ultimately have q: "usable_provider q" "\<not> nullish q"
      using usable usable_local by (auto simp: usable_providers_def)
    from default_volume_ok [OF q(1)] q(2) show ?thesis using Select_provider
      by (auto simp: reset_values_def run_simps handleProviderChange_def member_def elim!: is_ok.elims)
  next
    case (Select_region c)
    have "is_ok (opt_find (\<lambda>region. map_res (\<lambda>x. x = c) (member region ''code'')) (regions_of (form_values s)))"
    proof (rule opt_find_ok)
      show "array_or_nothing (regions_of (form_values s))"
        using p by (auto simp: regions_of_def coalesce_def usable_provider_def array_or_nothing_alt)
      show "\<forall>x\<in>set (elems (regions_of (form_values s))). is_ok (map_res (\<lambda>x. x = c) (member x ''code''))"
        using p by (auto simp: regions_of_def coalesce_def usable_provider_def member_def)
    qed
    then show ?thesis using Select_region
      by (auto simp: handleRegionChange_def set_field_def run_simps elim!: is_ok.elims)
  qed (simp_all add: handleRegionConfigChange_def handleInstanceTypeChange_def handleInstanceConfigChange_def
      set_field_def run_simps)
  then show ?thesis using that by blast
qed

lemma dispatch_succeeds:
  assumes usable: "usable_providers providers" and I: "form_invariant expert providers s"
    and off: "offered providers s e"
  shows "\<exists>s'. dispatch expert again e s = (Ok Undef, s')"
proof -
  obtain s1 where h: "handler e s = (Ok Undef, s1)" using handler_succeeds [OF usable I off] .
  have v1: "values_ok expert providers s1" using handler_ok [OF usable I off h] .
  show ?thesis
  proof (cases "e = Open_yaml")
    case True
    then show ?thesis using h by (simp add: dispatch_def run_simps unmount_cloud_part_def)
  next
    case False
    have "usable_provider (get (form_values s1) CF_PROVIDER)" "plain_object (form_values s1)"
      using v1 usable_current [OF usable] by (simp_all add: values_ok_def)
    then obtain s' where "settle expert again (if e = Open_form then None else Some (form_values s)) s1 = (Ok Undef, s')"
      using settle_succeeds by blast
    then show ?thesis using h False by (auto simp: dispatch_def run_simps)
  qed
qed

text \<open>The fields an effect writes, and all the others.\<close>

definition effect_fields :: "string set" where
  "effect_fields = {STO_VOLUME_TYPE, STO_STORAGE_AMOUNT, BK_IS_BACKUPS_ENABLED}"

definition holds :: "string \<Rightarrow> js \<Rightarrow> cluster_form \<Rightarrow> bool" where
  "holds name x s \<longleftrightarrow> plain_object (form_values s) \<and> get (form_values s) name = x"

lemma holds_set_field: "name \<noteq> name' \<Longrightarrow> keeps (holds name x) (set_field name' v)"
  by (simp add: keeps_def holds_def set_field_values get_spread)

lemma holds_modify: "(\<And>s. form_values (f s) = form_values s) \<Longrightarrow> keeps (holds name x) (modify f)"
  by (simp add: keeps_def run_simps holds_def)

lemma settle_holds:
  assumes "name \<notin> effect_fields"
  shows "keeps (holds name x) (settle expert again prev)"
  using assms unfolding effect_fields_def settle_def form_effects_def cloud_effects_def instances_effect_def
    amount_effect_def storage_provider_effect_def storage_volume_effect_def backups_provider_effect_def
    backups_mount_effect_def unmount_cloud_part_def Let_def
  by (intro keeps_intros holds_set_field holds_modify; simp)

lemma page_opens:
  assumes "usable_provider (get (Arr providers) ''0'')"
  obtains s w where "open_page expert blockId providers versions environments clusterName = (Ok Undef, s)"
    and "resetForm expert (Arr providers) versions environments clusterName
           (CLUSTER_FORM_DEFAULT_VALUES expert blockId) = Ok w"
    and "\<And>name. name \<notin> effect_fields \<Longrightarrow> get (form_values s) name = get w name"
proof -
  let ?d = "CLUSTER_FORM_DEFAULT_VALUES expert blockId"
  obtain w where w: "resetForm expert (Arr providers) versions environments clusterName ?d = Ok w"
    using resetForm_ok [OF assms] by blast
  note vals = resetForm_values [OF default_values_plain w]
  obtain s where s: "settle expert False None (empty_form w) = (Ok Undef, s)"
    by (rule settle_succeeds [of "empty_form w" expert False None])
       (use vals assms in \<open>simp_all add: empty_form_def\<close>)
  have "open_page expert blockId providers versions environments clusterName = (Ok Undef, s)"
    using w s by (simp add: open_page_def reset_values_def run_simps empty_form_def)
  moreover have "get (form_values s) name = get w name" if "name \<notin> effect_fields" for name
    using keepsD [OF settle_holds [OF that, of "get w name"], of "empty_form w" expert False None] vals s
    by (simp add: holds_def empty_form_def)
  ultimately show ?thesis using that w by blast
qed

section \<open>Properties of reachable forms\<close>

lemma reachable_form:
  assumes "list_all api_provider providers" "form_reachable expert providers s"
  shows "form_invariant expert providers s"
  using reachable_invariant assms api_providers_usable by blast

lemma shown_datacentersD:
  "config \<in> set (shown_datacenters v) \<Longrightarrow>
     \<exists>region \<in> set (elems (get (get v CF_PROVIDER) ''cloud_regions'')).
       get region ''code'' = get v CF_REGION \<and> config \<in> set (elems (get region ''datacenters''))"
  by (cases "get (get v CF_PROVIDER) ''cloud_regions''")
     (auto simp: shown_datacenters_def regions_of_def coalesce_def)

lemma shown_instancesD: "config \<in> set (shown_instances types type) \<Longrightarrow>
    \<exists>t. type = Str t \<and> config \<in> set (elems (get types t))"
  by (cases type) auto

lemma getCloudProviderExtraVars_codes:
  assumes "getCloudProviderExtraVars expert v = Ok vars"
    and "keys_of (path v [CF_REGION_CONFIG, ''cloud_image'', ''image''])
           \<inter> {''cloud_provider'', ''server_type'', ''server_location''} = {}"
  shows "\<not> nullish (get v CF_PROVIDER) \<and> \<not> nullish (get v CF_REGION_CONFIG)
    \<and> get vars ''cloud_provider'' = get (get v CF_PROVIDER) ''code''
    \<and> get vars ''server_location'' = get (get v CF_REGION_CONFIG) ''code''
    \<and> get vars ''server_type'' =
        (if get v INST_INSTANCE_TYPE = Str ''custom'' then get v INST_SERVER_TYPE
         else get (get v CF_INSTANCE_CONFIG) ''code'')
    \<and> (get v INST_INSTANCE_TYPE \<noteq> Str ''custom'' \<longrightarrow> \<not> nullish (get v CF_INSTANCE_CONFIG))"
proof -
  let ?image = "path v [CF_REGION_CONFIG, ''cloud_image'', ''image'']"
  have image: "lookup_part (Spread ?image) k = None"
    if "k \<in> {''cloud_provider'', ''server_type'', ''server_location''}" for k
  proof -
    have "k \<notin> fst ` set (own_props ?image)" using assms(2) that unfolding keys_of_def by blast
    then show ?thesis by (simp add: lookup_part.simps(2) map_of_eq_None_iff del: path.simps)
  qed
  have expert: "lookup_parts (cloud_expert_vars v) k = None"
    if "k \<in> {''cloud_provider'', ''server_type'', ''server_location''}" for k
    using that by (auto simp: cloud_expert_vars_def)
  let ?ssh = "if has_length (get v SSH_SSH_PUBLIC_KEY)
      then map_res (\<lambda>ks. obj [P ''ssh_public_keys'' ks]) (quote_keys (get v SSH_SSH_PUBLIC_KEY)) else Ok (obj [])"
  from assms(1) obtain provider_code server_type region_code ssh where codes:
      "member (get v CF_PROVIDER) ''code'' = Ok provider_code"
      "(if get v CF_INSTANCE_TYPE = Str ''custom'' then Ok (get v INST_SERVER_TYPE)
        else member (get v CF_INSTANCE_CONFIG) ''code'') = Ok server_type"
      "member (get v CF_REGION_CONFIG) ''code'' = Ok region_code"
    and ssh: "?ssh = Ok ssh"
    and vars: "obj
       [Spread (getCommonExtraVars v), P ''cloud_provider'' provider_code, P ''server_type'' server_type,
        P ''server_location'' region_code, P ''server_count'' (get v CF_INSTANCES_AMOUNT),
        P ''volume_size'' (get v STO_STORAGE_AMOUNT),
        P ''ansible_user'' (get PROVIDER_CODE_TO_ANSIBLE_USER_MAP (js_str provider_code)),
        Spread ssh, Spread ?image, Spread_if expert (cloud_expert_vars v)] = vars"
    unfolding getCloudProviderExtraVars_def and_then_eq_Ok member_Ok by (auto simp del: js_str.simps)
  have "ssh = obj [] \<or> (\<exists>ks. ssh = obj [P ''ssh_public_keys'' ks])"
    using ssh by (auto simp: res_simps split: if_splits)
  then have ssh_keys: "lookup_part (Spread ssh) k = None"
    if "k \<in> {''cloud_provider'', ''server_type'', ''server_location''}" for k
    using that by auto
  show ?thesis
    using codes image expert ssh_keys
    by (simp add: vars [symmetric] get_obj member_Ok split: if_splits)
qed

text \<open>
  In every form the user can reach, by any sequence of choices and edits, the chosen data centre
  is one of a region of that code of the chosen provider, and the chosen instance one of the
  chosen type of that provider.
\<close>

theorem choices_belong_to_provider:
  assumes "list_all api_provider providers" "form_reachable expert providers s"
  shows "get (form_values s) CF_PROVIDER \<in> set (Undef # local_provider # providers)
    \<and> (get (form_values s) CF_REGION_CONFIG = Undef
        \<or> (\<exists>region \<in> set (elems (get (get (form_values s) CF_PROVIDER) ''cloud_regions'')).
             get region ''code'' = get (form_values s) CF_REGION
             \<and> get (form_values s) CF_REGION_CONFIG \<in> set (elems (get region ''datacenters''))))
    \<and> (get (form_values s) CF_INSTANCE_CONFIG = Undef
        \<or> (\<exists>type. get (form_values s) INST_INSTANCE_TYPE = Str type
             \<and> get (form_values s) CF_INSTANCE_CONFIG
                 \<in> set (elems (get (instance_types expert (get (form_values s) CF_PROVIDER)) type))))"
  using reachable_form [OF assms] shown_datacentersD shown_instancesD
  unfolding form_invariant_def coherent_def by blast

text \<open>
  C24: the request made of a reachable form for a cloud provider names that provider, a data
  centre of the chosen region and an instance of the chosen type, all three from the list the API
  returned; a custom instance type names the type the user typed. (The image of the data
  centre, spread into the request, does not define these three itself.)
\<close>

theorem cloud_request_is_deployable:
  assumes "list_all api_provider providers" "form_reachable expert providers s"
    and "cloud_part (form_values s)" "getCloudProviderExtraVars expert (form_values s) = Ok vars"
    and "keys_of (path (form_values s) [CF_REGION_CONFIG, ''cloud_image'', ''image''])
           \<inter> {''cloud_provider'', ''server_type'', ''server_location''} = {}"
  shows "\<exists>provider \<in> set providers. get vars ''cloud_provider'' = get provider ''code''
    \<and> (\<exists>region \<in> set (elems (get provider ''cloud_regions'')).
         get region ''code'' = get (form_values s) CF_REGION
         \<and> (\<exists>datacenter \<in> set (elems (get region ''datacenters'')).
              get vars ''server_location'' = get datacenter ''code''))
    \<and> (if get (form_values s) INST_INSTANCE_TYPE = Str ''custom''
       then get vars ''server_type'' = get (form_values s) INST_SERVER_TYPE
       else \<exists>type. get (form_values s) INST_INSTANCE_TYPE = Str type
              \<and> (\<exists>instance \<in> set (elems (get (get provider ''instance_types'') type)).
                   get vars ''server_type'' = get instance ''code''))"
proof -
  let ?v = "form_values s" and ?p = "get (form_values s) CF_PROVIDER"
  note codes = getCloudProviderExtraVars_codes [OF assms(4,5)]
  note I = reachable_form [OF assms(1,2), unfolded form_invariant_def coherent_def]
  have "?p \<noteq> local_provider"
    using assms(3) by (auto simp: cloud_part_def the_provider_def local_provider_def get_obj)
  then have p: "?p \<in> set providers" using I codes by auto
  then have usable: "usable_provider ?p"
    using api_providers_usable [OF assms(1)] by (simp add: usable_providers_def)
  have "get ?v CF_REGION_CONFIG \<in> set (shown_datacenters ?v)" using I codes by auto
  from shown_datacentersD [OF this] have location: "\<exists>region \<in> set (elems (get ?p ''cloud_regions'')).
      get region ''code'' = get ?v CF_REGION
      \<and> (\<exists>datacenter \<in> set (elems (get region ''datacenters'')). get vars ''server_location'' = get datacenter ''code'')"
    using codes by blast
  have "\<exists>type. get ?v INST_INSTANCE_TYPE = Str type
      \<and> (\<exists>instance \<in> set (elems (get (get ?p ''instance_types'') type)). get vars ''server_type'' = get instance ''code'')"
    if custom: "get ?v INST_INSTANCE_TYPE \<noteq> Str ''custom''"
  proof -
    have "get ?v CF_INSTANCE_CONFIG \<in> set (shown_instances (instance_types expert ?p) (get ?v INST_INSTANCE_TYPE))"
      using I codes custom by auto
    then obtain t where t: "get ?v INST_INSTANCE_TYPE = Str t"
        "get ?v CF_INSTANCE_CONFIG \<in> set (elems (get (instance_types expert ?p) t))"
      using shown_instancesD by blast
    then show ?thesis
      using custom codes get_instance_types [OF usable, of t expert] by auto
  qed
  then show ?thesis using p location codes by (intro bexI [of _ ?p]) auto
qed

text \<open>
  Whatever the API's providers are, no choice the form offers throws, neither its handler nor
  an effect it sets off: every offered event leads to a reachable form.
\<close>

theorem offered_events_succeed:
  assumes "list_all api_provider providers" "form_reachable expert providers s" "offered providers s e"
  shows "\<exists>s'. dispatch expert again e s = (Ok Undef, s') \<and> form_reachable expert providers s'"
  using dispatch_succeeds [OF api_providers_usable [OF assms(1)] reachable_form [OF assms(1,2)] assms(3)]
    form_reachable.stepped [OF assms(2,3)] by blast

section \<open>A form with a provider\<close>

definition example_provider :: js where
  "example_provider = obj [P ''code'' (Str PROV_AWS),
     P ''cloud_regions'' (Arr [
       obj [P ''code'' (Str ''eu''), P ''datacenters'' (Arr [obj [P ''code'' (Str ''eu-1''),
         P ''cloud_image'' (obj [P ''image'' (obj [P ''server_image'' (Str ''u'')])])]])],
       obj [P ''code'' (Str ''us''), P ''datacenters'' (Arr [obj [P ''code'' (Str ''us-1'')]])]]),
     P ''instance_types'' (obj [P ''small'' (Arr [obj [P ''code'' (Str ''t3'')]])]),
     P ''volumes'' (Arr [obj [P ''volume_type'' (Str ''gp3''), P ''min_size'' (Num 10), P ''is_default'' (Bool True)]])]"

lemma example_provider_api: "list_all api_provider [example_provider]"
  by code_simp

lemma example_provider_usable: "usable_provider example_provider"
  using example_provider_api api_provider_usable by simp

lemma default_ssh: "get (CLUSTER_FORM_DEFAULT_VALUES expert blockId) SSH_SSH_PUBLIC_KEY = Undef"
  by (simp add: CLUSTER_FORM_DEFAULT_VALUES_def CLOUD_CLUSTER_DEFAULT_VALUES_def
      LOCAL_CLUSTER_DEFAULT_VALUES_def get_obj)

lemma resetForm_ssh:
  "plain_object v \<Longrightarrow> resetForm expert providers versions environments clusterName v = Ok w \<Longrightarrow>
     get w SSH_SSH_PUBLIC_KEY = get v SSH_SSH_PUBLIC_KEY"
  by (auto simp: resetForm_def res_simps get_spread Let_def simp del: path.simps split: if_splits)

text \<open>The form on its first provider.\<close>

lemma example_opens:
  obtains s where "form_reachable True [example_provider] s"
    and "get (form_values s) CF_PROVIDER = example_provider"
    and "get (form_values s) CF_REGION_CONFIG = path example_provider [''cloud_regions'', ''0'', ''datacenters'', ''0'']"
    and "get (form_values s) CF_INSTANCE_CONFIG = obj [P ''code'' (Str ''t3'')]"
    and "get (form_values s) CF_INSTANCE_TYPE = Str ''small''"
    and "get (form_values s) CF_CREATION_TYPE = Str CREATE_FORM"
    and "get (form_values s) SSH_SSH_PUBLIC_KEY = Undef"
proof -
  obtain s w where s: "open_page True (Str ''1'') [example_provider] [] (Arr []) Undef = (Ok Undef, s)"
    and w: "resetForm True (Arr [example_provider]) [] (Arr []) Undef (CLUSTER_FORM_DEFAULT_VALUES True (Str ''1'')) = Ok w"
    and rest: "\<And>name. name \<notin> effect_fields \<Longrightarrow> get (form_values s) name = get w name"
    by (rule page_opens [of "[example_provider]" True "Str ''1''" "[]" "Arr []" Undef])
       (simp_all add: example_provider_usable)
  have small: "path example_provider [''instance_types'', ''small'', ''0''] = obj [P ''code'' (Str ''t3'')]"
    by (simp add: example_provider_def get_obj)
  show ?thesis
    using that [OF form_reachable.opened [OF s]] resetForm_values [OF default_values_plain w] rest
      default_instance_type default_creation_type resetForm_ssh [OF default_values_plain w] default_ssh small
    by (simp add: effect_fields_def)
qed

theorem choices_belong_to_provider_witness:
  "\<exists>s :: cluster_form. get (form_values s) CF_REGION_CONFIG = path example_provider [''cloud_regions'', ''0'', ''datacenters'', ''0'']
     \<and> (\<exists>region \<in> set (elems (get example_provider ''cloud_regions'')).
          get region ''code'' = get (form_values s) CF_REGION
          \<and> get (form_values s) CF_REGION_CONFIG \<in> set (elems (get region ''datacenters'')))"
proof -
  obtain s where s: "form_reachable True [example_provider] s" "get (form_values s) CF_PROVIDER = example_provider"
    and rc: "get (form_values s) CF_REGION_CONFIG = path example_provider [''cloud_regions'', ''0'', ''datacenters'', ''0'']"
    using example_opens .
  have "path example_provider [''cloud_regions'', ''0'', ''datacenters'', ''0''] \<noteq> Undef" by code_simp
  then have "\<exists>region \<in> set (elems (get example_provider ''cloud_regions'')).
      get region ''code'' = get (form_values s) CF_REGION
      \<and> get (form_values s) CF_REGION_CONFIG \<in> set (elems (get region ''datacenters''))"
    using choices_belong_to_provider [OF example_provider_api s(1)] unfolding s(2) rc by blast
  with rc show ?thesis by (intro exI [of _ s] conjI)
qed

theorem cloud_request_is_deployable_witness:
  "\<exists>(s :: cluster_form) vars. getCloudProviderExtraVars True (form_values s) = Ok vars
     \<and> get vars ''cloud_provider'' = Str PROV_AWS
     \<and> (\<exists>region \<in> set (elems (get example_provider ''cloud_regions'')).
          \<exists>datacenter \<in> set (elems (get region ''datacenters'')).
            get vars ''server_location'' = get datacenter ''code'')"
proof -
  obtain s where s: "form_reachable True [example_provider] s" "get (form_values s) CF_PROVIDER = example_provider"
    and rc: "get (form_values s) CF_REGION_CONFIG = path example_provider [''cloud_regions'', ''0'', ''datacenters'', ''0'']"
    and ic: "get (form_values s) CF_INSTANCE_CONFIG = obj [P ''code'' (Str ''t3'')]"
    and ssh: "get (form_values s) SSH_SSH_PUBLIC_KEY = Undef"
    using example_opens .
  have config: "get (form_values s) CF_REGION_CONFIG = obj [P ''code'' (Str ''eu-1''),
      P ''cloud_image'' (obj [P ''image'' (obj [P ''server_image'' (Str ''u'')])])]"
    unfolding rc by (simp add: example_provider_def get_obj)
  have code: "get example_provider ''code'' = Str PROV_AWS" by (simp add: example_provider_def get_obj)
  have "is_ok (getCloudProviderExtraVars True (form_values s))"
    unfolding getCloudProviderExtraVars_Ok_iff using s(2) ic config ssh
    by (simp add: example_provider_def get_obj)
  then obtain vars where vars: "getCloudProviderExtraVars True (form_values s) = Ok vars"
    by (auto elim!: is_ok.elims)
  have cloud: "cloud_part (form_values s)" using s(2) code by (simp add: cloud_part_def the_provider_def)
  have "keys_of (path (form_values s) [CF_REGION_CONFIG, ''cloud_image'', ''image''])
      \<inter> {''cloud_provider'', ''server_type'', ''server_location''} = {}"
    using config by (auto simp: get_obj keys_of_obj)
  from cloud_request_is_deployable [OF example_provider_api s(1) cloud vars this]
  have "get vars ''cloud_provider'' = Str PROV_AWS
     \<and> (\<exists>region \<in> set (elems (get example_provider ''cloud_regions'')).
          \<exists>datacenter \<in> set (elems (get region ''datacenters'')).
            get vars ''server_location'' = get datacenter ''code'')"
    using code by auto
  with vars show ?thesis by (intro exI [of _ s] exI [of _ vars] conjI) simp_all
qed

theorem offered_events_succeed_witness:
  "\<exists>s s'. offered [example_provider] s (Select_region (Str ''us''))
     \<and> dispatch True True (Select_region (Str ''us'')) s = (Ok Undef, s')
     \<and> form_reachable True [example_provider] s'"
proof -
  obtain s where s: "form_reachable True [example_provider] s" "get (form_values s) CF_PROVIDER = example_provider"
    and form: "get (form_values s) CF_CREATION_TYPE = Str CREATE_FORM"
    using example_opens .
  have off: "offered [example_provider] s (Select_region (Str ''us''))"
    using form s(2) by (simp add: cloud_part_def the_provider_def regions_of_def example_provider_def get_obj coalesce_def)
  show ?thesis
    using offered_events_succeed [OF example_provider_api s(1) off, of True] off by blast
qed

end
