(* ===== verification/FormStorage.thy ===== *)
theory FormStorage
  imports FormFacts
begin

text \<open>
  What the effects of the form make of the volume type, the storage size and the switch of the
  backups, when the page opens, when the provider changes and when the form is mounted again after
  the YAML editor.
\<close>

section \<open>What the effects leave in the storage block\<close>

text \<open>The size the storage block takes for a volume type of a provider.\<close>

definition smallest_size :: "js \<Rightarrow> js \<Rightarrow> js res" where
  "smallest_size provider type =
     map_res (\<lambda>volume. coalesce (get volume ''min_size'') (Num 1))
       (opt_find (\<lambda>volume. Ok (get volume ''volume_type'' = type)) (get provider ''volumes''))"

definition sends :: "(cluster_form \<Rightarrow> bool) \<Rightarrow> (cluster_form, js) action \<Rightarrow> (cluster_form \<Rightarrow> bool) \<Rightarrow> bool" where
  "sends I m J \<longleftrightarrow> (\<forall>s. I s \<longrightarrow> J (snd (m s)))"

lemma sendsD: "sends I m J \<Longrightarrow> I s \<Longrightarrow> J (snd (m s))"
  by (simp add: sends_def)

lemma sends_keeps: "keeps I m \<Longrightarrow> sends I m I"
  by (simp add: sends_def keeps_def)

lemma sends_seq: "sends I m J \<Longrightarrow> succeeds m \<Longrightarrow> sends J n K \<Longrightarrow> sends I (seq m n) K"
  by (simp add: sends_def snd_seq)

lemma sends_when: "(c \<Longrightarrow> sends I m J) \<Longrightarrow> (\<not> c \<Longrightarrow> I = J) \<Longrightarrow> sends I (when_do c m) J"
  by (auto simp: sends_def when_do_def run_simps)

definition storage_fields :: "js \<Rightarrow> js \<Rightarrow> cluster_form \<Rightarrow> bool" where
  "storage_fields type amount s \<longleftrightarrow> plain_object (form_values s)
     \<and> get (form_values s) STO_VOLUME_TYPE = type \<and> get (form_values s) STO_STORAGE_AMOUNT = amount"

lemma storage_set_field:
  "name \<notin> {STO_VOLUME_TYPE, STO_STORAGE_AMOUNT} \<Longrightarrow> keeps (storage_fields x y) (set_field name v)"
  "sends (storage_fields x y) (set_field STO_VOLUME_TYPE v) (storage_fields v y)"
  "sends (storage_fields x y) (set_field STO_STORAGE_AMOUNT v) (storage_fields x v)"
  by (auto simp: keeps_def sends_def storage_fields_def set_field_values get_spread)

lemma storage_modify: "(\<And>s. form_values (f s) = form_values s) \<Longrightarrow> keeps (storage_fields x y) (modify f)"
  by (simp add: keeps_def run_simps storage_fields_def)

lemma storage_other_effects:
  "keeps (storage_fields x y) (instances_effect expert r)"
  "keeps (storage_fields x y) (amount_effect r)"
  "keeps (storage_fields x y) (backups_provider_effect r)"
  "keeps (storage_fields x y) (backups_mount_effect r)"
  unfolding instances_effect_def amount_effect_def backups_provider_effect_def backups_mount_effect_def
  by (intro keeps_intros storage_set_field storage_modify; simp)+

lemma bind_Ok: "bind (lift_res (Ok x)) f = f x"
  by (simp add: run_simps)

lemma storage_provider_sends:
  assumes "usable_provider (get r CF_PROVIDER)" "default_volume_type (get r CF_PROVIDER) = Ok type"
  shows "sends (storage_fields x y) (storage_provider_effect r) (storage_fields type y)"
proof -
  obtain volume where v: "default_volume (get r CF_PROVIDER) = Ok volume"
    using default_volume_ok [OF assms(1)] by (auto elim!: is_ok.elims)
  obtain options where o: "opt_map volume_option (get (get r CF_PROVIDER) ''volumes'') = Ok options"
    using opt_map_ok assms(1) by (auto simp: usable_provider_def elim!: is_ok.elims)
  show ?thesis
    unfolding storage_provider_effect_def Let_def v o assms(2) bind_Ok
    by (intro sends_seq [OF sends_keeps [OF storage_modify] succeeds_modify] storage_set_field) simp_all
qed

lemma storage_volume_sends:
  assumes "smallest_size (get r CF_PROVIDER) (get r STO_VOLUME_TYPE) = Ok amount"
  shows "sends (storage_fields x y) (storage_volume_effect r) (storage_fields x amount)"
proof -
  obtain volume where v: "opt_find (\<lambda>volume. Ok (get volume ''volume_type'' = get r STO_VOLUME_TYPE))
      (get (get r CF_PROVIDER) ''volumes'') = Ok volume" "amount = coalesce (get volume ''min_size'') (Num 1)"
    using assms by (auto simp: smallest_size_def res_simps)
  show ?thesis
    unfolding storage_volume_effect_def v bind_Ok
    by (intro sends_seq [OF sends_keeps [OF storage_modify] succeeds_modify] storage_set_field) simp
qed

text \<open>One round, and the two rounds of \<open>settle\<close> where the provider counts as new.\<close>

definition previous_cloud :: "js option \<Rightarrow> js option" where
  "previous_cloud prev = (case prev of Some v \<Rightarrow> if cloud_part v then prev else None | None \<Rightarrow> None)"

lemma round_storage:
  assumes p: "usable_provider (get r CF_PROVIDER)" and cloud: "cloud_part r"
    and type: "default_volume_type (get r CF_PROVIDER) = Ok type"
    and amount: "smallest_size (get r CF_PROVIDER) (get r STO_VOLUME_TYPE) = Ok amount"
  shows "sends (storage_fields x y) (form_effects expert again prev r)
    (storage_fields
      (if again \<or> changed the_provider (previous_cloud prev) r then type else x)
      (if changed (\<lambda>v. get v STO_VOLUME_TYPE) (previous_cloud prev) r then amount else y))"
proof -
  let ?p = "previous_cloud prev"
  let ?c = "again \<or> changed the_provider ?p r" and ?d = "changed (\<lambda>v. get v STO_VOLUME_TYPE) ?p r"
  have volumes: "array_or_nothing (get (get r CF_PROVIDER) ''volumes'')"
    using p by (simp add: usable_provider_def)
  have ok: "succeeds (instances_effect expert r)" "succeeds (amount_effect r)"
      "succeeds (storage_provider_effect r)" "succeeds (storage_volume_effect r)"
    unfolding instances_effect_def amount_effect_def storage_provider_effect_def storage_volume_effect_def Let_def
    by (intro succeeds_intros default_volume_ok default_volume_type_ok opt_map_ok opt_find_ok p volumes; simp)+
  have cloud_sends: "sends (storage_fields x y) (cloud_effects expert again ?p r)
      (storage_fields (if ?c then type else x) (if ?d then amount else y))"
    unfolding cloud_effects_def
    by (intro sends_seq [where J = "storage_fields x y"]
          sends_seq [where J = "storage_fields (if ?c then type else x) y"]
          sends_keeps [OF keeps_when] storage_other_effects succeeds_when ok sends_when)
       (use storage_provider_sends [OF p type] storage_volume_sends [OF amount] in \<open>simp_all\<close>)
  have ok2: "succeeds (cloud_effects expert again ?p r)"
    unfolding cloud_effects_def by (intro succeeds_intros ok)
  have rest: "keeps (storage_fields a b)
      (when_do expert (seq (when_do c (backups_provider_effect r)) (when_do d (backups_mount_effect r))))" for a b c d
    by (intro keeps_intros storage_other_effects)
  show ?thesis
    using cloud sends_seq [OF cloud_sends ok2 sends_keeps [OF rest]]
    by (simp add: form_effects_def previous_cloud_def)
qed

lemma smallest_size_ok: "usable_provider p \<Longrightarrow> \<exists>amount. smallest_size p type = Ok amount"
proof -
  assume "usable_provider p"
  then have "is_ok (opt_find (\<lambda>volume. Ok (get volume ''volume_type'' = type)) (get p ''volumes''))"
    by (intro opt_find_ok) (simp_all add: usable_provider_def)
  then show ?thesis by (auto simp: smallest_size_def elim!: is_ok.elims)
qed

lemma settle_storage:
  assumes p: "usable_provider (get (form_values s) CF_PROVIDER)" and plain: "plain_object (form_values s)"
    and cloud: "cloud_part (form_values s)"
    and new: "again \<or> changed the_provider (previous_cloud prev) (form_values s)"
    and type: "default_volume_type (get (form_values s) CF_PROVIDER) = Ok type"
    and amount: "smallest_size (get (form_values s) CF_PROVIDER) type = Ok amount"
    and run: "settle expert again prev s = (Ok u, s')"
  shows "get (form_values s') STO_VOLUME_TYPE = type \<and> get (form_values s') STO_STORAGE_AMOUNT =
    (if changed (\<lambda>v. get v STO_VOLUME_TYPE) (previous_cloud prev) (form_values s)
        \<or> get (form_values s) STO_VOLUME_TYPE \<noteq> type
     then amount else get (form_values s) STO_STORAGE_AMOUNT)"
proof -
  let ?r = "form_values s"
  let ?d = "changed (\<lambda>v. get v STO_VOLUME_TYPE) (previous_cloud prev) ?r"
  obtain a where a: "smallest_size (get ?r CF_PROVIDER) (get ?r STO_VOLUME_TYPE) = Ok a"
    using smallest_size_ok [OF p] by blast
  obtain s1 where s1: "form_effects expert again prev ?r s = (Ok Undef, s1)"
    using form_effects_succeeds [OF p] unfolding succeeds_def by blast
  have start: "selected (selection ?r) s" "storage_fields (get ?r STO_VOLUME_TYPE) (get ?r STO_STORAGE_AMOUNT) s"
    using plain by (simp_all add: selected_def storage_fields_def)
  have "selected (selection ?r) s1"
    using keepsD [OF form_effects_selected start(1), of expert again prev ?r] s1 by simp
  then have p1: "get (form_values s1) CF_PROVIDER = get ?r CF_PROVIDER"
    using selected_provider start(1) by blast
  have "storage_fields type (if ?d then a else get ?r STO_STORAGE_AMOUNT) s1"
    using round_storage [OF p cloud type a, of _ _ expert again prev] start(2) new s1
    by (force simp: sends_def)
  moreover from this have vt: "get (form_values s1) STO_VOLUME_TYPE = type" by (simp add: storage_fields_def)
  moreover have "cloud_part (form_values s1)" using cloud cloud_part_cong [OF p1] by simp
  moreover have s': "snd (form_effects expert False (Some ?r) (form_values s1) s1) = s'"
    using run s1 by (simp add: settle_def run_simps)
  ultimately have "storage_fields type
      (if get ?r STO_VOLUME_TYPE \<noteq> type then amount else if ?d then a else get ?r STO_STORAGE_AMOUNT) s'"
    using round_storage [of "form_values s1" type amount, unfolded p1, OF p _ type, of _ _ expert False "Some ?r"]
      amount cloud p1 by (auto simp: sends_def changed_def previous_cloud_def the_provider_def split: if_splits)
  then show ?thesis using a amount by (auto simp: storage_fields_def)
qed

section \<open>The switch of the backups\<close>

definition s3_code :: "js \<Rightarrow> bool" where
  "s3_code r \<longleftrightarrow> one_of [PROV_DIGITAL_OCEAN, PROV_HETZNER, PROV_LOCAL] (get (get r CF_PROVIDER) ''code'')"

lemma cloud_effects_holds:
  assumes "name \<notin> effect_fields \<or> name = BK_IS_BACKUPS_ENABLED"
  shows "keeps (holds name x) (cloud_effects expert again prev r)"
  using assms unfolding effect_fields_def cloud_effects_def instances_effect_def amount_effect_def
    storage_provider_effect_def storage_volume_effect_def Let_def
  by (intro keeps_intros holds_set_field holds_modify) auto

lemma round_backups:
  assumes p: "usable_provider (get r CF_PROVIDER)" and plain: "plain_object (form_values s)"
  shows "get (form_values (snd (form_effects True again prev r s))) BK_IS_BACKUPS_ENABLED =
    (if prev = None then get r BK_IS_BACKUPS_ENABLED
     else if (again \<or> changed the_provider prev r) \<and> s3_code r then Bool False
     else get (form_values s) BK_IS_BACKUPS_ENABLED)"
proof -
  let ?m = "if cloud_part r then cloud_effects True again (previous_cloud prev) r else unmount_cloud_part"
  have volumes: "array_or_nothing (get (get r CF_PROVIDER) ''volumes'')"
    using p by (simp add: usable_provider_def)
  have ok: "succeeds ?m"
    unfolding cloud_effects_def instances_effect_def amount_effect_def storage_provider_effect_def
      storage_volume_effect_def unmount_cloud_part_def Let_def
    by (intro succeeds_intros default_volume_ok default_volume_type_ok opt_map_ok opt_find_ok p volumes) simp
  have "keeps (holds BK_IS_BACKUPS_ENABLED x) ?m" for x
    unfolding unmount_cloud_part_def
    by (intro keeps_intros cloud_effects_holds holds_modify) simp_all
  from keepsD [OF this, of "get (form_values s) BK_IS_BACKUPS_ENABLED" s] plain
  have "holds BK_IS_BACKUPS_ENABLED (get (form_values s) BK_IS_BACKUPS_ENABLED) (snd (?m s))"
    by (simp add: holds_def)
  moreover have "form_effects True again prev r = seq ?m (seq
      (when_do (again \<or> changed the_provider prev r) (backups_provider_effect r))
      (when_do (prev = None) (backups_mount_effect r)))"
    by (simp add: form_effects_def previous_cloud_def when_do_def)
  ultimately show ?thesis
    by (simp add: snd_seq [OF ok] snd_seq succeeds_when succeeds_set_field backups_provider_effect_def
        backups_mount_effect_def when_do_def holds_def set_field_values get_spread s3_code_def ret_def
        succeeds_ret [unfolded ret_def])
qed

lemma settle_runs:
  assumes "usable_provider (get (form_values s) CF_PROVIDER)" "plain_object (form_values s)"
  obtains s1 where "form_effects expert again prev (form_values s) s = (Ok Undef, s1)"
    and "plain_object (form_values s1)"
    and "get (form_values s1) CF_PROVIDER = get (form_values s) CF_PROVIDER"
    and "snd (settle expert again prev s) = snd (form_effects expert False (Some (form_values s)) (form_values s1) s1)"
proof -
  have start: "selected (selection (form_values s)) s" using assms(2) by (simp add: selected_def)
  obtain s1 where s1: "form_effects expert again prev (form_values s) s = (Ok Undef, s1)"
    using form_effects_succeeds [OF assms(1)] unfolding succeeds_def by blast
  have "selected (selection (form_values s)) s1"
    using keepsD [OF form_effects_selected start, of expert again prev "form_values s"] s1 by simp
  then have "plain_object (form_values s1)" "get (form_values s1) CF_PROVIDER = get (form_values s) CF_PROVIDER"
    using selected_provider [OF start] by (simp_all add: selected_def)
  moreover have "snd (settle expert again prev s) =
      snd (form_effects expert False (Some (form_values s)) (form_values s1) s1)"
    using s1 by (simp add: settle_def run_simps)
  ultimately show ?thesis using that s1 by blast
qed

lemma settle_backups:
  assumes p: "usable_provider (get (form_values s) CF_PROVIDER)" and plain: "plain_object (form_values s)"
  shows "get (form_values (snd (settle True again prev s))) BK_IS_BACKUPS_ENABLED =
    (if prev \<noteq> None \<and> (again \<or> changed the_provider prev (form_values s)) \<and> s3_code (form_values s)
     then Bool False else get (form_values s) BK_IS_BACKUPS_ENABLED)"
proof -
  obtain s1 where s1: "form_effects True again prev (form_values s) s = (Ok Undef, s1)"
      "plain_object (form_values s1)" "get (form_values s1) CF_PROVIDER = get (form_values s) CF_PROVIDER"
      "snd (settle True again prev s) = snd (form_effects True False (Some (form_values s)) (form_values s1) s1)"
    using settle_runs [OF assms] .
  have "usable_provider (get (form_values s1) CF_PROVIDER)" using p s1(3) by simp
  from round_backups [OF this s1(2), of False "Some (form_values s)"] s1(3,4)
  have "get (form_values (snd (settle True again prev s))) BK_IS_BACKUPS_ENABLED = get (form_values s1) BK_IS_BACKUPS_ENABLED"
    by (simp add: changed_def the_provider_def)
  with round_backups [OF p plain, of again prev] s1(1) show ?thesis by simp
qed

section \<open>Properties\<close>

text \<open>
  C26: effects set fields that other effects depend on, but two rounds are enough: a third round
  throws nothing, runs nothing and leaves the form as it is.
\<close>

theorem effects_settle:
  assumes "api_provider (get (form_values s) CF_PROVIDER)" "plain_object (form_values s)"
  shows "\<exists>s1 s2. form_effects expert again prev (form_values s) s = (Ok Undef, s1)
    \<and> form_effects expert False (Some (form_values s)) (form_values s1) s1 = (Ok Undef, s2)
    \<and> settle expert again prev s = (Ok Undef, s2)
    \<and> form_effects expert False (Some (form_values s1)) (form_values s2) s2 = (Ok Undef, s2)"
proof -
  let ?r = "form_values s" and ?p = "get (form_values s) CF_PROVIDER"
  have p: "usable_provider ?p" using api_provider_usable assms(1) by blast
  obtain s1 where s1: "form_effects expert again prev ?r s = (Ok Undef, s1)"
      "plain_object (form_values s1)" "get (form_values s1) CF_PROVIDER = ?p"
    using settle_runs [OF p assms(2)] .
  obtain s2 where s2: "form_effects expert False (Some ?r) (form_values s1) s1 = (Ok Undef, s2)"
    using form_effects_succeeds [of "form_values s1"] p s1(3) unfolding succeeds_def by metis
  have sel: "selected (selection (form_values s1)) s1" using s1(2) by (simp add: selected_def)
  then have "selected (selection (form_values s1)) s2"
    using keepsD [OF form_effects_selected sel, of expert False "Some ?r" "form_values s1"] s2 by simp
  then have p2: "get (form_values s2) CF_PROVIDER = ?p"
    using selected_provider [OF sel] s1(3) by simp
  have settled: "form_effects expert False (Some (form_values s1)) (form_values s2) s2 = (Ok Undef, s2)"
  proof (cases "cloud_part ?r")
    case True
    obtain type where type: "default_volume_type ?p = Ok type"
      using default_volume_type_ok [OF p] by (auto elim!: is_ok.elims)
    obtain a where a: "smallest_size ?p (get (form_values s1) STO_VOLUME_TYPE) = Ok a"
      using smallest_size_ok [OF p] by blast
    have c1: "cloud_part (form_values s1)" "cloud_part (form_values s2)"
      using True cloud_part_cong s1(3) p2 by metis+
    have "storage_fields (get (form_values s1) STO_VOLUME_TYPE) (get (form_values s1) STO_STORAGE_AMOUNT) s1"
      using s1(2) by (simp add: storage_fields_def)
    from sendsD [OF round_storage [of "form_values s1" type a _ _ expert False "Some ?r"] this]
    have "get (form_values s2) STO_VOLUME_TYPE = get (form_values s1) STO_VOLUME_TYPE"
      using p type a s1(3) c1(1) True s2
      by (simp add: storage_fields_def changed_def previous_cloud_def the_provider_def)
    then show ?thesis
      using c1 p2 s1(3)
      by (simp add: form_effects_def cloud_effects_def changed_def the_provider_def when_do_def run_simps)
  next
    case False
    have c1: "\<not> cloud_part (form_values s1)" "\<not> cloud_part (form_values s2)"
      using False cloud_part_cong s1(3) p2 by metis+
    have "snd (form_effects expert False (Some ?r) (form_values s1) s1) = snd (unmount_cloud_part s1)"
      using c1 s1(3) by (simp add: form_effects_def changed_def the_provider_def when_do_def run_simps unmount_cloud_part_def)
    then have "unmount_cloud_part s2 = (Ok Undef, s2)"
      using s2 by (auto simp: unmount_cloud_part_def run_simps)
    then show ?thesis
      using c1 p2 s1(3)
      by (simp add: form_effects_def changed_def the_provider_def when_do_def seq_def bind_def ret_def)
  qed
  have "settle expert again prev s = (Ok Undef, s2)" using s1(1) s2 by (simp add: settle_def run_simps)
  then show ?thesis using s1(1) s2 settled by blast
qed

text \<open>The provider and the volumes of a reachable form.\<close>

lemma reachable_parts:
  assumes "list_all api_provider providers" "form_reachable expert providers s"
  shows "usable_provider (get (form_values s) CF_PROVIDER) \<and> plain_object (form_values s)"
  using reachable_form [OF assms] usable_current [OF api_providers_usable [OF assms(1)]]
  by (simp add: form_invariant_def)

lemma default_choice:
  assumes "usable_provider p"
  obtains volume type amount where "default_volume p = Ok volume" "default_volume_type p = Ok type"
    "smallest_size p type = Ok amount"
  using default_volume_ok [OF assms] default_volume_type_ok [OF assms] smallest_size_ok [OF assms] that
  by (auto elim!: is_ok.elims)

lemma dispatch_provider:
  assumes "dispatch expert a (Select_provider provider) s = (Ok u, s')"
  obtains s0 where "handleProviderChange provider (form_values s) = Ok (form_values s0)"
    and "settle expert a (Some (form_values s)) s0 = (Ok u, s')"
proof (cases "handleProviderChange provider (form_values s)")
  case (Ok w)
  then show ?thesis using assms that [of "s\<lparr>form_values := w\<rparr>"]
    by (simp add: dispatch_def run_simps reset_values_def)
qed (use assms in \<open>simp add: dispatch_def run_simps reset_values_def\<close>)

lemma dispatch_form:
  assumes "dispatch expert a Open_form s = (Ok u, s')"
  obtains s0 where "form_values s0 = obj [Spread (form_values s), P CF_CREATION_TYPE (Str CREATE_FORM)]"
    and "settle expert a None s0 = (Ok u, s')"
  using assms that [of "snd (set_field CF_CREATION_TYPE (Str CREATE_FORM) s)"]
  by (simp add: dispatch_def run_simps set_field_def)


lemma handleProviderChange_storage:
  assumes "plain_object v" "handleProviderChange provider v = Ok w" "default_volume provider = Ok volume"
  shows "get w STO_VOLUME_TYPE = get v STO_VOLUME_TYPE \<and> get w STO_STORAGE_AMOUNT =
      (if below (get volume ''min_size'') 100 then Num 100 else get volume ''min_size'')"
  using assms by (auto simp: handleProviderChange_def res_simps get_spread simp del: path.simps)

text \<open>
  Choosing another provider selects its default volume type. Its size is at least 100 only if that
  type has the name of the type selected before; otherwise it is the smallest size of the type, and
  the bound of the handler is lost.
\<close>

theorem provider_change_storage:
  assumes "list_all api_provider providers" "form_reachable expert providers s"
    and "provider \<in> set providers" "get provider ''code'' \<noteq> Str PROV_LOCAL"
    and "provider \<noteq> get (form_values s) CF_PROVIDER"
    and "dispatch expert a (Select_provider provider) s = (Ok u, s')"
  shows "\<exists>volume amount. default_volume provider = Ok volume
    \<and> default_volume_type provider = Ok (get (form_values s') STO_VOLUME_TYPE)
    \<and> smallest_size provider (get (form_values s') STO_VOLUME_TYPE) = Ok amount
    \<and> get (form_values s') STO_STORAGE_AMOUNT =
        (if cloud_part (form_values s) \<and> get (form_values s) STO_VOLUME_TYPE = get (form_values s') STO_VOLUME_TYPE
         then (if below (get volume ''min_size'') 100 then Num 100 else get volume ''min_size'')
         else amount)"
proof -
  have plain: "plain_object (form_values s)" using reachable_parts [OF assms(1,2)] by auto
  have p: "usable_provider provider"
    using api_providers_usable [OF assms(1)] assms(3) by (simp add: usable_providers_def)
  obtain volume type amount where choice: "default_volume provider = Ok volume"
      "default_volume_type provider = Ok type" "smallest_size provider type = Ok amount"
    using default_choice [OF p] .
  obtain s0 where h: "handleProviderChange provider (form_values s) = Ok (form_values s0)"
      "settle expert a (Some (form_values s)) s0 = (Ok u, s')"
    using dispatch_provider [OF assms(6)] .
  let ?w = "form_values s0"
  note vals = handleProviderChange_values [OF plain h(1)]
  note storage = handleProviderChange_storage [OF plain h(1) choice(1)]
  have "cloud_part ?w" using vals assms(4) by (simp add: cloud_part_def the_provider_def)
  then show ?thesis
    using settle_storage [OF _ _ _ _ _ _ h(2), of type amount] p vals storage choice assms(5)
    by (auto simp: changed_def previous_cloud_def the_provider_def)
qed

text \<open>
  With backups on by default, a page that opens on a provider leaves them on, whichever it is;
  choosing a provider whose backups need keys of an S3 storage switches them off. The same provider is
  offered with backups when it is the first of the list and without when it was chosen.
\<close>

theorem backups_depend_on_the_way:
  assumes "list_all api_provider providers"
    and "open_page True blockId providers versions environments clusterName = (Ok u, s)"
    and "provider \<in> set providers"
    and "get provider ''code'' = Str PROV_DIGITAL_OCEAN \<or> get provider ''code'' = Str PROV_HETZNER"
    and "provider \<noteq> get (form_values s) CF_PROVIDER"
    and "dispatch True a (Select_provider provider) s = (Ok u', s')"
  shows "get (form_values s) BK_IS_BACKUPS_ENABLED = Bool True
    \<and> get (form_values s') BK_IS_BACKUPS_ENABLED = Bool False"
proof
  have usable: "usable_providers providers" using api_providers_usable assms(1) .
  have I: "form_invariant True providers s" using opened_invariant [OF usable assms(2)] .
  have first: "usable_provider (get (Arr providers) ''0'')"
    using usable_current [OF usable] first_of_arr [of providers] by auto
  obtain w where w: "resetForm True (Arr providers) versions environments clusterName
        (CLUSTER_FORM_DEFAULT_VALUES True blockId) = Ok w"
      "settle True False None (empty_form w) = (Ok u, s)"
    using assms(2) by (auto simp: open_page_def reset_values_def run_simps empty_form_def split: res.splits)
  note vals = resetForm_values [OF default_values_plain w(1)]
  have "get (CLUSTER_FORM_DEFAULT_VALUES True blockId) BK_IS_BACKUPS_ENABLED = Bool True"
    by (simp add: CLUSTER_FORM_DEFAULT_VALUES_def get_obj)
  then show "get (form_values s) BK_IS_BACKUPS_ENABLED = Bool True"
    using settle_backups [of "empty_form w" False None] w(2) vals first by (simp add: empty_form_def)
  have plain: "plain_object (form_values s)" using I by (simp add: form_invariant_def)
  obtain s0 where h: "handleProviderChange provider (form_values s) = Ok (form_values s0)"
      "settle True a (Some (form_values s)) s0 = (Ok u', s')"
    using dispatch_provider [OF assms(6)] .
  note vals' = handleProviderChange_values [OF plain h(1)]
  have "usable_provider provider" using usable assms(3) by (simp add: usable_providers_def)
  moreover have "s3_code (form_values s0)" using vals' assms(4) by (auto simp: s3_code_def one_of_def)
  ultimately show "get (form_values s') BK_IS_BACKUPS_ENABLED = Bool False"
    using settle_backups [of s0 a "Some (form_values s)"] h(2) vals' assms(5)
    by (auto simp: changed_def the_provider_def)
qed

section \<open>Two providers\<close>

definition example_spaces :: js where
  "example_spaces = obj [P ''code'' (Str PROV_DIGITAL_OCEAN),
     P ''volumes'' (Arr [obj [P ''volume_type'' (Str ''block''), P ''min_size'' (Num 10), P ''is_default'' (Bool True)]])]"

definition example_providers :: "js list" where
  "example_providers = [example_provider, example_spaces]"

lemma example_providers_api: "list_all api_provider example_providers"
  by code_simp

lemma example_providers_usable: "usable_providers example_providers"
  using api_providers_usable [OF example_providers_api] .

lemma example_codes: "get example_provider ''code'' = Str PROV_AWS" "get example_spaces ''code'' = Str PROV_DIGITAL_OCEAN"
  by (simp_all add: example_provider_def example_spaces_def get_obj)

lemma example_choices:
  "default_volume_type example_provider = Ok (Str ''gp3'') \<and> smallest_size example_provider (Str ''gp3'') = Ok (Num 10)
   \<and> default_volume_type example_spaces = Ok (Str ''block'') \<and> smallest_size example_spaces (Str ''block'') = Ok (Num 10)"
  by code_simp

lemma example_page:
  obtains s where "open_page True (Str ''1'') example_providers [] (Arr []) Undef = (Ok Undef, s)"
    and "get (form_values s) CF_PROVIDER = example_provider"
    and "get (form_values s) CF_CREATION_TYPE = Str CREATE_FORM"
proof -
  have first: "get (Arr example_providers) ''0'' = example_provider" by (simp add: example_providers_def)
  obtain s w where s: "open_page True (Str ''1'') example_providers [] (Arr []) Undef = (Ok Undef, s)"
    and w: "resetForm True (Arr example_providers) [] (Arr []) Undef (CLUSTER_FORM_DEFAULT_VALUES True (Str ''1'')) = Ok w"
    and rest: "\<And>name. name \<notin> effect_fields \<Longrightarrow> get (form_values s) name = get w name"
    by (rule page_opens [of example_providers True "Str ''1''" "[]" "Arr []" Undef])
       (simp_all add: first example_provider_usable)
  show ?thesis
    using that [OF s] resetForm_values [OF default_values_plain w] rest default_creation_type first
    by (simp add: effect_fields_def)
qed

lemma example_reachable:
  "open_page True (Str ''1'') example_providers [] (Arr []) Undef = (Ok Undef, s) \<Longrightarrow>
     form_reachable True example_providers s \<and> form_invariant True example_providers s"
  using form_reachable.opened opened_invariant [OF example_providers_usable] by blast

lemma example_chosen:
  obtains s s' where "open_page True (Str ''1'') example_providers [] (Arr []) Undef = (Ok Undef, s)"
    and "get (form_values s) CF_PROVIDER = example_provider" "example_spaces \<noteq> get (form_values s) CF_PROVIDER"
    and "dispatch True False (Select_provider example_spaces) s = (Ok Undef, s')"
proof -
  obtain s where s: "open_page True (Str ''1'') example_providers [] (Arr []) Undef = (Ok Undef, s)"
      "get (form_values s) CF_PROVIDER = example_provider" "get (form_values s) CF_CREATION_TYPE = Str CREATE_FORM"
    using example_page .
  have "offered example_providers s (Select_provider example_spaces)"
    using s(3) by (simp add: example_providers_def)
  then obtain s' where "dispatch True False (Select_provider example_spaces) s = (Ok Undef, s')"
    using dispatch_succeeds [OF example_providers_usable] example_reachable [OF s(1)] by blast
  moreover have "example_spaces \<noteq> example_provider" using example_codes by auto
  ultimately show ?thesis using that s by auto
qed

theorem effects_settle_witness:
  "\<exists>(s1 :: cluster_form) s2. settle True False None (empty_form (obj [P CF_PROVIDER example_provider])) = (Ok Undef, s2)
     \<and> form_effects True False (Some (form_values s1)) (form_values s2) s2 = (Ok Undef, s2)"
proof -
  let ?s = "empty_form (obj [P CF_PROVIDER example_provider])"
  have "api_provider (get (form_values ?s) CF_PROVIDER)" "plain_object (form_values ?s)"
    using example_provider_api by (simp_all add: empty_form_def get_obj)
  from effects_settle [OF this, of True False None] show ?thesis by blast
qed


theorem provider_change_storage_witness:
  "\<exists>s s'. dispatch True False (Select_provider example_spaces) s = (Ok Undef, s')
     \<and> get (form_values s') STO_VOLUME_TYPE = Str ''block''"
proof -
  obtain s s' where s: "open_page True (Str ''1'') example_providers [] (Arr []) Undef = (Ok Undef, s)"
    "example_spaces \<noteq> get (form_values s) CF_PROVIDER"
    "dispatch True False (Select_provider example_spaces) s = (Ok Undef, s')"
    using example_chosen by blast
  have "form_reachable True example_providers s" using example_reachable [OF s(1)] by simp
  moreover have "example_spaces \<in> set example_providers" by (simp add: example_providers_def)
  moreover have "get example_spaces ''code'' \<noteq> Str PROV_LOCAL" using example_codes by simp
  ultimately have "get (form_values s') STO_VOLUME_TYPE = Str ''block''"
    using provider_change_storage [OF example_providers_api _ _ _ s(2,3)] example_choices by auto
  with s(3) show ?thesis by blast
qed

theorem backups_depend_on_the_way_witness:
  "\<exists>s s'. open_page True (Str ''1'') example_providers [] (Arr []) Undef = (Ok Undef, s)
     \<and> dispatch True False (Select_provider example_spaces) s = (Ok Undef, s')
     \<and> get (form_values s) BK_IS_BACKUPS_ENABLED = Bool True
     \<and> get (form_values s') BK_IS_BACKUPS_ENABLED = Bool False"
proof -
  obtain s s' where s: "open_page True (Str ''1'') example_providers [] (Arr []) Undef = (Ok Undef, s)"
    "example_spaces \<noteq> get (form_values s) CF_PROVIDER"
    "dispatch True False (Select_provider example_spaces) s = (Ok Undef, s')"
    using example_chosen by blast
  have "example_spaces \<in> set example_providers" by (simp add: example_providers_def)
  from backups_depend_on_the_way [OF example_providers_api s(1) this _ s(2,3)] example_codes s(1,3)
  show ?thesis by auto
qed

end
