(* ===== verification/Rows.thy ===== *)
theory Rows
  imports FormFacts ValidationFacts
begin

text \<open>
  The blocks of the form that hold rows: database servers, load balancers, DCS servers and
  connection pools (\<open>entities/cluster/database-servers-block\<close>, \<open>load-balancers-block\<close>,
  \<open>expert-mode/dcs-block\<close>, \<open>expert-mode/connection-pools-block\<close>). Each keeps its rows in a field
  array of react-hook-form: \<open>append(v)\<close> adds a row at the end, \<open>remove(i)\<close> takes row
  \<open>i\<close> out. The locale \<open>field_array\<close> is that contract; what the blocks rely on is proved in
  it once. Texts of a tree are opaque, as in the other views, and styles are left out.
\<close>

section \<open>Field arrays\<close>

datatype row_op = Add_row | Remove_row nat

fun run_rows :: "('s \<Rightarrow> 's) \<Rightarrow> (nat \<Rightarrow> 's \<Rightarrow> 's) \<Rightarrow> row_op list \<Rightarrow> 's \<Rightarrow> 's" where
  "run_rows add del [] s = s"
| "run_rows add del (Add_row # ops) s = run_rows add del ops (add s)"
| "run_rows add del (Remove_row i # ops) s = run_rows add del ops (del i s)"

text \<open>What a block of \<open>n\<close> rows offers: every row but the first has a button that removes it.\<close>

fun rows_offered :: "row_op list \<Rightarrow> nat \<Rightarrow> bool" where
  "rows_offered [] n = True"
| "rows_offered (Add_row # ops) n = rows_offered ops (Suc n)"
| "rows_offered (Remove_row i # ops) n = (i \<noteq> 0 \<and> i < n \<and> rows_offered ops (n - 1))"

text \<open>The rows as a list: the abstract field array.\<close>

definition remove_nth :: "nat \<Rightarrow> 'a list \<Rightarrow> 'a list" where
  "remove_nth i xs = take i xs @ drop (Suc i) xs"

lemma length_remove_nth [simp]: "i < length xs \<Longrightarrow> length (remove_nth i xs) = length xs - 1"
  by (simp add: remove_nth_def)

lemma hd_remove_nth: "i \<noteq> 0 \<Longrightarrow> xs \<noteq> [] \<Longrightarrow> hd (remove_nth i xs) = hd xs \<and> remove_nth i xs \<noteq> []"
  by (cases xs; cases i) (simp_all add: remove_nth_def)

lemma set_remove_nth: "set (remove_nth i xs) \<subseteq> set xs"
  by (auto simp: remove_nth_def dest: in_set_takeD in_set_dropD)

locale field_array =
  fixes rows :: "'s \<Rightarrow> 'r list" and add :: "'s \<Rightarrow> 's" and del :: "nat \<Rightarrow> 's \<Rightarrow> 's"
    and fresh :: "'s \<Rightarrow> 'r" and ok :: "'s \<Rightarrow> bool"
  assumes ok_add: "ok s \<Longrightarrow> ok (add s)"
    and ok_del: "ok s \<Longrightarrow> ok (del i s)"
    and rows_add: "ok s \<Longrightarrow> rows (add s) = rows s @ [fresh s]"
    and rows_del: "ok s \<Longrightarrow> i < length (rows s) \<Longrightarrow> rows (del i s) = remove_nth i (rows s)"
begin

text \<open>The first row stays whatever the user does, so a block is never empty once it was not.\<close>

lemma first_row_stays:
  "ok s \<Longrightarrow> rows s \<noteq> [] \<Longrightarrow> rows_offered ops (length (rows s)) \<Longrightarrow>
     ok (run_rows add del ops s) \<and> rows (run_rows add del ops s) \<noteq> []
     \<and> hd (rows (run_rows add del ops s)) = hd (rows s)"
proof (induction ops arbitrary: s)
  case (Cons op ops)
  show ?case
  proof (cases op)
    case Add_row
    have "rows (add s) \<noteq> []" "hd (rows (add s)) = hd (rows s)" "length (rows (add s)) = Suc (length (rows s))"
      using Cons.prems rows_add by simp_all
    then show ?thesis using Cons.IH [of "add s"] Cons.prems Add_row ok_add by simp
  next
    case (Remove_row i)
    then have i: "i \<noteq> 0" "i < length (rows s)" "rows_offered ops (length (rows s) - 1)"
      using Cons.prems by simp_all
    then have "rows (del i s) = remove_nth i (rows s)" using rows_del Cons.prems by blast
    then have "rows (del i s) \<noteq> []" "hd (rows (del i s)) = hd (rows s)"
      "length (rows (del i s)) = length (rows s) - 1"
      using hd_remove_nth [OF i(1) Cons.prems(2)] i(2) by simp_all
    then show ?thesis using Cons.IH [of "del i s"] Cons.prems Remove_row ok_del i(3) by simp
  qed
qed simp

text \<open>Where every added row is the same, the field array refines the list of its rows.\<close>

lemma refines_list:
  "ok s \<Longrightarrow> (\<And>s. fresh s = r) \<Longrightarrow> rows_offered ops (length (rows s)) \<Longrightarrow>
     rows (run_rows add del ops s) = run_rows (\<lambda>xs. xs @ [r]) remove_nth ops (rows s)"
proof (induction ops arbitrary: s)
  case (Cons op ops)
  show ?case
  proof (cases op)
    case Add_row
    then show ?thesis using Cons.IH [of "add s"] Cons.prems ok_add by (simp add: rows_add)
  next
    case (Remove_row i)
    then show ?thesis using Cons.IH [of "del i s"] Cons.prems ok_del by (simp add: rows_del)
  qed
qed simp

text \<open>Every row is one of the old ones or one that was added.\<close>

lemma rows_from:
  "ok s \<Longrightarrow> (\<And>s. ok s \<Longrightarrow> Q (fresh s)) \<Longrightarrow> rows_offered ops (length (rows s)) \<Longrightarrow>
     \<forall>r \<in> set (rows s). Q r \<Longrightarrow> \<forall>r \<in> set (rows (run_rows add del ops s)). Q r"
proof (induction ops arbitrary: s)
  case (Cons op ops)
  show ?case
  proof (cases op)
    case Add_row
    then show ?thesis using Cons.IH [of "add s"] Cons.prems ok_add by (simp add: rows_add)
  next
    case (Remove_row i)
    then have i: "i < length (rows s)" "rows_offered ops (length (rows s) - 1)" using Cons.prems by simp_all
    have "\<forall>r \<in> set (rows (del i s)). Q r"
      using rows_del [OF Cons.prems(1) i(1)] set_remove_nth [of i "rows s"] Cons.prems(4) by auto
    then show ?thesis
      using Cons.IH [of "del i s"] Cons.prems(1,2) Remove_row ok_del i rows_del by simp
  qed
qed simp

end

section \<open>Field arrays of the form\<close>

definition rows_of :: "string \<Rightarrow> js \<Rightarrow> js list" where
  "rows_of name values = elems (get values name)"

definition append_row :: "string \<Rightarrow> js \<Rightarrow> js \<Rightarrow> js" where
  "append_row name v values = obj [Spread values, P name (Arr (rows_of name values @ [v]))]"

definition remove_at :: "string \<Rightarrow> nat \<Rightarrow> js \<Rightarrow> js" where
  "remove_at name i values = obj [Spread values, P name (Arr (remove_nth i (rows_of name values)))]"

lemma rows_of_append [simp]: "rows_of name (append_row name v values) = rows_of name values @ [v]"
  by (simp add: rows_of_def append_row_def get_obj)

lemma rows_of_remove [simp]: "rows_of name (remove_at name i values) = remove_nth i (rows_of name values)"
  by (simp add: rows_of_def remove_at_def get_obj)

text \<open>
  The buttons that add a row. The one of the database servers is given \<open>append\<close> itself, so
  it appends the event of the click; the fields of that row are undefined until they are filled in.
\<close>

definition append_server :: "js \<Rightarrow> js \<Rightarrow> js" where
  "append_server event = append_row DBS_DATABASE_SERVERS event"

definition remove_db_server :: "nat \<Rightarrow> js \<Rightarrow> js" where
  "remove_db_server = remove_at DBS_DATABASE_SERVERS"

definition add_balancer :: "js \<Rightarrow> js" where
  "add_balancer = append_row LB_LOAD_BALANCER_DATABASES LOAD_BALANCERS_DATABASES_DEFAULT_VALUES"

definition remove_balancer :: "nat \<Rightarrow> js \<Rightarrow> js" where
  "remove_balancer = remove_at LB_LOAD_BALANCER_DATABASES"

definition add_dcs_server :: "js \<Rightarrow> js" where
  "add_dcs_server = append_row DCS_DCS_DATABASES DCS_DATABASES_DEFAULT_VALUES"

definition remove_dcs_server :: "nat \<Rightarrow> js \<Rightarrow> js" where
  "remove_dcs_server = remove_at DCS_DCS_DATABASES"

definition new_pool :: js where
  "new_pool = obj
     [P POOL_POOL_NAME (Str ''''), P POOL_POOL_SIZE (Num 20), P POOL_POOL_MODE (Str ''transaction'')]"

definition append_pool :: "js \<Rightarrow> js" where
  "append_pool = append_row POOL_POOLS new_pool"

definition remove_pool :: "nat \<Rightarrow> js \<Rightarrow> js" where
  "remove_pool = remove_at POOL_POOLS"

lemmas row_buttons = append_server_def remove_db_server_def add_balancer_def remove_balancer_def
  add_dcs_server_def remove_dcs_server_def append_pool_def remove_pool_def

interpretation server_rows: field_array "rows_of DBS_DATABASE_SERVERS" "append_server event" remove_db_server
    "\<lambda>_. event" "\<lambda>_. True" for event
  by unfold_locales (simp_all add: row_buttons)

interpretation balancer_rows: field_array "rows_of LB_LOAD_BALANCER_DATABASES" add_balancer remove_balancer
    "\<lambda>_. LOAD_BALANCERS_DATABASES_DEFAULT_VALUES" "\<lambda>_. True"
  by unfold_locales (simp_all add: row_buttons)

interpretation dcs_rows: field_array "rows_of DCS_DCS_DATABASES" add_dcs_server remove_dcs_server
    "\<lambda>_. DCS_DATABASES_DEFAULT_VALUES" "\<lambda>_. True"
  by unfold_locales (simp_all add: row_buttons)

interpretation pool_rows: field_array "rows_of POOL_POOLS" append_pool remove_pool "\<lambda>_. new_pool" "\<lambda>_. True"
  by unfold_locales (simp_all add: row_buttons)

interpretation form_rows: field_array "rows_of name" "append_row name v" "remove_at name" "\<lambda>_. v" "\<lambda>_. True"
  for name v
  by unfold_locales simp_all

section \<open>Rows, cells and switches together\<close>

text \<open>A cell of a row is changed by the control named \<open>array.i.field\<close>.\<close>

definition set_cell :: "string \<Rightarrow> nat \<Rightarrow> string \<Rightarrow> js \<Rightarrow> js \<Rightarrow> js" where
  "set_cell name i k v values =
     (let rows = rows_of name values in
      obj [Spread values, P name (Arr (rows[i := obj [Spread (rows ! i), P k v]]))])"

datatype block = Servers js | Balancers | Dcs_servers | Pools

fun array_of :: "block \<Rightarrow> string" where
  "array_of (Servers event) = DBS_DATABASE_SERVERS"
| "array_of Balancers = LB_LOAD_BALANCER_DATABASES"
| "array_of Dcs_servers = DCS_DCS_DATABASES"
| "array_of Pools = POOL_POOLS"

fun add_of :: "block \<Rightarrow> js \<Rightarrow> js" where
  "add_of (Servers event) = append_server event"
| "add_of Balancers = add_balancer"
| "add_of Dcs_servers = add_dcs_server"
| "add_of Pools = append_pool"

fun remove_of :: "block \<Rightarrow> nat \<Rightarrow> js \<Rightarrow> js" where
  "remove_of (Servers event) = remove_db_server"
| "remove_of Balancers = remove_balancer"
| "remove_of Dcs_servers = remove_dcs_server"
| "remove_of Pools = remove_pool"

datatype block_op = Row block row_op | Cell block nat string js | Switch string js

fun block_step :: "block_op \<Rightarrow> js \<Rightarrow> js" where
  "block_step (Row b op) values = run_rows (add_of b) (remove_of b) [op] values"
| "block_step (Cell b i k v) values = set_cell (array_of b) i k v values"
| "block_step (Switch name v) values = obj [Spread values, P name v]"

text \<open>
  The rows of balancers, DCS servers and pools are shown in expert mode only. A switch is any other field.
\<close>

fun block_shown :: "bool \<Rightarrow> block \<Rightarrow> bool" where
  "block_shown expert (Servers event) = (\<not> nullish event)"
| "block_shown expert Balancers = expert"
| "block_shown expert Dcs_servers = expert"
| "block_shown expert Pools = expert"

fun block_offered :: "bool \<Rightarrow> js \<Rightarrow> block_op \<Rightarrow> bool" where
  "block_offered expert values (Row b op) =
     (block_shown expert b \<and> rows_offered [op] (length (rows_of (array_of b) values)))"
| "block_offered expert values (Cell b i k v) =
     (block_shown expert b \<and> i < length (rows_of (array_of b) values))"
| "block_offered expert values (Switch name v) =
     (name \<notin> {DBS_DATABASE_SERVERS, LB_LOAD_BALANCER_DATABASES, DCS_DCS_DATABASES, POOL_POOLS})"

inductive blocks_reachable :: "bool \<Rightarrow> js \<Rightarrow> bool" where
  blocks_start: "blocks_reachable expert (CLUSTER_FORM_DEFAULT_VALUES expert blockId)"
| blocks_step: "blocks_reachable expert values \<Longrightarrow> block_offered expert values op \<Longrightarrow>
     blocks_reachable expert (block_step op values)"

text \<open>The row a block adds.\<close>

fun fresh_row :: "block \<Rightarrow> js" where
  "fresh_row (Servers event) = event"
| "fresh_row Balancers = LOAD_BALANCERS_DATABASES_DEFAULT_VALUES"
| "fresh_row Dcs_servers = DCS_DATABASES_DEFAULT_VALUES"
| "fresh_row Pools = new_pool"


text \<open>
  In every block of rows the first row cannot be removed: after any sequence of the additions and
  removals it offers, that row is still there and still the first.
\<close>

theorem first_row_undeletable:
  assumes "rows_of (array_of b) values \<noteq> []" "rows_offered ops (length (rows_of (array_of b) values))"
  shows "rows_of (array_of b) (run_rows (add_of b) (remove_of b) ops values) \<noteq> []
    \<and> hd (rows_of (array_of b) (run_rows (add_of b) (remove_of b) ops values)) = hd (rows_of (array_of b) values)"
proof (cases b)
  case (Servers event)
  then show ?thesis using assms server_rows.first_row_stays [of "values" ops event] by simp
next
  case Balancers
  then show ?thesis using assms balancer_rows.first_row_stays [of "values" ops] by simp
next
  case Dcs_servers
  then show ?thesis using assms dcs_rows.first_row_stays [of "values" ops] by simp
next
  case Pools
  then show ?thesis using assms pool_rows.first_row_stays [of "values" ops] by simp
qed

lemma default_rows:
  "get (CLUSTER_FORM_DEFAULT_VALUES expert blockId) DBS_DATABASE_SERVERS = Arr (replicate 3 empty_server)"
  "get (CLUSTER_FORM_DEFAULT_VALUES True blockId) DCS_DCS_DATABASES = Arr (replicate 3 DCS_DATABASES_DEFAULT_VALUES)"
  "get (CLUSTER_FORM_DEFAULT_VALUES True blockId) LB_LOAD_BALANCER_DATABASES = Arr [LOAD_BALANCERS_DATABASES_DEFAULT_VALUES]"
  "get (CLUSTER_FORM_DEFAULT_VALUES True blockId) POOL_POOLS = Arr [first_pool]"
  by (simp_all add: CLUSTER_FORM_DEFAULT_VALUES_def LOCAL_CLUSTER_DEFAULT_VALUES_def
      CLOUD_CLUSTER_DEFAULT_VALUES_def get_obj)

theorem first_row_undeletable_witness:
  "hd (rows_of POOL_POOLS (run_rows append_pool remove_pool [Add_row, Remove_row 1]
     (CLUSTER_FORM_DEFAULT_VALUES True (Str ''1'')))) = first_pool"
proof -
  let ?v = "CLUSTER_FORM_DEFAULT_VALUES True (Str ''1'')"
  have rows: "rows_of POOL_POOLS ?v = [first_pool]" by (simp add: rows_of_def default_rows)
  from first_row_undeletable [of Pools ?v "[Add_row, Remove_row 1]"] show ?thesis by (simp add: rows)
qed


text \<open>Rows of an array of the form that the request can read.\<close>

definition good_rows :: "string \<Rightarrow> js \<Rightarrow> bool" where
  "good_rows name values \<longleftrightarrow> (\<exists>xs. get values name = Arr xs \<and> xs \<noteq> [] \<and> (\<forall>x \<in> set xs. \<not> nullish x))"

definition blocks_invariant :: "bool \<Rightarrow> js \<Rightarrow> bool" where
  "blocks_invariant expert values \<longleftrightarrow> plain_object values
     \<and> (\<forall>b. block_shown expert b \<longrightarrow> good_rows (array_of b) values)"

lemma good_rows_rows: "good_rows name values \<Longrightarrow>
    rows_of name values \<noteq> [] \<and> (\<forall>x \<in> set (rows_of name values). \<not> nullish x)"
  by (auto simp: good_rows_def rows_of_def)

lemma good_rows_set:
  assumes "plain_object values" "good_rows name values" "n = name \<Longrightarrow> v = Arr xs \<and> xs \<noteq> [] \<and> (\<forall>x \<in> set xs. \<not> nullish x)"
  shows "good_rows name (obj [Spread values, P n v])"
  using assms by (auto simp: good_rows_def get_spread)

lemma array_of_eq: "array_of b = array_of c \<Longrightarrow> b = c \<or> (\<exists>e f. b = Servers e \<and> c = Servers f)"
  by (cases b; cases c) simp_all

text \<open>One button press of a block, by the facts of its field array.\<close>

lemma row_step_rows:
  assumes "block_shown expert b" "good_rows (array_of b) values"
    and "rows_offered [op] (length (rows_of (array_of b) values))"
  shows "\<exists>xs. run_rows (add_of b) (remove_of b) [op] values = obj [Spread values, P (array_of b) (Arr xs)]
      \<and> xs \<noteq> [] \<and> (\<forall>x \<in> set xs. \<not> nullish x)"
proof -
  define v where "v = (case b of Servers event \<Rightarrow> event | Balancers \<Rightarrow> LOAD_BALANCERS_DATABASES_DEFAULT_VALUES
    | Dcs_servers \<Rightarrow> DCS_DATABASES_DEFAULT_VALUES | Pools \<Rightarrow> new_pool)"
  have v: "\<not> nullish v" using assms(1)
    by (cases b) (simp_all add: v_def LOAD_BALANCERS_DATABASES_DEFAULT_VALUES_def DCS_DATABASES_DEFAULT_VALUES_def new_pool_def)
  have buttons: "add_of b = append_row (array_of b) v" "remove_of b = remove_at (array_of b)"
    by (cases b; simp add: row_buttons v_def)+
  let ?rows = "rows_of (array_of b) values"
  have rows: "?rows \<noteq> []" "\<forall>x \<in> set ?rows. \<not> nullish x" using good_rows_rows [OF assms(2)] by auto
  have "run_rows (add_of b) (remove_of b) [op] values = obj [Spread values, P (array_of b)
      (Arr (rows_of (array_of b) (run_rows (add_of b) (remove_of b) [op] values)))]"
    by (cases op) (simp_all add: buttons append_row_def remove_at_def rows_of_def get_obj)
  moreover have "rows_of (array_of b) (run_rows (add_of b) (remove_of b) [op] values) \<noteq> []"
    using form_rows.first_row_stays [where name = "array_of b" and v = v and s = "values" and ops = "[op]"] rows(1) assms(3) by (simp add: buttons)
  moreover have "\<forall>x \<in> set (rows_of (array_of b) (run_rows (add_of b) (remove_of b) [op] values)). \<not> nullish x"
    using form_rows.rows_from [where name = "array_of b" and v = v and s = "values" and ops = "[op]" and Q = "\<lambda>x. \<not> nullish x"] v rows(2) assms(3)
    by (simp add: buttons)
  ultimately show ?thesis by blast
qed

lemma block_step_invariant:
  assumes "blocks_invariant expert values" "block_offered expert values op"
  shows "blocks_invariant expert (block_step op values)"
proof -
  have plain: "plain_object values" using assms(1) by (simp add: blocks_invariant_def)
  have good: "good_rows (array_of b) values" if "block_shown expert b" for b
    using that assms(1) by (simp add: blocks_invariant_def)
  have "\<exists>name v. block_step op values = obj [Spread values, P name v]
      \<and> (\<forall>b. block_shown expert b \<longrightarrow> array_of b = name
            \<longrightarrow> (\<exists>xs. v = Arr xs \<and> xs \<noteq> [] \<and> (\<forall>x \<in> set xs. \<not> nullish x)))"
  proof (cases op)
    case (Row b r)
    then show ?thesis using row_step_rows [of expert b "values" r] assms(2) good by auto
  next
    case (Cell b i k v)
    let ?rows = "rows_of (array_of b) values"
    let ?xs = "?rows[i := obj [Spread (?rows ! i), P k v]]"
    have "?rows \<noteq> [] \<and> (\<forall>x \<in> set ?rows. \<not> nullish x)"
      using good_rows_rows [OF good [of b]] Cell assms(2) by simp
    then have "?xs \<noteq> [] \<and> (\<forall>x \<in> set ?xs. \<not> nullish x)"
      using set_update_subset_insert [of ?rows i "obj [Spread (?rows ! i), P k v]"] by auto
    moreover have "block_step op values = obj [Spread values, P (array_of b) (Arr ?xs)]"
      using Cell by (simp add: set_cell_def Let_def)
    ultimately show ?thesis by blast
  next
    case (Switch name v)
    have "array_of b \<noteq> name" for b using Switch assms(2) by (cases b) auto
    then show ?thesis using Switch by auto
  qed
  then obtain name v where step: "block_step op values = obj [Spread values, P name v]"
      "\<forall>b. block_shown expert b \<longrightarrow> array_of b = name
         \<longrightarrow> (\<exists>xs. v = Arr xs \<and> xs \<noteq> [] \<and> (\<forall>x \<in> set xs. \<not> nullish x))"
    by (elim exE conjE)
  have "good_rows (array_of b) (block_step op values)" if b: "block_shown expert b" for b
  proof (cases "array_of b = name")
    case True
    then show ?thesis using step(2) b by (auto simp: good_rows_def step(1) get_obj)
  next
    case False
    then show ?thesis using good [OF b] by (simp add: good_rows_def step(1) get_spread plain)
  qed
  then show ?thesis by (simp add: blocks_invariant_def step(1))
qed

lemma blocks_reachable_invariant: "blocks_reachable expert values \<Longrightarrow> blocks_invariant expert values"
proof (induction rule: blocks_reachable.induct)
  case (blocks_start expert blockId)
  have "good_rows (array_of b) (CLUSTER_FORM_DEFAULT_VALUES expert blockId)" if "block_shown expert b" for b
    using that by (cases b; cases expert)
      (simp_all add: good_rows_def default_rows empty_server_def DCS_DATABASES_DEFAULT_VALUES_def
        LOAD_BALANCERS_DATABASES_DEFAULT_VALUES_def first_pool_def)
  then show ?case by (simp add: blocks_invariant_def default_values_plain)
qed (rule block_step_invariant)

text \<open>
  C12: whatever rows the user adds and removes, whatever cells and switches are changed, the Ansible
  inventory of the form can be built: the blocks keep every row list the inventory reads non-empty
  and free of holes.
\<close>

theorem row_buttons_keep_inventory:
  assumes "blocks_reachable expert values"
  shows "\<exists>envs. getLocalMachineEnvs expert values secretId = Ok envs"
proof (rule local_envs_Ok)
  have I: "blocks_invariant expert values" using blocks_reachable_invariant assms .
  have shown: "block_shown expert (Servers (obj []))" by simp
  have ok: "rows_ok (get values (array_of b)) \<and> has_length (get values (array_of b))" if "block_shown expert b" for b
    using I that by (auto simp: blocks_invariant_def good_rows_def rows_ok_def list_all_iff)
  show "inventory_rows_ok expert values"
    using ok [OF shown] ok [of Balancers] ok [of Dcs_servers] by (auto simp: inventory_rows_ok_def)
qed

theorem row_buttons_keep_inventory_witness:
  "\<exists>envs. getLocalMachineEnvs True (block_step (Row Balancers Add_row)
     (CLUSTER_FORM_DEFAULT_VALUES True (Str ''1''))) Undef = Ok envs"
  by (intro row_buttons_keep_inventory blocks_step blocks_start) simp

end
