(* ===== verification/RowViews.thy ===== *)
theory RowViews
  imports Rows
begin

text \<open>
  What the blocks of rows show: one box per row with its controls, a button that removes the row on all
  rows but the first, and one that adds a row. The fields a box shows are compared with the ones the
  validation of the same block requires.
\<close>

section \<open>Controls of a row\<close>

definition cell_name :: "string \<Rightarrow> nat \<Rightarrow> string \<Rightarrow> string" where
  "cell_name array i k = array @ ''.'' @ nat_str i @ ''.'' @ k"

definition cell :: "js \<Rightarrow> string \<Rightarrow> nat \<Rightarrow> string \<Rightarrow> js" where
  "cell values array i k = get (at (get values array) i) k"

definition row_controller :: "js \<Rightarrow> string \<Rightarrow> nat \<Rightarrow> string \<Rightarrow> (js \<Rightarrow> js \<Rightarrow> js) \<Rightarrow> js" where
  "row_controller values array i k render =
     elem ''Controller'' [P ''name'' (Str (cell_name array i k))]
       [render (cell values array i k) (on_change (cell_name array i k))]"

text \<open>\<open>remove ? <IconButton onClick={remove}> : null\<close>\<close>

definition close_button :: "js \<Rightarrow> js" where
  "close_button remove = when_js (truthy remove)
     (elem ''IconButton'' [P ''onClick'' remove] [elem ''CloseIcon'' [] []])"

text \<open>\<open>{...(index !== 0 ? { remove: removeServer(index) } : {})}\<close>, read back as the box's prop.\<close>

definition remove_of_row :: "nat \<Rightarrow> js" where
  "remove_of_row i = get (obj [Spread_if (i \<noteq> 0) [P ''remove'' (Fn ''removeServer'' [Num (int i)])]]) ''remove''"

definition row_title :: "js \<Rightarrow> nat \<Rightarrow> js" where
  "row_title label i = Fn ''concat'' [label, Str '' '', Num (int i + 1)]"

definition index_values :: "js list \<Rightarrow> (nat \<Rightarrow> js) \<Rightarrow> js" where
  "index_values rows box = Arr (map box [0..<length rows])"

definition checkbox :: "js \<Rightarrow> js \<Rightarrow> js" where
  "checkbox value onChange =
     elem ''Checkbox'' [P ''value'' value, P ''onChange'' onChange, P ''checked'' (to_bool value)] []"

definition add_button :: "js \<Rightarrow> js" where
  "add_button onClick = elem ''Button'' [P ''onClick'' onClick] [elem ''AddIcon'' [] []]"

section \<open>Database servers\<close>

definition server_text_field :: "js \<Rightarrow> js \<Rightarrow> nat \<Rightarrow> string \<Rightarrow> js \<Rightarrow> js" where
  "server_text_field values errors i k label =
     row_controller values DBS_DATABASE_SERVERS i k (\<lambda>value onChange.
       elem ''TextField''
         [P ''required'' (Bool True), P ''value'' value, P ''onChange'' onChange, P ''size'' (Str ''small''),
          P ''label'' label,
          P ''error'' (to_bool (get (at (get errors DBS_DATABASE_SERVERS) i) k)),
          P ''helperText'' (coalesce (get (get (at (get errors DBS_DATABASE_SERVERS) i) k) ''message'') (Str '' ''))] [])"

definition DatabaseServerBox :: "bool \<Rightarrow> js \<Rightarrow> js \<Rightarrow> nat \<Rightarrow> js \<Rightarrow> js" where
  "DatabaseServerBox expert values errors i remove = elem ''Card'' []
     [close_button remove,
      elem ''Stack'' []
        [elem ''Typography'' [] [row_title (tr ''server'' [P ''ns'' (Str ''clusters'')]) i],
         server_text_field values errors i DBS_DATABASE_HOSTNAME (tr ''hostname'' [P ''ns'' (Str ''clusters'')]),
         server_text_field values errors i DBS_DATABASE_IP_ADDRESS (tr ''ipAddress'' [P ''ns'' (Str ''clusters'')]),
         row_controller values DBS_DATABASE_SERVERS i DBS_DATABASE_LOCATION (\<lambda>value onChange.
           elem ''TextField''
             [P ''value'' value, P ''onChange'' onChange, P ''size'' (Str ''small''),
              P ''label'' (tr ''location'' [P ''ns'' (Str ''clusters'')]),
              P ''placeholder'' (tr ''locationPlaceholder'' [P ''ns'' (Str ''clusters'')])] []),
         when_js expert
           (row_controller values DBS_DATABASE_SERVERS i DBS_IS_POSTGRESQL_EXISTS (\<lambda>value onChange.
             elem ''Stack'' []
               [elem ''Stack'' []
                  [elem ''Typography'' [] [tr ''isPostgresqlExists'' []],
                   elem ''Tooltip'' [P ''title'' (tr ''isPostgresqlExistsTooltip'' [])] [elem ''HelpOutlineIcon'' [] []]],
                checkbox value onChange]))]]"

definition DatabaseServersBlock :: "bool \<Rightarrow> js \<Rightarrow> js \<Rightarrow> js" where
  "DatabaseServersBlock expert values errors = elem ''Box'' []
     [elem ''Typography'' [] [tr ''databaseServers'' []],
      controller values DBS_IS_CLUSTER_EXISTS (\<lambda>value onChange.
        elem ''FormControlLabel''
          [P ''control'' (checkbox value onChange), P ''label'' (tr ''clusterExistsLabel'' [])] []),
      elem ''Typography'' [P ''variant'' (Str ''caption'')] [tr ''clusterExistsHelp'' []],
      elem ''Stack'' []
        [elem ''Box'' []
           [index_values (rows_of DBS_DATABASE_SERVERS values) (\<lambda>i.
              DatabaseServerBox expert values errors i
                (remove_of_row i))],
         add_button (Fn ''append'' [])]]"

section \<open>Load balancers\<close>

definition field_text :: "js \<Rightarrow> js \<Rightarrow> string \<Rightarrow> nat \<Rightarrow> string \<Rightarrow> js \<Rightarrow> js \<Rightarrow> js" where
  "field_text values errors array i k label fallback =
     row_controller values array i k (\<lambda>value onChange.
       elem ''TextField''
         [P ''value'' value, P ''onChange'' onChange, P ''required'' (Bool True), P ''size'' (Str ''small''),
          P ''label'' label, P ''error'' (to_bool (get (at (get errors array) i) k)),
          P ''helperText'' (coalesce (get (get (at (get errors array) i) k) ''message'') fallback)] [])"

definition LoadBalancersDatabaseBox :: "js \<Rightarrow> js \<Rightarrow> nat \<Rightarrow> js \<Rightarrow> js" where
  "LoadBalancersDatabaseBox values errors i remove = elem ''Card'' []
     [close_button remove,
      elem ''Stack'' []
        [elem ''Typography'' [] [row_title (tr ''server'' []) i],
         field_text values errors LB_LOAD_BALANCER_DATABASES i LB_LOAD_BALANCER_DATABASES_HOSTNAME (tr ''hostname'' []) Undef,
         field_text values errors LB_LOAD_BALANCER_DATABASES i LB_LOAD_BALANCER_DATABASES_IP_ADDRESS (tr ''ipAddress'' []) Undef]]"

definition labelled_checkbox :: "js \<Rightarrow> string \<Rightarrow> js \<Rightarrow> js \<Rightarrow> js" where
  "labelled_checkbox values name label tooltip = controller values name (\<lambda>value onChange.
     elem ''Stack'' []
       [elem ''Stack'' []
          [elem ''Typography'' [] [label],
           elem ''Tooltip'' [P ''title'' tooltip] [elem ''HelpOutlineIcon'' [] []]],
        checkbox value onChange])"

definition LoadBalancersBlock :: "bool \<Rightarrow> js \<Rightarrow> js \<Rightarrow> js" where
  "LoadBalancersBlock expert values errors = elem ''Box'' []
     [elem ''Typography'' [] [tr ''loadBalancers'' []],
      elem ''Stack'' []
        [labelled_checkbox values LB_IS_HAPROXY_ENABLED (tr ''haproxyLoadBalancer'' []) (tr ''haproxyLoadBalancerTooltip'' []),
         when_js (expert \<and> truthy (get values LB_IS_HAPROXY_ENABLED))
           (labelled_checkbox values LB_IS_DEPLOY_TO_DATABASE_SERVERS
              (tr ''deployToDatabaseServers'' []) (tr ''deployToDatabaseServersTooltip'' [])),
         when_js (expert \<and> truthy (get values LB_IS_HAPROXY_ENABLED)
                    \<and> \<not> truthy (get values LB_IS_DEPLOY_TO_DATABASE_SERVERS))
           (elem ''Stack'' []
              [elem ''Box'' []
                 [index_values (rows_of LB_LOAD_BALANCER_DATABASES values) (\<lambda>i.
                    LoadBalancersDatabaseBox values errors i
                      (remove_of_row i))],
               add_button (Fn ''addServer'' [])])]]"

section \<open>DCS servers\<close>

definition getCorrectFields :: "js \<Rightarrow> js \<Rightarrow> js \<Rightarrow> (string \<times> js) list" where
  "getCorrectFields watchIsDeployToDcsCluster watchIsDeployToDbServers watchDcsType =
     (if \<not> truthy watchIsDeployToDcsCluster
      then [(DCS_DCS_DATABASE_IP_ADDRESS, tr ''ipAddress'' [])]
             @ (if watchDcsType = Str DCST_ETCD then [(DCS_DCS_DATABASE_PORT, tr ''port'' [])] else [])
      else [])
     @ (if truthy watchIsDeployToDcsCluster \<and> \<not> truthy watchIsDeployToDbServers
        then [(DCS_DCS_DATABASE_HOSTNAME, tr ''hostname'' []), (DCS_DCS_DATABASE_IP_ADDRESS, tr ''ipAddress'' [])]
        else [])"

definition DcsDatabaseBox :: "js \<Rightarrow> js \<Rightarrow> (string \<times> js) list \<Rightarrow> nat \<Rightarrow> js \<Rightarrow> js" where
  "DcsDatabaseBox values errors fs i remove = elem ''Card'' []
     [close_button remove,
      elem ''Stack'' []
        [elem ''Typography'' [] [row_title (tr ''server'' []) i],
         Arr (map (\<lambda>(fieldName, label).
           field_text values errors DCS_DCS_DATABASES i fieldName label (Str '' '')) fs)]]"

definition DcsBlock :: "js \<Rightarrow> js \<Rightarrow> (string \<times> js) list \<Rightarrow> js" where
  "DcsBlock values errors correctFields = elem ''Box'' []
     [elem ''Typography'' [] [Str ''DCS''],
      elem ''Stack'' []
        [controller values DCS_TYPE (\<lambda>value onChange.
           elem ''FormControl'' []
             [elem ''InputLabel'' [] [tr ''dcsType'' []],
              elem ''Select''
                [P ''value'' value, P ''onChange'' onChange, P ''label'' (tr ''dcsType'' []),
                 P ''error'' (has_error errors DCS_TYPE)]
                [Arr (map (\<lambda>(_, mode). elem ''MenuItem'' [P ''value'' (Str mode)] [Str mode]) DCS_TYPES)]]),
         labelled_checkbox values DCS_IS_DEPLOY_NEW_CLUSTER (tr ''deployNewDcsCluster'' []) (tr ''deployNewDcsClusterTooltip'' []),
         when_js (truthy (get values DCS_IS_DEPLOY_NEW_CLUSTER))
           (labelled_checkbox values DCS_IS_DEPLOY_TO_DB_SERVERS (tr ''deployToDbServers'' []) (tr ''deployToDbServersTooltip'' [])),
         when_js (correctFields \<noteq> [])
           (elem ''Stack'' []
              [elem ''Box'' []
                 [index_values (rows_of DCS_DCS_DATABASES values) (\<lambda>i.
                    DcsDatabaseBox values errors correctFields i
                      (remove_of_row i))],
               add_button (Fn ''addServer'' [])])]]"

text \<open>The effect of the block: the fields of the current switches.\<close>

definition dcs_fields :: "js \<Rightarrow> (string \<times> js) list" where
  "dcs_fields values =
     getCorrectFields (get values DCS_IS_DEPLOY_NEW_CLUSTER) (get values DCS_IS_DEPLOY_TO_DB_SERVERS) (get values DCS_TYPE)"

section \<open>Controls and validation\<close>

text \<open>The fields of a row the validation requires, for the switches of the form.\<close>

primrec requires :: "schema \<Rightarrow> bool" where
  "requires Mixed_s = False"
| "requires String_s = False"
| "requires Number_s = False"
| "requires Boolean_s = False"
| "requires (Object_s fs) = False"
| "requires (Array_s s) = False"
| "requires (Required_c s m) = True"
| "requires (Optional_c s) = False"
| "requires (Not_required_c s) = False"
| "requires (Type_error_c s m) = requires s"
| "requires (Test_c s n f) = requires s"
| "requires (When_c s ks f) = False"

fun row_schema :: "schema \<Rightarrow> js \<Rightarrow> (string \<times> schema) list" where
  "row_schema (When_c s ks f) p = (case f (map (get p) ks) of Array_s r \<Rightarrow> field_list r | _ \<Rightarrow> [])"
| "row_schema s p = []"

definition required_cells :: "schema \<Rightarrow> string \<Rightarrow> js \<Rightarrow> string list" where
  "required_cells s array values =
     (case map_of (field_list s) array of
        None \<Rightarrow> []
      | Some r \<Rightarrow> map fst (filter (\<lambda>(k, f). requires f) (row_schema r values)))"

lemma remove_of_row_cases: "remove_of_row i = (if i = 0 then Undef else Fn ''removeServer'' [Num (int i)])"
  by (simp add: remove_of_row_def get_obj)

text \<open>The names of the controls a box renders: its tree is followed through children only.\<close>

fun shown_controls :: "js \<Rightarrow> string list"
  and shown_controls_list :: "js list \<Rightarrow> string list"
  and shown_controls_props :: "(string \<times> js) list \<Rightarrow> string list" where
  "shown_controls (Arr xs) = shown_controls_list xs"
| "shown_controls (Obj ps) =
     (if is_controller ps then name_prop ps else []) @ shown_controls_props ps"
| "shown_controls _ = []"
| "shown_controls_list [] = []"
| "shown_controls_list (x # xs) = shown_controls x @ shown_controls_list xs"
| "shown_controls_props [] = []"
| "shown_controls_props ((k, v) # ps) =
     (if k = ''props'' \<or> k = ''children'' then shown_controls v else []) @ shown_controls_props ps"

lemma shown_text_field [simp]: "shown_controls (elem ''TextField'' ps []) = shown_controls (obj ps)"
  by (simp add: obj_def is_controller_def)

lemmas view_simps = row_controller_def controller_def close_button_def remove_of_row_cases when_js_def
  on_change_def row_title_def tr_def obj_def is_controller_def name_prop_def checkbox_def

lemma dcs_box_controls:
  "shown_controls (DcsDatabaseBox values errors (dcs_fields values) i (remove_of_row i)) =
     map (\<lambda>(k, label). cell_name DCS_DCS_DATABASES i k) (dcs_fields values)"
  by (simp add: DcsDatabaseBox_def dcs_fields_def getCorrectFields_def field_text_def view_simps)

lemma balancer_box_controls:
  "shown_controls (LoadBalancersDatabaseBox values errors i (remove_of_row i)) =
     map (cell_name LB_LOAD_BALANCER_DATABASES i) [LB_LOAD_BALANCER_DATABASES_HOSTNAME, LB_LOAD_BALANCER_DATABASES_IP_ADDRESS]"
  by (simp add: LoadBalancersDatabaseBox_def field_text_def view_simps)

lemma server_box_controls:
  "shown_controls (DatabaseServerBox expert values errors i (remove_of_row i)) =
     map (cell_name DBS_DATABASE_SERVERS i)
       ([DBS_DATABASE_HOSTNAME, DBS_DATABASE_IP_ADDRESS, DBS_DATABASE_LOCATION]
          @ (if expert then [DBS_IS_POSTGRESQL_EXISTS] else []))"
  by (simp add: DatabaseServerBox_def server_text_field_def view_simps)

lemma dcs_required:
  assumes "is_local (get values CF_PROVIDER)"
  shows "set (required_cells (DcsBlockSchema True isV4) DCS_DCS_DATABASES values) = set (map fst (dcs_fields values))"
  using assms
  by (cases "truthy (get values DCS_IS_DEPLOY_NEW_CLUSTER)"; cases "truthy (get values DCS_IS_DEPLOY_TO_DB_SERVERS)";
      cases "get values DCS_TYPE = Str DCST_ETCD")
     (simp_all add: required_cells_def DcsBlockSchema_def dcs_fields_def getCorrectFields_def
      requiredField_def port_schema_def not_required_def insert_commute)

lemma balancer_required:
  "set (required_cells (LoadBalancerBlockSchema expert isV4) LB_LOAD_BALANCER_DATABASES values)
     \<subseteq> {LB_LOAD_BALANCER_DATABASES_HOSTNAME, LB_LOAD_BALANCER_DATABASES_IP_ADDRESS}"
  by (auto simp: required_cells_def LoadBalancerBlockSchema_def requiredField_def not_required_def split: if_splits)

lemma server_required:
  "set (required_cells (DatabaseServersBlockSchema isV4) DBS_DATABASE_SERVERS values)
     \<subseteq> {DBS_DATABASE_HOSTNAME, DBS_DATABASE_IP_ADDRESS}"
  by (auto simp: required_cells_def DatabaseServersBlockSchema_def requiredField_def not_required_def split: if_splits)



text \<open>The block of rows shows a button to remove for every row but the first.\<close>

lemma removable_rows: "truthy (remove_of_row i) \<longleftrightarrow> i \<noteq> 0"
  by (simp add: remove_of_row_cases)

end
