(* ===== verification/Databases.thy ===== *)
theory Databases
  imports RowViews
begin

text \<open>
  The databases, the connection pools and the extensions of the form (\<open>expert-mode/databases-block\<close>,
  \<open>connection-pools-block\<close>, \<open>extensions-block\<close>). Every database has a block id; the map
  \<open>NAMES\<close> of the form takes an id to the name, and an extension stores the ids of its
  databases. The boxes keep the map up to date and the selectors of the extensions drop the ids of
  removed databases; both do it in effects.

  \<open>uid\<close> are the values lodash's \<open>uniqueId\<close> gives one after the other, \<open>intersection\<close> is
  lodash's function, \<open>shown\<close> are the extensions whose boxes are mounted.
\<close>

record database_form =
  db_values :: js
  db_index :: int
  drawn :: nat
  shown :: "js list"

section \<open>Databases\<close>

definition new_database :: "int \<Rightarrow> string \<Rightarrow> js" where
  "new_database index blockId = obj
     [P DB_DATABASE_NAME (Str (''db'' @ int_str index)),
      P DB_USER_NAME (Str (''db'' @ int_str index @ ''_user'')),
      P DB_USER_PASSWORD (Str ''''),
      P DB_ENCODING (Str ''UTF-8''),
      P DB_LOCALE (Str ''en_US.UTF-8''),
      P DB_BLOCK_ID (Str blockId)]"

definition appendItem :: "(nat \<Rightarrow> string) \<Rightarrow> database_form \<Rightarrow> database_form" where
  "appendItem uid st = st\<lparr>
     db_values := append_row DB_DATABASES (new_database (db_index st) (uid (drawn st))) (db_values st),
     db_index := db_index st + 1,
     drawn := drawn st + 1\<rparr>"

text \<open>The effect of the box of row \<open>i\<close>, with the values \<open>r\<close> of its render.\<close>

definition box_effect :: "nat \<Rightarrow> js \<Rightarrow> js \<Rightarrow> js" where
  "box_effect i r v =
     (let row = at (get r DB_DATABASES) i;
          watchDbId = js_str (get row DB_BLOCK_ID);
          watchDbName = get row DB_DATABASE_NAME;
          newNames = obj [Spread (get r DB_NAMES), P watchDbId watchDbName]
      in obj [Spread (set_cell DB_DATABASES i DB_USER_NAME (Str (js_str watchDbName @ ''_user'')) v),
              P DB_NAMES newNames])"

definition deleteItem :: "nat \<Rightarrow> js \<Rightarrow> js" where
  "deleteItem i v =
     (let watchDbId = js_str (get (at (get v DB_DATABASES) i) DB_BLOCK_ID);
          newNames = delete_key watchDbId (obj [Spread (get v DB_NAMES)])
      in remove_at DB_DATABASES i (obj [Spread v, P DB_NAMES newNames]))"

section \<open>Connection pools\<close>

text \<open>A pool that is mounted takes the name of the database of its row, where there is one.\<close>

definition pool_effect :: "nat \<Rightarrow> js \<Rightarrow> js" where
  "pool_effect i v =
     (let name = get (at (get v DB_DATABASES) i) DB_DATABASE_NAME in
      if truthy name then set_cell POOL_POOLS i POOL_POOL_NAME name v else v)"

section \<open>Extensions\<close>

definition filterValues :: "string \<Rightarrow> js list \<Rightarrow> js list" where
  "filterValues searchValue extensions =
     (if searchValue \<noteq> []
      then filter (\<lambda>extension. case get extension ''name'' of Str n \<Rightarrow> contains searchValue n | _ \<Rightarrow> False) extensions
      else extensions)"

text \<open>The list the swiper shows: by the search text, and by the switch ``only enabled''.\<close>

definition filteredExtensions :: "string \<Rightarrow> bool \<Rightarrow> js \<Rightarrow> js list \<Rightarrow> js list" where
  "filteredExtensions searchValue isShowOnlyEnabled watchEnabledExtensions extensions =
     filterValues searchValue
       (if isShowOnlyEnabled
        then filter (\<lambda>extension. has_length
               (get (get watchEnabledExtensions (js_str (get extension ''name''))) ''db'')) extensions
        else extensions)"

definition extension_name :: "js \<Rightarrow> string" where
  "extension_name extension = js_str (get extension ''name'')"

definition chosen :: "js \<Rightarrow> string \<Rightarrow> js" where
  "chosen v name = get (get v EXT_EXTENSIONS) name"

definition set_extension :: "string \<Rightarrow> js \<Rightarrow> js \<Rightarrow> js" where
  "set_extension name x v =
     obj [Spread v, P EXT_EXTENSIONS (obj [Spread (get v EXT_EXTENSIONS), P name x])]"

definition extension_value :: "js \<Rightarrow> js list \<Rightarrow> js" where
  "extension_value extension dbs = obj
     [P ''db'' (Arr dbs), P ''isThirdParty'' (Bool (\<not> truthy (get extension ''contrib'')))]"

definition choose_databases :: "js \<Rightarrow> js list \<Rightarrow> js \<Rightarrow> js" where
  "choose_databases extension dbs v = set_extension (extension_name extension) (extension_value extension dbs) v"

definition name_keys :: "js \<Rightarrow> js list" where
  "name_keys v = (if truthy (get v DB_NAMES) then map (\<lambda>(k, x). Str k) (entries (get v DB_NAMES)) else [])"

definition selector_effect :: "(js list \<Rightarrow> js list \<Rightarrow> js list) \<Rightarrow> js \<Rightarrow> js \<Rightarrow> js \<Rightarrow> js" where
  "selector_effect intersection extension r v =
     (let name = extension_name extension in
      if truthy (chosen r name)
      then set_extension name
             (extension_value extension (intersection (elems (get (chosen r name) ''db'')) (name_keys r))) v
      else v)"

definition run_selectors :: "(js list \<Rightarrow> js list \<Rightarrow> js list) \<Rightarrow> js list \<Rightarrow> js \<Rightarrow> js" where
  "run_selectors intersection extensions v =
     fold (\<lambda>extension. selector_effect intersection extension v) extensions v"

section \<open>Events\<close>

datatype database_event =
    Append_database
  | Rename_database nat js
  | Edit_database nat string js
  | Delete_database nat
  | Choose_databases js "js list"
  | Filter_extensions "js list"
  | Mount_blocks

text \<open>
  After an event the box of the changed row runs its effect, then the mounted selectors run theirs. While
  the list of extensions is filtered a spinner takes the place of the boxes, so they are all mounted again.
\<close>

fun database_step :: "(nat \<Rightarrow> string) \<Rightarrow> (js list \<Rightarrow> js list \<Rightarrow> js list) \<Rightarrow> database_event \<Rightarrow>
    database_form \<Rightarrow> database_form" where
  "database_step uid isect Append_database st =
     (let st' = appendItem uid st;
          v = box_effect (length (rows_of DB_DATABASES (db_values st))) (db_values st') (db_values st')
      in st'\<lparr>db_values := run_selectors isect (shown st) v\<rparr>)"
| "database_step uid isect (Rename_database i name) st =
     (let v = set_cell DB_DATABASES i DB_DATABASE_NAME name (db_values st)
      in st\<lparr>db_values := run_selectors isect (shown st) (box_effect i v v)\<rparr>)"
| "database_step uid isect (Edit_database i k x) st =
     st\<lparr>db_values := set_cell DB_DATABASES i k x (db_values st)\<rparr>"
| "database_step uid isect (Delete_database i) st =
     st\<lparr>db_values := run_selectors isect (shown st) (deleteItem i (db_values st))\<rparr>"
| "database_step uid isect (Choose_databases extension dbs) st =
     st\<lparr>db_values := choose_databases extension dbs (db_values st)\<rparr>"
| "database_step uid isect (Filter_extensions extensions) st =
     st\<lparr>shown := extensions,
        db_values := run_selectors isect extensions (db_values st)\<rparr>"
| "database_step uid isect Mount_blocks st =
     (let v = db_values st;
          w = fold (\<lambda>i. box_effect i v) [0..<length (rows_of DB_DATABASES v)] v
      in st\<lparr>db_values := run_selectors isect (shown st) w, db_index := 2\<rparr>)"

fun database_offered :: "database_form \<Rightarrow> database_event \<Rightarrow> bool" where
  "database_offered st (Rename_database i name) = (i < length (rows_of DB_DATABASES (db_values st)))"
| "database_offered st (Edit_database i k x) =
     (i < length (rows_of DB_DATABASES (db_values st)) \<and> k \<notin> {DB_DATABASE_NAME, DB_BLOCK_ID})"
| "database_offered st (Delete_database i) = rows_offered [Remove_row i] (length (rows_of DB_DATABASES (db_values st)))"
| "database_offered st (Choose_databases extension dbs) =
     (extension \<in> set (shown st) \<and> set dbs \<subseteq> set (name_keys (db_values st)))"
| "database_offered st e = True"

definition mounted :: "js \<Rightarrow> database_form" where
  "mounted v = \<lparr>db_values = box_effect 0 v v, db_index = 2, drawn = 1, shown = []\<rparr>"

inductive database_reachable :: "(nat \<Rightarrow> string) \<Rightarrow> (js list \<Rightarrow> js list \<Rightarrow> js list) \<Rightarrow> database_form \<Rightarrow> bool"
  for uid isect where
  database_start: "plain_object v \<Longrightarrow> get v DB_DATABASES = Arr [first_database (Str (uid 0))] \<Longrightarrow>
     get v EXT_EXTENSIONS = obj [] \<Longrightarrow> get v DB_NAMES = Undef \<Longrightarrow> database_reachable uid isect (mounted v)"
| database_next: "database_reachable uid isect st \<Longrightarrow> database_offered st e \<Longrightarrow>
     database_reachable uid isect (database_step uid isect e st)"

end
