(* ===== verification/DatabaseFacts.thy ===== *)
theory DatabaseFacts
  imports Databases
begin

text \<open>
  The map of database names stays the map of the databases of the form over any sequence of events, and
  the extensions whose boxes are shown name existing databases only. Objects are read as maps from keys
  to values, so that each step is one map update.
\<close>

section \<open>Objects as maps\<close>

lemma plain_wf [simp]: "plain_object v \<Longrightarrow> wf_obj v"
  by (auto simp: plain_object_def wf_obj_def)

lemma look_obj_map: "look_obj v = map_of (own_props v)"
  by (rule ext) (simp add: look_obj_def)

lemma plain_look_obj: "plain_object v \<Longrightarrow> get v k = (case look_obj v k of Some x \<Rightarrow> x | None \<Rightarrow> Undef)"
  by (auto simp: plain_object_def look_obj_def)

lemma look_obj_update: "wf_obj v \<Longrightarrow> look_obj (obj [Spread v, P k x]) = (look_obj v)(k \<mapsto> x)"
  unfolding look_obj_obj by (rule ext) (simp add: lookup_spread_wf look_obj_def)

lemma look_obj_delete: "wf_obj v \<Longrightarrow> look_obj (delete_key k (obj [Spread v])) = (look_obj v)(k := None)"
proof -
  assume v: "wf_obj v"
  have "look_obj (delete_key k (obj [Spread v])) = (look_obj (obj [Spread v]))(k := None)"
    unfolding obj_def look_obj_def by (rule ext) (simp add: delete_conv')
  also have "look_obj (obj [Spread v]) = look_obj v"
    by (rule ext) (simp add: look_obj_obj lookup_spread_wf [OF v], simp add: look_obj_def)
  finally show ?thesis .
qed

lemma plain_delete [simp]: "plain_object (delete_key k (obj parts))"
  using wf_obj_obj [of parts] by (simp add: wf_obj_def obj_def distinct_delete plain_object_def)

lemma keys_look_obj: "keys_of v = dom (look_obj v)"
  by (simp add: keys_of_def look_obj_map dom_map_of_conv_image_fst)

text \<open>Lists with distinct keys, changed by index.\<close>

lemma map_of_snoc: "k \<notin> fst ` set ps \<Longrightarrow> map_of (ps @ [(k, x)]) = (map_of ps)(k \<mapsto> x)"
  by (induction ps) (auto simp: fun_eq_iff)

lemma head_key_differs:
  assumes "distinct (map fst (p # ps))" "j < length ps"
  shows "fst (ps ! j) \<noteq> fst p"
proof -
  have "fst (ps ! j) \<in> fst ` set ps" using assms(2) by simp
  then show ?thesis using assms(1) by (metis distinct.simps(2) list.simps(9) set_map)
qed

lemma map_of_list_update:
  "distinct (map fst ps) \<Longrightarrow> i < length ps \<Longrightarrow>
     map_of (ps[i := (fst (ps ! i), x)]) = (map_of ps)(fst (ps ! i) \<mapsto> x)"
proof (induction ps arbitrary: i)
  case (Cons p ps)
  show ?case
  proof (cases i)
    case (Suc j)
    then have "fst (ps ! j) \<noteq> fst p" using head_key_differs [OF Cons.prems(1)] Cons.prems(2) by simp
    then show ?thesis using Cons Suc by (cases p) (auto simp: fun_eq_iff)
  qed (cases p, auto simp: fun_eq_iff)
qed simp

lemma map_of_remove_nth:
  "distinct (map fst ps) \<Longrightarrow> i < length ps \<Longrightarrow>
     map_of (remove_nth i ps) = (map_of ps)(fst (ps ! i) := None)"
proof (induction ps arbitrary: i)
  case (Cons p ps)
  show ?case
  proof (cases i)
    case 0
    then have "fst p \<notin> dom (map_of ps)" using Cons.prems by (simp add: dom_map_of_conv_image_fst)
    then show ?thesis using 0 by (cases p) (auto simp: fun_eq_iff remove_nth_def domIff)
  next
    case (Suc j)
    then have "fst (ps ! j) \<noteq> fst p" using head_key_differs [OF Cons.prems(1)] Cons.prems(2) by simp
    moreover have "remove_nth i (p # ps) = p # remove_nth j ps" by (simp add: Suc remove_nth_def)
    ultimately show ?thesis using Cons Suc by (cases p) (auto simp: fun_eq_iff)
  qed
qed simp

lemma map_remove_nth: "map f (remove_nth i xs) = remove_nth i (map f xs)"
  by (simp add: remove_nth_def take_map drop_map)

lemma distinct_remove_nth: "distinct xs \<Longrightarrow> distinct (remove_nth i xs)"
proof (induction xs arbitrary: i)
  case (Cons x xs)
  then show ?case using set_remove_nth [of "i - 1" xs]
    by (cases i) (auto simp: remove_nth_def)
qed (simp add: remove_nth_def)

section \<open>Invariant\<close>

definition db_keys :: "js \<Rightarrow> (string \<times> js) list" where
  "db_keys v = map (\<lambda>x. (js_str (get x DB_BLOCK_ID), get x DB_DATABASE_NAME)) (rows_of DB_DATABASES v)"

text \<open>The rows are objects; their ids are distinct and among the first \<open>d\<close> that were drawn.\<close>

definition rows_good :: "(nat \<Rightarrow> string) \<Rightarrow> nat \<Rightarrow> js \<Rightarrow> bool" where
  "rows_good uid d v \<longleftrightarrow>
     plain_object v \<and> get v DB_DATABASES = Arr (rows_of DB_DATABASES v) \<and> rows_of DB_DATABASES v \<noteq> []
     \<and> (\<forall>x \<in> set (rows_of DB_DATABASES v). plain_object x)
     \<and> fst ` set (db_keys v) \<subseteq> uid ` {..<d} \<and> distinct (map fst (db_keys v))"

definition names_good :: "js \<Rightarrow> bool" where
  "names_good v \<longleftrightarrow> plain_object (get v DB_NAMES) \<and> look_obj (get v DB_NAMES) = map_of (db_keys v)"

definition chosen_ids :: "js \<Rightarrow> string \<Rightarrow> js set" where
  "chosen_ids v name = set (elems (get (chosen v name) ''db''))"

definition extensions_good :: "js list \<Rightarrow> js \<Rightarrow> bool" where
  "extensions_good es v \<longleftrightarrow> plain_object (get v EXT_EXTENSIONS)
     \<and> (\<forall>e \<in> set es. chosen_ids v (extension_name e) \<subseteq> Str ` keys_of (get v DB_NAMES))"

definition database_invariant :: "(nat \<Rightarrow> string) \<Rightarrow> database_form \<Rightarrow> bool" where
  "database_invariant uid st \<longleftrightarrow> rows_good uid (drawn st) (db_values st)
     \<and> names_good (db_values st) \<and> extensions_good (shown st) (db_values st)"

section \<open>Rows\<close>

text \<open>What an operation on the rows leaves of the other fields.\<close>

lemma other_field:
  "plain_object v \<Longrightarrow> k \<noteq> n \<Longrightarrow> get (obj [Spread v, P n x]) k = get v k"
  by (simp add: get_spread)

lemma new_field: "get (obj [Spread v, P n x]) n = x"
  by (simp add: get_obj)

lemma rows_of_other: "plain_object v \<Longrightarrow> n \<noteq> name \<Longrightarrow> rows_of name (obj [Spread v, P n x]) = rows_of name v"
  by (simp add: rows_of_def get_spread)

lemma db_keys_other: "plain_object v \<Longrightarrow> n \<noteq> DB_DATABASES \<Longrightarrow> db_keys (obj [Spread v, P n x]) = db_keys v"
  by (simp add: db_keys_def rows_of_other)

lemma rows_good_other:
  "rows_good uid d v \<Longrightarrow> n \<noteq> DB_DATABASES \<Longrightarrow> rows_good uid d (obj [Spread v, P n x])"
  by (simp add: rows_good_def rows_of_other db_keys_other other_field)

lemma rows_of_set_cell:
  "rows_of name (set_cell name i k x v) = (rows_of name v)[i := obj [Spread (rows_of name v ! i), P k x]]"
  by (simp add: set_cell_def rows_of_def Let_def get_obj)

lemma set_cell_other: "plain_object v \<Longrightarrow> n \<noteq> name \<Longrightarrow> get (set_cell name i k x v) n = get v n"
  by (simp add: set_cell_def Let_def get_spread)

lemma db_keys_set_cell:
  assumes "rows_good uid d v" "i < length (rows_of DB_DATABASES v)" "k \<noteq> DB_BLOCK_ID"
  shows "db_keys (set_cell DB_DATABASES i k x v) =
    (db_keys v)[i := (fst (db_keys v ! i), if k = DB_DATABASE_NAME then x else snd (db_keys v ! i))]"
proof -
  have "plain_object (rows_of DB_DATABASES v ! i)" using assms(1,2) by (simp add: rows_good_def)
  then show ?thesis using assms(2,3)
    by (simp add: db_keys_def rows_of_set_cell map_update get_spread)
qed

lemma rows_good_set_cell:
  assumes "rows_good uid d v" "i < length (rows_of DB_DATABASES v)" "k \<noteq> DB_BLOCK_ID"
  shows "rows_good uid d (set_cell DB_DATABASES i k x v)"
proof -
  have "map fst (db_keys (set_cell DB_DATABASES i k x v)) = map fst (db_keys v)"
    unfolding db_keys_set_cell [OF assms] map_update fst_conv
    by (metis length_map list_update_beyond list_update_id not_le_imp_less nth_map)
  moreover from this have "fst ` set (db_keys (set_cell DB_DATABASES i k x v)) = fst ` set (db_keys v)"
    by (metis set_map)
  moreover have "\<forall>r \<in> set (rows_of DB_DATABASES (set_cell DB_DATABASES i k x v)). plain_object r"
    using assms(1) by (auto simp: rows_of_set_cell rows_good_def dest!: set_update_subset_insert [THEN subsetD])
  ultimately show ?thesis using assms(1)
    by (simp add: rows_good_def rows_of_set_cell) (simp add: set_cell_def Let_def get_obj)
qed

section \<open>Effects and handlers\<close>

lemma row_at: "rows_good uid d v \<Longrightarrow> i < length (rows_of DB_DATABASES v) \<Longrightarrow>
    at (get v DB_DATABASES) i = rows_of DB_DATABASES v ! i"
  unfolding rows_good_def by (metis at.simps(1))

lemma box_effect_parts:
  assumes "rows_good uid d v" "rows_good uid e r" "i < length (rows_of DB_DATABASES v)"
    and "i < length (rows_of DB_DATABASES r)" "wf_obj (get r DB_NAMES)"
  shows "rows_good uid d (box_effect i r v)" "db_keys (box_effect i r v) = db_keys v"
    and "get (box_effect i r v) EXT_EXTENSIONS = get v EXT_EXTENSIONS"
    and "plain_object (get (box_effect i r v) DB_NAMES)"
    and "look_obj (get (box_effect i r v) DB_NAMES) =
           (look_obj (get r DB_NAMES))(fst (db_keys r ! i) \<mapsto> snd (db_keys r ! i))"
proof -
  let ?name = "get (at (get r DB_DATABASES) i) DB_DATABASE_NAME"
  let ?v = "set_cell DB_DATABASES i DB_USER_NAME (Str (js_str ?name @ ''_user'')) v"
  let ?names = "obj [Spread (get r DB_NAMES), P (js_str (get (at (get r DB_DATABASES) i) DB_BLOCK_ID)) ?name]"
  have box: "box_effect i r v = obj [Spread ?v, P DB_NAMES ?names]" by (simp only: box_effect_def Let_def)
  have good: "rows_good uid d ?v" using assms(1,3) by (intro rows_good_set_cell) simp_all
  then have plain: "plain_object ?v" "plain_object v" using assms(1) by (simp_all add: rows_good_def)
  show "rows_good uid d (box_effect i r v)" unfolding box using good by (rule rows_good_other) simp
  have "db_keys ?v = db_keys v" using assms(1,3) by (subst db_keys_set_cell) simp_all
  then show "db_keys (box_effect i r v) = db_keys v" unfolding box by (simp add: db_keys_other plain)
  show "get (box_effect i r v) EXT_EXTENSIONS = get v EXT_EXTENSIONS"
    unfolding box by (simp add: other_field plain set_cell_other)
  show "plain_object (get (box_effect i r v) DB_NAMES)" unfolding box new_field by simp
  have "db_keys r ! i = (js_str (get (at (get r DB_DATABASES) i) DB_BLOCK_ID), ?name)"
    using assms(4) row_at [OF assms(2,4)] by (simp add: db_keys_def)
  then show "look_obj (get (box_effect i r v) DB_NAMES) =
      (look_obj (get r DB_NAMES))(fst (db_keys r ! i) \<mapsto> snd (db_keys r ! i))"
    unfolding box new_field look_obj_update [OF assms(5)] by simp
qed

lemma length_db_keys: "length (db_keys v) = length (rows_of DB_DATABASES v)"
  by (simp add: db_keys_def)

lemma rows_good_append:
  assumes "rows_good uid d v" "inj uid"
  shows "rows_good uid (Suc d) (append_row DB_DATABASES (new_database n (uid d)) v)
    \<and> db_keys (append_row DB_DATABASES (new_database n (uid d)) v)
        = db_keys v @ [(uid d, Str (''db'' @ int_str n))]
    \<and> uid d \<notin> fst ` set (db_keys v)"
proof -
  let ?w = "append_row DB_DATABASES (new_database n (uid d)) v"
  have fresh: "uid d \<notin> fst ` set (db_keys v)"
    using assms inj_image_mem_iff [OF assms(2), of d "{..<d}"] unfolding rows_good_def by blast
  have keys: "db_keys ?w = db_keys v @ [(uid d, Str (''db'' @ int_str n))]"
    by (simp add: db_keys_def new_database_def get_obj)
  have "get ?w DB_DATABASES = Arr (rows_of DB_DATABASES ?w)" "plain_object ?w" "plain_object (new_database n (uid d))"
    by (simp_all add: append_row_def new_field rows_of_def new_database_def)
  then have "rows_good uid (Suc d) ?w"
    using assms(1) fresh unfolding rows_good_def keys rows_of_append by auto
  then show ?thesis using keys fresh by blast
qed

lemma delete_parts:
  assumes "rows_good uid d v" "names_good v" "i < length (rows_of DB_DATABASES v)" "i \<noteq> 0"
  shows "rows_good uid d (deleteItem i v)" "db_keys (deleteItem i v) = remove_nth i (db_keys v)"
    and "get (deleteItem i v) EXT_EXTENSIONS = get v EXT_EXTENSIONS"
    and "names_good (deleteItem i v)"
proof -
  let ?id = "js_str (get (at (get v DB_DATABASES) i) DB_BLOCK_ID)"
  let ?names = "delete_key ?id (obj [Spread (get v DB_NAMES)])"
  let ?v = "obj [Spread v, P DB_NAMES ?names]"
  have del: "deleteItem i v = remove_at DB_DATABASES i ?v" by (simp only: deleteItem_def Let_def)
  have plain: "plain_object v" using assms(1) by (simp add: rows_good_def)
  have rows: "rows_of DB_DATABASES (deleteItem i v) = remove_nth i (rows_of DB_DATABASES v)"
    unfolding del by (simp add: rows_of_other plain)
  show keys: "db_keys (deleteItem i v) = remove_nth i (db_keys v)"
    by (simp add: db_keys_def rows map_remove_nth)
  have arr: "get (deleteItem i v) DB_DATABASES = Arr (rows_of DB_DATABASES (deleteItem i v))"
    unfolding del remove_at_def by (simp add: new_field rows_of_def)
  have "rows_of DB_DATABASES (deleteItem i v) \<noteq> []" "plain_object (deleteItem i v)"
    using hd_remove_nth [OF assms(4), of "rows_of DB_DATABASES v"] assms(1)
    by (simp_all add: rows rows_good_def) (simp add: del remove_at_def)
  moreover have "distinct (map fst (db_keys (deleteItem i v)))"
    using assms(1) by (simp add: keys map_remove_nth distinct_remove_nth rows_good_def)
  ultimately show "rows_good uid d (deleteItem i v)"
    using arr assms(1) set_remove_nth [of i "rows_of DB_DATABASES v"] set_remove_nth [of i "db_keys v"]
    unfolding rows_good_def keys rows by blast
  show "get (deleteItem i v) EXT_EXTENSIONS = get v EXT_EXTENSIONS"
    unfolding del remove_at_def by (simp add: other_field plain)
  have names: "get (deleteItem i v) DB_NAMES = ?names"
    unfolding del remove_at_def by (simp add: other_field new_field)
  have id: "?id = fst (db_keys v ! i)"
    using assms(3) row_at [OF assms(1,3)] by (simp add: db_keys_def)
  have "look_obj ?names = map_of (remove_nth i (db_keys v))"
    using assms(1,2,3) unfolding id
    by (subst look_obj_delete) (simp_all add: names_good_def rows_good_def map_of_remove_nth length_db_keys)
  then show "names_good (deleteItem i v)" by (simp add: names_good_def names keys)
qed

section \<open>Selectors\<close>

text \<open>What lodash documents of \<open>uniqueId\<close> and of \<open>intersection\<close> with a list of texts.\<close>

definition lodash_uniqueId :: "(nat \<Rightarrow> string) \<Rightarrow> bool" where
  "lodash_uniqueId uid \<longleftrightarrow> inj uid"

definition lodash_intersection :: "(js list \<Rightarrow> js list \<Rightarrow> js list) \<Rightarrow> bool" where
  "lodash_intersection isect \<longleftrightarrow> (\<forall>xs ks. set (isect xs (map Str ks)) = set xs \<inter> Str ` set ks)"

lemma name_keys_alt: "name_keys v = map Str (if truthy (get v DB_NAMES) then map fst (entries (get v DB_NAMES)) else [])"
  by (simp add: name_keys_def split_beta)

lemma own_props_falsy: "\<not> truthy v \<Longrightarrow> own_props v = []"
  by (cases v) simp_all

lemma set_name_keys: "set (name_keys v) = Str ` keys_of (get v DB_NAMES)"
  by (cases "truthy (get v DB_NAMES)")
    (simp_all add: name_keys_def keys_of_def entries_def own_props_falsy image_image split_beta)

lemma chosen_ids_falsy: "\<not> truthy (chosen v name) \<Longrightarrow> chosen_ids v name = {}"
  by (cases "chosen v name") (auto simp: chosen_ids_def get.simps(3))

lemma chosen_ids_set_extension:
  assumes "plain_object v" "plain_object (get v EXT_EXTENSIONS)"
  shows "chosen_ids (set_extension name (extension_value e dbs) v) n
    = (if n = name then set dbs else chosen_ids v n)"
proof -
  have "get (extension_value e dbs) ''db'' = Arr dbs" by (simp add: extension_value_def get_obj)
  then show ?thesis
    by (simp add: chosen_ids_def chosen_def set_extension_def new_field get_spread [OF assms(2)])
qed

text \<open>The part of the form the selectors see: nothing but the chosen databases may differ.\<close>

definition chosen_within :: "js set \<Rightarrow> js \<Rightarrow> js \<Rightarrow> bool" where
  "chosen_within K r v \<longleftrightarrow> plain_object v \<and> plain_object (get v EXT_EXTENSIONS)
     \<and> (\<forall>k. k \<noteq> EXT_EXTENSIONS \<longrightarrow> get v k = get r k)
     \<and> (\<forall>n. chosen_ids v n = chosen_ids r n \<or> chosen_ids v n \<subseteq> K)"

lemma selector_step:
  assumes "lodash_intersection isect" "K = Str ` keys_of (get r DB_NAMES)" "chosen_within K r v"
  shows "chosen_within K r (selector_effect isect e r v)
    \<and> chosen_ids (selector_effect isect e r v) (extension_name e) \<subseteq> K
    \<and> (\<forall>n. chosen_ids v n \<subseteq> K \<longrightarrow> chosen_ids (selector_effect isect e r v) n \<subseteq> K)"
proof (cases "truthy (chosen r (extension_name e))")
  case False
  then have "selector_effect isect e r v = v" by (simp add: selector_effect_def Let_def)
  then show ?thesis using assms(3) chosen_ids_falsy [OF False] by (auto simp: chosen_within_def)
next
  case True
  let ?n = "extension_name e" and ?dbs = "isect (elems (get (chosen r (extension_name e)) ''db'')) (name_keys r)"
  have sel: "selector_effect isect e r v = set_extension ?n (extension_value e ?dbs) v"
    using True by (simp add: selector_effect_def Let_def)
  have sub: "set ?dbs \<subseteq> K"
    using assms(1) unfolding assms(2) set_name_keys [symmetric]
    by (subst (1) name_keys_alt) (auto simp: lodash_intersection_def name_keys_alt)
  have plain: "plain_object v" "plain_object (get v EXT_EXTENSIONS)" using assms(3) by (simp_all add: chosen_within_def)
  have ids: "chosen_ids (selector_effect isect e r v) n = (if n = ?n then set ?dbs else chosen_ids v n)" for n
    unfolding sel by (rule chosen_ids_set_extension [OF plain])
  have others: "get (selector_effect isect e r v) k = get v k" if "k \<noteq> EXT_EXTENSIONS" for k
    unfolding sel set_extension_def using plain(1) that by (simp add: get_spread)
  have "plain_object (selector_effect isect e r v) \<and> plain_object (get (selector_effect isect e r v) EXT_EXTENSIONS)"
    unfolding sel set_extension_def by (simp add: new_field)
  moreover have "\<forall>k. k \<noteq> EXT_EXTENSIONS \<longrightarrow> get (selector_effect isect e r v) k = get r k"
    using others assms(3) by (simp add: chosen_within_def)
  moreover have "\<forall>n. chosen_ids (selector_effect isect e r v) n = chosen_ids r n
      \<or> chosen_ids (selector_effect isect e r v) n \<subseteq> K"
    using assms(3) sub unfolding ids by (simp add: chosen_within_def)
  ultimately show ?thesis using sub unfolding chosen_within_def by (simp add: ids)
qed

lemma selectors_fold:
  assumes "lodash_intersection isect" "K = Str ` keys_of (get r DB_NAMES)"
  shows "chosen_within K r v \<Longrightarrow> \<forall>n \<in> N. chosen_ids v n \<subseteq> K \<Longrightarrow>
    chosen_within K r (fold (\<lambda>e. selector_effect isect e r) es v)
    \<and> (\<forall>n \<in> N \<union> extension_name ` set es. chosen_ids (fold (\<lambda>e. selector_effect isect e r) es v) n \<subseteq> K)"
proof (induction es arbitrary: v N)
  case (Cons e es)
  have step: "chosen_within K r (selector_effect isect e r v)
    \<and> (\<forall>n \<in> insert (extension_name e) N. chosen_ids (selector_effect isect e r v) n \<subseteq> K)"
    using selector_step [OF assms Cons.prems(1), of e] Cons.prems(2) by blast
  show ?case
    using Cons.IH [OF step [THEN conjunct1] step [THEN conjunct2]] by simp
qed simp

lemma run_selectors_parts:
  assumes "lodash_intersection isect" "rows_good uid d v" "plain_object (get v EXT_EXTENSIONS)"
    and "\<forall>e \<in> set old. chosen_ids v (extension_name e) \<subseteq> Str ` keys_of (get v DB_NAMES)"
  shows "rows_good uid d (run_selectors isect es v) \<and> db_keys (run_selectors isect es v) = db_keys v
    \<and> get (run_selectors isect es v) DB_NAMES = get v DB_NAMES
    \<and> extensions_good (old @ es) (run_selectors isect es v)"
proof -
  have "chosen_within (Str ` keys_of (get v DB_NAMES)) v v"
    using assms(2,3) by (simp add: chosen_within_def rows_good_def)
  from selectors_fold [OF assms(1) refl this, of "extension_name ` set old" es]
  have w: "chosen_within (Str ` keys_of (get v DB_NAMES)) v (run_selectors isect es v)"
    "\<forall>n \<in> extension_name ` set (old @ es). chosen_ids (run_selectors isect es v) n \<subseteq> Str ` keys_of (get v DB_NAMES)"
    using assms(4) by (simp_all add: run_selectors_def image_Un)
  have same: "get (run_selectors isect es v) DB_DATABASES = get v DB_DATABASES"
    "get (run_selectors isect es v) DB_NAMES = get v DB_NAMES"
    using w(1) by (simp_all add: chosen_within_def)
  have rows: "rows_of DB_DATABASES (run_selectors isect es v) = rows_of DB_DATABASES v" using same(1) by (simp add: rows_of_def)
  then have keys: "db_keys (run_selectors isect es v) = db_keys v" by (simp add: db_keys_def)
  have "rows_good uid d (run_selectors isect es v)"
    using assms(2) w(1) by (simp add: rows_good_def rows keys same chosen_within_def)
  moreover have "extensions_good (old @ es) (run_selectors isect es v)"
    using w by (simp add: extensions_good_def chosen_within_def same)
  ultimately show ?thesis using keys same by blast
qed

text \<open>The selectors of other extensions leave a choice alone.\<close>

lemma hidden_selectors:
  assumes "rows_good uid d v" "plain_object (get v EXT_EXTENSIONS)" "name \<notin> extension_name ` set es"
  shows "chosen_ids (run_selectors isect es v) name = chosen_ids v name"
proof -
  have "plain_object w \<Longrightarrow> plain_object (get w EXT_EXTENSIONS) \<Longrightarrow>
      chosen_ids (fold (\<lambda>e. selector_effect isect e v) es w) name = chosen_ids w name" for w
    using assms(3)
  proof (induction es arbitrary: w)
    case (Cons e es)
    let ?w = "selector_effect isect e v w"
    have "chosen_ids ?w name = chosen_ids w name \<and> plain_object ?w \<and> plain_object (get ?w EXT_EXTENSIONS)"
    proof (cases "truthy (chosen v (extension_name e))")
      case True
      then have "?w = set_extension (extension_name e) (extension_value e
          (isect (elems (get (chosen v (extension_name e)) ''db'')) (name_keys v))) w"
        by (simp add: selector_effect_def Let_def)
      then show ?thesis
        using Cons.prems chosen_ids_set_extension [OF Cons.prems(1,2)] by (simp add: set_extension_def new_field)
    qed (use Cons.prems in \<open>simp add: selector_effect_def Let_def\<close>)
    then show ?case using Cons.IH [of ?w] Cons.prems(3) by simp
  qed simp
  then show ?thesis using assms(1,2) by (simp add: run_selectors_def rows_good_def)
qed

section \<open>Steps\<close>

text \<open>A form is good once its rows and names are and the selectors have run.\<close>

lemma selectors_invariant:
  assumes "lodash_intersection isect" "rows_good uid d v" "names_good v" "extensions_good old v"
    and "set (shown st) \<subseteq> set old \<union> set es" "db_values st = run_selectors isect es v" "drawn st = d"
  shows "database_invariant uid st"
proof -
  have w: "rows_good uid d (db_values st) \<and> db_keys (db_values st) = db_keys v
    \<and> get (db_values st) DB_NAMES = get v DB_NAMES \<and> extensions_good (old @ es) (db_values st)"
    unfolding assms(6)
    by (rule run_selectors_parts [OF assms(1,2)]) (use assms(4) in \<open>simp_all add: extensions_good_def\<close>)
  then have "extensions_good (shown st) (db_values st)"
    using assms(5) unfolding extensions_good_def set_append by blast
  then show ?thesis using w assms(3,7) by (simp add: database_invariant_def names_good_def)
qed

lemma no_extensions_good: "plain_object (get v EXT_EXTENSIONS) \<Longrightarrow> extensions_good [] v"
  by (simp add: extensions_good_def)

text \<open>The box of a row, run on the values of its own render, adds the row to the names.\<close>

lemma box_names_good:
  assumes "rows_good uid d v" "i < length (rows_of DB_DATABASES v)" "wf_obj (get v DB_NAMES)"
    and "(look_obj (get v DB_NAMES))(fst (db_keys v ! i) \<mapsto> snd (db_keys v ! i)) = map_of (db_keys v)"
  shows "rows_good uid d (box_effect i v v) \<and> names_good (box_effect i v v)
    \<and> get (box_effect i v v) EXT_EXTENSIONS = get v EXT_EXTENSIONS"
  using box_effect_parts [OF assms(1,1,2,2,3)] assms(4) by (simp add: names_good_def)

lemma map_of_nth: "distinct (map fst ps) \<Longrightarrow> i < length ps \<Longrightarrow> map_of ps (fst (ps ! i)) = Some (snd (ps ! i))"
  by (simp add: map_of_eq_Some_iff)

lemma append_step:
  assumes "lodash_uniqueId uid" "lodash_intersection isect" "database_invariant uid st"
  shows "database_invariant uid (database_step uid isect Append_database st)"
proof -
  let ?v = "db_values st" and ?i = "length (rows_of DB_DATABASES (db_values st))"
  let ?w = "append_row DB_DATABASES (new_database (db_index st) (uid (drawn st))) ?v"
  have inv: "rows_good uid (drawn st) ?v" "names_good ?v" "plain_object (get ?v EXT_EXTENSIONS)"
    using assms(3) by (simp_all add: database_invariant_def extensions_good_def)
  have w: "rows_good uid (Suc (drawn st)) ?w"
    "db_keys ?w = db_keys ?v @ [(uid (drawn st), Str (''db'' @ int_str (db_index st)))]"
    "uid (drawn st) \<notin> fst ` set (db_keys ?v)"
    using rows_good_append [OF inv(1), of "db_index st"] assms(1) by (auto simp: lodash_uniqueId_def)
  have plain: "plain_object ?v" using inv(1) by (simp add: rows_good_def)
  have fields: "get ?w DB_NAMES = get ?v DB_NAMES" "get ?w EXT_EXTENSIONS = get ?v EXT_EXTENSIONS"
    by (simp_all add: append_row_def other_field plain)
  have key: "db_keys ?w ! ?i = (uid (drawn st), Str (''db'' @ int_str (db_index st)))"
    unfolding w(2) length_db_keys [symmetric] by simp
  have box: "rows_good uid (Suc (drawn st)) (box_effect ?i ?w ?w) \<and> names_good (box_effect ?i ?w ?w)
      \<and> get (box_effect ?i ?w ?w) EXT_EXTENSIONS = get ?w EXT_EXTENSIONS"
  proof (intro box_names_good)
    show "(look_obj (get ?w DB_NAMES))(fst (db_keys ?w ! ?i) \<mapsto> snd (db_keys ?w ! ?i)) = map_of (db_keys ?w)"
      unfolding key unfolding fields w(2) map_of_snoc [OF w(3)] using inv(2) by (simp add: names_good_def)
  qed (use inv(2) w in \<open>simp_all add: fields names_good_def\<close>)
  show ?thesis
    by (rule selectors_invariant [OF assms(2), of uid "Suc (drawn st)" "box_effect ?i ?w ?w" "[]" _ "shown st"])
       (use box inv(3) fields in \<open>simp_all add: appendItem_def Let_def no_extensions_good\<close>)
qed

lemma rename_step:
  assumes "lodash_intersection isect" "database_invariant uid st" "i < length (rows_of DB_DATABASES (db_values st))"
  shows "database_invariant uid (database_step uid isect (Rename_database i name) st)"
proof -
  let ?v = "db_values st"
  let ?w = "set_cell DB_DATABASES i DB_DATABASE_NAME name ?v"
  have inv: "rows_good uid (drawn st) ?v" "names_good ?v" "plain_object (get ?v EXT_EXTENSIONS)"
    using assms(2) by (simp_all add: database_invariant_def extensions_good_def)
  have w: "rows_good uid (drawn st) ?w" using inv(1) assms(3) by (rule rows_good_set_cell) simp
  have keys: "db_keys ?w = (db_keys ?v)[i := (fst (db_keys ?v ! i), name)]"
    using db_keys_set_cell [OF inv(1) assms(3), of DB_DATABASE_NAME name] by simp
  have plain: "plain_object ?v" and dist: "distinct (map fst (db_keys ?v))" using inv(1) by (simp_all add: rows_good_def)
  have fields: "get ?w DB_NAMES = get ?v DB_NAMES" "get ?w EXT_EXTENSIONS = get ?v EXT_EXTENSIONS"
    by (simp_all add: set_cell_other plain)
  have len: "i < length (db_keys ?v)" using assms(3) by (simp add: length_db_keys)
  have box: "rows_good uid (drawn st) (box_effect i ?w ?w) \<and> names_good (box_effect i ?w ?w)
      \<and> get (box_effect i ?w ?w) EXT_EXTENSIONS = get ?w EXT_EXTENSIONS"
    using inv(2) w len assms(3)
    by (intro box_names_good)
       (simp_all add: fields keys names_good_def map_of_list_update [OF dist] rows_of_set_cell)
  show ?thesis
    by (rule selectors_invariant [OF assms(1), of uid "drawn st" "box_effect i ?w ?w" "[]" _ "shown st"])
       (use box inv(3) fields in \<open>simp_all add: Let_def no_extensions_good\<close>)
qed

lemma edit_step:
  assumes "database_invariant uid st" "database_offered st (Edit_database i k x)"
  shows "database_invariant uid (database_step uid isect (Edit_database i k x) st)"
proof -
  let ?v = "db_values st"
  have inv: "rows_good uid (drawn st) ?v" "names_good ?v" "extensions_good (shown st) ?v"
    using assms(1) by (simp_all add: database_invariant_def)
  have k: "i < length (rows_of DB_DATABASES ?v)" "k \<noteq> DB_BLOCK_ID" "k \<noteq> DB_DATABASE_NAME" using assms(2) by simp_all
  have keys: "db_keys (set_cell DB_DATABASES i k x ?v) = db_keys ?v"
    using db_keys_set_cell [OF inv(1) k(1,2)] k(3) by simp
  have plain: "plain_object ?v" using inv(1) by (simp add: rows_good_def)
  show ?thesis
    using inv rows_good_set_cell [OF inv(1) k(1,2)]
    by (simp add: database_invariant_def names_good_def extensions_good_def keys set_cell_other plain
        chosen_ids_def chosen_def)
qed

lemma delete_step:
  assumes "lodash_intersection isect" "database_invariant uid st" "database_offered st (Delete_database i)"
  shows "database_invariant uid (database_step uid isect (Delete_database i) st)"
proof -
  have i: "i < length (rows_of DB_DATABASES (db_values st))" "i \<noteq> 0" using assms(3) by simp_all
  have inv: "rows_good uid (drawn st) (db_values st)" "names_good (db_values st)"
    "plain_object (get (db_values st) EXT_EXTENSIONS)"
    using assms(2) by (simp_all add: database_invariant_def extensions_good_def)
  note del = delete_parts [OF inv(1,2) i]
  show ?thesis
    by (rule selectors_invariant [OF assms(1) del(1) del(4), of "[]" _ "shown st"])
       (use del(3) inv(3) in \<open>simp_all add: no_extensions_good\<close>)
qed

lemma choose_step:
  assumes "database_invariant uid st" "database_offered st (Choose_databases e dbs)"
  shows "database_invariant uid (database_step uid isect (Choose_databases e dbs) st)"
proof -
  let ?v = "db_values st" and ?w = "choose_databases e dbs (db_values st)"
  have inv: "rows_good uid (drawn st) ?v" "names_good ?v" "extensions_good (shown st) ?v"
    using assms(1) by (simp_all add: database_invariant_def)
  have plain: "plain_object ?v" "plain_object (get ?v EXT_EXTENSIONS)"
    using inv by (simp_all add: rows_good_def extensions_good_def)
  have set_field: "?w = obj [Spread ?v, P EXT_EXTENSIONS (get ?w EXT_EXTENSIONS)]"
    by (simp add: choose_databases_def set_extension_def new_field)
  have names: "get ?w DB_NAMES = get ?v DB_NAMES" "plain_object (get ?w EXT_EXTENSIONS)" "db_keys ?w = db_keys ?v"
    by (simp_all add: choose_databases_def set_extension_def new_field other_field plain db_keys_other)
  have "rows_good uid (drawn st) ?w"
    by (subst set_field) (rule rows_good_other [OF inv(1)], simp)
  moreover have "chosen_ids ?w n = (if n = extension_name e then set dbs else chosen_ids ?v n)" for n
    unfolding choose_databases_def by (rule chosen_ids_set_extension [OF plain])
  ultimately show ?thesis
    using inv(2,3) assms(2) names
    by (auto simp: database_invariant_def names_good_def extensions_good_def set_name_keys split: if_splits)
qed

lemma filter_step:
  assumes "lodash_intersection isect" "database_invariant uid st"
  shows "database_invariant uid (database_step uid isect (Filter_extensions es) st)"
  by (rule selectors_invariant [OF assms(1), of uid "drawn st" "db_values st" "shown st" _ es])
     (use assms(2) in \<open>simp_all add: database_invariant_def\<close>)

lemma boxes_run:
  assumes "rows_good uid d v" "names_good v" "i \<le> length (rows_of DB_DATABASES v)"
  shows "rows_good uid d (fold (\<lambda>j. box_effect j v) [0..<i] v) \<and> names_good (fold (\<lambda>j. box_effect j v) [0..<i] v)
    \<and> db_keys (fold (\<lambda>j. box_effect j v) [0..<i] v) = db_keys v
    \<and> get (fold (\<lambda>j. box_effect j v) [0..<i] v) EXT_EXTENSIONS = get v EXT_EXTENSIONS"
  using assms(3)
proof (induction i)
  case (Suc i)
  let ?w = "fold (\<lambda>j. box_effect j v) [0..<i] v"
  have w: "rows_good uid d ?w" "db_keys ?w = db_keys v" "get ?w EXT_EXTENSIONS = get v EXT_EXTENSIONS"
    using Suc by simp_all
  have i: "i < length (rows_of DB_DATABASES v)" using Suc.prems by simp
  then have iw: "i < length (rows_of DB_DATABASES ?w)" using w(2) length_db_keys by metis
  have wf: "wf_obj (get v DB_NAMES)" "distinct (map fst (db_keys v))" "look_obj (get v DB_NAMES) = map_of (db_keys v)"
    using assms(1,2) by (simp_all add: names_good_def rows_good_def)
  note box = box_effect_parts [OF w(1) assms(1) iw i wf(1)]
  have "(map_of (db_keys v))(fst (db_keys v ! i) \<mapsto> snd (db_keys v ! i)) = map_of (db_keys v)"
    using map_of_nth [OF wf(2), of i] i by (intro fun_upd_idem) (simp add: length_db_keys)
  then have "names_good (box_effect i v ?w)" using box(2,4,5) by (simp add: names_good_def wf(3) w(2))
  then show ?case using box(1,2,3) w by simp
qed (use assms in simp)

lemma mount_step:
  assumes "lodash_intersection isect" "database_invariant uid st"
  shows "database_invariant uid (database_step uid isect Mount_blocks st)"
proof -
  let ?v = "db_values st"
  let ?w = "fold (\<lambda>j. box_effect j ?v) [0..<length (rows_of DB_DATABASES ?v)] ?v"
  have inv: "rows_good uid (drawn st) ?v" "names_good ?v" "plain_object (get ?v EXT_EXTENSIONS)"
    using assms(2) by (simp_all add: database_invariant_def extensions_good_def)
  have w: "rows_good uid (drawn st) ?w" "names_good ?w" "get ?w EXT_EXTENSIONS = get ?v EXT_EXTENSIONS"
    using boxes_run [OF inv(1,2) order_refl] by simp_all
  show ?thesis
    by (rule selectors_invariant [OF assms(1) w(1,2), of "[]" _ "shown st"])
       (use w(3) inv(3) in \<open>simp_all add: no_extensions_good Let_def\<close>)
qed

lemma database_step_invariant:
  assumes "lodash_uniqueId uid" "lodash_intersection isect" "database_invariant uid st" "database_offered st e"
  shows "database_invariant uid (database_step uid isect e st)"
proof (cases e)
  case Append_database
  then show ?thesis using append_step [OF assms(1,2,3)] by blast
next
  case (Rename_database i name)
  then show ?thesis using rename_step [OF assms(2,3)] assms(4) by fastforce
next
  case (Edit_database i k x)
  then show ?thesis using edit_step [OF assms(3)] assms(4) by blast
next
  case (Delete_database i)
  then show ?thesis using delete_step [OF assms(2,3)] assms(4) by blast
next
  case (Choose_databases extension dbs)
  then show ?thesis using choose_step [OF assms(3)] assms(4) by blast
next
  case (Filter_extensions es)
  then show ?thesis using filter_step [OF assms(2,3)] by blast
next
  case Mount_blocks
  then show ?thesis using mount_step [OF assms(2,3)] by blast
qed

lemma mounted_invariant:
  assumes "plain_object v" "get v DB_DATABASES = Arr [first_database (Str (uid 0))]"
    and "get v EXT_EXTENSIONS = obj []" "get v DB_NAMES = Undef"
  shows "database_invariant uid (mounted v)"
proof -
  have rows: "rows_of DB_DATABASES v = [first_database (Str (uid 0))]" by (simp add: rows_of_def assms(2))
  have keys: "db_keys v = [(uid 0, Str ''db1'')]" by (simp add: db_keys_def rows first_database_def get_obj)
  have "rows_good uid 1 v"
    using assms(1,2) by (simp add: rows_good_def rows keys first_database_def)
  then have "rows_good uid 1 (box_effect 0 v v) \<and> names_good (box_effect 0 v v)
      \<and> get (box_effect 0 v v) EXT_EXTENSIONS = get v EXT_EXTENSIONS"
    by (intro box_names_good) (simp_all add: rows keys assms(4) wf_obj_def look_obj_map)
  then show ?thesis
    using assms(3) by (simp add: database_invariant_def mounted_def no_extensions_good)
qed

lemma database_reachable_invariant:
  assumes "lodash_uniqueId uid" "lodash_intersection isect"
  shows "database_reachable uid isect st \<Longrightarrow> database_invariant uid st"
proof (induction rule: database_reachable.induct)
  case (database_start v)
  then show ?case by (intro mounted_invariant)
next
  case (database_next st e)
  then show ?case by (intro database_step_invariant [OF assms])
qed

section \<open>Names and extensions\<close>

text \<open>
  C15: over any sequence of additions, renamings, removals, choices of extensions and remounts, the names
  the form keeps are exactly those of its databases: an id of a row has the name of that row, and no
  other id has one.
\<close>

theorem names_are_the_databases:
  assumes "lodash_uniqueId uid" "lodash_intersection isect" "database_reachable uid isect st"
  shows "keys_of (get (db_values st) DB_NAMES) =
      (\<lambda>x. js_str (get x DB_BLOCK_ID)) ` set (rows_of DB_DATABASES (db_values st))
    \<and> (\<forall>x \<in> set (rows_of DB_DATABASES (db_values st)).
         look_obj (get (db_values st) DB_NAMES) (js_str (get x DB_BLOCK_ID)) = Some (get x DB_DATABASE_NAME))"
proof
  have inv: "rows_good uid (drawn st) (db_values st)" "names_good (db_values st)"
    using database_reachable_invariant [OF assms] by (simp_all add: database_invariant_def)
  show "keys_of (get (db_values st) DB_NAMES) =
      (\<lambda>x. js_str (get x DB_BLOCK_ID)) ` set (rows_of DB_DATABASES (db_values st))"
    using inv(2) by (simp add: keys_look_obj names_good_def dom_map_of_conv_image_fst db_keys_def image_image)
  show "\<forall>x \<in> set (rows_of DB_DATABASES (db_values st)).
      look_obj (get (db_values st) DB_NAMES) (js_str (get x DB_BLOCK_ID)) = Some (get x DB_DATABASE_NAME)"
    using inv by (auto simp: names_good_def rows_good_def db_keys_def map_of_eq_Some_iff image_iff)
qed

definition count_id :: "nat \<Rightarrow> string" where
  "count_id n = replicate (Suc n) (CHR ''1'')"

definition both_in :: "js list \<Rightarrow> js list \<Rightarrow> js list" where
  "both_in xs ys = filter (\<lambda>x. x \<in> set ys) xs"

lemma count_id_unique: "lodash_uniqueId count_id"
proof -
  have "inj (\<lambda>n. length (count_id n))" by (simp add: count_id_def inj_on_def)
  then show ?thesis unfolding lodash_uniqueId_def by (metis (no_types, lifting) inj_on_def)
qed

lemma both_in_intersection: "lodash_intersection both_in"
  by (auto simp: lodash_intersection_def both_in_def)

definition example_form :: js where
  "example_form = obj
     [P DB_DATABASES (Arr [first_database (Str (count_id 0))]), P EXT_EXTENSIONS (obj [])]"

definition with_second :: database_form where
  "with_second = database_step count_id both_in Append_database (mounted example_form)"

lemma second_reachable: "database_reachable count_id both_in with_second"
proof -
  have "database_reachable count_id both_in (mounted example_form)"
    by (rule database_start) (simp_all add: example_form_def get_obj)
  then show ?thesis unfolding with_second_def by (rule database_next) simp
qed

theorem names_are_the_databases_witness:
  "keys_of (get (db_values with_second) DB_NAMES) = {''1'', ''11''}"
proof -
  have "(\<lambda>x. js_str (get x DB_BLOCK_ID)) ` set (rows_of DB_DATABASES (db_values with_second)) = {''1'', ''11''}"
    by code_simp
  then show ?thesis
    using names_are_the_databases [OF count_id_unique both_in_intersection second_reachable] by simp
qed

text \<open>The rows of a request for one extension.\<close>

lemma chosen_row_item:
  assumes "row \<in> set (extension_rows v (name, chosen v name))"
  shows "\<exists>item. item \<in> chosen_ids v name
    \<and> row = obj [P ''ext'' (Str name), P ''db'' (get (get v DB_NAMES) (js_str item))]"
  using assms by (auto simp: extension_rows_def chosen_ids_def split: if_splits)

lemma chosen_item_row:
  assumes "item \<in> chosen_ids v name"
  shows "obj [P ''ext'' (Str name), P ''db'' (get (get v DB_NAMES) (js_str item))]
    \<in> set (extension_rows v (name, chosen v name))"
  using assms by (cases "get (chosen v name) ''db''") (auto simp: extension_rows_def chosen_ids_def has_length_def)

text \<open>
  C16: every database the request asks an extension of the shown list for is a database of the form, by
  its current name: no removed database is named, whatever was chosen before it was removed.
\<close>

theorem extension_databases_exist:
  assumes "lodash_uniqueId uid" "lodash_intersection isect" "database_reachable uid isect st"
    and "e \<in> set (shown st)"
    and "row \<in> set (extension_rows (db_values st) (extension_name e, chosen (db_values st) (extension_name e)))"
  shows "\<exists>x \<in> set (rows_of DB_DATABASES (db_values st)). get row ''db'' = get x DB_DATABASE_NAME"
proof -
  let ?v = "db_values st"
  have inv: "rows_good uid (drawn st) ?v" "names_good ?v" "extensions_good (shown st) ?v"
    using database_reachable_invariant [OF assms(1,2,3)] by (simp_all add: database_invariant_def)
  obtain item where item: "item \<in> chosen_ids ?v (extension_name e)"
    "get row ''db'' = get (get ?v DB_NAMES) (js_str item)"
    using chosen_row_item [OF assms(5)] by (auto simp: get_obj)
  then have "item \<in> Str ` keys_of (get ?v DB_NAMES)"
    using inv(3) assms(4) unfolding extensions_good_def by blast
  then have "js_str item \<in> keys_of (get ?v DB_NAMES)" by auto
  then obtain name where name: "map_of (db_keys ?v) (js_str item) = Some name"
    using inv(2) by (auto simp: keys_look_obj names_good_def)
  then have "get row ''db'' = name"
    using inv(2) item(2) by (simp add: plain_look_obj names_good_def)
  moreover obtain x where "x \<in> set (rows_of DB_DATABASES ?v)" "get x DB_DATABASE_NAME = name"
    using map_of_SomeD [OF name] by (auto simp: db_keys_def)
  ultimately show ?thesis by (intro bexI [of _ x]) simp_all
qed

definition timescaledb :: js where
  "timescaledb = obj [P ''name'' (Str ''timescaledb''), P ''contrib'' (Bool False)]"

definition with_box :: database_form where
  "with_box = database_step count_id both_in (Filter_extensions [timescaledb]) with_second"

definition with_extension :: database_form where
  "with_extension = database_step count_id both_in (Choose_databases timescaledb [Str ''11'']) with_box"

lemma extension_reachable: "database_reachable count_id both_in with_extension"
proof -
  have reach: "database_reachable count_id both_in with_box"
    unfolding with_box_def by (rule database_next [OF second_reachable]) simp
  have "''11'' \<in> keys_of (get (db_values with_box) DB_NAMES)" by code_simp
  then have "database_offered with_box (Choose_databases timescaledb [Str ''11''])"
    by (simp add: set_name_keys) (simp add: with_box_def)
  then show ?thesis unfolding with_extension_def by (rule database_next [OF reach])
qed

theorem extension_databases_exist_witness:
  "\<exists>row \<in> set (extension_rows (db_values with_extension) (''timescaledb'', chosen (db_values with_extension) ''timescaledb'')).
     \<exists>x \<in> set (rows_of DB_DATABASES (db_values with_extension)). get row ''db'' = get x DB_DATABASE_NAME"
proof -
  have name: "extension_name timescaledb = ''timescaledb''" "timescaledb \<in> set (shown with_extension)" by code_simp+
  have "extension_rows (db_values with_extension) (''timescaledb'', chosen (db_values with_extension) ''timescaledb'') \<noteq> []"
    by code_simp
  then obtain row where row: "row \<in> set (extension_rows (db_values with_extension)
      (''timescaledb'', chosen (db_values with_extension) ''timescaledb''))"
    by (meson list.set_sel(1))
  then show ?thesis
    using extension_databases_exist [OF count_id_unique both_in_intersection extension_reachable name(2), of row]
    unfolding name(1) by blast
qed

text \<open>
  C17: the ids of a removed database are dropped by the effect of the extension's own box. An extension
  the search field hides keeps the id, and the request asks for it in a database without a name.
\<close>

theorem hidden_extension_keeps_removed_database:
  assumes "lodash_uniqueId uid" "lodash_intersection isect" "database_reachable uid isect st"
    and "database_offered st (Delete_database i)" "name \<notin> extension_name ` set (shown st)"
    and "Str (js_str (get (rows_of DB_DATABASES (db_values st) ! i) DB_BLOCK_ID)) \<in> chosen_ids (db_values st) name"
  defines "after \<equiv> db_values (database_step uid isect (Delete_database i) st)"
  shows "obj [P ''ext'' (Str name), P ''db'' Undef] \<in> set (extension_rows after (name, chosen after name))"
proof -
  let ?v = "db_values st" and ?id = "js_str (get (rows_of DB_DATABASES (db_values st) ! i) DB_BLOCK_ID)"
  have i: "i < length (rows_of DB_DATABASES ?v)" "i \<noteq> 0" using assms(4) by simp_all
  have inv: "rows_good uid (drawn st) ?v" "names_good ?v" "plain_object (get ?v EXT_EXTENSIONS)"
    using database_reachable_invariant [OF assms(1,2,3)] by (simp_all add: database_invariant_def extensions_good_def)
  note del = delete_parts [OF inv(1,2) i]
  have after: "after = run_selectors isect (shown st) (deleteItem i ?v)" by (simp add: after_def)
  have ids: "chosen_ids (deleteItem i ?v) name = chosen_ids ?v name" by (simp add: chosen_ids_def chosen_def del(3))
  have kept: "chosen_ids after name = chosen_ids (deleteItem i ?v) name"
    unfolding after by (rule hidden_selectors [OF del(1)]) (use assms(5) del(3) inv(3) in simp_all)
  have "get after DB_NAMES = get (deleteItem i ?v) DB_NAMES"
    unfolding after using run_selectors_parts [OF assms(2) del(1), of "[]"] del(3) inv(3) by simp
  moreover have "map_of (remove_nth i (db_keys ?v)) ?id = None"
    using inv(1) i by (simp add: map_of_remove_nth rows_good_def length_db_keys) (simp add: db_keys_def)
  ultimately have "get (get after DB_NAMES) ?id = Undef"
    using del(2,4) by (simp add: plain_look_obj names_good_def)
  then show ?thesis using chosen_item_row [of "Str ?id" after name] assms(6) kept ids by simp
qed

definition hidden_form :: database_form where
  "hidden_form = database_step count_id both_in (Filter_extensions []) with_extension"

theorem hidden_extension_keeps_removed_database_witness:
  "obj [P ''ext'' (Str ''timescaledb''), P ''db'' Undef] \<in>
     set (extension_rows (db_values (database_step count_id both_in (Delete_database 1) hidden_form))
       (''timescaledb'', chosen (db_values (database_step count_id both_in (Delete_database 1) hidden_form)) ''timescaledb''))"
proof -
  have "database_reachable count_id both_in hidden_form"
    unfolding hidden_form_def by (rule database_next [OF extension_reachable]) simp
  moreover have "database_offered hidden_form (Delete_database 1)" by code_simp
  moreover have "shown hidden_form = []" by (simp add: hidden_form_def)
  moreover have "Str (js_str (get (rows_of DB_DATABASES (db_values hidden_form) ! 1) DB_BLOCK_ID))
      \<in> chosen_ids (db_values hidden_form) ''timescaledb''" by code_simp
  ultimately show ?thesis
    using hidden_extension_keeps_removed_database [OF count_id_unique both_in_intersection, of hidden_form 1 "''timescaledb''"]
    by simp
qed

end
