(* ===== verification/DatabaseViews.thy ===== *)
theory DatabaseViews
  imports DatabaseFacts
begin

text \<open>
  What the blocks of databases, connection pools and extensions show, and the handlers of their controls:
  the hidden password, the state of an extension's selector, the two filters of the list.
\<close>

section \<open>Databases\<close>

text \<open>\<open><TextField {...field} label error helperText {...extra} />\<close> for a field of a row.\<close>

definition row_text_field :: "js \<Rightarrow> js \<Rightarrow> string \<Rightarrow> nat \<Rightarrow> string \<Rightarrow> js \<Rightarrow> part list \<Rightarrow> js" where
  "row_text_field values errors array i k label extra =
     row_controller values array i k (\<lambda>value onChange.
       elem ''TextField''
         ([P ''value'' value, P ''onChange'' onChange, P ''size'' (Str ''small''), P ''label'' label,
           P ''error'' (to_bool (get (at (get errors array) i) k)),
           P ''helperText'' (get (get (at (get errors array) i) k) ''message'')] @ extra) [])"

definition password_props :: "bool \<Rightarrow> part list" where
  "password_props isPasswordHidden =
     [P ''type'' (Str (if isPasswordHidden then ''password'' else ''text'')),
      P ''slotProps'' (obj [P ''input'' (obj [P ''endAdornment''
        (elem ''InputAdornment'' [P ''position'' (Str ''end'')]
          [elem ''IconButton''
             [P ''aria-label'' (Str (if isPasswordHidden then ''display the password'' else ''hide the password'')),
              P ''onClick'' (Fn ''togglePasswordVisibility'' []), P ''edge'' (Str ''end'')]
             [elem (if isPasswordHidden then ''Visibility'' else ''VisibilityOff'') [] []]])])])]"

definition togglePasswordVisibility :: "bool \<Rightarrow> bool" where
  "togglePasswordVisibility prev = (\<not> prev)"

definition database_fields :: "(string \<times> js \<times> bool) list" where
  "database_fields =
     [(DB_DATABASE_NAME, tr ''databaseName'' [P ''ns'' (Str ''clusters'')], False),
      (DB_USER_NAME, tr ''username'' [P ''ns'' (Str ''shared'')], False),
      (DB_USER_PASSWORD, tr ''userPassword'' [P ''ns'' (Str ''shared'')], True),
      (DB_ENCODING, tr ''encoding'' [P ''ns'' (Str ''clusters'')], False),
      (DB_LOCALE, tr ''locale'' [P ''ns'' (Str ''shared'')], False)]"

definition DatabaseBox :: "bool \<Rightarrow> js \<Rightarrow> js \<Rightarrow> nat \<Rightarrow> js \<Rightarrow> js" where
  "DatabaseBox isPasswordHidden values errors i remove = elem ''Card'' []
     [when_js (truthy remove)
        (elem ''IconButton'' [P ''onClick'' (Fn ''deleteItem'' [remove])] [elem ''CloseIcon'' [] []]),
      elem ''Stack'' []
        [elem ''Typography'' [] [row_title (tr ''database'' [P ''ns'' (Str ''clusters'')]) i],
         elem ''Stack'' []
           [Arr (map (\<lambda>(fieldName, label, isPassword).
              row_text_field values errors DB_DATABASES i fieldName label
                (if isPassword then password_props isPasswordHidden else [])) database_fields)]]]"

definition DatabaseBlock :: "(nat \<Rightarrow> bool) \<Rightarrow> js \<Rightarrow> js \<Rightarrow> js" where
  "DatabaseBlock hidden values errors = elem ''Box'' []
     [elem ''Typography'' [] [tr ''databases'' []],
      elem ''Stack'' []
        [elem ''Box'' []
           [index_values (rows_of DB_DATABASES values) (\<lambda>i.
              DatabaseBox (hidden i) values errors i (remove_of_row i))],
         add_button (Fn ''appendItem'' [])]]"

section \<open>Connection pools\<close>

definition POOL_MODES :: "js list" where
  "POOL_MODES =
     [obj [P ''option'' (Str ''transaction''),
           P ''tooltip'' (Str ''Server is released back to pool after transaction finishes.'')],
      obj [P ''option'' (Str ''session''),
           P ''tooltip'' (Str ''Server is released back to pool after client disconnects.'')],
      obj [P ''option'' (Str ''statement''),
           P ''tooltip'' (Str ''Server is released back to pool after query finishes. Transactions spanning multiple statements are disallowed in this mode.'')]]"

definition ConnectionPoolBox :: "js \<Rightarrow> js \<Rightarrow> nat \<Rightarrow> js \<Rightarrow> js" where
  "ConnectionPoolBox values errors i remove = elem ''Card'' []
     [close_button remove,
      elem ''Stack'' []
        [elem ''Typography'' [] [row_title (tr ''pool'' [P ''ns'' (Str ''clusters'')]) i],
         elem ''Stack'' []
           [Arr (map (\<lambda>(fieldName, label). row_text_field values errors POOL_POOLS i fieldName label [])
              [(POOL_POOL_NAME, tr ''poolName'' [P ''ns'' (Str ''clusters'')]),
               (POOL_POOL_SIZE, tr ''poolSize'' [P ''ns'' (Str ''clusters'')])]),
            row_controller values POOL_POOLS i POOL_POOL_MODE (\<lambda>value onChange.
              elem ''FormControl'' [P ''fullWidth'' (Bool True), P ''size'' (Str ''small'')]
                [elem ''InputLabel'' [P ''size'' (Str ''small'')] [tr ''poolMode'' []],
                 elem ''Select''
                   [P ''value'' value, P ''onChange'' onChange, P ''size'' (Str ''small''), P ''label'' (tr ''poolMode'' []),
                    P ''error'' (to_bool (get (at (get errors POOL_POOLS) i) POOL_POOL_MODE)),
                    P ''helperText'' (get (get (at (get errors POOL_POOLS) i) POOL_POOL_MODE) ''message'')]
                   [Arr (map (\<lambda>mode. elem ''MenuItem'' [P ''value'' (get mode ''option'')]
                      [elem ''Tooltip'' [P ''title'' (get mode ''tooltip'')] [get mode ''option'']]) POOL_MODES)]])]]]"

definition ConnectionPoolsBlock :: "js \<Rightarrow> js \<Rightarrow> js" where
  "ConnectionPoolsBlock values errors = elem ''Box'' []
     [elem ''Typography'' [] [tr ''connectionPools'' []],
      elem ''Stack'' []
        [controller values POOL_IS_CONNECTION_POOLER_ENABLED (\<lambda>value onChange.
           elem ''FormControlLabel''
             [P ''value'' value, P ''onChange'' onChange, P ''checked'' (to_bool value),
              P ''control'' (elem ''Checkbox'' [] []), P ''labelPlacement'' (Str ''start''),
              P ''label'' (elem ''Box'' [] [tr ''connectionPooler'' []])] []),
         if truthy (get values POOL_IS_CONNECTION_POOLER_ENABLED)
         then Arr
           [elem ''Box'' []
              [index_values (rows_of POOL_POOLS values) (\<lambda>i. ConnectionPoolBox values errors i (remove_of_row i))],
            add_button (Fn ''appendItem'' [])]
         else Null]]"

section \<open>Extensions\<close>

text \<open>The state of a selector: what its popover is anchored to, and its switch.\<close>

record selector =
  anchorEl :: js
  isChecked :: js

definition handleSwitchClick :: "js \<Rightarrow> selector \<Rightarrow> selector" where
  "handleSwitchClick currentTarget s = s\<lparr>anchorEl := currentTarget\<rparr>"

definition handleClose :: "selector \<Rightarrow> selector" where
  "handleClose s = s\<lparr>anchorEl := Null\<rparr>"

definition select_databases :: "js \<Rightarrow> js list \<Rightarrow> selector \<times> js \<Rightarrow> selector \<times> js" where
  "select_databases extension dbs sv =
     ((fst sv)\<lparr>isChecked := Bool (dbs \<noteq> [])\<rparr>, choose_databases extension dbs (snd sv))"

definition run_selector :: "(js list \<Rightarrow> js list \<Rightarrow> js list) \<Rightarrow> js \<Rightarrow> selector \<times> js \<Rightarrow> selector \<times> js" where
  "run_selector isect extension sv =
     (let v = snd sv; old = chosen v (extension_name extension) in
      (if truthy old
       then (fst sv)\<lparr>isChecked := Num (int (length (isect (elems (get old ''db'')) (name_keys v))))\<rparr>
       else fst sv,
       selector_effect isect extension v v))"

definition ExtensionSelector :: "selector \<Rightarrow> js \<Rightarrow> js \<Rightarrow> js" where
  "ExtensionSelector s values extension = elem ''Box'' []
     [elem ''Box'' [P ''onClick'' (Fn ''handleSwitchClick'' [])] [elem ''Switch'' [P ''checked'' (isChecked s)] []],
      elem ''Popover'' [P ''open'' (to_bool (anchorEl s)), P ''anchorEl'' (anchorEl s),
          P ''onClose'' (Fn ''handleClose'' []), P ''visibility'' (Str ''hidden'')]
        [elem ''Box'' []
          [elem ''FormControl'' []
            [elem ''Controller'' [P ''name'' (Str (EXT_EXTENSIONS @ ''.'' @ extension_name extension))]
              [let value = chosen values (extension_name extension) in
               elem ''Select''
                 [P ''defaultOpen'' (Bool True), P ''displayEmpty'' (Bool True), P ''onClose'' (Fn ''handleClose'' []),
                  P ''fullWidth'' (Bool True), P ''multiple'' (Bool True), P ''onChange'' (Fn ''handleChange'' []),
                  P ''value'' (coalesce (get value ''db'') (Arr []))]
                 [if truthy (get values DB_NAMES)
                  then Arr (map (\<lambda>(k, name). elem ''MenuItem'' [P ''value'' (Str k)]
                         [elem ''Checkbox''
                            [P ''checked'' (Bool (Str k \<in> set (elems (get value ''db''))))] [],
                          elem ''ListItemText'' [P ''primary'' name] []]) (entries (get values DB_NAMES)))
                  else Null]]]]]]"

definition ExtensionBox :: "js \<Rightarrow> selector \<Rightarrow> js \<Rightarrow> js \<Rightarrow> js" where
  "ExtensionBox extensionIcons s values extension = elem ''Stack'' []
     [when_js (truthy (get extension ''image''))
        (elem ''Stack'' []
           [elem ''img'' [P ''src'' (get extensionIcons (js_str (get extension ''image''))), P ''alt'' (Str ''img'')] []]),
      elem ''Stack'' []
        [elem ''Stack'' []
           [elem ''Typography'' []
              [if truthy (get extension ''url'')
               then elem ''Link'' [P ''target'' (Str ''_blank''), P ''href'' (get extension ''url'')]
                      [elem ''u'' [] [get extension ''name'']]
               else get extension ''name''],
            ExtensionSelector s values extension],
         elem ''Stack'' []
           [elem ''Tooltip'' [P ''title'' (get extension ''description'')]
              [elem ''Typography'' [] [get extension ''description'']]]]]"

definition swiper_key :: "js \<Rightarrow> js" where
  "swiper_key extension =
     Str (js_str (get extension ''name'') @ '' + '' @ js_str (get extension ''description''))"

definition ExtensionsSwiper :: "bool \<Rightarrow> js list \<Rightarrow> (js \<Rightarrow> js) \<Rightarrow> js" where
  "ExtensionsSwiper isPending filtered box =
     elem ''ErrorBoundary''
       [P ''fallback'' (elem ''ErrorBox'' [P ''text'' (tr ''somethingWentWrongWhileRenderingExtensionsSwiper'' [])] [])]
       [elem ''Stack'' []
          [if isPending then elem ''Spinner'' [] []
           else if filtered \<noteq> []
           then Arr
             [elem ''IconButton'' [P ''onClick'' (Fn ''handleSwipePrev'' [])] [elem ''ChevronLeftIcon'' [] []],
              elem ''Swiper'' [P ''slidesPerView'' (Num 3), P ''spaceBetween'' (Num 16), P ''allowTouchMove'' (Bool False)]
                [Arr (map (\<lambda>extension. elem ''SwiperSlide'' [P ''key'' (swiper_key extension)] [box extension]) filtered)],
              elem ''IconButton'' [P ''onClick'' (Fn ''handleSwipeNext'' [])] [elem ''ChevronRightIcon'' [] []]]
           else elem ''Typography'' [] [tr ''noExtensionsFound'' []]]]"

definition ExtensionsBlock :: "bool \<Rightarrow> string \<Rightarrow> bool \<Rightarrow> bool \<Rightarrow> js list \<Rightarrow> (js \<Rightarrow> js) \<Rightarrow> js" where
  "ExtensionsBlock isLoading searchValue isShowOnlyEnabled pending filtered box =
     (if isLoading then elem ''Spinner'' [] []
      else elem ''ErrorBoundary'' [P ''fallback'' (elem ''ErrorBox'' [] [])]
        [elem ''Box'' []
          [elem ''Stack'' []
            [elem ''Typography'' [] [tr ''extensions'' []],
             elem ''Stack'' []
               [elem ''TextField'' [P ''size'' (Str ''small''), P ''value'' (Str searchValue),
                   P ''onChange'' (Fn ''handleSearchValueChange'' []), P ''slotProps''
                     (obj [P ''input'' (obj [P ''startAdornment''
                        (elem ''InputAdornment'' [P ''position'' (Str ''start'')] [elem ''SearchIcon'' [] []])])])] [],
                elem ''FormControlLabel'' [P ''checked'' (Bool isShowOnlyEnabled),
                   P ''onChange'' (Fn ''setIsShowOnlyEnabled'' []), P ''control'' (elem ''Checkbox'' [] []),
                   P ''label'' (elem ''Typography'' [] [tr ''showEnabled'' []])] []],
             ExtensionsSwiper pending filtered box]]])"

section \<open>Controls\<close>

text \<open>A box of a database edits every field of its row but the id, and a box of a pool every field.\<close>

lemma database_box_controls:
  "shown_controls (DatabaseBox hidden values errors i (remove_of_row i)) =
     map (cell_name DB_DATABASES i)
       [DB_DATABASE_NAME, DB_USER_NAME, DB_USER_PASSWORD, DB_ENCODING, DB_LOCALE]"
  by (simp add: DatabaseBox_def database_fields_def row_text_field_def password_props_def view_simps)

lemma pool_box_controls:
  "shown_controls (ConnectionPoolBox values errors i (remove_of_row i)) =
     map (cell_name POOL_POOLS i) [POOL_POOL_NAME, POOL_POOL_SIZE, POOL_POOL_MODE]"
  by (simp add: ConnectionPoolBox_def POOL_MODES_def row_text_field_def view_simps)

end
