(* ===== verification/Sliders.thy ===== *)
theory Sliders
  imports RowViews FormStorage
begin

text \<open>
  The number fields of the form: the box with a slider and a text field (\<open>shared/ui/slider-box\<close>)
  in the blocks of the instances and of the storage, and the fields of \<open>additional-settings-block\<close>
  and \<open>backups-block\<close>, with their views. The theorems are the bounds their handlers keep, and a
  bound one of them does not keep.

  \<open>frac\<close> compares two numbers of which one is not a plain integer; \<open><\<close> with \<open>NaN\<close> is false.
  The marks of a slider are computed in floating point: the view names the call, and \<open>SliderMarks\<close>
  models it.
\<close>

section \<open>Comparison\<close>

definition js_less :: "(js \<Rightarrow> js \<Rightarrow> bool) \<Rightarrow> js \<Rightarrow> js \<Rightarrow> bool" where
  "js_less frac a b =
     (case js_number a of
        NaN \<Rightarrow> False
      | Num m \<Rightarrow> (case js_number b of NaN \<Rightarrow> False | Num n \<Rightarrow> m < n | y \<Rightarrow> frac (Num m) y)
      | x \<Rightarrow> (case js_number b of NaN \<Rightarrow> False | y \<Rightarrow> frac x y))"

lemma js_less_Num [simp]: "js_less frac (Num m) (Num n) \<longleftrightarrow> m < n"
  by (simp add: js_less_def)

lemma js_less_number: "js_number a = Num m \<Longrightarrow> js_number b = Num n \<Longrightarrow> js_less frac a b \<longleftrightarrow> m < n"
  by (simp add: js_less_def)

text \<open>Text of digits is read as the number it spells.\<close>

lemma digit_not_ws: "is_digit c \<Longrightarrow> \<not> is_ws c"
proof -
  have "\<forall>c \<in> set ''0123456789''. \<not> is_ws c" by code_simp
  then show "is_digit c \<Longrightarrow> \<not> is_ws c" unfolding is_digit_def by blast
qed

lemma digits_no_ws: "\<forall>c \<in> set s. is_digit c \<Longrightarrow> trim s = s"
proof -
  assume "\<forall>c \<in> set s. is_digit c"
  then have "\<forall>c \<in> set s. \<not> is_ws c" using digit_not_ws by blast
  then have "s = [] \<or> \<not> is_ws (hd s)" "rev s = [] \<or> \<not> is_ws (hd (rev s))"
    using hd_in_set [of s] hd_in_set [of "rev s"] by auto
  then have "dropWhile is_ws s = s" "dropWhile is_ws (rev s) = rev s" by (simp_all only: dropWhile_eq_self_iff)
  then show ?thesis by (simp add: trim_def)
qed

lemma digits_number:
  assumes "\<forall>c \<in> set s. is_digit c"
  shows "str_number s = Num (int (parse_nat s))"
proof (cases s)
  case (Cons c cs)
  have "matches int_literal s"
    unfolding matches_iff int_literal_def rx_sign_def rx_digits_def lang_Seq_iff
    by (rule exI [of _ "[]"], rule exI [of _ s]) (use assms Cons in \<open>simp add: Opt_def lang_Plus_Class\<close>)
  moreover have "c \<noteq> CHR ''-''" "c \<noteq> CHR ''+''" using assms Cons by (auto simp: is_digit_def)
  ultimately show ?thesis using Cons digits_no_ws [OF assms] by (simp add: str_number_def parse_int_def)
qed (simp add: str_number_def trim_def parse_nat_def)

section \<open>The slider box\<close>

text \<open>The change handler of the text field: what it passes to \<open>changeAmount\<close>, if it calls it.\<close>

definition slider_onChange :: "(js \<Rightarrow> js \<Rightarrow> bool) \<Rightarrow> js \<Rightarrow> js \<Rightarrow> bool \<Rightarrow> bool \<Rightarrow> string \<Rightarrow> js option" where
  "slider_onChange frac lowest highest limitMin limitMax text =
     (if matches (Star (Class is_digit)) text
      then let num = str_number text in
        Some (if js_less frac num (coalesce lowest (Num 0)) \<and> limitMin then lowest
              else if \<not> nullish highest \<and> js_less frac highest num \<and> limitMax then highest
              else num)
      else None)"

record slider_props =
  amount :: js
  slider_min :: js
  slider_max :: js
  marks :: js
  marksAmount :: js
  marksAdditionalLabel :: js
  slider_step :: js
  slider_error :: js
  unit :: js
  icon :: js
  topRightElements :: js

definition ClusterSliderBox :: "slider_props \<Rightarrow> js \<Rightarrow> js" where
  "ClusterSliderBox p changeAmount = elem ''Box'' []
     [elem ''Box'' []
        [icon p,
         elem ''TextField''
           [P ''required'' (Bool True), P ''value'' (amount p), P ''onChange'' (Fn ''onChange'' [changeAmount]),
            P ''error'' (to_bool (slider_error p)),
            P ''helperText'' (coalesce (get (slider_error p) ''message'') (Str '''')), P ''size'' (Str ''small'')] [],
         elem ''Typography'' [] [unit p]],
      elem ''Box'' []
        [coalesce (topRightElements p) Null,
         elem ''Slider''
           [P ''value'' (amount p), P ''onChange'' changeAmount, P ''step'' (slider_step p),
            P ''valueLabelDisplay'' (Str ''auto''), P ''min'' (slider_min p), P ''max'' (slider_max p),
            P ''marks'' (coalesce (marks p) (Fn ''generateSliderMarks''
              [coalesce (slider_min p) (Num 1), coalesce (slider_max p) (Num 100), coalesce (marksAmount p) (Num 0),
               marksAdditionalLabel p]))] []]]"

section \<open>Instances and storage\<close>

definition amount_slider :: "js \<Rightarrow> js \<Rightarrow> js \<Rightarrow> slider_props" where
  "amount_slider value error right =
     \<lparr>amount = value, slider_min = Num 1, slider_max = Num 32, marks = Undef, marksAmount = Num 10,
      marksAdditionalLabel = Str '''', slider_step = Num 1, slider_error = error, unit = Undef,
      icon = elem ''ServersIcon'' [] [], topRightElements = right\<rparr>"

text \<open>\<open>limitMin\<close> has the default \<open>true\<close>; \<open>limitMax\<close> is not passed.\<close>

definition amount_onChange :: "(js \<Rightarrow> js \<Rightarrow> bool) \<Rightarrow> string \<Rightarrow> js option" where
  "amount_onChange frac text = slider_onChange frac (Num 1) (Num 32) True False text"

definition spot_control :: "js \<Rightarrow> js" where
  "spot_control values = controller values AMT_IS_SPOT_INSTANCES (\<lambda>value onChange.
     elem ''FormControlLabel''
       [P ''value'' value, P ''onChange'' onChange, P ''checked'' (to_bool value),
        P ''control'' (elem ''Checkbox'' [] []), P ''labelPlacement'' (Str ''start''),
        P ''label'' (elem ''Box'' []
          [tr ''spotInstances'' [],
           elem ''Tooltip'' [P ''title'' (tr ''spotInstancesTooltip'' [])] [elem ''HelpOutlineIcon'' [] []]])] [])"

definition InstancesAmountBlock :: "bool \<Rightarrow> bool \<Rightarrow> js \<Rightarrow> js \<Rightarrow> js" where
  "InstancesAmountBlock expert rightElementNeeded values errors = elem ''Box'' []
     [elem ''Typography'' [] [tr ''numberOfInstances'' []],
      controller values AMT_INSTANCES_AMOUNT (\<lambda>value onChange.
        ClusterSliderBox
          (amount_slider value (get errors AMT_INSTANCES_AMOUNT)
             (when_js (expert \<and> rightElementNeeded) (spot_control values))) onChange)]"

definition fileSystemTypeOptions :: "js list" where
  "fileSystemTypeOptions =
     [obj [P ''label'' (Str ''ext4''), P ''value'' (Str ''ext4'')],
      obj [P ''label'' (Str ''xfs''), P ''value'' (Str ''xfs'')],
      obj [P ''label'' (Str ''zfs''), P ''value'' (Str ''zfs'')]]"

definition storage_slider :: "js \<Rightarrow> js \<Rightarrow> js \<Rightarrow> js \<Rightarrow> slider_props" where
  "storage_slider volume value error right =
     \<lparr>amount = value, slider_min = coalesce (get volume ''min_size'') (Num 1),
      slider_max = coalesce (get volume ''max_size'') (Num 100), marks = Undef, marksAmount = Num 10,
      marksAdditionalLabel = Str ''GB'', slider_step = Num 100, slider_error = error, unit = Str ''GB'',
      icon = elem ''StorageIcon'' [] [], topRightElements = right\<rparr>"

definition storage_onChange :: "(js \<Rightarrow> js \<Rightarrow> bool) \<Rightarrow> js \<Rightarrow> string \<Rightarrow> js option" where
  "storage_onChange frac volume text =
     slider_onChange frac (coalesce (get volume ''min_size'') (Num 1)) (coalesce (get volume ''max_size'') (Num 100))
       True True text"

text \<open>\<open>watchProvider?.volumes?.find(...)?.volume_description ?? ''\<close>\<close>

definition volume_tooltip :: "js \<Rightarrow> js \<Rightarrow> js" where
  "volume_tooltip provider value =
     coalesce (case find (\<lambda>volume. get volume ''volume_type'' = value) (elems (get provider ''volumes'')) of
                 Some volume \<Rightarrow> get volume ''volume_description'' | None \<Rightarrow> Undef) (Str '''')"

definition storage_select :: "js \<Rightarrow> string \<Rightarrow> js \<Rightarrow> js list \<Rightarrow> js" where
  "storage_select values fieldName label options = controller values fieldName (\<lambda>value onChange.
     elem ''FormControl'' [P ''fullWidth'' (Bool True), P ''size'' (Str ''small'')]
       [elem ''InputLabel'' [] [label],
        elem ''Select''
          [P ''value'' value, P ''onChange'' onChange, P ''size'' (Str ''small''), P ''label'' label]
          [Arr (map (\<lambda>option. elem ''MenuItem'' [P ''value'' (get option ''value'')]
             [elem ''Tooltip'' [P ''title'' (volume_tooltip (get values CF_PROVIDER) (get option ''value''))]
                [get option ''label'']]) options)]])"

definition StorageBlock :: "bool \<Rightarrow> cluster_form \<Rightarrow> js \<Rightarrow> js" where
  "StorageBlock expert s errors =
     (let values = form_values s in elem ''Box'' []
       [elem ''Typography'' [] [tr ''dataDiskStorage'' []],
        controller values STO_STORAGE_AMOUNT (\<lambda>value onChange.
          ClusterSliderBox
            (storage_slider (storage s) value (get errors STO_STORAGE_AMOUNT)
               (when_js expert (elem ''Stack'' []
                  [Arr [storage_select values STO_FILE_SYSTEM_TYPE (tr ''fileSystemType'' []) fileSystemTypeOptions,
                        storage_select values STO_VOLUME_TYPE (tr ''volumeType'' []) (elems (volumeTypes s))]]))) onChange)])"

section \<open>Additional settings\<close>

text \<open>
  The handler of the standby nodes writes the bound into the input, which turns it into text; the field
  gets the text of the input.
\<close>

definition minus_one :: "js \<Rightarrow> js" where
  "minus_one v = (case js_number v of Num n \<Rightarrow> Num (n - 1) | Frac s \<Rightarrow> Fn ''-'' [Frac s, Num 1] | _ \<Rightarrow> NaN)"

definition standby_input :: "(js \<Rightarrow> js \<Rightarrow> bool) \<Rightarrow> js \<Rightarrow> string \<Rightarrow> js" where
  "standby_input frac watchInstancesAmount text =
     (let limited = (if js_less frac (minus_one watchInstancesAmount) (Str text)
                     then js_str (minus_one watchInstancesAmount) else text)
      in Str (if js_less frac (Str text) (Num 0) then ''0'' else limited))"

definition tooltip_label :: "js \<Rightarrow> js \<Rightarrow> js list" where
  "tooltip_label label tooltip =
     [elem ''Typography'' [] [label], elem ''Tooltip'' [P ''title'' tooltip] [elem ''HelpOutlineIcon'' [] []]]"

definition ranged_field :: "js \<Rightarrow> js \<Rightarrow> string \<Rightarrow> js list \<Rightarrow> js \<Rightarrow> js" where
  "ranged_field values errors name label highest = controller values name (\<lambda>value onChange.
     elem ''Stack'' []
       [elem ''Stack'' [] label,
        elem ''Stack'' []
          [elem ''TextField''
             [P ''value'' value, P ''onChange'' (Fn ''handleInputChange'' [onChange]), P ''size'' (Str ''small''),
              P ''error'' (has_error errors name), P ''helperText'' (get (get errors name) ''message'')] [],
           elem ''Slider''
             [P ''value'' value, P ''onChange'' onChange, P ''step'' (Num 1), P ''min'' (Num 0), P ''max'' highest] []]])"

definition AdditionalSettingsBlock :: "js \<Rightarrow> js \<Rightarrow> js" where
  "AdditionalSettingsBlock values errors = elem ''Stack'' []
     [elem ''Typography'' [] [tr ''additionalSettings'' []],
      elem ''ErrorBoundary'' [P ''fallback'' (elem ''ErrorBox'' [] [])]
        [elem ''Stack'' []
          [ranged_field values errors ADS_SYNC_STANDBY_NODES
             (tooltip_label (tr ''syncStandbyNodes'' []) (tr ''syncStandbyNodesTooltip'' []))
             (minus_one (get values AMT_INSTANCES_AMOUNT)),
           when_js (truthy (get values ADS_SYNC_STANDBY_NODES))
             (labelled_checkbox values ADS_IS_SYNC_MODE_STRICT (tr ''syncModeStrict'' []) (tr ''syncModeStrictTooltip'' [])),
           when_js (get (get values CF_PROVIDER) ''code'' \<noteq> Str PROV_LOCAL)
             (Arr [labelled_checkbox values ADS_IS_DB_PUBLIC_ACCESS (tr ''dbPublicAccess'' []) (tr ''dbPublicAccessTooltip'' []),
                   labelled_checkbox values ADS_IS_CLOUD_LOAD_BALANCER
                     (tr ''cloudLoadBalancer'' []) (tr ''cloudLoadBalancerTooltip'' [])]),
           controller values ADS_IS_NETDATA_MONITORING (\<lambda>value onChange.
             elem ''Stack'' []
               [elem ''Stack'' []
                  [elem ''Typography'' []
                     [elem ''Trans'' [P ''i18nKey'' (Str ''netdataMonitoring'')]
                        [elem ''Link'' [P ''target'' (Str ''_blank''), P ''href'' (Str ''https://github.com/netdata/netdata'')] []]]],
                checkbox value onChange])]]]"

section \<open>Backups\<close>

definition retention_input :: "(js \<Rightarrow> js \<Rightarrow> bool) \<Rightarrow> string \<Rightarrow> js" where
  "retention_input frac text = Str (if js_less frac (Str text) (Num 0) then ''0'' else text)"

text \<open>Another method resets the configuration of the one before to its default, the empty text.\<close>

definition change_backup_method :: "js \<Rightarrow> js \<Rightarrow> js" where
  "change_backup_method method values =
     obj [Spread (obj [Spread values, P BK_CONFIG (Str '''')]), P BK_BACKUP_METHOD method]"

definition ConfigureBackupModal :: "bool \<Rightarrow> js \<Rightarrow> js \<Rightarrow> js" where
  "ConfigureBackupModal isModalOpen values errors =
     (let invalid = truthy (get errors BK_CONFIG) in fragment
       [elem ''Stack'' []
          [elem ''Button'' [P ''onClick'' (Fn ''handleModalOpenState'' [Bool True]), P ''variant'' (Str ''outlined'')]
             [tr ''configure'' []],
           when_js (truthy (get values BK_CONFIG))
             (elem ''Tooltip'' [P ''title'' (tr (if invalid then ''Invalid'' else ''Valid'') [])]
                [elem (if invalid then ''DoNotDisturbAltOutlinedIcon'' else ''DoneOutlinedIcon'') [] []])],
        elem ''Modal'' [P ''open'' (Bool isModalOpen), P ''onClose'' (Fn ''handleModalOpenState'' [Bool False])]
          [elem ''Card'' []
             [elem ''Stack'' []
                [elem ''Typography'' [] [tr ''configureBackup'' []],
                 controller values BK_CONFIG (\<lambda>value onChange.
                   elem ''TextField''
                     [P ''value'' value, P ''onChange'' onChange, P ''fullWidth'' (Bool True), P ''multiline'' (Bool True),
                      P ''rows'' (Num 20),
                      P ''label'' (if get values BK_BACKUP_METHOD = Str BKM_PG_BACK_REST then tr ''global'' [] else Str ''''),
                      P ''size'' (Str ''small''), P ''error'' (has_error errors BK_CONFIG),
                      P ''helperText'' (get (get errors BK_CONFIG) ''message'')] [])]]]])"

definition backup_key_field :: "js \<Rightarrow> js \<Rightarrow> string \<Rightarrow> js \<Rightarrow> js" where
  "backup_key_field values errors name label = controller values name (\<lambda>value onChange.
     elem ''Stack'' []
       [elem ''Stack'' [] [elem ''Typography'' [] [label, Str ''*'']],
        elem ''Stack'' []
          [elem ''TextField''
             [P ''value'' value, P ''required'' (Bool True), P ''onChange'' (Fn ''handleInputChange'' [onChange]),
              P ''size'' (Str ''small''), P ''error'' (has_error errors name),
              P ''helperText'' (get (get errors name) ''message'')] []]])"

definition BackupsBlock :: "bool \<Rightarrow> js \<Rightarrow> js \<Rightarrow> js" where
  "BackupsBlock isModalOpen values errors = elem ''Stack'' []
     [elem ''Typography'' [] [tr ''backups'' []],
      elem ''Stack'' []
        [controller values BK_IS_BACKUPS_ENABLED (\<lambda>value onChange.
           elem ''Stack'' []
             [elem ''Stack'' [] [elem ''Typography'' [] [tr ''backupsEnabled'' []]], checkbox value onChange]),
         if truthy (get values BK_IS_BACKUPS_ENABLED)
         then fragment
           [controller values BK_BACKUP_METHOD (\<lambda>value onChange.
              elem ''Stack'' []
                [elem ''Stack'' [] [elem ''Typography'' [] [tr ''backupMethod'' []]],
                 elem ''RadioGroup'' [P ''value'' value, P ''row'' (Bool True),
                     P ''onChange'' (Fn ''resetConfig'' [onChange])]
                   [Arr (map (\<lambda>(label, value). elem ''FormControlLabel''
                      [P ''value'' (Str value), P ''label'' (Str label), P ''control'' (elem ''Radio'' [] []),
                       P ''labelPlacement'' (Str ''end'')] [])
                      [(''pgBackRest'', BKM_PG_BACK_REST), (''WAL-G'', BKM_WAL_G)])]]),
            controller values BK_BACKUP_START_TIME (\<lambda>value onChange.
              elem ''Stack'' []
                [elem ''Typography'' [] [tr ''backupStartTime'' []],
                 elem ''Select'' [P ''value'' value, P ''onChange'' onChange, P ''size'' (Str ''small'')]
                   [Arr (map (\<lambda>h. elem ''MenuItem'' [P ''value'' (Num (int h))] [Str (nat_str h @ '':00'')]) [0..<24])]]),
            ranged_field values errors BK_BACKUP_RETENTION
              (tooltip_label (tr ''backupRetention'' []) (tr ''backupRetentionTooltip'' [])) (Num 365),
            when_js (one_of [PROV_DIGITAL_OCEAN, PROV_HETZNER] (get (get values CF_PROVIDER) ''code''))
              (Arr [backup_key_field values errors BK_ACCESS_KEY (tr ''accessKey'' []),
                    backup_key_field values errors BK_SECRET_KEY (tr ''secretKey'' [])]),
            ConfigureBackupModal isModalOpen values errors]
         else Null]]"

section \<open>Bounds\<close>

lemma number_of_int_str: "0 \<le> n \<Longrightarrow> js_number (Str (int_str n)) = Num n"
  using nat_str_digits [of "nat n"] by (simp add: int_str_def digits_number)

lemma slider_onChange_digits:
  assumes "\<forall>c \<in> set text. is_digit c"
  shows "slider_onChange frac (Num lo) (Num hi) limitMin limitMax text =
    Some (Num (let n = int (parse_nat text) in
      if n < lo \<and> limitMin then lo else if hi < n \<and> limitMax then hi else n))"
proof -
  have "matches (Star (Class is_digit)) text" unfolding matches_iff lang_Star_Class using assms .
  then show ?thesis using digits_number [OF assms] by (simp add: slider_onChange_def coalesce_def Let_def)
qed

text \<open>
  C23: a number typed into the box of the storage is brought into the range of the volume, and one typed
  into the box of the instances is at least one; other text changes nothing.
\<close>

theorem typed_sizes_in_range:
  assumes "get volume ''min_size'' = Num lo" "get volume ''max_size'' = Num hi" "lo \<le> hi"
  shows "(case storage_onChange frac volume text of
      Some v \<Rightarrow> \<exists>n. v = Num n \<and> lo \<le> n \<and> n \<le> hi | None \<Rightarrow> \<exists>c \<in> set text. \<not> is_digit c)
    \<and> (case amount_onChange frac text of
      Some v \<Rightarrow> \<exists>n. v = Num n \<and> 1 \<le> n | None \<Rightarrow> \<exists>c \<in> set text. \<not> is_digit c)"
proof (cases "\<forall>c \<in> set text. is_digit c")
  case True
  then show ?thesis
    using assms by (simp add: storage_onChange_def amount_onChange_def coalesce_def slider_onChange_digits Let_def)
next
  case False
  then have "\<not> matches (Star (Class is_digit)) text" by (simp add: matches_iff lang_Star_Class)
  then show ?thesis using False by (simp add: storage_onChange_def amount_onChange_def slider_onChange_def)
qed

theorem typed_sizes_in_range_witness:
  "storage_onChange (\<lambda>a b. False) (obj [P ''min_size'' (Num 10), P ''max_size'' (Num 500)]) ''9000'' = Some (Num 500)"
proof -
  let ?volume = "obj [P ''min_size'' (Num 10), P ''max_size'' (Num 500)]"
  have "case storage_onChange (\<lambda>a b. False) ?volume ''9000'' of
      Some v \<Rightarrow> \<exists>n. v = Num n \<and> 10 \<le> n \<and> n \<le> 500 | None \<Rightarrow> \<exists>c \<in> set ''9000''. \<not> is_digit c"
    using typed_sizes_in_range [of ?volume 10 500 "''9000''" "\<lambda>a b. False"] by (simp add: get_obj)
  moreover have "storage_onChange (\<lambda>a b. False) ?volume ''9000'' = Some (Num 500)" by code_simp
  ultimately show ?thesis by simp
qed

text \<open>
  A whole number typed as the number of synchronous standby nodes is brought between zero and one
  less than the number of instances, and a backup retention is never negative.
\<close>

theorem typed_standby_nodes_in_range:
  assumes "js_number (Str text) = Num n" "1 \<le> most"
  shows "(\<exists>m. js_number (standby_input frac (Num most) text) = Num m \<and> 0 \<le> m \<and> m < most)
    \<and> (\<exists>m. js_number (retention_input frac text) = Num m \<and> 0 \<le> m)"
proof
  have zero: "js_number (Str ''0'') = Num 0" using number_of_int_str [of 0] by (simp add: int_str_def)
  have less: "js_less frac (Str text) (Num 0) \<longleftrightarrow> n < 0" "js_less frac (Num (most - 1)) (Str text) \<longleftrightarrow> most - 1 < n"
    using assms(1) by (simp_all add: js_less_number)
  show "\<exists>m. js_number (standby_input frac (Num most) text) = Num m \<and> 0 \<le> m \<and> m < most"
    using zero less assms number_of_int_str [of "most - 1"]
    by (simp add: standby_input_def minus_one_def Let_def del: js_number.simps(7))
  show "\<exists>m. js_number (retention_input frac text) = Num m \<and> 0 \<le> m"
    using zero less assms(1) by (simp add: retention_input_def del: js_number.simps(7))
qed

theorem typed_standby_nodes_in_range_witness:
  "\<exists>m. js_number (standby_input (\<lambda>a b. False) (Num 3) ''7'') = Num m \<and> 0 \<le> m \<and> m < 3"
  by (rule typed_standby_nodes_in_range [of "''7''" 7 3, THEN conjunct1]) code_simp+

section \<open>Standby nodes and instances\<close>

definition enter_standby :: "(js \<Rightarrow> js \<Rightarrow> bool) \<Rightarrow> string \<Rightarrow> js \<Rightarrow> js" where
  "enter_standby frac text values = obj
     [Spread values, P ADS_SYNC_STANDBY_NODES (standby_input frac (get values AMT_INSTANCES_AMOUNT) text)]"

definition slide_amount :: "js \<Rightarrow> js \<Rightarrow> js" where
  "slide_amount n values = obj [Spread values, P AMT_INSTANCES_AMOUNT n]"

lemma standby_input_int:
  assumes "0 \<le> k"
  shows "standby_input frac (Num most) (int_str k) = Str (if most - 1 < k then int_str (most - 1) else int_str k)"
proof -
  have "js_less frac (Str (int_str k)) (Num 0) \<longleftrightarrow> k < 0"
    "js_less frac (Num (most - 1)) (Str (int_str k)) \<longleftrightarrow> most - 1 < k"
    using number_of_int_str [OF assms] by (simp_all add: js_less_number del: js_number.simps(7))
  then show ?thesis using assms by (simp add: standby_input_def minus_one_def Let_def)
qed

text \<open>
  The bound is only applied while the number of standby nodes is typed. When the number of
  instances is lowered afterwards, the request asks for more synchronous standby nodes than there are.
\<close>

theorem standby_nodes_outlive_instances:
  assumes "plain_object values" "get values AMT_INSTANCES_AMOUNT = Num most" "0 \<le> k" "k < most" "m \<le> k"
    and "getBaseClusterExtraVars True (slide_amount (Num m) (enter_standby frac (int_str k) values)) = Ok vars"
  shows "get vars ''synchronous_node_count'' = Str (int_str k)
    \<and> get (slide_amount (Num m) (enter_standby frac (int_str k) values)) AMT_INSTANCES_AMOUNT = Num m"
proof -
  let ?v = "slide_amount (Num m) (enter_standby frac (int_str k) values)"
  have "get (enter_standby frac (int_str k) values) ADS_SYNC_STANDBY_NODES = Str (int_str k)"
    using standby_input_int [OF assms(3), of frac most] assms(2,4) by (simp add: enter_standby_def get_obj)
  moreover have "plain_object (enter_standby frac (int_str k) values)" by (simp add: enter_standby_def)
  ultimately have v: "get ?v ADS_SYNC_STANDBY_NODES = Str (int_str k)"
    by (simp add: slide_amount_def get_spread)
  have "int_str k \<noteq> []" using number_of_int_str [OF assms(3)] nat_str.simps [of "nat k"] assms(3) by (simp add: int_str_def)
  then have "get vars ''synchronous_node_count'' = Str (int_str k)"
    using assms(6) v by (auto simp: getBaseClusterExtraVars_def and_then_eq_Ok get_obj Spread_if_def)
  then show ?thesis by (simp add: slide_amount_def get_obj)
qed

definition five_instances :: js where
  "five_instances = obj [P AMT_INSTANCES_AMOUNT (Num 5), P EXT_EXTENSIONS (obj [])]"

theorem standby_nodes_outlive_instances_witness:
  "\<exists>vars. getBaseClusterExtraVars True (slide_amount (Num 1) (enter_standby (\<lambda>a b. False) ''4'' five_instances)) = Ok vars
     \<and> get vars ''synchronous_node_count'' = Str ''4''"
proof -
  have "is_ok (getBaseClusterExtraVars True (slide_amount (Num 1) (enter_standby (\<lambda>a b. False) ''4'' five_instances)))"
    by code_simp
  then obtain vars where v: "getBaseClusterExtraVars True
      (slide_amount (Num 1) (enter_standby (\<lambda>a b. False) ''4'' five_instances)) = Ok vars"
    by (auto simp: is_ok_iff)
  have four: "int_str 4 = ''4''" by code_simp
  have "get vars ''synchronous_node_count'' = Str ''4''"
    using standby_nodes_outlive_instances [of five_instances 5 4 1 "\<lambda>a b. False" vars] v
    by (simp add: four five_instances_def get_obj)
  with v show ?thesis by blast
qed

lemma rows_keep_amount:
  "plain_object values \<Longrightarrow> name \<noteq> AMT_INSTANCES_AMOUNT \<Longrightarrow>
     get (run_rows (append_row name v) (remove_at name) ops values) AMT_INSTANCES_AMOUNT = get values AMT_INSTANCES_AMOUNT"
proof (induction ops arbitrary: "values")
  case (Cons op ops)
  then show ?case by (cases op) (simp_all add: append_row_def remove_at_def get_spread)
qed simp

text \<open>
  For the user's own machines the bound is still taken from the number of cloud instances, which
  their form cannot change: with any number of database servers, a larger number than two becomes two.
\<close>

theorem standby_limit_ignores_servers:
  assumes "plain_object values" "get values AMT_INSTANCES_AMOUNT = Num 3" "2 < k"
  shows "get (enter_standby frac (int_str k) (run_rows (append_server event) remove_db_server ops values))
    ADS_SYNC_STANDBY_NODES = Str ''2''"
proof -
  have "int_str 2 = ''2''" by code_simp
  then show ?thesis
    using standby_input_int [of k frac 3] assms rows_keep_amount [OF assms(1), of DBS_DATABASE_SERVERS event ops]
    by (simp add: enter_standby_def get_obj append_server_def remove_db_server_def)
qed

lemma default_amount: "get (CLUSTER_FORM_DEFAULT_VALUES expert blockId) AMT_INSTANCES_AMOUNT = Num 3"
  by (simp add: CLUSTER_FORM_DEFAULT_VALUES_def LOCAL_CLUSTER_DEFAULT_VALUES_def
      CLOUD_CLUSTER_DEFAULT_VALUES_def get_obj)

theorem standby_limit_ignores_servers_witness:
  "get (enter_standby (\<lambda>a b. False) (int_str 4)
     (run_rows (append_server (obj [])) remove_db_server [Add_row, Add_row] (CLUSTER_FORM_DEFAULT_VALUES True (Str ''1''))))
     ADS_SYNC_STANDBY_NODES = Str ''2''"
  by (rule standby_limit_ignores_servers [OF default_values_plain default_amount]) simp

end
