(* ===== verification/Summary.thy ===== *)
theory Summary
  imports RowViews FormStorage
begin

text \<open>
  The summary card beside the form (\<open>widgets/cluster-summary\<close>) and the cards of a cluster's page
  (\<open>entities/cluster/cluster-info\<close>, \<open>connection-info\<close>, \<open>shared/ui/info-card-body\<close>). A card is a
  list of titles and contents. The arithmetic of prices is floating point: \<open>num_ops\<close> are its
  operations, parameters here. The theorems compare what the summary says with what the request does.
\<close>

section \<open>Cards\<close>

definition card_entry :: "js \<Rightarrow> js \<Rightarrow> js" where
  "card_entry title children = obj [P ''title'' title, P ''children'' children]"

definition typo :: "js \<Rightarrow> js" where
  "typo x = elem ''Typography'' [] [x]"

definition InfoCardBody :: "js list \<Rightarrow> js" where
  "InfoCardBody config = elem ''Stack'' []
     [Arr (map (\<lambda>(e, index). elem ''Stack'' [P ''key'' (get e ''title'')]
        [typo (get e ''title''), get e ''children'',
         when_js (index < length config - 1) (elem ''Divider'' [] [])]) (zip config [0..<length config]))]"

section \<open>Cloud clusters\<close>

record num_ops =
  times :: "js \<Rightarrow> js \<Rightarrow> js"
  plus_num :: "js \<Rightarrow> js \<Rightarrow> js"
  toFixed :: "js \<Rightarrow> js"

definition defaultVolume :: "js \<Rightarrow> js" where
  "defaultVolume data =
     (case find (\<lambda>volume. truthy (get volume ''is_default'')) (elems (get (get data CF_PROVIDER) ''volumes'')) of
        Some volume \<Rightarrow> volume | None \<Rightarrow> obj [])"

definition providerNamePricingListMap :: js where
  "providerNamePricingListMap = obj
     [P PROV_AWS (Str ''https://aws.amazon.com/ec2/pricing/on-demand/''),
      P PROV_GCP (Str ''https://cloud.google.com/compute/vm-instance-pricing/#general-purpose_machine_type_family''),
      P PROV_AZURE (Str ''https://azure.microsoft.com/en-us/pricing/details/virtual-machines/linux/''),
      P PROV_DIGITAL_OCEAN (Str ''https://www.digitalocean.com/pricing/droplets/''),
      P PROV_HETZNER (Str ''https://www.hetzner.com/cloud/'')]"

definition clusterSummaryNameIconProvidersMap :: js where
  "clusterSummaryNameIconProvidersMap = obj
     [P PROV_AWS (Str ''AWSIcon''), P PROV_GCP (Str ''GCPIcon''), P PROV_AZURE (Str ''AzureIcon''),
      P PROV_DIGITAL_OCEAN (Str ''DigitalOceanIcon''), P PROV_HETZNER (Str ''HetznerIcon'')]"

text \<open>The price of all servers with their disks, of one server, and of one disk.\<close>

definition total_price :: "num_ops \<Rightarrow> js \<Rightarrow> js" where
  "total_price ops data =
     (let servers = get data CF_INSTANCES_AMOUNT in
      plus_num ops
        (times ops (get (get data CF_INSTANCE_CONFIG) ''price_monthly'') servers)
        (times ops (times ops (get (defaultVolume data) ''price_monthly'') (get data STO_STORAGE_AMOUNT)) servers))"

definition server_price :: "num_ops \<Rightarrow> js \<Rightarrow> js res" where
  "server_price ops data =
     (let instance_config = get data CF_INSTANCE_CONFIG in
      if nullish instance_config then Ok Undef
      else if nullish (get instance_config ''price_monthly'') then Throw TypeError
      else Ok (toFixed ops (get instance_config ''price_monthly'')))"

definition disk_price :: "num_ops \<Rightarrow> js \<Rightarrow> js" where
  "disk_price ops data =
     toFixed ops (times ops (get (defaultVolume data) ''price_monthly'') (get data STO_STORAGE_AMOUNT))"

definition price_text :: "js \<Rightarrow> js \<Rightarrow> js \<Rightarrow> js" where
  "price_text currency amount period = Fn ''concat'' [currency, amount, Str ''/'', period]"

definition price_entry :: "num_ops \<Rightarrow> js \<Rightarrow> js \<Rightarrow> js res" where
  "price_entry ops watchInstanceType data =
     (let currency = get (get data CF_INSTANCE_CONFIG) ''currency'';
          info = elem ''Typography'' [P ''variant'' (Str ''caption'')]
            [elem ''Trans'' [P ''i18nKey'' (Str ''estimatedCostAdditionalInfo'')]
               [elem ''Link'' [P ''target'' (Str ''_blank''),
                  P ''href'' (get providerNamePricingListMap (js_str (get (get data CF_PROVIDER) ''code'')))] []]]
      in map_res (\<lambda>shown_price. card_entry (Fn ''concat'' [tr ''estimatedMonthlyPrice'' [], Str ''*'']) (fragment [shown_price, info]))
        (if watchInstanceType \<noteq> Str ''custom''
         then map_res (\<lambda>server. fragment
                [elem ''Typography'' [P ''variant'' (Str ''h5'')]
                   [Str ''~'', price_text currency (toFixed ops (total_price ops data)) (tr ''month'' [P ''ns'' (Str ''shared'')])],
                 elem ''Stack'' []
                   [elem ''Typography'' []
                      [Str ''~'', price_text currency server (tr ''perServer'' [P ''ns'' (Str ''clusters'')]), Str '', ~'',
                       price_text (get (defaultVolume data) ''currency'') (disk_price ops data)
                         (tr ''perDisk'' [P ''ns'' (Str ''clusters'')])]]])
                (server_price ops data)
         else Ok (typo (Str ''N/A''))))"

definition icon_row :: "string \<Rightarrow> js list \<Rightarrow> js" where
  "icon_row icon texts = elem ''Stack'' [] [elem icon [] [], elem ''Typography'' [] texts]"

definition useGetCloudProviderConfig :: "num_ops \<Rightarrow> js \<Rightarrow> js \<Rightarrow> js list res" where
  "useGetCloudProviderConfig ops watchInstanceType data =
     (let provider = get data CF_PROVIDER; region = get data CF_REGION_CONFIG; inst = get data CF_INSTANCE_CONFIG in
      map_res (\<lambda>price.
       [card_entry (tr ''name'' []) (typo (get data CF_CLUSTER_NAME)),
        card_entry (tr ''postgresVersion'' []) (typo (get data CF_POSTGRES_VERSION)),
        card_entry (tr ''cloud'' []) (elem ''Stack'' []
          [elem ''Icon'' []
             [elem ''img'' [P ''src'' (get provider ''icon''), P ''alt'' (get (get provider ''description'') ''0'')] []],
           typo (get provider ''description'')]),
        card_entry (tr ''region'' []) (elem ''Stack'' []
          [typo (get region ''code''), icon_row ''FlagIcon'' [get region ''location'']]),
        card_entry (tr ''instanceType'' [])
          (if watchInstanceType \<noteq> Str ''custom''
           then elem ''Stack'' []
             [typo (get inst ''code''),
              elem ''Stack'' []
                [icon_row ''CpuIcon'' [get inst ''cpu'', Str '' CPU''],
                 icon_row ''RamIcon'' [get inst ''ram'', Str '' GB RAM'']]]
           else typo (coalesce (get data INST_SERVER_TYPE) (Str ''''))),
        card_entry (tr ''numberOfInstances'' []) (icon_row ''InstanceIcon'' [get data CF_INSTANCES_AMOUNT]),
        card_entry (tr ''dataDiskStorage'' []) (icon_row ''StorageIcon'' [get data STO_STORAGE_AMOUNT, Str '' GB'']),
        price])
        (price_entry ops watchInstanceType data))"

section \<open>The user's own machines\<close>

text \<open>\<open>data[name]?.length >= 3\<close>\<close>

definition three_rows :: "js \<Rightarrow> string \<Rightarrow> bool" where
  "three_rows data name = (case get (get data name) ''length'' of Num n \<Rightarrow> 3 \<le> n | _ \<Rightarrow> False)"

definition isHighAvailability :: "bool \<Rightarrow> js \<Rightarrow> bool" where
  "isHighAvailability expert data \<longleftrightarrow>
     (expert \<and> \<not> truthy (get data DCS_IS_DEPLOY_NEW_CLUSTER) \<and> three_rows data DCS_DCS_DATABASES)
     \<or> (expert \<and> truthy (get data DCS_IS_DEPLOY_NEW_CLUSTER) \<and> \<not> truthy (get data DCS_IS_DEPLOY_TO_DB_SERVERS)
          \<and> three_rows data DCS_DCS_DATABASES)
     \<or> (expert \<and> truthy (get data DCS_IS_DEPLOY_NEW_CLUSTER) \<and> truthy (get data DCS_IS_DEPLOY_TO_DB_SERVERS)
          \<and> three_rows data DBS_DATABASE_SERVERS)
     \<or> (\<not> expert \<and> three_rows data DBS_DATABASE_SERVERS)"

definition on_off :: "bool \<Rightarrow> js" where
  "on_off b = (if b then tr ''on'' [P ''ns'' (Str ''shared'')] else tr ''off'' [P ''ns'' (Str ''shared'')])"

definition useGetLocalMachineConfig :: "bool \<Rightarrow> js \<Rightarrow> js list" where
  "useGetLocalMachineConfig expert data =
     [card_entry (tr ''name'' []) (typo (get data CF_CLUSTER_NAME)),
      card_entry (tr ''postgresVersion'' []) (typo (get data CF_POSTGRES_VERSION)),
      card_entry (tr ''numberOfServers'' []) (icon_row ''InstanceIcon'' [get (get data DBS_DATABASE_SERVERS) ''length'']),
      card_entry (tr ''loadBalancing'' []) (icon_row ''LanIcon'' [on_off (truthy (get data LB_IS_HAPROXY_ENABLED))]),
      card_entry (tr ''highAvailability'' []) (elem ''Stack'' []
        [icon_row (if isHighAvailability expert data then ''CheckIcon'' else ''WarningAmberOutlinedIcon'')
           [on_off (isHighAvailability expert data)],
         elem ''Typography'' [P ''variant'' (Str ''caption'')] [tr ''highAvailabilityInfo'' []]])]"

definition useGetSummaryConfig :: "bool \<Rightarrow> num_ops \<Rightarrow> bool \<Rightarrow> js \<Rightarrow> js list res" where
  "useGetSummaryConfig expert ops isCloudProvider data =
     (if isCloudProvider then useGetCloudProviderConfig ops (get data INST_INSTANCE_TYPE) data
      else Ok (useGetLocalMachineConfig expert data))"

definition summary_data :: "js \<Rightarrow> js" where
  "summary_data watchValues =
     (let provider = get watchValues CF_PROVIDER in obj
       [Spread watchValues,
        P CF_PROVIDER (obj
          [Spread provider, P ''icon'' (get clusterSummaryNameIconProvidersMap (js_str (get provider ''code'')))])])"

definition ClusterSummary :: "bool \<Rightarrow> num_ops \<Rightarrow> js \<Rightarrow> js res" where
  "ClusterSummary expert ops watchValues =
     map_res (\<lambda>config. elem ''Paper'' [P ''variant'' (Str ''elevation'')]
       [typo (tr ''summary'' []), elem ''Divider'' [] [], InfoCardBody config])
       (useGetSummaryConfig expert ops (get (get watchValues CF_PROVIDER) ''code'' \<noteq> Str PROV_LOCAL)
          (summary_data watchValues))"

section \<open>The page of a cluster\<close>

definition useGetClusterInfoConfig :: "js \<Rightarrow> js \<Rightarrow> js \<Rightarrow> js \<Rightarrow> js \<Rightarrow> js list" where
  "useGetClusterInfoConfig postgresVersion clusterName description environment location =
     [card_entry (tr ''postgresVersion'' [P ''ns'' (Str ''clusters'')]) (typo postgresVersion),
      card_entry (tr ''clusterName'' [P ''ns'' (Str ''clusters'')]) (typo clusterName),
      card_entry (tr ''description'' [P ''ns'' (Str ''shared'')]) (typo (coalesce description (Str ''---''))),
      card_entry (tr ''environment'' [P ''ns'' (Str ''shared'')]) (typo environment)]
     @ (if truthy location then [card_entry (tr ''location'' [P ''ns'' (Str ''clusters'')]) (typo location)] else [])"

definition accordion :: "string \<Rightarrow> js \<Rightarrow> js list \<Rightarrow> js" where
  "accordion icon title config = elem ''Accordion'' [P ''defaultExpanded'' (Bool True)]
     [elem ''AccordionSummary'' [P ''expandIcon'' (elem ''ExpandMoreIcon'' [] [])] [elem icon [] [], typo title],
      elem ''AccordionDetails'' [] [InfoCardBody config]]"

definition ClusterInfo_card :: "js \<Rightarrow> js \<Rightarrow> js \<Rightarrow> js \<Rightarrow> js \<Rightarrow> js" where
  "ClusterInfo_card postgresVersion clusterName description environment location =
     accordion ''EditNoteOutlinedIcon'' (tr ''clusterInfo'' [])
       (useGetClusterInfoConfig postgresVersion clusterName description environment location)"

definition copied_row :: "js \<Rightarrow> js" where
  "copied_row x = elem ''Stack'' [] [typo x, elem ''CopyIcon'' [P ''valueToCopy'' x] []]"

definition renderCollection :: "js \<Rightarrow> js \<Rightarrow> js list" where
  "renderCollection collection defaultLabel =
     (case collection of
        Str s \<Rightarrow> [card_entry defaultLabel (copied_row collection)]
      | Num n \<Rightarrow> [card_entry defaultLabel (copied_row collection)]
      | Frac s \<Rightarrow> [card_entry defaultLabel (copied_row collection)]
      | NaN \<Rightarrow> [card_entry defaultLabel (copied_row collection)]
      | Obj ps \<Rightarrow> map (\<lambda>(key, value). card_entry (Fn ''concat'' [defaultLabel, Str '' '', Str key]) (copied_row value))
                  (entries collection)
      | Arr xs \<Rightarrow> map (\<lambda>(key, value). card_entry (Fn ''concat'' [defaultLabel, Str '' '', Str key]) (copied_row value))
                  (entries collection)
      | _ \<Rightarrow> [])"

text \<open>\<open>s.replace(/./g, '*')\<close>: the dot matches all but line terminators.\<close>

definition masked :: "string \<Rightarrow> string" where
  "masked s = map (\<lambda>c. if c = CHR 0x0A \<or> c = CHR 0x0D then c else CHR ''*'') s"

definition shown_password :: "bool \<Rightarrow> js \<Rightarrow> js res" where
  "shown_password isPasswordHidden connectionInfo =
     (let password = js_or (get connectionInfo ''password'') (Str ''N/A'') in
      if isPasswordHidden
      then (case password of Str s \<Rightarrow> Ok (Str (masked s)) | _ \<Rightarrow> Throw TypeError)
      else Ok password)"

definition useGetConnectionInfoConfig :: "bool \<Rightarrow> js \<Rightarrow> js list res" where
  "useGetConnectionInfoConfig isPasswordHidden connectionInfo =
     map_res (\<lambda>password.
       (if truthy (get connectionInfo ''address'')
        then renderCollection (get connectionInfo ''address'') (tr ''address'' [P ''ns'' (Str ''shared'')]) else [])
       @ (if truthy (get connectionInfo ''port'')
          then renderCollection (get connectionInfo ''port'') (tr ''port'' [P ''ns'' (Str ''clusters'')]) else [])
       @ [card_entry (tr ''user'' [P ''ns'' (Str ''shared'')])
            (copied_row (js_or (get connectionInfo ''superuser'') (Str ''postgres''))),
          card_entry (tr ''password'' [P ''ns'' (Str ''shared'')])
            (elem ''Stack'' []
               [typo password,
                elem ''Stack'' []
                  [elem ''EyeIcon'' [P ''onClick'' (Fn ''togglePasswordVisibility'' [])] [],
                   elem ''CopyIcon'' [P ''valueToCopy'' (js_or (get connectionInfo ''password'') (Str ''N/A''))] []]])])
       (shown_password isPasswordHidden connectionInfo)"

definition ConnectionInfo :: "bool \<Rightarrow> js \<Rightarrow> js res" where
  "ConnectionInfo isPasswordHidden connectionInfo =
     map_res (accordion ''PowerOutlinedIcon'' (tr ''connectionInfo'' []))
       (useGetConnectionInfoConfig isPasswordHidden connectionInfo)"

text \<open>\<open>table\<close> is the table of the servers, \<open>cluster\<close> the state of the polled query.\<close>

definition OverviewCluster :: "(js \<Rightarrow> js \<Rightarrow> js \<Rightarrow> js) \<Rightarrow> bool \<Rightarrow> js \<Rightarrow> js res" where
  "OverviewCluster table isPasswordHidden cluster =
     (if truthy (get cluster ''isLoading'') then Ok (elem ''Spinner'' [] [])
      else let data = get cluster ''data'' in
        map_res (\<lambda>info. elem ''Grid'' [P ''container'' (Bool True)]
          [elem ''Grid'' [] [table (get data ''name'') (coalesce (get data ''servers'') (Arr [])) (get cluster ''isFetching'')],
           elem ''Grid'' [] [info],
           elem ''Grid'' [] [ClusterInfo_card (get data ''postgres_version'') (get data ''name'') (get data ''description'')
             (get data ''environment'') (get data ''cluster_location'')]])
          (ConnectionInfo isPasswordHidden (get data ''connection_info'')))"

end
