(* ===== verification/SummaryFacts.thy ===== *)
theory SummaryFacts
  imports Summary TransformFacts
begin

text \<open>
  What the summary promises against what the request holds: the number of servers behind ``high
  availability'', the missing group of a cluster created outside the expert mode, and the price of a
  disk. The page of a cluster shows no character of a hidden password.
\<close>

section \<open>Members of the consensus store\<close>

text \<open>The hosts of the inventory that run a server of etcd or Consul.\<close>

definition dcs_members :: "js \<Rightarrow> string set" where
  "dcs_members dcs =
     {k. look_obj (path dcs [''etcd_cluster'', ''hosts'']) k \<noteq> None}
     \<union> {k. \<exists>h. look_obj (path dcs [''consul_instances'', ''hosts'']) k = Some h
            \<and> get h ''consul_node_role'' = Str ''server''}"

text \<open>The rows the user filled in for them.\<close>

definition dcs_rows_of :: "js \<Rightarrow> string \<times> string" where
  "dcs_rows_of values =
     (if truthy (get values DCS_IS_DEPLOY_TO_DB_SERVERS) then (DBS_DATABASE_SERVERS, DBS_DATABASE_IP_ADDRESS)
      else (DCS_DCS_DATABASES, DCS_DCS_DATABASE_IP_ADDRESS))"

lemma look_obj_empty [simp]: "look_obj (obj []) k = None"
  by (simp add: look_obj_obj)

lemma look_obj_two:
  assumes "wf_obj a" "wf_obj b"
  shows "look_obj (obj [Spread a, Spread b]) k = (case look_obj b k of Some v \<Rightarrow> Some v | None \<Rightarrow> look_obj a k)"
  using lookup_spread_wf [OF assms(1)] lookup_spread_wf [OF assms(2)]
  by (simp add: look_obj_obj look_obj_def [symmetric] split: option.split)

lemma host_entries:
  assumes "reduce_hosts ip entry (Arr xs) = Ok hosts" "look_obj hosts k = Some h"
  shows "\<exists>x \<in> set xs. row_key ip x = k \<and> h = obj (entry x)"
proof -
  obtain x where x: "find (\<lambda>x. row_key ip x = k) (rev xs) = Some x" "h = obj (entry x)"
    using assms(2) by (auto simp: look_reduce_hosts [OF assms(1)] split: option.splits)
  then obtain i where "i < length (rev xs)" "row_key ip (rev xs ! i) = k" "x = rev xs ! i"
    unfolding find_Some_iff by blast
  then have "x \<in> set xs" "row_key ip x = k" using nth_mem [of i "rev xs"] by simp_all
  then show ?thesis using x(2) by blast
qed

lemma host_keys:
  assumes "reduce_hosts ip entry (Arr xs) = Ok hosts"
  shows "{k. look_obj hosts k \<noteq> None} = row_key ip ` set xs"
  using look_reduce_hosts_keys [OF assms] by blast

lemma members_of_etcd:
  assumes "constructDcsEnvs True values = Ok dcs" "truthy (get values DCS_IS_DEPLOY_NEW_CLUSTER)"
    and "get values DCS_TYPE = Str DCST_ETCD" "get values DCS_IS_DEPLOY_TO_DB_SERVERS = Bool b"
    and "get values (fst (dcs_rows_of values)) = Arr rows"
  shows "dcs_members dcs = row_key (snd (dcs_rows_of values)) ` set rows"
proof -
  obtain hosts where h: "configureHosts values [] (Bool (\<not> b)) (Bool b) = Ok hosts"
    "dcs = obj [P ''etcd_cluster'' (hosts_group hosts), P ''consul_instances'' (hosts_group (obj []))]"
    using assms(1-4) by (auto simp: constructDcsEnvs_def and_then_eq_Ok)
  obtain entry where r: "reduce_hosts (snd (dcs_rows_of values)) entry (Arr rows) = Ok hosts"
    using h(1) assms(4,5) by (auto simp: configureHosts_def Let_def param_default_def dcs_rows_of_def split: if_splits)
  then show ?thesis
    using host_keys [OF r] by (simp add: dcs_members_def h(2) hosts_group_def get_obj)
qed

lemma server_role: "get (obj [P ''ansible_host'' a, Spread_if c [P ''hostname'' b], Spread_if True [P ''consul_node_role'' r]])
    ''consul_node_role'' = r"
  by (simp add: get_obj)

text \<open>Consul on the database servers: all of them are servers.\<close>

lemma members_of_consul_on_databases:
  assumes "constructDcsEnvs True values = Ok dcs" "truthy (get values DCS_IS_DEPLOY_NEW_CLUSTER)"
    and "get values DCS_TYPE = Str DCST_CONSUL" "truthy (get values DCS_IS_DEPLOY_TO_DB_SERVERS)"
    and "get values DBS_DATABASE_SERVERS = Arr rows"
  shows "dcs_members dcs = row_key DBS_DATABASE_IP_ADDRESS ` set rows"
proof -
  obtain hosts where h: "configureHosts values ''server'' Undef Undef = Ok hosts"
    "dcs = obj [P ''etcd_cluster'' (hosts_group (obj [])), P ''consul_instances'' (hosts_group hosts)]"
    using assms(1-4) by (auto simp: constructDcsEnvs_def and_then_eq_Ok)
  note r = h(1) [unfolded configureHosts_def Let_def param_default_def, simplified, unfolded assms(5)]
  have "get v ''consul_node_role'' = Str ''server''" if "look_obj hosts k = Some v" for k v
    using host_entries [OF r that] by (auto simp: get_obj)
  then have "dcs_members dcs = {k. look_obj hosts k \<noteq> None}"
    by (auto simp: dcs_members_def h(2) hosts_group_def get_obj)
  then show ?thesis using host_keys [OF r] by simp
qed

text \<open>Consul on machines of its own: the database servers are clients.\<close>

lemma members_of_consul_apart:
  assumes "constructDcsEnvs True values = Ok dcs" "truthy (get values DCS_IS_DEPLOY_NEW_CLUSTER)"
    and "get values DCS_TYPE = Str DCST_CONSUL" "\<not> truthy (get values DCS_IS_DEPLOY_TO_DB_SERVERS)"
    and "get values DCS_DCS_DATABASES = Arr rows"
  shows "dcs_members dcs = row_key DCS_DCS_DATABASE_IP_ADDRESS ` set rows"
proof -
  obtain clients servers where h: "configureHosts values ''client'' Undef Undef = Ok clients"
    "configureHosts values ''server'' (Bool True) (Bool False) = Ok servers"
    "dcs = obj [P ''etcd_cluster'' (hosts_group (obj [])), P ''consul_instances'' (hosts_group (obj [Spread clients, Spread servers]))]"
    using assms(1-4) by (auto simp: constructDcsEnvs_def and_then_eq_Ok)
  note c = h(1) [unfolded configureHosts_def Let_def param_default_def, simplified]
  note s = h(2) [unfolded configureHosts_def Let_def param_default_def, simplified, unfolded assms(5)]
  obtain xs where xs: "get values DBS_DATABASE_SERVERS = Arr xs"
    using c by (auto simp: reduce_hosts_def split: js.splits)
  have server: "get v ''consul_node_role'' = Str ''server''" if "look_obj servers k = Some v" for k v
    using host_entries [OF s that] by (auto simp: get_obj)
  have client: "get v ''consul_node_role'' = Str ''client''" if "look_obj clients k = Some v" for k v
    using host_entries [OF c [unfolded xs] that] by (auto simp: get_obj)
  have "dcs_members dcs = {k. look_obj servers k \<noteq> None}"
    using server client
    by (auto simp: dcs_members_def h(3) hosts_group_def get_obj look_obj_two [OF wf_reduce_hosts [OF c] wf_reduce_hosts [OF s]]
        split: option.splits)
  then show ?thesis using host_keys [OF s] by simp
qed

lemma three_rows_arr: "get data name = Arr rows \<Longrightarrow> three_rows data name \<longleftrightarrow> 3 \<le> length rows"
  by (simp add: three_rows_def)

text \<open>
  C14: in expert mode, for a new store of either type, the summary says ``high availability: on'' exactly
  when the inventory gives the store at least three servers, provided the addresses of its rows differ.
\<close>

theorem high_availability_is_quorum:
  assumes "constructDcsEnvs True values = Ok dcs" "truthy (get values DCS_IS_DEPLOY_NEW_CLUSTER)"
    and "get values DCS_TYPE \<in> {Str DCST_ETCD, Str DCST_CONSUL}" "get values DCS_IS_DEPLOY_TO_DB_SERVERS = Bool b"
    and "get values (fst (dcs_rows_of values)) = Arr rows" "distinct (map (row_key (snd (dcs_rows_of values))) rows)"
  shows "isHighAvailability True values \<longleftrightarrow> 3 \<le> card (dcs_members dcs)"
proof -
  have "dcs_members dcs = row_key (snd (dcs_rows_of values)) ` set rows"
  proof (cases "get values DCS_TYPE = Str DCST_ETCD")
    case True
    then show ?thesis using members_of_etcd [OF assms(1,2) _ assms(4,5)] by simp
  next
    case False
    then have consul: "get values DCS_TYPE = Str DCST_CONSUL" using assms(3) by simp
    show ?thesis
      using members_of_consul_on_databases [OF assms(1,2) consul, of rows]
        members_of_consul_apart [OF assms(1,2) consul, of rows] assms(4,5)
      by (cases b) (simp_all add: dcs_rows_of_def)
  qed
  then have "card (dcs_members dcs) = length rows"
    using distinct_card [OF assms(6)] by simp
  then show ?thesis
    using assms(2,4,5) by (cases b) (simp_all add: isHighAvailability_def dcs_rows_of_def three_rows_arr)
qed

definition etcd_form :: js where
  "etcd_form = obj
     [P DCS_IS_DEPLOY_NEW_CLUSTER (Bool True), P DCS_TYPE (Str DCST_ETCD), P DCS_IS_DEPLOY_TO_DB_SERVERS (Bool True),
      P DBS_DATABASE_SERVERS (Arr
        [obj [P DBS_DATABASE_IP_ADDRESS (Str ''10.0.0.1'')], obj [P DBS_DATABASE_IP_ADDRESS (Str ''10.0.0.2'')],
         obj [P DBS_DATABASE_IP_ADDRESS (Str ''10.0.0.3'')]])]"

theorem high_availability_is_quorum_witness:
  "\<exists>dcs. constructDcsEnvs True etcd_form = Ok dcs \<and> isHighAvailability True etcd_form \<and> 3 \<le> card (dcs_members dcs)"
proof -
  let ?x = "\<lambda>ip. obj [P DBS_DATABASE_IP_ADDRESS (Str ip)]"
  let ?rows = "[?x ''10.0.0.1'', ?x ''10.0.0.2'', ?x ''10.0.0.3'']"
  have "is_ok (constructDcsEnvs True etcd_form)" by code_simp
  then obtain dcs where dcs: "constructDcsEnvs True etcd_form = Ok dcs" by (auto simp: is_ok_iff)
  have form: "truthy (get etcd_form DCS_IS_DEPLOY_NEW_CLUSTER)" "get etcd_form DCS_TYPE = Str DCST_ETCD"
    "get etcd_form DCS_IS_DEPLOY_TO_DB_SERVERS = Bool True" "get etcd_form DBS_DATABASE_SERVERS = Arr ?rows"
    by code_simp+
  then have rows: "dcs_rows_of etcd_form = (DBS_DATABASE_SERVERS, DBS_DATABASE_IP_ADDRESS)" by (simp add: dcs_rows_of_def)
  have "isHighAvailability True etcd_form \<longleftrightarrow> 3 \<le> card (dcs_members dcs)"
    by (rule high_availability_is_quorum [OF dcs form(1) _ form(3), where rows = ?rows])
       (simp_all add: rows form row_key_def get_obj)
  moreover have "isHighAvailability True etcd_form" by code_simp
  ultimately show ?thesis using dcs by blast
qed

section \<open>Outside the expert mode\<close>

lemma default_no_dcs: "get (CLUSTER_FORM_DEFAULT_VALUES False blockId) DCS_IS_DEPLOY_NEW_CLUSTER = Undef"
  by (simp add: CLUSTER_FORM_DEFAULT_VALUES_def LOCAL_CLUSTER_DEFAULT_VALUES_def
      CLOUD_CLUSTER_DEFAULT_VALUES_def get_obj)

text \<open>
  C13: outside the expert mode the switch for a new store has no default and no control, so the branch
  that puts etcd on the database servers is never taken: the inventory has no group of the store, while
  the summary says ``high availability: on'' for three servers.
\<close>

theorem plain_mode_has_no_store:
  assumes "get values DCS_IS_DEPLOY_NEW_CLUSTER = get (CLUSTER_FORM_DEFAULT_VALUES False blockId) DCS_IS_DEPLOY_NEW_CLUSTER"
    and "getLocalMachineEnvs False values secretId = Ok envs"
    and "get values DBS_DATABASE_SERVERS = Arr rows" "3 \<le> length rows"
  shows "look_obj (children_of envs) ''etcd_cluster'' = None
    \<and> look_obj (children_of envs) ''consul_instances'' = None
    \<and> isHighAvailability False values"
proof -
  have none: "constructDcsEnvs False values = Ok Undef"
    using assms(1) by (simp add: default_no_dcs constructDcsEnvs_def)
  obtain m rs where rows: "rows = m # rs" using assms(4) by (cases rows) simp_all
  obtain b replica where parts: "constructBalancersEnvs False values = Ok b" "replica_part False values rs = Ok replica"
    "children_of envs = obj
        [Spread b, Spread Undef, P ''master'' (hosts_group (master_hosts False values m)), Spread replica,
         P ''postgres_cluster'' (obj [P ''children'' (obj [P ''master'' (obj []), P ''replica'' (obj [])])])]"
    using children_of_envs [OF assms(2)] assms(3)
    by (auto simp: rows inventory_children_parts none and_then_eq_Ok)
  have "look_obj (children_of envs) k = None" if "k \<in> {''etcd_cluster'', ''consul_instances''}" for k
  proof -
    have "lookup_part (Spread replica) k = None"
      using parts(2) that by (auto simp: replica_part_def map_res_eq_Ok split: if_splits)
    moreover have "lookup_part (Spread b) k = None" using balancers_keys [OF parts(1)] that by auto
    ultimately show ?thesis using that by (auto simp: parts(3) look_obj_obj)
  qed
  then show ?thesis using assms(3,4) by (simp add: isHighAvailability_def three_rows_arr)
qed

definition plain_form :: js where
  "plain_form = obj
     [P CF_AUTHENTICATION_METHOD (Str AUTH_SSH),
      P DBS_DATABASE_SERVERS (Arr
        [obj [P DBS_DATABASE_IP_ADDRESS (Str ''10.0.0.1'')], obj [P DBS_DATABASE_IP_ADDRESS (Str ''10.0.0.2'')],
         obj [P DBS_DATABASE_IP_ADDRESS (Str ''10.0.0.3'')]])]"

theorem plain_mode_has_no_store_witness:
  "\<exists>envs. getLocalMachineEnvs False plain_form Undef = Ok envs
     \<and> look_obj (children_of envs) ''etcd_cluster'' = None \<and> isHighAvailability False plain_form"
proof -
  let ?x = "\<lambda>ip. obj [P DBS_DATABASE_IP_ADDRESS (Str ip)]"
  have "is_ok (getLocalMachineEnvs False plain_form Undef)" by code_simp
  then obtain envs where envs: "getLocalMachineEnvs False plain_form Undef = Ok envs" by (auto simp: is_ok_iff)
  have form: "get plain_form DCS_IS_DEPLOY_NEW_CLUSTER = get (CLUSTER_FORM_DEFAULT_VALUES False (Str ''1'')) DCS_IS_DEPLOY_NEW_CLUSTER"
    "get plain_form DBS_DATABASE_SERVERS = Arr [?x ''10.0.0.1'', ?x ''10.0.0.2'', ?x ''10.0.0.3'']"
    by (simp_all add: plain_form_def default_no_dcs get_obj)
  show ?thesis using envs plain_mode_has_no_store [OF form(1) envs form(2)] by simp
qed

section \<open>Prices\<close>

text \<open>
  The estimated price is the one of the provider's default volume: choosing another volume type
  changes the request and not the summary.
\<close>

theorem price_ignores_volume_type:
  assumes "plain_object values" "getCloudProviderExtraVars True (obj [Spread values, P STO_VOLUME_TYPE type]) = Ok vars"
  shows "useGetCloudProviderConfig ops watchInstanceType (obj [Spread values, P STO_VOLUME_TYPE type])
      = useGetCloudProviderConfig ops watchInstanceType values
    \<and> get vars ''volume_type'' = type"
proof
  let ?w = "obj [Spread values, P STO_VOLUME_TYPE type]"
  have fields: "get ?w CF_PROVIDER = get values CF_PROVIDER" "get ?w CF_REGION_CONFIG = get values CF_REGION_CONFIG"
    "get ?w CF_INSTANCE_CONFIG = get values CF_INSTANCE_CONFIG" "get ?w CF_CLUSTER_NAME = get values CF_CLUSTER_NAME"
    "get ?w CF_POSTGRES_VERSION = get values CF_POSTGRES_VERSION" "get ?w INST_SERVER_TYPE = get values INST_SERVER_TYPE"
    "get ?w CF_INSTANCES_AMOUNT = get values CF_INSTANCES_AMOUNT" "get ?w STO_STORAGE_AMOUNT = get values STO_STORAGE_AMOUNT"
    using assms(1) by (simp_all add: get_spread)
  show "useGetCloudProviderConfig ops watchInstanceType ?w = useGetCloudProviderConfig ops watchInstanceType values"
    unfolding useGetCloudProviderConfig_def price_entry_def server_price_def total_price_def disk_price_def
      defaultVolume_def by (simp only: fields)
  show "get vars ''volume_type'' = type"
    using assms(2) by (auto simp: getCloudProviderExtraVars_def and_then_eq_Ok cloud_expert_vars_def get_obj)
qed

definition volume_form :: js where
  "volume_form = obj
     [P CF_PROVIDER (obj [P ''code'' (Str PROV_AWS)]),
      P CF_INSTANCE_CONFIG (obj [P ''code'' (Str ''t3.small'')]),
      P CF_REGION_CONFIG (obj [P ''code'' (Str ''eu-1''), P ''cloud_image'' (obj [P ''image'' (obj [])])])]"

definition whole_ops :: num_ops where
  "whole_ops = \<lparr>times = (\<lambda>a b. case (a, b) of (Num m, Num n) \<Rightarrow> Num (m * n) | _ \<Rightarrow> NaN),
     plus_num = (\<lambda>a b. case (a, b) of (Num m, Num n) \<Rightarrow> Num (m + n) | _ \<Rightarrow> NaN),
     toFixed = (\<lambda>a. Str (js_str a @ ''.00''))\<rparr>"

theorem price_ignores_volume_type_witness:
  "useGetCloudProviderConfig whole_ops (Str ''small'') (obj [Spread volume_form, P STO_VOLUME_TYPE (Str ''io2'')])
     = useGetCloudProviderConfig whole_ops (Str ''small'') volume_form"
proof -
  have "is_ok (getCloudProviderExtraVars True (obj [Spread volume_form, P STO_VOLUME_TYPE (Str ''io2'')]))" by code_simp
  then obtain vars where "getCloudProviderExtraVars True (obj [Spread volume_form, P STO_VOLUME_TYPE (Str ''io2'')]) = Ok vars"
    by (auto simp: is_ok_iff)
  then show ?thesis using price_ignores_volume_type [of volume_form "Str ''io2''" vars whole_ops "Str ''small''"]
    by (simp add: volume_form_def)
qed

section \<open>Passwords\<close>

text \<open>A hidden password shows its length and its line breaks, and no other character.\<close>

lemma masked_chars: "set (masked s) \<subseteq> {CHR 0x0A, CHR 0x0D, CHR ''*''} \<and> length (masked s) = length s"
  by (auto simp: masked_def)

end
