(* ===== verification/AuthBlock.thy ===== *)
theory AuthBlock
  imports RowViews
begin

text \<open>
  The block of the authentication method (\<open>entities/authentification-method-form-block\<close>): the method,
  the switch between a stored secret and new credentials, the secret, its two effects and what it
  shows. The list of secrets comes from a query on the method: \<open>secrets_of\<close> is what the server
  answers for a method, and until it has, the query still holds the data of the method before (RTK Query
  documents \<open>data\<close> as the latest result whatever the argument). Styles are left out.
\<close>

section \<open>State and effects\<close>

record auth_form =
  auth_values :: js
  secrets :: "js list"

definition auth_field :: "string \<Rightarrow> auth_form \<Rightarrow> js" where
  "auth_field name st = get (auth_values st) name"

definition set_auth :: "string \<Rightarrow> js \<Rightarrow> auth_form \<Rightarrow> auth_form" where
  "set_auth name x st = st\<lparr>auth_values := obj [Spread (auth_values st), P name x]\<rparr>"

text \<open>\<open>resetField(SECRET_ID)\<close>: the default of the field is the empty text.\<close>

definition reset_secret :: "auth_form \<Rightarrow> auth_form" where
  "reset_secret st = set_auth CF_SECRET_ID (Str '''') st"

definition use_loaded :: "auth_form \<Rightarrow> auth_form" where
  "use_loaded st = set_auth CF_IS_USE_DEFINED_SECRET (Bool (secrets st \<noteq> [])) st"

definition reset_deps :: "auth_form \<Rightarrow> js \<times> js" where
  "reset_deps st = (auth_field CF_IS_USE_DEFINED_SECRET st, auth_field CF_AUTHENTICATION_METHOD st)"

text \<open>
  The effects after a render: each runs when a value it depends on differs from the render before. The
  second round is the render the first one causes; it can only reset the secret.
\<close>

definition auth_effects :: "auth_form \<Rightarrow> auth_form \<Rightarrow> auth_form" where
  "auth_effects before st =
     (let first = (if reset_deps st \<noteq> reset_deps before then reset_secret st else st);
          second = (if length (secrets st) \<noteq> length (secrets before) then use_loaded first else first)
      in if reset_deps second \<noteq> reset_deps st then reset_secret second else second)"

text \<open>On mount both effects run.\<close>

definition auth_mount :: "auth_form \<Rightarrow> auth_form" where
  "auth_mount st = reset_secret (use_loaded st)"

datatype auth_event = Choose_method js | Choose_use bool | Choose_secret js | Secrets_loaded | Mount_block

fun auth_step :: "(js \<Rightarrow> js list) \<Rightarrow> auth_event \<Rightarrow> auth_form \<Rightarrow> auth_form" where
  "auth_step secrets_of (Choose_method m) st = auth_effects st (set_auth CF_AUTHENTICATION_METHOD m st)"
| "auth_step secrets_of (Choose_use b) st = auth_effects st (set_auth CF_IS_USE_DEFINED_SECRET (Bool b) st)"
| "auth_step secrets_of (Choose_secret x) st = set_auth CF_SECRET_ID x st"
| "auth_step secrets_of Secrets_loaded st =
     auth_effects st (st\<lparr>secrets := secrets_of (auth_field CF_AUTHENTICATION_METHOD st)\<rparr>)"
| "auth_step secrets_of Mount_block st = auth_mount st"

text \<open>The select offers the secrets of the query's data.\<close>

fun auth_offered :: "auth_form \<Rightarrow> auth_event \<Rightarrow> bool" where
  "auth_offered st (Choose_use b) = (secrets st \<noteq> [])"
| "auth_offered st (Choose_secret x) =
     (secrets st \<noteq> [] \<and> truthy (auth_field CF_IS_USE_DEFINED_SECRET st) \<and> (\<exists>s \<in> set (secrets st). get s ''id'' = x))"
| "auth_offered st e = True"

section \<open>What the block shows\<close>

definition authenticationMethods :: "(string \<times> js \<times> js) list" where
  "authenticationMethods =
     [(AUTH_SSH, tr ''sshKey'' [P ''ns'' (Str ''clusters'')], tr ''sshKeyAuthDescription'' [P ''ns'' (Str ''clusters'')]),
      (AUTH_PASSWORD, tr ''password'' [P ''ns'' (Str ''shared'')], tr ''passwordAuthDescription'' [P ''ns'' (Str ''clusters'')])]"

definition auth_text_field :: "js \<Rightarrow> js \<Rightarrow> string \<Rightarrow> js \<Rightarrow> js \<Rightarrow> part list \<Rightarrow> js" where
  "auth_text_field values errors name label fallback extra = controller values name (\<lambda>value onChange.
     elem ''TextField''
       ([P ''fullWidth'' (Bool True), P ''value'' value, P ''onChange'' onChange, P ''label'' label,
         P ''error'' (has_error errors name),
         P ''helperText'' (coalesce (get (get errors name) ''message'') fallback)] @ extra) [])"

definition PasswordMethodFormPart :: "js \<Rightarrow> js \<Rightarrow> js" where
  "PasswordMethodFormPart values errors =
     fragment [auth_text_field values errors SEC_PASSWORD (tr ''password'' [P ''ns'' (Str ''shared'')]) (Str '''')
       [P ''required'' (Bool True), P ''size'' (Str ''small'')]]"

definition SshMethodFormPart :: "js \<Rightarrow> js \<Rightarrow> js" where
  "SshMethodFormPart values errors =
     fragment [auth_text_field values errors SEC_SSH_PRIVATE_KEY (tr ''sshKey'' [P ''ns'' (Str ''clusters'')]) (Str '''')
       [P ''required'' (Bool True), P ''multiline'' (Bool True), P ''minRows'' (Num 2), P ''maxRows'' (Num 6),
        P ''placeholder'' (tr ''sshKeyLocalMachinePlaceholder'' [])]]"

definition AuthenticationFormPart :: "js \<Rightarrow> js \<Rightarrow> js" where
  "AuthenticationFormPart values errors = fragment
     [auth_text_field values errors SEC_USERNAME (tr ''username'' []) Undef
        [P ''required'' (Bool (get values CF_AUTHENTICATION_METHOD = Str AUTH_PASSWORD)), P ''size'' (Str ''small'')],
      if get values CF_AUTHENTICATION_METHOD = Str AUTH_SSH then SshMethodFormPart values errors
      else PasswordMethodFormPart values errors]"

definition method_choice :: "js \<Rightarrow> js" where
  "method_choice values = controller values CF_AUTHENTICATION_METHOD (\<lambda>value onChange.
     fragment [Arr (map (\<lambda>(id, name, description).
       elem ''Stack'' [P ''onClick'' (Fn ''onChange'' [Str id])]
         [elem ''Radio'' [P ''checked'' (Bool (value = Str id))] [],
          elem ''Stack'' [] [elem ''Typography'' [] [name], elem ''Typography'' [] [description]]])
       authenticationMethods)])"

definition use_choice :: "js \<Rightarrow> js \<Rightarrow> js" where
  "use_choice values errors = controller values CF_IS_USE_DEFINED_SECRET (\<lambda>value onChange.
     elem ''TextField''
       [P ''select'' (Bool True), P ''value'' value, P ''onChange'' onChange,
        P ''label'' (tr ''useDefinedSecret'' [P ''ns'' (Str ''clusters'')]), P ''fullWidth'' (Bool True), P ''size'' (Str ''small''),
        P ''error'' (has_error errors CF_IS_USE_DEFINED_SECRET),
        P ''helperText'' (get (get errors CF_IS_USE_DEFINED_SECRET) ''message'')]
       [Arr (map (\<lambda>option. elem ''MenuItem''
          [P ''value'' (Bool (option = tr ''yes'' [P ''ns'' (Str ''shared'')]))] [option])
          [tr ''yes'' [P ''ns'' (Str ''shared'')], tr ''no'' [P ''ns'' (Str ''shared'')]])])"

definition secret_choice :: "js list \<Rightarrow> js \<Rightarrow> js \<Rightarrow> js" where
  "secret_choice options values errors = controller values CF_SECRET_ID (\<lambda>value onChange.
     elem ''TextField''
       [P ''select'' (Bool True), P ''required'' (Bool True), P ''value'' value, P ''onChange'' onChange,
        P ''label'' (tr ''secret'' [P ''ns'' (Str ''settings'')]), P ''fullWidth'' (Bool True), P ''size'' (Str ''small''),
        P ''error'' (has_error errors CF_SECRET_ID), P ''helperText'' (get (get errors CF_SECRET_ID) ''message'')]
       [Arr (map (\<lambda>secret. elem ''MenuItem'' [P ''value'' (get secret ''id'')] [get secret ''name'']) options)])"

definition AuthenticationMethodFormBlock :: "auth_form \<Rightarrow> js \<Rightarrow> js" where
  "AuthenticationMethodFormBlock st errors =
     (let values = auth_values st; loaded = (secrets st \<noteq> []);
          defined = truthy (get values CF_IS_USE_DEFINED_SECRET) in
      elem ''Box'' []
        [elem ''Typography'' [] [tr ''authenticationMethod'' [P ''ns'' (Str ''clusters'')]],
         elem ''Stack'' []
           [elem ''Stack'' [] [method_choice values],
            if loaded
            then fragment
              [use_choice values errors,
               if defined
               then fragment
                 [when_js (get values CF_AUTHENTICATION_METHOD = Str AUTH_SSH)
                    (auth_text_field values errors SEC_USERNAME (tr ''username'' [P ''ns'' (Str ''shared'')]) Undef
                       [P ''size'' (Str ''small'')]),
                  secret_choice (secrets st) values errors]
               else AuthenticationFormPart values errors]
            else AuthenticationFormPart values errors,
            when_js ((loaded \<and> \<not> defined) \<or> \<not> loaded)
              (fragment
                 [when_js (truthy (get values CF_AUTHENTICATION_IS_SAVE_TO_CONSOLE))
                    (auth_text_field values errors CF_SECRET_KEY_NAME (tr ''secretName'' [P ''ns'' (Str ''settings'')]) Undef
                       [P ''required'' (Bool True), P ''size'' (Str ''small'')]),
                  controller values CF_AUTHENTICATION_IS_SAVE_TO_CONSOLE (\<lambda>value onChange.
                    elem ''FormControlLabel''
                      [P ''control'' (elem ''Checkbox'' [] []), P ''checked'' value, P ''onChange'' onChange,
                       P ''label'' (tr ''saveToConsole'' [])] [])])]])"

section \<open>The chosen secret\<close>

text \<open>Forms in which a secret is only chosen from the list of the current method.\<close>

definition fresh_list :: "(js \<Rightarrow> js list) \<Rightarrow> auth_form \<Rightarrow> bool" where
  "fresh_list secrets_of st \<longleftrightarrow> secrets st = secrets_of (auth_field CF_AUTHENTICATION_METHOD st)"

inductive auth_reachable :: "(js \<Rightarrow> js list) \<Rightarrow> auth_form \<Rightarrow> bool" for secrets_of where
  auth_start: "plain_object (auth_values st) \<Longrightarrow> auth_reachable secrets_of (auth_mount st)"
| auth_next: "auth_reachable secrets_of st \<Longrightarrow> auth_offered st e \<Longrightarrow>
     (\<forall>x. e = Choose_secret x \<longrightarrow> fresh_list secrets_of st) \<Longrightarrow> auth_reachable secrets_of (auth_step secrets_of e st)"

definition own_secret :: "(js \<Rightarrow> js list) \<Rightarrow> auth_form \<Rightarrow> bool" where
  "own_secret secrets_of st \<longleftrightarrow> auth_field CF_SECRET_ID st = Str ''''
     \<or> (\<exists>s \<in> set (secrets_of (auth_field CF_AUTHENTICATION_METHOD st)). get s ''id'' = auth_field CF_SECRET_ID st)"

lemma auth_field_set:
  "plain_object (auth_values st) \<Longrightarrow> auth_field n (set_auth k x st) = (if n = k then x else auth_field n st)"
  by (simp add: auth_field_def set_auth_def get_spread)

lemma auth_set_simps [simp]:
  "plain_object (auth_values (set_auth k x st))" "secrets (set_auth k x st) = secrets st"
  by (simp_all add: set_auth_def)

lemma effects_plain: "plain_object (auth_values st) \<Longrightarrow> plain_object (auth_values (auth_effects before st))"
  by (simp add: auth_effects_def Let_def reset_secret_def use_loaded_def)

text \<open>The effects keep the method, and the secret or its default; a new method resets the secret.\<close>

lemma effects_fields:
  assumes "plain_object (auth_values st)"
  shows "auth_field CF_AUTHENTICATION_METHOD (auth_effects before st) = auth_field CF_AUTHENTICATION_METHOD st
    \<and> auth_field CF_SECRET_ID (auth_effects before st) \<in> {Str '''', auth_field CF_SECRET_ID st}
    \<and> (auth_field CF_AUTHENTICATION_METHOD st \<noteq> auth_field CF_AUTHENTICATION_METHOD before
         \<longrightarrow> auth_field CF_SECRET_ID (auth_effects before st) = Str '''')"
  using assms by (simp add: auth_effects_def Let_def reset_secret_def use_loaded_def reset_deps_def auth_field_set)

lemma own_secret_effects:
  assumes "plain_object (auth_values st)" "plain_object (auth_values before)" "own_secret secrets_of before"
    and "auth_field CF_SECRET_ID st = auth_field CF_SECRET_ID before"
  shows "own_secret secrets_of (auth_effects before st)"
  using effects_fields [OF assms(1), of before] assms(3,4)
  by (cases "auth_field CF_AUTHENTICATION_METHOD st = auth_field CF_AUTHENTICATION_METHOD before")
     (auto simp: own_secret_def)

lemma auth_reachable_own:
  "auth_reachable secrets_of st \<Longrightarrow> plain_object (auth_values st) \<and> own_secret secrets_of st"
proof (induction rule: auth_reachable.induct)
  case (auth_start st)
  then show ?case by (simp add: auth_mount_def reset_secret_def use_loaded_def own_secret_def auth_field_set)
next
  case (auth_next st e)
  then have st: "plain_object (auth_values st)" "own_secret secrets_of st" by simp_all
  show ?case
  proof (cases e)
    case (Choose_method m)
    then show ?thesis using st by (simp add: effects_plain own_secret_effects auth_field_set)
  next
    case (Choose_use b)
    then show ?thesis using st by (simp add: effects_plain own_secret_effects auth_field_set)
  next
    case (Choose_secret x)
    then show ?thesis using st auth_next.hyps(2,3)
      by (auto simp: own_secret_def auth_field_set fresh_list_def)
  next
    case Secrets_loaded
    then show ?thesis using st by (simp add: effects_plain own_secret_effects auth_field_def)
  next
    case Mount_block
    then show ?thesis using st
      by (simp add: auth_mount_def reset_secret_def use_loaded_def own_secret_def auth_field_set)
  qed
qed

text \<open>
  C22: the secret of the form is always one of the secrets of its authentication method, or none, over any
  sequence of choices, loaded lists and remounts in which a secret is chosen from an up to date list.
\<close>

theorem secret_matches_method:
  assumes "auth_reachable secrets_of st"
  shows "auth_field CF_SECRET_ID st = Str ''''
     \<or> (\<exists>s \<in> set (secrets_of (auth_field CF_AUTHENTICATION_METHOD st)). get s ''id'' = auth_field CF_SECRET_ID st)"
  using auth_reachable_own [OF assms] by (simp add: own_secret_def)

definition stored_secrets :: "js \<Rightarrow> js list" where
  "stored_secrets m = (if m = Str AUTH_SSH then [obj [P ''id'' (Num 1)]]
     else if m = Str AUTH_PASSWORD then [obj [P ''id'' (Num 2)]] else [])"

definition ssh_form :: auth_form where
  "ssh_form = auth_step stored_secrets Secrets_loaded
     (auth_mount \<lparr>auth_values = obj [P CF_AUTHENTICATION_METHOD (Str AUTH_SSH)], secrets = []\<rparr>)"

lemma ssh_form_reachable: "auth_reachable stored_secrets ssh_form"
  unfolding ssh_form_def by (rule auth_next [OF auth_start]) simp_all

lemma ssh_form_fields: "auth_field CF_AUTHENTICATION_METHOD ssh_form = Str AUTH_SSH"
    "auth_field CF_IS_USE_DEFINED_SECRET ssh_form = Bool True" "secrets ssh_form = [obj [P ''id'' (Num 1)]]"
  by code_simp+

theorem secret_matches_method_witness:
  "auth_field CF_SECRET_ID (auth_step stored_secrets (Choose_secret (Num 1)) ssh_form) = Str ''''
     \<or> (\<exists>s \<in> set (stored_secrets (Str AUTH_SSH)).
          get s ''id'' = auth_field CF_SECRET_ID (auth_step stored_secrets (Choose_secret (Num 1)) ssh_form))"
proof -
  have "auth_reachable stored_secrets (auth_step stored_secrets (Choose_secret (Num 1)) ssh_form)"
    by (rule auth_next [OF ssh_form_reachable])
       (simp_all add: ssh_form_fields get_obj fresh_list_def stored_secrets_def)
  moreover have "auth_field CF_AUTHENTICATION_METHOD (auth_step stored_secrets (Choose_secret (Num 1)) ssh_form) = Str AUTH_SSH"
    by code_simp
  ultimately show ?thesis using secret_matches_method by metis
qed

lemma auth_field_secrets [simp]: "auth_field n (st\<lparr>secrets := xs\<rparr>) = auth_field n st"
  by (simp add: auth_field_def)

lemma loaded_list_keeps_secret:
  assumes "plain_object (auth_values st)" "auth_field CF_IS_USE_DEFINED_SECRET st = Bool True" "xs \<noteq> []"
  shows "auth_field CF_SECRET_ID (auth_effects st (st\<lparr>secrets := xs\<rparr>)) = auth_field CF_SECRET_ID st
    \<and> auth_field CF_AUTHENTICATION_METHOD (auth_effects st (st\<lparr>secrets := xs\<rparr>)) = auth_field CF_AUTHENTICATION_METHOD st"
  using assms
  by (cases "length xs = length (secrets st)")
     (simp_all add: auth_effects_def Let_def reset_deps_def use_loaded_def auth_field_set)

lemma method_change_keeps_list:
  assumes "plain_object (auth_values st)" "auth_field CF_IS_USE_DEFINED_SECRET st = Bool True"
  shows "plain_object (auth_values (auth_step secrets_of (Choose_method m) st))
    \<and> auth_field CF_AUTHENTICATION_METHOD (auth_step secrets_of (Choose_method m) st) = m
    \<and> auth_field CF_IS_USE_DEFINED_SECRET (auth_step secrets_of (Choose_method m) st) = Bool True
    \<and> secrets (auth_step secrets_of (Choose_method m) st) = secrets st"
  using assms by (simp add: auth_effects_def Let_def reset_deps_def reset_secret_def auth_field_set)

text \<open>
  After the method is changed the select still offers the secrets of the old one until the server
  has answered. A secret chosen in that time is kept when the answer arrives, so the form holds a
  secret of the other type.
\<close>

theorem stale_list_keeps_wrong_secret:
  assumes "plain_object (auth_values st)" "auth_field CF_IS_USE_DEFINED_SECRET st = Bool True"
    and "s \<in> set (secrets st)" "secrets_of m \<noteq> []"
  shows "auth_offered (auth_step secrets_of (Choose_method m) st) (Choose_secret (get s ''id''))
    \<and> auth_field CF_SECRET_ID (auth_step secrets_of Secrets_loaded
         (auth_step secrets_of (Choose_secret (get s ''id'')) (auth_step secrets_of (Choose_method m) st))) = get s ''id''
    \<and> auth_field CF_AUTHENTICATION_METHOD (auth_step secrets_of Secrets_loaded
         (auth_step secrets_of (Choose_secret (get s ''id'')) (auth_step secrets_of (Choose_method m) st))) = m"
proof -
  let ?st1 = "auth_step secrets_of (Choose_method m) st"
  let ?st2 = "auth_step secrets_of (Choose_secret (get s ''id'')) ?st1"
  note st1 = method_change_keeps_list [OF assms(1,2), of secrets_of m]
  then have st2: "plain_object (auth_values ?st2)" "auth_field CF_AUTHENTICATION_METHOD ?st2 = m"
    "auth_field CF_IS_USE_DEFINED_SECRET ?st2 = Bool True" "auth_field CF_SECRET_ID ?st2 = get s ''id''"
    by (simp_all add: auth_field_set del: auth_step.simps(1))
  have "auth_step secrets_of Secrets_loaded ?st2 = auth_effects ?st2 (?st2\<lparr>secrets := secrets_of m\<rparr>)"
    using st2(2) by simp
  moreover have "auth_offered ?st1 (Choose_secret (get s ''id''))"
    using st1 assms(3) by (auto simp del: auth_step.simps)
  ultimately show ?thesis using loaded_list_keeps_secret [OF st2(1,3) assms(4)] st2(2,4) by (simp only: simp_thms)
qed

theorem stale_list_keeps_wrong_secret_witness:
  "auth_field CF_SECRET_ID (auth_step stored_secrets Secrets_loaded
     (auth_step stored_secrets (Choose_secret (Num 1)) (auth_step stored_secrets (Choose_method (Str AUTH_PASSWORD)) ssh_form)))
     = Num 1"
proof -
  have "plain_object (auth_values ssh_form)" using auth_reachable_own [OF ssh_form_reachable] by simp
  moreover have "stored_secrets (Str AUTH_PASSWORD) \<noteq> []" by (simp add: stored_secrets_def)
  ultimately show ?thesis
    using stale_list_keeps_wrong_secret [of ssh_form "obj [P ''id'' (Num 1)]" stored_secrets "Str AUTH_PASSWORD"]
    by (simp add: ssh_form_fields get_obj)
qed

end
