(* ===== verification/Navigation.thy ===== *)
theory Navigation
  imports AppState Tables Submit
begin

text \<open>
  The pages of the console and the ways between them: the route table (\<open>app/router\<close>), the
  breadcrumbs, the sidebar with its stored state, and the pages that only lay out others. The table is
  data; \<open>pages\<close> reads the path and the elements of each of its routes the way react-router
  documents it: a path that starts with a slash is absolute, any other one is appended to its parent's,
  and a page is shown inside the elements of the routes around it.
\<close>

section \<open>Paths\<close>

definition routerClustersPathsConfig :: js where
  "routerClustersPathsConfig = obj
     [P ''absolutePath'' (Str ''/clusters''),
      P ''add'' (obj [P ''absolutePath'' (Str ''/clusters/add''), P ''relativePath'' (Str ''add'')]),
      P ''overview'' (obj [P ''absolutePath'' (Str ''/clusters/:clusterId/overview''),
         P ''relativePath'' (Str '':clusterId/overview'')])]"

definition routerOperationsPathsConfig :: js where
  "routerOperationsPathsConfig = obj
     [P ''absolutePath'' (Str ''/operations''),
      P ''log'' (obj [P ''absolutePath'' (Str ''/operations/:operationId/log''),
         P ''relativePath'' (Str '':operationId/log'')])]"

definition routerSettingsPathsConfig :: js where
  "routerSettingsPathsConfig = obj
     [P ''absolutePath'' (Str ''/settings''),
      P ''general'' (obj [P ''absolutePath'' (Str ''/settings/general''), P ''relativePath'' (Str ''general'')]),
      P ''secrets'' (obj [P ''absolutePath'' (Str ''/settings/secrets''), P ''relativePath'' (Str ''secrets'')]),
      P ''projects'' (obj [P ''absolutePath'' (Str ''/settings/projects''), P ''relativePath'' (Str ''projects'')]),
      P ''environments'' (obj [P ''absolutePath'' (Str ''/settings/environments''),
         P ''relativePath'' (Str ''environments'')])]"

definition RouterPaths :: js where
  "RouterPaths = obj
     [P ''login'' (obj [P ''absolutePath'' (Str ''login'')]),
      P ''notFound'' (obj [P ''absolutePath'' (Str ''notFound'')]),
      P ''clusters'' routerClustersPathsConfig,
      P ''operations'' routerOperationsPathsConfig,
      P ''settings'' routerSettingsPathsConfig]"

definition router_path :: "string list \<Rightarrow> string" where
  "router_path ks = js_str (path RouterPaths ks)"

lemmas router_path_defs = router_path_def RouterPaths_def routerClustersPathsConfig_def
  routerOperationsPathsConfig_def routerSettingsPathsConfig_def

lemma router_paths [simp]:
  "router_path [''login'', ''absolutePath''] = ''login''"
  "router_path [''notFound'', ''absolutePath''] = ''notFound''"
  "router_path [''clusters'', ''absolutePath''] = ''/clusters''"
  "router_path [''clusters'', ''add'', ''relativePath''] = ''add''"
  "router_path [''clusters'', ''overview'', ''relativePath''] = '':clusterId/overview''"
  "router_path [''clusters'', ''add'', ''absolutePath''] = ''/clusters/add''"
  "router_path [''clusters'', ''overview'', ''absolutePath''] = ''/clusters/:clusterId/overview''"
  "router_path [''operations'', ''absolutePath''] = ''/operations''"
  "router_path [''operations'', ''log'', ''relativePath''] = '':operationId/log''"
  "router_path [''operations'', ''log'', ''absolutePath''] = ''/operations/:operationId/log''"
  "router_path [''settings'', ''absolutePath''] = ''/settings''"
  by (simp_all add: router_path_defs get_obj)

lemma settings_paths [simp]:
  "router_path [''settings'', ''general'', ''relativePath''] = ''general''"
  "router_path [''settings'', ''secrets'', ''relativePath''] = ''secrets''"
  "router_path [''settings'', ''projects'', ''relativePath''] = ''projects''"
  "router_path [''settings'', ''environments'', ''relativePath''] = ''environments''"
  "router_path [''settings'', ''general'', ''absolutePath''] = ''/settings/general''"
  "router_path [''settings'', ''secrets'', ''absolutePath''] = ''/settings/secrets''"
  "router_path [''settings'', ''projects'', ''absolutePath''] = ''/settings/projects''"
  "router_path [''settings'', ''environments'', ''absolutePath''] = ''/settings/environments''"
  by (simp_all add: router_path_defs get_obj)

section \<open>Routes\<close>

text \<open>
  The breadcrumb of a route's \<open>handle\<close>: its label is a key with a namespace or a function of the
  parameters, and it may carry a path of its own.
\<close>

datatype crumb_label = Label string string | Label_of "js \<Rightarrow> js"

datatype crumb = Crumb crumb_label js

datatype route = Route "string option" "crumb option" js "route list"

definition view :: "string \<Rightarrow> js" where
  "view tag = elem tag [] []"

definition redirect :: "string \<Rightarrow> part list \<Rightarrow> js" where
  "redirect target ps = elem ''Navigate'' (P ''to'' (Str target) # ps) []"

definition ClustersRoutes :: route where
  "ClustersRoutes = Route None None Undef
     [Route (Some []) None (redirect (router_path [''clusters'', ''absolutePath'']) []) [],
      Route (Some (router_path [''clusters'', ''absolutePath''])) (Some (Crumb (Label ''clusters'' ''clusters'') Undef)) Undef
        [Route (Some []) None (view ''Clusters'') [],
         Route (Some (router_path [''clusters'', ''add'', ''relativePath'']))
           (Some (Crumb (Label ''createCluster'' ''clusters'') Undef)) (view ''AddCluster'') [],
         Route (Some (router_path [''clusters'', ''overview'', ''relativePath'']))
           (Some (Crumb (Label ''overview'' ''shared'') Undef)) (view ''OverviewCluster'') []]]"

text \<open>\<open>label: (data) => `${data.operationId}`\<close>\<close>

definition operation_label :: "js \<Rightarrow> js" where
  "operation_label data = Str (js_str (get data ''operationId''))"

definition OperationsRoutes :: route where
  "OperationsRoutes = Route None None Undef
     [Route (Some (router_path [''operations'', ''absolutePath'']))
        (Some (Crumb (Label ''operations'' ''operations'') Undef)) Undef
        [Route (Some []) None (view ''Operations'') [],
         Route (Some (router_path [''operations'', ''log'', ''relativePath'']))
           (Some (Crumb (Label_of operation_label) Undef)) (view ''OperationLog'') []]]"

definition SettingsRoutes :: route where
  "SettingsRoutes = Route None None Undef
     [Route (Some (router_path [''settings'', ''absolutePath'']))
        (Some (Crumb (Label ''settings'' ''settings'') Undef)) (view ''Settings'')
        [Route (Some []) None
           (redirect (router_path [''settings'', ''general'', ''relativePath'']) [P ''replace'' (Bool True)]) [],
         Route (Some (router_path [''settings'', ''general'', ''relativePath''])) None (view ''SettingsForm'') [],
         Route (Some (router_path [''settings'', ''secrets'', ''relativePath''])) None (view ''SecretsTable'') [],
         Route (Some (router_path [''settings'', ''projects'', ''relativePath''])) None (view ''ProjectsTable'') [],
         Route (Some (router_path [''settings'', ''environments'', ''relativePath''])) None
           (view ''EnvironmentsTable'') []]]"

definition suspended_outlet :: js where
  "suspended_outlet = elem ''Suspense'' [P ''fallback'' (view ''Spinner'')] [view ''Outlet'']"

definition Router :: route where
  "Router = Route (Some ''/'') None suspended_outlet
     [Route (Some (router_path [''login'', ''absolutePath''])) None (view ''Login'') [],
      Route (Some (router_path [''notFound'', ''absolutePath''])) None (view ''Page404'') [],
      Route None None (view ''PrivateRouteWrapper'')
        [Route None None (view ''Layout'') [ClustersRoutes, OperationsRoutes, SettingsRoutes]],
      Route (Some ''*'') None
        (redirect (''/'' @ router_path [''notFound'', ''absolutePath'']) [P ''replace'' (Bool True)]) []]"

section \<open>Reading the table\<close>

definition join_path :: "string \<Rightarrow> string \<Rightarrow> string" where
  "join_path base p =
     (if starts_with ''/'' p then p else if p = [] then base
      else if base = ''/'' then ''/'' @ p else base @ ''/'' @ p)"

record page =
  page_path :: string
  page_views :: "js list"

fun pages :: "string \<Rightarrow> js list \<Rightarrow> route \<Rightarrow> page list"
  and pages_list :: "string \<Rightarrow> js list \<Rightarrow> route list \<Rightarrow> page list" where
  "pages base around (Route p c el rs) =
     (let here = (case p of Some q \<Rightarrow> join_path base q | None \<Rightarrow> base);
          views = around @ (if el = Undef then [] else [el])
      in (if p \<noteq> None \<and> rs = [] then [\<lparr>page_path = here, page_views = views\<rparr>] else [])
         @ pages_list here views rs)"
| "pages_list base around [] = []"
| "pages_list base around (r # rs) = pages base around r @ pages_list base around rs"

definition all_pages :: "page list" where
  "all_pages = pages [] [] Router"

definition behind :: "string \<Rightarrow> page \<Rightarrow> bool" where
  "behind tag p \<longleftrightarrow> list_ex (\<lambda>v. get v ''type'' = Str tag) (page_views p)"

definition private_pages :: "page list" where
  "private_pages = filter (behind ''PrivateRouteWrapper'') all_pages"

lemmas route_defs = Router_def ClustersRoutes_def OperationsRoutes_def SettingsRoutes_def

lemma view_simps [simp]:
  "view tag \<noteq> Undef" "redirect p ps \<noteq> Undef"
  "get (view tag) ''type'' = Str tag" "get (redirect p ps) ''type'' = Str ''Navigate''"
  "suspended_outlet \<noteq> Undef" "get suspended_outlet ''type'' = Str ''Suspense''"
  by (simp_all add: view_def redirect_def suspended_outlet_def get_obj) (simp_all add: obj_def)

lemma pages_of_table:
  "map page_path all_pages =
     [''/login'', ''/notFound'', ''/'', ''/clusters'', ''/clusters/add'', ''/clusters/:clusterId/overview'',
      ''/operations'', ''/operations/:operationId/log'', ''/settings'', ''/settings/general'',
      ''/settings/secrets'', ''/settings/projects'', ''/settings/environments'', ''/*'']"
  by (simp add: all_pages_def route_defs join_path_def starts_with_def)


lemma private_paths:
  "map page_path private_pages =
     [''/'', ''/clusters'', ''/clusters/add'', ''/clusters/:clusterId/overview'',
      ''/operations'', ''/operations/:operationId/log'', ''/settings'', ''/settings/general'',
      ''/settings/secrets'', ''/settings/projects'', ''/settings/environments'']"
  by (simp add: private_pages_def all_pages_def route_defs join_path_def starts_with_def behind_def)

text \<open>The absolute paths of the configuration, which the code navigates to.\<close>

fun absolute_paths :: "js \<Rightarrow> string list" and absolute_paths_props :: "(string \<times> js) list \<Rightarrow> string list" where
  "absolute_paths (Obj ps) = absolute_paths_props ps"
| "absolute_paths _ = []"
| "absolute_paths_props [] = []"
| "absolute_paths_props ((k, v) # ps) =
     (if k = ''absolutePath'' then [js_str v] else absolute_paths v) @ absolute_paths_props ps"

lemma paths_of_config:
  "absolute_paths RouterPaths =
     [''login'', ''notFound'', ''/clusters'', ''/clusters/add'', ''/clusters/:clusterId/overview'',
      ''/operations'', ''/operations/:operationId/log'', ''/settings'', ''/settings/general'',
      ''/settings/secrets'', ''/settings/projects'', ''/settings/environments'']"
  by (simp add: RouterPaths_def routerClustersPathsConfig_def routerOperationsPathsConfig_def
      routerSettingsPathsConfig_def obj_def)

text \<open>The paths other components navigate to are those of the configuration.\<close>

lemma used_paths:
  "clusters_path = router_path [''clusters'', ''absolutePath'']"
  "cluster_overview_path = router_path [''clusters'', ''overview'', ''absolutePath'']"
  "operation_log_path = router_path [''operations'', ''log'', ''absolutePath'']"
  by (simp_all add: clusters_path_def cluster_overview_path_def operation_log_path_def)

text \<open>
  Every absolute path the code navigates to is the path of a page of the route table, so the
  relative paths of the routes and the absolute ones agree; and exactly the login page, the page for
  unknown paths and the redirect to it are shown outside the guard of the private routes and the layout.
\<close>

theorem paths_are_routed:
  "join_path ''/'' ` set (absolute_paths RouterPaths) \<subseteq> page_path ` set all_pages
   \<and> map page_path (filter (\<lambda>p. \<not> (behind ''PrivateRouteWrapper'' p \<and> behind ''Layout'' p)) all_pages)
       = [''/login'', ''/notFound'', ''/*'']"
proof
  have "join_path ''/'' ` set (absolute_paths RouterPaths) \<subseteq> set (map page_path all_pages)"
    unfolding paths_of_config pages_of_table by (simp add: join_path_def starts_with_def)
  then show "join_path ''/'' ` set (absolute_paths RouterPaths) \<subseteq> page_path ` set all_pages" by simp
  show "map page_path (filter (\<lambda>p. \<not> (behind ''PrivateRouteWrapper'' p \<and> behind ''Layout'' p)) all_pages)
       = [''/login'', ''/notFound'', ''/*'']"
    by (simp add: all_pages_def route_defs join_path_def starts_with_def behind_def)
qed

section \<open>Breadcrumbs\<close>

record route_match =
  match_crumb :: "crumb option"
  match_params :: js
  match_pathname :: string

record trail_item =
  trail_label :: js
  trail_path :: js

definition crumb_text :: "crumb_label \<Rightarrow> js \<Rightarrow> js" where
  "crumb_text l params = (case l of Label_of f \<Rightarrow> f (obj [Spread params]) | Label key ns \<Rightarrow> tr key [P ''ns'' (Str ns)])"

definition trail_entry :: "route_match \<Rightarrow> crumb \<Rightarrow> trail_item" where
  "trail_entry m c = (case c of Crumb l p \<Rightarrow>
     \<lparr>trail_label = crumb_text l (match_params m), trail_path = coalesce p (Str (match_pathname m))\<rparr>)"

definition useBreadcrumbs :: "route_match list \<Rightarrow> trail_item list" where
  "useBreadcrumbs ms =
     map (\<lambda>m. trail_entry m (the (match_crumb m))) (filter (\<lambda>m. match_crumb m \<noteq> None) ms)"

definition BreadcrumbsItem :: "trail_item \<Rightarrow> js" where
  "BreadcrumbsItem b = elem ''Link'' [P ''to'' (trail_path b)] [trail_label b]"

definition home_link :: js where
  "home_link = elem ''Link''
     [P ''to'' (pathname (generateAbsoluteRouterPath (router_path [''clusters'', ''absolutePath'']) Undef))]
     [elem ''Icon'' [] [elem ''HomeOutlinedIcon'' [] []]]"

definition crumb_view :: "nat \<Rightarrow> trail_item list \<Rightarrow> js" where
  "crumb_view index bs =
     (if int index = int (length bs) - 1
      then elem ''Typography'' [P ''key'' (trail_path (bs ! index))] [trail_label (bs ! index)]
      else elem ''BreadcrumbsItem''
             [P ''key'' (trail_path (bs ! index)), P ''label'' (trail_label (bs ! index)), P ''path'' (trail_path (bs ! index))] [])"

definition Breadcrumbs :: "route_match list \<Rightarrow> js" where
  "Breadcrumbs ms =
     (let breadcrumbs = useBreadcrumbs ms
      in elem ''MaterialBreadcrumbs'' []
           [home_link, Arr (map (\<lambda>index. crumb_view index breadcrumbs) [0..<length breadcrumbs])])"

section \<open>The sidebar\<close>

definition sidebarData :: "(string \<times> js \<times> string) list" where
  "sidebarData =
     [(''ClustersIcon'', tr ''clusters'' [P ''ns'' (Str ''clusters'')], router_path [''clusters'', ''absolutePath'']),
      (''OperationsIcon'', tr ''operations'' [P ''ns'' (Str ''operations'')], router_path [''operations'', ''absolutePath'']),
      (''SettingsIcon'', tr ''settings'' [P ''ns'' (Str ''settings'')], router_path [''settings'', ''absolutePath''])]"

definition sidebarLowData :: "(string \<times> js \<times> string) list" where
  "sidebarLowData =
     [(''GithubIcon'', tr ''github'' [P ''ns'' (Str ''shared'')], ''https://github.com/vitabaks/autobase''),
      (''DocumentationIcon'', tr ''documentation'' [P ''ns'' (Str ''shared'')], ''https://autobase.tech/docs''),
      (''SupportIcon'', tr ''support'' [P ''ns'' (Str ''shared'')], ''https://autobase.tech/docs/support''),
      (''SponsorIcon'', tr ''sponsor'' [P ''ns'' (Str ''shared'')], ''https://autobase.tech/docs/sponsor'')]"

text \<open>The state of the sidebar; \<open>narrow\<close> is what the media query says at the render.\<close>

record sidebar =
  side_store :: storage
  isCollapsed :: bool
  narrow :: bool

definition toggleSidebarCollapse :: "sidebar \<Rightarrow> sidebar" where
  "toggleSidebarCollapse s =
     (let newValue = (\<not> isCollapsed s)
      in s\<lparr>side_store := setItem (side_store s) ''isSidebarCollapsed'' (js_str (Bool newValue)),
           isCollapsed := newValue\<rparr>)"

definition sidebar_effect :: "sidebar \<Rightarrow> sidebar" where
  "sidebar_effect s =
     (if (\<not> isCollapsed s \<and> narrow s) \<or> (isCollapsed s \<and> \<not> narrow s) then toggleSidebarCollapse s else s)"

text \<open>A mount runs the effect, and so does a render at which the query's answer has changed.\<close>

definition mount_sidebar :: "storage \<Rightarrow> bool \<Rightarrow> sidebar" where
  "mount_sidebar st isLesserThan1600 = sidebar_effect
     \<lparr>side_store = st, isCollapsed = flag_item st ''isSidebarCollapsed'', narrow = isLesserThan1600\<rparr>"

definition render_sidebar :: "bool \<Rightarrow> sidebar \<Rightarrow> sidebar" where
  "render_sidebar isLesserThan1600 s =
     (if isLesserThan1600 = narrow s then s else sidebar_effect (s\<lparr>narrow := isLesserThan1600\<rparr>))"

definition isActive :: "string \<Rightarrow> string \<Rightarrow> bool" where
  "isActive location p = contains p location"

text \<open>Of the styles only those that depend on the state are kept, as properties of the element.\<close>

definition SidebarItemContent :: "string \<Rightarrow> js \<Rightarrow> string \<Rightarrow> js \<Rightarrow> bool \<Rightarrow> bool \<Rightarrow> js" where
  "SidebarItemContent icon lbl p target active collapsed =
     elem ''ListItemButton''
       [P ''borderLeft'' (Fn ''concat'' [Str ''3px solid '', if active then Fn ''theme.palette.primary.main'' [] else Str ''transparent'']),
        P ''to'' (Str p), P ''target'' target, P ''component'' (Fn ''Link'' [])]
       [elem ''ListItemIcon'' [] [elem icon [] []],
        when_js (\<not> collapsed) (elem ''ListItemText'' [P ''primary'' lbl] [])]"

definition SidebarItem :: "string \<times> js \<times> string \<Rightarrow> js \<Rightarrow> bool \<Rightarrow> bool \<Rightarrow> js" where
  "SidebarItem item target active collapsed =
     (case item of (icon, lbl, p) \<Rightarrow> elem ''ListItem''
       [P ''key'' (Fn ''concat'' [lbl, Str p]), P ''disablePadding'' (Bool True),
        P ''background'' (if active then Fn ''theme.palette.primary.lighter10'' [] else Str ''none'')]
       [(if collapsed
         then elem ''Tooltip'' [P ''title'' lbl, P ''placement'' (Str ''right'')]
                [elem ''Box'' [] [SidebarItemContent icon lbl p target active True]]
         else SidebarItemContent icon lbl p target active False)])"

definition sidebar_width :: "bool \<Rightarrow> string" where
  "sidebar_width collapsed = (if collapsed then ''66px'' else ''222px'')"

definition Sidebar :: "string \<Rightarrow> sidebar \<Rightarrow> js" where
  "Sidebar location s = elem ''Drawer''
     [P ''variant'' (Str ''permanent''), P ''width'' (Str (sidebar_width (isCollapsed s)))]
     [view ''Toolbar'',
      elem ''Stack'' []
        [elem ''List'' [] [Arr (map (\<lambda>item. SidebarItem item Undef (isActive location (snd (snd item))) (isCollapsed s)) sidebarData)],
         view ''Box'', view ''Divider'',
         elem ''List'' [] [Arr (map (\<lambda>item. SidebarItem item (Str ''_blank'') False (isCollapsed s)) sidebarLowData)],
         view ''Divider'',
         elem ''IconButton''
           [P ''transform'' (Str (if isCollapsed s then ''scale(-1, 1)'' else ''none'')),
            P ''onClick'' (Fn ''toggleSidebarCollapse'' [])] [view ''CollapseIcon'']]]"

section \<open>Layout, the settings tabs and the page for unknown paths\<close>

definition Main_page :: "js" where
  "Main_page = elem ''main'' []
     [elem ''Stack'' []
       [view ''Toolbar'', view ''Breadcrumbs'', view ''Divider'', suspended_outlet]]"

definition Layout :: js where
  "Layout = elem ''div'' [] [view ''Header'', view ''Sidebar'', view ''Main'']"

definition settingsTabsContent :: "(string \<times> string) list" where
  "settingsTabsContent =
     [(''generalSettings'', router_path [''settings'', ''general'', ''absolutePath'']),
      (''secrets'', router_path [''settings'', ''secrets'', ''absolutePath'']),
      (''projects'', router_path [''settings'', ''projects'', ''absolutePath'']),
      (''environments'', router_path [''settings'', ''environments'', ''absolutePath''])]"

definition Settings :: "string \<Rightarrow> js" where
  "Settings location = fragment
     [elem ''Tabs'' [P ''value'' (Str location)]
        [Arr (map (\<lambda>(translateKey, p). elem ''Tab''
           [P ''key'' (Str p), P ''label'' (tr translateKey []), P ''value'' (Str p),
            P ''to'' (generateAbsoluteRouterPath p Undef), P ''component'' (Fn ''Link'' [])] []) settingsTabsContent)],
      view ''Divider'', view ''Outlet'']"

definition handleReturnButton :: "('w world_scheme, js) action" where
  "handleReturnButton = emit (Navigate (generateAbsoluteRouterPath (router_path [''clusters'', ''absolutePath'']) Undef))"

definition Page404 :: js where
  "Page404 = elem ''Container'' []
     [elem ''Box'' []
       [view ''Illustration'',
        elem ''Box'' []
          [elem ''Typography'' [P ''variant'' (Str ''h4'')] [tr ''404Title'' []],
           elem ''Typography'' [] [tr ''404Text'' []],
           elem ''Box'' []
             [elem ''Button'' [P ''variant'' (Str ''contained''), P ''onClick'' (Fn ''handleReturnButton'' [])]
               [tr ''404ButtonText'' []]]]]]"


section \<open>Sections\<close>

text \<open>\<open>fill\<close> is what react-router documents of \<open>generatePath\<close> for one parameter.\<close>

definition fill :: "string \<Rightarrow> string \<Rightarrow> string" where
  "fill i p = join_with ''/'' (map (\<lambda>s. if starts_with '':'' s then i else s) (split_on (\<lambda>c. c = CHR ''/'') p))"

lemma contains_skip: "CHR ''/'' \<notin> set i \<Longrightarrow> contains (CHR ''/'' # w) (i @ t) = contains (CHR ''/'' # w) t"
  by (induction i) (auto simp: starts_with_def)

lemma digits_no_slash: "all_digits i \<Longrightarrow> CHR ''/'' \<notin> set i"
  by (auto simp: all_digits_def list_all_iff is_digit_def)

lemma contains_segment:
  "CHR ''/'' \<notin> set a \<Longrightarrow>
     contains (CHR ''/'' # w) (CHR ''/'' # a @ t) \<longleftrightarrow> starts_with w (a @ t) \<or> contains (CHR ''/'' # w) t"
  by (simp add: contains_skip starts_with_def)

text \<open>No section of the sidebar begins with a digit.\<close>

lemma starts_number: "all_digits i \<Longrightarrow> \<not> is_digit c \<Longrightarrow> \<not> starts_with (c # cs) (i @ t)"
  by (cases i) (auto simp: starts_with_def all_digits_def)

lemma contains_numbered:
  assumes "all_digits i" "\<not> is_digit c" "CHR ''/'' \<notin> set a" "CHR ''/'' \<notin> set b"
  shows "contains (CHR ''/'' # c # cs) (CHR ''/'' # a @ CHR ''/'' # i @ CHR ''/'' # b)
    \<longleftrightarrow> starts_with (c # cs) (a @ CHR ''/'' # i @ CHR ''/'' # b) \<or> starts_with (c # cs) b"
  using contains_segment [OF assms(3), of "c # cs" "CHR ''/'' # i @ CHR ''/'' # b"]
    contains_segment [OF digits_no_slash [OF assms(1)], of "c # cs" "CHR ''/'' # b"]
    contains_segment [OF assms(4), of "c # cs" "[]"] starts_number [OF assms(1,2)]
  by simp

definition active_items :: "string \<Rightarrow> string list" where
  "active_items location = filter (isActive location) (map (\<lambda>(icon, lbl, p). p) sidebarData)"

definition section_of :: "string \<Rightarrow> string" where
  "section_of p = ''/'' @ (split_on (\<lambda>c. c = CHR ''/'') p ! 1)"

lemma active_items_eq:
  "active_items location =
     (if contains ''/clusters'' location then [''/clusters''] else [])
     @ (if contains ''/operations'' location then [''/operations''] else [])
     @ (if contains ''/settings'' location then [''/settings''] else [])"
  by (simp add: active_items_def sidebarData_def isActive_def)

lemma active_overview:
  assumes "all_digits i"
  shows "active_items (''/clusters/'' @ i @ ''/overview'') = [''/clusters'']"
proof -
  note numbered = contains_numbered [OF assms, where a = "''clusters''" and b = "''overview''"]
  show ?thesis
    using numbered [of "CHR ''c''" "''lusters''"] numbered [of "CHR ''o''" "''perations''"]
      numbered [of "CHR ''s''" "''ettings''"]
    by (simp add: active_items_eq is_digit_def starts_with_def del: contains.simps)
qed

lemma active_log:
  assumes "all_digits i"
  shows "active_items (''/operations/'' @ i @ ''/log'') = [''/operations'']"
proof -
  note numbered = contains_numbered [OF assms, where a = "''operations''" and b = "''log''"]
  show ?thesis
    using numbered [of "CHR ''c''" "''lusters''"] numbered [of "CHR ''o''" "''perations''"]
      numbered [of "CHR ''s''" "''ettings''"]
    by (simp add: active_items_eq is_digit_def starts_with_def del: contains.simps)
qed

lemma fill_plain [simp]:
  "fill i ''/clusters'' = ''/clusters''" "fill i ''/clusters/add'' = ''/clusters/add''"
  "fill i ''/operations'' = ''/operations''" "fill i ''/settings'' = ''/settings''"
  "fill i ''/settings/general'' = ''/settings/general''" "fill i ''/settings/secrets'' = ''/settings/secrets''"
  "fill i ''/settings/projects'' = ''/settings/projects''"
  "fill i ''/settings/environments'' = ''/settings/environments''"
  "fill i ''/clusters/:clusterId/overview'' = ''/clusters/'' @ i @ ''/overview''"
  "fill i ''/operations/:operationId/log'' = ''/operations/'' @ i @ ''/log''"
  by (simp_all add: fill_def starts_with_def)

text \<open>
  On every private page but the home page, which redirects, exactly one item of the sidebar is
  active, the one of the page's own section, whatever the number of the cluster or operation in the
  path. The items are compared with \<open>includes\<close>, so this fails for identifiers that are names.
\<close>

theorem one_active_section:
  assumes "all_digits i" "p \<in> page_path ` set private_pages" "p \<noteq> ''/''"
  shows "active_items (fill i p) = [section_of p]"
proof -
  have "p \<in> set (map page_path private_pages)" using assms(2) by simp
  then show ?thesis
    using assms(3) unfolding private_paths
    by (auto simp: section_of_def active_overview [OF assms(1), simplified] active_log [OF assms(1), simplified])
       (simp_all add: active_items_eq starts_with_def)
qed

theorem one_active_section_witness:
  "active_items ''/clusters/17/overview'' = [''/clusters'']"
proof -
  have "''/clusters/:clusterId/overview'' \<in> page_path ` set private_pages"
    unfolding set_map [symmetric] private_paths by simp
  from one_active_section [OF _ this, of "''17''"] show ?thesis
    by (simp add: all_digits_def is_digit_def section_of_def)
qed

text \<open>
  The collapse state a user chooses is stored and never used: whatever is stored, opening the page
  shows the sidebar collapsed exactly on a narrow screen and overwrites the stored choice with that.
\<close>

theorem sidebar_choice_is_lost:
  "isCollapsed (toggleSidebarCollapse (mount_sidebar st n)) = (\<not> n)
   \<and> flag_item (side_store (toggleSidebarCollapse (mount_sidebar st n))) ''isSidebarCollapsed'' = (\<not> n)
   \<and> isCollapsed (mount_sidebar (side_store (toggleSidebarCollapse (mount_sidebar st n))) n) = n
   \<and> flag_item (side_store (mount_sidebar (side_store (toggleSidebarCollapse (mount_sidebar st n))) n))
        ''isSidebarCollapsed'' = n"
  by (cases n; cases "flag_item st ''isSidebarCollapsed''")
     (simp_all add: mount_sidebar_def sidebar_effect_def toggleSidebarCollapse_def flag_item_def)

text \<open>The state on screen is the stored one, and follows the screen whenever its width class changes.\<close>

lemma sidebar_agrees:
  "isCollapsed (mount_sidebar st n) = flag_item (side_store (mount_sidebar st n)) ''isSidebarCollapsed''"
  "isCollapsed s = flag_item (side_store s) ''isSidebarCollapsed'' \<Longrightarrow>
     isCollapsed (toggleSidebarCollapse s) = flag_item (side_store (toggleSidebarCollapse s)) ''isSidebarCollapsed''"
  "n \<noteq> narrow s \<Longrightarrow> isCollapsed (render_sidebar n s) = n"
  by (auto simp: mount_sidebar_def render_sidebar_def sidebar_effect_def toggleSidebarCollapse_def flag_item_def)

text \<open>Every page of the settings has its tab, and every tab leads to a page.\<close>

lemma settings_tabs:
  "set (map snd settingsTabsContent) = page_path ` {p \<in> set all_pages. behind ''Settings'' p} - {''/settings''}"
proof -
  have "map page_path (filter (behind ''Settings'') all_pages) =
      [''/settings'', ''/settings/general'', ''/settings/secrets'', ''/settings/projects'', ''/settings/environments'']"
    by (simp add: all_pages_def route_defs join_path_def starts_with_def behind_def)
  then have "set (map page_path (filter (behind ''Settings'') all_pages)) =
      {''/settings'', ''/settings/general'', ''/settings/secrets'', ''/settings/projects'', ''/settings/environments''}"
    by simp
  then show ?thesis by (simp add: settingsTabsContent_def insert_commute)
qed

end
