(* ===== verification/Hooks.thy ===== *)
theory Hooks
  imports Effects Ui Api
begin

text \<open>
  The shared hooks (\<open>shared/lib/hooks.tsx\<close>) and what uses them: polling of a query, with the
  page of an operation's log that stops it, and the clipboard. The browser's timers are the list of the
  intervals that run; an interval refetches the query at every tick. React runs the effect of
  \<open>useQueryPolling\<close> again when its \<open>options\<close> differ from those of the render before: an
  object literal in the call is a new object at every render, and without options they never change.
\<close>

section \<open>Polling\<close>

record poller =
  running :: "nat list"
  next_id :: nat
  own :: "nat option"
  refetched :: nat

definition setInterval :: "'a poller_scheme \<Rightarrow> 'a poller_scheme" where
  "setInterval p = p\<lparr>running := running p @ [next_id p], next_id := next_id p + 1\<rparr>"

definition clearInterval :: "nat \<Rightarrow> 'a poller_scheme \<Rightarrow> 'a poller_scheme" where
  "clearInterval i p = p\<lparr>running := filter (\<lambda>j. j \<noteq> i) (running p)\<rparr>"

text \<open>The effect, and the function it returns, which React calls before the next run and at the end.\<close>

definition polling_effect :: "js \<Rightarrow> 'a poller_scheme \<Rightarrow> 'a poller_scheme" where
  "polling_effect options p =
     (let polling = next_id p;
          p' = setInterval p;
          p'' = if js_str (get options ''stop'') = ''true'' then clearInterval polling p' else p'
      in p''\<lparr>own := Some polling\<rparr>)"

definition polling_cleanup :: "'a poller_scheme \<Rightarrow> 'a poller_scheme" where
  "polling_cleanup p = (case own p of Some polling \<Rightarrow> clearInterval polling p | None \<Rightarrow> p)"

definition useQueryPolling :: "bool \<Rightarrow> js \<Rightarrow> 'a poller_scheme \<Rightarrow> 'a poller_scheme" where
  "useQueryPolling first options p =
     (if first \<or> options \<noteq> Undef then polling_effect options (polling_cleanup p) else p)"

definition tick :: "'a poller_scheme \<Rightarrow> 'a poller_scheme" where
  "tick p = p\<lparr>refetched := refetched p + length (running p)\<rparr>"

lemmas polling_defs = setInterval_def clearInterval_def polling_effect_def polling_cleanup_def
  useQueryPolling_def Let_def

definition idle :: poller where
  "idle = \<lparr>running = [], next_id = 1, own = None, refetched = 0\<rparr>"

section \<open>The log of an operation\<close>

record log_page = poller +
  isStopRequest :: bool
  log_data :: js
  seen_complete :: "js option"

text \<open>
  The effects of one render: the one of the hook, then the one of the page, which runs when
  \<open>log.data?.isComplete\<close> has changed.
\<close>

definition log_effects :: "bool \<Rightarrow> log_page \<Rightarrow> log_page" where
  "log_effects first s =
     (let s' = useQueryPolling first (obj [P ''stop'' (Bool (isStopRequest s))]) s;
          isComplete = get (log_data s) ''isComplete''
      in if seen_complete s \<noteq> Some isComplete
         then s'\<lparr>isStopRequest := truthy isComplete, seen_complete := Some isComplete\<rparr> else s')"

text \<open>A changed state renders the page once more.\<close>

definition log_render :: "bool \<Rightarrow> log_page \<Rightarrow> log_page" where
  "log_render first s =
     (let s' = log_effects first s
      in if isStopRequest s' \<noteq> isStopRequest s then log_effects False s' else s')"

definition open_log :: "js \<Rightarrow> log_page" where
  "open_log data = log_render True (poller.extend idle
     \<lparr>isStopRequest = False, log_data = data, seen_complete = None\<rparr>)"

datatype log_event = Log_answer js | Log_rerender | Log_tick

fun log_step :: "log_event \<Rightarrow> log_page \<Rightarrow> log_page" where
  "log_step (Log_answer data) s = log_render False (s\<lparr>log_data := data\<rparr>)"
| "log_step Log_rerender s = log_render False s"
| "log_step Log_tick s = tick s"

definition close_log :: "log_page \<Rightarrow> log_page" where
  "close_log s = polling_cleanup s"

definition OperationLog :: "log_page \<Rightarrow> js" where
  "OperationLog s = elem ''Box'' []
     [elem ''LazyLog''
        [P ''follow'' (Bool True), P ''scrollToAlignment'' (Str ''end''),
         P ''text'' (coalesce (get (log_data s) ''log'') (Str [CHR 0x09])),
         P ''extraLines'' (Num 1), P ''overscanRowCount'' (Num 10), P ''caseInsensitive'' (Bool True),
         P ''selectableLines'' (Bool True), P ''enableSearch'' (Bool True)] []]"

definition log_complete :: "log_page \<Rightarrow> bool" where
  "log_complete s \<longleftrightarrow> truthy (get (log_data s) ''isComplete'')"

definition log_invariant :: "log_page \<Rightarrow> bool" where
  "log_invariant s \<longleftrightarrow>
     seen_complete s = Some (get (log_data s) ''isComplete'')
     \<and> isStopRequest s = log_complete s
     \<and> (\<exists>i. own s = Some i \<and> i < next_id s \<and> running s = (if log_complete s then [] else [i]))"

inductive log_reachable :: "log_page \<Rightarrow> bool" where
  open_page: "log_reachable (open_log data)"
| step: "log_reachable s \<Longrightarrow> log_reachable (log_step e s)"

text \<open>What is between two renders: at most the interval of the last effect runs.\<close>

definition one_timer :: "log_page \<Rightarrow> bool" where
  "one_timer s \<longleftrightarrow> (case own s of Some i \<Rightarrow> i < next_id s \<and> set (running s) \<subseteq> {i} | None \<Rightarrow> running s = [])"

lemma obj_defined [simp]: "obj ps \<noteq> Undef"
  by (simp add: obj_def)

lemma polling_runs:
  assumes "one_timer s"
  shows "own (useQueryPolling first (obj [P ''stop'' (Bool b)]) s) = Some (next_id s)"
    and "next_id (useQueryPolling first (obj [P ''stop'' (Bool b)]) s) = next_id s + 1"
    and "running (useQueryPolling first (obj [P ''stop'' (Bool b)]) s) = (if b then [] else [next_id s])"
proof -
  have none_left: "filter (\<lambda>j. j \<noteq> i) (running s) = []" if "own s = Some i" for i
    using assms that by (auto simp: one_timer_def filter_empty_conv)
  show "own (useQueryPolling first (obj [P ''stop'' (Bool b)]) s) = Some (next_id s)"
    "next_id (useQueryPolling first (obj [P ''stop'' (Bool b)]) s) = next_id s + 1"
    by (simp_all add: polling_defs split: option.split)
  show "running (useQueryPolling first (obj [P ''stop'' (Bool b)]) s) = (if b then [] else [next_id s])"
    using assms none_left by (cases "own s") (simp_all add: polling_defs one_timer_def get_obj)
qed

lemma useQueryPolling_fields [simp]:
  "log_data (useQueryPolling first options s) = log_data s"
  "isStopRequest (useQueryPolling first options s) = isStopRequest s"
  "seen_complete (useQueryPolling first options s) = seen_complete s"
  by (simp_all add: polling_defs split: option.split)

lemma log_effects_fields:
  assumes "one_timer s"
  shows "own (log_effects first s) = Some (next_id s)"
    and "next_id (log_effects first s) = next_id s + 1"
    and "running (log_effects first s) = (if isStopRequest s then [] else [next_id s])"
    and "log_data (log_effects first s) = log_data s"
    and "seen_complete (log_effects first s) = Some (get (log_data s) ''isComplete'')"
    and "isStopRequest (log_effects first s) =
      (if seen_complete s = Some (get (log_data s) ''isComplete'') then isStopRequest s else log_complete s)"
  using polling_runs [OF assms] by (simp_all add: log_effects_def log_complete_def Let_def)

lemma effects_one_timer: "one_timer s \<Longrightarrow> one_timer (log_effects first s)"
  by (simp add: one_timer_def log_effects_fields)

lemma log_render_invariant:
  assumes "one_timer s"
    and "seen_complete s = Some (get (log_data s) ''isComplete'') \<Longrightarrow> isStopRequest s = log_complete s"
  shows "log_invariant (log_render first s)"
  using assms log_effects_fields [OF assms(1), of first]
    log_effects_fields [OF effects_one_timer [OF assms(1)], of False first]
  by (auto simp: log_render_def log_invariant_def Let_def log_complete_def)

lemma invariant_one_timer: "log_invariant s \<Longrightarrow> one_timer s"
  by (auto simp: log_invariant_def one_timer_def)

lemma log_step_invariant: "log_invariant s \<Longrightarrow> log_invariant (log_step e s)"
proof (cases e)
  case (Log_answer data)
  assume inv: "log_invariant s"
  then have "one_timer (s\<lparr>log_data := data\<rparr>)"
    using invariant_one_timer [OF inv] by (simp add: one_timer_def split: option.splits)
  then have "log_invariant (log_render False (s\<lparr>log_data := data\<rparr>))"
    by (rule log_render_invariant) (use inv in \<open>simp add: log_invariant_def log_complete_def\<close>)
  with Log_answer show ?thesis by simp
next
  case Log_rerender
  assume inv: "log_invariant s"
  have "log_invariant (log_render False s)"
    by (rule log_render_invariant [OF invariant_one_timer [OF inv]]) (use inv in \<open>simp add: log_invariant_def\<close>)
  with Log_rerender show ?thesis by simp
next
  case Log_tick
  assume "log_invariant s"
  with Log_tick show ?thesis by (simp add: tick_def log_invariant_def log_complete_def)
qed

lemma log_invariant: "log_reachable s \<Longrightarrow> log_invariant s"
proof (induction rule: log_reachable.induct)
  case (open_page data)
  show ?case unfolding open_log_def
    by (rule log_render_invariant) (simp_all add: idle_def poller.defs one_timer_def)
qed (rule log_step_invariant)

text \<open>
  C34: over any sequence of answers, renders and ticks, the page of an operation's log polls exactly as
  long as the last answer is not complete, with one interval and never two: a tick refetches once or not
  at all, and when the page is left no interval is left behind.
\<close>

theorem log_polls_until_complete:
  assumes "log_reachable s"
  shows "refetched (log_step Log_tick s) = refetched s + (if log_complete s then 0 else 1)
    \<and> length (running s) = (if log_complete s then 0 else 1)
    \<and> running (close_log s) = []"
  using log_invariant [OF assms]
  by (auto simp: log_invariant_def tick_def close_log_def polling_cleanup_def clearInterval_def)

definition log_answer :: "string \<Rightarrow> js \<Rightarrow> js" where
  "log_answer text header = transform_log (Str text) header"

theorem log_polls_until_complete_witness:
  "refetched (log_step Log_tick (log_step (Log_answer (log_answer ''ok'' Null)) (open_log Undef))) = 1
   \<and> refetched (log_step Log_tick
        (log_step (Log_answer (log_answer ''done'' (Str ''true''))) (open_log Undef))) = 0"
proof -
  have reach: "log_reachable (log_step (Log_answer d) (open_log Undef))" for d
    by (intro log_reachable.intros)
  have fetched: "refetched (log_step (Log_answer d) (open_log Undef)) = 0" for d
    by (simp add: open_log_def log_render_def log_effects_def polling_defs idle_def poller.defs split: option.split)
  have data: "log_data (log_step (Log_answer d) (open_log Undef)) = d" for d
    by (simp add: log_render_def log_effects_def Let_def)
  show ?thesis
    using log_polls_until_complete [OF reach, of "log_answer ''ok'' Null"]
      log_polls_until_complete [OF reach, of "log_answer ''done'' (Str ''true'')"]
    unfolding fetched log_complete_def data by (simp add: log_answer_def transform_log_def get_obj)
qed

section \<open>The clipboard\<close>

text \<open>
  What the browser does: whether \<open>navigator.clipboard\<close> is there and the context is secure, and
  what \<open>writeText\<close> and \<open>document.execCommand\<close> answer or throw.
\<close>

record browser =
  has_clipboard :: bool
  isSecureContext :: bool
  writeText :: "string \<Rightarrow> js res"
  execCommand :: "string \<Rightarrow> js res"

record copy_state = world +
  copiedText :: js

definition copy_text_area :: "browser \<Rightarrow> string \<Rightarrow> (copy_state, js) action" where
  "copy_text_area b text =
     seq (emit (Call ''document.createElement'' [Str ''textarea'', Str text]))
     (seq (emit (Call ''document.body.appendChild'' [Str ''textarea'']))
     (seq (emit (Call ''textArea.focus'' []))
     (seq (emit (Call ''textArea.select'' []))
     (seq (lift_res (execCommand b ''copy''))
          (emit (Call ''textArea.remove'' []))))))"

definition copyFunction :: "browser \<Rightarrow> string \<Rightarrow> (copy_state, js) action" where
  "copyFunction b text =
     catch
       (seq (if has_clipboard b \<and> isSecureContext b then lift_res (writeText b text) else copy_text_area b text)
       (seq (modify (\<lambda>s. s\<lparr>copiedText := Str text\<rparr>))
       (seq (emit (Toast ''success'' (tr ''valueCopiedToClipboard'' [])))
            (ret (Bool True)))))
       (\<lambda>error.
        seq (emit (Call ''console.warn'' [Str ''Copy failed'', exn_js error]))
       (seq (emit (Toast ''error'' (tr ''failedToCopyToClipboard'' [])))
       (seq (modify (\<lambda>s. s\<lparr>copiedText := Null\<rparr>))
            (ret (Bool False)))))"

definition CopyIcon :: "js \<Rightarrow> js" where
  "CopyIcon valueToCopy = elem ''Box'' [P ''onClick'' (Fn ''copyFunction'' [valueToCopy])] [elem ''CopyValueIcon'' [] []]"

text \<open>The result, the toast and the stored text say the same, and no exception leaves the handler.\<close>

lemma copyFunction_result:
  "(let r = (if has_clipboard b \<and> isSecureContext b then writeText b text else execCommand b ''copy'') in
    fst (copyFunction b text s) = Ok (Bool (is_ok r))
    \<and> copiedText (snd (copyFunction b text s)) = (if is_ok r then Str text else Null))"
  by (auto simp: copyFunction_def copy_text_area_def run_simps split: res.split)

definition insecure :: "js res \<Rightarrow> browser \<Rightarrow> browser" where
  "insecure answer b = b\<lparr>isSecureContext := False, execCommand := (\<lambda>command. answer)\<rparr>"

text \<open>
  Where the page is not served securely a browser refuses a copy by answering false, which is not
  read: the handler returns true and tells the user that the value was copied. Where it throws instead,
  the handler reports the failure but leaves the text area in the page.
\<close>

theorem refused_copy_reported_as_success:
  "(let (r, s') = copyFunction (insecure (Ok (Bool False)) b) text s in
      r = Ok (Bool True) \<and> copiedText s' = Str text
      \<and> last (trace s') = Toast ''success'' (tr ''valueCopiedToClipboard'' []))
   \<and> (let (r, s') = copyFunction (insecure (Throw e) b) text s;
           es = drop (length (trace s)) (trace s') in
        r = Ok (Bool False) \<and> Call ''document.body.appendChild'' [Str ''textarea''] \<in> set es
        \<and> Call ''textArea.remove'' [] \<notin> set es)"
  by (simp add: insecure_def copyFunction_def copy_text_area_def run_simps)

end
