(* ===== verification/BlockViews.thy ===== *)
theory BlockViews
  imports AuthBlock Sliders DatabaseViews ClusterViews
begin

text \<open>
  What the remaining blocks of the cluster form show: one field each (name, description, environment,
  version, key, address, network), the boxes and tabs of providers, regions and instances, the dialogs of
  parameters, and the data directory with its effect. An item of a list the server sends is an object. Of
  the styles only those that depend on the state are kept, as properties of the element.
\<close>

section \<open>Blocks of one field\<close>

definition titled :: "js list \<Rightarrow> js list \<Rightarrow> js" where
  "titled title content = elem ''Box'' [] (elem ''Typography'' [P ''fontWeight'' (Str ''bold'')] title # content)"

definition message :: "js \<Rightarrow> string \<Rightarrow> js" where
  "message errors name = get (get errors name) ''message''"

definition ClusterFormClusterNameBlock :: "js \<Rightarrow> js \<Rightarrow> js" where
  "ClusterFormClusterNameBlock values errors = titled [tr ''clusterName'' [], Str ''*'']
     [controller values CF_CLUSTER_NAME (\<lambda>value onChange. elem ''TextField''
        [P ''size'' (Str ''small''), P ''fullWidth'' (Bool True), P ''value'' value, P ''onChange'' onChange,
         P ''error'' (has_error errors CF_CLUSTER_NAME), P ''helperText'' (message errors CF_CLUSTER_NAME)] [])]"

definition description_field :: "js \<Rightarrow> js" where
  "description_field values = titled [tr ''description'' []]
     [controller values CF_DESCRIPTION (\<lambda>value onChange. elem ''TextField''
        [P ''multiline'' (Bool True), P ''minRows'' (Num 1), P ''maxRows'' (Num 6), P ''fullWidth'' (Bool True),
         P ''value'' value, P ''onChange'' onChange, P ''placeholder'' (tr ''descriptionPlaceholder'' [])] [])]"

definition ClusterDescriptionBlock :: "js \<Rightarrow> js" where
  "ClusterDescriptionBlock values = description_field values"

definition ClusterNameDescriptionBlock :: "js \<Rightarrow> js" where
  "ClusterNameDescriptionBlock values = description_field values"

definition ClusterFormEnvironmentBlock :: "js \<Rightarrow> js list \<Rightarrow> js" where
  "ClusterFormEnvironmentBlock values environments = titled [tr ''environment'' []]
     [controller values CF_ENVIRONMENT_ID (\<lambda>value onChange. elem ''Select''
        [P ''value'' value, P ''onChange'' onChange, P ''size'' (Str ''small''), P ''fullWidth'' (Bool True)]
        [Arr (map (\<lambda>environment. menu_item (get environment ''id'') (get environment ''name'')) environments)])]"

definition PostgresVersionBox :: "js \<Rightarrow> js \<Rightarrow> js list \<Rightarrow> js" where
  "PostgresVersionBox values errors postgresVersions = titled [tr ''postgresVersion'' []]
     [controller values CF_POSTGRES_VERSION (\<lambda>value onChange. elem ''Select''
        [P ''size'' (Str ''small''), P ''fullWidth'' (Bool True), P ''value'' value, P ''onChange'' onChange,
         P ''error'' (has_error errors CF_POSTGRES_VERSION), P ''helperText'' (message errors CF_POSTGRES_VERSION)]
        [Arr (map (\<lambda>version. menu_item (get version ''major_version'') (get version ''major_version'')) postgresVersions)])]"

definition ClusterFormSshKeyBlock :: "js \<Rightarrow> js \<Rightarrow> js" where
  "ClusterFormSshKeyBlock values errors = titled [tr ''sshPublicKey'' [], Str ''*'']
     [controller values SSH_SSH_PUBLIC_KEY (\<lambda>value onChange. elem ''TextField''
        [P ''fullWidth'' (Bool True), P ''multiline'' (Bool True), P ''minRows'' (Num 3), P ''maxRows'' (Num 6),
         P ''value'' value, P ''placeholder'' (tr ''sshKeyCloudProviderPlaceholder'' []), P ''onChange'' onChange,
         P ''error'' (has_error errors SSH_SSH_PUBLIC_KEY), P ''helperText'' (error_text errors SSH_SSH_PUBLIC_KEY)] [])]"

definition VipAddressBlock :: "js \<Rightarrow> js \<Rightarrow> js" where
  "VipAddressBlock values errors = titled [tr ''clusterVipAddress'' []]
     [controller values CF_CLUSTER_VIP_ADDRESS (\<lambda>value onChange. elem ''TextField''
        [P ''fullWidth'' (Bool True), P ''value'' value, P ''onChange'' onChange,
         P ''error'' (has_error errors CF_CLUSTER_VIP_ADDRESS), P ''helperText'' (error_text errors CF_CLUSTER_VIP_ADDRESS),
         P ''size'' (Str ''small''), P ''placeholder'' (tr ''clusterVipAddressPlaceholder'' [])] [])]"

definition Network :: "js \<Rightarrow> js \<Rightarrow> js" where
  "Network values errors = elem ''Stack'' [P ''gap'' (Num 1)]
     [elem ''Typography'' [P ''fontWeight'' (Str ''bold'')] [tr ''network'' []],
      elem ''Typography'' [] [tr ''networkInfo'' []],
      controller values NET_SERVER_NETWORK (\<lambda>value onChange. elem ''TextField''
        [P ''value'' value, P ''onChange'' onChange, P ''size'' (Str ''small''), P ''label'' (tr ''serverNetwork'' []),
         P ''error'' (has_error errors NET_SERVER_NETWORK), P ''helperText'' (message errors NET_SERVER_NETWORK)] [])]"

section \<open>Boxes to choose from\<close>

definition SelectableBox :: "bool \<Rightarrow> part list \<Rightarrow> js list \<Rightarrow> js" where
  "SelectableBox active ps children = elem ''Box''
     ([P ''border'' (Fn ''concat'' [Str ''2px solid '', Fn (if active then ''theme.palette.primary.main'' else ''theme.palette.divider'') []]),
       P ''tabIndex'' (Num 0), P ''role'' (Str ''button'')] @ ps) children"

definition ClusterFormCloudProviderBox :: "bool \<Rightarrow> part list \<Rightarrow> js list \<Rightarrow> js" where
  "ClusterFormCloudProviderBox active ps children = SelectableBox active ps children"

definition useNameIconProvidersMap :: js where
  "useNameIconProvidersMap = obj
     [P PROV_AWS (Fn ''AWSIcon'' []), P PROV_GCP (Fn ''GCPIcon'' []), P PROV_AZURE (Fn ''AzureIcon'' []),
      P PROV_DIGITAL_OCEAN (Fn ''DigitalOceanIcon'' []), P PROV_HETZNER (Fn ''HetznerIcon'' [])]"

definition provider_box :: "js \<Rightarrow> js \<Rightarrow> js" where
  "provider_box value provider = ClusterFormCloudProviderBox (get value ''code'' = get provider ''code'')
     [P ''key'' (get provider ''code''), P ''onClick'' (Fn ''handleProviderChange'' [provider]),
      P ''name'' (get provider ''description'')]
     [elem ''img'' [P ''src'' (get useNameIconProvidersMap (js_str (get provider ''code''))),
        P ''width'' (Str ''100%''), P ''alt'' (get provider ''description'')] []]"

definition own_machines_box :: "js \<Rightarrow> js" where
  "own_machines_box value = ClusterFormCloudProviderBox (get value ''code'' = Str PROV_LOCAL)
     [P ''onClick'' (Fn ''handleProviderChange'' [local_provider])]
     [elem ''Box'' []
       [elem ''Tooltip'' [P ''title'' (tr ''yourOwnMachinesTooltip'' [])] [elem ''ErrorOutlineOutlinedIcon'' [] []],
        elem ''Stack'' []
          [elem ''ServersIcon'' [] [],
           elem ''Stack'' []
             [elem ''Typography'' [] [tr ''yourOwn'' []], elem ''Typography'' [] [tr ''machines'' []]]]]]"

definition ClusterFormProvidersBlock :: "js \<Rightarrow> js list \<Rightarrow> js" where
  "ClusterFormProvidersBlock values providers = titled [tr ''selectDeploymentDestination'' []]
     [controller values CF_PROVIDER (\<lambda>value onChange. elem ''Stack'' [P ''direction'' (Str ''row'')]
        [Arr (map (provider_box value) providers), own_machines_box value])]"

definition ClusterFormRegionConfigBox :: "js \<Rightarrow> js \<Rightarrow> bool \<Rightarrow> part list \<Rightarrow> js" where
  "ClusterFormRegionConfigBox name place active ps = SelectableBox active ps
     [elem ''Box'' [] [elem ''Typography'' [] [name]],
      elem ''Box'' [] [elem ''FlagsIcon'' [] [], Str ''&nbsp;'', elem ''Typography'' [] [place]]]"

definition CloudFormRegionBlock :: "js \<Rightarrow> js" where
  "CloudFormRegionBlock values = (let regions = elems (regions_of values) in
     titled [tr ''selectCloudRegion'' []]
     [elem ''TabContext'' [P ''value'' (get values CF_REGION)]
       [controller values CF_REGION (\<lambda>value onChange.
          elem ''TabList'' [P ''onChange'' (Fn ''handleRegionChange'' [onChange])]
            [Arr (map (\<lambda>region. elem ''Tab''
               [P ''key'' (get region ''code''), P ''label'' (get region ''name''), P ''value'' (get region ''code'')] []) regions)]),
        elem ''Divider'' [] [],
        controller values CF_REGION_CONFIG (\<lambda>value onChange. fragment
          [Arr (map (\<lambda>region. elem ''TabPanel'' [P ''key'' (get region ''code''), P ''value'' (get region ''code'')]
             [elem ''Stack'' []
               [Arr (map (\<lambda>config. ClusterFormRegionConfigBox (get config ''code'') (get config ''location'')
                  (get value ''code'' = get config ''code'')
                  [P ''key'' (get config ''code''), P ''onClick'' (Fn ''handleRegionConfigChange'' [onChange, config])])
                  (elems (get region ''datacenters'')))]]) regions)])]])"

definition CustomInstance :: "js \<Rightarrow> js \<Rightarrow> js" where
  "CustomInstance values errors = elem ''Stack'' [P ''gap'' (Num 1)]
     [elem ''Typography'' [] [tr ''customInstanceTypeInfo'' []],
      controller values INST_SERVER_TYPE (\<lambda>value onChange. elem ''TextField''
        [P ''value'' value, P ''onChange'' onChange, P ''fullWidth'' (Bool True), P ''label'' (tr ''serverType'' []),
         P ''size'' (Str ''small''), P ''error'' (has_error errors INST_SERVER_TYPE),
         P ''helperText'' (message errors INST_SERVER_TYPE)] [])]"

definition ClusterFromInstanceConfigBox :: "js \<Rightarrow> js \<Rightarrow> js \<Rightarrow> bool \<Rightarrow> part list \<Rightarrow> js" where
  "ClusterFromInstanceConfigBox name cpu ram active ps = SelectableBox active ps
     [elem ''Box'' [] [elem ''Typography'' [] [name]],
      elem ''Stack'' []
        [elem ''Stack'' [] [elem ''CpuIcon'' [] [], elem ''Typography'' [] [cpu, Str ''&nbsp;CPU'']],
         elem ''Stack'' [] [elem ''RamIcon'' [] [], elem ''Typography'' [] [ram, Str '' GB RAM'']]]]"

definition instance_name :: "js \<Rightarrow> js" where
  "instance_name config =
     (if truthy (get config ''shared_cpu'')
      then Fn ''concat'' [get config ''code'', Str '' ('', tr ''sharedVcpu'' [], Str '')'']
      else get config ''code'')"

definition instance_panel :: "js \<Rightarrow> js \<Rightarrow> js \<Rightarrow> js" where
  "instance_panel value onChange configs =
     (case configs of
        Arr cs \<Rightarrow> Arr (map (\<lambda>config. ClusterFromInstanceConfigBox (instance_name config) (get config ''cpu'')
          (get config ''ram'') (get value ''code'' = get config ''code'')
          [P ''key'' (get config ''code''), P ''onClick'' (Fn ''handleInstanceConfigChange'' [onChange, config])]) cs)
      | _ \<Rightarrow> configs)"

definition CloudFormInstancesBlock :: "js \<Rightarrow> js \<Rightarrow> js" where
  "CloudFormInstancesBlock values types = titled [tr ''selectInstanceType'' []]
     [elem ''ErrorBoundary'' [P ''fallback'' (elem ''ErrorBox'' [] [])]
       [elem ''TabContext'' [P ''value'' (get values CF_INSTANCE_TYPE)]
         [controller values CF_INSTANCE_TYPE (\<lambda>value onChange.
            elem ''TabList'' [P ''onChange'' (Fn ''handleInstanceTypeChange'' [onChange])]
              [Arr (map (\<lambda>(key, configs). when_js (truthy configs)
                 (elem ''Tab'' [P ''key'' (Str key), P ''label'' (Str key), P ''value'' (Str key)] [])) (entries types))]),
          elem ''Divider'' [] [],
          controller values CF_INSTANCE_CONFIG (\<lambda>value onChange. fragment
            [Arr (map (\<lambda>(key, configs). elem ''TabPanel'' [P ''key'' (Str key), P ''value'' (Str key)]
               [elem ''Stack'' [] [instance_panel value onChange configs]]) (entries types))])]]]"

section \<open>Dialogs of parameters\<close>

definition handleModalOpenState :: "bool \<Rightarrow> bool \<Rightarrow> bool" where
  "handleModalOpenState isOpen isModalOpen = isOpen"

definition parameters_modal :: "string \<Rightarrow> string \<Rightarrow> string \<Rightarrow> bool \<Rightarrow> js \<Rightarrow> js \<Rightarrow> js" where
  "parameters_modal name title label isModalOpen values errors =
     (let invalid = truthy (get errors name) in fragment
       [elem ''Stack'' []
          [elem ''Button'' [P ''onClick'' (Fn ''handleModalOpenState'' [Bool True]), P ''variant'' (Str ''outlined'')]
             [tr ''configure'' []],
           when_js (truthy (get values name))
             (elem ''Tooltip'' [P ''title'' (tr (if invalid then ''Invalid'' else ''Valid'') [])]
                [elem (if invalid then ''DoNotDisturbAltOutlinedIcon'' else ''DoneOutlinedIcon'') [] []])],
        elem ''Modal'' [P ''open'' (Bool isModalOpen), P ''onClose'' (Fn ''handleModalOpenState'' [Bool False])]
          [elem ''Card'' []
             [elem ''Stack'' []
                [elem ''Typography'' [] [tr title []],
                 controller values name (\<lambda>value onChange. elem ''TextField''
                   [P ''value'' value, P ''onChange'' onChange, P ''fullWidth'' (Bool True), P ''multiline'' (Bool True),
                    P ''rows'' (Num 20), P ''label'' (tr label []), P ''size'' (Str ''small''),
                    P ''error'' (has_error errors name), P ''helperText'' (message errors name)] [])]]]])"

definition ConfigurePostgresParametersModal :: "bool \<Rightarrow> js \<Rightarrow> js \<Rightarrow> js" where
  "ConfigurePostgresParametersModal isModalOpen values errors =
     parameters_modal PG_POSTGRES_PARAMETERS ''configurePostgresParameters'' ''postgresParameters'' isModalOpen values errors"

definition ConfigureKernelParametersModal :: "bool \<Rightarrow> js \<Rightarrow> js \<Rightarrow> js" where
  "ConfigureKernelParametersModal isModalOpen values errors =
     parameters_modal KRN_KERNEL_PARAMETERS ''configureKernelParameters'' ''kernelParameters'' isModalOpen values errors"

definition parameters_block :: "string \<Rightarrow> string \<Rightarrow> js \<Rightarrow> js" where
  "parameters_block title info modal = elem ''Stack'' []
     [elem ''Typography'' [] [tr title []],
      elem ''Stack'' []
        [elem ''Stack'' []
           [elem ''Stack'' [] [elem ''InfoOutlineIcon'' [] [], elem ''Typography'' [] [tr info []]],
            elem ''Typography'' [] [tr ''specifyIfQualified'' []]],
         modal]]"

definition PostgresParametersBlock :: "bool \<Rightarrow> js \<Rightarrow> js \<Rightarrow> js" where
  "PostgresParametersBlock isModalOpen values errors = parameters_block ''postgresParameters'' ''postgresParametersInfo''
     (ConfigurePostgresParametersModal isModalOpen values errors)"

definition KernelParametersBlock :: "bool \<Rightarrow> js \<Rightarrow> js \<Rightarrow> js" where
  "KernelParametersBlock isModalOpen values errors = parameters_block ''kernelParameters'' ''kernelParametersInfo''
     (ConfigureKernelParametersModal isModalOpen values errors)"

section \<open>The data directory\<close>

definition DataDirectoryBlock :: "js \<Rightarrow> js \<Rightarrow> js" where
  "DataDirectoryBlock values errors = titled [tr ''dataDirectory'' []]
     [controller values DIR_DATA_DIRECTORY (\<lambda>value onChange. elem ''TextField''
        [P ''value'' value, P ''onChange'' onChange, P ''fullWidth'' (Bool True),
         P ''placeholder'' (tr ''dataDirectoryPlaceholder'' []), P ''size'' (Str ''small''),
         P ''error'' (has_error errors DIR_DATA_DIRECTORY), P ''helperText'' (message errors DIR_DATA_DIRECTORY)] [])]"

definition default_directory :: "js \<Rightarrow> string" where
  "default_directory version = ''/pgdata/'' @ js_str (coalesce version (Num 18)) @ ''/main''"

definition directory_effect :: "js \<Rightarrow> js" where
  "directory_effect values =
     obj [Spread values, P DIR_DATA_DIRECTORY (Str (default_directory (get values CF_POSTGRES_VERSION)))]"

section \<open>The page\<close>

definition AddCluster :: "bool \<Rightarrow> bool \<Rightarrow> bool \<Rightarrow> js \<Rightarrow> js \<Rightarrow> js" where
  "AddCluster expert yaml loading values clustersForm = elem ''FormProvider'' []
     [if loading then elem ''Spinner'' [] []
      else if expert \<and> yaml
      then elem ''TabContext'' [P ''value'' (get values CF_CREATION_TYPE)]
        [controller values CF_CREATION_TYPE (\<lambda>value onChange.
           elem ''TabList'' [P ''onChange'' (Fn ''handleTabChange'' [onChange])]
             [Arr (map (\<lambda>v. elem ''Tab'' [P ''key'' (Str v), P ''label'' (Str v), P ''value'' (Str v)] [])
                (map snd CLUSTER_CREATION_TYPES))]),
         elem ''Divider'' [] [],
         elem ''TabPanel'' [P ''value'' (Str CREATE_FORM)] [clustersForm],
         elem ''TabPanel'' [P ''value'' (Str CREATE_YAML)] [elem ''YamlEditorForm'' [] []]]
      else clustersForm]"

definition clusters_form :: "js \<Rightarrow> js \<Rightarrow> js \<Rightarrow> js" where
  "clusters_form deploymentsData environmentsData postgresVersionsData = elem ''Stack'' [P ''direction'' (Str ''row'')]
     [elem ''Box'' [P ''width'' (Str ''75vw'')]
        [elem ''ClusterForm''
           [P ''deploymentsData'' (coalesce deploymentsData (Arr [])),
            P ''environmentsData'' (coalesce environmentsData (Arr [])),
            P ''postgresVersionsData'' (coalesce postgresVersionsData (Arr []))] []],
      elem ''ClusterSummary'' [] []]"

definition createClusterButtonHandler :: "('w world_scheme, js) action" where
  "createClusterButtonHandler = emit (Navigate (generateAbsoluteRouterPath ''/clusters/add'' Undef))"

text \<open>The list of clusters is empty: \<open>widgets/clusters-table/ui/ClustersEmptyRowsFallback.tsx\<close>.\<close>

definition ClustersEmptyRowsFallback :: js where
  "ClustersEmptyRowsFallback = elem ''Box'' []
     [elem ''DatabaseIcon'' [] [],
      elem ''Stack'' []
        [elem ''Stack'' []
           [elem ''Typography'' [P ''variant'' (Str ''h5'')] [tr ''noPostgresClustersTitle'' []],
            elem ''Typography'' [] [tr ''noPostgresClustersLine1'' [P ''createCluster'' (tr ''createCluster'' [])]]],
         elem ''Button'' [P ''variant'' (Str ''contained''), P ''onClick'' (Fn ''createClusterButtonHandler'' [])]
           [tr ''createCluster'' []]]]"

end
