(* ===== verification/FormViews.thy ===== *)
theory FormViews
  imports BlockViews ValidationFacts
begin

text \<open>
  The whole cluster form as the user sees it: the blocks the form displays, with the controls they render,
  against the fields its validation requires. The block of the extensions has no validated field.
\<close>

section \<open>The blocks of the form\<close>

record answers_data =
  deployments :: "js list"
  environments_data :: "js list"
  versions :: "js list"

definition block_views :: "bool \<Rightarrow> answers_data \<Rightarrow> js \<Rightarrow> cluster_form \<Rightarrow> js list \<Rightarrow> (string \<times> js) list" where
  "block_views expert data errors s secret_list = (let v = form_values s in
     [(''ClusterFormProvidersBlock'', ClusterFormProvidersBlock v (deployments data)),
      (''ClusterFormRegionBlock'', CloudFormRegionBlock v),
      (''ClusterFormInstancesBlock'', CloudFormInstancesBlock v (instances s)),
      (''InstancesAmountBlock'', InstancesAmountBlock expert (isRightElementNeeded s) v errors),
      (''StorageBlock'', StorageBlock expert s errors),
      (''NetworkBlock'', Network v errors),
      (''ClusterFormSshKeyBlock'', ClusterFormSshKeyBlock v errors),
      (''DatabaseServersBlock'', DatabaseServersBlock expert v errors),
      (''DcsBlock'', DcsBlock v errors (dcs_fields v)),
      (''AuthenticationMethodFormBlock'', AuthenticationMethodFormBlock \<lparr>auth_values = v, secrets = secret_list\<rparr> errors),
      (''VipAddressBlock'', VipAddressBlock v errors),
      (''LoadBalancersBlock'', LoadBalancersBlock expert v errors),
      (''ClusterFormEnvironmentBlock'', ClusterFormEnvironmentBlock v (environments_data data)),
      (''ClusterNameBox'', ClusterFormClusterNameBlock v errors),
      (''ClusterDescriptionBlock'', ClusterDescriptionBlock v),
      (''PostgresVersionBox'', PostgresVersionBox v errors (versions data)),
      (''DataDirectoryBlock'', DataDirectoryBlock v errors),
      (''DatabaseBlock'', DatabaseBlock (\<lambda>_. True) v errors),
      (''ConnectionPoolsBlock'', ConnectionPoolsBlock v errors),
      (''BackupsBlock'', BackupsBlock False v errors),
      (''PostgresParametersBlock'', PostgresParametersBlock False v errors),
      (''KernelParametersBlock'', KernelParametersBlock False v errors),
      (''AdditionalSettingsBlock'', AdditionalSettingsBlock v errors)])"

definition form_tree :: "bool \<Rightarrow> answers_data \<Rightarrow> js \<Rightarrow> js" where
  "form_tree expert data provider = ClusterForm expert (Arr (deployments data)) (Arr (environments_data data))
     (Arr (versions data)) provider (obj []) True False False"

definition displayed :: "bool \<Rightarrow> js \<Rightarrow> string \<Rightarrow> bool" where
  "displayed expert tree tag \<longleftrightarrow> displays tag tree
     \<or> displays ''ClusterFormLocalMachineFormPart'' tree \<and> displays tag (ClusterFormLocalMachineFormPart expert)
     \<or> displays ''ClusterFormCloudProviderFormPart'' tree \<and> displays tag (ClusterFormCloudProviderFormPart expert)"

definition form_controls :: "bool \<Rightarrow> answers_data \<Rightarrow> js \<Rightarrow> cluster_form \<Rightarrow> js list \<Rightarrow> string list" where
  "form_controls expert data errors s secret_list =
     (let tree = form_tree expert data (get (form_values s) CF_PROVIDER) in
      concat (map (\<lambda>(tag, block). if displayed expert tree tag then shown_controls block else [])
        (block_views expert data errors s secret_list)))"

section \<open>Required fields\<close>

primrec required_now :: "schema \<Rightarrow> js \<Rightarrow> bool" where
  "required_now Mixed_s = (\<lambda>p. False)"
| "required_now String_s = (\<lambda>p. False)"
| "required_now Number_s = (\<lambda>p. False)"
| "required_now Boolean_s = (\<lambda>p. False)"
| "required_now (Object_s fs) = (\<lambda>p. False)"
| "required_now (Array_s s) = (\<lambda>p. False)"
| "required_now (Required_c s m) = (\<lambda>p. True)"
| "required_now (Optional_c s) = (\<lambda>p. False)"
| "required_now (Not_required_c s) = (\<lambda>p. False)"
| "required_now (Type_error_c s m) = required_now s"
| "required_now (Test_c s n f) = required_now s"
| "required_now (When_c s ks f) = (\<lambda>p. (\<lambda>r. r p) ((required_now \<circ> f) (map (get p) ks)))"

definition required_fields :: "schema \<Rightarrow> js \<Rightarrow> string list" where
  "required_fields s values = map fst (filter (\<lambda>(k, f). required_now f values) (field_list s))"

lemma required_fields_iff: "k \<in> set (required_fields s v) \<longleftrightarrow> (\<exists>f. (k, f) \<in> set (field_list s) \<and> required_now f v)"
  by (force simp: required_fields_def)

text \<open>The same, written out.\<close>

definition needed_auth :: "js \<Rightarrow> string \<Rightarrow> bool" where
  "needed_auth v k \<longleftrightarrow> k = CF_AUTHENTICATION_METHOD
     \<or> get v CF_AUTHENTICATION_METHOD = Str AUTH_SSH \<and> \<not> truthy (get v CF_IS_USE_DEFINED_SECRET) \<and> k = SEC_SSH_PRIVATE_KEY
     \<or> get v CF_AUTHENTICATION_METHOD = Str AUTH_PASSWORD \<and> \<not> truthy (get v CF_IS_USE_DEFINED_SECRET)
       \<and> k \<in> {SEC_USERNAME, SEC_PASSWORD}
     \<or> truthy (get v CF_AUTHENTICATION_IS_SAVE_TO_CONSOLE) \<and> k = CF_SECRET_KEY_NAME
     \<or> truthy (get v CF_IS_USE_DEFINED_SECRET) \<and> k = CF_SECRET_ID"

definition needed :: "bool \<Rightarrow> js \<Rightarrow> string \<Rightarrow> bool" where
  "needed expert v k \<longleftrightarrow>
     k \<in> {CF_PROVIDER, CF_CLUSTER_NAME, CF_POSTGRES_VERSION}
     \<or> \<not> is_local (get v CF_PROVIDER)
       \<and> k \<in> {CF_REGION, CF_REGION_CONFIG, INST_INSTANCE_TYPE, CF_INSTANCE_CONFIG, CF_INSTANCES_AMOUNT,
              STO_STORAGE_AMOUNT, SSH_SSH_PUBLIC_KEY}
     \<or> is_local (get v CF_PROVIDER) \<and> needed_auth v k
     \<or> expert \<and> truthy (get v BK_IS_BACKUPS_ENABLED)
       \<and> (is_local (get v CF_PROVIDER) \<and> k = BK_CONFIG
         \<or> one_of [PROV_DIGITAL_OCEAN, PROV_HETZNER] (get (get v CF_PROVIDER) ''code'') \<and> k \<in> {BK_ACCESS_KEY, BK_SECRET_KEY})"

lemma required_now_simps [simp]:
  "required_now (cloud_only s) v \<longleftrightarrow> \<not> is_local (get v CF_PROVIDER) \<and> required_now s v"
  "required_now (plain_required s) v"
  "required_now (requiredField s) v"
  "\<not> required_now not_required v"
  "required_now (onlyNumbers s) v = required_now s v"
  "\<not> required_now configValidationSchema v"
  "required_now (credential_schema auth) v \<longleftrightarrow>
     is_local (get v CF_PROVIDER) \<and> get v CF_AUTHENTICATION_METHOD = Str auth
     \<and> \<not> truthy (get v CF_IS_USE_DEFINED_SECRET)"
  "required_now backupKeysSchema v \<longleftrightarrow>
     one_of [PROV_DIGITAL_OCEAN, PROV_HETZNER] (get (get v CF_PROVIDER) ''code'') \<and> truthy (get v BK_IS_BACKUPS_ENABLED)"
  by (auto simp: cloud_only_def plain_required_def requiredField_def not_required_def onlyNumbers_def
      configValidationSchema_def credential_schema_def backupKeysSchema_def)

text \<open>A schema asks only for needed fields.\<close>

definition asks_needed :: "bool \<Rightarrow> js \<Rightarrow> schema \<Rightarrow> bool" where
  "asks_needed expert v s \<longleftrightarrow> list_all (\<lambda>(k, f). required_now f v \<longrightarrow> needed expert v k) (field_list s)"

lemma asks_cloud: "asks_needed expert v CloudFormSchema"
  by (simp add: asks_needed_def CloudFormSchema_def needed_def needed_auth_def)

lemma asks_local:
  "asks_needed expert v (DatabaseServersBlockSchema isV4)" "asks_needed expert v (LoadBalancerBlockSchema expert isV4)"
  "asks_needed expert v (DcsBlockSchema expert isV4)"
  by (simp_all add: asks_needed_def DatabaseServersBlockSchema_def LoadBalancerBlockSchema_def DcsBlockSchema_def)

lemma asks_blocks:
  "asks_needed expert v DatabasesBlockSchema" "asks_needed expert v ConnectionPoolsBlockSchema"
  "asks_needed True v BackupsBlockFormSchema" "asks_needed expert v PostgresParametersBlockFormSchema"
  "asks_needed expert v KernelParametersBlockFormSchema" "asks_needed expert v AdditionalSettingsBlockFormSchema"
  by (simp_all add: asks_needed_def DatabasesBlockSchema_def ConnectionPoolsBlockSchema_def
      BackupsBlockFormSchema_def PostgresParametersBlockFormSchema_def KernelParametersBlockFormSchema_def
      AdditionalSettingsBlockFormSchema_def needed_def needed_auth_def)

text \<open>Object schemas, and the fields of a concatenation.\<close>

lemma asks_concat:
  "asks_needed expert v (concat_s s t)" if "asks_needed expert v s" "asks_needed expert v t"
  using that by (cases "(s, t)" rule: concat_s.cases) (simp_all add: asks_needed_def needed_auth_def)

lemma asks_form: "asks_needed expert v (ClusterFormSchema expert isV4)"
proof -
  have credentials: "asks_needed expert v (LocalFormSchema expert isV4)"
    unfolding LocalFormSchema_def
    by (intro asks_concat asks_local) (simp add: asks_needed_def needed_def needed_auth_def)
  have base: "asks_needed expert v (Object_s
            [(CF_PROVIDER, plain_required (Object_s [])), (CF_ENVIRONMENT_ID, Number_s),
             (CF_CLUSTER_NAME,
               requiredField (Test_c String_s ''clusters should have proper naming'' cluster_name_test)),
             (CF_DESCRIPTION, String_s), (CF_POSTGRES_VERSION, requiredField Number_s)])"
    by (simp add: asks_needed_def needed_def needed_auth_def)
  note parts = base credentials asks_cloud asks_blocks
  then show ?thesis
    by (cases expert) (simp_all add: ClusterFormSchema_def Let_def asks_concat del: concat_s.simps)
qed

section \<open>Controls of the blocks\<close>

lemma cloud_block_controls:
  "CF_REGION \<in> set (shown_controls (CloudFormRegionBlock v))"
  "CF_REGION_CONFIG \<in> set (shown_controls (CloudFormRegionBlock v))"
  "INST_INSTANCE_TYPE \<in> set (shown_controls (CloudFormInstancesBlock v types))"
  "CF_INSTANCE_CONFIG \<in> set (shown_controls (CloudFormInstancesBlock v types))"
  "CF_INSTANCES_AMOUNT \<in> set (shown_controls (InstancesAmountBlock expert right v errors))"
  "STO_STORAGE_AMOUNT \<in> set (shown_controls (StorageBlock expert s errors))"
  "SSH_SSH_PUBLIC_KEY \<in> set (shown_controls (ClusterFormSshKeyBlock v errors))"
  by (simp_all add: CloudFormRegionBlock_def CloudFormInstancesBlock_def InstancesAmountBlock_def StorageBlock_def
      ClusterFormSshKeyBlock_def titled_def view_simps Let_def fragment_def)

lemma common_block_controls:
  "CF_PROVIDER \<in> set (shown_controls (ClusterFormProvidersBlock v ps))"
  "CF_CLUSTER_NAME \<in> set (shown_controls (ClusterFormClusterNameBlock v errors))"
  "CF_POSTGRES_VERSION \<in> set (shown_controls (PostgresVersionBox v errors vs))"
  by (simp_all add: ClusterFormProvidersBlock_def ClusterFormClusterNameBlock_def PostgresVersionBox_def titled_def
      view_simps)

lemma backup_block_controls:
  assumes "truthy (get v BK_IS_BACKUPS_ENABLED)"
  shows "BK_CONFIG \<in> set (shown_controls (BackupsBlock isOpen v errors))"
    and "one_of [PROV_DIGITAL_OCEAN, PROV_HETZNER] (get (get v CF_PROVIDER) ''code'') \<Longrightarrow>
      {BK_ACCESS_KEY, BK_SECRET_KEY} \<subseteq> set (shown_controls (BackupsBlock isOpen v errors))"
  using assms
  by (simp_all add: BackupsBlock_def ConfigureBackupModal_def backup_key_field_def ranged_field_def view_simps Let_def fragment_def)

definition auth_controls :: "js \<Rightarrow> js list \<Rightarrow> js \<Rightarrow> string set" where
  "auth_controls v secret_list errors =
     set (shown_controls (AuthenticationMethodFormBlock \<lparr>auth_values = v, secrets = secret_list\<rparr> errors))"

lemma auth_field_controls:
  "shown_controls (method_choice v) = [CF_AUTHENTICATION_METHOD]"
  "shown_controls (use_choice v errors) = [CF_IS_USE_DEFINED_SECRET]"
  "CF_SECRET_ID \<in> set (shown_controls (secret_choice xs v errors))"
  "shown_controls (AuthenticationFormPart v errors) =
     [SEC_USERNAME, if get v CF_AUTHENTICATION_METHOD = Str AUTH_SSH then SEC_SSH_PRIVATE_KEY else SEC_PASSWORD]"
  by (simp_all add: method_choice_def use_choice_def secret_choice_def AuthenticationFormPart_def SshMethodFormPart_def
      PasswordMethodFormPart_def auth_text_field_def authenticationMethods_def view_simps fragment_def)

lemma auth_name_control:
  "shown_controls (auth_text_field v errors CF_SECRET_KEY_NAME label fallback
     [P ''required'' (Bool True), P ''size'' (Str ''small'')]) = [CF_SECRET_KEY_NAME]"
  "shown_controls (auth_text_field v errors SEC_USERNAME label fallback [P ''size'' (Str ''small'')]) = [SEC_USERNAME]"
  by (simp_all add: auth_text_field_def view_simps)

lemma auth_block_controls:
  assumes "truthy (get v CF_IS_USE_DEFINED_SECRET) \<Longrightarrow> secret_list \<noteq> []"
  shows "CF_AUTHENTICATION_METHOD \<in> auth_controls v secret_list errors"
    and "get v CF_AUTHENTICATION_METHOD = Str AUTH_SSH \<Longrightarrow> \<not> truthy (get v CF_IS_USE_DEFINED_SECRET) \<Longrightarrow>
      SEC_SSH_PRIVATE_KEY \<in> auth_controls v secret_list errors"
    and "get v CF_AUTHENTICATION_METHOD = Str AUTH_PASSWORD \<Longrightarrow> \<not> truthy (get v CF_IS_USE_DEFINED_SECRET) \<Longrightarrow>
      {SEC_USERNAME, SEC_PASSWORD} \<subseteq> auth_controls v secret_list errors"
    and "truthy (get v CF_IS_USE_DEFINED_SECRET) \<Longrightarrow> CF_SECRET_ID \<in> auth_controls v secret_list errors"
    and "truthy (get v CF_AUTHENTICATION_IS_SAVE_TO_CONSOLE) \<Longrightarrow> \<not> truthy (get v CF_IS_USE_DEFINED_SECRET) \<Longrightarrow>
      CF_SECRET_KEY_NAME \<in> auth_controls v secret_list errors"
  using assms(1) unfolding auth_controls_def
  by (simp_all add: AuthenticationMethodFormBlock_def auth_field_controls auth_name_control
      controller_def on_change_def tr_def when_js_def obj_def is_controller_def name_prop_def Let_def fragment_def)

lemma needed_auth_shown:
  assumes "truthy (get v CF_IS_USE_DEFINED_SECRET) \<Longrightarrow> secret_list \<noteq> []" "needed_auth v k"
    and "k \<noteq> CF_SECRET_KEY_NAME \<or> \<not> truthy (get v CF_IS_USE_DEFINED_SECRET)"
  shows "k \<in> auth_controls v secret_list errors"
  using assms(2) unfolding needed_auth_def
proof (elim disjE conjE)
  note shown = auth_block_controls [OF assms(1), where errors = errors]
  show ?thesis if "k = CF_AUTHENTICATION_METHOD"
    unfolding that by (rule shown(1))
  show ?thesis if "get v CF_AUTHENTICATION_METHOD = Str AUTH_SSH" "\<not> truthy (get v CF_IS_USE_DEFINED_SECRET)"
      "k = SEC_SSH_PRIVATE_KEY"
    unfolding that(3) by (rule shown(2) [OF _ that(1,2)])
  show ?thesis if "get v CF_AUTHENTICATION_METHOD = Str AUTH_PASSWORD" "\<not> truthy (get v CF_IS_USE_DEFINED_SECRET)"
      "k \<in> {SEC_USERNAME, SEC_PASSWORD}"
    by (rule subsetD [OF shown(3) [OF _ that(1,2)] that(3)])
  show ?thesis if "truthy (get v CF_AUTHENTICATION_IS_SAVE_TO_CONSOLE)" "k = CF_SECRET_KEY_NAME"
    using assms(3) shown(5) [OF _ that(1)] that(2) by (simp only: refl simp_thms)
  show ?thesis if "truthy (get v CF_IS_USE_DEFINED_SECRET)" "k = CF_SECRET_ID"
    unfolding that(2) by (rule shown(4) [OF _ that(1)])
qed

lemma shown_options [simp]:
  assumes "\<forall>x \<in> set xs. \<exists>n. get x ''name'' = Str n"
  shows "shown_controls_list (map (\<lambda>x. elem ''MenuItem'' [P ''value'' (get x ''id'')] [get x ''name'']) xs) = []"
  using assms by (induction xs) (auto simp: obj_def is_controller_def)

text \<open>With a stored secret the block has no field for the name of a new one.\<close>

lemma stored_secret_hides_name:
  assumes "truthy (get v CF_IS_USE_DEFINED_SECRET)" "secret_list \<noteq> []"
    and "\<forall>x \<in> set secret_list. \<exists>n. get x ''name'' = Str n"
  shows "CF_SECRET_KEY_NAME \<notin> auth_controls v secret_list errors"
  using assms shown_options [OF assms(3)] unfolding auth_controls_def
  by (simp add: AuthenticationMethodFormBlock_def method_choice_def use_choice_def secret_choice_def
      auth_text_field_def authenticationMethods_def view_simps Let_def fragment_def)

section \<open>The form shows what it requires\<close>

lemma part_displays:
  "displays ''ClusterFormRegionBlock'' (ClusterFormCloudProviderFormPart expert)"
  "displays ''ClusterFormInstancesBlock'' (ClusterFormCloudProviderFormPart expert)"
  "displays ''InstancesAmountBlock'' (ClusterFormCloudProviderFormPart expert)"
  "displays ''StorageBlock'' (ClusterFormCloudProviderFormPart expert)"
  "displays ''ClusterFormSshKeyBlock'' (ClusterFormCloudProviderFormPart expert)"
  "displays ''AuthenticationMethodFormBlock'' (ClusterFormLocalMachineFormPart expert)"
  by (simp_all add: displays_def ClusterFormCloudProviderFormPart_def ClusterFormLocalMachineFormPart_def
      fragment_def when_js_def obj_def)

lemma form_displays:
  "displays ''ClusterFormProvidersBlock'' (form_tree expert data provider)"
  "displays ''ClusterNameBox'' (form_tree expert data provider)"
  "displays ''PostgresVersionBox'' (form_tree expert data provider)"
  "is_local provider \<Longrightarrow> displays ''ClusterFormLocalMachineFormPart'' (form_tree expert data provider)"
  "\<not> is_local provider \<Longrightarrow> displays ''ClusterFormCloudProviderFormPart'' (form_tree expert data provider)"
  "displays ''BackupsBlock'' (form_tree True data provider)"
  by (simp_all add: displays_def form_tree_def ClusterForm_def fragment_def when_js_def obj_def is_local_def)

lemma shown_in_form:
  assumes "(tag, block) \<in> set (block_views expert data errors s secret_list)"
    and "displayed expert (form_tree expert data (get (form_values s) CF_PROVIDER)) tag"
    and "k \<in> set (shown_controls block)"
  shows "k \<in> set (form_controls expert data errors s secret_list)"
  using assms unfolding form_controls_def Let_def by force

lemma in_block_views:
  "(''ClusterFormProvidersBlock'', ClusterFormProvidersBlock (form_values s) (deployments data))
     \<in> set (block_views expert data errors s secret_list)"
  "(''ClusterNameBox'', ClusterFormClusterNameBlock (form_values s) errors)
     \<in> set (block_views expert data errors s secret_list)"
  "(''PostgresVersionBox'', PostgresVersionBox (form_values s) errors (versions data))
     \<in> set (block_views expert data errors s secret_list)"
  "(''ClusterFormRegionBlock'', CloudFormRegionBlock (form_values s))
     \<in> set (block_views expert data errors s secret_list)"
  "(''ClusterFormInstancesBlock'', CloudFormInstancesBlock (form_values s) (instances s))
     \<in> set (block_views expert data errors s secret_list)"
  "(''InstancesAmountBlock'', InstancesAmountBlock expert (isRightElementNeeded s) (form_values s) errors)
     \<in> set (block_views expert data errors s secret_list)"
  "(''StorageBlock'', StorageBlock expert s errors) \<in> set (block_views expert data errors s secret_list)"
  "(''ClusterFormSshKeyBlock'', ClusterFormSshKeyBlock (form_values s) errors)
     \<in> set (block_views expert data errors s secret_list)"
  "(''AuthenticationMethodFormBlock'',
      AuthenticationMethodFormBlock \<lparr>auth_values = form_values s, secrets = secret_list\<rparr> errors)
     \<in> set (block_views expert data errors s secret_list)"
  "(''BackupsBlock'', BackupsBlock False (form_values s) errors)
     \<in> set (block_views expert data errors s secret_list)"
  unfolding block_views_def Let_def by simp_all

lemma common_shown:
  "{CF_PROVIDER, CF_CLUSTER_NAME, CF_POSTGRES_VERSION} \<subseteq> set (form_controls expert data errors s secret_list)"
  using shown_in_form [OF in_block_views(1) _ common_block_controls(1)]
    shown_in_form [OF in_block_views(2) _ common_block_controls(2)]
    shown_in_form [OF in_block_views(3) _ common_block_controls(3)] form_displays(1-3)
  by (simp add: displayed_def)

lemma cloud_shown:
  assumes "\<not> is_local (get (form_values s) CF_PROVIDER)"
  shows "{CF_REGION, CF_REGION_CONFIG, INST_INSTANCE_TYPE, CF_INSTANCE_CONFIG, CF_INSTANCES_AMOUNT,
      STO_STORAGE_AMOUNT, SSH_SSH_PUBLIC_KEY} \<subseteq> set (form_controls expert data errors s secret_list)"
  using shown_in_form [OF in_block_views(4) _ cloud_block_controls(1)]
    shown_in_form [OF in_block_views(4) _ cloud_block_controls(2)]
    shown_in_form [OF in_block_views(5) _ cloud_block_controls(3)]
    shown_in_form [OF in_block_views(5) _ cloud_block_controls(4)]
    shown_in_form [OF in_block_views(6) _ cloud_block_controls(5)]
    shown_in_form [OF in_block_views(7) _ cloud_block_controls(6)]
    shown_in_form [OF in_block_views(8) _ cloud_block_controls(7)] form_displays(5) [OF assms] part_displays(1-5)
  by (simp add: displayed_def)

lemma auth_shown:
  assumes "is_local (get (form_values s) CF_PROVIDER)"
  shows "auth_controls (form_values s) secret_list errors \<subseteq> set (form_controls expert data errors s secret_list)"
  using shown_in_form [OF in_block_views(9)] form_displays(4) [OF assms] part_displays(6)
  by (auto simp: displayed_def auth_controls_def)

lemma backups_shown:
  assumes "truthy (get (form_values s) BK_IS_BACKUPS_ENABLED)"
  shows "BK_CONFIG \<in> set (form_controls True data errors s secret_list)"
    and "one_of [PROV_DIGITAL_OCEAN, PROV_HETZNER] (get (get (form_values s) CF_PROVIDER) ''code'') \<Longrightarrow>
      {BK_ACCESS_KEY, BK_SECRET_KEY} \<subseteq> set (form_controls True data errors s secret_list)"
  using shown_in_form [OF in_block_views(10), of True] backup_block_controls [OF assms, of False errors] form_displays(6)
  by (auto simp: displayed_def)

text \<open>A stored secret is used only where the list of secrets is not empty.\<close>

lemma effects_use:
  assumes "plain_object (auth_values st)"
  shows "auth_field CF_IS_USE_DEFINED_SECRET (auth_effects before st) =
      (if length (secrets st) \<noteq> length (secrets before) then Bool (secrets st \<noteq> [])
       else auth_field CF_IS_USE_DEFINED_SECRET st)"
    and "secrets (auth_effects before st) = secrets st"
  using assms by (simp_all add: auth_effects_def Let_def reset_secret_def use_loaded_def auth_field_set)

lemma stored_secret_listed:
  "auth_reachable secrets_of st \<Longrightarrow> truthy (auth_field CF_IS_USE_DEFINED_SECRET st) \<Longrightarrow> secrets st \<noteq> []"
proof (induction rule: auth_reachable.induct)
  case (auth_start st)
  then show ?case by (auto simp: auth_mount_def reset_secret_def use_loaded_def auth_field_set)
next
  case (auth_next st e)
  have "plain_object (auth_values st)" using auth_reachable_own [OF auth_next.hyps(1)] by simp
  with auth_next show ?case
    by (cases e)
       (auto simp: effects_use auth_mount_def reset_secret_def use_loaded_def auth_field_set split: if_splits)
qed

text \<open>
  C18: the cluster form, with the blocks it displays for the provider and the mode, has a control for every
  field its validation requires at that moment: the fields of the provider, the credentials of the chosen
  method, the keys and the configuration of the backups. The one exception is the name of a new secret
  while a stored secret is used.
\<close>

theorem required_fields_are_shown:
  assumes "auth_reachable secrets_of st"
    and "get (form_values s) CF_IS_USE_DEFINED_SECRET = auth_field CF_IS_USE_DEFINED_SECRET st"
    and "k \<in> set (required_fields (ClusterFormSchema expert isV4) (form_values s))"
    and "k \<noteq> CF_SECRET_KEY_NAME \<or> \<not> truthy (get (form_values s) CF_IS_USE_DEFINED_SECRET)"
  shows "k \<in> set (form_controls expert data errors s (secrets st))"
proof -
  let ?v = "form_values s"
  let ?shown = "set (form_controls expert data errors s (secrets st))"
  have listed: "truthy (get ?v CF_IS_USE_DEFINED_SECRET) \<Longrightarrow> secrets st \<noteq> []"
    using stored_secret_listed [OF assms(1)] assms(2) by simp
  have "needed expert ?v k"
    using asks_form [of expert ?v isV4] assms(3) by (auto simp: asks_needed_def list_all_iff required_fields_iff)
  then show ?thesis unfolding needed_def
  proof (elim disjE conjE)
    show ?thesis if "k \<in> {CF_PROVIDER, CF_CLUSTER_NAME, CF_POSTGRES_VERSION}"
      by (rule subsetD [OF common_shown that])
    show ?thesis if "\<not> is_local (get ?v CF_PROVIDER)" "k \<in> {CF_REGION, CF_REGION_CONFIG, INST_INSTANCE_TYPE,
        CF_INSTANCE_CONFIG, CF_INSTANCES_AMOUNT, STO_STORAGE_AMOUNT, SSH_SSH_PUBLIC_KEY}"
      by (rule subsetD [OF cloud_shown [OF that(1)] that(2)])
    show ?thesis if "is_local (get ?v CF_PROVIDER)" "needed_auth ?v k"
      by (rule subsetD [OF auth_shown [OF that(1)] needed_auth_shown [OF listed that(2) assms(4)]])
    show ?thesis if "expert" "truthy (get ?v BK_IS_BACKUPS_ENABLED)" "k = BK_CONFIG"
      using backups_shown(1) [OF that(2)] that(1,3) by simp
    show ?thesis if "expert" "truthy (get ?v BK_IS_BACKUPS_ENABLED)"
        "one_of [PROV_DIGITAL_OCEAN, PROV_HETZNER] (get (get ?v CF_PROVIDER) ''code'')" "k \<in> {BK_ACCESS_KEY, BK_SECRET_KEY}"
      using subsetD [OF backups_shown(2) [OF that(2,3)] that(4)] that(1) by simp
  qed
qed

definition own_machines :: js where
  "own_machines = obj
     [P CF_PROVIDER local_provider, P CF_AUTHENTICATION_METHOD (Str AUTH_SSH),
      P CF_AUTHENTICATION_IS_SAVE_TO_CONSOLE (Bool True), P CF_SECRET_KEY_NAME (Str '''')]"

definition no_data :: answers_data where
  "no_data = \<lparr>deployments = [], environments_data = [], versions = []\<rparr>"

theorem required_fields_are_shown_witness:
  "SEC_SSH_PRIVATE_KEY \<in> set (form_controls True no_data Undef
     (empty_form (auth_values (auth_mount \<lparr>auth_values = own_machines, secrets = []\<rparr>))) [])"
proof -
  let ?st = "auth_mount \<lparr>auth_values = own_machines, secrets = []\<rparr>"
  have reach: "auth_reachable stored_secrets ?st" by (rule auth_start) (simp add: own_machines_def)
  have none: "secrets ?st = []" by (simp add: auth_mount_def reset_secret_def use_loaded_def)
  have "SEC_SSH_PRIVATE_KEY \<in> set (required_fields (ClusterFormSchema True (\<lambda>_. True)) (auth_values ?st))"
    by code_simp
  with required_fields_are_shown [OF reach, of "empty_form (auth_values ?st)" SEC_SSH_PRIVATE_KEY True "\<lambda>_. True"]
  show ?thesis unfolding none by (simp add: empty_form_def auth_field_def)
qed

lemma secret_name_field:
  "(CF_SECRET_KEY_NAME, When_c Mixed_s [CF_PROVIDER, CF_AUTHENTICATION_IS_SAVE_TO_CONSOLE] (\<lambda>vs.
      if is_local (vs ! 0) \<and> truthy (vs ! 1) then requiredField String_s else not_required))
     \<in> set (field_list (ClusterFormSchema expert isV4))"
  unfolding ClusterFormSchema_def LocalFormSchema_def CloudFormSchema_def DatabaseServersBlockSchema_def
    LoadBalancerBlockSchema_def DcsBlockSchema_def DatabasesBlockSchema_def ConnectionPoolsBlockSchema_def
    BackupsBlockFormSchema_def PostgresParametersBlockFormSchema_def KernelParametersBlockFormSchema_def
    AdditionalSettingsBlockFormSchema_def Let_def
  by (cases expert) simp_all

text \<open>
  C19: a user who ticks the box that saves the new secret, leaves its name empty and then decides for a
  stored secret has an invalid form: the name is still required, and its field is no longer shown.
\<close>

theorem hidden_secret_name_blocks_form:
  assumes "yup accepts"
    and "is_local (get v CF_PROVIDER)" "truthy (get v CF_AUTHENTICATION_IS_SAVE_TO_CONSOLE)"
    and "get v CF_SECRET_KEY_NAME = Undef \<or> get v CF_SECRET_KEY_NAME = Str ''''"
    and "truthy (get v CF_IS_USE_DEFINED_SECRET)" "secret_list \<noteq> []"
    and "\<forall>x \<in> set secret_list. \<exists>n. get x ''name'' = Str n"
  shows "\<not> accepts (ClusterFormSchema expert isV4) p v \<and> CF_SECRET_KEY_NAME \<notin> auth_controls v secret_list errors"
proof
  show "CF_SECRET_KEY_NAME \<notin> auth_controls v secret_list errors"
    by (rule stored_secret_hides_name [OF assms(5-7)])
  show "\<not> accepts (ClusterFormSchema expert isV4) p v"
  proof
    assume "accepts (ClusterFormSchema expert isV4) p v"
    from yup.accepts_when [OF assms(1) accepted_block_field [OF assms(1) this secret_name_field subset_refl]]
    have "accepts (requiredField String_s) v (get v CF_SECRET_KEY_NAME)" using assms(2,3) by simp
    from yup.required_string [OF assms(1) this] show False using assms(4) by auto
  qed
qed

definition named_secret :: js where
  "named_secret = obj [P ''id'' (Num 1), P ''name'' (Str ''key'')]"

theorem hidden_secret_name_blocks_form_witness:
  "auth_reachable (\<lambda>_. [named_secret]) (auth_mount \<lparr>auth_values = own_machines, secrets = [named_secret]\<rparr>)
   \<and> \<not> reads (ClusterFormSchema True (\<lambda>_. True)) Undef
        (auth_values (auth_mount \<lparr>auth_values = own_machines, secrets = [named_secret]\<rparr>))"
proof -
  let ?v = "auth_values (auth_mount \<lparr>auth_values = own_machines, secrets = [named_secret]\<rparr>)"
  have "auth_reachable (\<lambda>_. [named_secret]) (auth_mount \<lparr>auth_values = own_machines, secrets = [named_secret]\<rparr>)"
    by (rule auth_start) (simp add: own_machines_def)
  moreover have "is_local (get ?v CF_PROVIDER)" "truthy (get ?v CF_AUTHENTICATION_IS_SAVE_TO_CONSOLE)"
    "get ?v CF_SECRET_KEY_NAME = Str ''''" "truthy (get ?v CF_IS_USE_DEFINED_SECRET)" by code_simp+
  ultimately show ?thesis
    using hidden_secret_name_blocks_form [OF yup_reads.yup_axioms, of ?v "[named_secret]"]
    by (auto simp: named_secret_def get_obj)
qed

text \<open>A cloud form with an instance type of its own and no name for it.\<close>

definition custom_form :: js where
  "custom_form = obj
     [P CF_PROVIDER (obj [P ''code'' (Str PROV_AWS)]), P CF_CLUSTER_NAME (Str ''pg-1''), P CF_POSTGRES_VERSION (Num 16),
      P CF_REGION (Str ''eu''), P CF_REGION_CONFIG (obj [P ''code'' (Str ''eu-1''), P ''cloud_image'' (obj [P ''image'' (obj [])])]),
      P CF_INSTANCE_TYPE (Str ''custom''), P INST_SERVER_TYPE (Str ''''), P CF_INSTANCE_CONFIG (obj []),
      P CF_INSTANCES_AMOUNT (Num 3), P STO_STORAGE_AMOUNT (Num 100), P SSH_SSH_PUBLIC_KEY (Str ''ssh-ed25519 A''),
      P BK_BACKUP_RETENTION (Num 30), P BK_CONFIG (Str []), P PG_POSTGRES_PARAMETERS (Str []),
      P KRN_KERNEL_PARAMETERS (Str []), P ADS_SYNC_STANDBY_NODES (Num 0)]"

text \<open>
  The server type of a custom instance is not validated: no schema of the form has the field, and a
  form without one is accepted and asks the provider for a server whose type is the empty text.
\<close>

theorem custom_instance_not_validated:
  "INST_SERVER_TYPE \<notin> set (schema_fields (ClusterFormSchema expert isV4))
   \<and> reads (ClusterFormSchema True (\<lambda>_. True)) Undef custom_form
   \<and> (\<exists>r. getCloudProviderExtraVars True custom_form = Ok r \<and> get r ''server_type'' = Str '''')"
proof (intro conjI)
  show "INST_SERVER_TYPE \<notin> set (schema_fields (ClusterFormSchema expert isV4))"
    unfolding ClusterFormSchema_def LocalFormSchema_def CloudFormSchema_def DatabaseServersBlockSchema_def
      LoadBalancerBlockSchema_def DcsBlockSchema_def DatabasesBlockSchema_def ConnectionPoolsBlockSchema_def
      BackupsBlockFormSchema_def PostgresParametersBlockFormSchema_def KernelParametersBlockFormSchema_def
      AdditionalSettingsBlockFormSchema_def Let_def
    by (cases expert) simp_all
  show "reads (ClusterFormSchema True (\<lambda>_. True)) Undef custom_form" by code_simp
  have "map_res (\<lambda>r. get r ''server_type'') (getCloudProviderExtraVars True custom_form) = Ok (Str '''')" by code_simp
  then show "\<exists>r. getCloudProviderExtraVars True custom_form = Ok r \<and> get r ''server_type'' = Str ''''"
    by (auto simp: map_res_eq_Ok)
qed

end
