(* ===== verification/DataDirectory.thy ===== *)
theory DataDirectory
  imports BlockViews TransformFacts
begin

text \<open>
  The data directory of a cluster on the user's own machines: the effect of its block
  (\<open>expert-mode/data-directory-block\<close>) over the events of the form, up to the variables of the
  request. A mount of the block is the choice of the own machines or the way back from the YAML editor.
\<close>

datatype directory_event =
    Mount_directory
  | Choose_version js
  | Type_directory js
  | Other_field string js

text \<open>The effect runs on mount and when the version has changed.\<close>

fun directory_step :: "directory_event \<Rightarrow> js \<Rightarrow> js" where
  "directory_step Mount_directory v = directory_effect v"
| "directory_step (Choose_version version) v =
     (let v' = obj [Spread v, P CF_POSTGRES_VERSION version]
      in if version \<noteq> get v CF_POSTGRES_VERSION then directory_effect v' else v')"
| "directory_step (Type_directory d) v = obj [Spread v, P DIR_DATA_DIRECTORY d]"
| "directory_step (Other_field name x) v = obj [Spread v, P name x]"

fun offered_directory :: "directory_event \<Rightarrow> bool" where
  "offered_directory (Other_field name x) = (name \<notin> {CF_POSTGRES_VERSION, DIR_DATA_DIRECTORY})"
| "offered_directory e = True"

definition directory_run :: "directory_event list \<Rightarrow> js \<Rightarrow> js" where
  "directory_run es v = fold directory_step es (directory_effect v)"

definition follows_version :: "js \<Rightarrow> bool" where
  "follows_version v \<longleftrightarrow> get v DIR_DATA_DIRECTORY = Str (default_directory (get v CF_POSTGRES_VERSION))"

definition typed :: "directory_event \<Rightarrow> bool" where
  "typed e \<longleftrightarrow> (\<exists>d. e = Type_directory d)"

lemma step_plain: "plain_object v \<Longrightarrow> plain_object (directory_step e v)"
  by (cases e) (simp_all add: directory_effect_def Let_def)

lemma effect_follows: "plain_object v \<Longrightarrow> follows_version (directory_effect v)"
  by (simp add: follows_version_def directory_effect_def get_spread)

lemma step_follows:
  assumes "plain_object v" "follows_version v" "offered_directory e" "\<not> typed e"
  shows "follows_version (directory_step e v)"
proof (cases e)
  case Mount_directory
  then show ?thesis using assms(1) by (simp add: effect_follows)
next
  case (Choose_version version)
  then show ?thesis using assms(1,2) by (auto simp: effect_follows Let_def follows_version_def [of v] follows_version_def [of "obj _"] get_spread)
next
  case (Type_directory d)
  then show ?thesis using assms(4) by (simp add: typed_def)
next
  case (Other_field name x)
  then show ?thesis using assms by (simp add: follows_version_def get_spread)
qed

lemma fold_follows:
  "plain_object v \<Longrightarrow> follows_version v \<Longrightarrow> list_all offered_directory es \<Longrightarrow> list_all (\<lambda>e. \<not> typed e) es \<Longrightarrow>
     follows_version (fold directory_step es v)"
  by (induction es arbitrary: v) (simp_all add: step_plain step_follows)

lemma fold_plain: "plain_object v \<Longrightarrow> plain_object (fold directory_step es v)"
  by (induction es arbitrary: v) (simp_all add: step_plain)

lemma plain_run: "plain_object (directory_run es v)"
  unfolding directory_run_def by (rule fold_plain) (simp add: directory_effect_def)

text \<open>What the request takes from the form.\<close>

lemma local_vars_directory:
  assumes "getLocalMachineExtraVars True values secretId = Ok r"
  shows "get r ''postgresql_data_dir'' = get values DIR_DATA_DIRECTORY"
    and "get r ''postgresql_version'' = get values CF_POSTGRES_VERSION"
  using assms
  by (auto simp: getLocalMachineExtraVars_def existing_dcs_vars_def res_simps get_obj obj_simps split: if_splits)

text \<open>
  C35: as long as the user does not type a directory, the data directory of the request names the
  PostgreSQL version of the same request, over any sequence of mounts, version choices and changes of
  other fields.
\<close>

theorem request_directory_names_version:
  assumes "plain_object v" "list_all offered_directory es" "list_all (\<lambda>e. \<not> typed e) es"
    and "getLocalMachineExtraVars True (directory_run es v) secretId = Ok r" "\<not> nullish (get r ''postgresql_version'')"
  shows "get r ''postgresql_data_dir'' = Str (''/pgdata/'' @ js_str (get r ''postgresql_version'') @ ''/main'')"
proof -
  have "follows_version (directory_run es v)"
    unfolding directory_run_def
    by (rule fold_follows) (simp_all add: assms directory_effect_def effect_follows [unfolded directory_effect_def])
  then show ?thesis
    using assms(5) local_vars_directory [OF assms(4)]
    by (simp add: follows_version_def default_directory_def coalesce_def)
qed

definition version_form :: js where
  "version_form = obj [P CF_POSTGRES_VERSION (Num 18), P DCS_IS_DEPLOY_NEW_CLUSTER (Bool True)]"

theorem request_directory_names_version_witness:
  "\<exists>r. getLocalMachineExtraVars True (directory_run [Choose_version (Num 16), Other_field CF_DESCRIPTION (Str ''x'')] version_form)
       Undef = Ok r \<and> get r ''postgresql_data_dir'' = Str ''/pgdata/16/main''"
proof -
  let ?v = "directory_run [Choose_version (Num 16), Other_field CF_DESCRIPTION (Str ''x'')] version_form"
  obtain r where r: "getLocalMachineExtraVars True ?v Undef = Ok r"
    by (simp add: directory_run_def directory_effect_def version_form_def getLocalMachineExtraVars_def get_obj res_simps)
  have version: "get r ''postgresql_version'' = Num 16"
    unfolding local_vars_directory(2) [OF r] by code_simp
  have "plain_object version_form" by (simp add: version_form_def)
  from request_directory_names_version [OF this _ _ r] version r show ?thesis
    by (auto simp: typed_def int_str_def nat_str.simps digit_char_def)
qed

text \<open>
  A directory the user typed is lost when the block is mounted again, by the YAML tab or by another
  provider and back, and when another version is chosen: the request has the default one.
\<close>

theorem typed_directory_is_lost:
  "get (directory_run (es @ [Type_directory d]) v) DIR_DATA_DIRECTORY = d
   \<and> get (directory_run (es @ [Type_directory d, Mount_directory]) v) DIR_DATA_DIRECTORY
       = Str (default_directory (get (directory_run es v) CF_POSTGRES_VERSION))
   \<and> get (directory_run (es @ [Type_directory d, Choose_version version]) v) DIR_DATA_DIRECTORY
       = (if version = get (directory_run es v) CF_POSTGRES_VERSION then d else Str (default_directory version))"
  using plain_run [of es v] unfolding directory_run_def
  by (simp add: directory_effect_def get_spread Let_def)

end
