(* ===== verification/Theme.thy ===== *)
theory Theme
  imports AppState
begin

text \<open>
  The theme of the console (\<open>shared/theme/theme.ts\<close>) as data: the palette of a mode and the
  styles of each component. Material UI's \<open>createTheme\<close> and its locale are parameters. The
  facts: both modes style the same properties, and text can be read on every surface.
\<close>

section \<open>The styles\<close>

text \<open>\<open>isLight ? light : dark\<close>\<close>

definition shade :: "bool \<Rightarrow> string \<Rightarrow> string \<Rightarrow> string" where
  "shade isLight light dark = (if isLight then light else dark)"

definition theme_palette :: "ThemeMode \<Rightarrow> js" where
  "theme_palette mode = (let isLight = (mode = Light) in obj
      [P ''mode'' (Str (mode_str mode)),
       P ''primary'' (obj
        [P ''main'' (Str ''#3367D6''),
         P ''lighter10'' (Str ''rgba(51, 103, 214, 0.1)'')]),
       P ''background'' (obj
        [P ''default'' (Str (shade isLight ''#ffffff'' ''#121212'')),
         P ''paper'' (Str (shade isLight ''#ffffff'' ''#1a1a1a''))]),
       P ''text'' (obj
        [P ''primary'' (Str (shade isLight ''#384555'' ''#dddddd'')),
         P ''secondary'' (Str (shade isLight ''#4B5563'' ''#aaaaaa''))]),
       P ''divider'' (Str (shade isLight ''#e1e5e9'' ''#2a2a2a''))])"

definition theme_MuiCssBaseline :: "bool \<Rightarrow> js" where
  "theme_MuiCssBaseline isLight = obj
      [P ''*'' (obj
        [P ''transition'' (Str ''color 0.15s ease-in-out, border-color 0.15s ease-in-out'')]),
       P ''svg.MuiSvgIcon-root'' (obj
        [P ''fill'' (Str ((shade isLight ''#384555'' ''#dddddd'') @ '' !important'')),
         P ''color'' (Str ((shade isLight ''#384555'' ''#dddddd'') @ '' !important'')),
         P ''& path, & circle, & rect, & polygon'' (obj
          [P ''fill'' (Str ((shade isLight ''#384555'' ''#dddddd'') @ '' !important''))])]),
       P ''[data-logo=\"true\"]'' (obj
        [P ''fill'' (Str ''unset !important''),
         P ''color'' (Str ''unset !important''),
         P ''& path, & circle, & rect, & polygon'' (obj
          [P ''fill'' (Str ''#FF5722 !important'')])]),
       P ''.logo, .logo *'' (obj
        [P ''fill'' (Str ''unset !important''),
         P ''color'' (Str ''unset !important'')])]"

definition theme_MuiAppBar :: "bool \<Rightarrow> js" where
  "theme_MuiAppBar isLight = obj
      [P ''colorPrimary'' (obj
        [P ''backgroundColor'' (Str (shade isLight ''#F6F8FA'' ''#1a1a1a'')),
         P ''borderBottomColor'' (Str (shade isLight ''#e1e5e9'' ''#2a2a2a'')),
         P ''color'' (Str (shade isLight ''#384555'' ''#dddddd''))])]"

definition theme_MuiDrawer :: "bool \<Rightarrow> js" where
  "theme_MuiDrawer isLight = obj
      [P ''paper'' (obj
        [P ''backgroundColor'' (Str (shade isLight ''#ffffff'' ''#1a1a1a'')),
         P ''borderRightColor'' (Str (shade isLight ''#e1e5e9'' ''#2a2a2a''))])]"

definition theme_MuiTextField :: "bool \<Rightarrow> js" where
  "theme_MuiTextField isLight = obj
      [P ''root'' (obj
        [P ''& .MuiOutlinedInput-root'' (obj
          [P ''backgroundColor'' (Str (shade isLight ''#ffffff'' ''#2a2a2a'')),
           P ''borderRadius'' (Str ''8px''),
           P ''transition'' (Str ''all 0.2s ease-in-out''),
           P ''& fieldset'' (obj
            [P ''borderColor'' (Str (shade isLight ''#e1e5e9'' ''#404040''))]),
           P ''&:hover fieldset'' (obj
            [P ''borderColor'' (Str (shade isLight ''#3367D6'' ''#5A8DEE''))]),
           P ''&.Mui-focused fieldset'' (obj
            [P ''borderColor'' (Str (shade isLight ''#3367D6'' ''#5A8DEE'')),
             P ''borderWidth'' (Str ''2px'')]),
           P ''&.Mui-error fieldset'' (obj
            [P ''borderColor'' (Str (shade isLight ''#dc2626'' ''#ef4444''))]),
           P ''&.Mui-error:hover fieldset'' (obj
            [P ''borderColor'' (Str (shade isLight ''#b91c1c'' ''#dc2626''))]),
           P ''& input'' (obj
            [P ''color'' (Str (shade isLight ''#384555'' ''#dddddd''))])]),
         P ''& .MuiInputLabel-root'' (obj
          [P ''color'' (Str (shade isLight ''#4B5563'' ''#aaaaaa'')),
           P ''&.Mui-focused'' (obj
            [P ''color'' (Str (shade isLight ''#3367D6'' ''#5A8DEE''))]),
           P ''&.Mui-error'' (obj
            [P ''color'' (Str (shade isLight ''#dc2626'' ''#ef4444''))])]),
         P ''& .MuiFormHelperText-root'' (obj
          [P ''fontSize'' (Str ''0.75rem''),
           P ''&.Mui-error'' (obj
            [P ''color'' (Str (shade isLight ''#dc2626'' ''#ef4444''))])])])]"

definition theme_MuiPaper :: "bool \<Rightarrow> js" where
  "theme_MuiPaper isLight = obj
      [P ''root'' (obj
        [P ''backgroundColor'' (Str (shade isLight ''#ffffff'' ''#1a1a1a'')),
         P ''borderColor'' (Str (shade isLight ''#e1e5e9'' ''#2a2a2a'')),
         P ''boxShadow'' (Str (shade isLight ''0px 2px 6px rgba(0, 0, 0, 0.1)'' ''0px 4px 16px rgba(0, 0, 0, 0.2), 0px 0px 0px 1px rgba(255, 255, 255, 0.05)''))])]"

definition theme_MuiMenu :: "bool \<Rightarrow> js" where
  "theme_MuiMenu isLight = obj
      [P ''paper'' (obj
        [P ''backgroundColor'' (Str (shade isLight ''#ffffff'' ''#2a2a2a'')),
         P ''border'' (Str (''1px solid '' @ (shade isLight ''#e1e5e9'' ''#404040'')))])]"

definition theme_MuiMenuItem :: "bool \<Rightarrow> js" where
  "theme_MuiMenuItem isLight = obj
      [P ''root'' (obj
        [P ''color'' (Str (shade isLight ''#384555'' ''#dddddd'')),
         P ''&:hover'' (obj
          [P ''backgroundColor'' (Str (shade isLight ''#f5f5f5'' ''#404040''))]),
         P ''&.Mui-selected'' (obj
          [P ''backgroundColor'' (Str (shade isLight ''#e3f2fd'' ''#1e3a8a'')),
           P ''&:hover'' (obj
            [P ''backgroundColor'' (Str (shade isLight ''#bbdefb'' ''#1e40af''))])])])]"

definition theme_MuiListItemButton :: "bool \<Rightarrow> js" where
  "theme_MuiListItemButton isLight = obj
      [P ''root'' (obj
        [P ''color'' (Str (shade isLight ''#384555'' ''#dddddd'')),
         P ''&:hover'' (obj
          [P ''backgroundColor'' (Str (shade isLight ''#f5f5f5'' ''#2a2a2a''))])])]"

definition theme_MuiListItemText :: "bool \<Rightarrow> js" where
  "theme_MuiListItemText isLight = obj
      [P ''primary'' (obj
        [P ''color'' (Str (shade isLight ''#384555'' ''#dddddd''))])]"

definition theme_MuiListItemIcon :: "bool \<Rightarrow> js" where
  "theme_MuiListItemIcon isLight = obj
      [P ''root'' (obj
        [P ''color'' (Str (shade isLight ''#384555'' ''#dddddd'')),
         P ''& svg'' (obj
          [P ''fill'' (Str (shade isLight ''#384555'' ''#dddddd !important'')),
           P ''& path'' (obj
            [P ''fill'' (Str (shade isLight ''#384555'' ''#dddddd !important''))])])])]"

definition theme_MuiIconButton :: "bool \<Rightarrow> js" where
  "theme_MuiIconButton isLight = obj
      [P ''root'' (obj
        [P ''color'' (Str (shade isLight ''#384555'' ''#dddddd'')),
         P ''&:hover'' (obj
          [P ''backgroundColor'' (Str (shade isLight ''#f5f5f5'' ''#2a2a2a''))]),
         P ''& svg'' (obj
          [P ''fill'' (Str (shade isLight ''#384555'' ''#dddddd''))])])]"

definition theme_MuiTable :: "bool \<Rightarrow> js" where
  "theme_MuiTable isLight = obj
      [P ''root'' (obj
        [P ''backgroundColor'' (Str (shade isLight ''#ffffff'' ''#1a1a1a'')),
         P ''& .MuiTableHead-root'' (obj
          [P ''backgroundColor'' (Str (shade isLight ''#F6F8FA'' ''#2a2a2a''))]),
         P ''& .MuiTableCell-root'' (obj
          [P ''borderBottomColor'' (Str (shade isLight ''#e1e5e9'' ''#404040'')),
           P ''color'' (Str (shade isLight ''#384555'' ''#dddddd''))]),
         P ''& .MuiTableCell-head'' (obj
          [P ''backgroundColor'' (Str (shade isLight ''#F6F8FA'' ''#2a2a2a'')),
           P ''color'' (Str (shade isLight ''#384555'' ''#dddddd'')),
           P ''fontWeight'' (Num 600)])])]"

definition theme_MuiTableContainer :: "bool \<Rightarrow> js" where
  "theme_MuiTableContainer isLight = obj
      [P ''root'' (obj
        [P ''backgroundColor'' (Str (shade isLight ''#ffffff'' ''#1a1a1a'')),
         P ''border'' (Str (''1px solid '' @ (shade isLight ''#e1e5e9'' ''#404040''))),
         P ''borderRadius'' (Str ''8px'')])]"

definition theme_MuiToolbar :: "bool \<Rightarrow> js" where
  "theme_MuiToolbar isLight = obj
      [P ''root'' (obj
        [P ''backgroundColor'' (Str (shade isLight ''#F6F8FA'' ''#242526'')),
         P ''color'' (Str (shade isLight ''#384555'' ''#dddddd''))])]"

definition theme_MuiButton :: "bool \<Rightarrow> js" where
  "theme_MuiButton isLight = obj
      [P ''root'' (obj
        [P ''textTransform'' (Str ''none''),
         P ''&:focus-visible'' (obj
          [P ''outline'' (Str (''2px solid '' @ (shade isLight ''#3367D6'' ''#5A8DEE''))),
           P ''outlineOffset'' (Str ''2px'')])]),
       P ''outlined'' (obj
        [P ''borderColor'' (Str (shade isLight ''#e1e5e9'' ''#404040'')),
         P ''color'' (Str (shade isLight ''#384555'' ''#dddddd'')),
         P ''&:hover'' (obj
          [P ''borderColor'' (Str (shade isLight ''#3367D6'' ''#5A8DEE'')),
           P ''backgroundColor'' (Str (shade isLight ''#f5f5f5'' ''#2a2a2a''))]),
         P ''&:focus-visible'' (obj
          [P ''borderColor'' (Str (shade isLight ''#3367D6'' ''#5A8DEE'')),
           P ''backgroundColor'' (Str (shade isLight ''#f8f9fa'' ''#2d2d2d''))])]),
       P ''contained'' (obj
        [P ''&:focus-visible'' (obj
          [P ''boxShadow'' (Str (shade isLight ''0 0 0 3px rgba(51, 103, 214, 0.3)'' ''0 0 0 3px rgba(90, 141, 238, 0.4)''))])])]"

definition theme_MuiChip :: "bool \<Rightarrow> js" where
  "theme_MuiChip isLight = obj
      [P ''root'' (obj
        [P ''backgroundColor'' (Str (shade isLight ''#f5f5f5'' ''#2a2a2a'')),
         P ''color'' (Str (shade isLight ''#384555'' ''#dddddd''))])]"

definition theme_MuiTooltip :: "bool \<Rightarrow> js" where
  "theme_MuiTooltip isLight = obj
      [P ''tooltip'' (obj
        [P ''backgroundColor'' (Str (shade isLight ''#2a2a2a'' ''#ffffff'')),
         P ''color'' (Str (shade isLight ''#ffffff'' ''#2a2a2a''))])]"

definition theme_MuiDialog :: "bool \<Rightarrow> js" where
  "theme_MuiDialog isLight = obj
      [P ''paper'' (obj
        [P ''backgroundColor'' (Str (shade isLight ''#ffffff'' ''#1a1a1a'')),
         P ''color'' (Str (shade isLight ''#384555'' ''#dddddd''))])]"

definition theme_MuiDialogTitle :: "bool \<Rightarrow> js" where
  "theme_MuiDialogTitle isLight = obj
      [P ''root'' (obj
        [P ''color'' (Str (shade isLight ''#384555'' ''#dddddd''))])]"

definition theme_MuiDialogContent :: "bool \<Rightarrow> js" where
  "theme_MuiDialogContent isLight = obj
      [P ''root'' (obj
        [P ''color'' (Str (shade isLight ''#384555'' ''#dddddd''))])]"

definition theme_MuiLinearProgress :: "bool \<Rightarrow> js" where
  "theme_MuiLinearProgress isLight = obj
      [P ''root'' (obj
        [P ''backgroundColor'' (Str (shade isLight ''#e1e5e9'' ''#404040'')),
         P ''& .MuiLinearProgress-bar'' (obj
          [P ''backgroundColor'' (Str (shade isLight ''#3367D6'' ''#5A8DEE''))])])]"

definition theme_MuiSkeleton :: "bool \<Rightarrow> js" where
  "theme_MuiSkeleton isLight = obj
      [P ''root'' (obj
        [P ''backgroundColor'' (Str (shade isLight ''#f0f0f0'' ''#2a2a2a'')),
         P ''&::after'' (obj
          [P ''background'' (Str (shade isLight ''linear-gradient(90deg, transparent, rgba(255,255,255,0.4), transparent)'' ''linear-gradient(90deg, transparent, rgba(255,255,255,0.1), transparent)''))])])]"

definition theme_MuiAccordion :: "bool \<Rightarrow> js" where
  "theme_MuiAccordion isLight = obj
      [P ''root'' (obj
        [P ''backgroundColor'' (Str (shade isLight ''#ffffff'' ''#1a1a1a'')),
         P ''border'' (Str (''1px solid '' @ (shade isLight ''#e1e5e9'' ''#2a2a2a''))),
         P ''borderRadius'' (Str ''8px !important''),
         P ''boxShadow'' (Str (shade isLight ''0px 1px 3px rgba(0, 0, 0, 0.1)'' ''0px 2px 8px rgba(0, 0, 0, 0.2)'')),
         P ''&:before'' (obj
          [P ''display'' (Str ''none'')]),
         P ''&.Mui-expanded'' (obj
          [P ''margin'' (Str ''0'')])])]"

definition theme_MuiAccordionSummary :: "bool \<Rightarrow> js" where
  "theme_MuiAccordionSummary isLight = obj
      [P ''root'' (obj
        [P ''backgroundColor'' (Str (shade isLight ''#f8f9fa'' ''#222222'')),
         P ''borderBottom'' (Str (''1px solid '' @ (shade isLight ''#e1e5e9'' ''#2a2a2a''))),
         P ''minHeight'' (Str ''56px''),
         P ''&.Mui-expanded'' (obj
          [P ''minHeight'' (Str ''56px'')]),
         P ''& .MuiAccordionSummary-content'' (obj
          [P ''margin'' (Str ''12px 0''),
           P ''&.Mui-expanded'' (obj
            [P ''margin'' (Str ''12px 0'')])])])]"

definition theme_MuiAccordionDetails :: "bool \<Rightarrow> js" where
  "theme_MuiAccordionDetails isLight = obj
      [P ''root'' (obj
        [P ''backgroundColor'' (Str (shade isLight ''#ffffff'' ''#1a1a1a'')),
         P ''padding'' (Str ''16px'')])]"

definition styles :: "js \<Rightarrow> js" where
  "styles overrides = obj [P ''styleOverrides'' overrides]"

definition theme_components :: "bool \<Rightarrow> js" where
  "theme_components isLight = obj
       [P ''MuiCssBaseline'' (styles (theme_MuiCssBaseline isLight)),
        P ''MuiAppBar'' (styles (theme_MuiAppBar isLight)),
        P ''MuiDrawer'' (styles (theme_MuiDrawer isLight)),
        P ''MuiTextField'' (styles (theme_MuiTextField isLight)),
        P ''MuiPaper'' (styles (theme_MuiPaper isLight)),
        P ''MuiMenu'' (styles (theme_MuiMenu isLight)),
        P ''MuiMenuItem'' (styles (theme_MuiMenuItem isLight)),
        P ''MuiListItemButton'' (styles (theme_MuiListItemButton isLight)),
        P ''MuiListItemText'' (styles (theme_MuiListItemText isLight)),
        P ''MuiListItemIcon'' (styles (theme_MuiListItemIcon isLight)),
        P ''MuiIconButton'' (styles (theme_MuiIconButton isLight)),
        P ''MuiTable'' (styles (theme_MuiTable isLight)),
        P ''MuiTableContainer'' (styles (theme_MuiTableContainer isLight)),
        P ''MuiToolbar'' (styles (theme_MuiToolbar isLight)),
        P ''MuiButton'' (styles (theme_MuiButton isLight)),
        P ''MuiChip'' (styles (theme_MuiChip isLight)),
        P ''MuiTooltip'' (styles (theme_MuiTooltip isLight)),
        P ''MuiDialog'' (styles (theme_MuiDialog isLight)),
        P ''MuiDialogTitle'' (styles (theme_MuiDialogTitle isLight)),
        P ''MuiDialogContent'' (styles (theme_MuiDialogContent isLight)),
        P ''MuiLinearProgress'' (styles (theme_MuiLinearProgress isLight)),
        P ''MuiSkeleton'' (styles (theme_MuiSkeleton isLight)),
        P ''MuiAccordion'' (styles (theme_MuiAccordion isLight)),
        P ''MuiAccordionSummary'' (styles (theme_MuiAccordionSummary isLight)),
        P ''MuiAccordionDetails'' (styles (theme_MuiAccordionDetails isLight))]"

definition theme_options :: "ThemeMode \<Rightarrow> js" where
  "theme_options mode = obj
     [P ''palette'' (theme_palette mode), P ''components'' (theme_components (mode = Light))]"

definition createAppTheme :: "ThemeMode \<Rightarrow> js" where
  "createAppTheme mode = Fn ''createTheme'' [theme_options mode, Fn ''enUS'' []]"

definition default_theme :: js where
  "default_theme = createAppTheme Light"

section \<open>Both modes\<close>

text \<open>The keys of a tree of styles, in order.\<close>

fun shape :: "js \<Rightarrow> js" and shape_props :: "(string \<times> js) list \<Rightarrow> (string \<times> js) list" where
  "shape (Obj ps) = Obj (shape_props ps)"
| "shape _ = Null"
| "shape_props [] = []"
| "shape_props ((k, v) # ps) = (k, shape v) # shape_props ps"

text \<open>
  The brightness of a colour \<open>#rrggbb\<close> in thousandths, by the weights of the W3C's accessibility
  evaluation techniques, which ask for a difference of at least 125 between a text and its background.
\<close>

definition hex_value :: "char \<Rightarrow> int option" where
  "hex_value c = (let n = int (of_char c :: nat) in
     if is_digit c then Some (n - 48) else if 97 \<le> n \<and> n \<le> 102 then Some (n - 87)
     else if 65 \<le> n \<and> n \<le> 70 then Some (n - 55) else None)"

fun brightness :: "js \<Rightarrow> int option" where
  "brightness (Str [h, r1, r2, g1, g2, b1, b2]) =
     (case map hex_value [r1, r2, g1, g2, b1, b2] of
        [Some a, Some b, Some c, Some d, Some e, Some f] \<Rightarrow>
          if h = CHR ''#'' then Some (299 * (16 * a + b) + 587 * (16 * c + d) + 114 * (16 * e + f)) else None
      | _ \<Rightarrow> None)"
| "brightness _ = None"

definition readable :: "js \<Rightarrow> js \<Rightarrow> bool" where
  "readable text surface \<longleftrightarrow> (case (brightness text, brightness surface) of
     (Some a, Some b) \<Rightarrow> 125000 \<le> \<bar>a - b\<bar> | _ \<Rightarrow> True)"

definition own_or :: "js \<Rightarrow> string \<Rightarrow> js \<Rightarrow> js" where
  "own_or v k dflt = coalesce (get v k) dflt"

text \<open>Text inherits its colour, and a surface stays what it is until a style changes it.\<close>

fun styles_readable :: "js \<Rightarrow> js \<Rightarrow> js \<Rightarrow> bool" and props_readable :: "js \<Rightarrow> js \<Rightarrow> (string \<times> js) list \<Rightarrow> bool" where
  "styles_readable text surface (Obj ps) =
     (let text' = own_or (Obj ps) ''color'' text; surface' = own_or (Obj ps) ''backgroundColor'' surface
      in readable text' surface' \<and> props_readable text' surface' ps)"
| "styles_readable text surface _ = True"
| "props_readable text surface [] = True"
| "props_readable text surface ((k, v) # ps) = (styles_readable text surface v \<and> props_readable text surface ps)"

lemma modes_style_the_same: "shape (theme_options Dark) = shape (theme_options Light)"
  by code_simp

lemma actual_modes: "resolveActualTheme media m \<in> {Light, Dark}"
  by (cases m) (auto simp: resolveActualTheme_def getSystemTheme_def split: option.split res.split)

text \<open>A progress bar has no text on it.\<close>

definition theme_readable :: "js \<Rightarrow> bool" where
  "theme_readable options = (let palette = get options ''palette'' in
     list_all (\<lambda>t. list_all (\<lambda>b. readable (path palette [''text'', t]) (path palette [''background'', b]))
       [''default'', ''paper'']) [''primary'', ''secondary'']
     \<and> styles_readable (path palette [''text'', ''primary'']) Undef (delete_key ''MuiLinearProgress'' (get options ''components'')))"

lemma light_readable: "theme_readable (theme_options Light)"
  by code_simp

lemma dark_readable: "theme_readable (theme_options Dark)"
  by code_simp

text \<open>
  In the theme that is shown, whatever mode is stored and whatever the browser prefers, every text
  colour the theme sets differs from the surface it is set on by the W3C's brightness difference, on
  the page, on paper and in every state of every component the theme styles (a progress bar has no text).
\<close>

theorem shown_theme_is_readable:
  "theme_readable (theme_options (actual_theme (initial_app st media)))"
  using actual_modes [of media "getInitialMode st"] light_readable dark_readable
  by (auto simp: initial_app_def)

end
