(* ===== verification/TablePages.thy ===== *)
theory TablePages
  imports Tables
begin

text \<open>
  The tables as pages that live on: the state a table keeps while it is open, what the user and the
  polling do to it, and how the server reads the query it makes (sort fields and period,
  \<open>console/service/internal/storage\<close>). The views of the six tables close the theory.
\<close>

section \<open>Sorting\<close>

text \<open>The names the server sorts by, and how it reads \<open>sort_by\<close>.\<close>

definition clusterSortFields :: "(string \<times> string) list" where
  "clusterSortFields =
     [(''name'', ''cluster_name''), (''id'', ''cluster_id''), (''created_at'', ''created_at''),
      (''updated_at'', ''updated_at''), (''environment'', ''environment_id''), (''status'', ''cluster_status''),
      (''project'', ''project_id''), (''location'', ''cluster_location''), (''server_count'', ''server_count''),
      (''postgres_version'', ''postgres_version'')]"

definition operationSortFields :: "(string \<times> string) list" where
  "operationSortFields =
     [(''cluster_name'', ''cluster''), (''type'', ''type''), (''status'', ''status''), (''id'', ''id''),
      (''started'', ''started''), (''finished'', ''finished''), (''cluster'', ''cluster''),
      (''environment'', ''environment'')]"

definition order_field :: "(string \<times> string) list \<Rightarrow> string \<Rightarrow> string \<Rightarrow> string" where
  "order_field convMap sortBy orderBy =
     (if sortBy = [] then orderBy
      else let order = (if hd sortBy = CHR ''-'' then ''desc'' else ''asc'');
               name = (if hd sortBy = CHR ''-'' then tl sortBy else sortBy);
               tableField = (case map_of convMap name of Some f \<Rightarrow> f | None \<Rightarrow> [])
           in if tableField \<noteq> []
              then (if orderBy \<noteq> [] then orderBy @ '','' else orderBy) @ tableField @ '' '' @ order
              else orderBy)"

definition OrderByConverter :: "string option \<Rightarrow> string \<Rightarrow> (string \<times> string) list \<Rightarrow> string" where
  "OrderByConverter sortByFromApi defaultField convMap =
     (let orderBy = (case sortByFromApi of None \<Rightarrow> []
            | Some s \<Rightarrow> fold (order_field convMap) (split_on (\<lambda>c. c = CHR '','') s) [])
      in if orderBy = [] then defaultField else orderBy)"

text \<open>The identifier of a column, by which the table sorts.\<close>

definition column_id :: "js \<Rightarrow> string" where
  "column_id c = (case c of Fn f (Str n # _) \<Rightarrow> n | _ \<Rightarrow> [])"

definition sort_choice :: "string \<Rightarrow> bool \<Rightarrow> js" where
  "sort_choice c desc = obj [P ''id'' (Str c), P ''desc'' (Bool desc)]"

definition sort_query :: "string \<Rightarrow> bool \<Rightarrow> string" where
  "sort_query c desc = js_str (manageSortingOrder (sort_choice c desc))"

lemma column_id_column [simp]: "column_id (column name options) = name"
  by (simp add: column_id_def column_def)

lemma sort_query_eq: "sort_query c desc = (if desc then ''-'' @ c else c)"
  by (simp add: sort_query_def sort_choice_def manageSortingOrder_def get_obj)

lemma order_by_one:
  assumes "c \<noteq> []" "hd c \<noteq> CHR ''-''" "\<forall>x \<in> set c. x \<noteq> CHR '',''" "map_of convMap c = Some f" "f \<noteq> []"
  shows "OrderByConverter (Some (sort_query c desc)) dflt convMap = f @ (if desc then '' desc'' else '' asc'')"
  using assms by (simp add: OrderByConverter_def order_field_def sort_query_eq Let_def)

lemma cluster_columns: "map column_id (getClusterTableColumns envs vs) =
    [''name'', ''status'', ''created_at'', ''environment'', ''server_count'', ''postgres_version'', ''location'']"
  by (simp add: getClusterTableColumns_def)

lemma operation_columns: "map column_id operationTableColumns =
    [''id'', ''started'', ''finished'', ''type'', ''status'', ''cluster_name'', ''environment'']"
  by (simp add: operationTableColumns_def)

text \<open>
  C37: the identifiers of the columns are the sort fields of the server: whatever column of the table of
  clusters or of operations the user sorts by, in either direction, the server orders by exactly the field
  it keeps for this column, and never falls back to its default order; different columns of a table give
  different orders.
\<close>

theorem columns_sort_on_the_server:
  "list_all (\<lambda>c. case map_of clusterSortFields c of None \<Rightarrow> False
      | Some f \<Rightarrow> OrderByConverter (Some (sort_query c desc)) ''cluster_id'' clusterSortFields
          = f @ (if desc then '' desc'' else '' asc''))
     (map column_id (getClusterTableColumns envs vs))
   \<and> list_all (\<lambda>c. case map_of operationSortFields c of None \<Rightarrow> False
      | Some f \<Rightarrow> OrderByConverter (Some (sort_query c desc)) ''id desc'' operationSortFields
          = f @ (if desc then '' desc'' else '' asc''))
     (map column_id operationTableColumns)
   \<and> distinct (map (\<lambda>c. OrderByConverter (Some (sort_query c desc)) ''cluster_id'' clusterSortFields)
       (map column_id (getClusterTableColumns envs vs)))
   \<and> distinct (map (\<lambda>c. OrderByConverter (Some (sort_query c desc)) ''id desc'' operationSortFields)
       (map column_id operationTableColumns))"
  unfolding cluster_columns operation_columns
  by (simp add: clusterSortFields_def operationSortFields_def order_by_one)

section \<open>The page of the operations\<close>

text \<open>
  The period of the page: its end is the moment the page was opened, its start the choice of the user.
\<close>

record operations_page = table_state +
  startDate :: js
  endDate :: js

definition open_operations :: "'d dates \<Rightarrow> operations_page" where
  "open_operations d = table_state.extend (initial_table [sort_on OT_ID])
     \<lparr>startDate = initial_start_date d, endDate = Str (toISOString d (now d))\<rparr>"

text \<open>
  What happens to it: the table's own choices of page and order, a period chosen when the clock reads
  \<open>d\<close>, and the poll or the refresh button, which repeat the query.
\<close>

datatype 'd operations_event =
    Set_pagination int int
  | Set_sorting "js list"
  | Choose_period "'d dates" string
  | Refetch

fun operations_step :: "'d operations_event \<Rightarrow> operations_page \<Rightarrow> operations_page" where
  "operations_step (Set_pagination i n) s = s\<lparr>pageIndex := i, pageSize := n\<rparr>"
| "operations_step (Set_sorting cs) s = s\<lparr>sorting := cs\<rparr>"
| "operations_step (Choose_period d name) s = s\<lparr>startDate := getOperationsTimeNameValue d name\<rparr>"
| "operations_step Refetch s = s"

definition operations_query :: "js \<Rightarrow> operations_page \<Rightarrow> js" where
  "operations_query currentProject s =
     operations_args currentProject (startDate s) (endDate s) (table_state.truncate s)"

inductive operations_reachable :: "'d dates \<Rightarrow> operations_page \<Rightarrow> bool" for d :: "'d dates" where
  open_page: "operations_reachable d (open_operations d)"
| next_state: "operations_reachable d s \<Longrightarrow> operations_reachable d (operations_step (e :: 'd operations_event) s)"

text \<open>
  How the server reads the period (\<open>GetOperations\<close> and the view \<open>v_operations\<close>): an
  operation started when its row was created, and finished when its row was last changed, if ever.
\<close>

record 'd operation_times =
  created_at :: 'd
  updated_at :: "'d option"

definition in_period :: "('d \<Rightarrow> 'd \<Rightarrow> bool) \<Rightarrow> (string \<Rightarrow> 'd) \<Rightarrow> js \<Rightarrow> 'd operation_times \<Rightarrow> bool" where
  "in_period le parse args op \<longleftrightarrow>
     le (parse (js_str (get args ''startDate''))) (created_at op)
     \<and> (case updated_at op of None \<Rightarrow> False | Some finished \<Rightarrow> le finished (parse (js_str (get args ''endDate''))))"

lemma query_endDate [simp]: "get (operations_query currentProject s) ''endDate'' = endDate s"
  by (simp add: operations_query_def operations_args_def page_args_def sort_args_def get_obj obj_simps
      split: list.split)

lemma endDate_fixed: "operations_reachable d s \<Longrightarrow> endDate s = Str (toISOString d (now d))"
proof (induction rule: operations_reachable.induct)
  case open_page
  show ?case by (simp add: open_operations_def table_state.defs)
next
  case (next_state s e)
  then show ?case by (cases e) simp_all
qed

text \<open>
  C36: the page of the operations, which polls for news, asks for a period that ended when it was opened,
  and the server compares this end with the last change of an operation: an operation that is started, or
  that only writes its log, after the page was opened is in none of its later answers, over any choices of
  period, page and order; one that was shown disappears with its next change.
\<close>

theorem open_page_misses_news:
  assumes "operations_reachable d s" "\<forall>x. parse (toISOString d x) = x"
    and "\<not> le changed (now d)"
  shows "\<not> in_period le parse (operations_query project s) (op\<lparr>updated_at := Some changed\<rparr>)
    \<and> \<not> in_period le parse (operations_query project s) (op\<lparr>updated_at := None\<rparr>)"
  using assms(2,3) by (simp add: in_period_def endDate_fixed [OF assms(1)])

definition clock :: "int \<Rightarrow> int dates" where
  "clock t = \<lparr>now = t, subDays = (\<lambda>x n. x - 24 * n), subMonths = (\<lambda>x n. x - 720 * n),
     subYears = (\<lambda>x n. x - 8760 * n), startOfDay = (\<lambda>x. x - x mod 24),
     toISOString = (\<lambda>x. if x < 0 then replicate (2 * nat (- x) + 1) CHR ''x'' else replicate (2 * nat x) CHR ''x'')\<rparr>"

definition read_clock :: "string \<Rightarrow> int" where
  "read_clock s = (if even (length s) then int (length s div 2) else - int (length s div 2))"

theorem open_page_misses_news_witness:
  "in_period (\<le>) read_clock (operations_query (Str ''1'') (open_operations (clock 100)))
     \<lparr>created_at = 90, updated_at = Some 95\<rparr>
   \<and> \<not> in_period (\<le>) read_clock
     (operations_query (Str ''1'') (operations_step (Choose_period (clock 102) DR_LAST_WEEK) (open_operations (clock 100))))
     \<lparr>created_at = 90, updated_at = Some 101\<rparr>"
proof
  show "in_period (\<le>) read_clock (operations_query (Str ''1'') (open_operations (clock 100)))
     \<lparr>created_at = 90, updated_at = Some 95\<rparr>"
    by (simp add: in_period_def open_operations_def table_state.defs operations_query_def operations_args_def page_args_def
        sort_args_def get_obj obj_simps initial_start_date_def formatOperationsDate_def clock_def read_clock_def
        initial_table_def sort_on_def split: list.split)
  let ?s = "operations_step (Choose_period (clock 102) DR_LAST_WEEK) (open_operations (clock 100))"
  have "operations_reachable (clock 100) ?s" by (intro operations_reachable.intros)
  moreover have "\<forall>x. read_clock (toISOString (clock 100) x) = x" by (simp add: clock_def read_clock_def)
  ultimately show "\<not> in_period (\<le>) read_clock (operations_query (Str ''1'') ?s) \<lparr>created_at = 90, updated_at = Some 101\<rparr>"
    using open_page_misses_news [of "clock 100" ?s read_clock "(\<le>)" 101 "Str ''1''" "\<lparr>created_at = 90, updated_at = None\<rparr>"]
    by (simp add: clock_def)
qed

section \<open>Buttons and views\<close>

definition handleRefresh :: "('w world_scheme, js) action" where
  "handleRefresh = emit (Call ''refetch'' [])"

definition handleCreateCluster :: "('w world_scheme, js) action" where
  "handleCreateCluster = emit (Navigate (generateAbsoluteRouterPath ''/clusters/add'' Undef))"

definition change_period :: "'d dates \<Rightarrow> js \<Rightarrow> operations_page \<Rightarrow> operations_page" where
  "change_period d e s = operations_step (Choose_period d (js_str (path e [''target'', ''value'']))) s"

definition table_view :: "js \<Rightarrow> js \<Rightarrow> js" where
  "table_view buttons config = fragment [buttons, elem ''DefaultTable'' [P ''tableConfig'' config] []]"

definition ClustersTable :: "js \<Rightarrow> js \<Rightarrow> js \<Rightarrow> table_state \<Rightarrow> js res" where
  "ClustersTable clustersList environments postgresVersions s =
     map_res (table_view (elem ''ClustersTableButtons'' [P ''refetch'' (get clustersList ''refetch'')] []))
       (clusters_table_config clustersList environments postgresVersions s)"

definition OperationsTable :: "js \<Rightarrow> operations_page \<Rightarrow> js res" where
  "OperationsTable operationsList s =
     map_res (table_view (elem ''OperationsTableButtons''
         [P ''refetch'' (get operationsList ''refetch''), P ''startDate'' (startDate s),
          P ''setStartDate'' (Fn ''setStartDate'' [])] []))
       (operations_table_config operationsList (table_state.truncate s))"

definition SecretsTable :: "js \<Rightarrow> table_state \<Rightarrow> js res" where
  "SecretsTable secretsList s =
     map_res (table_view (elem ''SettingsTableButtons'' [] [])) (secrets_table_config secretsList s)"

definition ProjectsTable :: "js \<Rightarrow> table_state \<Rightarrow> js res" where
  "ProjectsTable projectsList s =
     map_res (table_view (elem ''ProjectsTableButtons'' [] [])) (projects_table_config projectsList s)"

definition EnvironmentsTable :: "js \<Rightarrow> table_state \<Rightarrow> js res" where
  "EnvironmentsTable environmentsList s =
     map_res (table_view (elem ''EnvironmentsTableButtons'' [] [])) (environments_table_config environmentsList s)"

definition ClustersOverviewTableButtons :: js where
  "ClustersOverviewTableButtons =
     elem ''Stack'' [P ''direction'' (Str ''row''), P ''justifyContent'' (Str ''flex-end''), P ''gap'' (Str ''8px'')]
       [elem ''Button'' [P ''onClick'' (Fn ''handleRefresh'' []), P ''startIcon'' (elem ''RefreshIcon'' [] []),
          P ''variant'' (Str ''text'')] [tr ''refresh'' []]]"

definition ClusterOverviewTable :: "js \<Rightarrow> js \<Rightarrow> js \<Rightarrow> js res" where
  "ClusterOverviewTable clusterName items isLoading =
     map_res (\<lambda>config. fragment
       [elem ''Stack'' [P ''direction'' (Str ''row''), P ''alignItems'' (Str ''center''), P ''justifyContent'' (Str ''space-between'')]
          [elem ''Typography'' [P ''fontWeight'' (Str ''bold'')]
             [tr ''cluster'' [], Str '': '', if clusterName = Undef then Str [] else clusterName],
           elem ''ClustersOverviewTableButtons'' [] []],
        elem ''DefaultTable'' [P ''tableConfig'' config] []])
       (overview_table_config items isLoading)"

definition add_button_bar :: "string \<Rightarrow> string \<Rightarrow> js" where
  "add_button_bar gap component =
     elem ''Stack'' [P ''direction'' (Str ''row''), P ''justifyContent'' (Str ''flex-end''), P ''gap'' (Str gap)]
       [elem component [] []]"

definition SettingsTableButtons :: js where
  "SettingsTableButtons = add_button_bar ''8px'' ''SettingsAddSecret''"

definition ProjectsTableButtons :: js where
  "ProjectsTableButtons = add_button_bar ''4px'' ''AddProject''"

definition EnvironmentsTableButtons :: js where
  "EnvironmentsTableButtons = add_button_bar ''4px'' ''AddEnvironment''"

definition Clusters_page :: js where
  "Clusters_page = elem ''Box'' [] [elem ''ClustersTable'' [] []]"

definition Operations_page :: js where
  "Operations_page = elem ''Box'' [] [elem ''OperationsTable'' [] []]"

text \<open>
  While the list of a table is not loaded, or when it holds objects only, the table is shown: only an
  entry that is null makes it throw.
\<close>

lemma mapped_rows_ok:
  "nullish v \<or> (\<exists>xs. v = Arr xs \<and> list_all (\<lambda>x. \<not> nullish x) xs) \<Longrightarrow> is_ok (mapped_rows (row_of parts) v)"
proof -
  have "is_ok (map_all (row_of parts) xs)" if "list_all (\<lambda>x. \<not> nullish x) xs" for xs
    using that by (induction xs) (auto simp: row_of_def res_simps)
  then show "nullish v \<or> (\<exists>xs. v = Arr xs \<and> list_all (\<lambda>x. \<not> nullish x) xs) \<Longrightarrow> ?thesis"
    by (fastforce simp: mapped_rows_def res_simps)
qed

end
