(* ===== verification/AppViews.thy ===== *)
theory AppViews
  imports Theme TablePages ClusterViews BlockViews
begin

text \<open>
  The frame of the console: the application with its theme and store (\<open>app/App.tsx\<close>,
  \<open>app/redux/store\<close>), the header with the project and the theme, login and logout, and the
  settings form with its two blocks; the small shared components; the buttons that only leave a form.
\<close>

section \<open>Application and store\<close>

definition AppContent :: "ThemeMode \<Rightarrow> js" where
  "AppContent actualTheme = elem ''ThemeProvider'' [P ''theme'' (createAppTheme actualTheme)]
     [elem ''CssBaseline'' [] [],
      elem ''LocalizationProvider'' [P ''dateAdapter'' (Fn ''AdapterDateFns'' [])]
        [elem ''Router'' [] [], elem ''ToastContainer'' [P ''theme'' (Str (mode_str actualTheme))] []]]"

definition App :: js where
  "App = elem ''Provider'' [P ''store'' (Fn ''store'' [])] [elem ''AppContent'' [] []]"

definition handleChange :: "media \<Rightarrow> app_state \<Rightarrow> app_state" where
  "handleChange media s = updateSystemTheme media s"

definition media_effect :: "('w world_scheme, js) action" where
  "media_effect = emit (Call ''mediaQuery.addEventListener'' [Str ''change'', Fn ''handleChange'' []])"

definition media_cleanup :: "('w world_scheme, js) action" where
  "media_cleanup = emit (Call ''mediaQuery.removeEventListener'' [Str ''change'', Fn ''handleChange'' []])"

text \<open>
  The store combines the API objects by their \<open>reducerPath\<close>; \<open>api\<close> looks one up by its name.
\<close>

definition store_apis :: "string list" where
  "store_apis = [''baseApi'', ''clustersApi'', ''environmentsApi'', ''operationsApi'', ''projectsApi'', ''secretsApi'',
     ''settingsApi'', ''otherApi'']"

definition rootReducer :: "(string \<Rightarrow> js) \<Rightarrow> js" where
  "rootReducer api = obj
     (map (\<lambda>name. P (js_str (get (api name) ''reducerPath'')) (get (api name) ''reducer'')) store_apis
      @ [P ''project'' (Fn ''projectSlice.reducer'' []), P ''theme'' (Fn ''themeSlice.reducer'' [])])"

text \<open>\<open>filter((mw, idx, arr) => arr.indexOf(mw) === idx)\<close>\<close>

definition indexOf :: "'a list \<Rightarrow> 'a \<Rightarrow> nat" where
  "indexOf arr x = length (takeWhile (\<lambda>y. y \<noteq> x) arr)"

definition uniqueApiMiddlewares :: "js list \<Rightarrow> js list" where
  "uniqueApiMiddlewares arr = map snd (filter (\<lambda>(idx, mw). indexOf arr mw = idx) (enumerate 0 arr))"

definition store_middleware :: "(string \<Rightarrow> js) \<Rightarrow> js list \<Rightarrow> js list" where
  "store_middleware api defaults =
     defaults @ uniqueApiMiddlewares (map (\<lambda>name. get (api name) ''middleware'') store_apis) @ [Fn ''rtkQueryErrorLogger'' []]"

definition makeStore :: "(string \<Rightarrow> js) \<Rightarrow> js list \<Rightarrow> js \<Rightarrow> ('w world_scheme, js) action" where
  "makeStore api defaults preloadedState =
     (let store = Fn ''configureStore'' [obj
        [P ''reducer'' (rootReducer api), P ''middleware'' (Arr (store_middleware api defaults)),
         P ''preloadedState'' preloadedState]]
      in seq (emit (Call ''setupListeners'' [get store ''dispatch''])) (ret store))"

section \<open>Small components\<close>

definition Spinner :: js where
  "Spinner = elem ''Stack'' [P ''alignItems'' (Str ''center'')] [elem ''CircularProgress'' [P ''size'' (Num 48)] []]"

definition ErrorBox :: "js \<Rightarrow> js" where
  "ErrorBox text = elem ''Box'' []
     [elem ''Typography'' [P ''fontWeight'' (Str ''bold'')] [coalesce text (tr ''somethingWentWrongWhileRendering'' [])]]"

text \<open>The cancel buttons of the cluster form, the YAML editor and the secret dialog.\<close>

definition cancelHandler :: "('w world_scheme, js) action" where
  "cancelHandler = emit (Navigate (generateAbsoluteRouterPath ''/clusters'' Undef))"

definition handleEditorDidMount :: "js \<Rightarrow> ('w world_scheme, js) action" where
  "handleEditorDidMount editor = seq (emit (Call ''editorRef.current ='' [editor])) (emit (Call ''editor.focus'' []))"

definition CLUSTER_SECRET_MODAL_FORM_DEFAULT_VALUES :: js where
  "CLUSTER_SECRET_MODAL_FORM_DEFAULT_VALUES = obj (map (\<lambda>name. P name (Str []))
     [SEC_SECRET_TYPE, SEC_SECRET_NAME, SEC_AWS_ACCESS_KEY_ID, SEC_AWS_SECRET_ACCESS_KEY,
      SEC_GCP_SERVICE_ACCOUNT_CONTENTS, SEC_DO_API_TOKEN, SEC_AZURE_SUBSCRIPTION_ID, SEC_AZURE_CLIENT_ID,
      SEC_AZURE_SECRET, SEC_AZURE_TENANT, SEC_HCLOUD_API_TOKEN, SEC_SSH_PRIVATE_KEY, SEC_USERNAME, SEC_PASSWORD])"

section \<open>Header, login and logout\<close>

definition handleProjectChange :: "js \<Rightarrow> app_state \<Rightarrow> app_state" where
  "handleProjectChange e s = setProject (path e [''target'', ''value'']) s"

definition project_option :: "js \<Rightarrow> js" where
  "project_option project = menu_item (get project ''id'') (get project ''name'')"

definition Header :: "js \<Rightarrow> js \<Rightarrow> js" where
  "Header currentProject projects = elem ''AppBar'' [P ''position'' (Str ''fixed'')]
     [elem ''Toolbar'' []
       [elem ''Stack'' []
         [elem ''Stack'' []
           [elem ''Stack'' []
             [elem ''Logo'' [P ''data-logo'' (Str ''true'')] [],
              elem ''Box'' []
                [elem ''Typography'' [] [Str ''autobase''],
                 elem ''Typography'' [] [Str (''for PostgreSQL'' @ [CHR 0xAE])]]],
            elem ''TextField''
              [P ''select'' (Bool True), P ''size'' (Str ''small''), P ''value'' currentProject,
               P ''onChange'' (Fn ''handleProjectChange'' []), P ''label'' (tr ''project'' [])]
              [case path projects [''data'', ''data''] of Arr ps \<Rightarrow> Arr (map project_option ps) | _ \<Rightarrow> Arr []]],
          elem ''Stack'' [] [elem ''ThemeToggle'' [] [], elem ''LogoutButton'' [] []]]]]"

definition getIcon :: "ThemeMode \<Rightarrow> js" where
  "getIcon currentMode = (case currentMode of
     Light \<Rightarrow> elem ''LightModeIcon'' [] [] | Dark \<Rightarrow> elem ''DarkModeIcon'' [] [] | System \<Rightarrow> elem ''SystemModeIcon'' [] [])"

definition getTooltipText :: "ThemeMode \<Rightarrow> js" where
  "getTooltipText currentMode = (case getNextMode currentMode of
     Light \<Rightarrow> tr ''switchToLightMode'' [] | Dark \<Rightarrow> tr ''switchToDarkMode'' [] | System \<Rightarrow> tr ''switchToSystemMode'' [])"

definition ThemeToggle :: "ThemeMode \<Rightarrow> js" where
  "ThemeToggle currentMode = elem ''Tooltip'' [P ''title'' (getTooltipText currentMode)]
     [elem ''IconButton'' [P ''onClick'' (Fn ''handleToggle'' []), P ''size'' (Str ''small'')] [getIcon currentMode]]"

definition LogoutButton :: js where
  "LogoutButton = elem ''Tooltip'' [P ''title'' (tr ''logout'' [])]
     [elem ''IconButton'' [P ''onClick'' (Fn ''handleLogout'' []), P ''size'' (Str ''small'')] [elem ''Logout'' [] []]]"

definition LOGIN_TOKEN :: string where
  "LOGIN_TOKEN = ''token''"

definition Login :: "js \<Rightarrow> string \<Rightarrow> js" where
  "Login values version = elem ''Stack'' []
     [elem ''Paper'' []
       [elem ''form'' [P ''onSubmit'' (Fn ''handleSubmit'' [Str ''onSubmit''])]
         [elem ''Stack'' []
           [elem ''Logo'' [P ''data-logo'' (Str ''true'')] [],
            elem ''Typography'' [P ''fontWeight'' (Str ''400''), P ''variant'' (Str ''h6'')]
              [Str (''Autobase for PostgreSQL'' @ [CHR 0xAE])],
            controller values LOGIN_TOKEN (\<lambda>value onChange. elem ''TextField''
              [P ''required'' (Bool True), P ''autoFocus'' (Bool True), P ''fullWidth'' (Bool True), P ''value'' value,
               P ''onChange'' onChange, P ''label'' (tr ''token'' []), P ''placeholder'' (tr ''enterTokenPlaceholder'' []),
               P ''size'' (Str ''small'')] []),
            elem ''Button'' [P ''variant'' (Str ''contained''), P ''fullWidth'' (Bool True), P ''type'' (Str ''submit'')]
              [tr ''login'' []],
            elem ''Typography'' [P ''variant'' (Str ''caption''), P ''size'' (Str ''small'')] [Str ''v.'', Str version]]],
        elem ''Box'' []
          [elem ''Typography'' [P ''variant'' (Str ''caption''), P ''size'' (Str ''small'')]
            [Str ''Powered by&nbsp;'',
             elem ''Link'' [P ''href'' (Str ''https://gs-labs.ru/''), P ''underline'' (Str ''hover''), P ''target'' (Str ''_blank'')]
               [Str ''GS Labs'']]]]]"

section \<open>The settings form\<close>

definition proxy_row :: "js \<Rightarrow> string \<times> string \<Rightarrow> js" where
  "proxy_row values = (\<lambda>(fieldName, lbl). controller values fieldName (\<lambda>value onChange. elem ''Stack'' []
     [elem ''Typography'' [] [Str lbl],
      elem ''TextField'' [P ''value'' value, P ''onChange'' onChange, P ''size'' (Str ''small'')] []]))"

definition SettingsProxyBlock :: "js \<Rightarrow> js" where
  "SettingsProxyBlock values = elem ''Stack'' []
     [elem ''Typography'' [P ''fontWeight'' (Str ''bold'')] [tr ''proxyServer'' []],
      elem ''Typography'' [] [tr ''proxyServerInfo'' []],
      elem ''Stack'' [] [Arr (map (proxy_row values) [(SET_HTTP_PROXY, ''http_proxy''), (SET_HTTPS_PROXY, ''https_proxy'')])]]"

definition switch_row :: "js \<Rightarrow> string \<times> js \<Rightarrow> js" where
  "switch_row values = (\<lambda>(fieldName, lbl). controller values fieldName (\<lambda>value onChange. elem ''Stack'' []
     [elem ''Stack'' [] [elem ''Typography'' [] [lbl]],
      elem ''Switch'' [P ''value'' value, P ''onChange'' onChange, P ''checked'' (to_bool value)] []]))"

definition SettingExpertModeBlock :: "js \<Rightarrow> js" where
  "SettingExpertModeBlock values = elem ''Stack'' []
     [elem ''Typography'' [P ''fontWeight'' (Str ''bold'')] [tr ''expertMode'' []],
      elem ''Typography'' [] [tr ''expertModeInfo'' []],
      Arr (map (switch_row values)
        [(SET_IS_EXPERT_MODE_ENABLED, tr ''enableExpertMode'' []), (SET_IS_YAML_ENABLED, tr ''enableYamlTab'' [])])]"

definition SettingsForm :: "bool \<Rightarrow> bool \<Rightarrow> bool \<Rightarrow> bool \<Rightarrow> bool \<Rightarrow> js" where
  "SettingsForm isResetting isFetching isDirty isValid isLoading = elem ''Box'' []
     [if isResetting \<or> isFetching then elem ''Spinner'' [] []
      else elem ''FormProvider'' []
        [elem ''form'' [P ''onSubmit'' (Fn ''handleSubmit'' [Str ''onSubmit''])]
          [elem ''Stack'' []
            [elem ''SettingsProxyBlock'' [] [],
             elem ''SettingExpertModeBlock'' [] [],
             elem ''Button''
               [P ''type'' (Str ''submit''), P ''variant'' (Str ''contained''),
                P ''disabled'' (Bool (\<not> isDirty \<or> \<not> isValid \<or> isLoading)), P ''startIcon'' (busy_icon isLoading)]
               [tr ''save'' []]]]]]"

section \<open>Facts of the store\<close>

text \<open>Each middleware is there exactly once, however many of the API objects share it.\<close>

lemma indexOf_found: "x \<in> set arr \<Longrightarrow> indexOf arr x < length arr \<and> arr ! indexOf arr x = x"
  by (induction arr) (auto simp: indexOf_def)

lemma unique_middlewares:
  "distinct (uniqueApiMiddlewares arr)" "set (uniqueApiMiddlewares arr) = set arr"
proof -
  let ?kept = "filter (\<lambda>(idx, mw). indexOf arr mw = idx) (enumerate 0 arr)"
  have "distinct ?kept" by (simp add: distinct_enumerate)
  moreover have "inj_on snd (set ?kept)" by (auto simp: inj_on_def)
  ultimately show "distinct (uniqueApiMiddlewares arr)"
    unfolding uniqueApiMiddlewares_def distinct_map by blast
  show "set (uniqueApiMiddlewares arr) = set arr"
  proof
    show "set (uniqueApiMiddlewares arr) \<subseteq> set arr"
      by (auto simp: uniqueApiMiddlewares_def in_set_enumerate_eq dest: nth_mem)
    show "set arr \<subseteq> set (uniqueApiMiddlewares arr)"
    proof
      fix x assume "x \<in> set arr"
      then have "(indexOf arr x, x) \<in> set ?kept"
        using indexOf_found [of x arr] by (simp add: in_set_enumerate_eq)
      then show "x \<in> set (uniqueApiMiddlewares arr)"
        unfolding uniqueApiMiddlewares_def set_map by (metis image_eqI snd_conv)
    qed
  qed
qed

text \<open>
  The API objects of the sources are all the one \<open>baseApi\<close> with endpoints injected, so the store
  has one API slice and one API middleware.
\<close>

lemma one_api_slice:
  assumes "\<forall>name \<in> set store_apis. api name = base" "get base ''reducerPath'' = Str ''api''"
  shows "store_middleware api defaults = defaults @ [get base ''middleware'', Fn ''rtkQueryErrorLogger'' []]"
    and "keys_of (rootReducer api) = {''api'', ''project'', ''theme''}"
proof -
  have "map (\<lambda>name. get (api name) ''middleware'') store_apis = replicate 8 (get base ''middleware'')"
    using assms(1) by (simp add: store_apis_def numeral_eq_Suc)
  moreover have "uniqueApiMiddlewares (replicate 8 m) = [m]" for m
    by (simp add: uniqueApiMiddlewares_def numeral_eq_Suc indexOf_def)
  ultimately show "store_middleware api defaults = defaults @ [get base ''middleware'', Fn ''rtkQueryErrorLogger'' []]"
    by (simp add: store_middleware_def)
  show "keys_of (rootReducer api) = {''api'', ''project'', ''theme''}"
    using assms by (auto simp: set_eq_iff rootReducer_def store_apis_def keys_of_obj)
qed

section \<open>Facts of the header\<close>

text \<open>
  The button of the theme does what it says: its tooltip names the mode a click leads to, its icon the mode
  that is set, and three clicks lead back.
\<close>

lemma toggle_tells_mode:
  "getTooltipText (theme_mode s) = tr (case theme_mode (handleToggle media s) of
      Light \<Rightarrow> ''switchToLightMode'' | Dark \<Rightarrow> ''switchToDarkMode'' | System \<Rightarrow> ''switchToSystemMode'') []"
  "theme_mode (handleToggle m3 (handleToggle m2 (handleToggle m1 s))) = theme_mode s"
  by (cases "theme_mode s"; simp add: getTooltipText_def handleToggle_def setThemeMode_def getNextMode_def)+

lemma project_args:
  "get (clusters_args currentProject t) ''projectId'' = js_number currentProject"
  "get (secrets_args currentProject t) ''projectId'' = js_number currentProject"
  by (simp_all add: clusters_args_def secrets_args_def page_args_def sort_args_def get_obj obj_simps split: list.split)

text \<open>
  When the first answer has no project, the header sets the word \<open>undefined\<close> as the project:
  it is stored and survives a reload, no later answer replaces it, and every table that asks for the
  project's entries asks for those of NaN, until the user selects a project by hand.
\<close>

theorem undefined_project_sticks:
  "(let s' = header_effect (obj [P ''data'' (obj [P ''data'' (Arr [])])]) (s\<lparr>current_project := Str []\<rparr>) in
     current_project s' = Str ''undefined''
     \<and> header_effect later s' = s'
     \<and> current_project (initial_app (store s') media) = Str ''undefined''
     \<and> get (clusters_args (current_project s') t) ''projectId'' = NaN
     \<and> get (secrets_args (current_project s') t) ''projectId'' = NaN
     \<and> get (clusters_args (current_project (handleProjectChange (obj [P ''target'' (obj [P ''value'' (Num n)])]) s')) t)
         ''projectId'' = Num n)"
proof -
  let ?s' = "s\<lparr>current_project := Str ''undefined'', store := setItem (store s) ''currentProject'' ''undefined''\<rparr>"
  have "header_effect (obj [P ''data'' (obj [P ''data'' (Arr [])])]) (s\<lparr>current_project := Str []\<rparr>) = ?s'"
    by (simp add: header_effect_def setProject_def get_obj)
  moreover have "header_effect later ?s' = ?s'" by (simp add: header_effect_def)
  moreover have "js_number (Str ''undefined'') = NaN" by code_simp
  ultimately show ?thesis
    by (simp add: initial_app_def coalesce_def project_args get_obj handleProjectChange_def setProject_def)
qed

section \<open>Facts of the settings\<close>

text \<open>The first part of the handler sets the flags, and what follows keeps them.\<close>

definition has_flags :: "bool \<Rightarrow> bool \<Rightarrow> app_state \<Rightarrow> bool" where
  "has_flags expert yaml s \<longleftrightarrow> is_expert_mode s = expert \<and> is_yaml_enabled s = yaml"

lemma flags_emit: "keeps (has_flags expert yaml) (emit e)"
  by (simp add: keeps_def emit_def has_flags_def)

lemma flags_request: "keeps (has_flags expert yaml) (request srv ep arg)"
  by (simp add: keeps_def request_def has_flags_def Let_def)

lemma flags_error: "keeps (has_flags expert yaml) (handleRequestErrorCatch e)"
  unfolding handleRequestErrorCatch_def by (intro keeps_intros flags_emit)

lemma catch_after: "fst (m s) = Ok x \<Longrightarrow> catch (seq m n) h s = catch n h (snd (m s))"
  by (cases "m s") (simp add: run_simps)

lemma flag_text: "js_str (Bool b) = ''true'' \<longleftrightarrow> b"
  by simp

lemma settings_flags:
  assumes "truthy (get dirtyFields SET_IS_EXPERT_MODE_ENABLED) \<or> truthy (get dirtyFields SET_IS_YAML_ENABLED)"
    and "get values SET_IS_EXPERT_MODE_ENABLED = Bool expert" "get values SET_IS_YAML_ENABLED = Bool yaml"
  shows "has_flags expert yaml (snd (settings_onSubmit srv settingsData dirtyFields isDirty values s))"
proof -
  let ?m = "when_do (truthy (get dirtyFields SET_IS_EXPERT_MODE_ENABLED) \<or> truthy (get dirtyFields SET_IS_YAML_ENABLED))
    (seq (modify (store_flags values)) (modify storage_listener))"
  let ?rest = "seq (when_do (truthy (get dirtyFields SET_HTTP_PROXY) \<or> truthy (get dirtyFields SET_HTTPS_PROXY))
      (seq (if truthy (proxy_env settingsData) \<and> isDirty
            then request srv ''patchSettingsByName'' (obj
              [P ''name'' (Str ''proxy_env''),
               P ''requestChangeSetting'' (obj [P ''value'' (obj [Spread (filled_settings values)])])])
            else request srv ''postSettings'' (obj
              [P ''requestCreateSetting'' (obj
                [P ''name'' (Str ''proxy_env''), P ''value'' (obj [Spread (filled_settings values)])])]))
           (emit (Toast ''success'' (tr ''settingsSuccessfullyChanged'' [P ''ns'' (Str ''toasts'')])))))
    (emit (Call ''methods.reset'' [values]))"
  have "?m s = (Ok Undef, storage_listener (store_flags values s))"
    unfolding when_do_def if_P [OF assms(1)] by (simp add: seq_def bind_def modify_def)
  moreover have "has_flags expert yaml (storage_listener (store_flags values s))"
    by (simp add: store_flags_def storage_listener_def has_flags_def flag_item_def assms(2,3) [simplified])
  ultimately have stored: "fst (?m s) = Ok Undef \<and> has_flags expert yaml (snd (?m s))" by simp
  have "snd (settings_onSubmit srv settingsData dirtyFields isDirty values s) =
      snd (catch ?rest handleRequestErrorCatch (snd (?m s)))"
    unfolding settings_onSubmit_def by (rule arg_cong [OF catch_after [of ?m s Undef ?rest handleRequestErrorCatch, OF conjunct1 [OF stored]]])
  moreover have "keeps (has_flags expert yaml) (catch ?rest handleRequestErrorCatch)"
    by (intro keeps_intros flags_emit flags_request flags_error)
  then have "has_flags expert yaml (snd (catch ?rest handleRequestErrorCatch (snd (?m s))))"
    using conjunct2 [OF stored] unfolding keeps_def by blast
  ultimately show ?thesis by (simp only:)
qed

lemma displays_page:
  "displays ''YamlEditorForm'' (AddCluster expert yaml False (obj [P CF_CREATION_TYPE (Str tab)]) (clusters_form Undef Undef Undef))
     = (expert \<and> yaml)"
  by (cases expert; cases yaml)
     (simp_all add: displays_def AddCluster_def clusters_form_def controller_def obj_def CLUSTER_CREATION_TYPES_def coalesce_def)

text \<open>
  C38: the switches a user saves in the settings rule the page that creates a cluster: whatever the server
  answers to the rest of the form, the page shows the YAML editor beside the form exactly when both are on.
\<close>

theorem saved_switches_rule_the_page:
  assumes "truthy (get dirtyFields SET_IS_EXPERT_MODE_ENABLED) \<or> truthy (get dirtyFields SET_IS_YAML_ENABLED)"
    and "get values SET_IS_EXPERT_MODE_ENABLED = Bool expert" "get values SET_IS_YAML_ENABLED = Bool yaml"
  shows "(let s' = snd (settings_onSubmit srv settingsData dirtyFields isDirty values s) in
      is_expert_mode s' = expert \<and> is_yaml_enabled s' = yaml
      \<and> displays ''YamlEditorForm'' (AddCluster (is_expert_mode s') (is_yaml_enabled s') False
            (obj [P CF_CREATION_TYPE (Str tab)]) (clusters_form Undef Undef Undef))
          = (expert \<and> yaml))"
proof -
  let ?s' = "snd (settings_onSubmit srv settingsData dirtyFields isDirty values s)"
  have flags: "is_expert_mode ?s' = expert" "is_yaml_enabled ?s' = yaml"
    using settings_flags [OF assms, of srv settingsData isDirty s] by (simp_all add: has_flags_def)
  show ?thesis
    by (cases expert; cases yaml) (simp_all add: flags displays_page)
qed

definition refusing :: server where
  "refusing events ep arg = Throw (Thrown ''refused'')"

theorem saved_switches_rule_the_page_witness:
  "(let s' = snd (settings_onSubmit refusing (Arr []) (obj [P SET_IS_YAML_ENABLED (Bool True), P SET_HTTP_PROXY (Bool True)]) True
        (obj [P SET_IS_EXPERT_MODE_ENABLED (Bool True), P SET_IS_YAML_ENABLED (Bool True)]) (initial_app [] None)) in
    displays ''YamlEditorForm'' (AddCluster (is_expert_mode s') (is_yaml_enabled s') False
      (obj [P CF_CREATION_TYPE (Str CREATE_FORM)]) (clusters_form Undef Undef Undef)))"
  using saved_switches_rule_the_page
    [of "obj [P SET_IS_YAML_ENABLED (Bool True), P SET_HTTP_PROXY (Bool True)]"
      "obj [P SET_IS_EXPERT_MODE_ENABLED (Bool True), P SET_IS_YAML_ENABLED (Bool True)]" True True
      refusing "Arr []" True "initial_app [] None" CREATE_FORM]
  by (auto simp: get_obj Let_def)

definition proxy_values :: "string \<Rightarrow> string \<Rightarrow> bool \<Rightarrow> bool \<Rightarrow> js" where
  "proxy_values http https expert yaml = obj
     [P SET_HTTP_PROXY (Str http), P SET_HTTPS_PROXY (Str https),
      P SET_IS_EXPERT_MODE_ENABLED (Bool expert), P SET_IS_YAML_ENABLED (Bool yaml)]"

lemma filled_proxy:
  "filled_settings (proxy_values http https expert yaml) = obj
     ((if http = [] then [] else [P SET_HTTP_PROXY (Str http)])
      @ (if https = [] then [] else [P SET_HTTPS_PROXY (Str https)]) @ [P SET_IS_YAML_ENABLED (Bool yaml)])"
proof -
  have "entries (proxy_values http https expert yaml) =
     [(SET_HTTP_PROXY, Str http), (SET_HTTPS_PROXY, Str https), (SET_IS_EXPERT_MODE_ENABLED, Bool expert),
      (SET_IS_YAML_ENABLED, Bool yaml)]"
    by (simp add: entries_def proxy_values_def obj_def own_order_def is_index_def all_digits_def is_digit_def)
  then show ?thesis by (simp add: filled_settings_def from_entries_def)
qed

text \<open>
  Saving a proxy also stores the YAML switch on the server, inside the proxy's value: from then on
  the settings form shows the switch the server has, whatever this browser's storage says, while the
  expert switch is the browser's own.
\<close>

theorem stored_proxy_overrides_switch:
  "(let stored = obj [P ''name'' (Str ''proxy_env''),
          P ''value'' (obj [Spread (filled_settings (proxy_values http https expert yaml))])];
        shown = settings_loaded (settings_defaults st) (Arr [stored]) in
     get shown SET_IS_YAML_ENABLED = Bool yaml
     \<and> get shown SET_IS_EXPERT_MODE_ENABLED = Bool (flag_item st LS_IS_EXPERT_MODE))"
  by (simp add: settings_loaded_def settings_defaults_def proxy_env_def get_obj filled_proxy)

end
