(* ===== verification/FormTypes.thy ===== *)
theory FormTypes
  imports TypeFacts FormState Rows Tables
begin

text \<open>
  The declared types of the forms' values and of the tables' rows (\<open>model/types.ts\<close>), against
  the values the code makes: the initial form, the button that adds a pool, and the rows of the tables.
\<close>

section \<open>Forms\<close>

definition BackupsBlockValues :: ty where
  "BackupsBlockValues = TRec
     [(BK_IS_BACKUPS_ENABLED, Req_f, TBoolean), (BK_BACKUP_METHOD, Opt_f, TString),
      (BK_BACKUP_START_TIME, Opt_f, TNumber), (BK_BACKUP_RETENTION, Opt_f, TNumber), (BK_CONFIG, Opt_f, TString),
      (BK_ACCESS_KEY, Opt_f, TString), (BK_SECRET_KEY, Opt_f, TString)]"

definition SshKeyBlockValues :: ty where
  "SshKeyBlockValues = TRec [(SSH_SSH_PUBLIC_KEY, Opt_f, TString)]"

definition PostgresParametersBlockValues :: ty where
  "PostgresParametersBlockValues = TRec [(PG_POSTGRES_PARAMETERS, Opt_f, TString)]"

definition KernelParametersBlockValues :: ty where
  "KernelParametersBlockValues = TRec [(KRN_KERNEL_PARAMETERS, Opt_f, TString)]"

definition NetworkBlockValues :: ty where
  "NetworkBlockValues = TRec [(NET_SERVER_NETWORK, Opt_f, TString)]"

definition DataDirectoryFormValues :: ty where
  "DataDirectoryFormValues = TRec [(DIR_DATA_DIRECTORY, Opt_f, TString)]"

definition ConnectionPoolBlockValues :: ty where
  "ConnectionPoolBlockValues = TRec
     [(POOL_IS_CONNECTION_POOLER_ENABLED, Opt_f, TBoolean),
      (POOL_POOLS, Req_f, TTuple [TRec
         [(POOL_POOL_NAME, Opt_f, TString), (POOL_POOL_SIZE, Opt_f, TNumber), (POOL_POOL_MODE, Opt_f, TString)]])]"

definition DcsBlockFormValues :: ty where
  "DcsBlockFormValues = TRec
     [(DCS_TYPE, Req_f, TString), (DCS_IS_DEPLOY_NEW_CLUSTER, Req_f, TBoolean),
      (DCS_IS_DEPLOY_TO_DB_SERVERS, Req_f, TBoolean),
      (DCS_DCS_DATABASES, Opt_f, TArray (TRec
         [(DCS_DCS_DATABASE_HOSTNAME, Opt_f, TString), (DCS_DCS_DATABASE_IP_ADDRESS, Opt_f, TString),
          (DCS_DCS_DATABASE_PORT, Opt_f, TString)]))]"

definition AdditionalSettingsBlockValues :: ty where
  "AdditionalSettingsBlockValues = TRec
     [(ADS_SYNC_STANDBY_NODES, Req_f, TNumber), (ADS_IS_SYNC_MODE_STRICT, Opt_f, TString),
      (ADS_IS_DB_PUBLIC_ACCESS, Opt_f, TNumber), (ADS_IS_CLOUD_LOAD_BALANCER, Opt_f, TNumber),
      (ADS_IS_NETDATA_MONITORING, Opt_f, TString)]"

definition DatabasesBlockSingleValue :: ty where
  "DatabasesBlockSingleValue = TRec
     [(DB_DATABASE_NAME, Opt_f, TString), (DB_USER_NAME, Opt_f, TString), (DB_USER_PASSWORD, Opt_f, TString),
      (DB_ENCODING, Opt_f, TString), (DB_LOCALE, Opt_f, TString), (DB_BLOCK_ID, Req_f, TString)]"

definition DatabasesBlockValues :: ty where
  "DatabasesBlockValues = TRec
     [(DB_DATABASES, Opt_f, TArray DatabasesBlockSingleValue), (DB_NAMES, Opt_f, TRecord TString)]"

definition ExtensionsBlockValues :: ty where
  "ExtensionsBlockValues = TRec
     [(EXT_EXTENSIONS, Opt_f, TRecord (TRec [(''db'', Req_f, TArray TString), (''isThirdParty'', Req_f, TBoolean)]))]"

definition DatabaseServerBlockValues :: ty where
  "DatabaseServerBlockValues = TRec
     [(DBS_IS_CLUSTER_EXISTS, Opt_f, TBoolean),
      (DBS_DATABASE_SERVERS, Req_f, TArray (TRec
         [(DBS_DATABASE_HOSTNAME, Req_f, TString), (DBS_DATABASE_IP_ADDRESS, Req_f, TString),
          (DBS_DATABASE_LOCATION, Req_f, TString), (DBS_IS_POSTGRESQL_EXISTS, Opt_f, TBoolean)]))]"

definition LoadBalancersBlockValues :: ty where
  "LoadBalancersBlockValues = TRec
     [(LB_IS_HAPROXY_ENABLED, Req_f, TBoolean), (LB_IS_DEPLOY_TO_DATABASE_SERVERS, Opt_f, TBoolean),
      (LB_LOAD_BALANCER_DATABASES, Req_f, TArray (TRec
         [(LB_LOAD_BALANCER_DATABASES_HOSTNAME, Opt_f, TString),
          (LB_LOAD_BALANCER_DATABASES_IP_ADDRESS, Opt_f, TString)]))]"

definition YamlEditorFormValues :: ty where
  "YamlEditorFormValues = TRec [(''yamlEditor'', Opt_f, TString)]"

definition cloud_fields :: "(string \<times> presence \<times> ty) list" where
  "cloud_fields =
     [(CF_REGION, Opt_f, TString), (CF_REGION_CONFIG, Opt_f, DeploymentInfoCloudRegion),
      (INST_INSTANCE_TYPE, Opt_f, TUnion [TLit ''small'', TLit ''medium'', TLit ''large'', TLit ''custom'']),
      (CF_INSTANCE_CONFIG, Opt_f, DeploymentInstanceType), (CF_INSTANCES_AMOUNT, Opt_f, TNumber),
      (STO_STORAGE_AMOUNT, Opt_f, TNumber), (CF_IS_SPOT_INSTANCES, Opt_f, TBoolean),
      (CF_IS_USE_DEFINED_SECRET, Opt_f, TBoolean)]"

text \<open>\<open>interface A extends B\<close>\<close>

fun extending :: "ty \<Rightarrow> ty list \<Rightarrow> ty" where
  "extending (TRec fs) ts = TRec (concat (map (\<lambda>t. case t of TRec gs \<Rightarrow> gs | _ \<Rightarrow> []) ts) @ fs)"
| "extending t ts = t"

definition ClusterCloudProviderFormValues :: ty where
  "ClusterCloudProviderFormValues = extending (TRec cloud_fields) [BackupsBlockValues, SshKeyBlockValues]"

definition SettingsFormValues :: ty where
  "SettingsFormValues = TRec
     [(SET_HTTP_PROXY, Req_f, TString), (SET_HTTPS_PROXY, Req_f, TString),
      (SET_IS_EXPERT_MODE_ENABLED, Req_f, TBoolean), (SET_IS_YAML_ENABLED, Req_f, TBoolean)]"

definition ClusterSecretModalFormValues :: ty where
  "ClusterSecretModalFormValues = extending (TRec [(IS_SAVE_TO_CONSOLE, Req_f, TBoolean)]) [SecretFormValues]"

definition AddSecretFormValues :: ty where
  "AddSecretFormValues = extending (TRec [(SEC_SECRET_NAME, Req_f, TString)]) [SecretFormValues]"

section \<open>Rows\<close>

definition SecretsTableValues :: ty where
  "SecretsTableValues = TRec
     [(ST_NAME, Req_f, TString), (ST_TYPE, Req_f, TString), (ST_CREATED, Req_f, TString), (ST_UPDATED, Req_f, TString),
      (ST_USED, Req_f, TString), (ST_ID, Req_f, TNumber)]"

definition OperationsTableValues :: ty where
  "OperationsTableValues = TRec
     [(OT_ID, Req_f, TNumber), (OT_STARTED, Req_f, TString), (OT_FINISHED, Req_f, TString), (OT_TYPE, Req_f, TString),
      (OT_STATUS, Req_f, TString), (OT_CLUSTER, Req_f, TString), (OT_ENVIRONMENT, Req_f, TString)]"

definition EnvironmentTableValues :: ty where
  "EnvironmentTableValues = TRec
     [(PT_ID, Req_f, TString), (PT_NAME, Req_f, TString), (PT_DESCRIPTION, Req_f, TLit ''description''),
      (PT_CREATED, Req_f, TLit ''created_at''), (PT_UPDATED, Req_f, TLit ''updated_at'')]"

definition ProjectsTableValues :: ty where
  "ProjectsTableValues = TRec [(PT_ID, Req_f, TString), (PT_NAME, Req_f, TString)]"

definition ClusterOverviewTableValues :: ty where
  "ClusterOverviewTableValues = TRec
     [(COT_NAME, Req_f, TString), (COT_HOST, Req_f, TString), (COT_ROLE, Req_f, TString), (COT_STATE, Req_f, TString),
      (COT_TIMELINE, Req_f, TNumber), (COT_LAG_IN_MB, Req_f, TNumber), (COT_PENDING_RESTART, Req_f, TString),
      (COT_TAGS, Req_f, TString)]"

section \<open>Values and types\<close>

lemmas block_types = BackupsBlockValues_def SshKeyBlockValues_def PostgresParametersBlockValues_def
  KernelParametersBlockValues_def NetworkBlockValues_def DataDirectoryFormValues_def ConnectionPoolBlockValues_def
  DcsBlockFormValues_def AdditionalSettingsBlockValues_def DatabasesBlockSingleValue_def DatabasesBlockValues_def
  ExtensionsBlockValues_def DatabaseServerBlockValues_def LoadBalancersBlockValues_def YamlEditorFormValues_def
  ClusterCloudProviderFormValues_def cloud_fields_def

definition form_block_types :: "ty list" where
  "form_block_types =
     [BackupsBlockValues, SshKeyBlockValues, PostgresParametersBlockValues, KernelParametersBlockValues,
      NetworkBlockValues, DataDirectoryFormValues, ConnectionPoolBlockValues, DcsBlockFormValues, DatabasesBlockValues,
      ExtensionsBlockValues, DatabaseServerBlockValues, YamlEditorFormValues, ClusterCloudProviderFormValues]"

text \<open>
  In the expert mode the form starts with values of the type every block declares, but two: the
  switches of the additional settings are booleans where strings and numbers are declared, and the switch
  of the load balancers has no value where one is required. The type of the pools is a tuple of one, which
  the button that adds a pool leaves.
\<close>

theorem initial_form_typed:
  "list_all (\<lambda>t. has_type t (CLUSTER_FORM_DEFAULT_VALUES True (Str blockId))) form_block_types
   \<and> \<not> has_type AdditionalSettingsBlockValues (CLUSTER_FORM_DEFAULT_VALUES True (Str blockId))
   \<and> \<not> has_type LoadBalancersBlockValues (CLUSTER_FORM_DEFAULT_VALUES True (Str blockId))
   \<and> \<not> has_type ConnectionPoolBlockValues (append_pool (CLUSTER_FORM_DEFAULT_VALUES True (Str blockId)))"
  unfolding form_block_types_def block_types
  by (intro conjI; code_simp)

text \<open>
  The rows of secrets and operations have their declared types whenever the entries are complete; a row of
  an environment has its type only when its description is the word \<open>description\<close>.
\<close>

lemma secret_rows_typed:
  "has_type SecretsTableValues (obj (secret_row x)) \<longleftrightarrow>
     list_all (\<lambda>k. is_string (get x k)) [''name'', ''type'', ''created_at'', ''updated_at''] \<and> is_number (get x ''id'')"
  by (auto simp: SecretsTableValues_def secret_row_def get_obj)

lemma operation_rows_typed:
  assumes "list_all (\<lambda>k. is_string (get x k)) [''started'', ''type'', ''status'', ''cluster_name'', ''environment'']"
    and "is_number (get x ''id'')" "maybe_string (get x ''finished'')"
  shows "has_type OperationsTableValues (obj (operation_row x))"
  using assms by (auto simp: OperationsTableValues_def operation_row_def get_obj maybe_string_def coalesce_def)

lemma environment_rows_untyped:
  "has_type EnvironmentTableValues (obj (environment_row x)) \<Longrightarrow>
     get x ''description'' = Str ''description'' \<and> get x ''created_at'' = Str ''created_at''"
  by (auto simp: EnvironmentTableValues_def environment_row_def get_obj coalesce_def split: if_splits)

end
