(* ===== verification/SliderMarks.thy ===== *)
theory SliderMarks
  imports Complex_Main Sliders
begin

text \<open>
  The marks of a slider (\<open>shared/ui/slider-box/lib/functions.ts\<close>). The loop adds fractions, so
  its arithmetic is a parameter, and it may not end for one that loses small steps: it is a partial
  function. With exact fractions it ends and gives the marks asked for, evenly spaced over the range.
\<close>

record 'n arithmetic =
  num :: "int \<Rightarrow> 'n"
  plus_op :: "'n \<Rightarrow> 'n \<Rightarrow> 'n"
  minus_op :: "'n \<Rightarrow> 'n \<Rightarrow> 'n"
  divide_op :: "'n \<Rightarrow> 'n \<Rightarrow> 'n"
  less_op :: "'n \<Rightarrow> 'n \<Rightarrow> bool"
  trunc_op :: "'n \<Rightarrow> int"

definition generateMark :: "int \<Rightarrow> string \<Rightarrow> js" where
  "generateMark v lbl = obj
     [P ''value'' (Num v), P ''label'' (Str (int_str v @ '' '' @ lbl))]"

text \<open>\<open>for (let i = min; i < max + step; i += step) marksArray.push(...)\<close>\<close>

partial_function (option) marks_from ::
    "'n arithmetic \<Rightarrow> 'n \<Rightarrow> 'n \<Rightarrow> string \<Rightarrow> 'n \<Rightarrow> js list option" where
  "marks_from ops limit step lbl i =
     (if less_op ops i limit
      then Option.bind (marks_from ops limit step lbl (plus_op ops i step))
             (\<lambda>marksArray. Some (generateMark (trunc_op ops i) lbl # marksArray))
      else Some [])"

definition generateSliderMarks :: "'n arithmetic \<Rightarrow> 'n \<Rightarrow> 'n \<Rightarrow> int \<Rightarrow> string \<Rightarrow> js list option" where
  "generateSliderMarks ops low high n lbl =
     (let step = divide_op ops (minus_op ops high low) (num ops (n - 1))
      in marks_from ops (plus_op ops high step) step lbl low)"

text \<open>Exact fractions; \<open>Math.trunc\<close> rounds towards zero.\<close>

definition exact :: "rat arithmetic" where
  "exact = \<lparr>num = of_int, plus_op = (+), minus_op = (-), divide_op = (/), less_op = (<),
     trunc_op = (\<lambda>x. if 0 \<le> x then \<lfloor>x\<rfloor> else \<lceil>x\<rceil>)\<rparr>"

lemma exact_simps [simp]:
  "num exact n = of_int n" "plus_op exact x y = x + y" "minus_op exact x y = x - y" "divide_op exact x y = x / y"
  "less_op exact x y \<longleftrightarrow> x < y" "0 \<le> x \<Longrightarrow> trunc_op exact x = \<lfloor>x\<rfloor>"
  by (simp_all add: exact_def)

lemma marks_from_steps:
  assumes "0 < step"
  shows "marks_from exact (i + of_nat n * step) step lbl i =
    Some (map (\<lambda>k. generateMark (trunc_op exact (i + of_nat k * step)) lbl) [0..<n])"
proof (induction n arbitrary: i)
  case 0
  then show ?case by (subst marks_from.simps) simp
next
  case (Suc n)
  have below: "i < i + of_nat (Suc n) * step" using assms by (simp add: zero_less_mult_iff del: of_nat_Suc)
  have limit: "i + of_nat (Suc n) * step = (i + step) + of_nat n * step" by (simp add: distrib_right)
  have shift: "(i + step) + of_nat k * step = i + of_nat (Suc k) * step" for k by (simp add: distrib_right)
  have "marks_from exact (i + of_nat (Suc n) * step) step lbl i = Some (generateMark (trunc_op exact i) lbl
      # map (\<lambda>k. generateMark (trunc_op exact (i + of_nat (Suc k) * step)) lbl) [0..<n])"
    using Suc [of "i + step"] below unfolding shift limit [symmetric]
    by (subst marks_from.simps) (simp del: of_nat_Suc)
  also have "[0..<Suc n] = 0 # map Suc [0..<n]" by (simp add: upt_conv_Cons map_Suc_upt del: upt_Suc)
  then have "generateMark (trunc_op exact i) lbl
      # map (\<lambda>k. generateMark (trunc_op exact (i + of_nat (Suc k) * step)) lbl) [0..<n]
    = map (\<lambda>k. generateMark (trunc_op exact (i + of_nat k * step)) lbl) [0..<Suc n]"
    by (simp add: o_def del: upt_Suc of_nat_Suc)
  finally show ?case .
qed

lemma trunc_fraction:
  assumes "0 \<le> low" "low \<le> high" "0 < (m::nat)"
  shows "trunc_op exact (of_int low + of_nat k * ((of_int high - of_int low) / of_nat m))
    = low + int k * (high - low) div int m"
proof -
  have "(of_int low :: rat) + of_nat k * ((of_int high - of_int low) / of_nat m)
      = of_int low + of_int (int k * (high - low)) / of_int (int m)"
    by simp
  moreover have "0 \<le> (of_int low :: rat) + of_nat k * ((of_int high - of_int low) / of_nat m)"
    using assms by simp
  ultimately show ?thesis
    by (metis exact_simps(6) floor_divide_of_int_eq int_add_floor)
qed

text \<open>
  With exact arithmetic the loop of the marks ends for every range and every amount above one, and
  gives exactly the amount of marks asked for, evenly spaced and rounded down, the first at the
  smallest and the last at the largest value of the slider.
\<close>

lemma slider_marks_cover_range:
  assumes "0 \<le> low" "low < high" "2 \<le> n"
  shows "generateSliderMarks exact (of_int low) (of_int high) (int n) lbl =
      Some (map (\<lambda>k. generateMark (low + int k * (high - low) div int (n - 1)) lbl) [0..<n])
    \<and> low + int 0 * (high - low) div int (n - 1) = low
    \<and> low + int (n - 1) * (high - low) div int (n - 1) = high"
proof -
  define step :: rat where "step = (of_int high - of_int low) / of_nat (n - 1)"
  obtain m where m: "n = Suc m" "0 < m" using assms(3) by (cases n) auto
  then have n: "n - 1 = m" "int n - 1 = int m" "0 < n - 1" by simp_all
  have "0 < step" using assms(2) n(3) by (simp add: step_def)
  have "of_nat m * step = of_int high - of_int low" using m(2) by (simp add: step_def m(1))
  then have limit: "of_int high + step = of_int low + of_nat n * step" unfolding m(1) by (simp add: distrib_right)
  have "generateSliderMarks exact (of_int low) (of_int high) (int n) lbl
      = marks_from exact (of_int high + step) step lbl (of_int low)"
    by (simp only: generateSliderMarks_def Let_def exact_simps n step_def of_int_of_nat_eq)
  also have "\<dots> = Some (map (\<lambda>k. generateMark (trunc_op exact (of_int low + of_nat k * step)) lbl) [0..<n])"
    unfolding limit by (rule marks_from_steps [OF \<open>0 < step\<close>])
  also have "\<dots> = Some (map (\<lambda>k. generateMark (low + int k * (high - low) div int (n - 1)) lbl) [0..<n])"
    unfolding step_def using assms(1,2) n(3) by (simp only: trunc_fraction less_imp_le)
  finally show ?thesis using m(2) by (simp add: m(1))
qed

lemma slider_marks_cover_range_witness:
  "generateSliderMarks exact (of_int 1) (of_int 32) (int 10) ''GB'' =
     Some (map (\<lambda>k. generateMark (1 + int k * 31 div 9) ''GB'') [0..<10])"
  using slider_marks_cover_range [of 1 32 10 "''GB''"] by simp

end
