(* ===== verification/Json.thy ===== *)
theory Json
  imports JsText
begin

text \<open>
  Reading JSON: \<open>JSON.parse\<close> of the console and \<open>json.Unmarshal\<close> into an \<open>interface{}\<close> of the
  service are the same function on texts of code units below 256. The facts say what the reader
  gives for the texts the writers make, each stated on a text that is followed by more text, so that
  they compose along a value; \<open>stringify_parse\<close> is the round trip of \<open>JSON.stringify\<close>.
\<close>

section \<open>The reader\<close>

definition is_json_ws :: "char \<Rightarrow> bool" where
  "is_json_ws c \<longleftrightarrow> c \<in> set [CHR '' '', CHR 0x09, CHR 0x0A, CHR 0x0D]"

definition skip_ws :: "string \<Rightarrow> string" where
  "skip_ws s = dropWhile is_json_ws s"

definition hex_val :: "char \<Rightarrow> nat option" where
  "hex_val c =
     (if is_hex c then Some (length (takeWhile (\<lambda>d. d \<noteq> c) ''0123456789abcdef'') mod 16 +
        (if c \<in> set ''ABCDEF'' then 10 + length (takeWhile (\<lambda>d. d \<noteq> c) ''ABCDEF'') else 0))
      else None)"

text \<open>The character of \<open>\uXXXX\<close>, if it is one of the model's code units.\<close>

definition hex_char :: "char \<Rightarrow> char \<Rightarrow> char \<Rightarrow> char \<Rightarrow> char option" where
  "hex_char a b x y =
     (case (hex_val a, hex_val b, hex_val x, hex_val y) of
        (Some 0, Some 0, Some m, Some n) \<Rightarrow> Some (char_of (16 * m + n))
      | _ \<Rightarrow> None)"

definition escape_char :: "char \<Rightarrow> char option" where
  "escape_char c = map_of
     [(CHR 0x22, CHR 0x22), (CHR 0x5C, CHR 0x5C), (CHR ''/'', CHR ''/''), (CHR ''b'', CHR 0x08),
      (CHR ''f'', CHR 0x0C), (CHR ''n'', CHR 0x0A), (CHR ''r'', CHR 0x0D), (CHR ''t'', CHR 0x09)] c"

text \<open>The rest of a string after its opening quote.\<close>

fun json_chars :: "string \<Rightarrow> (string \<times> string) option" where
  "json_chars [] = None"
| "json_chars (c # cs) =
     (if c = CHR 0x22 then Some ([], cs)
      else if c = CHR 0x5C then
        (case cs of
           [] \<Rightarrow> None
         | e # r \<Rightarrow>
             if e = CHR ''u'' then
               (case r of
                  a # b # x # y # r' \<Rightarrow> Option.bind (hex_char a b x y) (\<lambda>d.
                    map_option (\<lambda>(s, t). (d # s, t)) (json_chars r'))
                | _ \<Rightarrow> None)
             else Option.bind (escape_char e) (\<lambda>d. map_option (\<lambda>(s, t). (d # s, t)) (json_chars r)))
      else if of_char c < (32 :: nat) then None
      else map_option (\<lambda>(s, t). (c # s, t)) (json_chars cs))"

definition json_integer :: rx where
  "json_integer = Seq (Opt (rx_lit CHR ''-''))
     (Alt (rx_lit CHR ''0'') (Seq (Class (\<lambda>c. is_digit c \<and> c \<noteq> CHR ''0'')) (Star (Class is_digit))))"

definition json_number :: rx where
  "json_number = Seq json_integer (Seq (Opt (Seq (rx_lit CHR ''.'') rx_digits)) exponent_part)"

definition is_number_char :: "char \<Rightarrow> bool" where
  "is_number_char c \<longleftrightarrow> is_digit c \<or> c \<in> set ''-+.eE''"

definition number_value :: "string \<Rightarrow> js option" where
  "number_value s =
     (if matches json_integer s then Some (Num (parse_int s))
      else if matches json_number s then Some (Frac s) else None)"

text \<open>A value and the text after it. The fuel bounds the depth of the recursion.\<close>

fun json_val :: "nat \<Rightarrow> string \<Rightarrow> (js \<times> string) option"
  and json_items :: "nat \<Rightarrow> string \<Rightarrow> (js list \<times> string) option"
  and json_members :: "nat \<Rightarrow> string \<Rightarrow> ((string \<times> js) list \<times> string) option" where
  "json_val 0 s = None"
| "json_val (Suc n) s =
     (let u = skip_ws s in
      case u of
        [] \<Rightarrow> None
      | c # cs \<Rightarrow>
          if c = CHR 0x22 then map_option (\<lambda>(t, r). (Str t, r)) (json_chars cs)
          else if c = CHR ''['' then
            (if take 1 (skip_ws cs) = '']'' then Some (Arr [], drop 1 (skip_ws cs))
             else map_option (\<lambda>(xs, r). (Arr xs, r)) (json_items n cs))
          else if c = CHR ''{'' then
            (if take 1 (skip_ws cs) = ''}'' then Some (Obj [], drop 1 (skip_ws cs))
             else map_option (\<lambda>(ps, r). (Obj (fold (\<lambda>(k, v). AList.update k v) ps []), r)) (json_members n cs))
          else if take 4 u = ''null'' then Some (Null, drop 4 u)
          else if take 4 u = ''true'' then Some (Bool True, drop 4 u)
          else if take 5 u = ''false'' then Some (Bool False, drop 5 u)
          else map_option (\<lambda>v. (v, dropWhile is_number_char u)) (number_value (takeWhile is_number_char u)))"
| "json_items 0 s = None"
| "json_items (Suc n) s =
     Option.bind (json_val n s) (\<lambda>(v, r).
       (let u = skip_ws r in
        if take 1 u = '','' then map_option (\<lambda>(xs, t). (v # xs, t)) (json_items n (drop 1 u))
        else if take 1 u = '']'' then Some ([v], drop 1 u) else None))"
| "json_members 0 s = None"
| "json_members (Suc n) s =
     (if take 1 (skip_ws s) = [CHR 0x22] then
        Option.bind (json_chars (drop 1 (skip_ws s))) (\<lambda>(k, r).
          if take 1 (skip_ws r) = '':'' then
            Option.bind (json_val n (drop 1 (skip_ws r))) (\<lambda>(v, r').
              (let u = skip_ws r' in
               if take 1 u = '','' then map_option (\<lambda>(ps, t). ((k, v) # ps, t)) (json_members n (drop 1 u))
               else if take 1 u = ''}'' then Some ([(k, v)], drop 1 u) else None))
          else None)
      else None)"

text \<open>Each level of a value takes at least one character, so the length of the text is fuel enough.\<close>

definition json_parse :: "string \<Rightarrow> js option" where
  "json_parse s =
     (case json_val (2 * length s + 2) s of
        Some (v, r) \<Rightarrow> (if skip_ws r = [] then Some v else None)
      | None \<Rightarrow> None)"

declare json_val.simps [simp del] json_items.simps [simp del] json_members.simps [simp del]


section \<open>What a text denotes\<close>

text \<open>A text that ends before the rest goes on: the rest starts with no character of a number.\<close>

definition cut :: "string \<Rightarrow> bool" where
  "cut r \<longleftrightarrow> r = [] \<or> \<not> is_number_char (hd r)"

definition denotes :: "string \<Rightarrow> js \<Rightarrow> bool" where
  "denotes t v \<longleftrightarrow> t \<noteq> [] \<and> \<not> is_json_ws (hd t) \<and> hd t \<noteq> CHR '']''
     \<and> (\<forall>n r. 2 * length t < n \<longrightarrow> cut r \<longrightarrow> json_val n (t @ r) = Some (v, r))"

text \<open>Writers of strings: the text of each character is read back as this character.\<close>

definition char_writer :: "(char \<Rightarrow> string) \<Rightarrow> bool" where
  "char_writer w \<longleftrightarrow> (\<forall>c r. json_chars (w c @ r) = map_option (\<lambda>(s, t). (c # s, t)) (json_chars r))"

definition quoted :: "(char \<Rightarrow> string) \<Rightarrow> string \<Rightarrow> string" where
  "quoted w s = [CHR 0x22] @ concat (map w s) @ [CHR 0x22]"

lemma skip_ws_start [simp]: "t \<noteq> [] \<Longrightarrow> \<not> is_json_ws (hd t) \<Longrightarrow> skip_ws (t @ r) = t @ r"
  by (cases t) (simp_all add: skip_ws_def)

lemma skip_ws_char [simp]: "\<not> is_json_ws c \<Longrightarrow> skip_ws (c # r) = c # r"
  by (simp add: skip_ws_def)

lemma json_ws_not [simp]:
  "\<not> is_json_ws CHR '',''" "\<not> is_json_ws CHR '':''" "\<not> is_json_ws CHR '']''" "\<not> is_json_ws CHR ''}''"
  "\<not> is_json_ws CHR 0x22" "\<not> is_json_ws CHR ''[''" "\<not> is_json_ws CHR ''{''"
  by (simp_all add: is_json_ws_def)

lemma json_chars_quoted:
  assumes "char_writer w"
  shows "json_chars (concat (map w s) @ CHR 0x22 # r) = Some (s, r)"
  using assms by (induction s) (simp_all add: char_writer_def)

lemma denotes_string:
  assumes "char_writer w"
  shows "denotes (quoted w s) (Str s)"
proof -
  have "json_val n (quoted w s @ r) = Some (Str s, r)" if n: "0 < n" for n r
    using n by (cases n) (simp_all add: json_val.simps quoted_def json_chars_quoted [OF assms])
  then show ?thesis by (simp add: denotes_def quoted_def)
qed

lemma denotes_constants:
  "denotes ''null'' Null" "denotes ''true'' (Bool True)" "denotes ''false'' (Bool False)"
proof -
  have "json_val n (''null'' @ r) = Some (Null, r)" "json_val n (''true'' @ r) = Some (Bool True, r)"
    "json_val n (''false'' @ r) = Some (Bool False, r)" if "0 < n" for n r
    using that by (cases n; simp add: json_val.simps is_json_ws_def)+
  then show "denotes ''null'' Null" "denotes ''true'' (Bool True)" "denotes ''false'' (Bool False)"
    by (simp_all add: denotes_def is_json_ws_def)
qed

lemma takeWhile_cut: "\<forall>c \<in> set t. is_number_char c \<Longrightarrow> cut r \<Longrightarrow>
    takeWhile is_number_char (t @ r) = t \<and> dropWhile is_number_char (t @ r) = r"
  by (cases r) (auto simp: cut_def)

lemma number_char_kind: "is_number_char c \<Longrightarrow>
    c \<noteq> CHR 0x22 \<and> c \<noteq> CHR ''['' \<and> c \<noteq> CHR ''{'' \<and> c \<noteq> CHR ''n'' \<and> c \<noteq> CHR ''t'' \<and> c \<noteq> CHR ''f''
    \<and> c \<noteq> CHR '']'' \<and> \<not> is_json_ws c"
  by (auto simp: is_number_char_def is_json_ws_def is_digit_def)

lemma denotes_number:
  assumes "number_value t = Some v" "t \<noteq> []" "\<forall>c \<in> set t. is_number_char c"
  shows "denotes t v"
proof -
  obtain c cs where t: "t = c # cs" using assms(2) by (cases t) auto
  then have c: "is_number_char c" using assms(3) by simp
  have "json_val n (t @ r) = Some (v, r)" if "0 < n" "cut r" for n r
    using that assms(1) takeWhile_cut [OF assms(3) \<open>cut r\<close>] number_char_kind [OF c] t
    by (cases n) (auto simp: json_val.simps Let_def)
  then show ?thesis using number_char_kind [OF c] t by (simp add: denotes_def)
qed


lemma cut_separators [simp]: "cut (CHR '','' # r)" "cut (CHR '']'' # r)" "cut (CHR ''}'' # r)" "cut []"
  by (simp_all add: cut_def is_number_char_def is_digit_def)

lemma denotes_val: "denotes t v \<Longrightarrow> 2 * length t < n \<Longrightarrow> cut r \<Longrightarrow> json_val n (t @ r) = Some (v, r)"
  by (simp add: denotes_def)

lemma items_denoted:
  assumes "list_all2 denotes ts vs" "ts \<noteq> []" "2 * length (join_with '','' ts) + 2 \<le> n"
  shows "json_items n (join_with '','' ts @ CHR '']'' # r) = Some (vs, r)"
  using assms
proof (induction ts arbitrary: vs n)
  case (Cons t ts)
  then obtain v vs' where v: "vs = v # vs'" "denotes t v" "list_all2 denotes ts vs'" by (auto simp: list_all2_Cons1)
  obtain m where n: "n = Suc m" using Cons.prems by (cases n) auto
  show ?case
  proof (cases ts)
    case Nil
    then show ?thesis using Cons.prems v n by (simp add: json_items.simps denotes_val)
  next
    case (Cons u us)
    have len: "2 * length t < m" "2 * length (join_with '','' ts) + 2 \<le> m" using Cons.prems n Cons by auto
    have "json_items m (join_with '','' ts @ CHR '']'' # r) = Some (vs', r)"
      by (rule Cons.IH [OF v(3) _ len(2)]) (simp add: Cons)
    then show ?thesis using len(1) v Cons n by (simp add: json_items.simps denotes_val)
  qed
qed simp

lemma list_all2_denotes_hd: "list_all2 denotes ts vs \<Longrightarrow> ts \<noteq> [] \<Longrightarrow>
    join_with '','' ts \<noteq> [] \<and> \<not> is_json_ws (hd (join_with '','' ts)) \<and> hd (join_with '','' ts) \<noteq> CHR '']''"
  by (cases "('','', ts)" rule: join_with.cases) (auto simp: list_all2_Cons1 denotes_def)

lemma denotes_array:
  assumes "list_all2 denotes ts vs"
  shows "denotes (''['' @ join_with '','' ts @ '']'') (Arr vs)"
proof -
  have "json_val n (''['' @ join_with '','' ts @ '']'' @ r) = Some (Arr vs, r)"
    if n: "2 * length (''['' @ join_with '','' ts @ '']'') < n" for n r
  proof (cases "ts = []")
    case True
    then show ?thesis using n assms by (cases n) (auto simp: json_val.simps)
  next
    case False
    let ?j = "join_with '','' ts"
    obtain m where m: "n = Suc m" using n by (cases n) auto
    have j: "?j \<noteq> []" "\<not> is_json_ws (hd ?j)" "hd ?j \<noteq> CHR '']''"
      using list_all2_denotes_hd [OF assms False] by auto
    have "json_items m (?j @ CHR '']'' # r) = Some (vs, r)"
      by (rule items_denoted [OF assms False]) (use n m in simp)
    moreover have "skip_ws (?j @ CHR '']'' # r) = ?j @ CHR '']'' # r" using j by simp
    moreover have "take 1 (?j @ CHR '']'' # r) \<noteq> '']''" using j by (cases ?j) auto
    ultimately show ?thesis using m by (simp add: json_val.simps)
  qed
  then show ?thesis by (simp add: denotes_def)
qed

definition member_text :: "(char \<Rightarrow> string) \<Rightarrow> string \<times> string \<Rightarrow> string" where
  "member_text w = (\<lambda>(k, t). quoted w k @ '':'' @ t)"

definition member_denotes :: "string \<times> string \<Rightarrow> string \<times> js \<Rightarrow> bool" where
  "member_denotes p q \<longleftrightarrow> fst p = fst q \<and> denotes (snd p) (snd q)"

lemma members_denoted:
  assumes "char_writer w"
    and "list_all2 member_denotes ps qs" "ps \<noteq> []" "2 * length (join_with '','' (map (member_text w) ps)) + 2 \<le> n"
  shows "json_members n (join_with '','' (map (member_text w) ps) @ CHR ''}'' # r) = Some (qs, r)"
  using assms(2-)
proof (induction ps arbitrary: qs n)
  case (Cons p ps)
  from Cons.prems(1) obtain v qs' where v: "qs = (fst p, v) # qs'" "denotes (snd p) v" "list_all2 member_denotes ps qs'"
    by (cases qs) (auto simp: member_denotes_def [of p])
  obtain m where n: "n = Suc m" using Cons.prems by (cases n) auto
  obtain k t where p: "p = (k, t)" by (cases p)
  note key = member_text_def quoted_def json_chars_quoted [OF assms(1)] json_members.simps denotes_val
  show ?case
  proof (cases ps)
    case Nil
    then show ?thesis using Cons.prems v n p by (simp add: key)
  next
    case (Cons u us)
    have len: "2 * length t < m" "2 * length (join_with '','' (map (member_text w) ps)) + 2 \<le> m"
      using Cons.prems n Cons p by (auto simp: member_text_def quoted_def)
    have "json_members m (join_with '','' (map (member_text w) ps) @ CHR ''}'' # r) = Some (qs', r)"
      by (rule Cons.IH [OF v(3) _ len(2)]) (simp add: Cons)
    then show ?thesis using len(1) v Cons n p by (simp add: key)
  qed
qed simp

lemma update_new: "k \<notin> fst ` set ps \<Longrightarrow> AList.update k v ps = ps @ [(k, v)]"
  by (induction ps) auto

lemma denotes_object:
  assumes "char_writer w" "list_all2 member_denotes ps qs" "distinct (map fst qs)"
  shows "denotes (''{'' @ join_with '','' (map (member_text w) ps) @ ''}'') (Obj qs)"
proof -
  let ?j = "join_with '','' (map (member_text w) ps)"
  have "json_val n (''{'' @ ?j @ ''}'' @ r) = Some (Obj qs, r)"
    if n: "2 * length (''{'' @ ?j @ ''}'') < n" for n r
  proof (cases "ps = []")
    case True
    then show ?thesis using n assms by (cases n) (auto simp: json_val.simps)
  next
    case False
    obtain m where m: "n = Suc m" using n by (cases n) auto
    obtain q where j: "?j = CHR 0x22 # q"
      using False by (cases "('','', map (member_text w) ps)" rule: join_with.cases)
        (auto simp: member_text_def quoted_def split: prod.splits)
    have "json_members m (?j @ CHR ''}'' # r) = Some (qs, r)"
      by (rule members_denoted [OF assms(1,2) False]) (use n m in simp)
    then show ?thesis using m j fold_update_distinct [of "[]" qs] assms(3) by (simp add: json_val.simps)
  qed
  then show ?thesis by (simp add: denotes_def is_json_ws_def)
qed

lemma parse_denoted: "denotes t v \<Longrightarrow> json_parse t = Some v"
  using denotes_val [of t v "2 * length t + 2" "[]"] by (simp add: json_parse_def skip_ws_def)


section \<open>The round trip of \<open>JSON.stringify\<close>\<close>

lemma json_char_writer: "char_writer json_char"
proof -
  have "hex_char CHR ''0'' CHR ''0'' (hex_digit (of_char c div 16)) (hex_digit (of_char c mod 16)) = Some c"
    if "of_char c < (32 :: nat)" for c
  proof -
    have "\<forall>n \<in> set [0..<32]. hex_char CHR ''0'' CHR ''0'' (hex_digit (n div 16)) (hex_digit (n mod 16)) = Some (char_of n)"
      by code_simp
    then have "hex_char CHR ''0'' CHR ''0'' (hex_digit (of_char c div 16)) (hex_digit (of_char c mod 16)) = Some (char_of (of_char c :: nat))"
      using that by simp
    then show ?thesis by simp
  qed
  moreover have "escape_char CHR 0x22 = Some CHR 0x22" "escape_char CHR 0x5C = Some CHR 0x5C"
    "escape_char CHR ''b'' = Some CHR 0x08" "escape_char CHR ''t'' = Some CHR 0x09" "escape_char CHR ''n'' = Some CHR 0x0A"
    "escape_char CHR ''f'' = Some CHR 0x0C" "escape_char CHR ''r'' = Some CHR 0x0D"
    by (simp_all add: escape_char_def)
  ultimately show ?thesis unfolding char_writer_def by (auto simp: json_char_def)
qed

lemma json_string_quoted: "json_string = quoted json_char"
  by (rule ext) (simp add: json_string_def quoted_def)

lemma int_str_chars: "c \<in> set (int_str n) \<Longrightarrow> is_digit c \<or> c = CHR ''-''"
  using nat_str_digits by (auto simp: int_str_def split: if_splits)

lemma nat_str_not_Nil [simp]: "nat_str n \<noteq> []"
  by (subst nat_str.simps) simp

lemma nat_str_hd: "0 < n \<Longrightarrow> hd (nat_str n) \<noteq> CHR ''0''"
proof (induction n rule: nat_str.induct)
  case (1 n)
  have "\<forall>d \<in> set [1..<10]. digit_char d \<noteq> CHR ''0''" by code_simp
  then have d: "0 < n \<Longrightarrow> n < 10 \<Longrightarrow> digit_char n \<noteq> CHR ''0''" by simp
  show ?case
  proof (cases "n < 10")
    case True
    then show ?thesis using d 1(2) by (subst nat_str.simps) simp
  next
    case False
    then show ?thesis using 1 by (subst nat_str.simps) simp
  qed
qed

lemma nat_str_integer: "nat_str n \<in> lang (Alt (rx_lit CHR ''0'') (Seq (Class (\<lambda>c. is_digit c \<and> c \<noteq> CHR ''0'')) (Star (Class is_digit))))"
proof (cases "n = 0")
  case False
  obtain c cs where "nat_str n = c # cs" by (cases "nat_str n") auto
  then show ?thesis using nat_str_hd [of n] nat_str_digits [of n] False by (simp add: lang_Star_Class)
qed (simp add: rx_lit_def)

lemma number_value_int_str: "number_value (int_str n) = Some (Num n)"
proof -
  have "int_str n \<in> lang json_integer"
  proof (cases "n < 0")
    case True
    then show ?thesis unfolding json_integer_def lang_Seq_iff [of _ "Opt _"]
      by (intro exI [of _ "''-''"] exI [of _ "nat_str (nat (- n))"] conjI nat_str_integer)
        (simp_all add: int_str_def Opt_def rx_lit_def)
  next
    case False
    then show ?thesis unfolding json_integer_def lang_Seq_iff [of _ "Opt _"]
      by (intro exI [of _ "[]"] exI [of _ "nat_str (nat n)"] conjI nat_str_integer)
        (simp_all add: int_str_def Opt_def)
  qed
  moreover have "parse_int (int_str n) = n"
  proof (cases "n < 0")
    case False
    obtain c cs where "nat_str (nat n) = c # cs" by (cases "nat_str (nat n)") auto
    moreover have "c \<noteq> CHR ''-''" "c \<noteq> CHR ''+''" using calculation nat_str_digits [of "nat n"] by (auto simp: is_digit_def)
    ultimately show ?thesis using False nat_str_digits [of "nat n"] by (simp add: int_str_def parse_int_def)
  qed (use nat_str_digits [of "nat (- n)"] in \<open>simp add: int_str_def parse_int_def\<close>)
  ultimately show ?thesis by (simp add: number_value_def matches_iff)
qed

lemma denotes_int: "denotes (int_str n) (Num n)"
proof (intro denotes_number number_value_int_str ballI)
  show "int_str n \<noteq> []" by (simp add: int_str_def)
  show "is_number_char c" if "c \<in> set (int_str n)" for c
    using int_str_chars [OF that] by (auto simp: is_number_char_def)
qed

text \<open>
  The value the text of \<open>v\<close> denotes: properties without a text are gone, the others in the order of
  \<open>Object.entries\<close>; \<open>NaN\<close> is \<open>null\<close>.
\<close>

fun json_value :: "js \<Rightarrow> js option"
  and json_values :: "js list \<Rightarrow> js list"
  and json_props :: "(string \<times> js) list \<Rightarrow> (string \<times> js) list" where
  "json_value Undef = None"
| "json_value (Fn f xs) = None"
| "json_value NaN = Some Null"
| "json_value (Arr xs) = Some (Arr (json_values xs))"
| "json_value (Obj ps) = Some (Obj (own_order (json_props ps)))"
| "json_value v = Some v"
| "json_values [] = []"
| "json_values (x # xs) = (case json_value x of Some v \<Rightarrow> v | None \<Rightarrow> Null) # json_values xs"
| "json_props [] = []"
| "json_props ((k, x) # ps) =
     (case json_value x of Some v \<Rightarrow> (k, v) # json_props ps | None \<Rightarrow> json_props ps)"

text \<open>Values of the language: no property twice, and a number that is not an integer has a number's text.\<close>

fun proper :: "js \<Rightarrow> bool" where
  "proper (Frac s) \<longleftrightarrow> number_value s = Some (Frac s) \<and> s \<noteq> [] \<and> (\<forall>c \<in> set s. is_number_char c)"
| "proper (Arr xs) \<longleftrightarrow> (\<forall>x \<in> set xs. proper x)"
| "proper (Obj ps) \<longleftrightarrow> distinct (map fst ps) \<and> (\<forall>x \<in> set (map snd ps). proper x)"
| "proper _ \<longleftrightarrow> True"

lemma json_props_keys: "fst ` set (json_props ps) \<subseteq> fst ` set ps"
proof (induction ps)
  case (Cons p ps)
  then show ?case by (cases p) (auto split: option.splits)
qed simp

lemma distinct_json_props: "distinct (map fst ps) \<Longrightarrow> distinct (map fst (json_props ps))"
proof (induction ps)
  case (Cons p ps)
  then show ?case using json_props_keys [of ps] by (cases p) (auto split: option.splits)
qed simp

lemma list_all2_insort:
  "list_all2 R xs ys \<Longrightarrow> R x y \<Longrightarrow> (\<And>a b. R a b \<Longrightarrow> f a = g b) \<Longrightarrow>
     list_all2 R (insort_key f x xs) (insort_key g y ys)"
proof (induction xs ys rule: list_all2_induct)
  case (Cons x' xs y' ys)
  then show ?case using Cons.prems(2) [OF Cons.prems(1)] Cons.prems(2) [OF Cons.hyps(1)] by simp
qed simp

lemma list_all2_sort_key:
  "list_all2 R xs ys \<Longrightarrow> (\<And>a b. R a b \<Longrightarrow> f a = g b) \<Longrightarrow> list_all2 R (sort_key f xs) (sort_key g ys)"
  unfolding sort_key_def by (induction xs ys rule: list_all2_induct) (auto intro: list_all2_insort)

lemma list_all2_filter:
  "list_all2 R xs ys \<Longrightarrow> (\<And>a b. R a b \<Longrightarrow> p a = q b) \<Longrightarrow> list_all2 R (filter p xs) (filter q ys)"
  by (induction xs ys rule: list_all2_induct) auto

lemma own_order_members:
  "list_all2 member_denotes ps qs \<Longrightarrow> list_all2 member_denotes (own_order ps) (own_order qs)"
  unfolding own_order_def
  by (intro list_all2_appendI list_all2_sort_key list_all2_filter) (auto simp: member_denotes_def)

lemma stringify_denotes:
  "proper v \<Longrightarrow> (case stringify v of None \<Rightarrow> json_value v = None | Some t \<Rightarrow> \<exists>v'. json_value v = Some v' \<and> denotes t v')"
  "(\<forall>x \<in> set xs. proper x) \<Longrightarrow> list_all2 denotes (stringify_elems xs) (json_values xs)"
  "(\<forall>x \<in> set (map snd ps). proper x) \<Longrightarrow> list_all2 member_denotes (stringify_props ps) (json_props ps)"
proof (induction v and xs and ps rule: stringify_stringify_elems_stringify_props.induct)
  case (9 ps)
  have "list_all2 member_denotes (own_order (stringify_props ps)) (own_order (json_props ps))"
    using 9 by (intro own_order_members) simp
  moreover have "distinct (map fst (own_order (json_props ps)))"
    using 9 by (intro distinct_own_order distinct_json_props) simp
  ultimately show ?case
    using denotes_object [OF json_char_writer] by (simp add: member_text_def json_string_quoted)
next
  case (8 xs)
  then show ?case using denotes_array [of "stringify_elems xs" "json_values xs"] by simp
next
  case (12 x xs)
  then show ?case by (auto simp: denotes_constants split: option.splits)
next
  case (14 k v ps)
  then show ?case by (auto simp: member_denotes_def split: option.splits)
qed (simp_all add: denotes_constants denotes_int denotes_number json_string_quoted denotes_string json_char_writer)

theorem stringify_parse: "proper v \<Longrightarrow> stringify v = Some t \<Longrightarrow> json_parse t = json_value v"
  using stringify_denotes(1) [of v] parse_denoted by auto

end
