(* ===== verification/GoJson.thy ===== *)
theory GoJson
  imports Json "HOL-Library.List_Lexorder" "HOL-Library.Char_ord"
begin

text \<open>
  JSON in the console's service, which is written in Go: \<open>json.Marshal\<close> of a decoded value (keys sorted,
  \<open><\<close>, \<open>>\<close> and \<open>&\<close> escaped) and \<open>json.Unmarshal\<close> into a struct (names are compared without
  case, \<open>null\<close> changes nothing, another type is an error). Strings are texts of code units below
  256; a text with a repeated name is read as \<open>JSON.parse\<close> reads it.
\<close>

section \<open>Marshal\<close>

definition go_char :: "char \<Rightarrow> string" where
  "go_char c =
     (if c = CHR ''<'' then [CHR 0x5C] @ ''u003c''
      else if c = CHR ''>'' then [CHR 0x5C] @ ''u003e''
      else if c = CHR ''&'' then [CHR 0x5C] @ ''u0026''
      else json_char c)"

fun go_marshal :: "js \<Rightarrow> string"
  and go_elems :: "js list \<Rightarrow> string list"
  and go_props :: "(string \<times> js) list \<Rightarrow> (string \<times> string) list" where
  "go_marshal (Bool b) = (if b then ''true'' else ''false'')"
| "go_marshal (Num n) = int_str n"
| "go_marshal (Frac s) = s"
| "go_marshal (Str s) = quoted go_char s"
| "go_marshal (Arr xs) = ''['' @ join_with '','' (go_elems xs) @ '']''"
| "go_marshal (Obj ps) = ''{'' @ join_with '','' (map (member_text go_char) (sort_key fst (go_props ps))) @ ''}''"
| "go_marshal v = ''null''"
| "go_elems [] = []"
| "go_elems (x # xs) = go_marshal x # go_elems xs"
| "go_props [] = []"
| "go_props ((k, v) # ps) = (k, go_marshal v) # go_props ps"

text \<open>What the text denotes: the same value with the names in order.\<close>

fun go_sorted :: "js \<Rightarrow> js"
  and go_sorted_list :: "js list \<Rightarrow> js list"
  and go_sorted_props :: "(string \<times> js) list \<Rightarrow> (string \<times> js) list" where
  "go_sorted (Arr xs) = Arr (go_sorted_list xs)"
| "go_sorted (Obj ps) = Obj (sort_key fst (go_sorted_props ps))"
| "go_sorted (Bool b) = Bool b"
| "go_sorted (Num n) = Num n"
| "go_sorted (Frac s) = Frac s"
| "go_sorted (Str s) = Str s"
| "go_sorted v = Null"
| "go_sorted_list [] = []"
| "go_sorted_list (x # xs) = go_sorted x # go_sorted_list xs"
| "go_sorted_props [] = []"
| "go_sorted_props ((k, v) # ps) = (k, go_sorted v) # go_sorted_props ps"

lemma go_char_writer: "char_writer go_char"
proof -
  have "hex_char CHR ''0'' CHR ''0'' CHR ''3'' CHR ''c'' = Some CHR ''<''"
    "hex_char CHR ''0'' CHR ''0'' CHR ''3'' CHR ''e'' = Some CHR ''>''"
    "hex_char CHR ''0'' CHR ''0'' CHR ''2'' CHR ''6'' = Some CHR ''&''"
    by code_simp+
  then show ?thesis using json_char_writer unfolding char_writer_def by (auto simp: go_char_def)
qed

lemma go_sorted_props_keys [simp]: "map fst (go_sorted_props ps) = map fst ps"
  by (induction ps) auto

lemma distinct_sort_key: "distinct (map fst ps) \<Longrightarrow> distinct (map fst (sort_key f ps))"
  by (metis distinct_map mset_eq_imp_distinct_iff mset_map mset_sort set_sort)

lemma marshal_denotes:
  "proper v \<Longrightarrow> denotes (go_marshal v) (go_sorted v)"
  "(\<forall>x \<in> set xs. proper x) \<Longrightarrow> list_all2 denotes (go_elems xs) (go_sorted_list xs)"
  "(\<forall>x \<in> set (map snd ps). proper x) \<Longrightarrow> list_all2 member_denotes (go_props ps) (go_sorted_props ps)"
proof (induction v and xs and ps rule: go_marshal_go_elems_go_props.induct)
  case (5 xs)
  then show ?case using denotes_array [of "go_elems xs" "go_sorted_list xs"] by simp
next
  case (6 ps)
  have "list_all2 member_denotes (sort_key fst (go_props ps)) (sort_key fst (go_sorted_props ps))"
  proof (rule list_all2_sort_key)
    show "list_all2 member_denotes (go_props ps) (go_sorted_props ps)" using 6 by simp
  qed (simp add: member_denotes_def)
  then show ?case
    using denotes_object [OF go_char_writer] 6 by (simp add: distinct_sort_key)
qed (simp_all add: member_denotes_def [of "(_, _)"] denotes_constants denotes_int denotes_number denotes_string go_char_writer)

lemma marshal_parse: "proper v \<Longrightarrow> json_parse (go_marshal v) = Some (go_sorted v)"
  by (intro parse_denoted marshal_denotes)

lemma map_of_go_sorted_props: "map_of (go_sorted_props ps) k = map_option go_sorted (map_of ps k)"
  by (induction ps) auto

lemma get_go_sorted:
  assumes "distinct (map fst ps)"
  shows "get (go_sorted (Obj ps)) k = (case map_of ps k of Some v \<Rightarrow> go_sorted v | None \<Rightarrow> Undef)"
proof -
  have "map_of (sort_key fst (go_sorted_props ps)) = map_of (go_sorted_props ps)"
    using assms by (intro map_of_inject_set [THEN iffD2]) (simp_all add: distinct_sort_key)
  then show ?thesis by (simp add: map_of_go_sorted_props split: option.split)
qed

section \<open>Unmarshal into a struct\<close>

definition lower_char :: "char \<Rightarrow> char" where
  "lower_char c = (if c \<in> set ''ABCDEFGHIJKLMNOPQRSTUVWXYZ'' then char_of (of_char c + 32 :: nat) else c)"

definition to_lower :: "string \<Rightarrow> string" where
  "to_lower s = map lower_char s"

text \<open>A field of type string: the last entry of its name that is not \<open>null\<close>.\<close>

definition string_field :: "js \<Rightarrow> string \<Rightarrow> string option" where
  "string_field v k =
     (case v of
        Null \<Rightarrow> Some []
      | Obj ps \<Rightarrow>
          fold (\<lambda>(k', x) acc. if to_lower k' = to_lower k
             then (case x of Null \<Rightarrow> acc | Str s \<Rightarrow> map_option (\<lambda>_. s) acc | _ \<Rightarrow> None) else acc) ps (Some [])
      | _ \<Rightarrow> None)"

text \<open>A field of type \<open>map[string]interface{}\<close>; \<open>None\<close> inside is the nil map.\<close>

definition decode_map :: "js \<Rightarrow> (string \<times> js) list option \<Rightarrow> (string \<times> js) list option option" where
  "decode_map v acc =
     (case v of
        Null \<Rightarrow> Some None
      | Obj ps \<Rightarrow> Some (Some (fold (\<lambda>(k, x). AList.update k x) ps (case acc of Some m \<Rightarrow> m | None \<Rightarrow> [])))
      | _ \<Rightarrow> None)"

text \<open>A field that is a struct: \<open>dec\<close> decodes the entries it has a field for.\<close>

definition decode_struct :: "(string \<Rightarrow> (js \<Rightarrow> 'a \<Rightarrow> 'a option) option) \<Rightarrow> js \<Rightarrow> 'a \<Rightarrow> 'a option" where
  "decode_struct dec v acc =
     (case v of
        Null \<Rightarrow> Some acc
      | Obj ps \<Rightarrow>
          fold (\<lambda>(k, x) r. Option.bind r (\<lambda>a. case dec (to_lower k) of Some d \<Rightarrow> d x a | None \<Rightarrow> Some a)) ps (Some acc)
      | _ \<Rightarrow> None)"

definition one_field :: "string \<Rightarrow> 'b \<Rightarrow> string \<Rightarrow> 'b option" where
  "one_field name d k = (if k = name then Some d else None)"

end
