(* ===== verification/Service.thy ===== *)
theory Service
  imports GoJson Effects
begin

text \<open>
  The REST service's handlers that a submitted form reaches (\<open>console/service/internal/controllers\<close>,
  Go): storing a secret and creating a cluster. The database and the container manager are the
  parameter \<open>srv\<close>: its answer to a call depends on the calls before, and \<open>Throw\<close> is a returned
  error. A nil pointer is \<open>Null\<close>. The record \<open>go_env\<close> has what the handlers use beside them: the base64
  package, the text \<open>json\<close> sees in bytes that need not be UTF-8, the integer part of what
  \<open>strconv.ParseFloat\<close> reads, the order in which Go walks over a map, and the configured directory of the
  logs. Logging is left out. The bodies are bound by code generated from \<open>api/swagger.yaml\<close>: the records
  have its fields, and the \<open>bind\<close> functions read them from the JSON of the request.
\<close>

type_synonym entry_list = "(string \<times> js) list"

record go_env =
  decode64 :: "string \<Rightarrow> string option"
  utf8_text :: "string \<Rightarrow> string"
  parse_float :: "string \<Rightarrow> int option"
  walk_map :: "entry_list \<Rightarrow> entry_list"
  log_dir :: js

definition attempt :: "('w, 'a) action \<Rightarrow> ('w, 'a res) action" where
  "attempt m = (\<lambda>w. case m w of (r, w') \<Rightarrow> (Ok r, w'))"

definition go_error :: "exn \<Rightarrow> js" where
  "go_error e = Fn ''err.Error'' [exn_js e]"

definition MakeErrorPayload :: "js \<Rightarrow> int \<Rightarrow> js" where
  "MakeErrorPayload err code = obj [P ''code'' (Num code), P ''description'' err, P ''title'' err]"

definition bad_request :: "js \<Rightarrow> js" where
  "bad_request err = obj [P ''status'' (Num 400), P ''payload'' (MakeErrorPayload err 100)]"

definition ok_payload :: "js \<Rightarrow> js" where
  "ok_payload v = obj [P ''status'' (Num 200), P ''payload'' v]"

section \<open>Variables as lists of key=value\<close>

definition split_env :: "string \<Rightarrow> (string \<times> string) option" where
  "split_env kv =
     (if CHR ''='' \<in> set kv
      then Some (takeWhile (\<lambda>c. c \<noteq> CHR ''='') kv, drop 1 (dropWhile (\<lambda>c. c \<noteq> CHR ''='') kv))
      else None)"

fun getValFromVars :: "string list \<Rightarrow> string \<Rightarrow> string" where
  "getValFromVars [] key = []"
| "getValFromVars (kv # vars) key =
     (if starts_with (to_lower key @ ''='') (to_lower kv)
      then (case split_env kv of Some (k, v) \<Rightarrow> v | None \<Rightarrow> getValFromVars vars key)
      else getValFromVars vars key)"

section \<open>Variables as a map\<close>

definition getValFromExtraVars :: "js \<Rightarrow> string \<Rightarrow> string" where
  "getValFromExtraVars m key =
     (case get m key of
        Undef \<Rightarrow> []
      | Null \<Rightarrow> []
      | Str t \<Rightarrow> t
      | v \<Rightarrow> go_marshal v)"

text \<open>\<open>strconv.Atoi\<close> with its error ignored: a number out of walk gives the nearest \<open>int\<close>.\<close>

definition clamp64 :: "int \<Rightarrow> int" where
  "clamp64 n = max (- (2 ^ 63)) (min (2 ^ 63 - 1) n)"

definition getIntValFromExtraVars :: "go_env \<Rightarrow> js \<Rightarrow> string \<Rightarrow> int" where
  "getIntValFromExtraVars g m key =
     (case get m key of
        Num n \<Rightarrow> clamp64 n
      | Str s \<Rightarrow> (case parse_float g s of Some n \<Rightarrow> n | None \<Rightarrow> 0)
      | _ \<Rightarrow> 0)"

section \<open>Secrets\<close>

datatype ParamLocation = UnknownParamLocation | EnvParamLocation | ExtraVarsParamLocation

text \<open>Per type of secret: where its variables go, and each variable with the field it is made of.\<close>

definition secret_variables :: "(string \<times> ParamLocation \<times> (string \<times> string) list) list" where
  "secret_variables =
     [(''aws'', EnvParamLocation,
        [(''AWS_ACCESS_KEY_ID'', ''AWS_ACCESS_KEY_ID''), (''AWS_SECRET_ACCESS_KEY'', ''AWS_SECRET_ACCESS_KEY'')]),
      (''gcp'', EnvParamLocation, [(''GCP_SERVICE_ACCOUNT_CONTENTS'', ''GCP_SERVICE_ACCOUNT_CONTENTS'')]),
      (''azure'', EnvParamLocation,
        [(''AZURE_SUBSCRIPTION_ID'', ''AZURE_SUBSCRIPTION_ID''), (''AZURE_CLIENT_ID'', ''AZURE_CLIENT_ID''),
         (''AZURE_SECRET'', ''AZURE_SECRET''), (''AZURE_TENANT'', ''AZURE_TENANT'')]),
      (''digitalocean'', EnvParamLocation, [(''DO_API_TOKEN'', ''DO_API_TOKEN'')]),
      (''hetzner'', EnvParamLocation, [(''HCLOUD_API_TOKEN'', ''HCLOUD_API_TOKEN'')]),
      (''ssh_key'', EnvParamLocation, [(''SSH_PRIVATE_KEY_CONTENT'', ''SSH_PRIVATE_KEY'')]),
      (''password'', ExtraVarsParamLocation,
        [(''ansible_user'', ''USERNAME''), (''ansible_ssh_pass'', ''PASSWORD''), (''ansible_sudo_pass'', ''PASSWORD'')])]"

definition secret_envs :: "string \<Rightarrow> string \<Rightarrow> (string list \<times> ParamLocation) res" where
  "secret_envs type secretVal =
     (case map_of secret_variables type of
        None \<Rightarrow> Ok ([], UnknownParamLocation)
      | Some (loc, vars) \<Rightarrow>
          (case json_parse secretVal of
             None \<Rightarrow> Throw SyntaxError
           | Some sec \<Rightarrow>
               (case those (map (\<lambda>(var, f). map_option (\<lambda>s. var @ ''='' @ s) (string_field sec f)) vars) of
                  None \<Rightarrow> Throw TypeError
                | Some envs \<Rightarrow> Ok (envs, loc))))"

definition getSecretEnvs :: "server \<Rightarrow> int \<Rightarrow> ('w world_scheme, string list \<times> ParamLocation) action" where
  "getSecretEnvs srv secretID =
     bind (request srv ''GetSecret'' (Num secretID)) (\<lambda>secretView.
     bind (request srv ''GetSecretVal'' (Num secretID)) (\<lambda>secretVal.
     lift_res (secret_envs (js_str (get secretView ''type'')) (js_str secretVal))))"

text \<open>The fields of the struct a type of secret is decoded into and encoded from, in their order.\<close>

definition secret_struct :: "(string \<times> string list) list" where
  "secret_struct =
     [(''aws'', [''AWS_ACCESS_KEY_ID'', ''AWS_SECRET_ACCESS_KEY'']), (''gcp'', [''GCP_SERVICE_ACCOUNT_CONTENTS'']),
      (''hetzner'', [''HCLOUD_API_TOKEN'']), (''ssh_key'', [''SSH_PRIVATE_KEY'']), (''digitalocean'', [''DO_API_TOKEN'']),
      (''azure'', [''AZURE_CLIENT_ID'', ''AZURE_SECRET'', ''AZURE_SUBSCRIPTION_ID'', ''AZURE_TENANT'']),
      (''password'', [''PASSWORD'', ''USERNAME''])]"

definition string_of_field :: "js \<Rightarrow> string \<Rightarrow> string" where
  "string_of_field v f = (case string_field v f of Some s \<Rightarrow> s | None \<Rightarrow> [])"

text \<open>
  Marshalling the struct leaves empty fields out; a missing value is \<open>null\<close>, an unknown type has no
  text. A body with a field that is not a string is refused before the handler runs.
\<close>

definition secret_value_text :: "string \<Rightarrow> js \<Rightarrow> string" where
  "secret_value_text type value =
     (case map_of secret_struct type of
        None \<Rightarrow> []
      | Some fs \<Rightarrow>
          (if nullish (get value type) then ''null''
           else go_marshal (Obj (filter (\<lambda>(f, s). s \<noteq> Str [])
                  (map (\<lambda>f. (f, Str (string_of_field (get value type) f))) fs)))))"

definition SecretViewToSwagger :: "js \<Rightarrow> js" where
  "SecretViewToSwagger secret = obj
     [P ''created_at'' (get secret ''created_at''), P ''id'' (get secret ''id''), P ''is_used'' (get secret ''is_used''),
      P ''name'' (get secret ''name''), P ''project_id'' (get secret ''project_id''), P ''type'' (get secret ''type''),
      P ''updated_at'' (get secret ''updated_at''), P ''used_by_clusters'' (get secret ''used_by_clusters'')]"

definition create_secret :: "server \<Rightarrow> js \<Rightarrow> ('w world_scheme, js) action" where
  "create_secret srv body =
     catch
       (bind (request srv ''CreateSecret'' (obj
          [P ''ProjectID'' (get body ''project_id''), P ''Type'' (get body ''type''), P ''Name'' (get body ''name''),
           P ''Value'' (Str (secret_value_text (js_str (get body ''type'')) (get body ''value'')))]))
        (\<lambda>createdSecret. ret (ok_payload (SecretViewToSwagger createdSecret))))
       (\<lambda>err. ret (bad_request (go_error err)))"

definition postSecretHandle :: "server \<Rightarrow> js \<Rightarrow> ('w world_scheme, js) action" where
  "postSecretHandle srv body =
     bind (attempt (request srv ''GetSecretByName'' (get body ''name''))) (\<lambda>checkSecret.
       case checkSecret of
         Ok s \<Rightarrow>
           (if s \<noteq> Null then ret (bad_request (Fn ''The secret named %q already exists'' [get body ''name'']))
            else create_secret srv body)
       | Throw err \<Rightarrow> create_secret srv body)"

section \<open>The inventory of a request\<close>

text \<open>The hosts of the groups master and replica; \<open>None\<close> is the nil map.\<close>

record InventoryJson =
  Master_Hosts :: "entry_list option"
  Replica_Hosts :: "entry_list option"

definition decode_hosts :: "js \<Rightarrow> entry_list option \<Rightarrow> entry_list option option" where
  "decode_hosts = decode_struct (one_field ''hosts'' decode_map)"

definition decode_children :: "js \<Rightarrow> InventoryJson \<Rightarrow> InventoryJson option" where
  "decode_children = decode_struct (\<lambda>k.
     if k = ''master'' then Some (\<lambda>v inventory. map_option (\<lambda>h. inventory\<lparr>Master_Hosts := h\<rparr>) (decode_hosts v (Master_Hosts inventory)))
     else if k = ''replica'' then Some (\<lambda>v inventory. map_option (\<lambda>h. inventory\<lparr>Replica_Hosts := h\<rparr>) (decode_hosts v (Replica_Hosts inventory)))
     else None)"

definition decode_inventory :: "js \<Rightarrow> InventoryJson option" where
  "decode_inventory v =
     decode_struct (one_field ''all'' (decode_struct (one_field ''children'' decode_children))) v
       \<lparr>Master_Hosts = None, Replica_Hosts = None\<rparr>"

definition host_count :: "entry_list option \<Rightarrow> nat" where
  "host_count h = (case h of Some m \<Rightarrow> length m | None \<Rightarrow> 0)"

text \<open>
  The number of servers, the inventory stored and the one decoded: an inventory is expected when no
  cloud provider is named.
\<close>

definition read_inventory :: "go_env \<Rightarrow> js \<Rightarrow> string list \<Rightarrow> int \<times> string option \<times> InventoryJson" where
  "read_inventory g extraVars envs =
     (let none = \<lparr>Master_Hosts = None, Replica_Hosts = None\<rparr> in
      if getValFromExtraVars extraVars ''cloud_provider'' = [] then
        (let rawInventory = getValFromVars envs ''ANSIBLE_INVENTORY_JSON'' in
         if rawInventory \<noteq> [] then
           (let decodedInventory = (case decode64 g rawInventory of Some d \<Rightarrow> d | None \<Rightarrow> rawInventory) in
            case Option.bind (json_parse (utf8_text g decodedInventory)) decode_inventory of
              None \<Rightarrow> (0, None, none)
            | Some inventory \<Rightarrow>
                (int (host_count (Master_Hosts inventory) + host_count (Replica_Hosts inventory)),
                 Some decodedInventory, inventory))
         else (0, None, none))
      else (getIntValFromExtraVars g extraVars ''server_count'', None, none))"

section \<open>Creating a cluster\<close>

record PostClustersParams =
  Name :: string
  Description :: string
  ProjectID :: int
  EnvironmentID :: int
  AuthInfo :: "int option"
  Envs :: "string list"
  ExtraVars :: js
  ExistingCluster :: "bool option"

text \<open>Reading the body: a missing field is the zero value, a value of another type is refused.\<close>

definition int_field :: "js \<Rightarrow> string \<Rightarrow> int option" where
  "int_field body k = (case get body k of Num n \<Rightarrow> Some n | Undef \<Rightarrow> Some 0 | Null \<Rightarrow> Some 0 | _ \<Rightarrow> None)"

definition text_field :: "js \<Rightarrow> string \<Rightarrow> string option" where
  "text_field body k = (case get body k of Str s \<Rightarrow> Some s | Undef \<Rightarrow> Some [] | Null \<Rightarrow> Some [] | _ \<Rightarrow> None)"

definition bind_body :: "js \<Rightarrow> PostClustersParams option" where
  "bind_body body =
     Option.bind (text_field body ''name'') (\<lambda>name.
     Option.bind (text_field body ''description'') (\<lambda>description.
     Option.bind (int_field body ''project_id'') (\<lambda>project_id.
     Option.bind (int_field body ''environment_id'') (\<lambda>environment_id.
     Option.bind (case get body ''auth_info'' of
         Obj ps \<Rightarrow> map_option Some (int_field (Obj ps) ''secret_id'') | Undef \<Rightarrow> Some None | Null \<Rightarrow> Some None | _ \<Rightarrow> None) (\<lambda>auth_info.
     Option.bind (case get body ''envs'' of
         Arr xs \<Rightarrow> those (map (\<lambda>x. case x of Str s \<Rightarrow> Some s | _ \<Rightarrow> None) xs) | Undef \<Rightarrow> Some [] | Null \<Rightarrow> Some [] | _ \<Rightarrow> None) (\<lambda>envs.
     Option.bind (case get body ''existing_cluster'' of
         Bool b \<Rightarrow> Some (Some b) | Undef \<Rightarrow> Some None | Null \<Rightarrow> Some None | _ \<Rightarrow> None) (\<lambda>existing.
     Some \<lparr>Name = name, Description = description, ProjectID = project_id, EnvironmentID = environment_id,
           AuthInfo = auth_info, Envs = envs, ExtraVars = get body ''extra_vars'', ExistingCluster = existing\<rparr>)))))))"


definition ansibleLogDir :: string where
  "ansibleLogDir = ''/tmp/ansible''"

definition getAnsibleLogEnv :: "string \<Rightarrow> string list" where
  "getAnsibleLogEnv clusterName = [''ANSIBLE_JSON_LOG_FILE='' @ ansibleLogDir @ ''/'' @ clusterName @ ''.json'']"

definition put_secret_vars :: "string list \<Rightarrow> js \<Rightarrow> js" where
  "put_secret_vars secretEnvs extraVars =
     fold (\<lambda>kv m. case split_env kv of Some (k, v) \<Rightarrow> assign_put m k (Str v) | None \<Rightarrow> m) secretEnvs extraVars"

definition addProxySettings :: "server \<Rightarrow> js \<Rightarrow> ('w world_scheme, js) action" where
  "addProxySettings srv extraVars =
     bind (attempt (request srv ''GetSettingByName'' (Str ''proxy_env''))) (\<lambda>proxySetting.
       ret (case proxySetting of
              Ok s \<Rightarrow> if s \<noteq> Null then assign_put extraVars ''proxy_env'' (get s ''value'') else extraVars
            | Throw err \<Rightarrow> extraVars))"

text \<open>The servers of an imported cluster: the loop stops at the first one the database refuses.\<close>

fun insert_servers :: "server \<Rightarrow> js \<Rightarrow> entry_list \<Rightarrow> ('w world_scheme, js) action" where
  "insert_servers srv clusterID [] = ret Undef"
| "insert_servers srv clusterID ((ip, hostData) # hosts) =
     (case hostData of
        Obj ps \<Rightarrow>
          seq (request srv ''CreateServer'' (obj
                [P ''ClusterID'' clusterID,
                 P ''ServerName'' (case get hostData ''hostname'' of Str s \<Rightarrow> Str s | _ \<Rightarrow> Str []),
                 P ''ServerLocation'' (case get hostData ''server_location'' of Str s \<Rightarrow> Str s | _ \<Rightarrow> Str []),
                 P ''IpAddress'' (Str ip)]))
              (insert_servers srv clusterID hosts)
      | _ \<Rightarrow> insert_servers srv clusterID hosts)"

definition hosts_of :: "entry_list option \<Rightarrow> entry_list" where
  "hosts_of h = (case h of Some m \<Rightarrow> m | None \<Rightarrow> [])"

definition import_cluster ::
    "server \<Rightarrow> (entry_list \<Rightarrow> entry_list) \<Rightarrow> string option \<Rightarrow> InventoryJson \<Rightarrow> js \<Rightarrow> ('w world_scheme, js) action" where
  "import_cluster srv walk inventoryJsonVal inventoryJson clusterID =
     catch
       (seq (if inventoryJsonVal \<noteq> None \<and> inventoryJsonVal \<noteq> Some []
             then seq (insert_servers srv clusterID (walk (hosts_of (Master_Hosts inventoryJson))))
                      (insert_servers srv clusterID (walk (hosts_of (Replica_Hosts inventoryJson))))
             else ret Undef)
            (ret (ok_payload (obj [P ''cluster_id'' clusterID]))))
       (\<lambda>err. ret (bad_request (go_error err)))"

text \<open>Starting the deployment. A failure marks the cluster as failed, the deferred function of the handler.\<close>

definition deploy_cluster ::
    "server \<Rightarrow> js \<Rightarrow> PostClustersParams \<Rightarrow> string list \<Rightarrow> string \<Rightarrow> js \<Rightarrow> ('w world_scheme, js) action" where
  "deploy_cluster srv logDir p envs extraVarsText clusterID =
     catch
       (bind (request srv ''ManageCluster'' (obj
          [P ''Envs'' (Arr (map Str envs)), P ''ExtraVars'' (Str extraVarsText),
           P ''Mounts'' (Arr [obj [P ''DockerPath'' (Str ansibleLogDir), P ''HostPath'' logDir]])])) (\<lambda>dockerId.
        bind (request srv ''CreateOperation'' (obj
          [P ''ProjectID'' (Num (ProjectID p)), P ''ClusterID'' clusterID, P ''DockerCode'' dockerId,
           P ''Type'' (Str ''deploy'')])) (\<lambda>createdOperation.
        seq (emit (Call ''StoreInDb'' [get createdOperation ''id'', dockerId]))
            (ret (ok_payload (obj [P ''cluster_id'' clusterID, P ''operation_id'' (get createdOperation ''id'')]))))))
       (\<lambda>err.
        seq (attempt (request srv ''UpdateCluster'' (obj [P ''ID'' clusterID, P ''Status'' (Str ''failed'')])))
            (ret (bad_request (go_error err))))"

definition opt_num :: "int option \<Rightarrow> js" where
  "opt_num x = (case x of Some n \<Rightarrow> Num n | None \<Rightarrow> Null)"

definition opt_text :: "string option \<Rightarrow> js" where
  "opt_text x = (case x of Some s \<Rightarrow> Str s | None \<Rightarrow> Null)"

definition create_cluster_request :: "go_env \<Rightarrow> PostClustersParams \<Rightarrow> js \<Rightarrow> string list \<Rightarrow> js" where
  "create_cluster_request g p extraVars envs =
     (let (serverCount, inventoryJsonVal, inventoryJson) = read_inventory g extraVars envs
      in obj [P ''ProjectID'' (Num (ProjectID p)), P ''EnvironmentID'' (Num (EnvironmentID p)), P ''Name'' (Str (Name p)),
              P ''Description'' (Str (Description p)), P ''SecretID'' (opt_num (AuthInfo p)),
              P ''ExtraVars'' (Str (go_marshal extraVars)),
              P ''Location'' (Str (getValFromExtraVars extraVars ''server_location'')),
              P ''ServerCount'' (Num serverCount),
              P ''PostgreSqlVersion'' (Num (getIntValFromExtraVars g extraVars ''postgresql_version'')),
              P ''Status'' (Str (if ExistingCluster p = Some True then ''ready'' else ''deploying'')),
              P ''Inventory'' (opt_text inventoryJsonVal)])"

text \<open>What comes after the secret is read: \<open>envs\<close> and \<open>extraVars\<close> as they are given to the container.\<close>

definition create_and_deploy ::
    "server \<Rightarrow> go_env \<Rightarrow> PostClustersParams \<Rightarrow> js \<Rightarrow> string list \<Rightarrow> ('w world_scheme, js) action" where
  "create_and_deploy srv g p extraVars envs =
     bind (attempt (request srv ''CreateCluster'' (create_cluster_request g p extraVars envs))) (\<lambda>created.
       case created of
         Throw err \<Rightarrow> ret (bad_request (go_error err))
       | Ok createdCluster \<Rightarrow>
           (let (serverCount, inventoryJsonVal, inventoryJson) = read_inventory g extraVars envs
            in if ExistingCluster p = Some True
               then import_cluster srv (walk_map g) inventoryJsonVal inventoryJson (get createdCluster ''id'')
               else deploy_cluster srv (log_dir g) p envs (go_marshal extraVars) (get createdCluster ''id'')))"

definition cluster_extra_vars :: "PostClustersParams \<Rightarrow> string list \<Rightarrow> ParamLocation \<Rightarrow> js" where
  "cluster_extra_vars p secretEnvs loc =
     (let extraVars = (case ExtraVars p of Obj ps \<Rightarrow> Obj ps | _ \<Rightarrow> Obj [])
      in if loc = ExtraVarsParamLocation then put_secret_vars secretEnvs extraVars else extraVars)"

definition cluster_envs :: "PostClustersParams \<Rightarrow> string list \<Rightarrow> ParamLocation \<Rightarrow> string list" where
  "cluster_envs p secretEnvs loc =
     Envs p @ (if loc = EnvParamLocation then secretEnvs else []) @ getAnsibleLogEnv (Name p)"

definition postClusterHandle :: "server \<Rightarrow> go_env \<Rightarrow> PostClustersParams \<Rightarrow> ('w world_scheme, js) action" where
  "postClusterHandle srv g p =
     bind (attempt (request srv ''GetClusterByName'' (Str (Name p)))) (\<lambda>oldCluster.
       if (case oldCluster of Ok c \<Rightarrow> c \<noteq> Null | Throw err \<Rightarrow> False)
       then ret (bad_request (Fn ''cluster %s already exists'' [Str (Name p)]))
       else
         bind (attempt (case AuthInfo p of
                 Some secretID \<Rightarrow> getSecretEnvs srv secretID | None \<Rightarrow> ret ([], UnknownParamLocation))) (\<lambda>secret.
           case secret of
             Throw err \<Rightarrow> ret (bad_request (Fn ''failed to get secret: %s'' [go_error err]))
           | Ok (secretEnvs, paramLocation) \<Rightarrow>
               bind (addProxySettings srv (cluster_extra_vars p secretEnvs paramLocation)) (\<lambda>extraVars.
                 create_and_deploy srv g p extraVars (cluster_envs p secretEnvs paramLocation))))"


section \<open>The container\<close>

text \<open>
  \<open>automation/entrypoint.sh\<close>: what the container writes before the playbook runs. \<open>base64_d\<close> is
  \<open>base64 -d\<close>; of two settings of a variable the later one counts.
\<close>

definition is_base64 :: "string \<Rightarrow> bool" where
  "is_base64 s \<longleftrightarrow> s \<noteq> [] \<and> (\<forall>c \<in> set s. c \<in> set b64_alphabet \<or> c = CHR ''='')"

definition env_value :: "string list \<Rightarrow> string \<Rightarrow> string" where
  "env_value envs k = (case map_of (rev (List.map_filter split_env envs)) k of Some v \<Rightarrow> v | None \<Rightarrow> [])"

definition file_content :: "(string \<Rightarrow> string) \<Rightarrow> string \<Rightarrow> string option" where
  "file_content base64_d v =
     (if v = [] then None else if is_base64 v then Some (base64_d v) else Some (v @ [CHR 0x0A]))"

definition inventory_file :: "(string \<Rightarrow> string) \<Rightarrow> string list \<Rightarrow> string option" where
  "inventory_file base64_d envs = file_content base64_d (env_value envs ''ANSIBLE_INVENTORY_JSON'')"

definition end_newline :: "string \<Rightarrow> string" where
  "end_newline s = (if s \<noteq> [] \<and> last s \<noteq> CHR 0x0A then s @ [CHR 0x0A] else s)"

definition ssh_key_file :: "(string \<Rightarrow> string) \<Rightarrow> string list \<Rightarrow> string option" where
  "ssh_key_file base64_d envs =
     map_option end_newline (file_content base64_d (env_value envs ''SSH_PRIVATE_KEY_CONTENT''))"

end
