(* ===== verification/ServiceFacts.thy ===== *)
theory ServiceFacts
  imports Service TransformFacts Secrets Submit
begin

text \<open>
  The console and its service together: what the service and the container make of the requests of
  the forms. The texts between them are JSON and base64, so the facts rest on the round trips of
  \<open>Json\<close>, \<open>GoJson\<close> and \<open>JsText\<close>.
\<close>

section \<open>Reading the request\<close>

text \<open>The body the service reads: the text \<open>fetch\<close> sends, read as JSON.\<close>

definition wire :: "js \<Rightarrow> js option" where
  "wire v = Option.bind (stringify v) json_parse"

lemma wire_value: "proper v \<Longrightarrow> wire v = json_value v"
  using stringify_denotes(1) [of v] parse_denoted by (auto simp: wire_def split: option.splits)

lemma map_of_json_props:
  "distinct (map fst ps) \<Longrightarrow> map_of (json_props ps) k = Option.bind (map_of ps k) json_value"
proof (induction ps)
  case (Cons p ps)
  have "map_of (json_props ps) (fst p) = None" if "fst p \<notin> fst ` set ps"
    using that json_props_keys [of ps] by (auto simp: map_of_eq_None_iff)
  with Cons show ?case by (cases p) (auto split: option.splits)
qed simp

lemma map_of_json_object:
  "distinct (map fst ps) \<Longrightarrow> map_of (own_order (json_props ps)) k = Option.bind (map_of ps k) json_value"
  by (simp add: map_of_own_order distinct_json_props map_of_json_props)

lemma get_json_value:
  assumes "json_value (obj parts) = Some body"
  shows "get body k = (case Option.bind (lookup_parts parts k) json_value of Some v \<Rightarrow> v | None \<Rightarrow> Undef)"
proof -
  obtain ps where ps: "obj parts = Obj ps" by (auto simp: obj_def)
  then have "distinct (map fst ps)" "map_of ps = lookup_parts parts"
    using wf_obj_obj [of parts] map_of_own_props_obj [of parts] by (simp_all add: wf_obj_def)
  then show ?thesis using assms by (auto simp: ps map_of_json_object split: option.splits)
qed

lemma json_values_Str: "json_values (map Str xs) = map Str xs"
  by (induction xs) auto

section \<open>Variables\<close>

lemma split_env_pair: "CHR ''='' \<notin> set k \<Longrightarrow> split_env (k @ ''='' @ v) = Some (k, v)"
proof -
  assume "CHR ''='' \<notin> set k"
  then have "\<forall>c \<in> set k. c \<noteq> CHR ''=''" by auto
  then show ?thesis by (simp add: split_env_def takeWhile_append2 dropWhile_append2)
qed

lemma to_lower_append [simp]: "to_lower (a @ b) = to_lower a @ to_lower b"
  by (simp add: to_lower_def)

lemma lower_char_eq: "lower_char c = CHR ''='' \<longleftrightarrow> c = CHR ''=''"
proof -
  have "\<forall>c \<in> set ''ABCDEFGHIJKLMNOPQRSTUVWXYZ''. lower_char c \<noteq> CHR ''=''" by code_simp
  then show ?thesis by (auto simp: lower_char_def)
qed

lemma eq_in_lower [simp]: "CHR ''='' \<in> set (to_lower k) \<longleftrightarrow> CHR ''='' \<in> set k"
proof (induction k)
  case (Cons c k)
  have "CHR ''='' = lower_char c \<longleftrightarrow> CHR ''='' = c" using lower_char_eq [of c] by argo
  with Cons show ?case by (simp add: to_lower_def)
qed (simp add: to_lower_def)

lemma to_lower_sep: "to_lower (k @ ''='' @ v) = to_lower k @ CHR ''='' # to_lower v"
  by (simp add: to_lower_def lower_char_eq)

lemma key_prefix:
  "c \<notin> set a \<Longrightarrow> c \<notin> set b \<Longrightarrow> starts_with (a @ [c]) (b @ c # r) \<longleftrightarrow> a = b"
proof (induction a arbitrary: b)
  case Nil
  then show ?case by (cases b) (auto simp: starts_with_def)
next
  case (Cons x a)
  then show ?case by (cases b) (auto simp: starts_with_def)
qed

lemma vars_first:
  assumes "CHR ''='' \<notin> set key" "CHR ''='' \<notin> set k"
  shows "getValFromVars ((k @ ''='' @ v) # vars) key = (if to_lower k = to_lower key then v else getValFromVars vars key)"
proof -
  have "starts_with (to_lower key @ ''='') (to_lower (k @ ''='' @ v)) \<longleftrightarrow> to_lower key = to_lower k"
    unfolding to_lower_sep by (rule key_prefix) (simp_all add: assms)
  then show ?thesis unfolding getValFromVars.simps split_env_pair [OF assms(2)] by auto
qed


section \<open>Decoding the inventory\<close>

text \<open>No key of a list of entries is the name in other letters.\<close>

definition exact_names :: "string \<Rightarrow> entry_list \<Rightarrow> bool" where
  "exact_names name ps \<longleftrightarrow> distinct (map fst ps) \<and> (\<forall>k \<in> fst ` set ps. to_lower k = name \<longrightarrow> k = name)"

lemma exact_names_Cons [simp]: "exact_names name (p # ps) \<longleftrightarrow>
    exact_names name ps \<and> fst p \<notin> fst ` set ps \<and> (to_lower (fst p) = name \<longrightarrow> fst p = name)"
  by (auto simp: exact_names_def)

definition opt_decode :: "(js \<Rightarrow> 'a \<Rightarrow> 'a option) \<Rightarrow> js option \<Rightarrow> 'a \<Rightarrow> 'a option" where
  "opt_decode d v acc = (case v of Some x \<Rightarrow> d x acc | None \<Rightarrow> Some acc)"

lemma opt_decode_simps [simp]: "opt_decode d (Some x) acc = d x acc" "opt_decode d None acc = Some acc"
  by (simp_all add: opt_decode_def)

lemma map_of_fst_None: "k \<notin> fst ` set ps \<Longrightarrow> map_of ps k = None"
  by (simp add: map_of_eq_None_iff)

lemma decode_one_field:
  assumes "to_lower name = name" "exact_names name ps"
  shows "decode_struct (one_field name d) (Obj ps) acc = opt_decode d (map_of ps name) acc"
proof -
  let ?f = "\<lambda>(k, x) r. Option.bind r (\<lambda>a. case one_field name d (to_lower k) of Some d \<Rightarrow> d x a | None \<Rightarrow> Some a)"
  have skip: "name \<notin> fst ` set qs \<Longrightarrow> exact_names name qs \<Longrightarrow> fold ?f qs r = r" for qs r
    by (induction qs arbitrary: r) (auto simp: one_field_def)
  have "fold ?f ps (Some acc) = opt_decode d (map_of ps name) acc"
    using assms(2)
  proof (induction ps)
    case (Cons p ps)
    show ?case
    proof (cases "fst p = name")
      case True
      then show ?thesis using Cons.prems skip [of ps] assms(1) by (cases p) (simp add: one_field_def)
    next
      case False
      then have "to_lower (fst p) \<noteq> name" using Cons.prems by auto
      then show ?thesis using Cons False by (cases p) (simp add: one_field_def)
    qed
  qed simp
  then show ?thesis by (simp add: decode_struct_def)
qed

lemma decode_children_fields:
  assumes "exact_names ''master'' ps" "exact_names ''replica'' ps"
    and "opt_decode decode_hosts (map_of ps ''master'') (Master_Hosts a) = Some m"
    and "opt_decode decode_hosts (map_of ps ''replica'') (Replica_Hosts a) = Some r"
  shows "decode_children (Obj ps) a = Some (a\<lparr>Master_Hosts := m, Replica_Hosts := r\<rparr>)"
proof -
  have low: "to_lower ''master'' = ''master''" "to_lower ''replica'' = ''replica''" by (simp_all add: to_lower_def lower_char_def)
  show ?thesis
    using assms unfolding decode_children_def decode_struct_def js.case
  proof (induction ps arbitrary: a)
    case (Cons p ps)
    obtain k v where p: "p = (k, v)" by (cases p)
    consider "k = ''master''" | "k = ''replica''" | "to_lower k \<noteq> ''master''" "to_lower k \<noteq> ''replica''"
      using Cons.prems(1,2) p by auto
    then show ?case
    proof cases
      case 1
      then have "map_of ps ''master'' = None" using Cons.prems(1) p by (simp add: map_of_fst_None)
      then show ?thesis using Cons.prems Cons.IH [of "a\<lparr>Master_Hosts := m\<rparr>"] 1 p by (simp add: low)
    next
      case 2
      then have "map_of ps ''replica'' = None" using Cons.prems(2) p by (simp add: map_of_fst_None)
      then show ?thesis using Cons.prems Cons.IH [of "a\<lparr>Replica_Hosts := r\<rparr>"] 2 p by (simp add: low)
    next
      case 3
      then have "k \<noteq> ''master''" "k \<noteq> ''replica''" using low by auto
      then show ?thesis using Cons 3 p by simp
    qed
  qed simp
qed

lemma decode_hosts_group:
  assumes "distinct (map fst qs)"
  shows "decode_hosts (Obj [(''hosts'', Obj qs)]) None = Some (Some qs)"
proof -
  have low: "to_lower ''hosts'' = ''hosts''" by (simp add: to_lower_def lower_char_def)
  have "fold (\<lambda>(k, x). AList.update k x) qs [] = qs" using fold_update_distinct [of "[]" qs] assms by simp
  then show ?thesis
    unfolding decode_hosts_def
    by (subst decode_one_field [OF low]) (simp_all add: decode_map_def exact_names_def)
qed


section \<open>The inventory of a form as JSON\<close>

lemma json_obj:
  "\<exists>qs. json_value (obj parts) = Some (Obj qs) \<and> distinct (map fst qs)
     \<and> (\<forall>k. map_of qs k = Option.bind (lookup_parts parts k) json_value)"
proof -
  obtain ps where ps: "obj parts = Obj ps" by (auto simp: obj_def)
  then have "distinct (map fst ps)" "map_of ps = lookup_parts parts"
    using wf_obj_obj [of parts] map_of_own_props_obj [of parts] by (simp_all add: wf_obj_def)
  then show ?thesis
    by (simp add: ps map_of_json_object distinct_own_order distinct_json_props)
qed

lemma exact_names_json:
  assumes "distinct (map fst qs)" "\<And>k. map_of qs k = Option.bind (f k) json_value"
    and "\<And>k. f k \<noteq> None \<Longrightarrow> to_lower k = name \<Longrightarrow> k = name"
  shows "exact_names name qs"
proof -
  have "f k \<noteq> None" if "k \<in> fst ` set qs" for k
    using that assms(2) [of k] by (metis Option.bind.bind_lzero map_of_eq_None_iff)
  then show ?thesis using assms(1,3) by (auto simp: exact_names_def)
qed

lemma exact_names_lower:
  assumes "distinct (map fst qs)" "\<forall>k. map_of qs k = Option.bind (f k) json_value"
    and "\<forall>k. f k \<noteq> None \<longrightarrow> k \<in> set names" "\<forall>k \<in> set names. to_lower k = k"
  shows "exact_names name qs"
proof (rule exact_names_json [OF assms(1)])
  show "map_of qs k = Option.bind (f k) json_value" for k using assms(2) by (rule spec)
  show "f k \<noteq> None \<Longrightarrow> to_lower k = name \<Longrightarrow> k = name" for k using assms(3,4) by metis
qed

lemma reduce_hosts_obj:
  assumes "reduce_hosts ip entry rows = Ok hosts"
  shows "\<exists>parts. hosts = obj parts"
proof (cases rows)
  case (Arr xs)
  then have "fold_res (host_row ip entry) (obj []) xs = Ok hosts" using assms by (simp add: reduce_hosts_def)
  then show ?thesis
    by (induction rule: fold_res_induct) (auto simp: host_row_def and_then_eq_Ok spread_put_def)
qed (use assms in \<open>auto simp: reduce_hosts_def\<close>)

definition host_json :: "bool \<Rightarrow> js \<Rightarrow> js \<Rightarrow> js" where
  "host_json expert values r =
     (case json_value (obj (db_server_entry expert values r)) of Some v \<Rightarrow> v | None \<Rightarrow> Null)"

lemma host_json_Some: "json_value (obj (db_server_entry expert values r)) = Some (host_json expert values r)"
proof -
  obtain qs where "json_value (obj (db_server_entry expert values r)) = Some (Obj qs)" using json_obj by blast
  then show ?thesis by (simp only: host_json_def option.case)
qed

abbreviation address :: "js \<Rightarrow> string" where
  "address \<equiv> row_key DBS_DATABASE_IP_ADDRESS"

lemma json_hosts:
  assumes "reduce_hosts DBS_DATABASE_IP_ADDRESS (db_server_entry expert values) (Arr xs) = Ok hosts"
  obtains qs where "json_value hosts = Some (Obj qs)" "distinct (map fst qs)"
    "\<And>k. map_of qs k = map_option (host_json expert values) (find (\<lambda>r. address r = k) (rev xs))"
    "fst ` set qs = address ` set xs"
proof -
  obtain parts where parts: "hosts = obj parts" using reduce_hosts_obj [OF assms] by auto
  obtain qs where qs: "json_value hosts = Some (Obj qs)" "distinct (map fst qs)"
    "\<forall>k. map_of qs k = Option.bind (lookup_parts parts k) json_value"
    using json_obj [of parts] unfolding parts by blast
  have look: "lookup_parts parts k = map_option (\<lambda>r. obj (db_server_entry expert values r)) (find (\<lambda>r. address r = k) (rev xs))" for k
    using look_reduce_hosts [OF assms, of k] by (simp add: parts look_obj_def map_of_own_props_obj map_option_case)
  have entry: "map_of qs k = map_option (host_json expert values) (find (\<lambda>r. address r = k) (rev xs))" for k
    by (cases "find (\<lambda>r. address r = k) (rev xs)") (simp_all add: qs(3) look host_json_Some)
  have "fst ` set qs = address ` set xs"
  proof (rule set_eqI)
    fix k
    have "k \<in> fst ` set qs \<longleftrightarrow> find (\<lambda>r. address r = k) (rev xs) \<noteq> None"
      using entry [of k] map_of_eq_None_iff [of qs k] by auto
    also have "\<dots> \<longleftrightarrow> k \<in> address ` set xs" by (auto simp: find_None_iff)
    finally show "k \<in> fst ` set qs \<longleftrightarrow> k \<in> address ` set xs" .
  qed
  then show ?thesis by (rule that [OF qs(1,2) entry])
qed


lemma own_order_single [simp]: "own_order [x] = [x]"
  by (simp add: own_order_def)

lemma obj_single: "obj [P k v] = Obj [(k, v)]"
  by (simp add: obj_def)

lemma json_hosts_group: "json_value h = Some (Obj qs) \<Longrightarrow> json_value (hosts_group h) = Some (Obj [(''hosts'', Obj qs)])"
  by (simp add: hosts_group_def obj_single)

lemma json_master_hosts:
  "json_value (master_hosts expert values m) = Some (Obj [(address m, host_json expert values m)])"
  by (simp add: master_hosts_def obj_single host_json_Some)

text \<open>The groups of the inventory are named in small letters, each once.\<close>

definition inventory_groups :: "string list" where
  "inventory_groups = [''balancers'', ''etcd_cluster'', ''consul_instances'', ''master'', ''replica'', ''postgres_cluster'']"

lemma children_lookup:
  assumes "getLocalMachineEnvs expert values secretId = Ok envs" "get values DBS_DATABASE_SERVERS = Arr (m # rs)"
  obtains parts where "children_of envs = obj parts"
    "lookup_parts parts ''master'' = Some (hosts_group (master_hosts expert values m))"
    "rs = [] \<Longrightarrow> lookup_parts parts ''replica'' = None"
    "rs \<noteq> [] \<Longrightarrow> \<exists>hosts. reduce_hosts DBS_DATABASE_IP_ADDRESS (db_server_entry expert values) (Arr rs) = Ok hosts
       \<and> lookup_parts parts ''replica'' = Some (hosts_group hosts)"
    "\<forall>k. lookup_parts parts k \<noteq> None \<longrightarrow> k \<in> set inventory_groups"
proof -
  obtain b dcs replica where parts:
    "constructBalancersEnvs expert values = Ok b" "constructDcsEnvs expert values = Ok dcs"
    "replica_part expert values rs = Ok replica"
    "children_of envs = obj
        [Spread b, Spread dcs,
         P ''master'' (hosts_group (master_hosts expert values m)),
         Spread replica,
         P ''postgres_cluster''
           (obj [P ''children'' (obj [P ''master'' (obj []), P ''replica'' (obj [])])])]"
    using children_of_envs [OF assms(1)]
    unfolding inventory_children_parts [OF assms(2)] and_then_eq_Ok res.inject by metis
  have keys: "lookup_part (Spread b) ''replica'' = None" "lookup_part (Spread dcs) ''replica'' = None"
    using balancers_keys [OF parts(1)] dcs_keys [OF parts(2)] by auto
  have replica: "if rs = [] then replica = obj [] else
      \<exists>hosts. reduce_hosts DBS_DATABASE_IP_ADDRESS (db_server_entry expert values) (Arr rs) = Ok hosts
        \<and> replica = obj [P ''replica'' (hosts_group hosts)]"
    using parts(3) by (auto simp: replica_part_def map_res_eq_Ok)
  let ?parts = "[Spread b, Spread dcs, P ''master'' (hosts_group (master_hosts expert values m)), Spread replica,
     P ''postgres_cluster'' (obj [P ''children'' (obj [P ''master'' (obj []), P ''replica'' (obj [])])])]"
  have "k \<in> set inventory_groups" if k: "lookup_parts ?parts k \<noteq> None" for k
  proof (rule ccontr)
    assume n: "k \<notin> set inventory_groups"
    then have "lookup_part (Spread b) k = None" "lookup_part (Spread dcs) k = None"
      using balancers_keys [OF parts(1), of k] dcs_keys [OF parts(2), of k] by (auto simp: inventory_groups_def)
    moreover have "lookup_part (Spread replica) k = None"
      using replica n by (auto simp: inventory_groups_def split: if_splits)
    ultimately show False using k n by (simp add: inventory_groups_def split: if_splits)
  qed
  then show ?thesis
    using that [OF parts(4)] replica keys by (auto split: if_splits)
qed


lemma lower_names:
  "\<forall>k \<in> set inventory_groups. to_lower k = k" "\<forall>k \<in> set [''vars'', ''children'']. to_lower k = k"
  "to_lower ''all'' = ''all''" "to_lower ''children'' = ''children''"
  by (simp_all add: inventory_groups_def to_lower_def lower_char_def)

definition form_inventory :: "js \<Rightarrow> js" where
  "form_inventory envs = get envs ''ANSIBLE_INVENTORY_JSON''"

text \<open>What the service decodes from the JSON of a form's inventory.\<close>

definition decoded_form :: "bool \<Rightarrow> js \<Rightarrow> js \<Rightarrow> js list \<Rightarrow> InventoryJson \<Rightarrow> bool" where
  "decoded_form expert values m rs inventory \<longleftrightarrow>
     Master_Hosts inventory = Some [(address m, host_json expert values m)]
     \<and> (if rs = [] then Replica_Hosts inventory = None
        else \<exists>qs. Replica_Hosts inventory = Some qs \<and> distinct (map fst qs) \<and> fst ` set qs = address ` set rs
          \<and> (\<forall>k. map_of qs k = map_option (host_json expert values) (find (\<lambda>r. address r = k) (rev rs))))"

lemma form_inventory_decoded:
  assumes "getLocalMachineEnvs expert values secretId = Ok envs" "get values DBS_DATABASE_SERVERS = Arr (m # rs)"
  obtains J inventory where "json_value (form_inventory envs) = Some J" "decode_inventory J = Some inventory"
    "decoded_form expert values m rs inventory"
proof -
  obtain parts where parts: "children_of envs = obj parts"
    "lookup_parts parts ''master'' = Some (hosts_group (master_hosts expert values m))"
    "rs = [] \<Longrightarrow> lookup_parts parts ''replica'' = None"
    "rs \<noteq> [] \<Longrightarrow> \<exists>hosts. reduce_hosts DBS_DATABASE_IP_ADDRESS (db_server_entry expert values) (Arr rs) = Ok hosts
       \<and> lookup_parts parts ''replica'' = Some (hosts_group hosts)"
    "\<forall>k. lookup_parts parts k \<noteq> None \<longrightarrow> k \<in> set inventory_groups"
    by (rule children_lookup [OF assms]) (rule that)
  let ?all = "[P ''vars'' (inventory_vars values), P ''children'' (children_of envs)]"
  have inventory: "form_inventory envs = obj [P ''all'' (obj ?all)]"
    using assms(1) by (rule local_envs_cases) (simp add: form_inventory_def children_of_def obj_simps)
  obtain q1 where q1: "json_value (obj ?all) = Some (Obj q1)" "distinct (map fst q1)"
    "\<forall>k. map_of q1 k = Option.bind (lookup_parts ?all k) json_value" using json_obj by blast
  obtain q2 where q2: "json_value (obj parts) = Some (Obj q2)" "distinct (map fst q2)"
    "\<forall>k. map_of q2 k = Option.bind (lookup_parts parts k) json_value" using json_obj by blast
  have all: "exact_names ''all'' [(''all'', Obj q1)]" by (simp add: exact_names_def)
  have "\<forall>k. lookup_parts ?all k \<noteq> None \<longrightarrow> k \<in> set [''vars'', ''children'']" by simp
  then have children: "exact_names ''children'' q1"
    by (rule exact_names_lower [OF q1(2,3) _ lower_names(2)])
  have groups: "exact_names name q2" for name
    by (rule exact_names_lower [OF q2(2,3) parts(5) lower_names(1)])
  have "map_of q1 ''children'' = Some (Obj q2)" using q1(3) q2(1) parts(1) by simp
  moreover have "opt_decode decode_hosts (map_of q2 ''master'') None = Some (Some [(address m, host_json expert values m)])"
    using q2(3) parts(2) json_hosts_group [OF json_master_hosts] by (simp add: decode_hosts_group)
  moreover obtain r where r: "opt_decode decode_hosts (map_of q2 ''replica'') None = Some r"
    "decoded_form expert values m rs \<lparr>Master_Hosts = Some [(address m, host_json expert values m)], Replica_Hosts = r\<rparr>"
  proof (cases "rs = []")
    case True
    then show ?thesis using that [of None] q2(3) parts(3) by (simp add: decoded_form_def)
  next
    case False
    then obtain hosts where h: "reduce_hosts DBS_DATABASE_IP_ADDRESS (db_server_entry expert values) (Arr rs) = Ok hosts"
      "lookup_parts parts ''replica'' = Some (hosts_group hosts)" using parts(4) by auto
    obtain qs where qs: "json_value hosts = Some (Obj qs)" "distinct (map fst qs)"
      "\<And>k. map_of qs k = map_option (host_json expert values) (find (\<lambda>r. address r = k) (rev rs))"
      "fst ` set qs = address ` set rs" by (rule json_hosts [OF h(1)]) (rule that)
    then show ?thesis using that [of "Some qs"] False q2(3) h(2) json_hosts_group [OF qs(1)]
      by (simp add: decoded_form_def decode_hosts_group)
  qed
  ultimately have "decode_inventory (Obj [(''all'', Obj q1)]) =
      Some \<lparr>Master_Hosts = Some [(address m, host_json expert values m)], Replica_Hosts = r\<rparr>"
    unfolding decode_inventory_def
    by (simp add: decode_one_field [OF lower_names(3) all] decode_one_field [OF lower_names(4) children]
        decode_children_fields [OF groups groups, where r = r])
  moreover have "json_value (form_inventory envs) = Some (Obj [(''all'', Obj q1)])"
    unfolding inventory obj_single [of "''all''"] using q1(1) by simp
  ultimately show ?thesis using that r(2) by blast
qed


section \<open>The environment of the container\<close>

definition ssh_env :: "js \<Rightarrow> js \<Rightarrow> string list" where
  "ssh_env values secretId =
     (if get values CF_AUTHENTICATION_METHOD = Str AUTH_SSH \<and> \<not> truthy (get values CF_IS_USE_DEFINED_SECRET) \<and> \<not> truthy secretId
      then [''SSH_PRIVATE_KEY_CONTENT'' @ ''='' @ btoa (env_raw (get values SEC_SSH_PRIVATE_KEY))] else [])"

lemma not_index: "\<not> is_index ''SSH_PRIVATE_KEY_CONTENT''" "\<not> is_index ''ANSIBLE_INVENTORY_JSON''"
  by (simp_all add: is_index_def all_digits_def is_digit_def)

lemma local_env_strings:
  assumes "getLocalMachineEnvs expert values secretId = Ok envs"
  shows "convertObjectValueToBase64Format envs =
    Arr (map Str (ssh_env values secretId @ [''ANSIBLE_INVENTORY_JSON'' @ ''='' @ btoa (env_raw (form_inventory envs))]))"
proof -
  let ?c = "get values CF_AUTHENTICATION_METHOD = Str AUTH_SSH \<and> \<not> truthy (get values CF_IS_USE_DEFINED_SECRET) \<and> \<not> truthy secretId"
  obtain children where envs: "envs = obj [Spread_if ?c [P ''SSH_PRIVATE_KEY_CONTENT'' (get values SEC_SSH_PRIVATE_KEY)],
        P ''ANSIBLE_INVENTORY_JSON'' (obj [P ''all'' (obj [P ''vars'' (inventory_vars values), P ''children'' children])])]"
    using assms by (rule local_envs_cases)
  let ?inventory = "obj [P ''all'' (obj [P ''vars'' (inventory_vars values), P ''children'' children])]"
  have inventory: "form_inventory envs = ?inventory" unfolding envs form_inventory_def by (simp add: get_obj)
  have "own_props envs = (if ?c then [(''SSH_PRIVATE_KEY_CONTENT'', get values SEC_SSH_PRIVATE_KEY)] else [])
      @ [(''ANSIBLE_INVENTORY_JSON'', ?inventory)]"
    unfolding envs by (cases ?c) (simp_all add: obj_def Spread_if_def)
  then have "entries envs = (if ?c then [(''SSH_PRIVATE_KEY_CONTENT'', get values SEC_SSH_PRIVATE_KEY)] else [])
      @ [(''ANSIBLE_INVENTORY_JSON'', ?inventory)]"
    unfolding entries_def by (subst own_order_no_index) (auto simp: not_index split: if_splits)
  then show ?thesis unfolding base64_envs inventory by (simp add: ssh_env_def)
qed

text \<open>The text of the inventory, and that the service finds it behind whatever the form puts before it.\<close>

definition inventory_text :: "js \<Rightarrow> string" where
  "inventory_text envs = env_raw (form_inventory envs)"

lemma form_inventory_obj:
  assumes "getLocalMachineEnvs expert values secretId = Ok envs"
  shows "\<exists>parts. form_inventory envs = obj parts"
  using assms by (rule local_envs_cases) (auto simp: form_inventory_def get_obj)

lemma inventory_text_json:
  assumes "form_inventory envs = obj parts" "json_value (form_inventory envs) = Some J" "proper (form_inventory envs)"
  shows "json_parse (inventory_text envs) = Some J" "inventory_text envs \<noteq> []" "stringify (form_inventory envs) = Some (inventory_text envs)"
proof -
  obtain t where t: "stringify (form_inventory envs) = Some t" "denotes t J"
    using stringify_denotes(1) [OF assms(3)] assms(2) by (auto split: option.splits)
  have "inventory_text envs = t"
    using t(1) unfolding inventory_text_def env_raw_def assms(1) by (simp add: obj_def)
  then show "json_parse (inventory_text envs) = Some J" "inventory_text envs \<noteq> []"
    "stringify (form_inventory envs) = Some (inventory_text envs)"
    using parse_denoted [OF t(2)] t by (simp_all add: denotes_def)
qed

lemma vars_second:
  assumes "CHR ''='' \<notin> set key" "CHR ''='' \<notin> set k" "to_lower k \<noteq> to_lower key"
  shows "getValFromVars ((if c then [k @ ''='' @ u] else []) @ [key @ ''='' @ v] @ rest) key = v"
proof (cases c)
  case True
  have "getValFromVars ((k @ ''='' @ u) # (key @ ''='' @ v) # rest) key = v"
    using vars_first [OF assms(1,2)] vars_first [OF assms(1,1)] assms(3) by presburger
  then show ?thesis using True by simp
next
  case False
  have "getValFromVars ((key @ ''='' @ v) # rest) key = v" using vars_first [OF assms(1,1)] by presburger
  then show ?thesis using False by simp
qed

lemma getValFromVars_inventory:
  "getValFromVars (ssh_env values secretId @ [''ANSIBLE_INVENTORY_JSON'' @ ''='' @ v] @ rest) ''ANSIBLE_INVENTORY_JSON'' = v"
  unfolding ssh_env_def by (rule vars_second) (simp_all add: to_lower_def lower_char_def)


section \<open>What a handler calls\<close>

text \<open>Every event \<open>m\<close> adds satisfies \<open>A\<close>, and its result satisfies \<open>Q\<close>.\<close>

definition calls :: "(event \<Rightarrow> bool) \<Rightarrow> ('a res \<Rightarrow> bool) \<Rightarrow> ('w world_scheme, 'a) action \<Rightarrow> bool" where
  "calls A Q m \<longleftrightarrow> (\<forall>w. Q (fst (m w)) \<and> (\<exists>es. trace (snd (m w)) = trace w @ es \<and> list_all A es))"

named_theorems calls_rules \<open>what composed handlers call\<close>

lemma calls_ret [calls_rules]: "Q (Ok x) \<Longrightarrow> calls A Q (ret x)"
  by (simp add: calls_def ret_def)

lemma calls_lift [calls_rules]: "Q r \<Longrightarrow> calls A Q (lift_res r)"
  by (simp add: calls_def lift_res_def)

lemma calls_emit [calls_rules]: "A e \<Longrightarrow> Q (Ok Undef) \<Longrightarrow> calls A Q (emit e)"
  by (simp add: calls_def emit_def)

lemma calls_request [calls_rules]:
  "(\<And>r. A (Request ep arg r)) \<Longrightarrow> (\<And>r. Q r) \<Longrightarrow> calls A Q (request srv ep arg)"
  by (simp add: calls_def request_def Let_def)

lemma calls_bind:
  assumes "calls A R m" "\<And>x. R (Ok x) \<Longrightarrow> calls A Q (f x)" "\<And>e. R (Throw e) \<Longrightarrow> Q (Throw e)"
  shows "calls A Q (bind m f)"
  unfolding calls_def
proof
  fix w
  obtain r w1 where m: "m w = (r, w1)" by (cases "m w")
  then obtain es where es: "trace w1 = trace w @ es" "list_all A es" "R r"
    using assms(1) unfolding calls_def by (metis fst_conv snd_conv)
  show "Q (fst (bind m f w)) \<and> (\<exists>es. trace (snd (bind m f w)) = trace w @ es \<and> list_all A es)"
  proof (cases r)
    case (Ok x)
    then obtain es' where "Q (fst (f x w1))" "trace (snd (f x w1)) = trace w1 @ es'" "list_all A es'"
      using assms(2) [of x] es(3) unfolding calls_def by metis
    then show ?thesis using m es Ok by (simp add: bind_def)
  next
    case (Throw e)
    then show ?thesis using m es assms(3) by (simp add: bind_def)
  qed
qed

lemma calls_catch:
  assumes "calls A R m" "\<And>x. R (Ok x) \<Longrightarrow> Q (Ok x)" "\<And>e. R (Throw e) \<Longrightarrow> calls A Q (h e)"
  shows "calls A Q (catch m h)"
  unfolding calls_def
proof
  fix w
  obtain r w1 where m: "m w = (r, w1)" by (cases "m w")
  then obtain es where es: "trace w1 = trace w @ es" "list_all A es" "R r"
    using assms(1) unfolding calls_def by (metis fst_conv snd_conv)
  show "Q (fst (catch m h w)) \<and> (\<exists>es. trace (snd (catch m h w)) = trace w @ es \<and> list_all A es)"
  proof (cases r)
    case (Throw e)
    then obtain es' where "Q (fst (h e w1))" "trace (snd (h e w1)) = trace w1 @ es'" "list_all A es'"
      using assms(3) [of e] es(3) unfolding calls_def by metis
    then show ?thesis using m es Throw by (simp add: catch_def)
  next
    case (Ok x)
    then show ?thesis using m es assms(2) by (simp add: catch_def)
  qed
qed

lemma calls_attempt: "calls A (\<lambda>r. Q (Ok r)) m \<Longrightarrow> calls A Q (attempt m)"
  by (simp add: calls_def attempt_def case_prod_beta)

lemma calls_seq: "calls A (\<lambda>_. True) m \<Longrightarrow> calls A (\<lambda>_. True) n \<Longrightarrow> calls A (\<lambda>_. True) (seq m n)"
  unfolding seq_def by (rule calls_bind) auto

text \<open>With no demand on the results the rules need no invention.\<close>

abbreviation only_calls :: "(event \<Rightarrow> bool) \<Rightarrow> ('w world_scheme, 'a) action \<Rightarrow> bool" where
  "only_calls A m \<equiv> calls A (\<lambda>_. True) m"

lemma only_calls_bind [calls_rules]: "only_calls A m \<Longrightarrow> (\<And>x. only_calls A (f x)) \<Longrightarrow> only_calls A (bind m f)"
  by (rule calls_bind) auto

lemma only_calls_catch [calls_rules]: "only_calls A m \<Longrightarrow> (\<And>e. only_calls A (h e)) \<Longrightarrow> only_calls A (catch m h)"
  by (rule calls_catch) auto

lemmas only_calls_rules = calls_rules calls_seq calls_attempt

lemma calls_run: "calls A Q m \<Longrightarrow> m w = (r, w') \<Longrightarrow> \<exists>es. trace w' = trace w @ es \<and> list_all A es"
  unfolding calls_def by (metis snd_conv)

lemma calls_events:
  assumes "calls A Q m" "m w = (r, w')" "e \<in> set (drop (length (trace w)) (trace w'))"
  shows "A e"
  using calls_run [OF assms(1,2)] assms(3) by (auto simp: list_all_iff)


section \<open>The variables of a request\<close>

definition secret_keys :: "string list" where
  "secret_keys = concat (map (\<lambda>(type, loc, vars). map fst vars) secret_variables)"

definition from_secret :: "string list \<times> ParamLocation \<Rightarrow> bool" where
  "from_secret s \<longleftrightarrow> (\<forall>e \<in> set (fst s). \<exists>k \<in> set secret_keys. \<exists>v. e = k @ ''='' @ v)"

lemma secret_envs_from: "secret_envs type t = Ok s \<Longrightarrow> from_secret s"
proof -
  assume ok: "secret_envs type t = Ok s"
  show ?thesis
  proof (cases "map_of secret_variables type")
    case None
    then show ?thesis using ok by (auto simp: secret_envs_def from_secret_def)
  next
    case (Some lv)
    obtain loc vars where lv: "lv = (loc, vars)" by (cases lv)
    obtain sec envs where p: "json_parse t = Some sec"
      "those (map (\<lambda>(var, f). map_option (\<lambda>s. var @ ''='' @ s) (string_field sec f)) vars) = Some envs" "s = (envs, loc)"
      using ok by (auto simp: secret_envs_def Some lv split: option.splits)
    have "(type, loc, vars) \<in> set secret_variables" using Some lv by (auto dest: map_of_SomeD)
    then have keys: "fst ` set vars \<subseteq> set secret_keys" by (force simp: secret_keys_def)
    have "\<exists>k \<in> fst ` set vars. \<exists>v. e = k @ ''='' @ v" if "e \<in> set envs" for e
      using p(2) that
    proof (induction vars arbitrary: envs)
      case (Cons x xs)
      then show ?case by (cases x) (force split: option.splits)
    qed simp
    then show ?thesis using keys p(3) by (force simp: from_secret_def)
  qed
qed

lemma secret_keys_plain: "list_all (\<lambda>k. CHR ''='' \<notin> set k) secret_keys"
  "''ANSIBLE_INVENTORY_JSON'' \<notin> set secret_keys" "''cloud_provider'' \<notin> set secret_keys"
  "''server_location'' \<notin> set secret_keys" "''server_count'' \<notin> set secret_keys"
  by code_simp+

lemma get_assign_put: "is_obj m \<Longrightarrow> get (assign_put m k v) k' = (if k = k' then v else get m k')"
  by (cases m) (auto simp: map_of_update)

lemma is_obj_assign_put [simp]: "is_obj m \<Longrightarrow> is_obj (assign_put m k v)"
  by (cases m) auto

lemma put_secret_vars_other:
  assumes "from_secret (envs, loc)" "is_obj m" "k \<notin> set secret_keys"
  shows "is_obj (put_secret_vars envs m) \<and> get (put_secret_vars envs m) k = get m k"
  using assms unfolding put_secret_vars_def
proof (induction envs arbitrary: m)
  case (Cons e envs)
  then obtain k' v where e: "e = k' @ ''='' @ v" "k' \<in> set secret_keys" by (auto simp: from_secret_def)
  have "CHR ''='' \<notin> set k'" using e(2) secret_keys_plain(1) by (simp add: list_all_iff)
  then have "split_env e = Some (k', v)" unfolding e(1) by (rule split_env_pair)
  moreover have "from_secret (envs, loc)" using Cons.prems(1) by (simp add: from_secret_def)
  ultimately show ?case
    using Cons.IH [of "assign_put m k' (Str v)"] Cons.prems e(2) by (auto simp: get_assign_put)
qed simp

text \<open>The variables as the container gets them: the secret's and the proxy setting added to the request's.\<close>

definition given_vars :: "PostClustersParams \<Rightarrow> js \<Rightarrow> bool" where
  "given_vars p extraVars \<longleftrightarrow>
     is_obj extraVars \<and> (\<forall>k. k \<notin> set secret_keys \<longrightarrow> k \<noteq> ''proxy_env'' \<longrightarrow> get extraVars k =
       (case ExtraVars p of Obj ps \<Rightarrow> get (Obj ps) k | _ \<Rightarrow> Undef))"

lemma cluster_extra_vars_given:
  assumes "from_secret (envs, loc)"
  shows "given_vars p (cluster_extra_vars p envs loc)"
    and "given_vars p (assign_put (cluster_extra_vars p envs loc) ''proxy_env'' v)"
proof -
  let ?m = "case ExtraVars p of Obj ps \<Rightarrow> Obj ps | _ \<Rightarrow> Obj []"
  have m: "is_obj ?m" "get ?m k = (case ExtraVars p of Obj ps \<Rightarrow> get (Obj ps) k | _ \<Rightarrow> Undef)" for k
    by (simp_all split: js.split)
  then show "given_vars p (cluster_extra_vars p envs loc)"
    using put_secret_vars_other [OF assms m(1)] put_secret_vars_other [OF assms m(1) secret_keys_plain(3)]
    by (simp add: given_vars_def cluster_extra_vars_def Let_def)
  then show "given_vars p (assign_put (cluster_extra_vars p envs loc) ''proxy_env'' v)"
    by (simp add: given_vars_def get_assign_put)
qed


section \<open>The calls of the handler\<close>

definition reads :: "string list" where
  "reads = [''GetClusterByName'', ''GetSecret'', ''GetSecretVal'', ''GetSettingByName'']"

lemma postCluster_calls:
  assumes reading: "\<And>ep arg r. ep \<in> set reads \<Longrightarrow> A (Request ep arg r)"
    and create: "\<And>envs loc extraVars. from_secret (envs, loc) \<Longrightarrow>
      given_vars p extraVars \<Longrightarrow> extraVars \<in> insert (cluster_extra_vars p envs loc)
        (range (assign_put (cluster_extra_vars p envs loc) ''proxy_env'')) \<Longrightarrow>
      only_calls A (create_and_deploy srv g p extraVars (cluster_envs p envs loc) :: ('w world_scheme, js) action)"
  shows "only_calls A (postClusterHandle srv g p :: ('w world_scheme, js) action)"
proof -
  note rd = reading [unfolded reads_def, simplified]
  let ?secret = "attempt (case AuthInfo p of Some secretID \<Rightarrow> getSecretEnvs srv secretID | None \<Rightarrow> ret ([], UnknownParamLocation))"
  have "calls A (\<lambda>r. case r of Ok s \<Rightarrow> from_secret s | Throw e \<Rightarrow> True) 
      (getSecretEnvs srv secretID :: ('w world_scheme, _) action)" for secretID
    unfolding getSecretEnvs_def
    by (intro calls_bind [where R = "\<lambda>_. True"] calls_request calls_lift)
      (auto simp: rd split: res.split dest: secret_envs_from)
  moreover have "calls A (\<lambda>r. case r of Ok s \<Rightarrow> from_secret s | Throw e \<Rightarrow> True)
      (ret ([], UnknownParamLocation) :: ('w world_scheme, _) action)"
    by (intro calls_ret) (simp add: from_secret_def)
  ultimately have secret: "calls A (\<lambda>r. case r of Ok (Ok s) \<Rightarrow> from_secret s | _ \<Rightarrow> True)
      (?secret :: ('w world_scheme, _) action)"
    by (intro calls_attempt) (simp split: option.split)
  have proxy: "calls A (\<lambda>r. case r of Ok v \<Rightarrow> v \<in> insert m (range (assign_put m ''proxy_env'')) | Throw e \<Rightarrow> False)
      (addProxySettings srv m :: ('w world_scheme, js) action)" for m
    unfolding addProxySettings_def
    by (intro calls_bind [where R = "\<lambda>r. is_ok r"] calls_attempt calls_request calls_ret) (auto simp: rd is_ok_iff split: res.split)
  have "only_calls A (bind (addProxySettings srv (cluster_extra_vars p envs loc)) (\<lambda>extraVars.
      create_and_deploy srv g p extraVars (cluster_envs p envs loc)) :: ('w world_scheme, js) action)" if "from_secret (envs, loc)" for envs loc
    by (rule calls_bind [OF proxy])
      (use that cluster_extra_vars_given [OF that] in \<open>auto intro!: create\<close>)
  then have "only_calls A (bind ?secret (\<lambda>secret. case secret of
      Throw err \<Rightarrow> ret (bad_request (Fn ''failed to get secret: %s'' [go_error err]))
    | Ok (secretEnvs, paramLocation) \<Rightarrow>
        bind (addProxySettings srv (cluster_extra_vars p secretEnvs paramLocation)) (\<lambda>extraVars.
          create_and_deploy srv g p extraVars (cluster_envs p secretEnvs paramLocation)))
      :: ('w world_scheme, js) action)"
    by (intro calls_bind [OF secret]) (auto intro!: calls_ret split: res.split prod.split)
  then show ?thesis
    unfolding postClusterHandle_def
    by (intro calls_bind [where R = "\<lambda>_. True"] calls_attempt calls_request) (auto simp: rd intro!: calls_ret)
qed

definition server_row :: "js \<Rightarrow> string \<times> js \<Rightarrow> js" where
  "server_row clusterID h = obj
     [P ''ClusterID'' clusterID,
      P ''ServerName'' (case get (snd h) ''hostname'' of Str s \<Rightarrow> Str s | _ \<Rightarrow> Str []),
      P ''ServerLocation'' (case get (snd h) ''server_location'' of Str s \<Rightarrow> Str s | _ \<Rightarrow> Str []),
      P ''IpAddress'' (Str (fst h))]"

lemma insert_servers_Cons:
  "insert_servers srv clusterID (h # hosts) =
     (if is_obj (snd h) then seq (request srv ''CreateServer'' (server_row clusterID h)) (insert_servers srv clusterID hosts)
      else insert_servers srv clusterID hosts)"
  by (cases h; cases "snd h") (simp_all add: server_row_def)

lemma insert_servers_calls:
  "(\<And>h r. h \<in> set hosts \<Longrightarrow> A (Request ''CreateServer'' (server_row clusterID h) r)) \<Longrightarrow>
     only_calls A (insert_servers srv clusterID hosts)"
proof (induction hosts)
  case (Cons h hosts)
  have "A (Request ''CreateServer'' (server_row clusterID h) r)" for r by (rule Cons.prems) simp
  moreover note Cons.IH [OF Cons.prems [OF list.set_intros(2)]]
  ultimately show ?case unfolding insert_servers_Cons by (auto intro!: only_calls_rules)
qed (simp add: calls_ret)

lemma create_and_deploy_calls:
  assumes "read_inventory g extraVars envs = (n, t, inventory)"
    and "\<And>r. A (Request ''CreateCluster'' (create_cluster_request g p extraVars envs) r)"
    and "\<And>h r c. ExistingCluster p = Some True \<Longrightarrow> t \<noteq> None \<Longrightarrow>
      h \<in> set (walk_map g (hosts_of (Master_Hosts inventory))) \<union> set (walk_map g (hosts_of (Replica_Hosts inventory))) \<Longrightarrow>
      A (Request ''CreateServer'' (server_row c h) r)"
    and "\<And>arg r. ExistingCluster p \<noteq> Some True \<Longrightarrow> get arg ''Envs'' = Arr (map Str envs) \<Longrightarrow>
      get arg ''ExtraVars'' = Str (go_marshal extraVars) \<Longrightarrow> A (Request ''ManageCluster'' arg r)"
    and "\<And>arg r. A (Request ''CreateOperation'' arg r)" "\<And>args. A (Call ''StoreInDb'' args)"
    and "\<And>c r. A (Request ''UpdateCluster'' (obj [P ''ID'' c, P ''Status'' (Str ''failed'')]) r)"
  shows "only_calls A (create_and_deploy srv g p extraVars envs)"
proof -
  have "only_calls A (import_cluster srv (walk_map g) t inventory c)" if "ExistingCluster p = Some True" for c
    unfolding import_cluster_def
    using assms(3) [OF that] by (auto intro!: only_calls_rules insert_servers_calls)
  moreover have "only_calls A (deploy_cluster srv (log_dir g) p envs (go_marshal extraVars) c)"
    if "ExistingCluster p \<noteq> Some True" for c
    unfolding deploy_cluster_def
    using assms(4) [OF that] assms(5-) by (intro only_calls_rules) (auto simp: get_obj)
  ultimately show ?thesis
    unfolding create_and_deploy_def assms(1) by (auto intro!: only_calls_rules assms(2) split: res.split)
qed


section \<open>The request of a form for own machines\<close>

definition json_of :: "js option \<Rightarrow> js" where
  "json_of v = (case Option.bind v json_value of Some x \<Rightarrow> x | None \<Rightarrow> Undef)"

definition imports_cluster :: "js \<Rightarrow> js \<Rightarrow> bool" where
  "imports_cluster values custom \<longleftrightarrow>
     (if get values CF_CREATION_TYPE = Str CREATE_YAML
      then opt_string (get custom ''existing_cluster'') = Str ''true'' else truthy (get values DBS_IS_CLUSTER_EXISTS))"

lemma those_Str: "those (map (\<lambda>x. case x of Str s \<Rightarrow> Some s | _ \<Rightarrow> None) (map Str xs)) = Some xs"
  by (induction xs) auto

lemma bind_fields:
  assumes "bind_body body = Some p"
  shows "get body ''envs'' = Arr (map Str xs) \<Longrightarrow> Envs p = xs"
    and "get body ''existing_cluster'' = Bool b \<Longrightarrow> ExistingCluster p = Some b"
    and "get body ''existing_cluster'' = Undef \<Longrightarrow> ExistingCluster p = None"
    and "ExtraVars p = get body ''extra_vars''"
    and "get body ''name'' = Str t \<Longrightarrow> Name p = t"
    and "get body ''auth_info'' = Undef \<Longrightarrow> AuthInfo p = None"
    and "get body ''auth_info'' = Obj ps \<Longrightarrow> AuthInfo p = int_field (Obj ps) ''secret_id''"
  using assms by (auto simp: bind_body_def bind_eq_Some_conv those_Str text_field_def simp del: get.simps map_map)

text \<open>The parameters the handler gets for such a request.\<close>

lemma local_params:
  assumes "mapFormValuesToRequestFields isEmpty expert values secretId projectId secretsInfo custom = Ok req"
    and "\<not> is_cloud_request values (strip_custom_vars isEmpty custom)"
    and "proper req" "Option.bind (wire req) bind_body = Some p"
  obtains envs extra_vars where "getLocalMachineEnvs expert values secretId = Ok envs"
    "Envs p = ssh_env values secretId @ [''ANSIBLE_INVENTORY_JSON'' @ ''='' @ btoa (inventory_text envs)]"
    "ExistingCluster p = Some (imports_cluster values (strip_custom_vars isEmpty custom))"
    "ExtraVars p = json_of (Some extra_vars)" "get req ''extra_vars'' = extra_vars"
    "if nullish (strip_custom_vars isEmpty custom) then
       \<exists>base local. getBaseClusterExtraVars expert values = Ok base \<and> getLocalMachineExtraVars expert values secretId = Ok local
         \<and> extra_vars = obj [Spread base, Spread local]
     else extra_vars = strip_custom_vars isEmpty custom"
proof -
  let ?c = "strip_custom_vars isEmpty custom"
  obtain params where params: "getRequestLocalMachineParams expert values secretId ?c = Ok params"
    "req = obj [Spread (base_object values secretId projectId custom), Spread params]"
    using assms(1) by (rule request_parts) (use assms(2) in simp)
  obtain envs extra_vars where e: "getLocalMachineEnvs expert values secretId = Ok envs"
    "(if nullish ?c then and_then (getBaseClusterExtraVars expert values) (\<lambda>base.
        and_then (getLocalMachineExtraVars expert values secretId) (\<lambda>local. Ok (obj [Spread base, Spread local])))
      else Ok ?c) = Ok extra_vars"
    "params = obj [P ''envs'' (convertObjectValueToBase64Format envs), P ''extra_vars'' extra_vars,
       P ''existing_cluster'' (Bool (imports_cluster values ?c))]"
    using params(1) unfolding getRequestLocalMachineParams_def and_then_eq_Ok imports_cluster_def
    by (auto simp: to_bool_def split: if_split_asm)
  let ?parts = "[Spread (base_object values secretId projectId custom), Spread params]"
  have look: "lookup_parts ?parts ''envs'' = Some (convertObjectValueToBase64Format envs)"
    "lookup_parts ?parts ''extra_vars'' = Some extra_vars"
    "lookup_parts ?parts ''existing_cluster'' = Some (Bool (imports_cluster values ?c))"
    by (simp_all add: e(3) base_object_lookup)
  obtain body where body: "wire req = Some body" "bind_body body = Some p" using assms(4) by (auto simp: bind_eq_Some_conv)
  then have json: "json_value (obj ?parts) = Some body"
    using assms(3) params(2) by (simp add: wire_value)
  have "get body ''envs'' = Arr (map Str (ssh_env values secretId @ [''ANSIBLE_INVENTORY_JSON'' @ ''='' @ btoa (inventory_text envs)]))"
    unfolding get_json_value [OF json] look(1) local_env_strings [OF e(1)] inventory_text_def
    by (simp only: Option.bind.simps json_value.simps json_values_Str option.case)
  moreover have "get body ''existing_cluster'' = Bool (imports_cluster values ?c)"
    unfolding get_json_value [OF json] look(3) by simp
  moreover have "get body ''extra_vars'' = json_of (Some extra_vars)"
    unfolding get_json_value [OF json] look(2) by (simp add: json_of_def)
  moreover have "get req ''extra_vars'' = extra_vars" unfolding params(2) get_obj look(2) by simp
  moreover have "if nullish ?c then
       \<exists>base local. getBaseClusterExtraVars expert values = Ok base \<and> getLocalMachineExtraVars expert values secretId = Ok local
         \<and> extra_vars = obj [Spread base, Spread local]
     else extra_vars = ?c"
    using e(2) by (auto simp: and_then_eq_Ok split: if_splits)
  ultimately show ?thesis using that [OF e(1)] bind_fields [OF body(2)] by presburger
qed


text \<open>The variables that make the service take a request for one of a cloud provider are not in it.\<close>

definition cloud_names :: "string list" where
  "cloud_names = [''cloud_provider'', ''server_location'', ''server_count'']"

lemma backup_no_cloud:
  assumes "backup_vars values = Ok b" "k \<in> set cloud_names"
  shows "lookup_part (Spread b) k = None"
proof -
  have "lookup_part (Spread b) ''cloud_provider'' = None \<and> lookup_part (Spread b) ''server_location'' = None
      \<and> lookup_part (Spread b) ''server_count'' = None"
    using assms(1)
    by (auto simp: backup_vars_def pgbackrest_vars_def wal_g_vars_def and_then_eq_Ok map_res_eq_Ok split: if_split_asm)
  then show ?thesis using assms(2) by (auto simp: cloud_names_def)
qed

lemma base_no_cloud:
  assumes "getBaseClusterExtraVars expert values = Ok base" "k \<in> set cloud_names"
  shows "lookup_part (Spread base) k = None"
proof (cases expert)
  case False
  then show ?thesis using assms by (auto simp: getBaseClusterExtraVars_def baseExtraVars_def cloud_names_def)
next
  case True
  then obtain ext d u pools b ps where e:
    "getExtensions values = Ok ext" "pool_vars values = Ok pools" "backup_vars values = Ok b"
    "parameter_vars values = Ok ps" and vars: "base = obj
          [Spread (obj (baseExtraVars values)),
           P ''postgresql_databases'' d,
           P ''postgresql_users'' u,
           P ''pgbouncer_install'' (to_bool (get values POOL_IS_CONNECTION_POOLER_ENABLED)),
           P ''netdata_install'' (to_bool (get values ADS_IS_NETDATA_MONITORING)),
           Spread pools,
           Spread_if (has_length (get ext ''db'')) [P ''postgresql_extensions'' (get ext ''db'')],
           Spread (get ext ''extraVars''),
           Spread b,
           Spread ps,
           Spread_if (truthy (get values ADS_SYNC_STANDBY_NODES))
             [P ''synchronous_mode'' (Bool True),
              P ''synchronous_node_count'' (get values ADS_SYNC_STANDBY_NODES),
              Spread_if (truthy (get values ADS_IS_SYNC_MODE_STRICT))
                [P ''synchronous_mode_strict'' (Bool True)]]]"
    using assms(1) unfolding getBaseClusterExtraVars_def
    by (simp only: not_True_eq_False if_False and_then_eq_Ok res.inject) metis
  have none: "lookup_part (Spread (get ext ''extraVars'')) k = None \<and> lookup_part (Spread pools) k = None
      \<and> lookup_part (Spread b) k = None \<and> lookup_part (Spread ps) k = None" if k: "k \<in> set cloud_names" for k
  proof (intro conjI)
    show "lookup_part (Spread (get ext ''extraVars'')) k = None"
      using k by (intro extensions_lookup [OF e(1)]) (auto simp: starts_with_def cloud_names_def)
    show "lookup_part (Spread pools) k = None" "lookup_part (Spread ps) k = None"
      using k by (auto simp: cloud_names_def intro!: pool_lookup [OF e(2)] parameter_lookup [OF e(4)])
    show "lookup_part (Spread b) k = None" using backup_no_cloud [OF e(3) k] .
  qed
  note n = none [of "''cloud_provider''"] none [of "''server_location''"] none [of "''server_count''"]
  have "lookup_part (Spread base) ''cloud_provider'' = None \<and> lookup_part (Spread base) ''server_location'' = None
      \<and> lookup_part (Spread base) ''server_count'' = None"
    using n unfolding vars lookup_spread_obj by (simp add: baseExtraVars_def cloud_names_def)
  then show ?thesis using assms(2) by (auto simp: cloud_names_def)
qed

lemma local_no_cloud:
  assumes "getLocalMachineExtraVars expert values secretId = Ok local" "k \<in> set cloud_names"
  shows "lookup_part (Spread local) k = None"
proof -
  have "lookup_part (Spread local) ''cloud_provider'' = None \<and> lookup_part (Spread local) ''server_location'' = None
      \<and> lookup_part (Spread local) ''server_count'' = None"
    using assms(1)
    by (auto simp: getLocalMachineExtraVars_def existing_dcs_vars_def and_then_eq_Ok map_res_eq_Ok lookup_common split: if_split_asm)
  then show ?thesis using assms(2) by (auto simp: cloud_names_def)
qed

lemma no_cloud_provider:
  assumes "given_vars p extraVars" "ExtraVars p = json_of (Some (obj [Spread base, Spread local]))"
    and "getBaseClusterExtraVars expert values = Ok base" "getLocalMachineExtraVars expert values secretId = Ok local"
  shows "k \<in> set cloud_names \<Longrightarrow> get extraVars k = Undef"
proof -
  assume k: "k \<in> set cloud_names"
  obtain qs where qs: "json_value (obj [Spread base, Spread local]) = Some (Obj qs)"
    "\<forall>k. map_of qs k = Option.bind (lookup_parts [Spread base, Spread local] k) json_value" using json_obj by blast
  have "lookup_parts [Spread base, Spread local] k = None"
    using base_no_cloud [OF assms(3) k] local_no_cloud [OF assms(4) k] by simp
  then have "map_of qs k = None" using qs(2) by simp
  moreover have "ExtraVars p = Obj qs" using assms(2) qs(1) by (simp add: json_of_def)
  moreover have "k \<notin> set secret_keys" "k \<noteq> ''proxy_env''"
    using k secret_keys_plain by (auto simp: cloud_names_def)
  ultimately show ?thesis using assms(1) by (simp add: given_vars_def)
qed

end
