(* ===== verification/ServiceRuns.thy ===== *)
theory ServiceRuns
  imports ServiceFacts
begin

text \<open>
  Runs of the handler that creates a cluster: it either ends with an error after reading only, or it
  reaches \<open>create_and_deploy\<close>, whose runs are listed event by event.
\<close>

section \<open>Up to the creation of the cluster\<close>

definition is_read :: "event \<Rightarrow> bool" where
  "is_read e \<longleftrightarrow> (\<exists>ep \<in> set reads. \<exists>arg r. e = Request ep arg r)"

text \<open>\<open>m\<close> started in \<open>w\<close> has only read when it ends with \<open>r\<close> in \<open>w'\<close>.\<close>

definition read_run :: "('w world_scheme, 'a) action \<Rightarrow> 'w world_scheme \<Rightarrow> 'a res \<Rightarrow> 'w world_scheme \<Rightarrow> bool" where
  "read_run m w r w' \<longleftrightarrow> m w = (r, w') \<and> (\<exists>es. trace w' = trace w @ es \<and> list_all is_read es)"

lemma read_run_calls: "calls is_read Q m \<Longrightarrow> m w = (r, w') \<Longrightarrow> read_run m w r w' \<and> Q r"
  unfolding read_run_def calls_def by (metis fst_conv snd_conv)

lemma bind_run:
  assumes "bind m f w = (r, w')" "calls is_read Q m" "\<And>e. \<not> Q (Throw e)"
  obtains x w1 where "read_run m w (Ok x) w1" "Q (Ok x)" "f x w1 = (r, w')"
proof -
  obtain q w1 where q: "m w = (q, w1)" by (cases "m w")
  have run: "read_run m w q w1" "Q q" using read_run_calls [OF assms(2) q] by simp_all
  then obtain x where "q = Ok x" using assms(3) by (cases q) auto
  then show ?thesis using that run assms(1) q by (simp add: bind_def)
qed

lemma read_request: "ep \<in> set reads \<Longrightarrow> (\<And>r. Q r) \<Longrightarrow> calls is_read Q (request srv ep arg)"
  by (rule calls_request) (auto simp: is_read_def)

lemma read_attempt: "ep \<in> set reads \<Longrightarrow> calls is_read is_ok (attempt (request srv ep arg))"
  by (intro calls_attempt read_request) simp_all

lemma read_secret:
  "calls is_read (\<lambda>r. case r of Ok (Ok s) \<Rightarrow> from_secret s \<and> (auth = None \<longrightarrow> fst s = [])
       | Ok (Throw e) \<Rightarrow> True | Throw e \<Rightarrow> False)
     (attempt (case auth of Some secretID \<Rightarrow> getSecretEnvs srv secretID | None \<Rightarrow> ret ([], UnknownParamLocation))
       :: ('w world_scheme, _) action)"
proof -
  have "calls is_read (\<lambda>r. case r of Ok s \<Rightarrow> from_secret s | Throw e \<Rightarrow> True)
      (getSecretEnvs srv secretID :: ('w world_scheme, _) action)" for secretID
    unfolding getSecretEnvs_def
    by (intro calls_bind [where R = "\<lambda>_. True"] read_request calls_lift)
      (auto simp: reads_def split: res.split dest: secret_envs_from)
  moreover have "calls is_read (\<lambda>r. case r of Ok s \<Rightarrow> from_secret s \<and> fst s = [] | Throw e \<Rightarrow> True)
      (ret ([], UnknownParamLocation) :: ('w world_scheme, _) action)"
    by (intro calls_ret) (simp add: from_secret_def)
  ultimately show ?thesis
    by (cases auth; hypsubst; intro calls_attempt) (simp_all only: option.case option.simps res.case simp_thms)
qed

lemma read_proxy:
  "calls is_read (\<lambda>r. case r of Ok v \<Rightarrow> v \<in> insert m (range (assign_put m ''proxy_env'')) | Throw e \<Rightarrow> False)
     (addProxySettings srv m)"
  unfolding addProxySettings_def
  by (intro calls_bind [where R = "\<lambda>r. is_ok r"] read_attempt calls_ret)
    (auto simp: is_ok_iff reads_def split: res.split)

text \<open>What a request's secret gives; without a secret there is nothing.\<close>

definition secret_of :: "PostClustersParams \<Rightarrow> string list \<times> ParamLocation \<Rightarrow> bool" where
  "secret_of p s \<longleftrightarrow> from_secret s \<and> (AuthInfo p = None \<longrightarrow> fst s = [])"

lemma secret_of_from: "secret_of p s \<Longrightarrow> from_secret s"
  by (simp add: secret_of_def)

text \<open>A run that creates the cluster: \<open>w1\<close> is the world after the reading.\<close>

definition creates ::
    "server \<Rightarrow> go_env \<Rightarrow> PostClustersParams \<Rightarrow> 'w world_scheme \<Rightarrow> js \<Rightarrow> string list \<Rightarrow> js res \<Rightarrow> 'w world_scheme \<Rightarrow> bool" where
  "creates srv g p w extraVars envs r w' \<longleftrightarrow>
     (\<exists>secretEnvs loc w1 es. envs = cluster_envs p secretEnvs loc \<and> secret_of p (secretEnvs, loc) \<and> given_vars p extraVars
        \<and> trace w1 = trace w @ es \<and> list_all is_read es \<and> create_and_deploy srv g p extraVars envs w1 = (r, w'))"

lemma postCluster_run:
  assumes "postClusterHandle srv g p w = (r, w')"
  shows "(\<exists>err es. r = Ok (bad_request err) \<and> trace w' = trace w @ es \<and> list_all is_read es)
    \<or> (\<exists>extraVars envs. creates srv g p w extraVars envs r w')"
proof -
  let ?secret = "attempt (case AuthInfo p of Some secretID \<Rightarrow> getSecretEnvs srv secretID | None \<Rightarrow> ret ([], UnknownParamLocation))"
  obtain old w1 where old: "read_run (attempt (request srv ''GetClusterByName'' (Str (Name p)))) w (Ok old) w1"
    and next1: "(if (case old of Ok c \<Rightarrow> c \<noteq> Null | Throw err \<Rightarrow> False)
       then ret (bad_request (Fn ''cluster %s already exists'' [Str (Name p)]))
       else bind ?secret (\<lambda>secret. case secret of
             Throw err \<Rightarrow> ret (bad_request (Fn ''failed to get secret: %s'' [go_error err]))
           | Ok (secretEnvs, paramLocation) \<Rightarrow>
               bind (addProxySettings srv (cluster_extra_vars p secretEnvs paramLocation)) (\<lambda>extraVars.
                 create_and_deploy srv g p extraVars (cluster_envs p secretEnvs paramLocation)))) w1 = (r, w')"
    using assms unfolding postClusterHandle_def
    by (rule bind_run [OF _ read_attempt]) (simp_all add: reads_def)
  show ?thesis
  proof (cases "case old of Ok c \<Rightarrow> c \<noteq> Null | Throw err \<Rightarrow> False")
    case True
    then show ?thesis using old next1 by (auto simp: read_run_def ret_def)
  next
    case False
    obtain secret w2 where secret: "read_run ?secret w1 (Ok secret) w2" "case secret of Ok s \<Rightarrow> secret_of p s | Throw e \<Rightarrow> True"
      and next2: "(case secret of
             Throw err \<Rightarrow> ret (bad_request (Fn ''failed to get secret: %s'' [go_error err]))
           | Ok (secretEnvs, paramLocation) \<Rightarrow>
               bind (addProxySettings srv (cluster_extra_vars p secretEnvs paramLocation)) (\<lambda>extraVars.
                 create_and_deploy srv g p extraVars (cluster_envs p secretEnvs paramLocation))) w2 = (r, w')"
      using next1 unfolding if_not_P [OF False]
      by (rule bind_run [OF _ read_secret]) (simp_all add: secret_of_def split: res.splits)
    show ?thesis
    proof (cases secret)
      case (Throw err)
      then show ?thesis using old secret next2 by (auto simp: read_run_def ret_def)
    next
      case (Ok s)
      obtain secretEnvs loc where s: "s = (secretEnvs, loc)" by (cases s)
      have sent: "secret_of p (secretEnvs, loc)" using secret(2) Ok s by simp
      obtain extraVars w3 where proxy: "read_run (addProxySettings srv (cluster_extra_vars p secretEnvs loc)) w2 (Ok extraVars) w3"
        "extraVars \<in> insert (cluster_extra_vars p secretEnvs loc) (range (assign_put (cluster_extra_vars p secretEnvs loc) ''proxy_env''))"
        and next3: "create_and_deploy srv g p extraVars (cluster_envs p secretEnvs loc) w3 = (r, w')"
        using next2 unfolding Ok s res.case prod.case by (rule bind_run [OF _ read_proxy]) simp_all
      have "given_vars p extraVars" using proxy(2) cluster_extra_vars_given [OF secret_of_from [OF sent]] by auto
      moreover obtain es where "trace w3 = trace w @ es" "list_all is_read es"
        using old secret(1) proxy(1) by (auto simp: read_run_def)
      ultimately show ?thesis unfolding creates_def using next3 sent by blast
    qed
  qed
qed


section \<open>From the creation on\<close>

lemma create_and_deploy_run:
  assumes "create_and_deploy srv g p extraVars envs w = (r, w')" "read_inventory g extraVars envs = (n, t, inventory)"
  shows "(\<exists>e. r = Ok (bad_request (go_error e))
        \<and> trace w' = trace w @ [Request ''CreateCluster'' (create_cluster_request g p extraVars envs) (Throw e)])
    \<or> (\<exists>c w1. trace w1 = trace w @ [Request ''CreateCluster'' (create_cluster_request g p extraVars envs) (Ok c)]
        \<and> (if ExistingCluster p = Some True then import_cluster srv (walk_map g) t inventory (get c ''id'')
            else deploy_cluster srv (log_dir g) p envs (go_marshal extraVars) (get c ''id'')) w1 = (r, w'))"
proof (cases "srv (trace w) ''CreateCluster'' (create_cluster_request g p extraVars envs)")
  case (Throw e)
  then show ?thesis
    using assms(1) by (intro disjI1 exI [of _ e]) (auto simp: create_and_deploy_def bind_def attempt_def request_def ret_def Let_def)
next
  case (Ok c)
  let ?w = "w\<lparr>trace := trace w @ [Request ''CreateCluster'' (create_cluster_request g p extraVars envs) (Ok c)]\<rparr>"
  have "(if ExistingCluster p = Some True then import_cluster srv (walk_map g) t inventory (get c ''id'')
            else deploy_cluster srv (log_dir g) p envs (go_marshal extraVars) (get c ''id'')) ?w = (r, w')"
    using assms Ok by (simp add: create_and_deploy_def bind_def attempt_def request_def Let_def)
  then show ?thesis by (intro disjI2 exI [of _ c] exI [of _ ?w]) simp
qed

text \<open>The argument with which the deployment is started, and the mark of a failed one.\<close>

definition manage_request :: "js \<Rightarrow> string list \<Rightarrow> string \<Rightarrow> js" where
  "manage_request logDir envs extraVarsText = obj
     [P ''Envs'' (Arr (map Str envs)), P ''ExtraVars'' (Str extraVarsText),
      P ''Mounts'' (Arr [obj [P ''DockerPath'' (Str ansibleLogDir), P ''HostPath'' logDir]])]"

definition marked_failed :: "js \<Rightarrow> event \<Rightarrow> bool" where
  "marked_failed clusterID e \<longleftrightarrow>
     (\<exists>a. e = Request ''UpdateCluster'' (obj [P ''ID'' clusterID, P ''Status'' (Str ''failed'')]) a)"

text \<open>What a deployment adds to the trace, by how far it comes.\<close>

definition deployed :: "PostClustersParams \<Rightarrow> js \<Rightarrow> js \<Rightarrow> event list \<Rightarrow> js \<Rightarrow> bool" where
  "deployed p arg clusterID es resp \<longleftrightarrow>
     (\<exists>d op. es = [Request ''ManageCluster'' arg (Ok d),
          Request ''CreateOperation'' (obj
            [P ''ProjectID'' (Num (ProjectID p)), P ''ClusterID'' clusterID, P ''DockerCode'' d, P ''Type'' (Str ''deploy'')]) (Ok op),
          Call ''StoreInDb'' [get op ''id'', d]]
        \<and> resp = ok_payload (obj [P ''cluster_id'' clusterID, P ''operation_id'' (get op ''id'')]))"

definition not_deployed :: "PostClustersParams \<Rightarrow> js \<Rightarrow> js \<Rightarrow> event list \<Rightarrow> js \<Rightarrow> bool" where
  "not_deployed p arg clusterID es resp \<longleftrightarrow>
     (\<exists>e fs m. es = fs @ [m] \<and> resp = bad_request (go_error e) \<and> marked_failed clusterID m
        \<and> (fs = [Request ''ManageCluster'' arg (Throw e)]
           \<or> (\<exists>d. fs = [Request ''ManageCluster'' arg (Ok d),
                Request ''CreateOperation'' (obj
                  [P ''ProjectID'' (Num (ProjectID p)), P ''ClusterID'' clusterID, P ''DockerCode'' d, P ''Type'' (Str ''deploy'')])
                  (Throw e)])))"

lemma deploy_cluster_run:
  assumes "deploy_cluster srv logDir p envs txt clusterID w = (r, w')"
  shows "\<exists>es resp. r = Ok resp \<and> trace w' = trace w @ es
     \<and> (deployed p (manage_request logDir envs txt) clusterID es resp
       \<or> not_deployed p (manage_request logDir envs txt) clusterID es resp)"
  using assms
  by (auto simp: deploy_cluster_def run_simps attempt_def deployed_def not_deployed_def marked_failed_def manage_request_def
      split: res.splits prod.splits)

text \<open>The servers an import inserts: those whose entry is an object, up to the first refused one.\<close>

definition inserted :: "js \<Rightarrow> entry_list \<Rightarrow> event list \<Rightarrow> bool" where
  "inserted clusterID = list_all2 (\<lambda>h e. \<exists>a. e = Request ''CreateServer'' (server_row clusterID h) (Ok a))"

definition refused_at :: "js \<Rightarrow> entry_list \<Rightarrow> event list \<Rightarrow> exn \<Rightarrow> bool" where
  "refused_at clusterID hosts es e \<longleftrightarrow>
     (\<exists>hs h rest fs. hosts = hs @ h # rest \<and> inserted clusterID hs fs
        \<and> es = fs @ [Request ''CreateServer'' (server_row clusterID h) (Throw e)])"

lemma inserted_simps [simp]:
  "inserted c [] es \<longleftrightarrow> es = []"
  "inserted c (h # hs) (Request ''CreateServer'' (server_row c h) (Ok a) # es) \<longleftrightarrow> inserted c hs es"
  by (auto simp: inserted_def)

lemma inserted_append: "inserted c hs es \<Longrightarrow> inserted c gs fs \<Longrightarrow> inserted c (hs @ gs) (es @ fs)"
  by (simp add: inserted_def list_all2_appendI)

lemma refused_append: "inserted c hs es \<Longrightarrow> refused_at c gs fs e \<Longrightarrow> refused_at c (hs @ gs) (es @ fs) e"
  unfolding refused_at_def by (metis inserted_append append.assoc)

lemma refused_more: "refused_at c hs es e \<Longrightarrow> refused_at c (hs @ gs) es e"
  unfolding refused_at_def by (metis append.assoc append_Cons)

lemma insert_servers_run:
  assumes "insert_servers srv c hosts w = (r, w')"
  shows "\<exists>es. trace w' = trace w @ es
     \<and> (case r of Ok v \<Rightarrow> inserted c (filter (\<lambda>h. is_obj (snd h)) hosts) es
         | Throw e \<Rightarrow> refused_at c (filter (\<lambda>h. is_obj (snd h)) hosts) es e)"
  using assms
proof (induction hosts arbitrary: w)
  case Nil
  then show ?case by (auto simp: ret_def)
next
  case (Cons h hosts)
  show ?case
  proof (cases "is_obj (snd h)")
    case False
    then have "filter (\<lambda>h. is_obj (snd h)) (h # hosts) = filter (\<lambda>h. is_obj (snd h)) hosts"
      "insert_servers srv c hosts w = (r, w')"
      using Cons.prems unfolding insert_servers_Cons by simp_all
    then show ?thesis using Cons.IH [of w] by presburger
  next
    case True
    let ?q = "srv (trace w) ''CreateServer'' (server_row c h)"
    let ?e = "Request ''CreateServer'' (server_row c h) ?q"
    let ?w = "w\<lparr>trace := trace w @ [?e]\<rparr>"
    show ?thesis
    proof (cases ?q)
      case (Throw e)
      then have "r = Throw e" "w' = ?w" using Cons.prems True
        unfolding insert_servers_Cons by (auto simp: seq_def bind_def request_def Let_def)
      moreover have "refused_at c (h # hs) [Request ''CreateServer'' (server_row c h) (Throw e)] e" for hs
        unfolding refused_at_def by (rule exI [of _ "[]"]) auto
      ultimately show ?thesis using True Throw by simp
    next
      case (Ok a)
      then have "insert_servers srv c hosts ?w = (r, w')" using Cons.prems True
        unfolding insert_servers_Cons by (simp add: seq_def bind_def request_def Let_def)
      then obtain es where es: "trace w' = trace ?w @ es"
        "case r of Ok v \<Rightarrow> inserted c (filter (\<lambda>h. is_obj (snd h)) hosts) es
         | Throw e \<Rightarrow> refused_at c (filter (\<lambda>h. is_obj (snd h)) hosts) es e" using Cons.IH by blast
      have "inserted c [h] [?e]" using Ok by simp
      then show ?thesis using es True Ok
          inserted_append [of c "[h]" "[?e]" _ es] refused_append [of c "[h]" "[?e]" _ es]
        by (auto intro!: exI [of _ "?e # es"] split: res.split)
    qed
  qed
qed


lemma import_cluster_run:
  assumes "import_cluster srv walk t inventory c w = (r, w')"
  shows "\<exists>es. trace w' = trace w @ es
     \<and> ((r = Ok (ok_payload (obj [P ''cluster_id'' c]))
           \<and> inserted c (if t \<noteq> None \<and> t \<noteq> Some []
               then filter (\<lambda>h. is_obj (snd h)) (walk (hosts_of (Master_Hosts inventory)) @ walk (hosts_of (Replica_Hosts inventory)))
               else []) es)
       \<or> (\<exists>e. r = Ok (bad_request (go_error e)) \<and> t \<noteq> None \<and> t \<noteq> Some []
           \<and> refused_at c (filter (\<lambda>h. is_obj (snd h))
                (walk (hosts_of (Master_Hosts inventory)) @ walk (hosts_of (Replica_Hosts inventory)))) es e))"
proof (cases "t \<noteq> None \<and> t \<noteq> Some []")
  case False
  then show ?thesis using assms
    by (auto simp: import_cluster_def seq_def bind_def catch_def ret_def ok_payload_def)
next
  case True
  let ?m = "walk (hosts_of (Master_Hosts inventory))" and ?r = "walk (hosts_of (Replica_Hosts inventory))"
  obtain q w1 where m: "insert_servers srv c ?m w = (q, w1)" by (cases "insert_servers srv c ?m w")
  obtain es where es: "trace w1 = trace w @ es"
    "case q of Ok v \<Rightarrow> inserted c (filter (\<lambda>h. is_obj (snd h)) ?m) es
     | Throw e \<Rightarrow> refused_at c (filter (\<lambda>h. is_obj (snd h)) ?m) es e"
    using insert_servers_run [OF m] by blast
  show ?thesis
  proof (cases q)
    case (Throw e)
    then have "r = Ok (bad_request (go_error e))" "w' = w1"
      using assms m True by (auto simp: import_cluster_def seq_def bind_def catch_def ret_def)
    then show ?thesis using True es Throw refused_more by auto
  next
    case (Ok v)
    obtain q2 w2 where r: "insert_servers srv c ?r w1 = (q2, w2)" by (cases "insert_servers srv c ?r w1")
    obtain fs where fs: "trace w2 = trace w1 @ fs"
      "case q2 of Ok v \<Rightarrow> inserted c (filter (\<lambda>h. is_obj (snd h)) ?r) fs
       | Throw e \<Rightarrow> refused_at c (filter (\<lambda>h. is_obj (snd h)) ?r) fs e"
      using insert_servers_run [OF r] by blast
    have "w' = w2" "r = (case q2 of Ok v \<Rightarrow> Ok (ok_payload (obj [P ''cluster_id'' c])) | Throw e \<Rightarrow> Ok (bad_request (go_error e)))"
      using assms m r True Ok
      by (auto simp: import_cluster_def seq_def bind_def catch_def ret_def split: res.splits)
    then show ?thesis using True es fs Ok inserted_append refused_append
      by (intro exI [of _ "es @ fs"]) (auto split: res.splits)
  qed
qed


section \<open>Events of the handler\<close>

text \<open>An event that is not a read comes from \<open>create_and_deploy\<close>.\<close>

lemma handler_event:
  assumes "postClusterHandle srv g p w = (r, w')" "e \<in> set (drop (length (trace w)) (trace w'))" "\<not> is_read e"
  shows "\<exists>secretEnvs loc extraVars w1. secret_of p (secretEnvs, loc) \<and> given_vars p extraVars
     \<and> create_and_deploy srv g p extraVars (cluster_envs p secretEnvs loc) w1 = (r, w')
     \<and> e \<in> set (drop (length (trace w1)) (trace w'))"
proof -
  have "\<exists>extraVars envs. creates srv g p w extraVars envs r w'"
    using postCluster_run [OF assms(1)] assms(2,3) by (auto simp: list_all_iff)
  then obtain secretEnvs loc extraVars w1 es where run:
    "secret_of p (secretEnvs, loc)" "given_vars p extraVars" "trace w1 = trace w @ es" "list_all is_read es"
    "create_and_deploy srv g p extraVars (cluster_envs p secretEnvs loc) w1 = (r, w')"
    unfolding creates_def by blast
  have "only_calls (\<lambda>_. True) (create_and_deploy srv g p extraVars (cluster_envs p secretEnvs loc) :: ('a world_scheme, js) action)"
    by (cases "read_inventory g extraVars (cluster_envs p secretEnvs loc)") (rule create_and_deploy_calls, assumption, simp_all)
  from calls_run [OF this run(5)] obtain fs where "trace w' = trace w1 @ fs" by blast
  then have "e \<in> set (drop (length (trace w1)) (trace w'))"
    using assms(2,3) run(3,4) by (auto simp: list_all_iff)
  then show ?thesis using run(1,2,5) by blast
qed

lemma created_request:
  assumes "postClusterHandle srv g p w = (r, w')"
    and "Request ''CreateCluster'' arg a \<in> set (drop (length (trace w)) (trace w'))"
  shows "\<exists>secretEnvs loc extraVars. secret_of p (secretEnvs, loc) \<and> given_vars p extraVars
     \<and> arg = create_cluster_request g p extraVars (cluster_envs p secretEnvs loc)"
proof -
  let ?e = "Request ''CreateCluster'' arg a"
  have "\<not> is_read ?e" by (auto simp: is_read_def reads_def)
  from handler_event [OF assms this] obtain secretEnvs loc extraVars w1 where run:
    "secret_of p (secretEnvs, loc)" "given_vars p extraVars"
    "create_and_deploy srv g p extraVars (cluster_envs p secretEnvs loc) w1 = (r, w')"
    "?e \<in> set (drop (length (trace w1)) (trace w'))" by blast
  let ?envs = "cluster_envs p secretEnvs loc"
  obtain n t inventory where read: "read_inventory g extraVars ?envs = (n, t, inventory)" by (metis prod_cases3)
  have "only_calls (\<lambda>e. \<forall>arg a. e = Request ''CreateCluster'' arg a \<longrightarrow> arg = create_cluster_request g p extraVars ?envs)
      (create_and_deploy srv g p extraVars ?envs :: ('a world_scheme, js) action)"
    by (rule create_and_deploy_calls [OF read]) simp_all
  from calls_events [OF this run(3,4)] show ?thesis using run(1,2) by blast
qed

lemma managed_request:
  assumes "postClusterHandle srv g p w = (r, w')"
    and "Request ''ManageCluster'' arg a \<in> set (drop (length (trace w)) (trace w'))"
  shows "ExistingCluster p \<noteq> Some True \<and> (\<exists>secretEnvs loc extraVars. secret_of p (secretEnvs, loc) \<and> given_vars p extraVars
     \<and> get arg ''Envs'' = Arr (map Str (cluster_envs p secretEnvs loc)) \<and> get arg ''ExtraVars'' = Str (go_marshal extraVars))"
proof -
  let ?e = "Request ''ManageCluster'' arg a"
  have "\<not> is_read ?e" by (auto simp: is_read_def reads_def)
  from handler_event [OF assms this] obtain secretEnvs loc extraVars w1 where run:
    "secret_of p (secretEnvs, loc)" "given_vars p extraVars"
    "create_and_deploy srv g p extraVars (cluster_envs p secretEnvs loc) w1 = (r, w')"
    "?e \<in> set (drop (length (trace w1)) (trace w'))" by blast
  let ?envs = "cluster_envs p secretEnvs loc"
  obtain n t inventory where read: "read_inventory g extraVars ?envs = (n, t, inventory)" by (metis prod_cases3)
  have "only_calls (\<lambda>e. \<forall>arg a. e = Request ''ManageCluster'' arg a \<longrightarrow> ExistingCluster p \<noteq> Some True
        \<and> get arg ''Envs'' = Arr (map Str ?envs) \<and> get arg ''ExtraVars'' = Str (go_marshal extraVars))
      (create_and_deploy srv g p extraVars ?envs :: ('a world_scheme, js) action)"
    by (rule create_and_deploy_calls [OF read]) simp_all
  from calls_events [OF this run(3,4)] show ?thesis using run(1,2) by blast
qed

end
