(* ===== verification/Deployment.thy ===== *)
theory Deployment
  imports ServiceRuns
begin

text \<open>
  From the form to the container: the properties that span the console, its service and the entry
  point of the container.
\<close>

section \<open>A submitted form for own machines\<close>

text \<open>What the Go packages and the tool \<open>base64\<close> document.\<close>

definition go_documented :: "go_env \<Rightarrow> bool" where
  "go_documented g \<longleftrightarrow>
     (\<forall>s. decode64 g (btoa s) = Some s)
     \<and> (\<forall>s. (\<forall>c \<in> set s. of_char c < (128 :: nat)) \<longrightarrow> utf8_text g s = s)
     \<and> (\<forall>m. mset (walk_map g m) = mset m)"

text \<open>
  The form makes the request \<open>req\<close> for the user's own machines, with the environment \<open>envs\<close>, and the
  service reads \<open>p\<close> from its text. The texts are ASCII: \<open>btoa\<close> sends other characters as bytes that are
  not UTF-8.
\<close>

definition submitted :: "(js \<Rightarrow> bool) \<Rightarrow> bool \<Rightarrow> js \<Rightarrow> js \<Rightarrow> js \<Rightarrow> js \<Rightarrow> js \<Rightarrow> js \<Rightarrow> PostClustersParams \<Rightarrow> bool" where
  "submitted isEmpty expert values secretId projectId secretsInfo req envs p \<longleftrightarrow>
     lodash_isEmpty isEmpty
     \<and> get values CF_CREATION_TYPE = Str CREATE_FORM \<and> get (get values CF_PROVIDER) ''code'' = Str PROV_LOCAL
     \<and> mapFormValuesToRequestFields isEmpty expert values secretId projectId secretsInfo Undef = Ok req
     \<and> getLocalMachineEnvs expert values secretId = Ok envs
     \<and> proper req \<and> proper (form_inventory envs) \<and> (\<forall>c \<in> set (inventory_text envs). of_char c < (128 :: nat))
     \<and> Option.bind (wire req) bind_body = Some p"

lemma submitted_params:
  assumes "submitted isEmpty expert values secretId projectId secretsInfo req envs p"
  shows "Envs p = ssh_env values secretId @ [''ANSIBLE_INVENTORY_JSON'' @ ''='' @ btoa (inventory_text envs)]"
    and "ExistingCluster p = Some (truthy (get values DBS_IS_CLUSTER_EXISTS))"
    and "given_vars p extraVars \<Longrightarrow> k \<in> set cloud_names \<Longrightarrow> get extraVars k = Undef"
proof -
  note s = assms [unfolded submitted_def]
  have strip: "strip_custom_vars isEmpty Undef = Undef" using s strip_Undef by simp
  have own: "\<not> is_cloud_request values (strip_custom_vars isEmpty Undef)"
    using s by (auto simp: strip is_cloud_request_def)
  obtain envs' extra_vars where e: "getLocalMachineEnvs expert values secretId = Ok envs'"
    "Envs p = ssh_env values secretId @ [''ANSIBLE_INVENTORY_JSON'' @ ''='' @ btoa (inventory_text envs')]"
    "ExistingCluster p = Some (imports_cluster values (strip_custom_vars isEmpty Undef))"
    "ExtraVars p = json_of (Some extra_vars)" "get req ''extra_vars'' = extra_vars"
    "if nullish (strip_custom_vars isEmpty Undef) then
       \<exists>base local. getBaseClusterExtraVars expert values = Ok base \<and> getLocalMachineExtraVars expert values secretId = Ok local
         \<and> extra_vars = obj [Spread base, Spread local]
     else extra_vars = strip_custom_vars isEmpty Undef"
    by (rule local_params [of isEmpty expert "values" secretId projectId secretsInfo Undef req p])
      (use s own in \<open>auto intro: that\<close>)
  have "envs' = envs" using s e(1) by simp
  then show "Envs p = ssh_env values secretId @ [''ANSIBLE_INVENTORY_JSON'' @ ''='' @ btoa (inventory_text envs)]"
    using e(2) by simp
  show "ExistingCluster p = Some (truthy (get values DBS_IS_CLUSTER_EXISTS))"
    using e(3) s by (auto simp: imports_cluster_def)
  show "given_vars p extraVars \<Longrightarrow> k \<in> set cloud_names \<Longrightarrow> get extraVars k = Undef"
    using e(4,6) no_cloud_provider by (auto simp: strip)
qed

lemma btoa_base64: "s \<noteq> [] \<Longrightarrow> is_base64 (btoa s)"
proof -
  assume s: "s \<noteq> []"
  have "btoa s \<noteq> []"
  proof
    assume "btoa s = []"
    then have "atob [] = s" using atob_btoa [of s] by simp
    then show False using s by (simp add: atob_def)
  qed
  moreover have "c = CHR ''='' \<or> c \<in> set b64_alphabet" if "c \<in> set (btoa s)" for c
    using that b64_encode_chars [of c "map of_char s"] by (auto simp: btoa_def)
  ultimately show ?thesis unfolding is_base64_def by blast
qed

lemma submitted_text:
  assumes "submitted isEmpty expert values secretId projectId secretsInfo req envs p"
  shows "json_parse (inventory_text envs) = json_value (form_inventory envs)" "inventory_text envs \<noteq> []"
proof -
  note s = assms [unfolded submitted_def]
  obtain parts where parts: "form_inventory envs = obj parts" using s form_inventory_obj by blast
  obtain qs where "json_value (obj parts) = Some (Obj qs)" using json_obj by blast
  then show "json_parse (inventory_text envs) = json_value (form_inventory envs)" "inventory_text envs \<noteq> []"
    using inventory_text_json [of envs parts "Obj qs"] parts s by simp_all
qed

text \<open>The inventory the service reads is the form's.\<close>

lemma submitted_inventory:
  assumes "submitted isEmpty expert values secretId projectId secretsInfo req envs p" "go_documented g"
    and "get values DBS_DATABASE_SERVERS = Arr (m # rs)" "given_vars p extraVars"
  obtains inventory where "read_inventory g extraVars (cluster_envs p secretEnvs loc) =
      (1 + int (card (address ` set rs)), Some (inventory_text envs), inventory)" "decoded_form expert values m rs inventory"
proof -
  note s = assms(1) [unfolded submitted_def]
  note g = assms(2) [unfolded go_documented_def]
  obtain J inventory where J: "json_value (form_inventory envs) = Some J" "decode_inventory J = Some inventory"
    "decoded_form expert values m rs inventory"
    by (rule form_inventory_decoded [of expert "values" secretId envs m rs]) (use s assms(3) in \<open>auto intro: that\<close>)
  note json = submitted_text [OF assms(1), unfolded J(1)]
  have nonempty: "btoa (inventory_text envs) \<noteq> []" using btoa_base64 [OF json(2)] by (simp add: is_base64_def)
  have provider: "getValFromExtraVars extraVars ''cloud_provider'' = []"
    using submitted_params(3) [OF assms(1,4), of "''cloud_provider''"] by (simp add: getValFromExtraVars_def cloud_names_def)
  have raw: "getValFromVars (cluster_envs p secretEnvs loc) ''ANSIBLE_INVENTORY_JSON'' = btoa (inventory_text envs)"
    unfolding cluster_envs_def submitted_params(1) [OF assms(1)] append_assoc by (rule getValFromVars_inventory)
  have "int (host_count (Master_Hosts inventory) + host_count (Replica_Hosts inventory)) = 1 + int (card (address ` set rs))"
  proof (cases "rs = []")
    case True
    then show ?thesis using J(3) by (simp add: decoded_form_def host_count_def)
  next
    case False
    then obtain qs where "Replica_Hosts inventory = Some qs" "distinct (map fst qs)" "fst ` set qs = address ` set rs"
      using J(3) by (auto simp: decoded_form_def)
    then show ?thesis using J(3) distinct_card [of "map fst qs"] by (simp add: decoded_form_def host_count_def)
  qed
  then show ?thesis
    using that [OF _ J(3)] g s json(1) J(2) provider raw nonempty by (simp add: read_inventory_def Let_def)
qed


section \<open>The environment in the container\<close>

lemma env_value_last:
  assumes "CHR ''='' \<notin> set k" "\<forall>e \<in> set rest. \<exists>k' v'. e = k' @ ''='' @ v' \<and> CHR ''='' \<notin> set k' \<and> k' \<noteq> k"
  shows "env_value (pre @ [k @ ''='' @ v] @ rest) k = v"
proof -
  have "map_of (rev (List.map_filter split_env rest)) k = None"
    using assms(2)
  proof (induction rest)
    case (Cons e rest)
    then obtain k' v' where e: "e = k' @ ''='' @ v'" "CHR ''='' \<notin> set k'" "k' \<noteq> k" by auto
    have "split_env e = Some (k', v')" unfolding e(1) by (rule split_env_pair [OF e(2)])
    then show ?case using Cons e(3) by (simp add: List.map_filter_simps map_add_def)
  qed (simp add: List.map_filter_simps)
  moreover have "List.map_filter split_env (pre @ [k @ ''='' @ v] @ rest) =
      List.map_filter split_env pre @ [(k, v)] @ List.map_filter split_env rest"
    by (simp add: List.map_filter_def split_env_pair [OF assms(1), simplified])
  ultimately show ?thesis by (simp add: env_value_def map_add_def)
qed

text \<open>What the service puts behind the variables of the request.\<close>

definition added_envs :: "PostClustersParams \<Rightarrow> string list \<Rightarrow> ParamLocation \<Rightarrow> string list" where
  "added_envs p secretEnvs loc = (if loc = EnvParamLocation then secretEnvs else []) @ getAnsibleLogEnv (Name p)"

lemma cluster_envs_added: "cluster_envs p secretEnvs loc = Envs p @ added_envs p secretEnvs loc"
  by (simp add: cluster_envs_def added_envs_def)

lemma log_env: "getAnsibleLogEnv name = [''ANSIBLE_JSON_LOG_FILE'' @ ''='' @ ansibleLogDir @ ''/'' @ name @ ''.json'']"
  by (simp add: getAnsibleLogEnv_def)

lemma added_envs_keys:
  assumes "from_secret (secretEnvs, loc)" "e \<in> set (added_envs p secretEnvs loc)"
  shows "\<exists>k v. e = k @ ''='' @ v \<and> CHR ''='' \<notin> set k \<and> k \<in> set (''ANSIBLE_JSON_LOG_FILE'' # secret_keys)"
proof (cases "e \<in> set secretEnvs")
  case True
  then obtain k v where k: "e = k @ ''='' @ v" "k \<in> set secret_keys" using assms(1) by (auto simp: from_secret_def)
  moreover have "CHR ''='' \<notin> set k" using k(2) secret_keys_plain(1) by (simp add: list_all_iff)
  ultimately show ?thesis by (intro exI [of _ k] exI [of _ v]) simp
next
  case False
  then have "e = ''ANSIBLE_JSON_LOG_FILE'' @ ''='' @ ansibleLogDir @ ''/'' @ Name p @ ''.json''"
    using assms(2) unfolding added_envs_def log_env by (simp split: if_splits)
  then show ?thesis
    by (intro exI [of _ "''ANSIBLE_JSON_LOG_FILE''"] exI [of _ "ansibleLogDir @ ''/'' @ Name p @ ''.json''"]) simp
qed

lemma env_value_inventory:
  assumes "from_secret (secretEnvs, loc)"
  shows "env_value (pre @ [''ANSIBLE_INVENTORY_JSON'' @ ''='' @ v] @ added_envs p secretEnvs loc) ''ANSIBLE_INVENTORY_JSON'' = v"
proof (rule env_value_last)
  show "\<forall>e \<in> set (added_envs p secretEnvs loc). \<exists>k' v'. e = k' @ ''='' @ v' \<and> CHR ''='' \<notin> set k' \<and> k' \<noteq> ''ANSIBLE_INVENTORY_JSON''"
  proof
    fix e assume "e \<in> set (added_envs p secretEnvs loc)"
    from added_envs_keys [OF assms this] obtain k v where
      k: "e = k @ ''='' @ v" "CHR ''='' \<notin> set k" "k \<in> set (''ANSIBLE_JSON_LOG_FILE'' # secret_keys)" by blast
    have "k \<noteq> ''ANSIBLE_INVENTORY_JSON''" using k(3) secret_keys_plain(2) by auto
    then show "\<exists>k' v'. e = k' @ ''='' @ v' \<and> CHR ''='' \<notin> set k' \<and> k' \<noteq> ''ANSIBLE_INVENTORY_JSON''"
      using k(1,2) by blast
  qed
qed simp

lemma file_of_btoa: "\<forall>s. base64_d (btoa s) = s \<Longrightarrow> s \<noteq> [] \<Longrightarrow> file_content base64_d (btoa s) = Some s"
  using btoa_base64 [of s] by (auto simp: file_content_def is_base64_def)

section \<open>The cluster the service records\<close>

lemma create_request_fields:
  assumes "read_inventory g extraVars envs = (n, t, inventory)"
  shows "get (create_cluster_request g p extraVars envs) ''ServerCount'' = Num n"
    and "get (create_cluster_request g p extraVars envs) ''Inventory'' = opt_text t"
    and "get (create_cluster_request g p extraVars envs) ''Location'' = Str (getValFromExtraVars extraVars ''server_location'')"
    and "get (create_cluster_request g p extraVars envs) ''Status'' = Str (if ExistingCluster p = Some True then ''ready'' else ''deploying'')"
  by (simp_all add: create_cluster_request_def assms get_obj)

section \<open>An example\<close>

text \<open>A form with two servers, documented Go packages, and a database that answers nothing.\<close>

definition own_row :: "string \<Rightarrow> js" where
  "own_row ip = obj [P DBS_DATABASE_IP_ADDRESS (Str ip)]"

definition own_form :: "bool \<Rightarrow> js" where
  "own_form exists = obj
     [P CF_CREATION_TYPE (Str CREATE_FORM), P CF_PROVIDER (obj [P ''code'' (Str PROV_LOCAL)]), P CF_CLUSTER_NAME (Str ''pg''),
      P CF_ENVIRONMENT_ID (Num 1), P DBS_IS_CLUSTER_EXISTS (Bool exists),
      P CF_AUTHENTICATION_METHOD (Str AUTH_SSH), P SEC_SSH_PRIVATE_KEY (Str ''key''),
      P DBS_DATABASE_SERVERS (Arr [own_row ''::1'', own_row ''::2''])]"

definition plain_go :: go_env where
  "plain_go = \<lparr>decode64 = (\<lambda>s. Some (atob s)), utf8_text = (\<lambda>s. s), parse_float = (\<lambda>s. None), walk_map = (\<lambda>m. m),
     log_dir = Null\<rparr>"

definition silent :: server where
  "silent es ep arg = Ok Null"

lemma plain_go_documented: "go_documented plain_go"
  by (simp add: go_documented_def plain_go_def)

definition submits_alone :: "js \<Rightarrow> bool" where
  "submits_alone values \<longleftrightarrow>
     (case mapFormValuesToRequestFields is_empty False values Undef (Num 1) Undef Undef of
        Throw e \<Rightarrow> False
      | Ok req \<Rightarrow> (case getLocalMachineEnvs False values Undef of
           Throw e \<Rightarrow> False
         | Ok envs \<Rightarrow>
             proper req \<and> proper (form_inventory envs) \<and> list_all (\<lambda>c. of_char c < (128 :: nat)) (inventory_text envs)
             \<and> (case Option.bind (json_value req) bind_body of Some p \<Rightarrow> AuthInfo p = None | None \<Rightarrow> False)))"

lemma own_form_alone: "submits_alone (own_form True)" "submits_alone (own_form False)"
  by code_simp+

lemma own_form_submitted:
  "\<exists>req envs p. submitted is_empty False (own_form exists) Undef (Num 1) Undef req envs p \<and> AuthInfo p = None"
proof -
  have "submits_alone (own_form exists)" using own_form_alone by (cases exists) simp_all
  moreover have "get (own_form exists) CF_CREATION_TYPE = Str CREATE_FORM"
    "get (get (own_form exists) CF_PROVIDER) ''code'' = Str PROV_LOCAL" by (simp_all add: own_form_def get_obj)
  ultimately show ?thesis
    by (auto simp: submits_alone_def submitted_def lodash_is_empty wire_value list_all_iff split: res.splits option.splits)
qed

lemma silent_run:
  assumes "AuthInfo p = None"
  shows "\<exists>r w' arg. postClusterHandle silent g p \<lparr>trace = []\<rparr> = (r, w') \<and> Request ''CreateCluster'' arg (Ok Null) \<in> set (trace w')
      \<and> get arg ''Status'' = Str (if ExistingCluster p = Some True then ''ready'' else ''deploying'')"
    and "ExistingCluster p \<noteq> Some True \<Longrightarrow>
      \<exists>r w' arg a. postClusterHandle silent g p \<lparr>trace = []\<rparr> = (r, w') \<and> Request ''ManageCluster'' arg a \<in> set (trace w')"
proof -
  let ?x = "cluster_extra_vars p [] UnknownParamLocation" and ?v = "cluster_envs p [] UnknownParamLocation"
  let ?w = "\<lparr>trace = [Request ''GetClusterByName'' (Str (Name p)) (Ok Null), Request ''GetSettingByName'' (Str ''proxy_env'') (Ok Null)]\<rparr>"
  have run: "postClusterHandle silent g p \<lparr>trace = []\<rparr> = create_and_deploy silent g p ?x ?v ?w"
    using assms by (simp add: postClusterHandle_def addProxySettings_def silent_def bind_def attempt_def request_def ret_def Let_def)
  obtain n t inventory where read: "read_inventory g ?x ?v = (n, t, inventory)" by (metis prod_cases3)
  let ?c = "Request ''CreateCluster'' (create_cluster_request g p ?x ?v) (Ok Null)"
  let ?w1 = "?w\<lparr>trace := trace ?w @ [?c]\<rparr>"
  let ?rest = "if ExistingCluster p = Some True then import_cluster silent (walk_map g) t inventory (get Null ''id'')
       else deploy_cluster silent (log_dir g) p ?v (go_marshal ?x) (get Null ''id'')"
  have rest: "create_and_deploy silent g p ?x ?v ?w = ?rest ?w1"
    using read by (simp add: create_and_deploy_def silent_def bind_def attempt_def request_def Let_def)
  obtain r w' where end_run: "?rest ?w1 = (r, w')" by (cases "?rest ?w1")
  have "only_calls (\<lambda>_. True) (?rest :: (world, js) action)"
    unfolding import_cluster_def deploy_cluster_def by (auto intro!: only_calls_rules insert_servers_calls)
  from calls_run [OF this end_run] have "?c \<in> set (trace w')" by auto
  then show "\<exists>r w' arg. postClusterHandle silent g p \<lparr>trace = []\<rparr> = (r, w') \<and> Request ''CreateCluster'' arg (Ok Null) \<in> set (trace w')
      \<and> get arg ''Status'' = Str (if ExistingCluster p = Some True then ''ready'' else ''deploying'')"
    using run rest end_run create_request_fields(4) [OF read] by metis
  show "\<exists>r w' arg a. postClusterHandle silent g p \<lparr>trace = []\<rparr> = (r, w') \<and> Request ''ManageCluster'' arg a \<in> set (trace w')"
    if "ExistingCluster p \<noteq> Some True"
  proof -
    have deploy: "deploy_cluster silent (log_dir g) p ?v (go_marshal ?x) (get Null ''id'') ?w1 = (r, w')"
      using end_run that by simp
    obtain es resp where es: "trace w' = trace ?w1 @ es"
      "deployed p (manage_request (log_dir g) ?v (go_marshal ?x)) (get Null ''id'') es resp
        \<or> not_deployed p (manage_request (log_dir g) ?v (go_marshal ?x)) (get Null ''id'') es resp"
      using deploy_cluster_run [OF deploy] by blast
    then have "\<exists>a. Request ''ManageCluster'' (manage_request (log_dir g) ?v (go_marshal ?x)) a \<in> set (trace w')"
      by (auto simp: deployed_def not_deployed_def)
    then show ?thesis using run rest end_run by metis
  qed
qed

text \<open>
  C3: A form for the user's own machines, sent as JSON and read by the service, makes the service
  record the cluster it describes. Whatever the database answers and whatever stored secret the
  request names, the inventory recorded is the text of the form's inventory, and the number of
  servers is one for the first row and one for each address among the others: rows with one address
  count once, as they share their entry of the inventory. The cluster has no location, and it is
  recorded as running already exactly when the form says that it exists.
\<close>

theorem service_records_the_form:
  assumes "submitted isEmpty expert values secretId projectId secretsInfo req envs p" "go_documented g"
    and "get values DBS_DATABASE_SERVERS = Arr (m # rs)"
    and "postClusterHandle srv g p w = (r, w')"
    and "Request ''CreateCluster'' arg a \<in> set (drop (length (trace w)) (trace w'))"
  shows "get arg ''ServerCount'' = Num (1 + int (card (address ` set rs)))
    \<and> get arg ''Inventory'' = Str (inventory_text envs)
    \<and> get arg ''Location'' = Str []
    \<and> get arg ''Status'' = Str (if truthy (get values DBS_IS_CLUSTER_EXISTS) then ''ready'' else ''deploying'')"
proof -
  obtain secretEnvs loc extraVars where run: "given_vars p extraVars"
    "arg = create_cluster_request g p extraVars (cluster_envs p secretEnvs loc)"
    using created_request [OF assms(4,5)] by blast
  obtain inventory where "read_inventory g extraVars (cluster_envs p secretEnvs loc) =
      (1 + int (card (address ` set rs)), Some (inventory_text envs), inventory)"
    by (rule submitted_inventory [OF assms(1-3) run(1)]) (rule that)
  note fields = create_request_fields [OF this]
  have "getValFromExtraVars extraVars ''server_location'' = []"
    using submitted_params(3) [OF assms(1) run(1), of "''server_location''"]
    by (simp add: getValFromExtraVars_def cloud_names_def)
  then show ?thesis
    unfolding run(2) fields using submitted_params(2) [OF assms(1)] by (simp add: opt_text_def)
qed

theorem service_records_the_form_witness:
  "\<exists>arg envs. get arg ''ServerCount'' = Num 2 \<and> get arg ''Inventory'' = Str (inventory_text envs)
     \<and> get arg ''Status'' = Str ''ready''"
proof -
  obtain req envs p where s: "submitted is_empty False (own_form True) Undef (Num 1) Undef req envs p" "AuthInfo p = None"
    using own_form_submitted [of True] by blast
  obtain r w' arg a where run: "postClusterHandle silent plain_go p \<lparr>trace = []\<rparr> = (r, w')"
    "Request ''CreateCluster'' arg a \<in> set (drop (length (trace \<lparr>trace = []\<rparr>)) (trace w'))"
    using silent_run(1) [OF s(2), of plain_go] by auto
  have rows: "get (own_form True) DBS_DATABASE_SERVERS = Arr (own_row ''::1'' # [own_row ''::2''])"
    "truthy (get (own_form True) DBS_IS_CLUSTER_EXISTS)" by (simp_all add: own_form_def get_obj)
  show ?thesis
    using service_records_the_form [OF s(1) plain_go_documented rows(1) run] rows(2) by auto
qed

text \<open>
  C4: The container that deploys the cluster of such a form finds the form's inventory. The service
  starts a container only for a cluster that does not exist yet; from the variables it passes, those
  of the secret and of the log included, the entry point writes a file whose text, read as JSON, is
  the inventory of the form.
\<close>

theorem container_gets_the_inventory:
  assumes "submitted isEmpty expert values secretId projectId secretsInfo req envs p"
    and "\<forall>s. base64_d (btoa s) = s"
    and "postClusterHandle srv g p w = (r, w')"
    and "Request ''ManageCluster'' arg a \<in> set (drop (length (trace w)) (trace w'))"
  shows "\<not> truthy (get values DBS_IS_CLUSTER_EXISTS)
    \<and> (\<exists>vars. get arg ''Envs'' = Arr (map Str vars) \<and> inventory_file base64_d vars = Some (inventory_text envs))
    \<and> json_parse (inventory_text envs) = json_value (form_inventory envs)"
proof -
  obtain secretEnvs loc where run: "ExistingCluster p \<noteq> Some True" "secret_of p (secretEnvs, loc)"
    "get arg ''Envs'' = Arr (map Str (cluster_envs p secretEnvs loc))"
    using managed_request [OF assms(3,4)] by blast
  note json = submitted_text [OF assms(1)]
  have "env_value (cluster_envs p secretEnvs loc) ''ANSIBLE_INVENTORY_JSON'' = btoa (inventory_text envs)"
    unfolding cluster_envs_added submitted_params(1) [OF assms(1)] append_assoc
    by (rule env_value_inventory [OF secret_of_from [OF run(2)]])
  then have "inventory_file base64_d (cluster_envs p secretEnvs loc) = Some (inventory_text envs)"
    using file_of_btoa [OF assms(2) json(2)] by (simp add: inventory_file_def)
  then show ?thesis using run(1,3) json(1) submitted_params(2) [OF assms(1)] by auto
qed

theorem container_gets_the_inventory_witness:
  "\<exists>arg vars envs. get arg ''Envs'' = Arr (map Str vars) \<and> inventory_file atob vars = Some (inventory_text envs)"
proof -
  obtain req envs p where s: "submitted is_empty False (own_form False) Undef (Num 1) Undef req envs p" "AuthInfo p = None"
    using own_form_submitted [of False] by blast
  have "ExistingCluster p \<noteq> Some True" using submitted_params(2) [OF s(1)] by (simp add: own_form_def get_obj)
  then obtain r w' arg a where run: "postClusterHandle silent plain_go p \<lparr>trace = []\<rparr> = (r, w')"
    "Request ''ManageCluster'' arg a \<in> set (drop (length (trace \<lparr>trace = []\<rparr>)) (trace w'))"
    using silent_run(2) [OF s(2) \<open>ExistingCluster p \<noteq> Some True\<close>, of plain_go] by auto
  show ?thesis using container_gets_the_inventory [OF s(1) _ run, of atob] by auto
qed

end
