(* ===== verification/ClusterImport.thy ===== *)
theory ClusterImport
  imports Deployment
begin

text \<open>
  The import of a running cluster: the servers the service records for it, and what is left behind
  when one of them is refused. Beside it the deployment, which marks a cluster it could not start.
\<close>

section \<open>The servers of an import\<close>

text \<open>What \<open>v.(string)\<close> makes of a value, its failure ignored.\<close>

definition text_of :: "js \<Rightarrow> js" where
  "text_of v = (case v of Str s \<Rightarrow> Str s | _ \<Rightarrow> Str [])"

lemma server_row_fields:
  "get (server_row c h) ''IpAddress'' = Str (fst h)"
  "get (server_row c h) ''ServerName'' = text_of (get (snd h) ''hostname'')"
  "get (server_row c h) ''ServerLocation'' = text_of (get (snd h) ''server_location'')"
  by (simp_all add: server_row_def text_of_def get_obj)

lemma text_of_json: "text_of (case json_value v of Some x \<Rightarrow> x | None \<Rightarrow> Undef) = text_of v"
  by (cases v) (simp_all add: text_of_def)

lemma host_json_fields:
  "is_obj (host_json expert values row)"
  "text_of (get (host_json expert values row) ''hostname'') = text_of (get row DBS_DATABASE_HOSTNAME)"
  "text_of (get (host_json expert values row) ''server_location'') = text_of (get row DBS_DATABASE_LOCATION)"
proof -
  note json = host_json_Some [of expert "values" row]
  show "is_obj (host_json expert values row)" using json json_obj [of "db_server_entry expert values row"] by auto
  show "text_of (get (host_json expert values row) ''hostname'') = text_of (get row DBS_DATABASE_HOSTNAME)"
    "text_of (get (host_json expert values row) ''server_location'') = text_of (get row DBS_DATABASE_LOCATION)"
    unfolding get_json_value [OF json] by (simp_all add: db_server_entry_def text_of_json)
qed

lemma requests_inserted: "inserted c hs es \<Longrightarrow> requests_to ep es = (if ep = ''CreateServer'' then map (server_row c) hs else [])"
  unfolding inserted_def by (induction rule: list_all2_induct) auto

lemma requests_reads: "list_all is_read es \<Longrightarrow> ep \<notin> set reads \<Longrightarrow> requests_to ep es = []"
  by (induction es) (auto simp: is_read_def)

text \<open>The hosts the service finds in the inventory of a form.\<close>

definition inventory_hosts :: "go_env \<Rightarrow> InventoryJson \<Rightarrow> entry_list" where
  "inventory_hosts g inventory = walk_map g (hosts_of (Master_Hosts inventory)) @ walk_map g (hosts_of (Replica_Hosts inventory))"

lemma form_hosts:
  assumes "go_documented g" "decoded_form expert values m rs inventory"
  shows "mset (map fst (inventory_hosts g inventory)) = add_mset (address m) (mset_set (address ` set rs))"
    and "\<forall>h \<in> set (inventory_hosts g inventory). \<exists>row \<in> set (m # rs). h = (address row, host_json expert values row)"
proof -
  obtain qs where qs: "hosts_of (Replica_Hosts inventory) = qs" "distinct (map fst qs)" "fst ` set qs = address ` set rs"
    "\<forall>k. map_of qs k = map_option (host_json expert values) (find (\<lambda>r. address r = k) (rev rs))"
    using assms(2) by (cases "rs = []") (auto simp: decoded_form_def hosts_of_def)
  have master: "hosts_of (Master_Hosts inventory) = [(address m, host_json expert values m)]"
    using assms(2) by (simp add: decoded_form_def hosts_of_def)
  have walk: "mset (walk_map g x) = mset x" for x using assms(1) by (simp add: go_documented_def)
  have "mset (map fst qs) = mset_set (address ` set rs)"
    using mset_set_set [OF qs(2)] qs(3) by simp
  then show "mset (map fst (inventory_hosts g inventory)) = add_mset (address m) (mset_set (address ` set rs))"
    using walk by (simp add: inventory_hosts_def qs(1) master)
  show "\<forall>h \<in> set (inventory_hosts g inventory). \<exists>row \<in> set (m # rs). h = (address row, host_json expert values row)"
  proof
    fix h assume "h \<in> set (inventory_hosts g inventory)"
    then consider "h = (address m, host_json expert values m)" | "h \<in> set qs"
      using mset_eq_setD [OF walk] by (auto simp: inventory_hosts_def qs(1) master)
    then show "\<exists>row \<in> set (m # rs). h = (address row, host_json expert values row)"
    proof cases
      case 2
      then have "map_of qs (fst h) = Some (snd h)" using qs(2) by simp
      then obtain row where "find (\<lambda>r. address r = fst h) (rev rs) = Some row" "snd h = host_json expert values row"
        using qs(4) by auto
      moreover from this(1) have "row \<in> set rs" "address row = fst h"
        by (auto simp: find_Some_iff set_rev [of rs, symmetric] simp del: set_rev)
      ultimately show ?thesis by (intro bexI [of _ row]) (auto simp: prod_eq_iff)
    qed auto
  qed
qed

lemma drop_new: "trace w' = trace w @ es \<Longrightarrow> drop (length (trace w)) (trace w') = es"
  by simp

lemma status_of [simp]: "get (ok_payload v) ''status'' = Num 200" "get (bad_request v) ''status'' = Num 400"
  by (simp_all add: ok_payload_def bad_request_def get_obj)

text \<open>A run of the handler that creates the cluster, with what it read of the inventory.\<close>

lemma submitted_run:
  assumes "submitted isEmpty expert values secretId projectId secretsInfo req envs p" "go_documented g"
    and "get values DBS_DATABASE_SERVERS = Arr (m # rs)"
    and "creates srv g p w extraVars vars r w'"
  shows "\<exists>w1 fs inventory. trace w1 = trace w @ fs \<and> list_all is_read fs \<and> decoded_form expert values m rs inventory
     \<and> read_inventory g extraVars vars = (1 + int (card (address ` set rs)), Some (inventory_text envs), inventory)
     \<and> create_and_deploy srv g p extraVars vars w1 = (r, w')"
proof -
  obtain secretEnvs loc w1 fs where run: "vars = cluster_envs p secretEnvs loc" "given_vars p extraVars"
    "trace w1 = trace w @ fs" "list_all is_read fs" "create_and_deploy srv g p extraVars vars w1 = (r, w')"
    using assms(4) unfolding creates_def by blast
  obtain inventory where "read_inventory g extraVars vars =
      (1 + int (card (address ` set rs)), Some (inventory_text envs), inventory)" "decoded_form expert values m rs inventory"
    by (rule submitted_inventory [OF assms(1-3) run(2), of secretEnvs loc]) (rule that, simp_all add: run(1))
  then show ?thesis using run(3-5) by blast
qed

text \<open>
  C5: An import that the service answers with success records every server of the form once: the
  addresses recorded are the first row's and each address of the others, with the hostname and the
  location of a row that has the address. No container is started.
\<close>

theorem import_records_the_servers:
  assumes "submitted isEmpty expert values secretId projectId secretsInfo req envs p" "go_documented g"
    and "get values DBS_DATABASE_SERVERS = Arr (m # rs)" "truthy (get values DBS_IS_CLUSTER_EXISTS)"
    and "postClusterHandle srv g p w = (Ok resp, w')" "get resp ''status'' = Num 200"
    and "trace w' = trace w @ es"
  shows "mset (map (\<lambda>q. get q ''IpAddress'') (requests_to ''CreateServer'' es))
        = image_mset Str (add_mset (address m) (mset_set (address ` set rs)))
    \<and> (\<forall>q \<in> set (requests_to ''CreateServer'' es). \<exists>row \<in> set (m # rs). get q ''IpAddress'' = Str (address row)
        \<and> get q ''ServerName'' = text_of (get row DBS_DATABASE_HOSTNAME)
        \<and> get q ''ServerLocation'' = text_of (get row DBS_DATABASE_LOCATION))
    \<and> requests_to ''ManageCluster'' es = []"
proof -
  have existing: "ExistingCluster p = Some True" using submitted_params(2) [OF assms(1)] assms(4) by simp
  obtain extraVars vars where "creates srv g p w extraVars vars (Ok resp) w'"
    using postCluster_run [OF assms(5)] assms(6) by auto
  from submitted_run [OF assms(1-3) this] obtain w1 fs inventory where run:
    "trace w1 = trace w @ fs" "list_all is_read fs" "decoded_form expert values m rs inventory"
    "read_inventory g extraVars vars = (1 + int (card (address ` set rs)), Some (inventory_text envs), inventory)"
    "create_and_deploy srv g p extraVars vars w1 = (Ok resp, w')" by blast
  obtain c w2 where c: "trace w2 = trace w1 @ [Request ''CreateCluster'' (create_cluster_request g p extraVars vars) (Ok c)]"
    "import_cluster srv (walk_map g) (Some (inventory_text envs)) inventory (get c ''id'') w2 = (Ok resp, w')"
    using create_and_deploy_run [OF run(5,4)] existing assms(6) by auto
  let ?hosts = "inventory_hosts g inventory"
  note hosts = form_hosts [OF assms(2) run(3)]
  have objs: "filter (\<lambda>h. is_obj (snd h)) ?hosts = ?hosts"
    using hosts(2) by (intro filter_True) (auto simp: host_json_fields)
  have "inventory_text envs \<noteq> []" using submitted_text [OF assms(1)] by simp
  then obtain gs where gs: "trace w' = trace w2 @ gs" "inserted (get c ''id'') ?hosts gs"
    using import_cluster_run [OF c(2)] assms(6) objs unfolding inventory_hosts_def by auto
  have "es = fs @ Request ''CreateCluster'' (create_cluster_request g p extraVars vars) (Ok c) # gs"
    using assms(7) gs(1) c(1) run(1) by simp
  then have requests: "requests_to ''CreateServer'' es = map (server_row (get c ''id'')) ?hosts" "requests_to ''ManageCluster'' es = []"
    using requests_reads [OF run(2)] requests_inserted [OF gs(2)] by (simp_all add: reads_def)
  have "map (\<lambda>q. get q ''IpAddress'') (map (server_row (get c ''id'')) ?hosts) = map Str (map fst ?hosts)"
    by (simp add: server_row_fields)
  then have "mset (map (\<lambda>q. get q ''IpAddress'') (requests_to ''CreateServer'' es)) = image_mset Str (mset (map fst ?hosts))"
    unfolding requests(1) by (simp only: mset_map)
  moreover have "\<exists>row \<in> set (m # rs). get q ''IpAddress'' = Str (address row)
      \<and> get q ''ServerName'' = text_of (get row DBS_DATABASE_HOSTNAME)
      \<and> get q ''ServerLocation'' = text_of (get row DBS_DATABASE_LOCATION)" if "q \<in> set (requests_to ''CreateServer'' es)" for q
  proof -
    obtain h where h: "h \<in> set ?hosts" "q = server_row (get c ''id'') h" using \<open>q \<in> _\<close> requests(1) by auto
    obtain row where "row \<in> set (m # rs)" "h = (address row, host_json expert values row)" using hosts(2) h(1) by blast
    then show ?thesis unfolding h(2) server_row_fields by (intro bexI [of _ row]) (simp_all add: host_json_fields)
  qed
  ultimately show ?thesis using hosts(1) requests(2) by simp
qed

lemma insert_silent: "\<exists>v. fst (insert_servers silent c hosts w) = Ok v"
proof (induction hosts arbitrary: w)
  case (Cons h hosts)
  then show ?case unfolding insert_servers_Cons
    by (simp add: seq_def bind_def request_def silent_def [of _ "''CreateServer''"] Let_def)
qed (simp add: ret_def)

lemma import_silent: "\<exists>v. fst (import_cluster silent walk t inventory c w) = Ok (ok_payload v)"
proof -
  obtain v1 w1 where "insert_servers silent c (walk (hosts_of (Master_Hosts inventory))) w = (Ok v1, w1)"
    using insert_silent by (metis prod.collapse)
  moreover obtain v2 w2 where "insert_servers silent c (walk (hosts_of (Replica_Hosts inventory))) w1 = (Ok v2, w2)"
    using insert_silent by (metis prod.collapse)
  ultimately show ?thesis by (auto simp: import_cluster_def seq_def bind_def catch_def ret_def)
qed

theorem import_records_the_servers_witness:
  "\<exists>p. \<exists>es. mset (map (\<lambda>q. get q ''IpAddress'') (requests_to ''CreateServer'' es)) = {# Str ''::1'', Str ''::2'' #}
     \<and> trace (snd (postClusterHandle silent plain_go p \<lparr>trace = []\<rparr>)) = es"
proof -
  obtain req envs p where s: "submitted is_empty False (own_form True) Undef (Num 1) Undef req envs p" "AuthInfo p = None"
    using own_form_submitted [of True] by blast
  have rows: "get (own_form True) DBS_DATABASE_SERVERS = Arr (own_row ''::1'' # [own_row ''::2''])"
    "truthy (get (own_form True) DBS_IS_CLUSTER_EXISTS)" by (simp_all add: own_form_def get_obj)
  obtain r w' where run: "postClusterHandle silent plain_go p \<lparr>trace = []\<rparr> = (r, w')" by fastforce
  obtain n t inventory where read: "read_inventory plain_go (cluster_extra_vars p [] UnknownParamLocation)
      (cluster_envs p [] UnknownParamLocation) = (n, t, inventory)" by (metis prod_cases3)
  have "ExistingCluster p = Some True" using submitted_params(2) [OF s(1)] rows(2) by simp
  then obtain w0 where "postClusterHandle silent plain_go p \<lparr>trace = []\<rparr> =
      import_cluster silent (walk_map plain_go) t inventory (get Null ''id'') w0"
    using s(2) read
    by (simp add: postClusterHandle_def create_and_deploy_def addProxySettings_def silent_def bind_def attempt_def request_def
        ret_def Let_def)
  moreover obtain v where "fst (import_cluster silent (walk_map plain_go) t inventory (get Null ''id'') w0) = Ok (ok_payload v)"
    using import_silent by blast
  ultimately have "r = Ok (ok_payload v)" using run by (metis fst_conv)
  then have "mset (map (\<lambda>q. get q ''IpAddress'') (requests_to ''CreateServer'' (trace w'))) = {# Str ''::1'', Str ''::2'' #}"
    using import_records_the_servers [OF s(1) plain_go_documented rows, of silent "\<lparr>trace = []\<rparr>" "ok_payload v" w' "trace w'"] run
    by (simp add: own_row_def row_key_def get_obj)
  then show ?thesis using run by (metis snd_conv)
qed

section \<open>Clusters left behind\<close>

text \<open>The run from the creation on, when the database has created the cluster.\<close>

lemma created_run:
  assumes "postClusterHandle srv g p w = (r, w')" "trace w' = trace w @ es"
    and "Request ''CreateCluster'' arg (Ok c) \<in> set es"
  shows "\<exists>extraVars vars n t inventory fs w1 gs. read_inventory g extraVars vars = (n, t, inventory)
     \<and> es = fs @ Request ''CreateCluster'' arg (Ok c) # gs \<and> list_all is_read fs
     \<and> arg = create_cluster_request g p extraVars vars \<and> trace w' = trace w1 @ gs
     \<and> (if ExistingCluster p = Some True then import_cluster srv (walk_map g) t inventory (get c ''id'')
         else deploy_cluster srv (log_dir g) p vars (go_marshal extraVars) (get c ''id'')) w1 = (r, w')"
proof -
  have no_read: "Request ''CreateCluster'' arg (Ok c) \<notin> set fs" if "list_all is_read fs" for fs
    using that by (auto simp: list_all_iff is_read_def reads_def)
  then have "\<exists>extraVars vars. creates srv g p w extraVars vars r w'"
    using postCluster_run [OF assms(1)] assms(2,3) by auto
  then obtain extraVars vars w0 fs where run: "trace w0 = trace w @ fs" "list_all is_read fs"
    "create_and_deploy srv g p extraVars vars w0 = (r, w')" unfolding creates_def by blast
  obtain n t inventory where read: "read_inventory g extraVars vars = (n, t, inventory)" by (metis prod_cases3)
  let ?arg = "create_cluster_request g p extraVars vars"
  let ?rest = "\<lambda>c. if ExistingCluster p = Some True then import_cluster srv (walk_map g) t inventory (get c ''id'')
      else deploy_cluster srv (log_dir g) p vars (go_marshal extraVars) (get c ''id'')"
  have "\<not> (\<exists>e. trace w' = trace w0 @ [Request ''CreateCluster'' ?arg (Throw e)])"
    using no_read [OF run(2)] assms(2,3) run(1) by auto
  then obtain c' w1 where c': "trace w1 = trace w0 @ [Request ''CreateCluster'' ?arg (Ok c')]" "?rest c' w1 = (r, w')"
    using create_and_deploy_run [OF run(3) read] by blast
  have "only_calls (\<lambda>e. \<forall>a q. e \<noteq> Request ''CreateCluster'' a q) (?rest c' :: ('a world_scheme, js) action)"
    unfolding import_cluster_def deploy_cluster_def by (auto intro!: only_calls_rules insert_servers_calls)
  from calls_run [OF this c'(2)] obtain gs where gs: "trace w' = trace w1 @ gs"
    "list_all (\<lambda>e. \<forall>a q. e \<noteq> Request ''CreateCluster'' a q) gs" by blast
  have es: "es = fs @ Request ''CreateCluster'' ?arg (Ok c') # gs" using assms(2) gs(1) c'(1) run(1) by simp
  moreover have "Request ''CreateCluster'' arg (Ok c) \<notin> set gs" using gs(2) by (auto simp: list_all_iff)
  ultimately have "arg = ?arg" "c = c'" using assms(3) no_read [OF run(2)] by auto
  then show ?thesis using read es run(2) gs(1) c'(2) by blast
qed

text \<open>
  C6: No cluster is left in the state deploying with nobody at work on it. When the database has
  created a cluster with that status, either a container is started for it, its operation is recorded
  and its log followed, and the answer names both; or the last thing the service does is to ask the
  database to mark the cluster as failed.
\<close>

theorem deployment_starts_or_is_marked:
  assumes "postClusterHandle srv g p w = (r, w')" "trace w' = trace w @ es"
    and "Request ''CreateCluster'' arg (Ok c) \<in> set es" "get arg ''Status'' = Str ''deploying''"
  shows "\<exists>marg resp fs gs. r = Ok resp \<and> es = fs @ Request ''CreateCluster'' arg (Ok c) # gs
     \<and> (deployed p marg (get c ''id'') gs resp \<or> not_deployed p marg (get c ''id'') gs resp)"
proof -
  obtain extraVars vars n t inventory fs w1 gs where run: "read_inventory g extraVars vars = (n, t, inventory)"
    "es = fs @ Request ''CreateCluster'' arg (Ok c) # gs" "arg = create_cluster_request g p extraVars vars"
    "trace w' = trace w1 @ gs"
    "(if ExistingCluster p = Some True then import_cluster srv (walk_map g) t inventory (get c ''id'')
         else deploy_cluster srv (log_dir g) p vars (go_marshal extraVars) (get c ''id'')) w1 = (r, w')"
    using created_run [OF assms(1-3)] by blast
  have "ExistingCluster p \<noteq> Some True"
    using assms(4) unfolding run(3) create_request_fields(4) [OF run(1)] by (auto split: if_splits)
  then have "deploy_cluster srv (log_dir g) p vars (go_marshal extraVars) (get c ''id'') w1 = (r, w')"
    using run(5) by simp
  from deploy_cluster_run [OF this] show ?thesis using run(2,4) by auto
qed

definition plain_request :: PostClustersParams where
  "plain_request = \<lparr>Name = ''pg'', Description = [], ProjectID = 1, EnvironmentID = 1, AuthInfo = None, Envs = [],
     ExtraVars = Undef, ExistingCluster = None\<rparr>"

theorem deployment_starts_or_is_marked_witness:
  "\<exists>marg resp gs. fst (postClusterHandle silent plain_go plain_request \<lparr>trace = []\<rparr>) = Ok resp
     \<and> (deployed plain_request marg Undef gs resp \<or> not_deployed plain_request marg Undef gs resp)"
proof -
  obtain r w' arg where run: "postClusterHandle silent plain_go plain_request \<lparr>trace = []\<rparr> = (r, w')"
    "Request ''CreateCluster'' arg (Ok Null) \<in> set (trace w')" "get arg ''Status'' = Str ''deploying''"
    using silent_run(1) [of plain_request plain_go] by (auto simp: plain_request_def)
  show ?thesis
    using deployment_starts_or_is_marked [OF run(1) _ run(2,3)] run(1) by fastforce
qed


definition import_request :: PostClustersParams where
  "import_request = \<lparr>Name = ''pg'', Description = [], ProjectID = 1, EnvironmentID = 1, AuthInfo = None,
     Envs = [''ANSIBLE_INVENTORY_JSON'' @ ''='' @ go_marshal (obj [P ''all'' (obj [P ''children'' (obj [P ''master''
       (obj [P ''hosts'' (obj [P ''a'' (obj [])])])])])])],
     ExtraVars = Undef, ExistingCluster = Some True\<rparr>"

definition refusing :: server where
  "refusing es ep arg = (if ep = ''CreateServer'' then Throw TypeError else Ok Null)"


end
