(* ===== verification/StoredSecret.thy ===== *)
theory StoredSecret
  imports ServiceRuns
begin

text \<open>
  A secret on its way: typed into the form of the settings, sent as JSON, stored by the service as the
  JSON of a struct, and read back as the variables of a deployment.
\<close>

section \<open>Fields of a struct of strings\<close>

lemma string_field_strings:
  assumes "\<forall>(k, x) \<in> set ps. x = Str (g k)" "\<forall>k \<in> fst ` set ps. to_lower k = to_lower f \<longrightarrow> k = f"
  shows "string_field (Obj ps) f = Some (if f \<in> fst ` set ps then g f else [])"
proof -
  let ?f = "\<lambda>(k', x) acc. if to_lower k' = to_lower f
     then (case x of Null \<Rightarrow> acc | Str s \<Rightarrow> map_option (\<lambda>_. s) acc | _ \<Rightarrow> None) else acc"
  have "fold ?f ps (Some a) = Some (if f \<in> fst ` set ps then g f else a)" for a
    using assms
  proof (induction ps arbitrary: a)
    case (Cons p ps)
    obtain k x where p: "p = (k, x)" by (cases p)
    then show ?case using Cons by (cases "to_lower k = to_lower f") auto
  qed simp
  then show ?thesis by (simp add: string_field_def)
qed

text \<open>The names of the fields of each struct differ, whatever their case.\<close>

lemma struct_names:
  "list_all (\<lambda>(type, fs). distinct fs \<and> distinct (map to_lower fs)) secret_struct"
  by (simp add: secret_struct_def to_lower_def lower_char_def)

lemma lower_inj: "distinct (map to_lower fs) \<Longrightarrow> k \<in> set fs \<Longrightarrow> f \<in> set fs \<Longrightarrow> to_lower k = to_lower f \<Longrightarrow> k = f"
  by (meson distinct_map inj_on_def)

definition nonempty_props :: "(string \<Rightarrow> string) \<Rightarrow> string list \<Rightarrow> entry_list" where
  "nonempty_props h fs = filter (\<lambda>(f, s). s \<noteq> Str []) (map (\<lambda>f. (f, Str (h f))) fs)"

lemma nonempty_props_facts:
  "distinct fs \<Longrightarrow> distinct (map fst (nonempty_props h fs))"
  "(k, x) \<in> set (nonempty_props h fs) \<longleftrightarrow> k \<in> set fs \<and> x = Str (h k) \<and> h k \<noteq> []"
proof -
  have "map fst (map (\<lambda>f. (f, Str (h f))) fs) = fs" by (simp add: comp_def)
  then show "distinct fs \<Longrightarrow> distinct (map fst (nonempty_props h fs))"
    unfolding nonempty_props_def by (intro distinct_map_filter) simp
  show "(k, x) \<in> set (nonempty_props h fs) \<longleftrightarrow> k \<in> set fs \<and> x = Str (h k) \<and> h k \<noteq> []"
    by (auto simp: nonempty_props_def)
qed

lemma set_go_sorted_props: "set (go_sorted_props ps) = (\<lambda>(k, x). (k, go_sorted x)) ` set ps"
  by (induction ps) auto

lemma in_fst: "k \<in> fst ` A \<longleftrightarrow> (\<exists>x. (k, x) \<in> A)"
  by force

lemma in_map_snd: "(k, x) \<in> (\<lambda>(k, y). (k, f y)) ` A \<longleftrightarrow> (\<exists>y. (k, y) \<in> A \<and> x = f y)"
  by force

text \<open>A struct of texts is read as it was written.\<close>

lemma struct_round_trip:
  assumes "distinct fs" "distinct (map to_lower fs)" "f \<in> set fs"
  shows "string_field (go_sorted (Obj (nonempty_props h fs))) f = Some (h f)"
proof -
  let ?ps = "sort_key fst (go_sorted_props (nonempty_props h fs))"
  have entry: "(k, x) \<in> set ?ps \<longleftrightarrow> k \<in> set fs \<and> x = Str (h k) \<and> h k \<noteq> []" for k x
    unfolding set_sort set_go_sorted_props in_map_snd by (auto simp: nonempty_props_facts(2))
  have "string_field (Obj ?ps) f = Some (if f \<in> fst ` set ?ps then h f else [])"
  proof (rule string_field_strings)
    show "\<forall>(k, x) \<in> set ?ps. x = Str (h k)" using entry by blast
    show "\<forall>k \<in> fst ` set ?ps. to_lower k = to_lower f \<longrightarrow> k = f"
    proof (intro ballI impI)
      fix k assume "k \<in> fst ` set ?ps" "to_lower k = to_lower f"
      then show "k = f" unfolding in_fst entry using lower_inj [OF assms(2) _ assms(3)] by blast
    qed
  qed
  moreover have "f \<in> fst ` set ?ps \<longleftrightarrow> h f \<noteq> []" unfolding in_fst entry using assms(3) by blast
  ultimately show ?thesis by auto
qed

lemma struct_text:
  assumes "distinct fs"
  shows "json_parse (go_marshal (Obj (nonempty_props h fs))) = Some (go_sorted (Obj (nonempty_props h fs)))"
proof (rule marshal_parse)
  show "proper (Obj (nonempty_props h fs))"
    using nonempty_props_facts(1) [OF assms] by (auto simp: nonempty_props_facts(2))
qed

text \<open>What is stored of a value whose fields are texts, and what is read from it.\<close>

lemma stored_fields:
  assumes "map_of secret_struct type = Some fs" "get body type = Obj qs"
    and "fst ` set qs = set fs" "\<forall>(k, x) \<in> set qs. x = Str (g k)"
  shows "\<exists>sec. json_parse (secret_value_text type body) = Some sec \<and> (\<forall>f \<in> set fs. string_field sec f = Some (g f))"
proof -
  have names: "distinct fs" "distinct (map to_lower fs)"
    using struct_names map_of_SomeD [OF assms(1)] by (auto simp: list_all_iff)
  have "string_field (Obj qs) k = Some (if k \<in> fst ` set qs then g k else [])" if "k \<in> set fs" for k
    using assms(4) lower_inj [OF names(2) _ that] by (intro string_field_strings) (simp_all add: assms(3))
  then have fields: "string_of_field (Obj qs) k = g k" if "k \<in> set fs" for k
    using that assms(3) by (simp add: string_of_field_def)
  have "map (\<lambda>f. (f, Str (string_of_field (Obj qs) f))) fs = map (\<lambda>f. (f, Str (g f))) fs"
    by (rule map_cong) (simp_all add: fields)
  then have "secret_value_text type body = go_marshal (Obj (nonempty_props g fs))"
    using assms(1,2) by (simp add: secret_value_text_def nonempty_props_def del: go_marshal.simps map_eq_conv)
  then show ?thesis using struct_text [OF names(1)] struct_round_trip [OF names] by simp
qed

section \<open>From the form to the variables of a deployment\<close>

text \<open>The request with which the settings store a secret.\<close>

definition secret_request :: "js \<Rightarrow> js \<Rightarrow> js" where
  "secret_request project values = obj
     [P ''project_id'' (js_number project), P ''name'' (get values SEC_SECRET_NAME),
      P ''type'' (get values SEC_SECRET_TYPE), P ''value'' (getSecretBodyFromValues values)]"

text \<open>The fields of the form of each type; they are the fields of its struct and of its variables.\<close>

definition form_names :: "(string \<times> string list) list" where
  "form_names =
     [(''aws'', [''AWS_ACCESS_KEY_ID'', ''AWS_SECRET_ACCESS_KEY'']), (''gcp'', [''GCP_SERVICE_ACCOUNT_CONTENTS'']),
      (''azure'', [''AZURE_SUBSCRIPTION_ID'', ''AZURE_CLIENT_ID'', ''AZURE_SECRET'', ''AZURE_TENANT'']),
      (''digitalocean'', [''DO_API_TOKEN'']), (''hetzner'', [''HCLOUD_API_TOKEN'']), (''ssh_key'', [''SSH_PRIVATE_KEY'']),
      (''password'', [''USERNAME'', ''PASSWORD''])]"

lemma form_names_body:
  "list_all (\<lambda>(type, names). get values SEC_SECRET_TYPE = Str type \<longrightarrow>
     getSecretBodyFromValues values = secret_body type names values) form_names"
  by (simp add: form_names_def getSecretBodyFromValues_def Let_def)

lemma same_fields:
  "list_all (\<lambda>(type, loc, vars). map_of secret_variables type = Some (loc, vars)
     \<and> (case map_of secret_struct type of Some fs \<Rightarrow> set fs = snd ` set vars | None \<Rightarrow> False)
     \<and> (case map_of form_names type of Some fs \<Rightarrow> set fs = snd ` set vars | None \<Rightarrow> False)) secret_variables"
  by code_simp

lemma secret_form:
  assumes "(type, loc, vars) \<in> set secret_variables" "get values SEC_SECRET_TYPE = Str type"
  shows "\<exists>names fs. getSecretBodyFromValues values = secret_body type names values \<and> map_of secret_struct type = Some fs
     \<and> set names = set fs \<and> snd ` set vars = set fs \<and> map_of secret_variables type = Some (loc, vars)"
proof -
  obtain fs names where f: "map_of secret_variables type = Some (loc, vars)" "map_of secret_struct type = Some fs"
    "set fs = snd ` set vars" "map_of form_names type = Some names" "set names = snd ` set vars"
    using same_fields assms(1) by (force simp: list_all_iff split: option.splits)
  have "getSecretBodyFromValues values = secret_body type names values"
    using form_names_body map_of_SomeD [OF f(4)] assms(2) by (auto simp: list_all_iff)
  then show ?thesis using f by blast
qed

lemma lookup_fields: "lookup_parts (map (\<lambda>f. P f (v f)) names) k = (if k \<in> set names then Some (v k) else None)"
  by (induction names) auto

lemma own_text: "get values f = Str s \<Longrightarrow> js_str (get values f) = s"
  by (simp del: get.simps)

lemma secret_wire:
  assumes "proper (secret_request project values)" "wire (secret_request project values) = Some body"
    and "getSecretBodyFromValues values = secret_body type names values" "get values SEC_SECRET_TYPE = Str type"
    and "\<forall>f \<in> set names. \<exists>s. get values f = Str s"
  shows "get body ''type'' = Str type"
    and "\<exists>qs. get (get body ''value'') type = Obj qs \<and> fst ` set qs = set names
      \<and> (\<forall>(k, x) \<in> set qs. x = Str (js_str (get values k)))"
proof -
  have json: "json_value (secret_request project values) = Some body"
    using wire_value [OF assms(1)] assms(2) by simp
  note body = get_json_value [OF json [unfolded secret_request_def]]
  show "get body ''type'' = Str type" unfolding body using assms(4) by simp
  let ?fields = "map (\<lambda>f. P f (get values f)) names"
  obtain qs where qs: "json_value (obj ?fields) = Some (Obj qs)" "distinct (map fst qs)"
    "\<forall>k. map_of qs k = Option.bind (lookup_parts ?fields k) json_value" using json_obj by blast
  have entry: "map_of qs k = (if k \<in> set names then Some (Str (js_str (get values k))) else None)" for k
    using qs(3) assms(5) by (auto simp: lookup_fields own_text)
  have "get body ''value'' = Obj [(type, Obj qs)]"
    unfolding body assms(3) secret_body_def obj_single using qs(1) by simp
  moreover have "fst ` set qs = set names"
  proof (rule set_eqI)
    show "k \<in> fst ` set qs \<longleftrightarrow> k \<in> set names" for k using entry [of k] map_of_eq_None_iff [of qs k] by (cases "k \<in> set names") simp_all
  qed
  moreover have "x = Str (js_str (get values k))" if "(k, x) \<in> set qs" for k x
    using map_of_is_SomeI [OF qs(2) that] entry [of k] by (simp split: if_splits)
  ultimately show "\<exists>qs. get (get body ''value'') type = Obj qs \<and> fst ` set qs = set names
      \<and> (\<forall>(k, x) \<in> set qs. x = Str (js_str (get values k)))" by auto
qed

lemma created_secret:
  assumes "postSecretHandle srv body w = (r, w')"
    and "Request ''CreateSecret'' arg a \<in> set (drop (length (trace w)) (trace w'))"
  shows "get arg ''Type'' = get body ''type''"
    and "get arg ''Value'' = Str (secret_value_text (js_str (get body ''type'')) (get body ''value''))"
proof -
  let ?A = "\<lambda>e. \<forall>arg a. e = Request ''CreateSecret'' arg a \<longrightarrow> get arg ''Type'' = get body ''type''
      \<and> get arg ''Value'' = Str (secret_value_text (js_str (get body ''type'')) (get body ''value''))"
  have "only_calls ?A (create_secret srv body :: ('a world_scheme, js) action)"
    unfolding create_secret_def by (intro only_calls_rules) (simp_all add: get_obj)
  then have "only_calls ?A (postSecretHandle srv body :: ('a world_scheme, js) action)"
    unfolding postSecretHandle_def by (intro only_calls_rules) (auto intro!: only_calls_rules split: res.split)
  from calls_events [OF this assms] show "get arg ''Type'' = get body ''type''"
    "get arg ''Value'' = Str (secret_value_text (js_str (get body ''type'')) (get body ''value''))" by simp_all
qed

lemma read_variables:
  assumes "map_of secret_variables type = Some (loc, vars)" "json_parse txt = Some sec"
    and "\<forall>f \<in> snd ` set vars. string_field sec f = Some (g f)"
  shows "secret_envs type txt = Ok (map (\<lambda>(var, f). var @ ''='' @ g f) vars, loc)"
proof -
  have "those (map (\<lambda>(var, f). map_option (\<lambda>s. var @ ''='' @ s) (string_field sec f)) vars) =
      Some (map (\<lambda>(var, f). var @ ''='' @ g f) vars)"
    using assms(3) by (induction vars) auto
  then show ?thesis using assms(1,2) by (simp add: secret_envs_def)
qed


definition token_form :: js where
  "token_form = obj
     [P SEC_SECRET_TYPE (Str ''hetzner''), P SEC_SECRET_NAME (Str ''cloud''), P SEC_HCLOUD_API_TOKEN (Str ''a<b'')]"

definition no_secrets :: server where
  "no_secrets es ep arg = Ok Null"

definition one_secret :: "js \<Rightarrow> server" where
  "one_secret arg es ep a = Ok (if ep = ''GetSecret'' then obj [P ''type'' (get arg ''Type'')] else get arg ''Value'')"


end
