(* ===== verification/CloudService.thy ===== *)
theory CloudService
  imports Deployment FormFacts
begin

text \<open>
  A form for a cloud provider at the service, and the key for the user's own machines in the container.
\<close>

section \<open>The request of a form for a cloud provider\<close>

lemma bound_fields:
  assumes "mapFormValuesToRequestFields isEmpty expert values secretId projectId secretsInfo custom = Ok req"
    and "proper req" "Option.bind (wire req) bind_body = Some p"
  obtains params body where
    "(if is_cloud_request values (strip_custom_vars isEmpty custom)
      then getRequestCloudParams expert values secretsInfo (strip_custom_vars isEmpty custom)
      else getRequestLocalMachineParams expert values secretId (strip_custom_vars isEmpty custom)) = Ok params"
    "bind_body body = Some p"
    "\<And>k. get body k = json_of (lookup_parts [Spread (base_object values secretId projectId custom), Spread params] k)"
proof -
  obtain params where params:
    "(if is_cloud_request values (strip_custom_vars isEmpty custom)
      then getRequestCloudParams expert values secretsInfo (strip_custom_vars isEmpty custom)
      else getRequestLocalMachineParams expert values secretId (strip_custom_vars isEmpty custom)) = Ok params"
    "req = obj [Spread (base_object values secretId projectId custom), Spread params]"
    using assms(1) by (rule request_parts)
  obtain body where body: "wire req = Some body" "bind_body body = Some p" using assms(3) by (auto simp: bind_eq_Some_conv)
  have "json_value (obj [Spread (base_object values secretId projectId custom), Spread params]) = Some body"
    using wire_value [OF assms(2)] body(1) params(2) by simp
  then show ?thesis using that [OF params(1) body(2)] get_json_value by (simp add: json_of_def)
qed

lemma json_of_simps [simp]: "json_of None = Undef" "json_of (Some v) = (case json_value v of Some x \<Rightarrow> x | None \<Rightarrow> Undef)"
  by (simp_all add: json_of_def)

text \<open>Without a stored secret the request names none.\<close>

lemma no_auth_info:
  assumes "mapFormValuesToRequestFields isEmpty expert values secretId projectId secretsInfo custom = Ok req"
    and "proper req" "Option.bind (wire req) bind_body = Some p" "\<not> truthy secretId"
  shows "AuthInfo p = None"
proof -
  obtain params body where b:
    "(if is_cloud_request values (strip_custom_vars isEmpty custom)
      then getRequestCloudParams expert values secretsInfo (strip_custom_vars isEmpty custom)
      else getRequestLocalMachineParams expert values secretId (strip_custom_vars isEmpty custom)) = Ok params"
    "bind_body body = Some p"
    "\<And>k. get body k = json_of (lookup_parts [Spread (base_object values secretId projectId custom), Spread params] k)"
    by (rule bound_fields [OF assms(1-3)]) (rule that)
  have "lookup_part (Spread params) ''auth_info'' = None"
    using b(1) cloud_params_lookup local_params_lookup by (auto split: if_splits)
  then have "get body ''auth_info'' = Undef" unfolding b(3) using assms(4) by (simp add: base_object_lookup)
  then show ?thesis by (rule bind_fields(6) [OF b(2)])
qed

lemma cloud_vars_parts:
  assumes "getCloudProviderExtraVars expert v = Ok vars"
  shows "\<exists>server_type ssh. vars = obj
       [Spread (getCommonExtraVars v), P ''cloud_provider'' (get (get v CF_PROVIDER) ''code''), P ''server_type'' server_type,
        P ''server_location'' (get (get v CF_REGION_CONFIG) ''code''), P ''server_count'' (get v CF_INSTANCES_AMOUNT),
        P ''volume_size'' (get v STO_STORAGE_AMOUNT),
        P ''ansible_user'' (get PROVIDER_CODE_TO_ANSIBLE_USER_MAP (js_str (get (get v CF_PROVIDER) ''code''))),
        Spread ssh, Spread (path v [CF_REGION_CONFIG, ''cloud_image'', ''image'']), Spread_if expert (cloud_expert_vars v)]
     \<and> (ssh = obj [] \<or> (\<exists>ks. ssh = obj [P ''ssh_public_keys'' ks]))"
  using assms unfolding getCloudProviderExtraVars_def and_then_eq_Ok member_Ok
  by (force simp: res_simps simp del: js_str.simps split: if_split_asm)

text \<open>The image of a region names none of the variables the service reads.\<close>

definition plain_image :: "js \<Rightarrow> bool" where
  "plain_image v \<longleftrightarrow> keys_of (path v [CF_REGION_CONFIG, ''cloud_image'', ''image'']) \<inter> set cloud_names = {}"

lemma cloud_lookup:
  assumes "getCloudProviderExtraVars expert v = Ok vars" "plain_image v"
  shows "lookup_part (Spread vars) ''cloud_provider'' = Some (get (get v CF_PROVIDER) ''code'')"
    and "lookup_part (Spread vars) ''server_location'' = Some (get (get v CF_REGION_CONFIG) ''code'')"
    and "lookup_part (Spread vars) ''server_count'' = Some (get v CF_INSTANCES_AMOUNT)"
proof -
  let ?image = "path v [CF_REGION_CONFIG, ''cloud_image'', ''image'']"
  have image: "lookup_part (Spread ?image) k = None" if "k \<in> set cloud_names" for k
  proof -
    have "k \<notin> fst ` set (own_props ?image)" using assms(2) that unfolding plain_image_def keys_of_def by blast
    then show ?thesis by (simp add: lookup_part.simps(2) map_of_eq_None_iff del: path.simps)
  qed
  have expert: "lookup_parts (cloud_expert_vars v) k = None" if "k \<in> set cloud_names" for k
    using that by (auto simp: cloud_expert_vars_def cloud_names_def)
  obtain server_type ssh where vars: "vars = obj
       [Spread (getCommonExtraVars v), P ''cloud_provider'' (get (get v CF_PROVIDER) ''code''), P ''server_type'' server_type,
        P ''server_location'' (get (get v CF_REGION_CONFIG) ''code''), P ''server_count'' (get v CF_INSTANCES_AMOUNT),
        P ''volume_size'' (get v STO_STORAGE_AMOUNT),
        P ''ansible_user'' (get PROVIDER_CODE_TO_ANSIBLE_USER_MAP (js_str (get (get v CF_PROVIDER) ''code''))),
        Spread ssh, Spread ?image, Spread_if expert (cloud_expert_vars v)]"
    "ssh = obj [] \<or> (\<exists>ks. ssh = obj [P ''ssh_public_keys'' ks])" using cloud_vars_parts [OF assms(1)] by blast
  have ssh: "lookup_part (Spread ssh) k = None" if "k \<in> set cloud_names" for k
    using vars(2) that by (auto simp: cloud_names_def)
  note none = image expert ssh
  show "lookup_part (Spread vars) ''cloud_provider'' = Some (get (get v CF_PROVIDER) ''code'')"
    "lookup_part (Spread vars) ''server_location'' = Some (get (get v CF_REGION_CONFIG) ''code'')"
    "lookup_part (Spread vars) ''server_count'' = Some (get v CF_INSTANCES_AMOUNT)"
    unfolding vars(1) lookup_spread_obj using none by (simp_all add: cloud_names_def del: path.simps)
qed

text \<open>The parameters the handler gets for such a request.\<close>

definition submitted_cloud :: "(js \<Rightarrow> bool) \<Rightarrow> bool \<Rightarrow> js \<Rightarrow> js \<Rightarrow> js \<Rightarrow> js \<Rightarrow> PostClustersParams \<Rightarrow> bool" where
  "submitted_cloud isEmpty expert values secretId projectId secretsInfo p \<longleftrightarrow>
     lodash_isEmpty isEmpty
     \<and> get values CF_CREATION_TYPE = Str CREATE_FORM \<and> plain_image values
     \<and> (\<exists>provider. get (get values CF_PROVIDER) ''code'' = Str provider \<and> provider \<noteq> PROV_LOCAL \<and> provider \<noteq> [])
     \<and> (\<exists>req. mapFormValuesToRequestFields isEmpty expert values secretId projectId secretsInfo Undef = Ok req
          \<and> proper req \<and> Option.bind (wire req) bind_body = Some p)"

lemma cloud_params:
  assumes "submitted_cloud isEmpty expert values secretId projectId secretsInfo p" "given_vars p extraVars"
  shows "ExistingCluster p = None"
    and "get extraVars ''cloud_provider'' = get (get values CF_PROVIDER) ''code''"
    and "get extraVars ''server_location'' = json_of (Some (get (get values CF_REGION_CONFIG) ''code''))"
    and "get extraVars ''server_count'' = json_of (Some (get values CF_INSTANCES_AMOUNT))"
proof -
  obtain req where s: "lodash_isEmpty isEmpty" "get values CF_CREATION_TYPE = Str CREATE_FORM" "plain_image values"
    "get (get values CF_PROVIDER) ''code'' \<noteq> Str PROV_LOCAL" "\<exists>t. get (get values CF_PROVIDER) ''code'' = Str t"
    "mapFormValuesToRequestFields isEmpty expert values secretId projectId secretsInfo Undef = Ok req" "proper req"
    "Option.bind (wire req) bind_body = Some p" using assms(1) unfolding submitted_cloud_def by auto
  have strip: "strip_custom_vars isEmpty Undef = Undef" using s(1) by (rule strip_Undef)
  have cloud: "is_cloud_request values Undef" using s(2,4) by (simp add: is_cloud_request_def)
  obtain params body where b: "getRequestCloudParams expert values secretsInfo Undef = Ok params" "bind_body body = Some p"
    "\<And>k. get body k = json_of (lookup_parts [Spread (base_object values secretId projectId Undef), Spread params] k)"
    using bound_fields [OF s(6-8)] strip cloud by (metis (full_types))
  have "lookup_part (Spread params) ''existing_cluster'' = None" using b(1) cloud_params_lookup by simp
  then have "get body ''existing_cluster'' = Undef" unfolding b(3) by (simp add: base_object_lookup)
  then show "ExistingCluster p = None" by (rule bind_fields(3) [OF b(2)])
  obtain base cloud where vars: "getBaseClusterExtraVars expert values = Ok base" "getCloudProviderExtraVars expert values = Ok cloud"
    "lookup_part (Spread params) ''extra_vars'' = Some (obj [Spread base, Spread cloud])"
    using b(1) by (auto simp: getRequestCloudParams_def and_then_eq_Ok Let_def)
  obtain qs where qs: "json_value (obj [Spread base, Spread cloud]) = Some (Obj qs)"
    "\<forall>k. map_of qs k = Option.bind (lookup_parts [Spread base, Spread cloud] k) json_value" using json_obj by blast
  have "ExtraVars p = Obj qs"
    unfolding bind_fields(4) [OF b(2)] b(3) using vars(3) qs(1) by simp
  then have given: "get extraVars k = json_of (lookup_parts [Spread base, Spread cloud] k)" if "k \<in> set cloud_names" for k
    using assms(2) that secret_keys_plain qs(2) by (auto simp: given_vars_def cloud_names_def json_of_def)
  note cl = cloud_lookup [OF vars(2) s(3)]
  show "get extraVars ''cloud_provider'' = get (get values CF_PROVIDER) ''code''"
    using given [of "''cloud_provider''"] cl(1) s(5) by (auto simp: cloud_names_def)
  show "get extraVars ''server_location'' = json_of (Some (get (get values CF_REGION_CONFIG) ''code''))"
    using given [of "''server_location''"] cl(2) by (simp add: cloud_names_def)
  show "get extraVars ''server_count'' = json_of (Some (get values CF_INSTANCES_AMOUNT))"
    using given [of "''server_count''"] cl(3) by (simp add: cloud_names_def)
qed

text \<open>
  C8: A form for a cloud provider makes the service record the cluster as the form has it: as many
  servers as instances were chosen, in the data centre chosen, without an inventory, and as being
  deployed. The stored secret and the proxy setting the service adds change none of this.
\<close>

theorem service_records_the_cloud_form:
  assumes "submitted_cloud isEmpty expert values secretId projectId secretsInfo p"
    and "get values CF_INSTANCES_AMOUNT = Num n" "0 \<le> n" "n < 2 ^ 63"
    and "get (get values CF_REGION_CONFIG) ''code'' = Str region"
    and "postClusterHandle srv g p w = (r, w')"
    and "Request ''CreateCluster'' arg a \<in> set (drop (length (trace w)) (trace w'))"
  shows "get arg ''ServerCount'' = Num n \<and> get arg ''Location'' = Str region
    \<and> get arg ''Inventory'' = Null \<and> get arg ''Status'' = Str ''deploying''"
proof -
  obtain secretEnvs loc extraVars where run: "given_vars p extraVars"
    "arg = create_cluster_request g p extraVars (cluster_envs p secretEnvs loc)"
    using created_request [OF assms(6,7)] by blast
  note c = cloud_params [OF assms(1) run(1)]
  have "getValFromExtraVars extraVars ''cloud_provider'' \<noteq> []"
    using assms(1) c(2) by (auto simp: submitted_cloud_def getValFromExtraVars_def)
  moreover have "getIntValFromExtraVars g extraVars ''server_count'' = n"
    using assms(2-4) c(4) by (simp add: getIntValFromExtraVars_def clamp64_def)
  ultimately have "read_inventory g extraVars (cluster_envs p secretEnvs loc) =
      (n, None, \<lparr>Master_Hosts = None, Replica_Hosts = None\<rparr>)" by (simp add: read_inventory_def Let_def)
  note fields = create_request_fields [OF this]
  show ?thesis
    unfolding run(2) fields using c(1,3) assms(5) by (simp add: opt_text_def getValFromExtraVars_def)
qed

definition cloud_form :: js where
  "cloud_form = obj
     [P CF_CREATION_TYPE (Str CREATE_FORM), P CF_PROVIDER (obj [P ''code'' (Str PROV_AWS)]), P CF_CLUSTER_NAME (Str ''pg''),
      P CF_ENVIRONMENT_ID (Num 1), P CF_INSTANCES_AMOUNT (Num 3),
      P CF_REGION_CONFIG (obj [P ''code'' (Str ''eu''), P ''cloud_image'' (obj [P ''image'' (obj [P ''server_image'' (Str ''i'')])])]),
      P CF_INSTANCE_CONFIG (obj [P ''code'' (Str ''m'')])]"

definition cloud_bound :: "PostClustersParams option" where
  "cloud_bound =
     (case mapFormValuesToRequestFields is_empty False cloud_form Undef (Num 1) Undef Undef of
        Throw e \<Rightarrow> None | Ok req \<Rightarrow> (if proper req then Option.bind (json_value req) bind_body else None))"

theorem service_records_the_cloud_form_witness:
  "\<exists>arg. get arg ''ServerCount'' = Num 3 \<and> get arg ''Location'' = Str ''eu'' \<and> get arg ''Inventory'' = Null"
proof -
  have "case cloud_bound of Some p \<Rightarrow> AuthInfo p = None | None \<Rightarrow> False" by code_simp
  then obtain p where p: "cloud_bound = Some p" "AuthInfo p = None" by (auto split: option.splits)
  have image: "keys_of (path cloud_form [CF_REGION_CONFIG, ''cloud_image'', ''image'']) = {''server_image''}"
    by (auto simp: cloud_form_def keys_of_def get_obj obj_def)
  have form: "get cloud_form CF_CREATION_TYPE = Str CREATE_FORM" "get (get cloud_form CF_PROVIDER) ''code'' = Str PROV_AWS"
    "get cloud_form CF_INSTANCES_AMOUNT = Num 3" "get (get cloud_form CF_REGION_CONFIG) ''code'' = Str ''eu''"
    by (simp_all add: cloud_form_def get_obj)
  have "submitted_cloud is_empty False cloud_form Undef (Num 1) Undef p"
    using p(1) form image
    by (auto simp: submitted_cloud_def cloud_bound_def lodash_is_empty plain_image_def cloud_names_def wire_value
        simp del: path.simps split: res.splits if_splits)
  moreover obtain r w' arg where "postClusterHandle silent plain_go p \<lparr>trace = []\<rparr> = (r, w')"
    "Request ''CreateCluster'' arg (Ok Null) \<in> set (drop (length (trace \<lparr>trace = []\<rparr>)) (trace w'))"
    using silent_run(1) [OF p(2), of plain_go] by auto
  ultimately show ?thesis
    using service_records_the_cloud_form [OF _ form(3) _ _ form(4)] by fastforce
qed

section \<open>The key for the user's own machines\<close>

lemma env_value_key:
  "env_value ([''SSH_PRIVATE_KEY_CONTENT'' @ ''='' @ v] @ [''ANSIBLE_INVENTORY_JSON'' @ ''='' @ u] @ getAnsibleLogEnv name)
     ''SSH_PRIVATE_KEY_CONTENT'' = v"
proof -
  have "env_value ([] @ [''SSH_PRIVATE_KEY_CONTENT'' @ ''='' @ v] @
      [''ANSIBLE_INVENTORY_JSON'' @ ''='' @ u, ''ANSIBLE_JSON_LOG_FILE'' @ ''='' @ ansibleLogDir @ ''/'' @ name @ ''.json''])
     ''SSH_PRIVATE_KEY_CONTENT'' = v"
  proof (rule env_value_last)
    show "\<forall>e \<in> set [''ANSIBLE_INVENTORY_JSON'' @ ''='' @ u, ''ANSIBLE_JSON_LOG_FILE'' @ ''='' @ ansibleLogDir @ ''/'' @ name @ ''.json''].
        \<exists>k' v'. e = k' @ ''='' @ v' \<and> CHR ''='' \<notin> set k' \<and> k' \<noteq> ''SSH_PRIVATE_KEY_CONTENT''"
      unfolding list.set ball_simps
      by (intro conjI exI [of _ "''ANSIBLE_INVENTORY_JSON''"] exI [of _ "''ANSIBLE_JSON_LOG_FILE''"] exI) simp_all
  qed simp
  then show ?thesis by (simp add: log_env)
qed

text \<open>
  C10: The private key typed into the form for the user's own machines is the key the container
  connects with. When no stored secret is used, the entry point writes exactly that key, with a line
  break at its end when it had none, whatever the stored settings of the service are.
\<close>

theorem typed_key_reaches_the_container:
  assumes "submitted isEmpty expert values secretId projectId secretsInfo req envs p"
    and "get values CF_AUTHENTICATION_METHOD = Str AUTH_SSH" "\<not> truthy (get values CF_IS_USE_DEFINED_SECRET)" "\<not> truthy secretId"
    and "get values SEC_SSH_PRIVATE_KEY = Str key" "key \<noteq> []" "\<forall>s. base64_d (btoa s) = s"
    and "postClusterHandle srv g p w = (r, w')"
    and "Request ''ManageCluster'' arg a \<in> set (drop (length (trace w)) (trace w'))"
  shows "\<exists>vars. get arg ''Envs'' = Arr (map Str vars) \<and> ssh_key_file base64_d vars = Some (end_newline key)"
proof -
  have "AuthInfo p = None"
    using assms(1,4) no_auth_info unfolding submitted_def by blast
  then obtain loc where run: "get arg ''Envs'' = Arr (map Str (cluster_envs p [] loc))"
    using managed_request [OF assms(8,9)] unfolding secret_of_def by auto
  have "ssh_env values secretId = [''SSH_PRIVATE_KEY_CONTENT'' @ ''='' @ btoa key]"
    unfolding ssh_env_def using assms(2-5) by (simp add: env_raw_def)
  then have "cluster_envs p [] loc = [''SSH_PRIVATE_KEY_CONTENT'' @ ''='' @ btoa key]
      @ [''ANSIBLE_INVENTORY_JSON'' @ ''='' @ btoa (inventory_text envs)] @ getAnsibleLogEnv (Name p)"
    unfolding cluster_envs_def submitted_params(1) [OF assms(1)] by (simp only: append_assoc if_cancel append_Nil)
  then have "env_value (cluster_envs p [] loc) ''SSH_PRIVATE_KEY_CONTENT'' = btoa key"
    by (simp only: env_value_key)
  then have "ssh_key_file base64_d (cluster_envs p [] loc) = Some (end_newline key)"
    unfolding ssh_key_file_def using file_of_btoa [OF assms(7,6)] by simp
  then show ?thesis using run by blast
qed

theorem typed_key_reaches_the_container_witness:
  "\<exists>vars. ssh_key_file atob vars = Some (end_newline ''key'')"
proof -
  obtain req envs p where s: "submitted is_empty False (own_form False) Undef (Num 1) Undef req envs p" "AuthInfo p = None"
    using own_form_submitted [of False] by blast
  have form: "get (own_form False) CF_AUTHENTICATION_METHOD = Str AUTH_SSH" "\<not> truthy (get (own_form False) CF_IS_USE_DEFINED_SECRET)"
    "get (own_form False) SEC_SSH_PRIVATE_KEY = Str ''key''" by (simp_all add: own_form_def get_obj)
  have "ExistingCluster p \<noteq> Some True" using submitted_params(2) [OF s(1)] by (simp add: own_form_def get_obj)
  then obtain r w' arg a where run: "postClusterHandle silent plain_go p \<lparr>trace = []\<rparr> = (r, w')"
    "Request ''ManageCluster'' arg a \<in> set (drop (length (trace \<lparr>trace = []\<rparr>)) (trace w'))"
    using silent_run(2) [OF s(2), of plain_go] by auto
  show ?thesis
    using typed_key_reaches_the_container [OF s(1) form(1,2) _ form(3) _ _ run, of atob] by auto
qed

end
