(* ===== verification/Spec2Isabelle.thy ===== *)
theory Spec2Isabelle
  imports TransformFacts ClusterViews Api TypeFacts ValidationFacts AppState Export Tables FormStorage
    DatabaseViews Sliders SummaryFacts AuthBlock Navigation Hooks FormViews DataDirectory AppViews FormTypes
    SliderMarks ClusterImport StoredSecret CloudService
begin

text \<open>
  A verification development for the web console of this repository, the TypeScript sources under
  \<open>src/console/ui/src\<close>, with the two handlers of its REST service (Go, \<open>src/console/service\<close>) and the
  entry point of the container that its forms reach. The console is a React application: forms collect values, pure
  functions turn them into request bodies, handlers send them to a REST server and show what it
  answers. The bodies end up in Ansible playbooks, so a wrong group, host or variable in them is a
  wrong cluster.

  Values and effects. \<open>JsValue\<close> and \<open>JsText\<close> model the language: one datatype of values,
  property access with its exceptions, truthiness, object literals with spread (a list of parts in
  source order), key order, \<open>trim\<close>, \<open>Number\<close>, \<open>JSON.stringify\<close>, base64, and React
  elements as the objects the element constructor makes. \<open>Regex\<close> decides the regular
  expressions of the sources. \<open>Prelude\<close> has the results of code that may throw.
  \<open>Stores\<close> is the interface of a keyed store (locale \<open>keyed_store\<close>), with the two
  object idioms of the sources as interpretations; local storage is the third. \<open>Effects\<close> has
  handlers as state transformers with exceptions over a trace of requests, toasts, navigation and
  callbacks, and \<open>shared/lib/functions.ts\<close>. The server is a parameter, a function of the
  trace so far, the endpoint and the argument, so a theorem about a handler holds for every
  behaviour of the server. \<open>Ui\<close> reads rendered trees.

  Components, in the order of the data flow:
  \<open>FormFields\<close>: the frozen tables of field names and constants of every \<open>model/const.ts\<close>.
  \<open>Yup\<close>, \<open>Validation\<close>: the validation schemas of all forms as data. The yup library is
  the parameter of the locale \<open>yup\<close>, which states its documented behaviour; \<open>reads\<close>
  is an instance that computes. \<open>ValidationFacts\<close> shows what an accepted form guarantees to
  the code that reads it.
  \<open>ExtraVars\<close>, \<open>Inventory\<close>, \<open>Request\<close>: the file
  \<open>shared/lib/clusterValuesTransformFunctions.ts\<close>, from the text of a parameter dialog to the
  whole request; \<open>TransformFacts\<close> has its properties.
  \<open>Secrets\<close>: kinds of secrets, their forms and bodies, the dialog that stores one.
  \<open>Submit\<close>, \<open>ClusterViews\<close>: the three ways to create a cluster
  (\<open>widgets/cluster-form\<close>, \<open>widgets/yaml-editor-form\<close>,
  \<open>features/cluster-secret-modal\<close>), their shared state, and what they show.
  \<open>Api\<close>, \<open>Types\<close>, \<open>ApiTypes\<close>, \<open>TypeFacts\<close>: the REST client's endpoints
  with the cache tags they provide and invalidate, and its types as data.
  \<open>AppState\<close>: local storage, the theme and project slices, expert and YAML switches, login,
  logout, the guard of the private routes and the settings form, as a step relation.
  \<open>RowActions\<close>, \<open>Export\<close>, \<open>Tables\<close>, \<open>TablePages\<close>: the tables, the actions of their row
  menus, the dialogs that add an entity, the export of a cluster's inventory; the tables as pages that
  stay open, with the server's reading of their order and period (\<open>console/service/internal/storage\<close>).
  \<open>Navigation\<close>: the route table, the breadcrumbs, the sidebar and the pages that lay out others.
  \<open>Hooks\<close>: polling with the page of an operation's log as a step relation, and the clipboard.
  \<open>Theme\<close>, \<open>AppViews\<close>: the theme as data; the application, the store, the header, login, logout
  and the settings form.

  The cluster form. \<open>FormState\<close> has its values and local states, the reset of the page, the
  handlers of the provider, region and instance blocks, and the effects React runs after each render,
  composed to a step relation; \<open>FormEffects\<close>, \<open>FormFacts\<close> and \<open>FormStorage\<close> have its
  invariants. \<open>Rows\<close> and \<open>RowViews\<close> are the blocks of rows (servers, load balancers, the
  consensus store, pools) over the interface of a field array (locale \<open>field_array\<close>) with one
  interpretation per block. \<open>Databases\<close>, \<open>DatabaseFacts\<close>, \<open>DatabaseViews\<close>: databases, the
  map of their names and the extensions, again a step relation; lodash's \<open>uniqueId\<close> and
  \<open>intersection\<close> are parameters with their documented behaviour. \<open>Sliders\<close>: the number
  fields of the storage, instances, backups and additional settings; \<open>SliderMarks\<close>: the loop that
  computes the marks of a slider, a partial function that ends with exact fractions. \<open>AuthBlock\<close>: the
  authentication method and the stored secrets. \<open>Summary\<close>, \<open>SummaryFacts\<close>: the summary beside
  the form, compared with the request, and the page of a cluster. \<open>BlockViews\<close>, \<open>FormViews\<close>: the
  views of the other blocks and of the page, and the controls of the whole form against its validation.
  \<open>DataDirectory\<close>: the data directory, up to the request. \<open>FormTypes\<close>: the declared types of the
  form's values and of the tables' rows against the values themselves.

  Beyond the console. \<open>Json\<close> is JSON as a text: what a text denotes, a parser with fuel, and that it
  reads back what \<open>stringify\<close> writes; \<open>GoJson\<close> the same for Go's \<open>json.Marshal\<close>, with the reading of
  structs. \<open>Service\<close> has the handlers \<open>post_cluster.go\<close> and \<open>post_secret.go\<close> with their helpers, over the
  actions of \<open>Effects\<close> (the database and the container manager are the server parameter there), and
  \<open>automation/entrypoint.sh\<close>. \<open>ServiceFacts\<close> has what the service makes of a form's request,
  \<open>ServiceRuns\<close> the runs of the handler event by event. \<open>Deployment\<close>, \<open>ClusterImport\<close>, \<open>StoredSecret\<close> and
  \<open>CloudService\<close> have the properties that span the form, its request as a text, the service and the
  container.

  What the theorems show. From end to end: the service records the servers, the inventory, the location and
  the state of the form; the container finds the form's inventory and key; a stored secret comes back as it
  was typed; an import records every server; a cluster that is not deployed is marked, except by an import
  that fails halfway. Requests: the inventory of an accepted form is built without an exception
  and has one master, the right replicas and roles; the identity, variables, secrets, backups and
  extensions of a request are those of the form or of the YAML text; base64 strings and parameter
  texts can be read back. The form: the choices of a reachable form make a request the provider can
  deploy, no offered event throws, the effects settle after one more render, row buttons keep the
  inventory buildable, every required cell has a control, every required field is on the screen,
  names follow the databases, typed numbers stay in range, the data directory follows the version. Handlers: a secret is stored once over any sequence of submissions, no cluster is
  requested without its secret, menus close on every path, the active project and used secrets are not
  removed, a log is polled until it is complete. State: a reload shows what was shown, saved switches rule
  the page. Tables: the columns are the fields the server sorts by. The theorems of kind \<open>error\<close> pin defects: the
  SSH password of the inventory, the environment lost on resubmission, the removal of a cluster
  reported as done when it was refused, the storage reset by the YAML tab, backups that depend on the
  way to a provider, no etcd group outside the expert mode, removed databases kept by hidden
  extensions, a secret of the wrong type, a required name that is not shown, a page of operations that
  misses what happens after it was opened, and a project that is called undefined. The library has the
  proofs of the smaller ones (standby nodes beyond the instances, a price that ignores the volume type, the
  sidebar and the data directory that forget the user's choice, a refused copy reported as done, a custom
  instance without a type, the YAML switch inside the proxy settings).

  Bounds. Only the parser of JSON has fuel, twice the length of its text and two more, and \<open>parse_denoted\<close> shows that it is
  enough for every text that denotes a value. All other recursion is structural, over lists and texts, or has a measure;
  \<open>settle\<close> runs two rounds of effects, and \<open>effects_settle\<close> shows that they are enough.
  Integers are unbounded, because the sources only count, index and compare; a number that is not a
  plain integer is kept as its text, and where such numbers are compared or multiplied the operation
  is a parameter. Strings are sequences of code units below 256, so
  \<open>btoa\<close> never fails here. Prototype properties and frozen objects are not modelled: an
  answer of the server is an object whose properties may be assigned.

  Not modelled: styles inside the views (the theme is), translations (a translated text is an opaque value made of its
  key and options), images, floating point (the loop of the marks of a slider takes its arithmetic as a
  parameter), the third-party libraries (React,
  RTK Query, yup, react-hook-form, lodash, js-yaml, date-fns, Material UI; each is a parameter where its
  results matter), the rest of the Go service (other handlers, the storage behind its interface, the docker manager and the
  watchers), and the playbooks. In the Go handlers logging is left out, and texts are sequences of code units below 256
  as in the console; the theorems on what the service reads assume ASCII texts where \<open>btoa\<close> and UTF-8 would differ.
\<close>

end
